(* ===== verification/Prelude.thy ===== *)
theory Prelude
  imports Main "HOL-Library.Word"
begin

text \<open>
  What every component shares: names for the fixed-width integers of the C++ code, the way a
  run of the program can stop (a failed assert, a call of ExitHandler::exit, a trap of the host
  processor), the result type of fallible operations with its bind, and generic facts about
  lists and words.
\<close>

unbundle bit_operations_syntax

section \<open>Integer types\<close>

type_synonym u8 = "8 word"
type_synonym u16 = "16 word"
type_synonym u32 = "32 word"
type_synonym u64 = "64 word"

section \<open>Ways a run can stop\<close>

datatype crash =
    AssertFail string      \<comment> \<open>assert(...) of the source is false\<close>
  | ExitCalled string      \<comment> \<open>ExitHandler::exit(1) after the message\<close>
  | ArithTrap              \<comment> \<open>integer division the host processor traps on\<close>
  | NullDeref              \<comment> \<open>a null pointer is dereferenced\<close>
  | Undefined string       \<comment> \<open>behaviour C leaves undefined\<close>
  | OutOfBounds            \<comment> \<open>an access outside the described storage\<close>
  | Thrown string          \<comment> \<open>a C++ exception that nothing catches\<close>

type_synonym 'a res = "crash + 'a"

definition rbind :: "'a res \<Rightarrow> ('a \<Rightarrow> 'b res) \<Rightarrow> 'b res" where
  "rbind r f = (case r of Inl e \<Rightarrow> Inl e | Inr a \<Rightarrow> f a)"

definition assert_c :: "bool \<Rightarrow> string \<Rightarrow> 'a res \<Rightarrow> 'a res" where
  "assert_c b msg k = (if b then k else Inl (AssertFail msg))"

lemma rbind_Inl [simp]: "rbind (Inl e) f = Inl e"
  by (simp add: rbind_def)

lemma rbind_Inr [simp]: "rbind (Inr a) f = f a"
  by (simp add: rbind_def)

lemma rbind_assoc: "rbind (rbind r f) g = rbind r (\<lambda>a. rbind (f a) g)"
  by (simp add: rbind_def split: sum.splits)

lemma rbind_eq_Inr: "rbind r f = Inr b \<longleftrightarrow> (\<exists>a. r = Inr a \<and> f a = Inr b)"
  by (simp add: rbind_def split: sum.splits)

lemma assert_c_True [simp]: "b \<Longrightarrow> assert_c b msg k = k"
  by (simp add: assert_c_def)

lemma assert_c_False [simp]: "\<not> b \<Longrightarrow> assert_c b msg k = Inl (AssertFail msg)"
  by (simp add: assert_c_def)

lemma assert_c_eq_Inr: "assert_c b msg k = Inr x \<longleftrightarrow> b \<and> k = Inr x"
  by (simp add: assert_c_def)

section \<open>Lists\<close>

text \<open>memcpy of a list of bytes into a buffer at an offset.\<close>

definition memcpy_at :: "'a list \<Rightarrow> nat \<Rightarrow> 'a list \<Rightarrow> 'a list" where
  "memcpy_at d off xs = take off d @ xs @ drop (off + length xs) d"

lemma length_memcpy_at [simp]:
  "off + length xs \<le> length d \<Longrightarrow> length (memcpy_at d off xs) = length d"
  by (simp add: memcpy_at_def)

lemma nth_memcpy_at:
  assumes "off + length xs \<le> length d" "j < length d"
  shows "memcpy_at d off xs ! j =
    (if off \<le> j \<and> j < off + length xs then xs ! (j - off) else d ! j)"
  using assms by (auto simp: memcpy_at_def nth_append min_def)

lemma upt_Suc_eq: "[0..<Suc n] = [0..<n] @ [n]"
  by simp

lemma map_upt_shift: "map f [0..<Suc n] = f 0 # map (\<lambda>i. f (Suc i)) [0..<n]"
  by (rule nth_equalityI) (auto simp: nth_Cons' simp del: upt_Suc)

section \<open>Modular index arithmetic\<close>

lemma mod_add_inj:
  fixes h i j c :: nat
  assumes "i < c" "j < c" "(h + i) mod c = (h + j) mod c"
  shows "i = j"
proof -
  have "(i + h) mod c = (j + h) mod c"
    using assms(3) by (simp add: add.commute)
  then have "int i mod int c = int j mod int c"
    by (metis add_diff_cancel_right' mod_diff_left_eq of_nat_add zmod_int)
  then show ?thesis
    using assms(1,2) by simp
qed

lemma mod_wrap:
  fixes a c :: nat
  assumes "a < 2 * c"
  shows "a mod c = (if a < c then a else a - c)"
proof (cases "a < c")
  case False
  then have "a mod c = (a - c) mod c" by (simp add: le_mod_geq)
  also have "\<dots> = a - c" using assms False by simp
  finally show ?thesis using False by simp
qed simp

end
