(* ===== verification/Lru.thy ===== *)
theory Lru
  imports Prelude
begin

text \<open>
  The replacement policy: LRUReplace of src/src/cache/replace/lru.cpp behind the interface Replace of
  src/inc/cache/replace/replace.h.  The interface states what a cache may rely on; the interpretation at
  the end shows that the list code keeps it.
\<close>

lemma nth_update: "xs[i := x] ! j = (if i = j \<and> i < length xs then x else xs ! j)"
  by (cases "i < length xs") (auto simp: nth_list_update list_update_beyond)

section \<open>LRUReplace\<close>

text \<open>
  The std::list of way numbers of each set.  lru_map holds for a set and a way the iterator of its list
  node; a node keeps its value while splice moves it, so the iterator is the element itself, and a way
  without a node (lru_map then yields a singular iterator) is Undefined.
\<close>

type_synonym lru = "nat list list"

definition move_back :: "nat \<Rightarrow> nat list \<Rightarrow> nat list" where
  "move_back x l = remove1 x l @ [x]"

definition move_front :: "nat \<Rightarrow> nat list \<Rightarrow> nat list" where
  "move_front x l = x # remove1 x l"

definition lru_insert :: "lru \<Rightarrow> nat \<Rightarrow> nat \<Rightarrow> lru res" where
  "lru_insert r s i =
    (if s < length r then
       if i \<in> set (r ! s) then Inr (r[s := move_back i (r ! s)]) else Inl (Undefined ''iterator'')
     else Inl OutOfBounds)"

definition lru_clear :: "lru \<Rightarrow> nat \<Rightarrow> nat \<Rightarrow> lru res" where
  "lru_clear r s i =
    (if s < length r then
       if i \<in> set (r ! s) then Inr (r[s := move_front i (r ! s)]) else Inl (Undefined ''iterator'')
     else Inl OutOfBounds)"

definition lru_get :: "lru \<Rightarrow> nat \<Rightarrow> (nat \<times> lru) res" where
  "lru_get r s =
    (if s < length r then
       case r ! s of [] \<Rightarrow> Inl (Undefined ''front of an empty list'')
       | i # l \<Rightarrow> Inr (i, r[s := l @ [i]])
     else Inl OutOfBounds)"

definition lru_setParams :: "lru \<Rightarrow> nat \<Rightarrow> nat \<Rightarrow> lru" where
  "lru_setParams r sets way =
    map (\<lambda>l. l @ [0..<way]) (take sets r @ replicate (sets - length r) [])"

section \<open>The interface Replace\<close>

text \<open>
  The contract between a cache and its policy.  inv holds for a policy that manages the given number of
  sets and ways: no call fails on an existing set and way, the way get returns exists, a way that was
  just used is not the next victim (when there is another one), a cleared way is the next victim, and
  the sets do not influence each other.
\<close>

locale replacement =
  fixes inv :: "nat \<Rightarrow> nat \<Rightarrow> 'r \<Rightarrow> bool"
    and ins :: "'r \<Rightarrow> nat \<Rightarrow> nat \<Rightarrow> 'r res" and clr :: "'r \<Rightarrow> nat \<Rightarrow> nat \<Rightarrow> 'r res"
    and victim :: "'r \<Rightarrow> nat \<Rightarrow> (nat \<times> 'r) res"
  assumes victim_ok: "inv n w r \<Longrightarrow> s < n \<Longrightarrow> 0 < w \<Longrightarrow> \<exists>i r'. victim r s = Inr (i, r') \<and> i < w \<and> inv n w r'"
    and ins_ok: "inv n w r \<Longrightarrow> s < n \<Longrightarrow> i < w \<Longrightarrow> \<exists>r'. ins r s i = Inr r' \<and> inv n w r'"
    and clr_ok: "inv n w r \<Longrightarrow> s < n \<Longrightarrow> i < w \<Longrightarrow> \<exists>r'. clr r s i = Inr r' \<and> inv n w r'"
    and ins_protects: "inv n w r \<Longrightarrow> 1 < w \<Longrightarrow> ins r s i = Inr r' \<Longrightarrow> victim r' s = Inr (j, r'') \<Longrightarrow> j \<noteq> i"
    and clr_exposes: "inv n w r \<Longrightarrow> clr r s i = Inr r' \<Longrightarrow> victim r' s = Inr (j, r'') \<Longrightarrow> j = i"
    and victim_local: "inv n w r \<Longrightarrow> victim r s = Inr (i, r') \<Longrightarrow> s \<noteq> t \<Longrightarrow> victim r t = Inr (j, r'') \<Longrightarrow>
      \<exists>r3. victim r' t = Inr (j, r3)"
begin

lemma victim_total: "inv n w r \<Longrightarrow> s < n \<Longrightarrow> 0 < w \<Longrightarrow> victim r s = Inr (i, r') \<Longrightarrow> i < w \<and> inv n w r'"
  using victim_ok [of n w r s] by fastforce

lemma used_then_victim:
  assumes "inv n w r" "s < n" "i < w" "1 < w"
  obtains r' j r'' where "ins r s i = Inr r'" "victim r' s = Inr (j, r'')" "j < w" "j \<noteq> i" "inv n w r''"
proof -
  obtain r' where r': "ins r s i = Inr r'" "inv n w r'" using ins_ok assms by blast
  then obtain j r'' where "victim r' s = Inr (j, r'')" "j < w" "inv n w r''"
    using victim_ok [of n w r' s] assms by auto
  then show ?thesis using that r' ins_protects assms by blast
qed

end

section \<open>The invariant\<close>

definition lru_inv :: "nat \<Rightarrow> nat \<Rightarrow> lru \<Rightarrow> bool" where
  "lru_inv n w r \<longleftrightarrow> length r = n \<and> list_all (\<lambda>l. distinct l \<and> set l = {0..<w}) r"

lemma lru_inv_nth: "lru_inv n w r \<Longrightarrow> s < n \<Longrightarrow> distinct (r ! s) \<and> set (r ! s) = {0..<w}"
  by (simp add: lru_inv_def list_all_length)

lemma lru_inv_update:
  "lru_inv n w r \<Longrightarrow> distinct l \<Longrightarrow> set l = {0..<w} \<Longrightarrow> lru_inv n w (r[s := l])"
  by (auto simp: lru_inv_def list_all_iff dest!: set_update_subset_insert [THEN subsetD])

lemma move_perm:
  assumes "x \<in> set l" "distinct l"
  shows "distinct (move_back x l)" "set (move_back x l) = set l"
    "distinct (move_front x l)" "set (move_front x l) = set l"
  using assms by (auto simp: move_back_def move_front_def)

lemma lru_setParams_inv: "lru_inv n w (lru_setParams [] n w)"
  by (simp add: lru_inv_def lru_setParams_def list_all_length)

interpretation lru: replacement lru_inv lru_insert lru_clear lru_get
proof (unfold_locales, goal_cases)
  case (1 n w r s)
  then obtain i l where l: "r ! s = i # l" using lru_inv_nth [of n w r s] by (cases "r ! s") auto
  have "distinct (i # l)" "set (i # l) = {0..<w}" using lru_inv_nth [OF 1(1,2)] by (simp_all only: l)
  moreover from this have "i < w" by (metis atLeastLessThan_iff list.set_intros(1))
  ultimately have "distinct (l @ [i])" "set (l @ [i]) = {0..<w}" "i < w" by auto
  then have "lru_inv n w (r[s := l @ [i]])" "i < w" using lru_inv_update [OF 1(1)] by blast+
  then show ?case using 1 l by (simp add: lru_get_def lru_inv_def)
next
  case (2 n w r s i)
  then have "i \<in> set (r ! s)" "s < length r" using lru_inv_nth [OF 2(1,2)] by (auto simp: lru_inv_def)
  then show ?case
    using lru_inv_update [OF 2(1)] lru_inv_nth [OF 2(1,2)] by (simp add: lru_insert_def move_perm)
next
  case (3 n w r s i)
  then have "i \<in> set (r ! s)" "s < length r" using lru_inv_nth [OF 3(1,2)] by (auto simp: lru_inv_def)
  then show ?case
    using lru_inv_update [OF 3(1)] lru_inv_nth [OF 3(1,2)] by (simp add: lru_clear_def move_perm)
next
  case (4 n w r s i r' j r'')
  then have s: "s < length r" and i: "i \<in> set (r ! s)" and r': "r' = r[s := move_back i (r ! s)]"
    by (auto simp: lru_insert_def split: if_splits)
  have d: "distinct (r ! s)" "set (r ! s) = {0..<w}" using lru_inv_nth [OF 4(1), of s] 4(1) s by (auto simp: lru_inv_def)
  then have "length (r ! s) = w" using distinct_card [of "r ! s"] by simp
  then obtain k l where kl: "remove1 i (r ! s) = k # l"
    using i 4(2) by (cases "remove1 i (r ! s)") (auto dest: arg_cong [of _ _ length] simp: length_remove1)
  have "i \<notin> set (remove1 i (r ! s))" using d by simp
  then show ?case using 4(4) s by (auto simp: lru_get_def r' move_back_def kl)
next
  case (5 n w r s i r' j r'')
  then show ?case by (auto simp: lru_clear_def lru_get_def move_front_def split: if_splits)
next
  case (6 n w r s i r' t j r'')
  then show ?case by (auto simp: lru_get_def split: if_splits list.splits)
qed

section \<open>Victims without hits are a round robin\<close>

fun victims :: "nat \<Rightarrow> lru \<Rightarrow> nat \<Rightarrow> (nat list \<times> lru) res" where
  "victims 0 r s = Inr ([], r)"
| "victims (Suc k) r s = rbind (lru_get r s) (\<lambda>(i, r). rbind (victims k r s) (\<lambda>(is, r). Inr (i # is, r)))"

lemma victims_rotate:
  assumes "s < length r" "k \<le> length (r ! s)"
  shows "victims k r s = Inr (take k (r ! s), r[s := drop k (r ! s) @ take k (r ! s)])"
  using assms
proof (induction k arbitrary: r)
  case (Suc k)
  then obtain i l where l: "r ! s = i # l" by (cases "r ! s") auto
  have "victims k (r[s := l @ [i]]) s = Inr (take k l, r[s := drop k l @ i # take k l])"
    using Suc by (subst Suc.IH) (simp_all add: l)
  then show ?case using Suc.prems by (simp add: lru_get_def l)
qed simp

lemma victims_all:
  assumes "lru_inv n w r" "s < n"
  shows "\<exists>is. victims w r s = Inr (is, r) \<and> distinct is \<and> set is = {0..<w}"
proof -
  have "length (r ! s) = w" using lru_inv_nth [OF assms] distinct_card [of "r ! s"] by simp
  then show ?thesis
    using lru_inv_nth [OF assms] assms victims_rotate [of s r w] by (simp add: lru_inv_def)
qed

end
