(* ===== verification/Cache.thy ===== *)
theory Cache
  imports Lru "HOL-Library.Log_Nat"
begin

text \<open>
  What all caches share: the tag array, the split of an address, and the match of a set, of
  src/src/cache/cache.cpp and src/inc/cache/cache.h.  Callbacks are numbered in the order setCallback
  registers them.
\<close>

section \<open>Data\<close>

datatype snoop_req_t = SNOOP_NONE | READ_ONCE | READ_SHARED | READ_CLEAN | READ_UNIQUE | MAKE_UNIQUE
  | CLEAN_SHARED | CLEAN_INVALID | CLEAN_UNIQUE | MAKE_INVALID | WRITE_UNIQUE | WRITE_CLEAN | WRITE_BACK
  | WRITE_EVICT

record cache_tagv =
  tag :: u64
  valid :: bool
  shared :: bool
  dirty :: bool

record cache_req =
  req :: snoop_req_t
  req_size :: u32
  req_id :: "nat \<Rightarrow> u16"
  addr :: u64

text \<open>The parameters of a cache and what afterLoad computes from them.\<close>

record geometry =
  line_size :: nat
  set_size :: nat
  way :: nat
  line_byte :: nat
  tag_offset :: nat
  index_offset :: nat
  set_mask :: u32
  line_mask :: u32

type_synonym tagvs = "cache_tagv list list"

section \<open>afterLoad\<close>

text \<open>
  The C library's log2 of a positive int, truncated when it is stored in the uint32_t; it is exact for
  powers of two.
\<close>

definition ilog2 :: "nat \<Rightarrow> nat" where "ilog2 n = floorlog 2 n - 1"

definition cache_geometry :: "nat \<Rightarrow> nat \<Rightarrow> nat \<Rightarrow> geometry" where
  "cache_geometry line sets ways =
     \<lparr> line_size = line, set_size = sets, way = ways, line_byte = line div 8,
       tag_offset = ilog2 (line * sets), index_offset = ilog2 line,
       set_mask = of_nat sets - 1, line_mask = of_nat line - 1 \<rparr>"

definition zero_tagv :: cache_tagv where
  "zero_tagv = \<lparr> tag = 0, valid = False, shared = False, dirty = False \<rparr>"

definition fresh_tagvs :: "geometry \<Rightarrow> tagvs" where
  "fresh_tagvs g = replicate (set_size g) (replicate (way g) zero_tagv)"

section \<open>splitAddr, getOffset, match\<close>

definition splitAddr :: "geometry \<Rightarrow> u64 \<Rightarrow> u64 \<times> u32 \<times> u32" where
  "splitAddr g a =
    (drop_bit (tag_offset g) a, ucast (drop_bit (index_offset g) a AND ucast (set_mask g)),
     ucast (a AND ucast (line_mask g)))"

definition getOffset :: "geometry \<Rightarrow> u64 \<Rightarrow> u32" where
  "getOffset g a = ucast (a AND ucast (line_mask g))"

text \<open>The index of the way, in place of the pointer to its tag; None is the null pointer.\<close>

fun match_ways :: "u64 \<Rightarrow> cache_tagv list \<Rightarrow> nat \<Rightarrow> nat option" where
  "match_ways t [] i = None"
| "match_ways t (e # es) i = (if valid e \<and> tag e = t then Some i else match_ways t es (Suc i))"

definition match :: "tagvs \<Rightarrow> u64 \<Rightarrow> nat \<Rightarrow> nat option" where
  "match T t s = match_ways t (T ! s) 0"

definition upd_tagv :: "tagvs \<Rightarrow> nat \<Rightarrow> nat \<Rightarrow> (cache_tagv \<Rightarrow> cache_tagv) \<Rightarrow> tagvs" where
  "upd_tagv T s w f = T[s := (T ! s)[w := f (T ! s ! w)]]"

text \<open>setCallback: the new callback's number, as a uint8_t, and the longer vector.\<close>

definition setCallback :: "'c list \<Rightarrow> 'c \<Rightarrow> u8 \<times> 'c list" where
  "setCallback cs c = (of_nat (length cs), cs @ [c])"

section \<open>Properties of the geometry\<close>

text \<open>A line of 2^l bytes and 2^s sets.\<close>

locale pow2_geometry =
  fixes l s ways :: nat
  assumes small: "l < 32" "s < 32" "l + s \<le> 64"
begin

lemma ilog2_pow: "ilog2 (2 ^ n) = n"
  using floorlog_power [of 1 2 n] by (simp add: ilog2_def floorlog_def)

lemma fields:
  "index_offset (cache_geometry (2 ^ l) (2 ^ s) ways) = l"
  "tag_offset (cache_geometry (2 ^ l) (2 ^ s) ways) = l + s"
  "ucast (set_mask (cache_geometry (2 ^ l) (2 ^ s) ways)) = (mask s :: u64)"
  "ucast (line_mask (cache_geometry (2 ^ l) (2 ^ s) ways)) = (mask l :: u64)"
proof -
  have m: "ucast (2 ^ n - 1 :: u32) = (mask n :: u64)" if "n < 32" for n
  proof -
    have "(2 ^ n - 1 :: u32) = mask n" by (simp add: mask_eq_exp_minus_1)
    then show ?thesis using that by (auto intro!: bit_word_eqI simp: bit_simps)
  qed
  show "index_offset (cache_geometry (2 ^ l) (2 ^ s) ways) = l"
    "tag_offset (cache_geometry (2 ^ l) (2 ^ s) ways) = l + s"
    by (simp_all add: cache_geometry_def ilog2_pow flip: power_add)
  show "ucast (set_mask (cache_geometry (2 ^ l) (2 ^ s) ways)) = (mask s :: u64)"
    "ucast (line_mask (cache_geometry (2 ^ l) (2 ^ s) ways)) = (mask l :: u64)"
    using m [OF small(1)] m [OF small(2)] by (simp_all add: cache_geometry_def)
qed

lemma split_parts:
  assumes "splitAddr (cache_geometry (2 ^ l) (2 ^ s) ways) a = (t, i, off)"
  shows "t = drop_bit (l + s) a" "unat i = unat (take_bit s (drop_bit l a))" "unat off = unat (take_bit l a)"
    "unat i < 2 ^ s" "unat off < 2 ^ l"
proof -
  have low: "unat (ucast (take_bit n v :: u64) :: u32) = unat (take_bit n v) \<and> unat (take_bit n v) < 2 ^ n"
    if "n < 32" for n and v :: u64
  proof -
    have le: "unat (take_bit n v) < 2 ^ n" by (simp add: unsigned_take_bit_eq)
    also have "(2 :: nat) ^ n \<le> 2 ^ 32" using that by (intro power_increasing) auto
    finally show ?thesis using le by (simp add: unsigned_ucast_eq take_bit_nat_eq_self)
  qed
  have p: "t = drop_bit (l + s) a" "i = ucast (take_bit s (drop_bit l a))" "off = ucast (take_bit l a)"
    using assms by (auto simp: splitAddr_def fields take_bit_eq_mask)
  show "t = drop_bit (l + s) a" by (rule p)
  show "unat i = unat (take_bit s (drop_bit l a))" "unat i < 2 ^ s"
    using low [OF small(2), of "drop_bit l a"] by (simp_all add: p)
  show "unat off = unat (take_bit l a)" "unat off < 2 ^ l"
    using low [OF small(1), of a] by (simp_all add: p)
qed

text \<open>The three parts give the address back.\<close>

lemma split_join:
  assumes "splitAddr (cache_geometry (2 ^ l) (2 ^ s) ways) a = (t, i, off)"
  shows "push_bit (l + s) t + push_bit l (of_nat (unat i)) + of_nat (unat off) = a"
proof -
  note p = split_parts [OF assms]
  have "push_bit s (drop_bit s (drop_bit l a)) + take_bit s (drop_bit l a) = drop_bit l a"
    by (rule bits_ident)
  moreover have "push_bit l (drop_bit l a) + take_bit l a = a" by (rule bits_ident)
  ultimately have "push_bit l (push_bit s (drop_bit (s + l) a) + take_bit s (drop_bit l a)) + take_bit l a = a"
    by (simp add: drop_bit_drop_bit)
  then show ?thesis
    by (simp add: p push_bit_add push_bit_push_bit ac_simps)
qed

lemma split_line:
  assumes "splitAddr (cache_geometry (2 ^ l) (2 ^ s) ways) a = (t, i, off)"
    "splitAddr (cache_geometry (2 ^ l) (2 ^ s) ways) b = (t', i', off')"
  shows "t = t' \<and> i = i' \<longleftrightarrow> drop_bit l a = drop_bit l b"
proof
  assume "t = t' \<and> i = i'"
  then have "drop_bit s (drop_bit l a) = drop_bit s (drop_bit l b)" "take_bit s (drop_bit l a) = take_bit s (drop_bit l b)"
    using split_parts(1,2) [OF assms(1)] split_parts(1,2) [OF assms(2)]
    by (simp_all add: drop_bit_drop_bit add.commute word_unat_eq_iff)
  then show "drop_bit l a = drop_bit l b" by (metis bits_ident)
next
  assume d: "drop_bit l a = drop_bit l b"
  have e: "drop_bit (l + s) x = drop_bit s (drop_bit l x)" for x :: u64
    by (simp add: drop_bit_drop_bit add.commute)
  have "drop_bit (l + s) a = drop_bit (l + s) b" unfolding e d ..
  moreover have "take_bit s (drop_bit l a) = take_bit s (drop_bit l b)" using d by simp
  ultimately show "t = t' \<and> i = i'"
    using split_parts(1,2) [OF assms(1)] split_parts(1,2) [OF assms(2)]
    by (simp add: word_unat_eq_iff)
qed

end

text \<open>The geometries of the default configuration: 64-byte lines, 64 sets.\<close>

interpretation l1: pow2_geometry 6 6 8
  by unfold_locales simp_all

section \<open>Properties of match\<close>

lemma match_ways_Some:
  "match_ways t es k = Some i \<Longrightarrow> \<exists>j < length es. i = k + j \<and> valid (es ! j) \<and> tag (es ! j) = t"
proof (induction es arbitrary: k)
  case (Cons e es)
  show ?case
  proof (cases "valid e \<and> tag e = t")
    case False
    then obtain j where "j < length es" "i = Suc k + j" "valid (es ! j)" "tag (es ! j) = t"
      using Cons.IH [of "Suc k"] Cons.prems by auto
    then show ?thesis by (intro exI [of _ "Suc j"]) simp
  qed (use Cons.prems in auto)
qed simp

lemma match_ways_None: "match_ways t es k = None \<longleftrightarrow> (\<forall>e \<in> set es. \<not> (valid e \<and> tag e = t))"
  by (induction es arbitrary: k) auto

lemma match_Some: "match T t s = Some i \<Longrightarrow> i < length (T ! s) \<and> valid (T ! s ! i) \<and> tag (T ! s ! i) = t"
  using match_ways_Some [of t "T ! s" 0 i] by (simp add: match_def)

lemma match_None: "match T t s = None \<longleftrightarrow> (\<forall>e \<in> set (T ! s). \<not> (valid e \<and> tag e = t))"
  by (simp add: match_def match_ways_None)

definition shaped :: "geometry \<Rightarrow> tagvs \<Rightarrow> bool" where
  "shaped g T \<longleftrightarrow> length T = set_size g \<and> (\<forall>s < set_size g. length (T ! s) = way g)"

lemma shaped_fresh: "shaped g (fresh_tagvs g)"
  by (simp add: shaped_def fresh_tagvs_def)

lemma shaped_upd [intro]: "shaped g T \<Longrightarrow> shaped g (upd_tagv T s w f)"
  by (auto simp: shaped_def upd_tagv_def nth_update)

lemma upd_tagv_same:
  "shaped g T \<Longrightarrow> s < set_size g \<Longrightarrow> w < way g \<Longrightarrow> upd_tagv T s w f ! s ! w = f (T ! s ! w)"
  by (simp add: shaped_def upd_tagv_def)

lemma upd_tagv_other:
  "s' \<noteq> s \<or> w' \<noteq> w \<Longrightarrow> upd_tagv T s w f ! s' ! w' = T ! s' ! w'"
  by (auto simp: upd_tagv_def nth_update)

text \<open>What the caches need of their geometry; afterLoad gives it for every positive number of sets and ways.\<close>

definition wf_geometry :: "geometry \<Rightarrow> bool" where
  "wf_geometry g \<longleftrightarrow> 0 < set_size g \<and> set_size g < 2 ^ 31 \<and> 0 < way g \<and> set_mask g = of_nat (set_size g) - 1"

lemma wf_cache_geometry: "0 < sets \<Longrightarrow> sets < 2 ^ 31 \<Longrightarrow> 0 < ways \<Longrightarrow> wf_geometry (cache_geometry line sets ways)"
  by (simp add: wf_geometry_def cache_geometry_def)

lemma split_set:
  assumes "wf_geometry g" "splitAddr g a = (t, i, off)"
  shows "unat i < set_size g"
proof -
  have "unat (of_nat (set_size g) :: u32) = set_size g" "0 < set_size g"
    using assms(1) by (simp_all add: wf_geometry_def unat_of_nat)
  then have m: "unat (set_mask g) = set_size g - 1"
    using assms(1) by (simp add: wf_geometry_def unat_sub_if')
  have "i = ucast (drop_bit (index_offset g) a AND ucast (set_mask g))"
    using assms(2) by (simp add: splitAddr_def)
  also have "\<dots> = ucast (drop_bit (index_offset g) a) AND set_mask g"
    by (rule bit_word_eqI) (auto simp: bit_simps)
  also have "\<dots> \<le> set_mask g" by (rule word_and_le1)
  finally show ?thesis using m \<open>0 < set_size g\<close> by (simp add: word_le_nat_alt)
qed

end
