(* ===== verification/Cache_Runs.thy ===== *)
theory Cache_Runs
  imports Cache
begin

text \<open>
  The two first-level caches answer the same events: their clock, the calls of the cpu (lookup, flush,
  redirect) and the answers of the parent.  The interface states what each event keeps; that no run
  crashes follows once for both.
\<close>

section \<open>The ports of a cache\<close>

text \<open>
  What a cache calls: callbacks[0] of the cpu, which gets the ids of the request and answers whether it
  called redirect of this cache, and lookup of the parent, which answers whether it takes the request
  and may change the request object.
\<close>

record ('c, 'p) port =
  callback0 :: "(nat \<Rightarrow> u16) \<Rightarrow> 'c \<Rightarrow> bool \<times> 'c"
  parent_lookup :: "cache_req \<Rightarrow> 'p \<Rightarrow> bool \<times> cache_req \<times> 'p"

text \<open>A cpu whose callback does not call redirect.\<close>

definition no_redirect :: "('c, 'p) port \<Rightarrow> bool" where
  "no_redirect e \<longleftrightarrow> (\<forall>i cl. \<not> fst (callback0 e i cl))"

type_synonym req_heap = "nat \<Rightarrow> cache_req"

section \<open>Events\<close>

datatype event = Tick req_heap | Lookup nat | Flush | Redirect | Fill

text \<open>The operations of a cache with state 'm, and whether it waits for its parent.\<close>

record ('m, 'c, 'p) cache_ops =
  tick_op :: "req_heap \<Rightarrow> 'm \<times> 'c \<times> 'p \<Rightarrow> ('m \<times> 'c \<times> 'p) res"
  lookup_op :: "nat \<Rightarrow> 'm \<Rightarrow> bool \<times> 'm"
  flush_op :: "'m \<Rightarrow> 'm"
  redirect_op :: "'m \<Rightarrow> 'm"
  fill_op :: "'m \<Rightarrow> 'c \<Rightarrow> ('m \<times> 'c) res"
  waits :: "'m \<Rightarrow> bool"

text \<open>The state carries the number of requests the parent has taken and not answered.\<close>

type_synonym ('m, 'c, 'p) system = "nat \<times> 'm \<times> 'c \<times> 'p"

fun occurs :: "('m, 'c, 'p) cache_ops \<Rightarrow> event \<Rightarrow> ('m, 'c, 'p) system \<Rightarrow> ('m, 'c, 'p) system res" where
  "occurs k (Tick h) (out, c, cl, p) = rbind (tick_op k h (c, cl, p)) (\<lambda>(c', cl, p).
     Inr (if \<not> waits k c \<and> waits k c' then out + 1 else out, c', cl, p))"
| "occurs k (Lookup r) (out, c, cl, p) = Inr (out, snd (lookup_op k r c), cl, p)"
| "occurs k Flush (out, c, cl, p) = Inr (out, flush_op k c, cl, p)"
| "occurs k Redirect (out, c, cl, p) = Inr (out, redirect_op k c, cl, p)"
| "occurs k Fill (out, c, cl, p) = rbind (fill_op k c cl) (\<lambda>(c, cl). Inr (out - 1, c, cl, p))"

text \<open>An answer comes only for a request that waits for one.\<close>

fun answered :: "event \<Rightarrow> ('m, 'c, 'p) system \<Rightarrow> bool" where
  "answered Fill s = (0 < fst s)"
| "answered _ s = True"

inductive run :: "('m, 'c, 'p) cache_ops \<Rightarrow> ('m, 'c, 'p) system \<Rightarrow> event list \<Rightarrow> ('m, 'c, 'p) system res \<Rightarrow> bool"
  for k where
  run_Nil: "run k s [] (Inr s)"
| run_Cons: "answered v s \<Longrightarrow> occurs k v s = Inr s1 \<Longrightarrow> run k s1 vs r \<Longrightarrow> run k s (v # vs) r"
| run_crash: "answered v s \<Longrightarrow> occurs k v s = Inl x \<Longrightarrow> run k s (v # vs) (Inl x)"

inductive_simps run_Nil_iff: "run k s [] r"

inductive_simps run_Cons_iff: "run k s (v # vs) r"

section \<open>The interface\<close>

locale cache_machine =
  fixes ops :: "('m, 'c, 'p) cache_ops" and inv :: "nat \<Rightarrow> 'm \<Rightarrow> bool"
  assumes tick_ok: "inv out c \<Longrightarrow> \<exists>c' cl' p'. tick_op ops h (c, cl, p) = Inr (c', cl', p') \<and>
      (inv out c' \<and> (waits ops c' \<longrightarrow> waits ops c) \<or> out = 0 \<and> \<not> waits ops c \<and> waits ops c' \<and> inv 1 c')"
    and lookup_ok: "inv out c \<Longrightarrow> inv out (snd (lookup_op ops r c))"
    and flush_ok: "inv out c \<Longrightarrow> inv out (flush_op ops c)"
    and redirect_ok: "inv out c \<Longrightarrow> inv out (redirect_op ops c)"
    and fill_ok: "inv 1 c \<Longrightarrow> \<exists>c' cl'. fill_op ops c cl = Inr (c', cl') \<and> inv 0 c'"
    and one_request: "inv out c \<Longrightarrow> out \<le> 1"
begin

lemma occurs_ok:
  assumes "inv out c" "answered v (out, c, cl, p)"
  shows "\<exists>out' c' cl' p'. occurs ops v (out, c, cl, p) = Inr (out', c', cl', p') \<and> inv out' c'"
proof (cases v)
  case (Tick h)
  show ?thesis using tick_ok [OF assms(1), of h cl p] by (auto simp: Tick)
next
  case Fill
  then have "out = 1" using assms one_request [OF assms(1)] by simp
  then show ?thesis using fill_ok [of c cl] assms(1) by (auto simp: Fill)
qed (use assms lookup_ok flush_ok redirect_ok in auto)

text \<open>No run crashes, and the parent never has more than one request.\<close>

lemma run_ok:
  "run ops s vs r \<Longrightarrow> inv (fst s) (fst (snd s)) \<Longrightarrow> \<exists>out c cl p. r = Inr (out, c, cl, p) \<and> inv out c \<and> out \<le> 1"
proof (induction rule: run.induct)
  case (run_Nil s)
  then show ?case using one_request by (cases s) auto
next
  case (run_Cons v s s1 vs r)
  then show ?case using occurs_ok [of "fst s" "fst (snd s)" v "fst (snd (snd s))" "snd (snd (snd s))"] by auto
next
  case (run_crash v s x vs)
  then show ?case using occurs_ok [of "fst s" "fst (snd s)" v "fst (snd (snd s))" "snd (snd (snd s))"] by auto
qed

end

end
