(* ===== verification/ICache.thy ===== *)
theory ICache
  imports Cache_Runs
begin

text \<open>
  The instruction cache, src/src/cache/icache.cpp: the state machine of tick, the callback registered
  with the parent, lookup, flush and redirect.  The requests of the cpu are objects the cache keeps a
  pointer to; they are read through a map from addresses to requests when the machine gets to them.
\<close>

section \<open>State\<close>

datatype state_t = IDLE | LOOKUP | MISS | REFILL

record icache =
  geom :: geometry
  tagvs :: tagvs
  replace :: lru
  cstate :: state_t
  matched :: bool
  lookup_set :: u32
  lookup_tag :: u64
  replace_way :: nat
  idle_req :: nat
  idle_req_valid :: bool
  lookup_req :: cache_req
  req_clear_wait :: bool
  current_id :: u16
  flush_valid :: bool
  flush_num :: u16
  flush_set :: u32
  in_callback :: bool

text \<open>The object after afterLoad; the members without an initialiser are taken from u.\<close>

definition icache_afterLoad :: "nat \<Rightarrow> nat \<Rightarrow> nat \<Rightarrow> icache \<Rightarrow> icache" where
  "icache_afterLoad line sets ways u =
     u\<lparr> geom := cache_geometry line sets ways,
        tagvs := fresh_tagvs (cache_geometry line sets ways), replace := lru_setParams [] sets ways,
        cstate := IDLE, matched := False, req_clear_wait := False, current_id := 0, flush_valid := False,
        in_callback := False,
        lookup_req := (lookup_req u)\<lparr> req := READ_SHARED, req_size := of_nat line,
          req_id := (req_id (lookup_req u))(1 := 0) \<rparr> \<rparr>"

section \<open>lookup, flush, redirect\<close>

definition icache_lookup :: "nat \<Rightarrow> icache \<Rightarrow> bool \<times> icache" where
  "icache_lookup r c =
    (if \<not> flush_valid c \<and> (cstate c = IDLE \<or> cstate c = LOOKUP \<and> matched c)
     then (True, c\<lparr> idle_req := r, idle_req_valid := True \<rparr>) else (False, c))"

definition icache_flush :: "icache \<Rightarrow> icache" where
  "icache_flush c = c\<lparr> flush_set := 0, flush_num := of_nat (set_size (geom c)), flush_valid := True \<rparr>"

definition icache_redirect :: "icache \<Rightarrow> icache" where
  "icache_redirect c =
    (let c = c\<lparr> idle_req_valid := False \<rparr>;
         c = (if cstate c = MISS \<or> cstate c = REFILL \<and> \<not> in_callback c then c\<lparr> req_clear_wait := True \<rparr> else c)
     in c\<lparr> cstate := IDLE \<rparr>)"

section \<open>The calls of the cpu's callback\<close>

definition call_client :: "('c, 'p) port \<Rightarrow> icache \<Rightarrow> 'c \<Rightarrow> icache \<times> 'c" where
  "call_client e c cl =
    (let (r, cl) = callback0 e (req_id (lookup_req c)) cl
     in (if r then icache_redirect c else c, cl))"

definition handleIdleReq :: "('c, 'p) port \<Rightarrow> req_heap \<Rightarrow> icache \<Rightarrow> 'c \<Rightarrow> (icache \<times> 'c) res" where
  "handleIdleReq e h c cl =
    (let q = h (idle_req c);
         c = c\<lparr> lookup_req := (lookup_req c)\<lparr> addr := addr q,
               req_id := (req_id (lookup_req c))(0 := req_id q 0) \<rparr>, idle_req_valid := False \<rparr>;
         (t, s, offset) = splitAddr (geom c) (addr (lookup_req c));
         c = c\<lparr> lookup_tag := t, lookup_set := s \<rparr>
     in if unat s < length (tagvs c)
        then let c = c\<lparr> matched := match (tagvs c) t (unat s) \<noteq> None \<rparr>
             in Inr (if matched c then call_client e c cl else (c, cl))
        else Inl OutOfBounds)"

text \<open>The callback registered with the parent in afterLoad.\<close>

definition icache_fill :: "('c, 'p) port \<Rightarrow> icache \<Rightarrow> 'c \<Rightarrow> (icache \<times> 'c) res" where
  "icache_fill e c cl =
    (let c = c\<lparr> in_callback := True \<rparr>; s = unat (lookup_set c) in
     if s < length (tagvs c) \<and> replace_way c < length (tagvs c ! s)
     then
       let c = c\<lparr> tagvs := upd_tagv (tagvs c) s (replace_way c) (\<lambda>v. v\<lparr> tag := lookup_tag c, valid := True \<rparr>) \<rparr>;
           (c, cl) = (if req_clear_wait c then (c\<lparr> req_clear_wait := False \<rparr>, cl)
                      else call_client e (c\<lparr> cstate := REFILL \<rparr>) cl)
       in Inr (c\<lparr> in_callback := False \<rparr>, cl)
     else Inl OutOfBounds)"

section \<open>tick\<close>

text \<open>One step of a flush: the lines of one set.\<close>

definition flush_step :: "icache \<Rightarrow> icache res" where
  "flush_step c =
    (let c = c\<lparr> flush_num := flush_num c - 1 \<rparr>; s = unat (flush_set c) in
     if s < length (tagvs c)
     then
       let c = c\<lparr> tagvs := (tagvs c)[s := map (\<lambda>v. v\<lparr> valid := False \<rparr>) (tagvs c ! s)],
                  flush_set := (flush_set c + 1) mod of_nat (set_size (geom c)) \<rparr>
       in Inr (if flush_num c = 0 then c\<lparr> flush_valid := False \<rparr> else c)
     else Inl OutOfBounds)"

definition send_miss :: "('c, 'p) port \<Rightarrow> icache \<Rightarrow> 'p \<Rightarrow> (icache \<times> 'p) res" where
  "send_miss e c p =
    (let c = c\<lparr> lookup_req := (lookup_req c)\<lparr> req_id := (req_id (lookup_req c))(1 := current_id c) \<rparr> \<rparr> in
     if req_clear_wait c then Inr (c, p)
     else
       let (success, q, p) = parent_lookup e (lookup_req c) p; c = c\<lparr> lookup_req := q \<rparr> in
       if success
       then rbind (lru_get (replace c) (unat (lookup_set c))) (\<lambda>(w, r).
              Inr (c\<lparr> replace_way := w, replace := r, cstate := MISS, current_id := current_id c + 1 \<rparr>, p))
       else Inr (c, p))"

definition icache_tick :: "('c, 'p) port \<Rightarrow> req_heap \<Rightarrow> icache \<times> 'c \<times> 'p \<Rightarrow> (icache \<times> 'c \<times> 'p) res" where
  "icache_tick e h w = (case w of (c, cl, p) \<Rightarrow>
     if flush_valid c then rbind (flush_step c) (\<lambda>c. Inr (c, cl, p))
     else case cstate c of
       IDLE \<Rightarrow>
         if idle_req_valid c
         then rbind (handleIdleReq e h c cl) (\<lambda>(c, cl). Inr (c\<lparr> cstate := LOOKUP \<rparr>, cl, p))
         else Inr w
     | LOOKUP \<Rightarrow>
         if \<not> matched c then rbind (send_miss e c p) (\<lambda>(c, p). Inr (c, cl, p))
         else if idle_req_valid c then rbind (handleIdleReq e h c cl) (\<lambda>(c, cl). Inr (c, cl, p))
         else Inr (c\<lparr> cstate := IDLE \<rparr>, cl, p)
     | MISS \<Rightarrow> Inr w
     | REFILL \<Rightarrow> Inr (c\<lparr> cstate := IDLE, idle_req_valid := False \<rparr>, cl, p))"

section \<open>The invariant\<close>

text \<open>
  out counts the requests the parent has taken and not answered.  The tag array and the policy keep
  their shape, the indices the next accesses use are in range, and there is never more than one
  outstanding request: one exists only in MISS or while its answer is to be dropped.
\<close>

definition icache_inv :: "nat \<Rightarrow> icache \<Rightarrow> bool" where
  "icache_inv out c \<longleftrightarrow>
     wf_geometry (geom c) \<and> shaped (geom c) (tagvs c) \<and> lru_inv (set_size (geom c)) (way (geom c)) (replace c) \<and>
     (cstate c \<noteq> IDLE \<or> 0 < out \<longrightarrow> unat (lookup_set c) < set_size (geom c)) \<and>
     (flush_valid c \<longrightarrow> unat (flush_set c) < set_size (geom c)) \<and>
     (0 < out \<longrightarrow> replace_way c < way (geom c)) \<and> out \<le> 1 \<and>
     (cstate c = MISS \<longrightarrow> out = 1 \<and> \<not> req_clear_wait c) \<and>
     (out = 1 \<longrightarrow> cstate c = MISS \<or> req_clear_wait c)"

lemma icache_afterLoad_inv:
  "0 < sets \<Longrightarrow> sets < 2 ^ 31 \<Longrightarrow> 0 < ways \<Longrightarrow> icache_inv 0 (icache_afterLoad line sets ways u)"
  using lru_setParams_inv [of sets ways] wf_cache_geometry [of sets ways line] shaped_fresh
  by (simp add: icache_inv_def icache_afterLoad_def) (simp add: cache_geometry_def)

lemma icache_lookup_inv: "icache_inv out c \<Longrightarrow> icache_lookup r c = (b, c') \<Longrightarrow> icache_inv out c'"
  by (auto simp: icache_lookup_def icache_inv_def split: if_splits)

lemma icache_flush_inv: "icache_inv out c \<Longrightarrow> icache_inv out (icache_flush c)"
  by (auto simp: icache_flush_def icache_inv_def wf_geometry_def)

lemma icache_redirect_inv: "icache_inv out c \<Longrightarrow> icache_inv out (icache_redirect c)"
  by (auto simp: icache_redirect_def icache_inv_def Let_def)

lemma call_client_inv: "icache_inv out c \<Longrightarrow> icache_inv out (fst (call_client e c cl))"
  by (auto simp: call_client_def icache_redirect_inv split: prod.splits)

lemma call_client_frame:
  "call_client e c cl = (c', cl') \<Longrightarrow> tagvs c' = tagvs c \<and> lookup_set c' = lookup_set c \<and> lookup_tag c' = lookup_tag c \<and>
     geom c' = geom c \<and> matched c' = matched c \<and> flush_valid c' = flush_valid c \<and> replace c' = replace c"
  by (auto simp: call_client_def icache_redirect_def Let_def split: prod.splits if_splits)

text \<open>The moment of a lookup: the machine goes to LOOKUP with the set of the new request.\<close>

lemma handleIdleReq_inv:
  assumes "icache_inv out c" "cstate c = IDLE \<or> cstate c = LOOKUP"
  shows "\<exists>c' cl'. handleIdleReq e h c cl = Inr (c', cl') \<and> icache_inv out c' \<and>
    icache_inv out (c'\<lparr> cstate := LOOKUP \<rparr>) \<and> cstate c' \<noteq> MISS"
proof -
  obtain t s off where sp: "splitAddr (geom c) (addr (h (idle_req c))) = (t, s, off)"
    by (cases "splitAddr (geom c) (addr (h (idle_req c)))") auto
  then have s: "unat s < set_size (geom c)" using split_set assms(1) by (auto simp: icache_inv_def)
  let ?m = "match (tagvs c) t (unat s) \<noteq> None"
  let ?c = "c\<lparr> lookup_req := (lookup_req c)\<lparr> addr := addr (h (idle_req c)),
      req_id := (req_id (lookup_req c))(0 := req_id (h (idle_req c)) 0) \<rparr>, idle_req_valid := False,
      lookup_tag := t, lookup_set := s, matched := ?m \<rparr>"
  have l: "unat s < length (tagvs c)" using s assms(1) by (simp add: icache_inv_def shaped_def)
  have inv: "icache_inv out ?c" "icache_inv out (?c\<lparr> cstate := LOOKUP \<rparr>)"
    using assms s by (auto simp: icache_inv_def)
  have r: "handleIdleReq e h c cl = Inr (if ?m then call_client e ?c cl else (?c, cl))"
    using l sp by (simp add: handleIdleReq_def Let_def)
  obtain c' cl' where c': "call_client e ?c cl = (c', cl')" by fastforce
  have st: "icache_inv out (icache_redirect ?c)" using inv by (rule_tac icache_redirect_inv) simp
  have "c' = ?c \<or> c' = icache_redirect ?c"
    using c' unfolding call_client_def by (simp add: Let_def split: prod.splits if_splits)
  moreover have "icache_inv out ((icache_redirect ?c)\<lparr> cstate := LOOKUP \<rparr>)"
    using inv(2) assms(2) by (auto simp: icache_inv_def icache_redirect_def Let_def)
  moreover have "cstate ?c \<noteq> MISS" "cstate (icache_redirect ?c) \<noteq> MISS"
    using assms(2) by (auto simp: icache_redirect_def Let_def)
  ultimately show ?thesis using r c' inv st by auto
qed

lemma icache_fill_inv:
  assumes "icache_inv 1 c"
  shows "\<exists>c' cl'. icache_fill e c cl = Inr (c', cl') \<and> icache_inv 0 c'"
proof -
  let ?s = "unat (lookup_set c)"
  have b: "?s < length (tagvs c)" "replace_way c < length (tagvs c ! ?s)"
    using assms by (auto simp: icache_inv_def shaped_def)
  let ?c = "c\<lparr> in_callback := True,
     tagvs := upd_tagv (tagvs c) ?s (replace_way c) (\<lambda>v. v\<lparr> tag := lookup_tag c, valid := True \<rparr>) \<rparr>"
  have r: "icache_fill e c cl = (let (c, cl) = (if req_clear_wait c then (?c\<lparr> req_clear_wait := False \<rparr>, cl)
      else call_client e (?c\<lparr> cstate := REFILL \<rparr>) cl) in Inr (c\<lparr> in_callback := False \<rparr>, cl))"
    using b by (simp add: icache_fill_def Let_def)
  have sh: "shaped (geom c) (upd_tagv (tagvs c) ?s (replace_way c) (\<lambda>v. v\<lparr> tag := lookup_tag c, valid := True \<rparr>))"
    using assms by (auto simp: icache_inv_def)
  have i: "icache_inv 0 (if req_clear_wait c then ?c\<lparr> req_clear_wait := False \<rparr> else ?c\<lparr> cstate := REFILL \<rparr>)"
    using assms sh by (auto simp: icache_inv_def)
  show ?thesis
  proof (cases "req_clear_wait c")
    case True
    then show ?thesis using i by (simp add: r) (simp add: icache_inv_def)
  next
    case False
    obtain c' cl' where cc: "call_client e (?c\<lparr> cstate := REFILL \<rparr>) cl = (c', cl')" by fastforce
    have "icache_inv 0 c'" using i False call_client_inv [of 0 "?c\<lparr> cstate := REFILL \<rparr>" e cl] cc by simp
    then show ?thesis using False cc by (simp add: r) (simp add: icache_inv_def)
  qed
qed

lemma flush_step_inv:
  assumes "icache_inv out c" "flush_valid c"
  shows "\<exists>c'. flush_step c = Inr c' \<and> icache_inv out c' \<and> cstate c' = cstate c"
proof -
  have s: "unat (flush_set c) < length (tagvs c)" and g: "wf_geometry (geom c)"
    using assms by (auto simp: icache_inv_def shaped_def)
  have n: "unat (of_nat (set_size (geom c)) :: u32) = set_size (geom c)"
    using g by (simp add: wf_geometry_def unat_of_nat)
  have "unat ((flush_set c + 1) mod of_nat (set_size (geom c))) < set_size (geom c)"
    using g by (simp add: unat_mod n wf_geometry_def)
  moreover have "shaped (geom c) ((tagvs c)[unat (flush_set c) := map (valid_update (\<lambda>_. False)) (tagvs c ! unat (flush_set c))])"
    using assms by (auto simp: icache_inv_def shaped_def nth_update)
  ultimately show ?thesis
    using assms s by (auto simp: flush_step_def Let_def icache_inv_def)
qed

lemma send_miss_inv:
  assumes "icache_inv out c" "cstate c = LOOKUP"
  shows "\<exists>c' p'. send_miss e c p = Inr (c', p') \<and>
    (cstate c' = LOOKUP \<and> icache_inv out c' \<or> out = 0 \<and> cstate c' = MISS \<and> icache_inv 1 c')"
proof (cases "req_clear_wait c")
  case False
  let ?c = "c\<lparr> lookup_req := (lookup_req c)\<lparr> req_id := (req_id (lookup_req c))(1 := current_id c) \<rparr> \<rparr>"
  obtain b q p' where pl: "parent_lookup e (lookup_req ?c) p = (b, q, p')" by (metis prod.exhaust)
  obtain w r where v: "lru_get (replace c) (unat (lookup_set c)) = Inr (w, r)" "w < way (geom c)"
      "lru_inv (set_size (geom c)) (way (geom c)) r"
    using lru.victim_ok [of "set_size (geom c)" "way (geom c)" "replace c" "unat (lookup_set c)"] assms
    by (auto simp: icache_inv_def wf_geometry_def)
  show ?thesis
    using assms False v pl by (cases b) (auto simp: send_miss_def Let_def icache_inv_def)
qed (use assms in \<open>auto simp: send_miss_def Let_def icache_inv_def\<close>)

text \<open>tick never goes outside its arrays, and takes out one more request only from none.\<close>

lemma icache_tick_inv:
  assumes "icache_inv out c"
  shows "\<exists>c' cl' p'. icache_tick e h (c, cl, p) = Inr (c', cl', p') \<and>
    (icache_inv out c' \<and> (cstate c' = MISS \<longrightarrow> cstate c = MISS) \<or> out = 0 \<and> cstate c = LOOKUP \<and> cstate c' = MISS \<and> icache_inv 1 c')"
proof (cases "flush_valid c")
  case True
  then show ?thesis using flush_step_inv [OF assms] by (auto simp: icache_tick_def)
next
  case False
  show ?thesis
  proof (cases "cstate c")
    case IDLE
    then show ?thesis
      using False assms handleIdleReq_inv [OF assms, of e h cl] by (auto simp: icache_tick_def)
  next
    case LOOKUP
    show ?thesis
      using send_miss_inv [OF assms LOOKUP, of e p] handleIdleReq_inv [OF assms, of e h cl] assms
      by (auto simp: icache_tick_def LOOKUP False) (auto simp: icache_inv_def LOOKUP)
  next
    case MISS
    then show ?thesis using False assms by (simp add: icache_tick_def)
  next
    case REFILL
    then have "icache_inv out (c\<lparr> cstate := IDLE, idle_req_valid := False \<rparr>)"
      using assms by (auto simp: icache_inv_def)
    then show ?thesis using False REFILL by (simp add: icache_tick_def)
  qed
qed

section \<open>The instruction cache is a cache\<close>

definition icache_ops :: "('c, 'p) port \<Rightarrow> (icache, 'c, 'p) cache_ops" where
  "icache_ops e = \<lparr> tick_op = icache_tick e, lookup_op = icache_lookup, flush_op = icache_flush,
     redirect_op = icache_redirect, fill_op = icache_fill e, waits = (\<lambda>c. cstate c = MISS) \<rparr>"

interpretation ic: cache_machine "icache_ops e" icache_inv for e :: "('c, 'p) port"
proof (unfold_locales, goal_cases)
  case (1 out c h cl p)
  then show ?case using icache_tick_inv [OF 1, of e h cl p] by (fastforce simp: icache_ops_def)
next
  case (2 out c r)
  then show ?case by (simp add: icache_ops_def icache_lookup_inv [OF 2 prod.collapse [symmetric]])
next
  case (5 c cl)
  then show ?case using icache_fill_inv [of c e cl] by (simp add: icache_ops_def)
next
  case (6 out c)
  then show ?case by (simp add: icache_inv_def)
qed (simp_all add: icache_ops_def icache_flush_inv icache_redirect_inv)

end
