(* ===== verification/ICache_Props.thy ===== *)
theory ICache_Props
  imports ICache
begin

text \<open>
  Properties of the instruction cache over its runs: no sequence of events takes it outside its arrays or
  to a second outstanding request, hits and fills, what a flush leaves, and two ways redirect can go wrong.
\<close>

section \<open>Hits, misses, fills\<close>

text \<open>The line of an address is in the tag array.\<close>

definition present :: "icache \<Rightarrow> u64 \<Rightarrow> bool" where
  "present c a = (case splitAddr (geom c) a of (t, s, off) \<Rightarrow> match (tagvs c) t (unat s) \<noteq> None)"

lemma call_client_plain [simp]:
  "no_redirect e \<Longrightarrow> call_client e c cl = (c, snd (callback0 e (req_id (lookup_req c)) cl))"
  by (simp add: call_client_def no_redirect_def case_prod_beta)

text \<open>A request that is accepted in IDLE: the next tick calls the cpu exactly when the line is there.\<close>

lemma lookup_then_tick:
  fixes e :: "('c, 'p) port"
  assumes "icache_inv out c" "\<not> flush_valid c" "cstate c = IDLE" "no_redirect e"
    and "icache_lookup r c = (b, c1)"
  obtains c2 where
    "icache_tick e h (c1, cl, p) = Inr (c2, if present c (addr (h r))
       then snd (callback0 e ((req_id (lookup_req c))(0 := req_id (h r) 0)) cl) else cl, p)"
    "cstate c2 = LOOKUP" "matched c2 \<longleftrightarrow> present c (addr (h r))" "tagvs c2 = tagvs c" "\<not> idle_req_valid c2" b
proof -
  obtain t s off where sp: "splitAddr (geom c) (addr (h r)) = (t, s, off)"
    by (cases "splitAddr (geom c) (addr (h r))") auto
  then have l: "unat s < length (tagvs c)"
    using split_set assms(1) by (auto simp: icache_inv_def shaped_def)
  have c1: "c1 = c\<lparr> idle_req := r, idle_req_valid := True \<rparr>" "b"
    using assms(2,3,5) by (auto simp: icache_lookup_def)
  let ?m = "match (tagvs c) t (unat s) \<noteq> None"
  let ?c2 = "c\<lparr> idle_req := r, lookup_req := (lookup_req c)\<lparr> addr := addr (h r),
      req_id := (req_id (lookup_req c))(0 := req_id (h r) 0) \<rparr>, idle_req_valid := False,
      lookup_tag := t, lookup_set := s, matched := ?m, cstate := LOOKUP \<rparr>"
  show ?thesis
    using assms(2-4) sp l c1
    by (intro that [of ?c2])
      (auto simp: icache_tick_def handleIdleReq_def present_def Let_def)
qed

text \<open>After a fill that is not dropped the line of the lookup is there.\<close>

lemma fill_present:
  assumes "icache_inv 1 c" "icache_fill e c cl = Inr (c', cl')"
  shows "match (tagvs c') (lookup_tag c) (unat (lookup_set c)) \<noteq> None"
proof -
  let ?s = "unat (lookup_set c)"
  let ?T = "upd_tagv (tagvs c) ?s (replace_way c) (\<lambda>v. v\<lparr> tag := lookup_tag c, valid := True \<rparr>)"
  have b: "?s < set_size (geom c)" "replace_way c < way (geom c)" "shaped (geom c) (tagvs c)"
    using assms(1) by (auto simp: icache_inv_def)
  then have "?T ! ?s ! replace_way c = (tagvs c ! ?s ! replace_way c)\<lparr> tag := lookup_tag c, valid := True \<rparr>"
    by (intro upd_tagv_same)
  moreover have "replace_way c < length (?T ! ?s)"
    using b shaped_upd [OF b(3), of ?s "replace_way c"] by (simp add: shaped_def)
  ultimately have "\<exists>v \<in> set (?T ! ?s). valid v \<and> tag v = lookup_tag c"
    by (intro bexI [of _ "?T ! ?s ! replace_way c"]) (simp, rule nth_mem)
  moreover have "tagvs c' = ?T"
    using assms(2) by (auto simp: icache_fill_def Let_def split: if_splits prod.splits dest!: call_client_frame)
  ultimately show ?thesis by (auto simp: match_None)
qed

text \<open>
  A redirect during a miss lets the next lookup change lookup_tag and lookup_set while the answer is
  still to come: the answer is dropped for the cpu, but it is entered under the tag of the newer lookup.
\<close>

lemma late_fill:
  assumes "icache_inv 1 c" "cstate c = MISS" "\<not> flush_valid c" "no_redirect e"
    and "icache_lookup r (icache_redirect c) = (b, c1)" "icache_tick e h (c1, cl, p) = Inr (c2, cl2, p2)"
    and "icache_fill e c2 cl2 = Inr (c3, cl3)"
  shows "present c3 (addr (h r))" "cl3 = cl2"
proof -
  let ?c = "icache_redirect c"
  have r: "icache_inv 1 ?c" "\<not> flush_valid ?c" "cstate ?c = IDLE" "req_clear_wait ?c"
    using assms(1-3) icache_redirect_inv [OF assms(1)] by (simp, simp_all add: icache_redirect_def Let_def)
  obtain t s off where sp: "splitAddr (geom c) (addr (h r)) = (t, s, off)"
    by (cases "splitAddr (geom c) (addr (h r))") auto
  then have l: "unat s < length (tagvs c)"
    using split_set assms(1) by (auto simp: icache_inv_def shaped_def)
  have c1: "c1 = ?c\<lparr> idle_req := r, idle_req_valid := True \<rparr>"
    using r(2,3) assms(5) by (auto simp: icache_lookup_def)
  have g: "geom ?c = geom c" "tagvs ?c = tagvs c" by (simp_all add: icache_redirect_def Let_def)
  have 2: "lookup_tag c2 = t" "lookup_set c2 = s" "geom c2 = geom c" "req_clear_wait c2"
    using assms(4,6) r(2-4) sp l g
    by (auto simp: c1 icache_tick_def handleIdleReq_def Let_def rbind_eq_Inr split: prod.splits if_splits)
  have "icache_inv 1 c1" using r(1) by (simp add: c1 icache_inv_def)
  then have i2: "icache_inv 1 c2" using icache_tick_inv [of 1 c1 e h cl p] assms(6) by auto
  have "geom c3 = geom c2" "cl3 = cl2"
    using assms(7) 2(4) by (auto simp: icache_fill_def Let_def split: if_splits)
  then show "present c3 (addr (h r))" "cl3 = cl2"
    using fill_present [OF i2 assms(7)] sp by (simp_all add: present_def 2)
qed

text \<open>
  A redirect in REFILL, which a flush holds the machine in, marks an answer as to be dropped although
  none is coming: the next miss is never sent to the parent, and the cache accepts nothing any more.
\<close>

definition stuck :: "icache \<Rightarrow> bool" where
  "stuck c \<longleftrightarrow> cstate c = LOOKUP \<and> \<not> matched c \<and> req_clear_wait c \<and> \<not> flush_valid c"

lemma stuck_tick:
  assumes "stuck c" "icache_tick e h (c, cl, p) = Inr (c', cl', p')"
  shows "stuck c' \<and> cl' = cl \<and> p' = p"
  using assms by (auto simp: stuck_def icache_tick_def send_miss_def Let_def)

lemma stuck_lookup: "stuck c \<Longrightarrow> icache_lookup r c = (False, c)"
  by (simp add: stuck_def icache_lookup_def)

fun is_clock :: "event \<Rightarrow> bool" where
  "is_clock (Tick h) = True" | "is_clock (Lookup r) = True" | "is_clock _ = False"

lemma stuck_run:
  "run (icache_ops e) s vs r \<Longrightarrow> stuck (fst (snd s)) \<Longrightarrow> list_all is_clock vs \<Longrightarrow> r = Inr s' \<Longrightarrow>
   stuck (fst (snd s')) \<and> snd (snd s') = snd (snd s) \<and> fst s' = fst s"
proof (induction rule: run.induct)
  case (run_Cons v s s1 vs r)
  obtain out c cl p where s: "s = (out, c, cl, p)" by (cases s)
  have c: "stuck c" using run_Cons.prems(1) by (simp add: s)
  have "stuck (fst (snd s1)) \<and> snd (snd s1) = snd (snd s) \<and> fst s1 = fst s"
  proof (cases v)
    case (Tick h)
    then obtain c' cl' p' where t: "icache_tick e h (c, cl, p) = Inr (c', cl', p')"
      "s1 = (if cstate c \<noteq> MISS \<and> cstate c' = MISS then out + 1 else out, c', cl', p')"
      using run_Cons.hyps(2) by (auto simp: s icache_ops_def rbind_eq_Inr)
    show ?thesis using stuck_tick [OF c t(1)] by (simp add: t(2) s stuck_def)
  next
    case (Lookup r)
    then show ?thesis using run_Cons.hyps(2) c by (auto simp: s icache_ops_def stuck_lookup)
  qed (use run_Cons.prems(2) in auto)
  then show ?case using run_Cons by auto
qed auto

section \<open>Flush\<close>

fun ticks :: "('c, 'p) port \<Rightarrow> req_heap list \<Rightarrow> icache \<times> 'c \<times> 'p \<Rightarrow> (icache \<times> 'c \<times> 'p) res" where
  "ticks e [] w = Inr w"
| "ticks e (h # hs) w = rbind (icache_tick e h w) (ticks e hs)"

definition set_invalid :: "icache \<Rightarrow> nat \<Rightarrow> bool" where
  "set_invalid c s \<longleftrightarrow> (\<forall>v \<in> set (tagvs c ! s). \<not> valid v)"

text \<open>A flush that has k sets left to do.\<close>

definition flushing :: "nat \<Rightarrow> icache \<Rightarrow> bool" where
  "flushing k c \<longleftrightarrow> icache_inv 0 c \<and> set_size (geom c) < 2 ^ 16 \<and> k \<le> set_size (geom c) \<and>
     flush_valid c = (0 < k) \<and> (0 < k \<longrightarrow> unat (flush_num c) = k \<and> unat (flush_set c) = set_size (geom c) - k) \<and>
     (\<forall>s < set_size (geom c) - k. set_invalid c s)"

lemma flush_step_flushing:
  assumes "flushing (Suc k) c"
  shows "\<exists>c'. flush_step c = Inr c' \<and> flushing k c' \<and> geom c' = geom c"
proof -
  let ?n = "set_size (geom c)"
  have f: "flush_valid c" "unat (flush_num c) = Suc k" "unat (flush_set c) = ?n - Suc k" "Suc k \<le> ?n" "?n < 2 ^ 16"
    "icache_inv 0 c" "shaped (geom c) (tagvs c)" "\<forall>s < ?n - Suc k. set_invalid c s"
    using assms by (auto simp: flushing_def icache_inv_def)
  obtain c' where c': "flush_step c = Inr c'" "icache_inv 0 c'" using flush_step_inv [OF f(6,1)] by auto
  have l: "?n - Suc k < length (tagvs c)" using f by (simp add: shaped_def)
  have num: "unat (flush_num c - 1) = k" using f(2) by (subst unat_minus_one) auto
  have un: "unat (of_nat ?n :: u32) = ?n" using f(5) by (simp add: unat_of_nat)
  have "unat (flush_set c + 1) = ?n - k" using f by (simp add: unat_word_ariths)
  then have nxt: "0 < k \<longrightarrow> unat ((flush_set c + 1) mod of_nat ?n) = ?n - k"
    using f(4) by (simp add: unat_mod un)
  have num0: "flush_num c = 1 \<longleftrightarrow> k = 0" using f(2) by (metis Suc_inject One_nat_def unat_1 word_unat_eq_iff)
  have T: "tagvs c' = (tagvs c)[?n - Suc k := map (valid_update (\<lambda>_. False)) (tagvs c ! (?n - Suc k))]"
    and g: "geom c' = geom c" and v: "flush_valid c' = (0 < k)"
    and n: "0 < k \<longrightarrow> flush_num c' = flush_num c - 1 \<and> flush_set c' = (flush_set c + 1) mod of_nat ?n"
    using c'(1) f l num num0 by (auto simp: flush_step_def Let_def split: if_splits)
  have "set_invalid c' s" if "s < ?n - k" for s
  proof (cases "s = ?n - Suc k")
    case True
    then show ?thesis using l by (auto simp: set_invalid_def T)
  next
    case False
    then have "s < ?n - Suc k" using that by linarith
    then show ?thesis using f(8) by (simp add: set_invalid_def T nth_update)
  qed
  then show ?thesis using c' f v n num nxt g by (simp add: flushing_def)
qed

lemma ticks_flush:
  assumes "flushing k c" "length hs = k"
  shows "\<exists>c'. ticks e hs (c, cl, p) = Inr (c', cl, p) \<and> flushing 0 c' \<and> geom c' = geom c"
  using assms
proof (induction hs arbitrary: k c)
  case (Cons h hs)
  then obtain j where k: "k = Suc j" "length hs = j" by auto
  then obtain c1 where "flush_step c = Inr c1" "flushing j c1" "geom c1 = geom c"
    using flush_step_flushing Cons.prems by blast
  moreover have "flush_valid c" using Cons.prems k by (simp add: flushing_def)
  ultimately show ?case using Cons.IH [of j c1] k by (simp add: icache_tick_def)
qed simp

lemma flush_empties:
  assumes "icache_inv 0 c" "set_size (geom c) < 2 ^ 16" "length hs = set_size (geom c)"
  shows "\<exists>c'. ticks e hs (icache_flush c, cl, p) = Inr (c', cl, p) \<and> \<not> flush_valid c' \<and> (\<forall>a. \<not> present c' a)"
proof -
  have "flushing (set_size (geom c)) (icache_flush c)"
    using assms icache_flush_inv [OF assms(1)]
    by (auto simp: flushing_def icache_flush_def unat_of_nat icache_inv_def wf_geometry_def)
  then obtain c' where c': "ticks e hs (icache_flush c, cl, p) = Inr (c', cl, p)" "flushing 0 c'" "geom c' = geom c"
    using ticks_flush assms(3) by (fastforce simp: icache_flush_def)
  have "\<not> present c' a" for a
  proof -
    obtain t s off where sp: "splitAddr (geom c') a = (t, s, off)" by (cases "splitAddr (geom c') a") auto
    then have "unat s < set_size (geom c')" using c'(2) split_set by (auto simp: flushing_def icache_inv_def)
    then show ?thesis using c'(2) by (auto simp: present_def sp flushing_def set_invalid_def match_None)
  qed
  then show ?thesis using c' by (auto simp: flushing_def)
qed

end
