(* ===== verification/DCache.thy ===== *)
theory DCache
  imports Cache_Runs
begin

text \<open>
  The data cache, src/src/cache/dcache.cpp: as the instruction cache, with a WRITE state, dirty lines and
  the kind of the cpu's request handed on to the parent.
\<close>

section \<open>State\<close>

datatype dstate_t = D_IDLE | D_LOOKUP | D_WRITE | D_MISS | D_REFILL

text \<open>lookup_tagv is a pointer into the tag array: set and way, or null.\<close>

record dcache =
  dgeom :: geometry
  dtagvs :: tagvs
  dreplace :: lru
  dstate :: dstate_t
  dmatched :: bool
  dlookup_set :: u32
  dlookup_tag :: u64
  dreplace_way :: nat
  dlookup_tagv :: "(nat \<times> nat) option"
  didle_req :: nat
  didle_req_valid :: bool
  dlookup_req :: cache_req
  dreq_clear_wait :: bool
  dflush_valid :: bool
  dflush_num :: nat
  dflush_set :: nat

text \<open>The object after afterLoad; the members without an initialiser are taken from u.\<close>

definition dcache_afterLoad :: "nat \<Rightarrow> nat \<Rightarrow> nat \<Rightarrow> dcache \<Rightarrow> dcache" where
  "dcache_afterLoad line sets ways u =
     u\<lparr> dgeom := cache_geometry line sets ways,
        dtagvs := fresh_tagvs (cache_geometry line sets ways), dreplace := lru_setParams [] sets ways,
        dstate := D_IDLE, dmatched := False, didle_req_valid := False, dreq_clear_wait := False,
        dflush_valid := False,
        dlookup_req := (dlookup_req u)\<lparr> req_size := of_nat line, req_id := (req_id (dlookup_req u))(1 := 0) \<rparr> \<rparr>"

section \<open>lookup, flush, redirect\<close>

definition dcache_lookup :: "nat \<Rightarrow> dcache \<Rightarrow> bool \<times> dcache" where
  "dcache_lookup r c =
    (if \<not> dflush_valid c \<and> (dstate c = D_IDLE \<or> (dstate c = D_LOOKUP \<and> dmatched c \<and> req (dlookup_req c) \<noteq> WRITE_BACK))
     then (True, c\<lparr> didle_req := r, didle_req_valid := True \<rparr>) else (False, c))"

definition dcache_flush :: "dcache \<Rightarrow> dcache" where
  "dcache_flush c = c\<lparr> dflush_set := 0, dflush_num := set_size (dgeom c), dflush_valid := True \<rparr>"

definition dcache_redirect :: "dcache \<Rightarrow> dcache" where
  "dcache_redirect c =
    (let c = c\<lparr> didle_req_valid := False \<rparr>;
         c = (if dstate c = D_MISS \<or> dstate c = D_REFILL then c\<lparr> dreq_clear_wait := True \<rparr> else c)
     in c\<lparr> dstate := D_IDLE \<rparr>)"

section \<open>The calls of the cpu's callback\<close>

definition dcall_client :: "('c, 'p) port \<Rightarrow> dcache \<Rightarrow> 'c \<Rightarrow> dcache \<times> 'c" where
  "dcall_client e c cl =
    (let (r, cl) = callback0 e (req_id (dlookup_req c)) cl
     in (if r then dcache_redirect c else c, cl))"

definition dhandleIdleReq :: "('c, 'p) port \<Rightarrow> req_heap \<Rightarrow> dcache \<Rightarrow> 'c \<Rightarrow> (dcache \<times> 'c) res" where
  "dhandleIdleReq e h c cl =
    (let q = h (didle_req c);
         c = c\<lparr> dlookup_req := (dlookup_req c)\<lparr> addr := addr q,
               req_id := (req_id (dlookup_req c))(0 := req_id q 0), req := req q \<rparr>, didle_req_valid := False \<rparr>;
         (t, s, offset) = splitAddr (dgeom c) (addr (dlookup_req c));
         c = c\<lparr> dlookup_tag := t, dlookup_set := s \<rparr>
     in if unat s < length (dtagvs c)
        then let c = c\<lparr> dlookup_tagv := map_option (Pair (unat s)) (match (dtagvs c) t (unat s)) \<rparr>;
                 c = c\<lparr> dmatched := dlookup_tagv c \<noteq> None \<rparr>
             in Inr (if dmatched c then dcall_client e c cl else (c, cl))
        else Inl OutOfBounds)"

text \<open>The callback registered with the parent in afterLoad.\<close>

definition dcache_fill :: "('c, 'p) port \<Rightarrow> dcache \<Rightarrow> 'c \<Rightarrow> (dcache \<times> 'c) res" where
  "dcache_fill e c cl =
    (let s = unat (dlookup_set c) in
     if s < length (dtagvs c) \<and> dreplace_way c < length (dtagvs c ! s)
     then
       let c = c\<lparr> dtagvs := upd_tagv (dtagvs c) s (dreplace_way c)
                 (\<lambda>v. v\<lparr> tag := dlookup_tag c, valid := True, dirty := (req (dlookup_req c) = WRITE_BACK) \<rparr>) \<rparr>
       in if dreq_clear_wait c then Inr (c\<lparr> dreq_clear_wait := False \<rparr>, cl)
          else let (c, cl) = dcall_client e c cl in Inr (c\<lparr> dstate := D_REFILL \<rparr>, cl)
     else Inl OutOfBounds)"

section \<open>tick\<close>

definition dflush_step :: "dcache \<Rightarrow> dcache res" where
  "dflush_step c =
    (let c = c\<lparr> dflush_num := dflush_num c - 1 \<rparr>; s = dflush_set c in
     if s < length (dtagvs c)
     then
       let c = c\<lparr> dtagvs := (dtagvs c)[s := map (\<lambda>v. v\<lparr> valid := False \<rparr>) (dtagvs c ! s)],
                  dflush_set := (dflush_set c + 1) mod set_size (dgeom c) \<rparr>
       in Inr (if dflush_num c = 0 then c\<lparr> dflush_valid := False \<rparr> else c)
     else Inl OutOfBounds)"

definition dsend_miss :: "('c, 'p) port \<Rightarrow> dcache \<Rightarrow> 'p \<Rightarrow> (dcache \<times> 'p) res" where
  "dsend_miss e c p =
    (if dreq_clear_wait c then Inr (c, p)
     else
       let (success, q, p) = parent_lookup e (dlookup_req c) p; c = c\<lparr> dlookup_req := q \<rparr> in
       if success
       then rbind (lru_get (dreplace c) (unat (dlookup_set c))) (\<lambda>(w, r).
              Inr (c\<lparr> dreplace_way := w, dreplace := r, dstate := D_MISS \<rparr>, p))
       else Inr (c, p))"

definition mark_dirty :: "dcache \<Rightarrow> dcache res" where
  "mark_dirty c = (case dlookup_tagv c of None \<Rightarrow> Inl NullDeref
     | Some (s, w) \<Rightarrow> Inr (c\<lparr> dtagvs := upd_tagv (dtagvs c) s w (\<lambda>v. v\<lparr> dirty := True \<rparr>) \<rparr>))"

definition dcache_tick :: "('c, 'p) port \<Rightarrow> req_heap \<Rightarrow> dcache \<times> 'c \<times> 'p \<Rightarrow> (dcache \<times> 'c \<times> 'p) res" where
  "dcache_tick e h w = (case w of (c, cl, p) \<Rightarrow>
     if dflush_valid c then rbind (dflush_step c) (\<lambda>c. Inr (c, cl, p))
     else case dstate c of
       D_IDLE \<Rightarrow>
         if didle_req_valid c
         then rbind (dhandleIdleReq e h (c\<lparr> dstate := D_LOOKUP \<rparr>) cl) (\<lambda>(c, cl). Inr (c, cl, p))
         else Inr w
     | D_LOOKUP \<Rightarrow>
         if \<not> dmatched c then rbind (dsend_miss e c p) (\<lambda>(c, p). Inr (c, cl, p))
         else if req (dlookup_req c) = WRITE_BACK
         then rbind (mark_dirty (c\<lparr> dstate := D_WRITE \<rparr>)) (\<lambda>c. Inr (c, cl, p))
         else if didle_req_valid c then rbind (dhandleIdleReq e h c cl) (\<lambda>(c, cl). Inr (c, cl, p))
         else Inr (c\<lparr> dstate := D_IDLE \<rparr>, cl, p)
     | D_WRITE \<Rightarrow> Inr (c\<lparr> dstate := D_IDLE \<rparr>, cl, p)
     | D_MISS \<Rightarrow> Inr w
     | D_REFILL \<Rightarrow> Inr (c\<lparr> dstate := D_IDLE, didle_req_valid := False \<rparr>, cl, p))"

section \<open>The invariant\<close>

text \<open>
  As for the instruction cache; lookup_tagv points into the tag array while it may be used, and the
  callback of the cpu runs in MISS during a fill, so the code relies on the cpu not to call redirect
  there: with it the machine is left in REFILL with an answer to drop.
\<close>

definition dcache_inv :: "nat \<Rightarrow> dcache \<Rightarrow> bool" where
  "dcache_inv out c \<longleftrightarrow>
     wf_geometry (dgeom c) \<and> shaped (dgeom c) (dtagvs c) \<and> lru_inv (set_size (dgeom c)) (way (dgeom c)) (dreplace c) \<and>
     (dstate c \<noteq> D_IDLE \<or> 0 < out \<longrightarrow> unat (dlookup_set c) < set_size (dgeom c)) \<and>
     (dstate c = D_LOOKUP \<and> dmatched c \<longrightarrow> dlookup_tagv c \<noteq> None) \<and>
     (dflush_valid c \<longrightarrow> dflush_set c < set_size (dgeom c)) \<and>
     (0 < out \<longrightarrow> dreplace_way c < way (dgeom c)) \<and> out \<le> 1 \<and>
     (dstate c = D_MISS \<longrightarrow> out = 1 \<and> \<not> dreq_clear_wait c) \<and>
     (out = 1 \<longrightarrow> dstate c = D_MISS \<or> dreq_clear_wait c)"

lemma dcache_afterLoad_inv:
  "0 < sets \<Longrightarrow> sets < 2 ^ 31 \<Longrightarrow> 0 < ways \<Longrightarrow> dcache_inv 0 (dcache_afterLoad line sets ways u)"
  using lru_setParams_inv [of sets ways] wf_cache_geometry [of sets ways line] shaped_fresh
  by (simp add: dcache_inv_def dcache_afterLoad_def) (simp add: cache_geometry_def)

lemma dcache_lookup_inv: "dcache_inv out c \<Longrightarrow> dcache_lookup r c = (b, c') \<Longrightarrow> dcache_inv out c'"
  by (auto simp: dcache_lookup_def dcache_inv_def split: if_splits)

lemma dcache_flush_inv: "dcache_inv out c \<Longrightarrow> dcache_inv out (dcache_flush c)"
  by (auto simp: dcache_flush_def dcache_inv_def wf_geometry_def)

lemma dcache_redirect_inv: "dcache_inv out c \<Longrightarrow> dcache_inv out (dcache_redirect c)"
  by (auto simp: dcache_redirect_def dcache_inv_def Let_def)

lemma dcall_client_cases: "dcall_client e c cl = (c', cl') \<Longrightarrow> c' = c \<or> c' = dcache_redirect c"
  by (auto simp: dcall_client_def split: prod.splits if_splits)

lemma dhandleIdleReq_inv:
  assumes "dcache_inv out c0" "dstate c0 = D_IDLE \<or> dstate c0 = D_LOOKUP"
  shows "\<exists>c' cl'. dhandleIdleReq e h (c0\<lparr> dstate := D_LOOKUP \<rparr>) cl = Inr (c', cl') \<and> dcache_inv out c' \<and> dstate c' \<noteq> D_MISS"
proof -
  let ?ini = "c0\<lparr> dstate := D_LOOKUP \<rparr>"
  obtain t s off where sp: "splitAddr (dgeom c0) (addr (h (didle_req c0))) = (t, s, off)"
    by (cases "splitAddr (dgeom c0) (addr (h (didle_req c0)))") auto
  then have s: "unat s < set_size (dgeom c0)" using split_set assms(1) by (auto simp: dcache_inv_def)
  let ?m = "map_option (Pair (unat s)) (match (dtagvs c0) t (unat s))"
  let ?c = "?ini\<lparr> dlookup_req := (dlookup_req c0)\<lparr> addr := addr (h (didle_req c0)),
      req_id := (req_id (dlookup_req c0))(0 := req_id (h (didle_req c0)) 0), req := req (h (didle_req c0)) \<rparr>,
      didle_req_valid := False, dlookup_tag := t, dlookup_set := s, dlookup_tagv := ?m, dmatched := ?m \<noteq> None \<rparr>"
  have l: "unat s < length (dtagvs c0)" using s assms(1) by (simp add: dcache_inv_def shaped_def)
  obtain c1 where c1: "c1 = ?c" by blast
  have inv: "dcache_inv out c1" using assms s by (auto simp: c1 dcache_inv_def)
  have r: "dhandleIdleReq e h ?ini cl = Inr (if dmatched c1 then dcall_client e c1 cl else (c1, cl))"
    using l sp by (simp add: dhandleIdleReq_def Let_def c1)
  obtain c' cl' where c': "dcall_client e c1 cl = (c', cl')" by fastforce
  have "dstate c1 \<noteq> D_MISS" by (simp add: c1)
  moreover from this have "dstate (dcache_redirect c1) \<noteq> D_MISS" by (simp add: dcache_redirect_def Let_def)
  ultimately show ?thesis using r c' inv dcache_redirect_inv [OF inv] dcall_client_cases [OF c'] by auto
qed

lemma dcache_fill_inv:
  assumes "dcache_inv 1 c"
  shows "\<exists>c' cl'. dcache_fill e c cl = Inr (c', cl') \<and> dcache_inv 0 c'"
proof -
  let ?s = "unat (dlookup_set c)"
  let ?T = "upd_tagv (dtagvs c) ?s (dreplace_way c)
    (\<lambda>v. v\<lparr> tag := dlookup_tag c, valid := True, dirty := (req (dlookup_req c) = WRITE_BACK) \<rparr>)"
  have b: "?s < length (dtagvs c)" "dreplace_way c < length (dtagvs c ! ?s)" "shaped (dgeom c) ?T"
    using assms by (auto simp: dcache_inv_def shaped_def) (auto simp: shaped_def upd_tagv_def nth_update)
  have i: "dcache_inv 0 (c\<lparr> dtagvs := ?T, dreq_clear_wait := False, dstate := D_IDLE \<rparr>)"
    "dcache_inv 0 (c\<lparr> dtagvs := ?T, dstate := D_REFILL \<rparr>)"
    "dcache_inv 0 ((dcache_redirect (c\<lparr> dtagvs := ?T \<rparr>))\<lparr> dstate := D_REFILL \<rparr>)"
    using assms b(3) by (simp_all add: dcache_inv_def dcache_redirect_def Let_def)
  show ?thesis
  proof (cases "dreq_clear_wait c")
    case True
    have "dcache_inv 0 (c\<lparr> dtagvs := ?T, dreq_clear_wait := False \<rparr>)"
      using assms b(3) True by (auto simp: dcache_inv_def)
    then show ?thesis using True b by (simp add: dcache_fill_def Let_def)
  next
    case False
    obtain c' cl' where c': "dcall_client e (c\<lparr> dtagvs := ?T \<rparr>) cl = (c', cl')" by fastforce
    then have "dcache_inv 0 (c'\<lparr> dstate := D_REFILL \<rparr>)" using dcall_client_cases [OF c'] i by auto
    then show ?thesis using False b c' by (simp add: dcache_fill_def Let_def)
  qed
qed

lemma dflush_step_inv:
  assumes "dcache_inv out c" "dflush_valid c"
  shows "\<exists>c'. dflush_step c = Inr c' \<and> dcache_inv out c' \<and> dstate c' = dstate c"
proof -
  have s: "dflush_set c < length (dtagvs c)" and g: "wf_geometry (dgeom c)"
    using assms by (auto simp: dcache_inv_def shaped_def)
  moreover have "shaped (dgeom c) ((dtagvs c)[dflush_set c := map (valid_update (\<lambda>_. False)) (dtagvs c ! dflush_set c)])"
    using assms by (auto simp: dcache_inv_def shaped_def nth_update)
  ultimately show ?thesis
    using assms by (auto simp: dflush_step_def Let_def dcache_inv_def wf_geometry_def)
qed

lemma dsend_miss_inv:
  assumes "dcache_inv out c" "dstate c = D_LOOKUP"
  shows "\<exists>c' p'. dsend_miss e c p = Inr (c', p') \<and>
    (dstate c' = D_LOOKUP \<and> dcache_inv out c' \<or> out = 0 \<and> dstate c' = D_MISS \<and> dcache_inv 1 c')"
proof (cases "dreq_clear_wait c")
  case False
  obtain b q p' where pl: "parent_lookup e (dlookup_req c) p = (b, q, p')" by (metis prod.exhaust)
  obtain w r where v: "lru_get (dreplace c) (unat (dlookup_set c)) = Inr (w, r)" "w < way (dgeom c)"
      "lru_inv (set_size (dgeom c)) (way (dgeom c)) r"
    using lru.victim_ok [of "set_size (dgeom c)" "way (dgeom c)" "dreplace c" "unat (dlookup_set c)"] assms
    by (auto simp: dcache_inv_def wf_geometry_def)
  show ?thesis
    using assms False v pl by (cases b) (auto simp: dsend_miss_def Let_def dcache_inv_def)
qed (use assms in \<open>auto simp: dsend_miss_def Let_def dcache_inv_def\<close>)

lemma mark_dirty_inv:
  assumes "dcache_inv out c" "dstate c = D_LOOKUP" "dmatched c"
  shows "\<exists>c'. mark_dirty (c\<lparr> dstate := D_WRITE \<rparr>) = Inr c' \<and> dcache_inv out c' \<and> dstate c' = D_WRITE"
  using assms by (auto simp: mark_dirty_def dcache_inv_def)

lemma lookup_same: "dstate c = D_LOOKUP \<Longrightarrow> c\<lparr> dstate := D_LOOKUP \<rparr> = c"
  by (cases c) simp

lemma dcache_tick_inv:
  assumes "dcache_inv out c"
  shows "\<exists>c' cl' p'. dcache_tick e h (c, cl, p) = Inr (c', cl', p') \<and>
    (dcache_inv out c' \<and> (dstate c' = D_MISS \<longrightarrow> dstate c = D_MISS) \<or>
     out = 0 \<and> dstate c = D_LOOKUP \<and> dstate c' = D_MISS \<and> dcache_inv 1 c')"
proof (cases "dflush_valid c")
  case True
  then show ?thesis using dflush_step_inv [OF assms] by (auto simp: dcache_tick_def)
next
  case False
  show ?thesis
  proof (cases "dstate c")
    case D_IDLE
    show ?thesis
      using False assms dhandleIdleReq_inv [OF assms, of e h cl] D_IDLE by (auto simp: dcache_tick_def)
  next
    case D_LOOKUP
    show ?thesis
      using dsend_miss_inv [OF assms D_LOOKUP, of e p] dhandleIdleReq_inv [OF assms, of e h cl] lookup_same [OF D_LOOKUP]
        mark_dirty_inv [OF assms D_LOOKUP] assms
      by (auto simp: dcache_tick_def D_LOOKUP False) (auto simp: dcache_inv_def D_LOOKUP)
  next
    case D_WRITE
    then have "dcache_inv out (c\<lparr> dstate := D_IDLE \<rparr>)" using assms by (auto simp: dcache_inv_def)
    then show ?thesis using False D_WRITE by (simp add: dcache_tick_def)
  next
    case D_MISS
    then show ?thesis using False assms by (simp add: dcache_tick_def)
  next
    case D_REFILL
    then have "dcache_inv out (c\<lparr> dstate := D_IDLE, didle_req_valid := False \<rparr>)"
      using assms by (auto simp: dcache_inv_def)
    then show ?thesis using False D_REFILL by (simp add: dcache_tick_def)
  qed
qed

section \<open>The data cache is a cache\<close>

definition dcache_ops :: "('c, 'p) port \<Rightarrow> (dcache, 'c, 'p) cache_ops" where
  "dcache_ops e = \<lparr> tick_op = dcache_tick e, lookup_op = dcache_lookup, flush_op = dcache_flush,
     redirect_op = dcache_redirect, fill_op = dcache_fill e, waits = (\<lambda>c. dstate c = D_MISS) \<rparr>"

interpretation dc: cache_machine "dcache_ops e" dcache_inv for e :: "('c, 'p) port"
proof (unfold_locales, goal_cases)
  case (1 out c h cl p)
  then show ?case using dcache_tick_inv [OF 1, of e h cl p] by (fastforce simp: dcache_ops_def)
next
  case (2 out c r)
  then show ?case by (simp add: dcache_ops_def dcache_lookup_inv [OF 2 prod.collapse [symmetric]])
next
  case (5 c cl)
  then show ?case using dcache_fill_inv [of c e cl] by (simp add: dcache_ops_def)
next
  case (6 out c)
  then show ?case by (simp add: dcache_inv_def)
qed (simp_all add: dcache_ops_def dcache_flush_inv dcache_redirect_inv)

section \<open>Stores that hit\<close>

lemma dcall_client_plain [simp]:
  "no_redirect e \<Longrightarrow> dcall_client e c cl = (c, snd (callback0 e (req_id (dlookup_req c)) cl))"
  by (simp add: dcall_client_def no_redirect_def case_prod_beta)

text \<open>
  A store to a line that is there: the cpu is called in the first cycle, the second marks the line dirty,
  the third leaves WRITE; no other line changes and the parent is not called.
\<close>

lemma store_hit:
  assumes "dcache_inv out c" "\<not> dflush_valid c" "dstate c = D_IDLE" "no_redirect e"
    and "dcache_lookup r c = (b, c1)" "req (h r) = WRITE_BACK"
    and sp: "splitAddr (dgeom c) (addr (h r)) = (t, s, off)" and m: "match (dtagvs c) t (unat s) = Some w"
  obtains c2 c3 c4 where "b"
    "dcache_tick e h (c1, cl, p) = Inr (c2, snd (callback0 e ((req_id (dlookup_req c))(0 := req_id (h r) 0)) cl), p)"
    "\<And>g cl p. dcache_tick e g (c2, cl, p) = Inr (c3, cl, p)"
    "\<And>g cl p. dcache_tick e g (c3, cl, p) = Inr (c4, cl, p)"
    "dstate c4 = D_IDLE" "dtagvs c4 = upd_tagv (dtagvs c) (unat s) w (\<lambda>v. v\<lparr> dirty := True \<rparr>)"
proof -
  have l: "unat s < length (dtagvs c)" using sp split_set assms(1) by (auto simp: dcache_inv_def shaped_def)
  have c1: "c1 = c\<lparr> didle_req := r, didle_req_valid := True \<rparr>" "b"
    using assms(2,3,5) by (auto simp: dcache_lookup_def)
  let ?c2 = "c\<lparr> didle_req := r, dstate := D_LOOKUP, dlookup_req := (dlookup_req c)\<lparr> addr := addr (h r),
      req_id := (req_id (dlookup_req c))(0 := req_id (h r) 0), req := WRITE_BACK \<rparr>, didle_req_valid := False,
      dlookup_tag := t, dlookup_set := s, dlookup_tagv := Some (unat s, w), dmatched := True \<rparr>"
  let ?c3 = "?c2\<lparr> dstate := D_WRITE, dtagvs := upd_tagv (dtagvs c) (unat s) w (\<lambda>v. v\<lparr> dirty := True \<rparr>) \<rparr>"
  let ?c4 = "?c3\<lparr> dstate := D_IDLE \<rparr>"
  have "dcache_tick e h (c1, cl, p) = Inr (?c2, snd (callback0 e ((req_id (dlookup_req c))(0 := req_id (h r) 0)) cl), p)"
    using assms(2-4,6) sp l m by (simp add: c1 dcache_tick_def dhandleIdleReq_def Let_def)
  moreover have "dcache_tick e g (?c2, cl, p) = Inr (?c3, cl, p)" for g cl p
    using assms(2) by (simp add: dcache_tick_def mark_dirty_def)
  moreover have "dcache_tick e g (?c3, cl, p) = Inr (?c4, cl, p)" for g cl p
    using assms(2) by (simp add: dcache_tick_def)
  ultimately show ?thesis using that c1(2) by simp
qed

end
