(* ===== verification/Caches.thy ===== *)
theory Caches
  imports ICache_Props DCache
begin

text \<open>
  The properties of the first-level caches and of their replacement policy, each over the operations of
  its theory, with a concrete cache of two sets and two ways for the witnesses.
\<close>

section \<open>A concrete cache\<close>

text \<open>The cpu notes the request ids it is called with; the parent takes every request and counts.\<close>

definition port0 :: "(u16 list, nat) port" where
  "port0 = \<lparr> callback0 = (\<lambda>i cl. (False, cl @ [i 0])), parent_lookup = (\<lambda>q p. (True, q, p + 1)) \<rparr>"

lemma port0_plain: "no_redirect port0"
  by (simp add: no_redirect_def port0_def)

definition req0 :: cache_req where
  "req0 = \<lparr> req = READ_SHARED, req_size = 64, req_id = (\<lambda>k. 7), addr = 0x80000040 \<rparr>"

definition geom0 :: geometry where
  "geom0 = cache_geometry 64 2 2"

definition icache0 :: icache where
  "icache0 = icache_afterLoad 64 2 2 \<lparr> geom = geom0, tagvs = [], replace = [], cstate = IDLE, matched = False,
     lookup_set = 0, lookup_tag = 0, replace_way = 0, idle_req = 0, idle_req_valid = False, lookup_req = req0,
     req_clear_wait = False, current_id = 0, flush_valid = False, flush_num = 0, flush_set = 0, in_callback = False \<rparr>"

definition dcache0 :: dcache where
  "dcache0 = dcache_afterLoad 64 2 2 \<lparr> dgeom = geom0, dtagvs = [], dreplace = [], dstate = D_IDLE, dmatched = False,
     dlookup_set = 0, dlookup_tag = 0, dreplace_way = 0, dlookup_tagv = None, didle_req = 0, didle_req_valid = False,
     dlookup_req = req0, dreq_clear_wait = False, dflush_valid = False, dflush_num = 0, dflush_set = 0 \<rparr>"

lemma icache0_inv: "icache_inv 0 icache0"
  unfolding icache0_def by (rule icache_afterLoad_inv) simp_all

lemma dcache0_inv: "dcache_inv 0 dcache0"
  unfolding dcache0_def by (rule dcache_afterLoad_inv) simp_all

lemma icache0_state: "\<not> flush_valid icache0" "cstate icache0 = IDLE" "set_size (geom icache0) = 2"
  by (simp_all add: icache0_def icache_afterLoad_def cache_geometry_def)



text \<open>Every list of events without an answer of the parent is a run.\<close>

lemma run_exists: "Fill \<notin> set vs \<Longrightarrow> \<exists>r. run k s vs r"
proof (induction vs arbitrary: s)
  case Nil
  then show ?case by (simp add: run_Nil_iff)
next
  case (Cons v vs)
  have a: "answered v s" using Cons.prems by (cases v) auto
  show ?case
  proof (cases "occurs k v s")
    case (Inl x)
    then show ?thesis using a by (blast intro: run_crash)
  next
    case (Inr s1)
    obtain r where "run k s1 vs r" using Cons by fastforce
    then show ?thesis using run_Cons [OF a Inr] by blast
  qed
qed

section \<open>Replacement\<close>

text \<open>
  Without a hit in between, the victims the policy gives for a set are each of its ways exactly once,
  after which the policy is in the state it started from.
\<close>

theorem replacement_round_robin:
  assumes "s < sets"
  shows "\<exists>is. victims ways (lru_setParams [] sets ways) s = Inr (is, lru_setParams [] sets ways) \<and>
    distinct is \<and> set is = {0..<ways}"
  by (rule victims_all [OF lru_setParams_inv assms])

theorem replacement_round_robin_witness:
  "\<exists>is. victims 4 (lru_setParams [] 8 4) 3 = Inr (is, lru_setParams [] 8 4) \<and> distinct is \<and> set is = {0..<4}"
  using replacement_round_robin [of 3 8 4] by simp

section \<open>Instruction cache\<close>

text \<open>
  C28: whatever the cpu calls (lookup, flush, redirect, also from within its callback) and whatever the
  parent answers, in any order with the clock, the instruction cache never indexes its arrays out of
  range, and never has more than one request at the parent that is not answered.
\<close>

theorem icache_never_crashes:
  assumes "0 < sets" and "sets < 2 ^ 31" and "0 < ways"
    and "run (icache_ops e) (0, icache_afterLoad line sets ways u, cl, p) vs r"
  shows "\<exists>out c cl p. r = Inr (out, c, cl, p) \<and> out \<le> 1 \<and> icache_inv out c"
  using ic.run_ok [OF assms(4)] icache_afterLoad_inv [OF assms(1-3)] by fastforce

theorem icache_never_crashes_witness:
  "\<exists>r. run (icache_ops port0) (0, icache_afterLoad 64 2 2 icache0, [], 0) [Lookup 0, Tick (\<lambda>k. req0), Redirect, Flush] r \<and>
     (\<exists>out c cl p. r = Inr (out, c, cl, p) \<and> out \<le> 1)"
proof -
  obtain r where "run (icache_ops port0) (0, icache_afterLoad 64 2 2 icache0, [], 0)
      [Lookup 0, Tick (\<lambda>k. req0), Redirect, Flush] r"
    using run_exists [of "[Lookup 0, Tick (\<lambda>k. req0), Redirect, Flush]"] by fastforce
  then show ?thesis using icache_never_crashes [of 2 2 port0 64 icache0 "[]" 0] by fastforce
qed

text \<open>
  A request the idle cache accepts is looked up in the next cycle: the cpu is called with its id
  exactly when the line is there, the tag array does not change, and the cache is in LOOKUP with the
  answer to the question whether it matched.
\<close>

theorem icache_hit_next_cycle:
  assumes "icache_inv out c" and "\<not> flush_valid c" and "cstate c = IDLE" and "no_redirect e"
  shows "\<exists>c1 c2. icache_lookup r c = (True, c1) \<and>
    icache_tick e h (c1, cl, p) = Inr (c2, if present c (addr (h r))
       then snd (callback0 e ((req_id (lookup_req c))(0 := req_id (h r) 0)) cl) else cl, p) \<and>
    cstate c2 = LOOKUP \<and> (matched c2 \<longleftrightarrow> present c (addr (h r))) \<and> tagvs c2 = tagvs c"
proof -
  obtain b c1 where l: "icache_lookup r c = (b, c1)" by fastforce
  show ?thesis
    by (rule lookup_then_tick [where h = h, OF assms l, where cl = cl and p = p]) (use l in simp)
qed

theorem icache_hit_next_cycle_witness:
  "\<exists>c1 c2. icache_lookup 0 icache0 = (True, c1) \<and>
     icache_tick port0 (\<lambda>k. req0) (c1, [], 0) = Inr (c2, if present icache0 0x80000040 then [7] else [], 0) \<and>
     cstate c2 = LOOKUP"
  using icache_hit_next_cycle [OF icache0_inv icache0_state(1,2) port0_plain, of 0 "\<lambda>k. req0" "[]" 0]
  by (auto simp: req0_def port0_def)

text \<open>
  C30: a flush of an idle cache takes as many cycles as there are sets; then it accepts requests again,
  no line is left in it, and neither the cpu nor the parent has been called.
\<close>

theorem icache_flush_completes:
  assumes "icache_inv 0 c" and "set_size (geom c) < 2 ^ 16" and "length hs = set_size (geom c)"
  shows "\<exists>c'. ticks e hs (icache_flush c, cl, p) = Inr (c', cl, p) \<and> \<not> flush_valid c' \<and> (\<forall>a. \<not> present c' a)"
  by (rule flush_empties [OF assms])

theorem icache_flush_completes_witness:
  "\<exists>c'. ticks port0 [\<lambda>k. req0, \<lambda>k. req0] (icache_flush icache0, [], 0) = Inr (c', [], 0) \<and> \<not> present c' 0x80000040"
proof -
  have "length [\<lambda>k. req0, \<lambda>k. req0 :: cache_req] = set_size (geom icache0)" by (simp add: icache0_state)
  then show ?thesis
    using icache_flush_completes [OF icache0_inv, of "[\<lambda>k. req0, \<lambda>k. req0]" port0 "[]" 0] by (auto simp: icache0_state)
qed

text \<open>
  C31: a redirect during a miss, followed by a lookup before the parent has answered: the answer, which
  the cpu does not get any more, is entered under the address of the newer lookup.  From then on the
  cache takes that line for present although its data was never requested.
\<close>

theorem late_answer_under_wrong_address:
  assumes "icache_inv 1 c" and "cstate c = MISS" and "\<not> flush_valid c" and "no_redirect e"
    and "icache_lookup r (icache_redirect c) = (b, c1)" and "icache_tick e h (c1, cl, p) = Inr (c2, cl2, p2)"
    and "icache_fill e c2 cl2 = Inr (c3, cl3)"
  shows "present c3 (addr (h r)) \<and> cl3 = cl2"
  using late_fill [OF assms] by blast

definition miss0 :: icache where
  "miss0 = icache0\<lparr> cstate := MISS, replace_way := 1 \<rparr>"

lemma miss0_inv: "icache_inv 1 miss0"
  using icache0_inv by (simp add: icache_inv_def miss0_def icache0_def icache_afterLoad_def cache_geometry_def)

theorem late_answer_under_wrong_address_witness:
  "\<exists>c1 c2 c3. icache_lookup 0 (icache_redirect miss0) = (True, c1) \<and>
     icache_tick port0 (\<lambda>k. req0) (c1, [], 0) = Inr (c2, [], 0) \<and>
     icache_fill port0 c2 [] = Inr (c3, []) \<and> present c3 0x80000040 \<and> \<not> present miss0 0x80000040"
proof -
  define c1 where "c1 = snd (icache_lookup 0 (icache_redirect miss0))"
  have 1: "fst (icache_lookup 0 (icache_redirect miss0))" by code_simp
  have "case icache_tick port0 (\<lambda>k. req0) (snd (icache_lookup 0 (icache_redirect miss0)), [], 0) of Inl x \<Rightarrow> False
    | Inr (c2, cl, p) \<Rightarrow> cl = [] \<and> p = 0 \<and> (case icache_fill port0 c2 [] of Inl x \<Rightarrow> False | Inr (c3, cl) \<Rightarrow> cl = [])"
    by code_simp
  then obtain c2 where t: "icache_tick port0 (\<lambda>k. req0) (c1, [], 0) = Inr (c2, [], 0)"
    "case icache_fill port0 c2 [] of Inl x \<Rightarrow> False | Inr (c3, cl) \<Rightarrow> cl = []"
    unfolding c1_def [symmetric] by (cases "icache_tick port0 (\<lambda>k. req0) (c1, [], 0)") auto
  then obtain c3 where "icache_fill port0 c2 [] = Inr (c3, [])" by (cases "icache_fill port0 c2 []") auto
  moreover have "icache_lookup 0 (icache_redirect miss0) = (True, c1)" using 1 by (simp add: c1_def prod_eq_iff)
  ultimately have r: "icache_lookup 0 (icache_redirect miss0) = (True, c1)"
    "icache_tick port0 (\<lambda>k. req0) (c1, [], 0) = Inr (c2, [], 0)" "icache_fill port0 c2 [] = Inr (c3, [])" using t by simp_all
  have "cstate miss0 = MISS" "\<not> flush_valid miss0" "\<not> present miss0 0x80000040" by code_simp+
  then show ?thesis
    using late_answer_under_wrong_address [OF miss0_inv _ _ port0_plain r] r by (auto simp: req0_def)
qed




section \<open>Data cache\<close>

text \<open>
  C29: the same for the data cache: no sequence of calls of the cpu, clock cycles and answers of the
  parent makes it leave its arrays or follow a null pointer, and at most one request is outstanding.
\<close>

theorem dcache_never_crashes:
  assumes "0 < sets" and "sets < 2 ^ 31" and "0 < ways"
    and "run (dcache_ops e) (0, dcache_afterLoad line sets ways u, cl, p) vs r"
  shows "\<exists>out c cl p. r = Inr (out, c, cl, p) \<and> out \<le> 1 \<and> dcache_inv out c"
  using dc.run_ok [OF assms(4)] dcache_afterLoad_inv [OF assms(1-3)] by fastforce

theorem dcache_never_crashes_witness:
  "\<exists>r. run (dcache_ops port0) (0, dcache_afterLoad 64 2 2 dcache0, [], 0) [Lookup 0, Tick (\<lambda>k. req0), Redirect, Flush] r \<and>
     (\<exists>out c cl p. r = Inr (out, c, cl, p) \<and> out \<le> 1)"
proof -
  obtain r where "run (dcache_ops port0) (0, dcache_afterLoad 64 2 2 dcache0, [], 0)
      [Lookup 0, Tick (\<lambda>k. req0), Redirect, Flush] r"
    using run_exists [of "[Lookup 0, Tick (\<lambda>k. req0), Redirect, Flush]"] by fastforce
  then show ?thesis using dcache_never_crashes [of 2 2 port0 64 dcache0 "[]" 0] by fastforce
qed

text \<open>
  A store to a line that is there takes three cycles: the first calls the cpu, the second marks the
  line dirty and changes nothing else in the tag array, the third makes the cache idle again.
\<close>

theorem store_hit_marks_dirty:
  assumes "dcache_inv out c" and "\<not> dflush_valid c" and "dstate c = D_IDLE" and "no_redirect e"
    and "dcache_lookup r c = (b, c1)" and "req (h r) = WRITE_BACK"
    and "splitAddr (dgeom c) (addr (h r)) = (t, s, off)" and "match (dtagvs c) t (unat s) = Some w"
  shows "b \<and> (\<exists>c2 c3 c4.
    dcache_tick e h (c1, cl, p) = Inr (c2, snd (callback0 e ((req_id (dlookup_req c))(0 := req_id (h r) 0)) cl), p) \<and>
    dcache_tick e h (c2, cl, p) = Inr (c3, cl, p) \<and> dcache_tick e h (c3, cl, p) = Inr (c4, cl, p) \<and>
    dstate c4 = D_IDLE \<and> dtagvs c4 = upd_tagv (dtagvs c) (unat s) w (\<lambda>v. v\<lparr> dirty := True \<rparr>))"
  by (rule store_hit [where h = h and r = r, OF assms, where cl = cl and p = p]) metis

definition dcache1 :: dcache where
  "dcache1 = dcache0\<lparr> dtagvs := upd_tagv (dtagvs dcache0) 1 0 (\<lambda>v. v\<lparr> tag := 0x1000000, valid := True \<rparr>) \<rparr>"

lemma dcache1_inv: "dcache_inv 0 dcache1"
  using dcache0_inv by (auto simp: dcache_inv_def dcache1_def)

theorem store_hit_marks_dirty_witness:
  "\<exists>c1 c2 c3 c4. dcache_lookup 0 dcache1 = (True, c1) \<and>
     dcache_tick port0 (\<lambda>k. req0\<lparr> req := WRITE_BACK \<rparr>) (c1, [], 0) = Inr (c2, [7], 0) \<and>
     dcache_tick port0 (\<lambda>k. req0\<lparr> req := WRITE_BACK \<rparr>) (c2, [], 0) = Inr (c3, [], 0) \<and>
     dcache_tick port0 (\<lambda>k. req0\<lparr> req := WRITE_BACK \<rparr>) (c3, [], 0) = Inr (c4, [], 0) \<and>
     dirty (dtagvs c4 ! 1 ! 0)"
proof -
  let ?h = "\<lambda>k. req0\<lparr> req := WRITE_BACK \<rparr>"
  obtain b c1 where l: "dcache_lookup 0 dcache1 = (b, c1)" by fastforce
  have c: "\<not> dflush_valid dcache1" "dstate dcache1 = D_IDLE" "match (dtagvs dcache1) 0x1000000 (unat (1 :: u32)) = Some 0"
    "splitAddr (dgeom dcache1) (addr (?h 0)) = (0x1000000, 1, 0)" "req (?h 0) = WRITE_BACK" "req_id req0 0 = 7"
    "dirty (upd_tagv (dtagvs dcache1) (unat (1 :: u32)) 0 (\<lambda>v. v\<lparr> dirty := True \<rparr>) ! 1 ! 0)"
    by code_simp+
  have r: "b \<and> (\<exists>c2 c3 c4. dcache_tick port0 ?h (c1, [], 0) =
        Inr (c2, snd (callback0 port0 ((req_id (dlookup_req dcache1))(0 := req_id (?h 0) 0)) []), 0) \<and>
      dcache_tick port0 ?h (c2, [], 0) = Inr (c3, [], 0) \<and> dcache_tick port0 ?h (c3, [], 0) = Inr (c4, [], 0) \<and>
      dstate c4 = D_IDLE \<and> dtagvs c4 = upd_tagv (dtagvs dcache1) (unat (1 :: u32)) 0 (\<lambda>v. v\<lparr> dirty := True \<rparr>))"
    by (rule store_hit_marks_dirty [where h = ?h and r = 0, OF dcache1_inv c(1,2) port0_plain l c(5,4,3)])
  moreover have "snd (callback0 port0 ((req_id (dlookup_req dcache1))(0 := req_id (?h 0) 0)) []) = [7]"
    using c(6) by (simp add: port0_def)
  ultimately show ?thesis using l c(7) by metis
qed

end
