(* ===== verification/ArchState.thy ===== *)
theory ArchState
  imports Prelude
begin

text \<open>
  The architectural state and the record a decoded instruction leaves for the commit stage:
  src/inc/arch/riscv/archstate.h (ArchState, ArchEnv, the ARCH_ offsets) and
  src/inc/common/common.h (DecodeInfo, InstType).  The commit stage writes ArchState through byte
  offsets; arch_rmw is that read-modify-write of eight bytes at an offset, field by field.
\<close>

section \<open>Constants\<close>

abbreviation (input) EXC_NONE :: u64 where "EXC_NONE \<equiv> 31"
abbreviation (input) EXC_II :: u64 where "EXC_II \<equiv> 2"
abbreviation (input) EXC_BP :: u64 where "EXC_BP \<equiv> 3"
abbreviation (input) EXC_LAM :: u64 where "EXC_LAM \<equiv> 4"
abbreviation (input) EXC_LAF :: u64 where "EXC_LAF \<equiv> 5"
abbreviation (input) EXC_SAM :: u64 where "EXC_SAM \<equiv> 6"
abbreviation (input) EXC_SAF :: u64 where "EXC_SAF \<equiv> 7"
abbreviation (input) EXC_ECU :: u64 where "EXC_ECU \<equiv> 8"
abbreviation (input) EXC_ECS :: u64 where "EXC_ECS \<equiv> 9"
abbreviation (input) EXC_ECM :: u64 where "EXC_ECM \<equiv> 11"
abbreviation (input) EXC_IPF :: u64 where "EXC_IPF \<equiv> 12"
abbreviation (input) EXC_LPF :: u64 where "EXC_LPF \<equiv> 13"
abbreviation (input) EXC_SPF :: u64 where "EXC_SPF \<equiv> 15"
abbreviation (input) EXC_DT :: u64 where "EXC_DT \<equiv> 16"
abbreviation (input) EXC_SC :: u64 where "EXC_SC \<equiv> 18"
abbreviation (input) EXC_HE :: u64 where "EXC_HE \<equiv> 19"
abbreviation (input) EXC_SRET :: u64 where "EXC_SRET \<equiv> 20"
abbreviation (input) EXC_MRET :: u64 where "EXC_MRET \<equiv> 21"

abbreviation (input) MODE_U :: u64 where "MODE_U \<equiv> 0"
abbreviation (input) MODE_S :: u64 where "MODE_S \<equiv> 1"
abbreviation (input) MODE_M :: u64 where "MODE_M \<equiv> 3"

abbreviation (input) IRQ_MASK :: u64 where "IRQ_MASK \<equiv> 0x8000000000000000"
abbreviation (input) EXC_MASK :: u64 where "EXC_MASK \<equiv> 0x7FFFFFFFFFFFFFFF"
abbreviation (input) DSTF_REG_MASK :: u32 where "DSTF_REG_MASK \<equiv> 0x20"
abbreviation (input) all1 :: u64 where "all1 \<equiv> 0xffffffffffffffff"

abbreviation (input) MSTATUS_SIE :: u64 where "MSTATUS_SIE \<equiv> 0x2"
abbreviation (input) MSTATUS_MIE :: u64 where "MSTATUS_MIE \<equiv> 0x8"
abbreviation (input) MSTATUS_SPIE :: u64 where "MSTATUS_SPIE \<equiv> 0x20"
abbreviation (input) MSTATUS_MPIE :: u64 where "MSTATUS_MPIE \<equiv> 0x80"
abbreviation (input) MSTATUS_SPP :: u64 where "MSTATUS_SPP \<equiv> 0x100"
abbreviation (input) MSTATUS_MPP :: u64 where "MSTATUS_MPP \<equiv> 0x1800"
abbreviation (input) MSTATUS_FS :: u64 where "MSTATUS_FS \<equiv> 0x6000"
abbreviation (input) MSTATUS_MPRV :: u64 where "MSTATUS_MPRV \<equiv> 0x20000"

section \<open>State\<close>

text \<open>
  float_status belongs to the vendored softfloat library; the code reads and writes its exception
  flags and rounding mode, the other bytes are carried along.
\<close>

record float_status =
  fs_flags :: u16
  fs_round :: u8
  fs_rest :: "u8 list"

record arch_state =
  gpr :: "nat \<Rightarrow> u64"
  fpr :: "nat \<Rightarrow> u64"
  frm :: u8
  frm_pad :: u8
  fp_status :: float_status
  load_res :: u64
  load_val :: u64
  badaddr :: u64
  priv_ver :: u64
  misa :: u64
  priv :: u64
  menvcfg :: u64
  senvcfg :: u64
  mhartid :: u64
  mvendorid :: u32
  marchid :: u64
  mimpid :: u64
  mstatus :: u64
  mip :: u64
  miclaim :: u64
  mie :: u64
  mideleg :: u64
  sie :: u64
  satp :: u64
  stval :: u64
  medeleg :: u64
  stvec :: u64
  sepc :: u64
  scause :: u64
  mtvec :: u64
  mepc :: u64
  mcause :: u64
  mtval :: u64
  scounteren :: u64
  mcounteren :: u64
  mcountinhibit :: u64
  sscratch :: u64
  mscratch :: u64
  stimecmp :: u64
  pmpcfg :: "nat \<Rightarrow> u64"
  pmpaddr :: "nat \<Rightarrow> u64"
  num_rules :: u64

datatype inst_type = T_INT | T_COND | T_DIRECT | T_PUSH | T_INDIRECT | T_IND_CALL | T_IND_PUSH
  | T_POP | T_POP_PUSH | T_LOAD | T_STORE | T_LR | T_SC | T_AMO | T_MULT | T_DIV | T_CSRWR | T_SRET
  | T_MRET | T_FENCE | T_IFENCE | T_SFENCE | T_FMISC_SIMPLE | T_FMISC_COMPLEX | T_FADD | T_FMUL
  | T_FMA | T_FDIV | T_FSQRT

record decode_info =
  dst_mask :: "nat \<Rightarrow> u64"
  src_reg :: "nat \<Rightarrow> u8"
  dst_reg :: u8
  exception :: u64
  inst :: u32
  exc_data :: u64
  dst_data :: "nat \<Rightarrow> u64"
  dst_idx :: "nat \<Rightarrow> u16"
  inst_size :: u8
  itype :: inst_type

section \<open>Byte offsets\<close>

abbreviation (input) ARCH_FPR :: nat where "ARCH_FPR \<equiv> 256"
abbreviation (input) ARCH_FRM :: nat where "ARCH_FRM \<equiv> 512"
abbreviation (input) ARCH_FFLAGS :: nat where "ARCH_FFLAGS \<equiv> 514"
abbreviation (input) ARCH_LOAD_RES :: nat where "ARCH_LOAD_RES \<equiv> 536"
abbreviation (input) ARCH_LOAD_VAL :: nat where "ARCH_LOAD_VAL \<equiv> 544"
abbreviation (input) ARCH_MSTATUS :: nat where "ARCH_MSTATUS \<equiv> 632"
abbreviation (input) ARCH_MIP :: nat where "ARCH_MIP \<equiv> 640"
abbreviation (input) ARCH_MIE :: nat where "ARCH_MIE \<equiv> 656"
abbreviation (input) ARCH_MIDELEG :: nat where "ARCH_MIDELEG \<equiv> 664"
abbreviation (input) ARCH_SATP :: nat where "ARCH_SATP \<equiv> 680"
abbreviation (input) ARCH_STVAL :: nat where "ARCH_STVAL \<equiv> 688"
abbreviation (input) ARCH_MEDELEG :: nat where "ARCH_MEDELEG \<equiv> 696"
abbreviation (input) ARCH_STVEC :: nat where "ARCH_STVEC \<equiv> 704"
abbreviation (input) ARCH_SEPC :: nat where "ARCH_SEPC \<equiv> 712"
abbreviation (input) ARCH_SCAUSE :: nat where "ARCH_SCAUSE \<equiv> 720"
abbreviation (input) ARCH_MTVEC :: nat where "ARCH_MTVEC \<equiv> 728"
abbreviation (input) ARCH_MEPC :: nat where "ARCH_MEPC \<equiv> 736"
abbreviation (input) ARCH_MCAUSE :: nat where "ARCH_MCAUSE \<equiv> 744"
abbreviation (input) ARCH_MTVAL :: nat where "ARCH_MTVAL \<equiv> 752"
abbreviation (input) ARCH_SCOUNTEREN :: nat where "ARCH_SCOUNTEREN \<equiv> 760"
abbreviation (input) ARCH_MCOUNTEREN :: nat where "ARCH_MCOUNTEREN \<equiv> 768"
abbreviation (input) ARCH_SSCRATCH :: nat where "ARCH_SSCRATCH \<equiv> 784"
abbreviation (input) ARCH_MSCRATCH :: nat where "ARCH_MSCRATCH \<equiv> 792"
abbreviation (input) ARCH_MENVCFG :: nat where "ARCH_MENVCFG \<equiv> 584"
abbreviation (input) ARCH_SENVCFG :: nat where "ARCH_SENVCFG \<equiv> 592"
abbreviation (input) ARCH_PMPCFG :: nat where "ARCH_PMPCFG \<equiv> 808"
abbreviation (input) ARCH_PMPADDR :: nat where "ARCH_PMPADDR \<equiv> 824"
abbreviation (input) ARCH_SIZE :: nat where "ARCH_SIZE \<equiv> 960"

section \<open>Writing through an offset\<close>

definition mask_merge :: "u64 \<Rightarrow> u64 \<Rightarrow> u64 \<Rightarrow> u64" where
  "mask_merge old m d = (old AND NOT m) OR (d AND m)"

lemma mask_merge_0 [simp]: "mask_merge old 0 d = old"
  by (simp add: mask_merge_def)

lemma mask_merge_all1 [simp]: "mask_merge old all1 d = d"
proof -
  have "(all1 :: u64) = mask 64" by (simp add: mask_eq_exp_minus_1)
  then have "(all1 :: u64) = NOT 0" by (simp add: mask_full)
  then show ?thesis by (simp only: mask_merge_def) simp
qed

text \<open>
  The update of the 8-byte word at one of the CSR fields.  None stands for offsets that are not the
  start of a described 64-bit field.
\<close>

definition csr_field_rmw :: "arch_state \<Rightarrow> nat \<Rightarrow> (u64 \<Rightarrow> u64) \<Rightarrow> arch_state option" where
  "csr_field_rmw s off f =
    (if off = ARCH_LOAD_RES then Some (s\<lparr> load_res := f (load_res s) \<rparr>)
     else if off = ARCH_LOAD_VAL then Some (s\<lparr> load_val := f (load_val s) \<rparr>)
     else if off = ARCH_MENVCFG then Some (s\<lparr> menvcfg := f (menvcfg s) \<rparr>)
     else if off = ARCH_SENVCFG then Some (s\<lparr> senvcfg := f (senvcfg s) \<rparr>)
     else if off = ARCH_MSTATUS then Some (s\<lparr> mstatus := f (mstatus s) \<rparr>)
     else if off = ARCH_MIP then Some (s\<lparr> mip := f (mip s) \<rparr>)
     else if off = ARCH_MIE then Some (s\<lparr> mie := f (mie s) \<rparr>)
     else if off = ARCH_MIDELEG then Some (s\<lparr> mideleg := f (mideleg s) \<rparr>)
     else if off = ARCH_SATP then Some (s\<lparr> satp := f (satp s) \<rparr>)
     else if off = ARCH_STVAL then Some (s\<lparr> stval := f (stval s) \<rparr>)
     else if off = ARCH_MEDELEG then Some (s\<lparr> medeleg := f (medeleg s) \<rparr>)
     else if off = ARCH_STVEC then Some (s\<lparr> stvec := f (stvec s) \<rparr>)
     else if off = ARCH_SEPC then Some (s\<lparr> sepc := f (sepc s) \<rparr>)
     else if off = ARCH_SCAUSE then Some (s\<lparr> scause := f (scause s) \<rparr>)
     else if off = ARCH_MTVEC then Some (s\<lparr> mtvec := f (mtvec s) \<rparr>)
     else if off = ARCH_MEPC then Some (s\<lparr> mepc := f (mepc s) \<rparr>)
     else if off = ARCH_MCAUSE then Some (s\<lparr> mcause := f (mcause s) \<rparr>)
     else if off = ARCH_MTVAL then Some (s\<lparr> mtval := f (mtval s) \<rparr>)
     else if off = ARCH_SCOUNTEREN then Some (s\<lparr> scounteren := f (scounteren s) \<rparr>)
     else if off = ARCH_MCOUNTEREN then Some (s\<lparr> mcounteren := f (mcounteren s) \<rparr>)
     else if off = ARCH_SSCRATCH then Some (s\<lparr> sscratch := f (sscratch s) \<rparr>)
     else if off = ARCH_MSCRATCH then Some (s\<lparr> mscratch := f (mscratch s) \<rparr>)
     else None)"

text \<open>
  The statement of updateEnv that reads the eight bytes at an offset, replaces the bits of the mask and
  stores them back.  Offsets 512 and 514 start inside the frm / padding / fflags bytes: there the mask
  selects bits of these three fields, and a mask that reaches further is None.
\<close>

definition arch_rmw :: "arch_state \<Rightarrow> u16 \<Rightarrow> u64 \<Rightarrow> u64 \<Rightarrow> arch_state option" where
  "arch_rmw s idx m d =
    (let off = unat idx; f = (\<lambda>old. mask_merge old m d) in
     if off + 8 > ARCH_SIZE then None
     else if m = 0 then Some s
     else if off < 256 \<and> off mod 8 = 0 then Some (s\<lparr> gpr := (gpr s)(off div 8 := f (gpr s (off div 8))) \<rparr>)
     else if off < 512 \<and> off mod 8 = 0
       then Some (s\<lparr> fpr := (fpr s)((off - ARCH_FPR) div 8 := f (fpr s ((off - ARCH_FPR) div 8))) \<rparr>)
     else if off = ARCH_FRM \<and> m AND 0xffffffff00000000 = 0
       then let w = f (ucast (frm s) OR push_bit 8 (ucast (frm_pad s))
                         OR push_bit 16 (ucast (fs_flags (fp_status s))))
            in Some (s\<lparr> frm := ucast w, frm_pad := ucast (drop_bit 8 w),
                       fp_status := (fp_status s)\<lparr> fs_flags := ucast (drop_bit 16 w) \<rparr> \<rparr>)
     else if off = ARCH_FFLAGS \<and> m AND 0xffffffffffff0000 = 0
       then Some (s\<lparr> fp_status := (fp_status s)\<lparr> fs_flags := ucast (f (ucast (fs_flags (fp_status s)))) \<rparr> \<rparr>)
     else if ARCH_PMPCFG \<le> off \<and> off < ARCH_PMPADDR \<and> off mod 8 = 0
       then Some (s\<lparr> pmpcfg := (pmpcfg s)((off - ARCH_PMPCFG) div 8 := f (pmpcfg s ((off - ARCH_PMPCFG) div 8))) \<rparr>)
     else if ARCH_PMPADDR \<le> off \<and> off < ARCH_PMPADDR + 128 \<and> off mod 8 = 0
       then Some (s\<lparr> pmpaddr := (pmpaddr s)((off - ARCH_PMPADDR) div 8 := f (pmpaddr s ((off - ARCH_PMPADDR) div 8))) \<rparr>)
     else csr_field_rmw s off f)"

lemma arch_rmw_no_mask: "unat idx + 8 \<le> ARCH_SIZE \<Longrightarrow> arch_rmw s idx 0 d = Some s"
  by (simp add: arch_rmw_def Let_def)

lemma unat_of_nat16: "n < 65536 \<Longrightarrow> unat (of_nat n :: u16) = n"
  by (simp add: unat_of_nat)

lemma arch_rmw_gpr:
  assumes "r < 32" "m \<noteq> 0"
  shows "arch_rmw s (of_nat (r * 8)) m d = Some (s\<lparr> gpr := (gpr s)(r := mask_merge (gpr s r) m d) \<rparr>)"
proof -
  have "unat (of_nat (r * 8) :: u16) = r * 8"
    using assms by (intro unat_of_nat16) simp
  then show ?thesis using assms by (simp add: arch_rmw_def Let_def)
qed

lemma arch_rmw_fpr:
  assumes "r < 32" "m \<noteq> 0"
  shows "arch_rmw s (of_nat (256 + r * 8)) m d = Some (s\<lparr> fpr := (fpr s)(r := mask_merge (fpr s r) m d) \<rparr>)"
proof -
  have "unat (of_nat (256 + r * 8) :: u16) = 256 + r * 8"
    using assms by (intro unat_of_nat16) simp
  then show ?thesis using assms by (simp add: arch_rmw_def Let_def mod_simps)
qed

end
