(* ===== verification/Branch_Pred.thy ===== *)
theory Branch_Pred
  imports ArchState
begin

text \<open>
  The branch predictors: the global history (src/src/pred/history/), the branch target buffer, gshare and
  the return address stack (src/src/pred/bp/).  The interface BP of src/inc/pred/bp/bp.h is a locale; each
  predictor is an interpretation of it.
\<close>

section \<open>Helpers of common.h\<close>

text \<open>ceil (log2 x) for a positive x.\<close>

fun clog2 :: "nat \<Rightarrow> nat" where
  "clog2 x = (if x \<le> 1 then 0 else Suc (clog2 ((x + 1) div 2)))"

declare clog2.simps [simp del]

lemma clog2_bound: "x \<le> 2 ^ clog2 x"
proof (induction x rule: clog2.induct)
  case (1 x)
  then show ?case by (subst clog2.simps) (cases "x \<le> 1", auto)
qed

lemma clog2_power [simp]: "clog2 (2 ^ k) = k"
proof (induction k)
  case (Suc k)
  have "(2 ^ Suc k + 1) div 2 = (2 :: nat) ^ k" by simp
  moreover have "\<not> 2 ^ Suc k \<le> (1 :: nat)" using one_less_power [of "2 :: nat" "Suc k"] by simp
  ultimately show ?case using Suc by (subst clog2.simps) simp
qed (simp add: clog2.simps)

text \<open>The saturating counter; below_min and above_max are 0 or 1.\<close>

definition updateCounter :: "int \<Rightarrow> bool \<Rightarrow> u32 \<Rightarrow> int \<Rightarrow> int \<Rightarrow> int" where
  "updateCounter old_val taken cmask lo hi =
    (let taken_val = 2 * of_bool taken - 1; new_val = old_val + taken_val;
         below_min = of_bool (new_val < lo);
         new_val = (new_val AND NOT (- below_min)) OR (lo AND (- below_min));
         above_max = of_bool (new_val > hi)
     in (new_val AND NOT (- above_max)) OR (hi AND (- above_max)))"

lemma updateCounter_clamp:
  "lo \<le> hi \<Longrightarrow> updateCounter v taken m lo hi = min hi (max lo (if taken then v + 1 else v - 1))"
  by (auto simp: updateCounter_def Let_def min_def max_def)

section \<open>Global history\<close>

text \<open>
  The bit set, latest outcome first; it has at least one bit.  idx counts the conditional branches and
  is what the meta data of a prediction holds.
\<close>

record ghr =
  ghr_bits :: "bool list"
  ghr_idx :: u32

definition ghr_afterLoad :: "nat \<Rightarrow> ghr \<Rightarrow> ghr" where
  "ghr_afterLoad n g = g\<lparr> ghr_bits := take n (ghr_bits g @ replicate n False) \<rparr>"

text \<open>Shift to the right by the number of branches taken back; a negative int becomes a huge size and clears all bits.\<close>

definition ghr_shift :: "u64 \<Rightarrow> bool list \<Rightarrow> bool list" where
  "ghr_shift n bs = (if length bs \<le> unat n then replicate (length bs) False
     else drop (unat n) bs @ replicate (unat n) False)"

definition ghr_update :: "bool \<Rightarrow> bool \<Rightarrow> inst_type \<Rightarrow> u32 \<Rightarrow> ghr \<Rightarrow> ghr" where
  "ghr_update speculative real_taken type meta g =
    (let type_cond = (type = T_COND);
         g = (if \<not> speculative
              then g\<lparr> ghr_idx := meta, ghr_bits := ghr_shift (scast (ghr_idx g - meta)) (ghr_bits g) \<rparr> else g)
     in if type_cond
        then g\<lparr> ghr_bits := take (length (ghr_bits g)) (real_taken # ghr_bits g), ghr_idx := ghr_idx g + 1 \<rparr>
        else g)"

definition ghr_getLatest :: "ghr \<Rightarrow> bool" where
  "ghr_getLatest g = ghr_bits g ! 0"

definition ghr_get :: "u32 \<Rightarrow> ghr \<Rightarrow> bool" where
  "ghr_get i g = ghr_bits g ! unat i"

definition ghr_getMeta :: "ghr \<Rightarrow> u32" where
  "ghr_getMeta g = ghr_idx g"

text \<open>to_ulong throws when a bit that does not fit is set.\<close>

definition ghr_getLatestBlock :: "ghr \<Rightarrow> u64 res" where
  "ghr_getLatestBlock g =
    (if \<exists>b \<in> set (drop 64 (ghr_bits g)). b then Inl (ExitCalled ''std::overflow_error'')
     else Inr (horner_sum of_bool 2 (take 64 (ghr_bits g))))"

lemma ghr_update_length [simp]: "length (ghr_bits (ghr_update sp t ty m g)) = length (ghr_bits g)"
  by (auto simp: ghr_update_def ghr_shift_def Let_def)

fun speculate :: "bool list \<Rightarrow> ghr \<Rightarrow> ghr" where
  "speculate [] g = g"
| "speculate (b # bs) g = speculate bs (ghr_update True b T_COND 0 g)"

lemma speculate_bits:
  "ghr_bits (speculate bs g) = take (length (ghr_bits g)) (rev bs @ ghr_bits g) \<and>
   ghr_idx (speculate bs g) = ghr_idx g + of_nat (length bs)"
proof (induction bs arbitrary: g)
  case (Cons b bs)
  show ?case
    using Cons.IH [of "ghr_update True b T_COND 0 g"]
    by (simp add: ghr_update_def Let_def take_append take_drop min_def)
qed simp

text \<open>
  A redirect takes back every branch predicted since: up to the oldest bits, which have fallen out, the
  history is again what it was, with the real outcome put in for a conditional branch.
\<close>

lemma recover:
  assumes "length bs < length (ghr_bits g)" "length bs < 2 ^ 31"
  shows "ghr_update False t T_INT (ghr_getMeta g) (speculate bs g) =
    g\<lparr> ghr_bits := take (length (ghr_bits g) - length bs) (ghr_bits g) @ replicate (length bs) False \<rparr>"
proof -
  let ?n = "length bs"
  have "(of_nat ?n :: u32) = of_int (int ?n)" by simp
  then have "sint (of_nat ?n :: u32) = int ?n"
    using assms(2) by (simp add: signed_of_nat signed_take_bit_int_eq_self)
  then have "(scast (of_nat ?n :: u32) :: u64) = of_nat ?n" by (simp add: scast_eq)
  moreover have "unat (of_nat ?n :: u64) = ?n" using assms(2) by (simp add: unat_of_nat)
  moreover have "drop ?n (take (length (ghr_bits g)) (rev bs @ ghr_bits g)) = take (length (ghr_bits g) - ?n) (ghr_bits g)"
    using assms(1) by (simp add: drop_take)
  ultimately show ?thesis
    using assms(1) speculate_bits [of bs g]
    by (simp add: ghr_update_def ghr_getMeta_def ghr_shift_def Let_def)
qed

section \<open>Streams and meta data\<close>

record branch_stream =
  st_type :: inst_type
  st_taken :: bool
  st_indv :: bool
  st_rasv :: bool
  st_size :: u32
  st_pc :: u64
  st_target :: u64
  st_ind_target :: u64
  st_ras_target :: u64

text \<open>The meta data of the three predictors; each uses its own fields.\<close>

record bp_meta =
  m_tag :: u64
  m_index :: u32
  m_hit :: bool
  m_idx :: u32
  m_ghr :: u32
  m_top :: u32

section \<open>Branch target buffer\<close>

record btb_entry =
  e_valid :: bool
  e_tag :: u64
  e_target :: u64

record btb =
  b_table_size :: nat
  b_tag_size :: nat
  b_offset :: nat
  b_table :: "btb_entry list"
  b_tag_mask :: u64
  b_index_mask :: u64
  b_tag_shift :: nat

definition mask_int :: "nat \<Rightarrow> u64" where
  "mask_int n = scast (push_bit n 1 - 1 :: u32)"

definition btb_afterLoad :: "btb \<Rightarrow> btb" where
  "btb_afterLoad b = b\<lparr> b_table := replicate (b_table_size b) \<lparr> e_valid = False, e_tag = 0, e_target = 0 \<rparr>,
     b_tag_mask := mask_int (b_tag_size b), b_tag_shift := b_offset b + clog2 (b_table_size b),
     b_index_mask := mask_int (clog2 (b_table_size b)) \<rparr>"

definition getIndexTag :: "btb \<Rightarrow> u64 \<Rightarrow> u64 \<times> u32" where
  "getIndexTag b pc = (drop_bit (b_tag_shift b) pc AND b_tag_mask b, ucast (drop_bit (b_offset b) pc AND b_index_mask b))"

definition btb_predict :: "branch_stream \<Rightarrow> bp_meta \<Rightarrow> btb \<Rightarrow> (branch_stream \<times> bp_meta) res" where
  "btb_predict st m b =
    (let (t, i) = getIndexTag b (st_pc st); m = m\<lparr> m_tag := t, m_index := i \<rparr> in
     if unat i < length (b_table b)
     then let e = b_table b ! unat i; m = m\<lparr> m_hit := e_valid e \<and> e_tag e = t \<rparr> in
          Inr (if m_hit m then st\<lparr> st_target := e_target e \<rparr> else st\<lparr> st_size := 4 \<rparr>, m)
     else Inl OutOfBounds)"

definition is_branch :: "inst_type \<Rightarrow> bool" where
  "is_branch t \<longleftrightarrow> t \<in> {T_COND, T_DIRECT, T_PUSH, T_INDIRECT, T_IND_CALL, T_IND_PUSH, T_POP, T_POP_PUSH}"

definition btb_update :: "u64 \<Rightarrow> u64 \<Rightarrow> inst_type \<Rightarrow> btb \<Rightarrow> btb res" where
  "btb_update pc target type b =
    (if is_branch type
     then let (t, i) = getIndexTag b pc in
          if unat i < length (b_table b)
          then Inr (b\<lparr> b_table := (b_table b)[unat i := \<lparr> e_valid = True, e_tag = t, e_target = target \<rparr>] \<rparr>)
          else Inl OutOfBounds
     else Inr b)"

section \<open>gshare\<close>

record gshare =
  g_table_size :: nat
  g_bit_size :: nat
  g_offset :: nat
  g_hist_bits :: nat
  g_table :: "int list"
  g_table_pc_mask :: u64
  g_min :: int
  g_max :: int
  g_hist_mask :: u32
  g_counter_mask :: u32

definition gshare_afterLoad :: "gshare \<Rightarrow> gshare" where
  "gshare_afterLoad g = g\<lparr> g_table := replicate (g_table_size g) 0,
     g_table_pc_mask := mask_int (clog2 (g_table_size g)), g_max := 2 ^ g_bit_size g - 1,
     g_counter_mask := push_bit (g_bit_size g + 1) 1 - 1, g_min := - (2 ^ g_bit_size g - 1) - 1,
     g_hist_mask := push_bit (g_hist_bits g) 1 - 1 \<rparr>"

definition gshare_index :: "gshare \<Rightarrow> u64 \<Rightarrow> u32 \<Rightarrow> u32" where
  "gshare_index g pc ghist =
    ucast ((drop_bit (g_offset g) (pc AND g_table_pc_mask g) XOR ucast ghist) AND g_table_pc_mask g)"

definition gshare_predict :: "ghr \<Rightarrow> branch_stream \<Rightarrow> bp_meta \<Rightarrow> gshare \<Rightarrow> (branch_stream \<times> bp_meta) res" where
  "gshare_predict h st m g =
    (if st_type st = T_COND
     then rbind (ghr_getLatestBlock h) (\<lambda>block.
       let ghist = ucast (block AND ucast (g_hist_mask g)); m = m\<lparr> m_idx := gshare_index g (st_pc st) ghist, m_ghr := ghist \<rparr> in
       if unat (m_idx m) < length (g_table g)
       then Inr (st\<lparr> st_taken := 0 \<le> g_table g ! unat (m_idx m) \<rparr>, m)
       else Inl OutOfBounds)
     else Inr (st, m))"

text \<open>The table holds int8_t.\<close>

definition gshare_update :: "bool \<Rightarrow> u64 \<Rightarrow> inst_type \<Rightarrow> bp_meta \<Rightarrow> gshare \<Rightarrow> gshare res" where
  "gshare_update real_taken pc type m g =
    (if type = T_COND
     then let idx = gshare_index g pc (m_ghr m) in
          if unat idx < length (g_table g)
          then Inr (g\<lparr> g_table := (g_table g)[unat idx := signed_take_bit 7
                 (updateCounter (g_table g ! unat idx) real_taken (g_counter_mask g) (g_min g) (g_max g))] \<rparr>)
          else Inl OutOfBounds
     else Inr g)"

section \<open>Return address stack\<close>

record ras =
  r_size :: nat
  r_stack :: "u64 list"
  r_top :: u32

text \<open>The array comes uninitialised from new.\<close>

definition ras_afterLoad :: "u64 list \<Rightarrow> ras \<Rightarrow> ras" where
  "ras_afterLoad mem r = r\<lparr> r_stack := take (r_size r) mem, r_top := 0 \<rparr>"

definition below_top :: "nat \<Rightarrow> u32 \<Rightarrow> u32" where
  "below_top sz t = (if t = 0 then of_nat sz - 1 else t - 1)"

definition push_at :: "u32 \<Rightarrow> u64 \<Rightarrow> ras \<Rightarrow> ras res" where
  "push_at i v r = (if unat i < length (r_stack r) then Inr (r\<lparr> r_stack := (r_stack r)[unat i := v] \<rparr>) else Inl OutOfBounds)"

definition read_at :: "u32 \<Rightarrow> ras \<Rightarrow> u64 res" where
  "read_at i r = (if unat i < length (r_stack r) then Inr (r_stack r ! unat i) else Inl OutOfBounds)"

definition next_top :: "nat \<Rightarrow> u32 \<Rightarrow> u32 res" where
  "next_top sz t = (if of_nat sz = (0 :: u32) then Inl ArithTrap else Inr ((t + 1) mod of_nat sz))"

text \<open>In predict, size is the member: the number of entries is added to the pc.\<close>

definition ras_predict :: "branch_stream \<Rightarrow> bp_meta \<Rightarrow> ras \<Rightarrow> (branch_stream \<times> bp_meta \<times> ras) res" where
  "ras_predict st m r =
    (let m = m\<lparr> m_top := r_top r \<rparr>; st = st\<lparr> st_rasv := True \<rparr>; ret = st_pc st + of_nat (r_size r) in
     if st_type st = T_POP_PUSH
     then let i = below_top (r_size r) (r_top r) in
          rbind (read_at i r) (\<lambda>v. rbind (push_at i ret r) (\<lambda>r. Inr (st\<lparr> st_ras_target := v \<rparr>, m, r)))
     else if st_type st = T_PUSH \<or> st_type st = T_IND_PUSH
     then rbind (push_at (r_top r) ret r) (\<lambda>r. rbind (next_top (r_size r) (r_top r)) (\<lambda>t. Inr (st, m, r\<lparr> r_top := t \<rparr>)))
     else if st_type st = T_POP
     then let r = r\<lparr> r_top := below_top (r_size r) (r_top r) \<rparr> in
          rbind (read_at (r_top r) r) (\<lambda>v. Inr (st\<lparr> st_ras_target := v \<rparr>, m, r))
     else Inr (st, m, r))"

text \<open>In redirect, size is the parameter: the size of the instruction is taken for the number of entries.\<close>

definition ras_redirect :: "u64 \<Rightarrow> nat \<Rightarrow> inst_type \<Rightarrow> bp_meta \<Rightarrow> ras \<Rightarrow> ras res" where
  "ras_redirect pc sz type m r =
    (let r = r\<lparr> r_top := m_top m \<rparr> in
     if type = T_POP_PUSH then push_at (below_top sz (r_top r)) (pc + of_nat sz) r
     else if type = T_PUSH \<or> type = T_IND_PUSH
     then rbind (push_at (r_top r) (pc + of_nat sz) r) (\<lambda>r. rbind (next_top sz (r_top r)) (\<lambda>t. Inr (r\<lparr> r_top := t \<rparr>)))
     else if type = T_POP then Inr (r\<lparr> r_top := below_top sz (r_top r) \<rparr>)
     else Inr r)"

section \<open>The interface BP\<close>

text \<open>
  A predictor behind the virtual functions predict, update and redirect.  inv is what the predictor needs
  of its tables, meta_ok what it needs of meta data it gets back: no call fails and both are kept; the
  stream keeps the pc and the type of the instruction.  Instructions have 2 or 4 bytes, and the history
  fits into a word.
\<close>

locale branch_predictor =
  fixes predict :: "ghr \<Rightarrow> branch_stream \<Rightarrow> bp_meta \<Rightarrow> 'b \<Rightarrow> (branch_stream \<times> bp_meta \<times> 'b) res"
    and update :: "bool \<Rightarrow> u64 \<Rightarrow> u64 \<Rightarrow> inst_type \<Rightarrow> bp_meta \<Rightarrow> 'b \<Rightarrow> 'b res"
    and redirect :: "u64 \<Rightarrow> nat \<Rightarrow> inst_type \<Rightarrow> bp_meta \<Rightarrow> 'b \<Rightarrow> 'b res"
    and inv :: "'b \<Rightarrow> bool" and meta_ok :: "'b \<Rightarrow> bp_meta \<Rightarrow> bool"
  assumes predict_ok: "inv b \<Longrightarrow> length (ghr_bits h) \<le> 64 \<Longrightarrow> \<exists>st' m' b'. predict h st m b = Inr (st', m', b') \<and>
      inv b' \<and> meta_ok b' m' \<and> (\<forall>m. meta_ok b m \<longrightarrow> meta_ok b' m) \<and> st_type st' = st_type st \<and> st_pc st' = st_pc st"
    and update_ok: "inv b \<Longrightarrow> \<exists>b'. update t pc target ty m b = Inr b' \<and> inv b' \<and> meta_ok b' = meta_ok b"
    and redirect_ok: "inv b \<Longrightarrow> meta_ok b m \<Longrightarrow> sz = 2 \<or> sz = 4 \<Longrightarrow>
      \<exists>b'. redirect pc sz ty m b = Inr b' \<and> inv b' \<and> meta_ok b' = meta_ok b"

text \<open>The loops of the predictor over its components.\<close>

fun predict_all :: "(ghr \<Rightarrow> branch_stream \<Rightarrow> bp_meta \<Rightarrow> 'b \<Rightarrow> (branch_stream \<times> bp_meta \<times> 'b) res) \<Rightarrow> ghr \<Rightarrow>
    branch_stream \<Rightarrow> bp_meta list \<Rightarrow> 'b list \<Rightarrow> (branch_stream \<times> bp_meta list \<times> 'b list) res" where
  "predict_all f h st (m # ms) (b # bs) = rbind (f h st m b) (\<lambda>(st, m, b).
     rbind (predict_all f h st ms bs) (\<lambda>(st, ms, bs). Inr (st, m # ms, b # bs)))"
| "predict_all f h st ms bs = Inr (st, ms, bs)"

fun each_bp :: "(bp_meta \<Rightarrow> 'b \<Rightarrow> 'b res) \<Rightarrow> bp_meta list \<Rightarrow> 'b list \<Rightarrow> 'b list res" where
  "each_bp f (m # ms) (b # bs) = rbind (f m b) (\<lambda>b. rbind (each_bp f ms bs) (\<lambda>bs. Inr (b # bs)))"
| "each_bp f ms bs = Inr bs"

context branch_predictor
begin

lemma predict_all_ok:
  assumes "list_all inv bs" "length ms = length bs" "length (ghr_bits h) \<le> 64"
  shows "\<exists>st' ms' bs'. predict_all predict h st ms bs = Inr (st', ms', bs') \<and> list_all inv bs' \<and>
    list_all2 meta_ok bs' ms' \<and> (\<forall>ns. list_all2 meta_ok bs ns \<longrightarrow> list_all2 meta_ok bs' ns) \<and>
    length bs' = length bs \<and> st_type st' = st_type st \<and> st_pc st' = st_pc st"
  using assms(1,2)
proof (induction bs arbitrary: ms st)
  case (Cons b bs)
  then obtain m ms0 where ms: "ms = m # ms0" by (cases ms) auto
  obtain st1 m1 b1 where 1: "predict h st m b = Inr (st1, m1, b1)" "inv b1" "meta_ok b1 m1"
    "\<forall>m. meta_ok b m \<longrightarrow> meta_ok b1 m" "st_type st1 = st_type st" "st_pc st1 = st_pc st"
    using predict_ok [OF _ assms(3), of b st m] Cons.prems by auto
  obtain st2 ms2 bs2 where 2: "predict_all predict h st1 ms0 bs = Inr (st2, ms2, bs2)" "list_all inv bs2"
    "list_all2 meta_ok bs2 ms2" "\<forall>ns. list_all2 meta_ok bs ns \<longrightarrow> list_all2 meta_ok bs2 ns" "length bs2 = length bs"
    "st_type st2 = st_type st1" "st_pc st2 = st_pc st1"
    using Cons.IH [of ms0 st1] Cons.prems ms by auto
  have "\<forall>ns. list_all2 meta_ok (b # bs) ns \<longrightarrow> list_all2 meta_ok (b1 # bs2) ns"
    using 1(4) 2(4) by (auto simp: list_all2_Cons1)
  then show ?case using 1 2 ms by simp
qed simp

lemma update_all_ok:
  assumes "list_all inv bs" "list_all2 meta_ok bs ms"
  shows "\<exists>bs'. each_bp (update t pc target ty) ms bs = Inr bs' \<and> list_all inv bs' \<and> map meta_ok bs' = map meta_ok bs"
  using assms
proof (induction bs arbitrary: ms)
  case (Cons b bs)
  then obtain m ms0 where ms: "ms = m # ms0" "list_all2 meta_ok bs ms0" by (auto simp: list_all2_Cons1)
  obtain b1 where "update t pc target ty m b = Inr b1" "inv b1" "meta_ok b1 = meta_ok b"
    using update_ok [of b t pc target ty m] Cons.prems by auto
  moreover obtain bs1 where "each_bp (update t pc target ty) ms0 bs = Inr bs1" "list_all inv bs1"
    "map meta_ok bs1 = map meta_ok bs"
    using Cons.IH [OF _ ms(2)] Cons.prems by auto
  ultimately show ?case by (simp add: ms)
qed simp

lemma redirect_all_ok:
  assumes "list_all inv bs" "list_all2 meta_ok bs ms" "sz = 2 \<or> sz = 4"
  shows "\<exists>bs'. each_bp (redirect pc sz ty) ms bs = Inr bs' \<and> list_all inv bs' \<and> map meta_ok bs' = map meta_ok bs"
  using assms(1,2)
proof (induction bs arbitrary: ms)
  case (Cons b bs)
  then obtain m ms0 where ms: "ms = m # ms0" "list_all2 meta_ok bs ms0" "meta_ok b m" by (auto simp: list_all2_Cons1)
  obtain b1 where "redirect pc sz ty m b = Inr b1" "inv b1" "meta_ok b1 = meta_ok b"
    using redirect_ok [OF _ ms(3) assms(3)] Cons.prems by auto
  moreover obtain bs1 where "each_bp (redirect pc sz ty) ms0 bs = Inr bs1" "list_all inv bs1"
    "map meta_ok bs1 = map meta_ok bs"
    using Cons.IH [OF _ ms(2)] Cons.prems by auto
  ultimately show ?case by (simp add: ms)
qed simp

lemma metas_cong: "map meta_ok bs' = map meta_ok bs \<Longrightarrow> list_all2 meta_ok bs' ms = list_all2 meta_ok bs ms"
proof (induction bs' arbitrary: bs ms)
  case (Cons b bs')
  then obtain c cs where c: "bs = c # cs" "meta_ok b = meta_ok c" "map meta_ok bs' = map meta_ok cs" by auto
  show ?case using c(1,2) Cons.IH [OF c(3)] by (simp add: list_all2_Cons1)
qed simp

end

section \<open>The three predictors and the table of virtual functions\<close>

datatype bp = BP_BTB btb | BP_GShare gshare | BP_RAS ras

fun bp_predict :: "ghr \<Rightarrow> branch_stream \<Rightarrow> bp_meta \<Rightarrow> bp \<Rightarrow> (branch_stream \<times> bp_meta \<times> bp) res" where
  "bp_predict h st m (BP_BTB b) = rbind (btb_predict st m b) (\<lambda>(st, m). Inr (st, m, BP_BTB b))"
| "bp_predict h st m (BP_GShare g) = rbind (gshare_predict h st m g) (\<lambda>(st, m). Inr (st, m, BP_GShare g))"
| "bp_predict h st m (BP_RAS r) = rbind (ras_predict st m r) (\<lambda>(st, m, r). Inr (st, m, BP_RAS r))"

fun bp_update :: "bool \<Rightarrow> u64 \<Rightarrow> u64 \<Rightarrow> inst_type \<Rightarrow> bp_meta \<Rightarrow> bp \<Rightarrow> bp res" where
  "bp_update t pc target ty m (BP_BTB b) = rbind (btb_update pc target ty b) (\<lambda>b. Inr (BP_BTB b))"
| "bp_update t pc target ty m (BP_GShare g) = rbind (gshare_update t pc ty m g) (\<lambda>g. Inr (BP_GShare g))"
| "bp_update t pc target ty m (BP_RAS r) = Inr (BP_RAS r)"

fun bp_redirect :: "u64 \<Rightarrow> nat \<Rightarrow> inst_type \<Rightarrow> bp_meta \<Rightarrow> bp \<Rightarrow> bp res" where
  "bp_redirect pc sz ty m (BP_RAS r) = rbind (ras_redirect pc sz ty m r) (\<lambda>r. Inr (BP_RAS r))"
| "bp_redirect pc sz ty m b = Inr b"

text \<open>Tables of a power of two.\<close>

definition btb_ok :: "btb \<Rightarrow> bool" where
  "btb_ok b \<longleftrightarrow> (\<exists>k \<le> 30. length (b_table b) = 2 ^ k \<and> b_index_mask b = mask_int k)"

definition gshare_ok :: "gshare \<Rightarrow> bool" where
  "gshare_ok g \<longleftrightarrow> (\<exists>k \<le> 30. length (g_table g) = 2 ^ k \<and> g_table_pc_mask g = mask_int k)"

definition ras_ok :: "ras \<Rightarrow> bool" where
  "ras_ok r \<longleftrightarrow> 4 \<le> r_size r \<and> r_size r < 2 ^ 31 \<and> length (r_stack r) = r_size r \<and> unat (r_top r) < r_size r"

lemma mask_int_mask: "k \<le> 30 \<Longrightarrow> mask_int k = mask k"
proof -
  assume k: "k \<le> 30"
  have "(push_bit k 1 - 1 :: u32) = mask k" by (simp add: mask_eq_exp_minus_1 push_bit_eq_mult)
  moreover have "(scast (mask k :: u32) :: u64) = mask k"
    using k by (intro bit_word_eqI) (auto simp: bit_simps min_def)
  ultimately show ?thesis by (simp add: mask_int_def)
qed

lemma masked_index: "k \<le> 30 \<Longrightarrow> unat (ucast (x AND mask_int k) :: u32) < 2 ^ k" for x :: u64
proof -
  assume k: "k \<le> 30"
  have "(ucast (x AND mask k) :: u32) = take_bit k (ucast x)"
    using k by (intro bit_word_eqI) (auto simp: bit_simps)
  then show ?thesis using k by (simp add: mask_int_mask unsigned_take_bit_eq)
qed

lemma btb_index: "btb_ok b \<Longrightarrow> getIndexTag b pc = (t, i) \<Longrightarrow> unat i < length (b_table b)"
  using masked_index by (auto simp: btb_ok_def getIndexTag_def)

lemma gshare_index_ok: "gshare_ok g \<Longrightarrow> unat (gshare_index g pc h) < length (g_table g)"
  using masked_index by (auto simp: gshare_ok_def gshare_index_def)

lemma btb_afterLoad_ok: "b_table_size b = 2 ^ k \<Longrightarrow> k \<le> 30 \<Longrightarrow> btb_ok (btb_afterLoad b)"
  by (auto simp: btb_ok_def btb_afterLoad_def)

lemma gshare_afterLoad_ok: "g_table_size g = 2 ^ k \<Longrightarrow> k \<le> 30 \<Longrightarrow> gshare_ok (gshare_afterLoad g)"
  by (auto simp: gshare_ok_def gshare_afterLoad_def)

lemma ras_afterLoad_ok:
  "4 \<le> r_size r \<Longrightarrow> r_size r < 2 ^ 31 \<Longrightarrow> r_size r \<le> length mem \<Longrightarrow> ras_ok (ras_afterLoad mem r)"
  by (simp add: ras_ok_def ras_afterLoad_def)

section \<open>Each predictor keeps the interface\<close>

interpretation btb: branch_predictor
  "\<lambda>h st m b. rbind (btb_predict st m b) (\<lambda>(st, m). Inr (st, m, b))" "\<lambda>t pc target ty m b. btb_update pc target ty b"
  "\<lambda>pc sz ty m b. Inr b" btb_ok "\<lambda>b m. True"
proof (unfold_locales, goal_cases)
  case (1 b h st m)
  obtain t i where ti: "getIndexTag b (st_pc st) = (t, i)" by fastforce
  then show ?case using btb_index [OF 1(1) ti] 1(1) by (simp add: btb_predict_def Let_def)
next
  case (2 b t pc target ty m)
  obtain tg i where ti: "getIndexTag b pc = (tg, i)" by fastforce
  then show ?case using btb_index [OF 2 ti] 2 by (simp add: btb_update_def btb_ok_def)
qed simp

lemma block_ok: "length (ghr_bits h) \<le> 64 \<Longrightarrow> \<exists>v. ghr_getLatestBlock h = Inr v"
  by (simp add: ghr_getLatestBlock_def)

interpretation gshare: branch_predictor
  "\<lambda>h st m g. rbind (gshare_predict h st m g) (\<lambda>(st, m). Inr (st, m, g))" "\<lambda>t pc target ty m g. gshare_update t pc ty m g"
  "\<lambda>pc sz ty m g. Inr g" gshare_ok "\<lambda>g m. True"
proof (unfold_locales, goal_cases)
  case (1 g h st m)
  obtain v where "ghr_getLatestBlock h = Inr v" using block_ok [OF 1(2)] by blast
  then show ?case using gshare_index_ok [OF 1(1)] 1(1) by (simp add: gshare_predict_def Let_def)
next
  case (2 g t pc target ty m)
  then show ?case using gshare_index_ok [OF 2] by (simp add: gshare_update_def Let_def gshare_ok_def)
qed simp

lemma below_top_ok: "0 < n \<Longrightarrow> n < 2 ^ 31 \<Longrightarrow> unat t < n \<Longrightarrow> unat (below_top n t) < n"
proof -
  assume a: "0 < n" "n < 2 ^ 31" "unat t < n"
  have n: "unat (of_nat n :: u32) = n" using a(2) by (simp add: unat_of_nat)
  show ?thesis
  proof (cases "t = 0")
    case True
    have "(of_nat n :: u32) \<noteq> 0" using n a(1) by auto
    then show ?thesis using n a(1) True by (simp add: below_top_def unat_minus_one)
  next
    case False
    then show ?thesis using a(3) by (simp add: below_top_def unat_minus_one)
  qed
qed

lemma next_top_ok:
  assumes "0 < n" "n < 2 ^ 31"
  shows "\<exists>t'. next_top n t = Inr t' \<and> unat t' < n"
proof -
  have n: "unat (of_nat n :: u32) = n" using assms(2) by (simp add: unat_of_nat)
  then have "(of_nat n :: u32) \<noteq> 0" using assms(1) by auto
  then show ?thesis using n assms(1) by (simp add: next_top_def unat_mod)
qed

lemma ras_push: "ras_ok r \<Longrightarrow> unat i < r_size r \<Longrightarrow> \<exists>l. push_at i v r = Inr (r\<lparr> r_stack := l \<rparr>) \<and> ras_ok (r\<lparr> r_stack := l \<rparr>)"
  by (rule exI [of _ "(r_stack r)[unat i := v]"]) (simp add: push_at_def ras_ok_def)

lemma ras_top: "ras_ok r \<Longrightarrow> unat t < r_size r \<Longrightarrow> ras_ok (r\<lparr> r_top := t \<rparr>)"
  by (simp add: ras_ok_def)

text \<open>
  The return address stack too, but only since it has at least as many entries as an instruction has
  bytes: redirect computes the next top with the instruction size.
\<close>

interpretation ras: branch_predictor
  "\<lambda>h. ras_predict" "\<lambda>t pc target ty m r. Inr r" ras_redirect ras_ok "\<lambda>r m. unat (m_top m) < r_size r"
proof (unfold_locales, goal_cases)
  case (1 r h st m)
  have r: "0 < r_size r" "r_size r < 2 ^ 31" "unat (r_top r) < r_size r" "length (r_stack r) = r_size r"
    using 1(1) by (auto simp: ras_ok_def)
  let ?i = "below_top (r_size r) (r_top r)" and ?v = "st_pc st + of_nat (r_size r)"
  have i: "unat ?i < r_size r" using below_top_ok r by blast
  obtain l where l: "push_at ?i ?v r = Inr (r\<lparr> r_stack := l \<rparr>)" "ras_ok (r\<lparr> r_stack := l \<rparr>)" using ras_push [OF 1(1) i] by blast
  obtain k where k: "push_at (r_top r) ?v r = Inr (r\<lparr> r_stack := k \<rparr>)" "ras_ok (r\<lparr> r_stack := k \<rparr>)"
    using ras_push [OF 1(1) r(3)] by blast
  obtain t where t: "next_top (r_size r) (r_top r) = Inr t" "unat t < r_size r" using next_top_ok r by blast
  show ?case
    using l k t r i 1(1) ras_top [OF k(2), of t] ras_top [OF 1(1) i]
    by (simp add: ras_predict_def Let_def read_at_def)
next
  case (3 r m sz pc ty)
  let ?r = "r\<lparr> r_top := m_top m \<rparr>"
  have r: "ras_ok ?r" "0 < sz" "sz < 2 ^ 31" "sz \<le> r_size r" "unat (m_top m) < r_size r" "r_size ?r = r_size r"
    using 3 by (auto simp: ras_ok_def)
  obtain t where t: "next_top sz (m_top m) = Inr t" "unat t < r_size r" using next_top_ok [OF r(2,3)] r(4) by fastforce
  have i: "unat (below_top sz (m_top m)) < r_size r"
  proof (cases "m_top m = 0")
    case True
    then show ?thesis using below_top_ok [OF r(2,3), of 0] r by simp
  next
    case False
    then show ?thesis using r(5) by (simp add: below_top_def unat_minus_one)
  qed
  obtain l where l: "push_at (below_top sz (m_top m)) (pc + of_nat sz) ?r = Inr (?r\<lparr> r_stack := l \<rparr>)"
    "ras_ok (?r\<lparr> r_stack := l \<rparr>)"
    using ras_push [OF r(1)] i r(6) by metis
  obtain k where k: "push_at (m_top m) (pc + of_nat sz) ?r = Inr (?r\<lparr> r_stack := k \<rparr>)" "ras_ok (?r\<lparr> r_stack := k \<rparr>)"
    using ras_push [OF r(1)] r(5,6) by metis
  show ?case
    using l k t r(1) i ras_top [OF k(2), of t] ras_top [OF r(1), of "below_top sz (m_top m)"] r(6)
    by (simp add: ras_redirect_def Let_def)
qed simp

fun bp_ok :: "bp \<Rightarrow> bool" where
  "bp_ok (BP_BTB b) = btb_ok b" | "bp_ok (BP_GShare g) = gshare_ok g" | "bp_ok (BP_RAS r) = ras_ok r"

fun bp_meta_ok :: "bp \<Rightarrow> bp_meta \<Rightarrow> bool" where
  "bp_meta_ok (BP_RAS r) m = (unat (m_top m) < r_size r)"
| "bp_meta_ok b m = True"

interpretation bp: branch_predictor bp_predict bp_update bp_redirect bp_ok bp_meta_ok
proof (unfold_locales, goal_cases)
  case (1 b h st m)
  show ?case
  proof (cases b)
    case (BP_BTB x)
    then show ?thesis using btb.predict_ok [of x h st m] 1 by (auto simp: rbind_assoc rbind_eq_Inr case_prod_beta)
  next
    case (BP_GShare x)
    then show ?thesis using gshare.predict_ok [of x h st m] 1 by (auto simp: rbind_assoc rbind_eq_Inr case_prod_beta)
  next
    case (BP_RAS x)
    then show ?thesis using ras.predict_ok [of x h st m] 1 by auto
  qed
next
  case (2 b t pc target ty m)
  show ?case
  proof (cases b)
    case (BP_BTB x)
    then show ?thesis using btb.update_ok [of x pc target ty] 2 by (auto simp: fun_eq_iff)
  next
    case (BP_GShare x)
    then show ?thesis using gshare.update_ok [of x t pc ty m] 2 by (auto simp: fun_eq_iff)
  qed (use 2 in simp)
next
  case (3 b m sz pc ty)
  show ?case
  proof (cases b)
    case (BP_RAS x)
    then show ?thesis using ras.redirect_ok [of x m sz pc ty] 3 by (fastforce simp: fun_eq_iff)
  qed (use 3 in simp_all)
qed

section \<open>What they predict\<close>

text \<open>gshare: the counters keep their range, and a branch that was taken often enough is predicted taken.\<close>

definition counters_ok :: "gshare \<Rightarrow> bool" where
  "counters_ok g \<longleftrightarrow> g_bit_size g \<le> 7 \<and> g_max g = 2 ^ g_bit_size g - 1 \<and> g_min g = - (2 ^ g_bit_size g) \<and>
     (\<forall>v \<in> set (g_table g). g_min g \<le> v \<and> v \<le> g_max g)"

lemma gshare_afterLoad_counters: "g_bit_size g \<le> 7 \<Longrightarrow> counters_ok (gshare_afterLoad g)"
  by (auto simp: counters_ok_def gshare_afterLoad_def)

lemma int8_id: "n \<le> 7 \<Longrightarrow> - (2 ^ n) \<le> v \<Longrightarrow> v \<le> 2 ^ n - 1 \<Longrightarrow> signed_take_bit 7 v = (v :: int)"
proof -
  assume n: "n \<le> 7" and v: "- (2 ^ n) \<le> v" "v \<le> 2 ^ n - 1"
  have "(2 :: int) ^ n \<le> 2 ^ 7" using n by (intro power_increasing) auto
  then show ?thesis using v by (intro signed_take_bit_int_eq_self) auto
qed

lemma update_counter:
  assumes "gshare_ok g" "counters_ok g"
  shows "\<exists>g'. gshare_update t pc T_COND m g = Inr g' \<and> gshare_ok g' \<and> counters_ok g' \<and>
    g' = g\<lparr> g_table := (g_table g)[unat (gshare_index g pc (m_ghr m)) :=
      min (g_max g) (max (g_min g) (if t then g_table g ! unat (gshare_index g pc (m_ghr m)) + 1
                                    else g_table g ! unat (gshare_index g pc (m_ghr m)) - 1))] \<rparr>"
proof -
  let ?i = "unat (gshare_index g pc (m_ghr m))"
  let ?v = "if t then g_table g ! ?i + 1 else g_table g ! ?i - 1"
  have i: "?i < length (g_table g)" by (rule gshare_index_ok [OF assms(1)])
  have mm: "g_min g \<le> g_max g" using assms(2) by (simp add: counters_ok_def)
  then have r: "g_min g \<le> min (g_max g) (max (g_min g) ?v)" "min (g_max g) (max (g_min g) ?v) \<le> g_max g" by auto
  then have "signed_take_bit 7 (min (g_max g) (max (g_min g) ?v)) = min (g_max g) (max (g_min g) ?v)"
    using assms(2) by (intro int8_id [of "g_bit_size g"]) (auto simp: counters_ok_def)
  then have "gshare_update t pc T_COND m g = Inr (g\<lparr> g_table := (g_table g)[?i := min (g_max g) (max (g_min g) ?v)] \<rparr>)"
    using i mm by (simp add: gshare_update_def updateCounter_clamp Let_def)
  then show ?thesis
    using assms r by (auto simp: gshare_ok_def counters_ok_def dest: subsetD [OF set_update_subset_insert])
qed

fun train :: "nat \<Rightarrow> bool \<Rightarrow> u64 \<Rightarrow> bp_meta \<Rightarrow> gshare \<Rightarrow> gshare res" where
  "train 0 t pc m g = Inr g"
| "train (Suc n) t pc m g = rbind (gshare_update t pc T_COND m g) (train n t pc m)"

lemma train_counter:
  assumes "gshare_ok g" "counters_ok g"
  shows "\<exists>g'. train n t pc m g = Inr g' \<and> gshare_ok g' \<and> counters_ok g' \<and> g_hist_mask g' = g_hist_mask g \<and>
    (\<forall>pc h. gshare_index g' pc h = gshare_index g pc h) \<and> g_max g' = g_max g \<and> g_min g' = g_min g \<and>
    g_table g' ! unat (gshare_index g pc (m_ghr m)) =
      (if t then min (g_max g) (g_table g ! unat (gshare_index g pc (m_ghr m)) + int n)
       else max (g_min g) (g_table g ! unat (gshare_index g pc (m_ghr m)) - int n))"
  using assms
proof (induction n arbitrary: g)
  case 0
  have "g_table g ! unat (gshare_index g pc (m_ghr m)) \<in> set (g_table g)" using gshare_index_ok [OF 0(1)] by simp
  then show ?case using 0 by (auto simp: counters_ok_def)
next
  case (Suc n)
  let ?i = "unat (gshare_index g pc (m_ghr m))"
  obtain g1 where g1: "gshare_update t pc T_COND m g = Inr g1" "gshare_ok g1" "counters_ok g1"
    "g1 = g\<lparr> g_table := (g_table g)[?i := min (g_max g) (max (g_min g) (if t then g_table g ! ?i + 1 else g_table g ! ?i - 1))] \<rparr>"
    using update_counter [OF Suc.prems] by blast
  have i: "?i < length (g_table g)" by (rule gshare_index_ok [OF Suc.prems(1)])
  have x: "gshare_index g1 pc h = gshare_index g pc h" for pc h by (simp add: g1(4) gshare_index_def)
  obtain g2 where g2: "train n t pc m g1 = Inr g2" "gshare_ok g2" "counters_ok g2" "g_hist_mask g2 = g_hist_mask g1"
    "\<forall>pc h. gshare_index g2 pc h = gshare_index g1 pc h" "g_max g2 = g_max g1" "g_min g2 = g_min g1"
    "g_table g2 ! ?i = (if t then min (g_max g1) (g_table g1 ! ?i + int n) else max (g_min g1) (g_table g1 ! ?i - int n))"
    using Suc.IH [OF g1(2,3)] x by auto
  have v: "g_min g \<le> g_table g ! ?i" "g_table g ! ?i \<le> g_max g"
    using i Suc.prems(2) by (auto simp: counters_ok_def)
  have "g_table g1 ! ?i = (if t then min (g_max g) (g_table g ! ?i + 1) else max (g_min g) (g_table g ! ?i - 1))"
    using i v by (auto simp: g1(4) min_def max_def)
  moreover have "g_max g1 = g_max g" "g_min g1 = g_min g" by (simp_all add: g1(4))
  ultimately have "g_table g2 ! ?i =
      (if t then min (g_max g) (g_table g ! ?i + int (Suc n)) else max (g_min g) (g_table g ! ?i - int (Suc n)))"
    using g2(8) v by (simp add: min_def max_def)
  then show ?case using g1(1) g2(1-7) x by (simp add: g1(4))
qed

text \<open>Return address stack: the predicted return of a call is its pc plus the number of entries of the stack.\<close>

lemma ras_call_return:
  assumes "ras_ok r" "st_type c = T_PUSH \<or> st_type c = T_IND_PUSH" "st_type q = T_POP"
  shows "\<exists>st1 m1 r1 st2 m2 r2. ras_predict c m r = Inr (st1, m1, r1) \<and> ras_predict q n r1 = Inr (st2, m2, r2) \<and>
    st_ras_target st2 = st_pc c + of_nat (r_size r) \<and> r_top r2 = r_top r"
proof -
  have r: "4 \<le> r_size r" "r_size r < 2 ^ 31" "unat (r_top r) < r_size r" "length (r_stack r) = r_size r"
    using assms(1) by (auto simp: ras_ok_def)
  have n: "unat (of_nat (r_size r) :: u32) = r_size r" using r(2) by (simp add: unat_of_nat)
  then have z: "(of_nat (r_size r) :: u32) \<noteq> 0" using r(1) by auto
  have "unat (r_top r + 1) = unat (r_top r) + 1" using r(2,3) by (simp add: unat_word_ariths)
  then have t: "unat ((r_top r + 1) mod of_nat (r_size r)) = (unat (r_top r) + 1) mod r_size r" by (simp add: unat_mod n)
  have b: "below_top (r_size r) ((r_top r + 1) mod of_nat (r_size r)) = r_top r"
  proof (cases "unat (r_top r) + 1 = r_size r")
    case True
    then have "(r_top r + 1) mod of_nat (r_size r) = 0" using t by (simp add: word_unat_eq_iff)
    moreover have "of_nat (r_size r) = r_top r + 1"
      using True n \<open>unat (r_top r + 1) = unat (r_top r) + 1\<close> by (simp add: word_unat_eq_iff)
    ultimately show ?thesis by (simp add: below_top_def)
  next
    case False
    then have "(r_top r + 1) mod of_nat (r_size r) = r_top r + 1"
      using t r(3) \<open>unat (r_top r + 1) = unat (r_top r) + 1\<close> by (simp add: word_unat_eq_iff)
    moreover have "r_top r + 1 \<noteq> 0" using \<open>unat (r_top r + 1) = unat (r_top r) + 1\<close> by auto
    ultimately show ?thesis by (simp add: below_top_def)
  qed
  let ?r1 = "r\<lparr> r_stack := (r_stack r)[unat (r_top r) := st_pc c + of_nat (r_size r)], r_top := (r_top r + 1) mod of_nat (r_size r) \<rparr>"
  have "ras_predict c m r = Inr (c\<lparr> st_rasv := True \<rparr>, m\<lparr> m_top := r_top r \<rparr>, ?r1)"
    using assms(2) r z by (auto simp: ras_predict_def Let_def push_at_def next_top_def)
  moreover have "ras_predict q n ?r1 = Inr (q\<lparr> st_rasv := True, st_ras_target := st_pc c + of_nat (r_size r) \<rparr>,
      n\<lparr> m_top := r_top ?r1 \<rparr>, ?r1\<lparr> r_top := r_top r \<rparr>)"
    using assms(3) r b by (simp add: ras_predict_def Let_def read_at_def)
  ultimately show ?thesis by simp
qed

end
