(* ===== verification/Predictor.thy ===== *)
theory Predictor
  imports Branch_Pred
begin

text \<open>
  The predictor units over the branch predictors: Predictor (src/src/pred/predictor.cpp), PipePredictor
  (src/src/pred/pipepredictor.cpp) and the history manager (src/src/pred/history/history.cpp).
\<close>

section \<open>History manager\<close>

text \<open>The only history is GHR; the meta data holds one word for each history.\<close>

definition hm_getMeta :: "ghr list \<Rightarrow> u32 list" where
  "hm_getMeta hs = map ghr_getMeta hs"

definition hm_update :: "bool \<Rightarrow> bool \<Rightarrow> inst_type \<Rightarrow> u32 list \<Rightarrow> ghr list \<Rightarrow> ghr list" where
  "hm_update sp taken type ms hs = map2 (ghr_update sp taken type) ms hs"

section \<open>State\<close>

record meta_info =
  mi_meta :: "bp_meta list"
  mi_history :: "u32 list"
  mi_stream :: branch_stream
  mi_pred_addr :: u64
  mi_taken :: bool

record predictor =
  p_retire_size :: nat
  p_histories :: "ghr list"
  p_bps :: "bp list"
  p_layers :: "nat list"
  p_metas :: "meta_info list"
  p_meta_idx :: nat
  p_bubble :: nat
  p_pred_valid :: bool
  condPredTimes :: u64
  indirectPredTimes :: u64
  callPredTimes :: u64
  condErrorTimes :: u64
  indirectErrorTimes :: u64
  callErrorTimes :: u64
  predTimes :: u64

text \<open>
  afterLoad loads the histories (with their sizes) and the predictors, puts the predictors with delay i, in
  order, into layer i and asserts that the delays start at 0 and rise by at most one; so the layers, one
  after the other, are the list bps, and p_layers keeps their sizes.  gshare looks for a GHR in the history
  manager; it is the first history.  The meta data and the return stacks come uninitialised from the allocator.
\<close>

fun bp_afterLoad :: "u64 list \<Rightarrow> bp \<Rightarrow> bp" where
  "bp_afterLoad stack (BP_BTB b) = BP_BTB (btb_afterLoad b)"
| "bp_afterLoad stack (BP_GShare g) = BP_GShare (gshare_afterLoad g)"
| "bp_afterLoad stack (BP_RAS r) = BP_RAS (ras_afterLoad stack r)"

fun needs_history :: "bp \<Rightarrow> bool" where
  "needs_history (BP_GShare g) = True"
| "needs_history b = False"

fun delays_ok :: "nat \<Rightarrow> nat list \<Rightarrow> bool" where
  "delays_ok pre [] = True"
| "delays_ok pre (d # ds) = ((d = pre \<or> d = pre + 1) \<and> delays_ok d ds)"

definition pred_afterLoad :: "nat list \<Rightarrow> u64 list \<Rightarrow> nat list \<Rightarrow> meta_info list \<Rightarrow> predictor \<Rightarrow> predictor res" where
  "pred_afterLoad sizes stack delays mem p =
     assert_c (list_ex needs_history (p_bps p) \<longrightarrow> p_histories p \<noteq> []) ''ghr != nullptr'' (
     assert_c (delays_ok 0 delays) ''bps[i]->getDelay()''
      (Inr (p\<lparr> p_histories := map2 ghr_afterLoad sizes (p_histories p), p_bps := map (bp_afterLoad stack) (p_bps p),
         p_metas := take (p_retire_size p) mem, p_meta_idx := 0, p_bubble := 0, p_pred_valid := False,
         p_layers := map (\<lambda>i. length (filter (\<lambda>d. d = i) delays)) [0..<fold max delays 0 + 1] \<rparr>)))"

section \<open>Predictor::predict\<close>

text \<open>The switch after each layer: the address and the direction the stream stands for.\<close>

definition stream_target :: "branch_stream \<Rightarrow> u64 \<Rightarrow> u64 \<times> bool" where
  "stream_target st a = (case st_type st of
       T_COND \<Rightarrow> (if st_taken st then st_target st else a, st_taken st)
     | T_DIRECT \<Rightarrow> (st_target st, True)
     | T_PUSH \<Rightarrow> (st_target st, True)
     | T_IND_CALL \<Rightarrow> (if st_indv st then st_ind_target st else st_target st, True)
     | T_IND_PUSH \<Rightarrow> (if st_indv st then st_ind_target st else st_target st, True)
     | T_INDIRECT \<Rightarrow> (if st_indv st then st_ind_target st else st_target st, True)
     | T_POP \<Rightarrow> (if st_rasv st then st_ras_target st else st_target st, True)
     | T_POP_PUSH \<Rightarrow> (if st_rasv st then st_ras_target st else st_target st, True)
     | _ \<Rightarrow> (a, False))"

text \<open>The layers from i on: the stream, the address, the direction and the bubble go through them.\<close>

fun predict_layers :: "ghr \<Rightarrow> nat \<Rightarrow> nat list \<Rightarrow> branch_stream \<times> u64 \<times> bool \<times> nat \<Rightarrow> bp_meta list \<Rightarrow> bp list \<Rightarrow>
    ((branch_stream \<times> u64 \<times> bool \<times> nat) \<times> bp_meta list \<times> bp list) res" where
  "predict_layers h i [] w ms bs = Inr (w, ms, bs)"
| "predict_layers h i (n # ns) (st, a, tk, bubble) ms bs =
    rbind (predict_all bp_predict h st (take n ms) (take n bs)) (\<lambda>(st, ms1, bs1).
      let (a', tk) = stream_target st a
      in rbind (predict_layers h (Suc i) ns (st, a', tk, if a \<noteq> a' then i else bubble) (drop n ms) (drop n bs))
           (\<lambda>(w, ms2, bs2). Inr (w, ms1 @ ms2, bs1 @ bs2)))"

definition fresh_stream :: "u64 \<Rightarrow> inst_type \<Rightarrow> branch_stream \<Rightarrow> branch_stream" where
  "fresh_stream pc type st = st\<lparr> st_pc := pc, st_type := type, st_taken := False, st_indv := False, st_rasv := False \<rparr>"

text \<open>The result is None for -1; else meta index, next pc, size and direction.\<close>

definition pred_start :: "u64 \<Rightarrow> predictor \<Rightarrow> predictor res" where
  "pred_start pc p =
    (if p_meta_idx p < length (p_metas p) \<and> p_histories p \<noteq> []
     then
       let k = p_meta_idx p; mi = p_metas p ! k; st = fresh_stream pc T_INT (mi_stream mi);
           hmeta = hm_getMeta (p_histories p)
       in rbind (predict_layers (hd (p_histories p)) 0 (p_layers p) (st, 0xdeadbeefdeadbeef, mi_taken mi, p_bubble p)
            (mi_meta mi) (p_bps p)) (\<lambda>((st, a, tk, bubble), ms, bs).
          let a = (if a = 0xdeadbeefdeadbeef then pc + scast (st_size st) else a)
          in Inr (p\<lparr> p_metas := (p_metas p)[k := \<lparr> mi_meta = ms, mi_history = hmeta, mi_stream = st, mi_pred_addr = a,
                     mi_taken = tk \<rparr>], p_bps := bs, p_bubble := bubble,
                   p_histories := hm_update True (st_taken st) (st_type st) hmeta (p_histories p) \<rparr>))
     else Inl OutOfBounds)"

definition pred_predict :: "u64 \<Rightarrow> bool \<Rightarrow> predictor \<Rightarrow> ((nat \<times> u64 \<times> u8 \<times> bool) option \<times> predictor) res" where
  "pred_predict pc stall p =
    rbind (if p_bubble p \<noteq> 0 then Inr (p\<lparr> p_bubble := p_bubble p - 1 \<rparr>)
           else if \<not> p_pred_valid p then pred_start pc p else Inr p) (\<lambda>p.
      let p = p\<lparr> p_pred_valid := (p_bubble p = 0) \<rparr>; k = p_meta_idx p in
      if \<not> stall \<and> p_pred_valid p
      then if p_retire_size p = 0 then Inl ArithTrap
        else let k' = (k + 1) mod p_retire_size p in
          if k < length (p_metas p) \<and> k' < length (p_metas p)
          then Inr (Some (k, mi_pred_addr (p_metas p ! k), ucast (st_size (mi_stream (p_metas p ! k))), mi_taken (p_metas p ! k')),
                 p\<lparr> p_meta_idx := k', p_pred_valid := False \<rparr>)
          else Inl OutOfBounds
      else Inr (None, p))"

section \<open>PipePredictor::predict\<close>

text \<open>The target of a direct branch is known from decode: dst_data[2].\<close>

definition pipe_target :: "decode_info \<Rightarrow> branch_stream \<Rightarrow> u64 \<Rightarrow> u64 \<times> bool" where
  "pipe_target i st a = (case itype i of
       T_COND \<Rightarrow> (if st_taken st then dst_data i 2 else a, st_taken st)
     | T_DIRECT \<Rightarrow> (dst_data i 2, True)
     | T_PUSH \<Rightarrow> (dst_data i 2, True)
     | T_IND_CALL \<Rightarrow> (if st_indv st then st_ind_target st else st_target st, True)
     | T_IND_PUSH \<Rightarrow> (if st_indv st then st_ind_target st else st_target st, True)
     | T_INDIRECT \<Rightarrow> (if st_indv st then st_ind_target st else st_target st, True)
     | T_POP \<Rightarrow> (if st_rasv st then st_ras_target st else st_target st, True)
     | T_POP_PUSH \<Rightarrow> (if st_rasv st then st_ras_target st else st_target st, True)
     | _ \<Rightarrow> (a, False))"

definition pipe_predict :: "u64 \<Rightarrow> decode_info \<Rightarrow> predictor \<Rightarrow> ((nat \<times> u64 \<times> u8 \<times> bool) \<times> predictor) res" where
  "pipe_predict pc i p =
    (if p_meta_idx p < length (p_metas p) \<and> p_histories p \<noteq> []
     then
       let k = p_meta_idx p; mi = p_metas p ! k; st = fresh_stream pc (itype i) (mi_stream mi);
           hmeta = hm_getMeta (p_histories p)
       in rbind (predict_all bp_predict (hd (p_histories p)) st (mi_meta mi) (p_bps p)) (\<lambda>(st, ms, bs).
          let (a, tk) = pipe_target i st (pc + ucast (inst_size i)) in
          if p_retire_size p = 0 then Inl ArithTrap
          else Inr ((k, a, ucast (st_size st), tk),
            p\<lparr> p_metas := (p_metas p)[k := \<lparr> mi_meta = ms, mi_history = hmeta, mi_stream = st, mi_pred_addr = a, mi_taken = tk \<rparr>],
               p_bps := bs, p_histories := hm_update True (st_taken st) (itype i) hmeta (p_histories p),
               p_meta_idx := (k + 1) mod p_retire_size p, p_pred_valid := False \<rparr>))
     else Inl OutOfBounds)"

section \<open>redirect and update\<close>

definition pred_redirect :: "bool \<Rightarrow> u64 \<Rightarrow> nat \<Rightarrow> inst_type \<Rightarrow> nat \<Rightarrow> predictor \<Rightarrow> predictor res" where
  "pred_redirect taken pc sz type k p =
    (if k < length (p_metas p)
     then rbind (each_bp (bp_redirect pc sz type) (mi_meta (p_metas p ! k)) (p_bps p)) (\<lambda>bs.
       Inr (p\<lparr> p_histories := hm_update False taken type (mi_history (p_metas p ! k)) (p_histories p), p_bps := bs,
               p_bubble := 0, p_pred_valid := False \<rparr>))
     else Inl OutOfBounds)"

definition count_pred :: "bool \<Rightarrow> u64 \<Rightarrow> inst_type \<Rightarrow> meta_info \<Rightarrow> predictor \<Rightarrow> predictor" where
  "count_pred taken target type mi p =
    (let p = (if type = T_COND
          then p\<lparr> condPredTimes := condPredTimes p + 1, condErrorTimes := condErrorTimes p + of_bool (taken \<noteq> mi_taken mi) \<rparr>
        else if type = T_INDIRECT \<or> type = T_IND_CALL \<or> type = T_IND_PUSH
          then p\<lparr> indirectPredTimes := indirectPredTimes p + 1,
                  indirectErrorTimes := indirectErrorTimes p + of_bool (mi_pred_addr mi \<noteq> target) \<rparr>
        else if type = T_POP \<or> type = T_POP_PUSH
          then p\<lparr> callPredTimes := callPredTimes p + 1, callErrorTimes := callErrorTimes p + of_bool (mi_pred_addr mi \<noteq> target) \<rparr>
        else p)
     in p\<lparr> predTimes := predTimes p + 1 \<rparr>)"

definition pred_update :: "bool \<Rightarrow> u64 \<Rightarrow> u64 \<Rightarrow> inst_type \<Rightarrow> nat \<Rightarrow> predictor \<Rightarrow> predictor res" where
  "pred_update taken pc target type k p =
    (if k < length (p_metas p)
     then rbind (each_bp (bp_update taken pc target type) (mi_meta (p_metas p ! k)) (p_bps p)) (\<lambda>bs.
       Inr (count_pred taken target type (p_metas p ! k) (p\<lparr> p_bps := bs \<rparr>)))
     else Inl OutOfBounds)"

section \<open>The invariant\<close>

text \<open>V is the set of the entries that hold the meta data of a prediction.\<close>

definition pred_inv :: "nat set \<Rightarrow> predictor \<Rightarrow> bool" where
  "pred_inv V p \<longleftrightarrow> list_all bp_ok (p_bps p) \<and> p_histories p \<noteq> [] \<and> list_all (\<lambda>h. length (ghr_bits h) \<le> 64) (p_histories p) \<and>
     0 < p_retire_size p \<and> length (p_metas p) = p_retire_size p \<and> p_meta_idx p < p_retire_size p \<and>
     (\<forall>k < p_retire_size p. length (mi_meta (p_metas p ! k)) = length (p_bps p)) \<and>
     (\<forall>k \<in> V. k < p_retire_size p \<and> list_all2 bp_meta_ok (p_bps p) (mi_meta (p_metas p ! k)) \<and>
        length (mi_history (p_metas p ! k)) = length (p_histories p))"

text \<open>Parameters with which the tables are of a power of two, and memory for the return stack.\<close>

fun bp_config :: "u64 list \<Rightarrow> bp \<Rightarrow> bool" where
  "bp_config stack (BP_BTB b) = (\<exists>k \<le> 30. b_table_size b = 2 ^ k)"
| "bp_config stack (BP_GShare g) = (\<exists>k \<le> 30. g_table_size g = 2 ^ k)"
| "bp_config stack (BP_RAS r) = (4 \<le> r_size r \<and> r_size r < 2 ^ 31 \<and> r_size r \<le> length stack)"

lemma bp_afterLoad_ok: "bp_config stack b \<Longrightarrow> bp_ok (bp_afterLoad stack b)"
  by (cases b) (auto intro: btb_afterLoad_ok gshare_afterLoad_ok ras_afterLoad_ok)

lemma ghrs_afterLoad:
  "list_all (\<lambda>n. n \<le> 64) ns \<Longrightarrow> list_all (\<lambda>h. length (ghr_bits h) \<le> 64) (map2 ghr_afterLoad ns hs)"
  by (induction ns hs rule: list_induct2') (auto simp: ghr_afterLoad_def)

lemma pred_afterLoad_ok:
  assumes "list_all (bp_config stack) (p_bps p)" "p_histories p \<noteq> []" "sizes \<noteq> []" "list_all (\<lambda>n. n \<le> 64) sizes"
    "delays_ok 0 delays" "0 < p_retire_size p" "p_retire_size p \<le> length mem"
    "list_all (\<lambda>mi. length (mi_meta mi) = length (p_bps p)) mem"
  shows "\<exists>p'. pred_afterLoad sizes stack delays mem p = Inr p' \<and> pred_inv {} p' \<and> p_layers p' \<noteq> [] \<and>
    p_meta_idx p' = 0 \<and> p_bubble p' = 0 \<and> \<not> p_pred_valid p' \<and> p_retire_size p' = p_retire_size p"
proof -
  have "zip sizes (p_histories p) \<noteq> []" using assms(2,3) by (cases sizes; cases "p_histories p") auto
  moreover have "list_all bp_ok (map (bp_afterLoad stack) (p_bps p))"
    using assms(1) by (induction "p_bps p") (auto simp: list_all_iff bp_afterLoad_ok)
  moreover have "length (mi_meta (take (p_retire_size p) mem ! k)) = length (p_bps p)" if "k < p_retire_size p" for k
    using assms(7,8) that by (simp add: list_all_length)
  ultimately show ?thesis
    using assms(2,5,6,7) ghrs_afterLoad [OF assms(4)] by (simp add: pred_afterLoad_def assert_c_def pred_inv_def)
qed

lemma hm_update_lengths:
  "length ms = length hs \<Longrightarrow> list_all (\<lambda>h. length (ghr_bits h) \<le> 64) hs \<Longrightarrow>
   list_all (\<lambda>h. length (ghr_bits h) \<le> 64) (hm_update sp t ty ms hs) \<and> length (hm_update sp t ty ms hs) = length hs \<and>
   (hs \<noteq> [] \<longrightarrow> hm_update sp t ty ms hs \<noteq> [])"
  by (cases ms; cases hs) (auto simp: hm_update_def list_all_length nth_Cons')

lemma pipe_predict_ok:
  assumes "pred_inv V p"
  shows "\<exists>k a sz tk p'. pipe_predict pc i p = Inr ((k, a, sz, tk), p') \<and> pred_inv (insert k V) p' \<and>
    k = p_meta_idx p \<and> p_meta_idx p' = (k + 1) mod p_retire_size p \<and> p_retire_size p' = p_retire_size p \<and>
    mi_history (p_metas p' ! k) = hm_getMeta (p_histories p) \<and>
    (\<forall>j. j \<noteq> k \<longrightarrow> p_metas p' ! j = p_metas p ! j)"
proof -
  let ?k = "p_meta_idx p" and ?mi = "p_metas p ! p_meta_idx p" and ?hm = "hm_getMeta (p_histories p)"
  let ?st = "fresh_stream pc (itype i) (mi_stream ?mi)"
  have inv: "list_all bp_ok (p_bps p)" "p_histories p \<noteq> []" "list_all (\<lambda>h. length (ghr_bits h) \<le> 64) (p_histories p)"
    "0 < p_retire_size p" "length (p_metas p) = p_retire_size p" "?k < p_retire_size p"
    "\<And>k. k < p_retire_size p \<Longrightarrow> length (mi_meta (p_metas p ! k)) = length (p_bps p)"
    "\<And>k. k \<in> V \<Longrightarrow> k < p_retire_size p \<and> list_all2 bp_meta_ok (p_bps p) (mi_meta (p_metas p ! k)) \<and>
        length (mi_history (p_metas p ! k)) = length (p_histories p)"
    using assms by (auto simp: pred_inv_def)
  have h: "length (ghr_bits (hd (p_histories p))) \<le> 64" using inv(2,3) by (cases "p_histories p") auto
  obtain st ms bs where r: "predict_all bp_predict (hd (p_histories p)) ?st (mi_meta ?mi) (p_bps p) = Inr (st, ms, bs)"
    "list_all bp_ok bs" "list_all2 bp_meta_ok bs ms" "\<And>ns. list_all2 bp_meta_ok (p_bps p) ns \<Longrightarrow> list_all2 bp_meta_ok bs ns"
    "length bs = length (p_bps p)"
    using bp.predict_all_ok [OF inv(1) inv(7) [OF inv(6)] h, of ?st] by blast
  obtain a tk where t: "pipe_target i st (pc + ucast (inst_size i)) = (a, tk)" by fastforce
  let ?p = "p\<lparr> p_metas := (p_metas p)[?k := \<lparr> mi_meta = ms, mi_history = ?hm, mi_stream = st, mi_pred_addr = a, mi_taken = tk \<rparr>],
     p_bps := bs, p_histories := hm_update True (st_taken st) (itype i) ?hm (p_histories p),
     p_meta_idx := (?k + 1) mod p_retire_size p, p_pred_valid := False \<rparr>"
  have run: "pipe_predict pc i p = Inr ((?k, a, ucast (st_size st), tk), ?p)"
    using inv r(1) t by (simp add: pipe_predict_def Let_def)
  have lh: "length ?hm = length (p_histories p)" by (simp add: hm_getMeta_def)
  have "length ms = length bs" using r(3) by (auto dest: list_all2_lengthD)
  then have "pred_inv (insert ?k V) ?p"
    using inv r hm_update_lengths [OF lh inv(3)] lh
    by (auto simp: pred_inv_def nth_list_update)
  then show ?thesis using run inv(5,6) by auto
qed

lemma pred_redirect_ok:
  assumes "pred_inv V p" "k \<in> V" "sz = 2 \<or> sz = 4"
  shows "\<exists>p'. pred_redirect taken pc sz type k p = Inr p' \<and> pred_inv V p' \<and> p_metas p' = p_metas p \<and>
    p_histories p' = hm_update False taken type (mi_history (p_metas p ! k)) (p_histories p)"
proof -
  have k: "k < length (p_metas p)" "list_all2 bp_meta_ok (p_bps p) (mi_meta (p_metas p ! k))" "list_all bp_ok (p_bps p)"
    "length (mi_history (p_metas p ! k)) = length (p_histories p)"
    using assms(1,2) by (auto simp: pred_inv_def)
  obtain bs where b: "each_bp (bp_redirect pc sz type) (mi_meta (p_metas p ! k)) (p_bps p) = Inr bs" "list_all bp_ok bs"
    "map bp_meta_ok bs = map bp_meta_ok (p_bps p)"
    using bp.redirect_all_ok [OF k(3,2) assms(3)] by blast
  have "length bs = length (p_bps p)" by (rule map_eq_imp_length_eq [OF b(3)])
  then have "pred_inv V (p\<lparr> p_histories := hm_update False taken type (mi_history (p_metas p ! k)) (p_histories p), p_bps := bs,
               p_bubble := 0, p_pred_valid := False \<rparr>)"
    using assms(1) b(2) bp.metas_cong [OF b(3)] hm_update_lengths [OF k(4)] by (auto simp: pred_inv_def)
  then show ?thesis using b(1) k(1) by (simp add: pred_redirect_def)
qed

lemma pred_update_ok:
  assumes "pred_inv V p" "k \<in> V"
  shows "\<exists>p'. pred_update taken pc target type k p = Inr p' \<and> pred_inv V p'"
proof -
  have k: "k < length (p_metas p)" "list_all2 bp_meta_ok (p_bps p) (mi_meta (p_metas p ! k))" "list_all bp_ok (p_bps p)"
    using assms(1,2) by (auto simp: pred_inv_def)
  obtain bs where b: "each_bp (bp_update taken pc target type) (mi_meta (p_metas p ! k)) (p_bps p) = Inr bs" "list_all bp_ok bs"
    "map bp_meta_ok bs = map bp_meta_ok (p_bps p)"
    using bp.update_all_ok [OF k(3,2)] by blast
  have "length bs = length (p_bps p)" by (rule map_eq_imp_length_eq [OF b(3)])
  moreover have "pred_inv V (count_pred taken target type mi q) = pred_inv V q" for mi q
    by (simp add: pred_inv_def count_pred_def Let_def)
  ultimately have "pred_inv V (count_pred taken target type (p_metas p ! k) (p\<lparr> p_bps := bs \<rparr>))"
    using assms(1) b(2) bp.metas_cong [OF b(3)] by (auto simp: pred_inv_def)
  then show ?thesis using b(1) k(1) by (simp add: pred_update_def)
qed

section \<open>Predictor never predicts a branch\<close>

text \<open>
  Predictor::predict starts every prediction with the type INT and no component changes the type, so
  whatever the branch target buffer holds the predicted address is the pc plus the size in the stream.
\<close>

lemma predict_all_type:
  assumes "list_all bp_ok bs" "length ms = length bs" "length (ghr_bits h) \<le> 64" "predict_all bp_predict h st ms bs = Inr (st', ms', bs')"
  shows "list_all bp_ok bs' \<and> length ms' = length bs \<and> length bs' = length bs \<and> st_type st' = st_type st \<and> st_pc st' = st_pc st"
  using bp.predict_all_ok [OF assms(1-3), of st] assms(4) by (auto dest: list_all2_lengthD)

lemma layers_straight:
  assumes "list_all bp_ok bs" "length ms = length bs" "length (ghr_bits h) \<le> 64" "st_type st = T_INT"
  shows "\<exists>st' tk' ms' bs'. predict_layers h i ns (st, a, tk, b) ms bs = Inr ((st', a, tk', b), ms', bs') \<and>
    st_type st' = T_INT \<and> (ns \<noteq> [] \<longrightarrow> \<not> tk')"
  using assms(1,2,4)
proof (induction ns arbitrary: i st tk ms bs)
  case (Cons n ns)
  have ok: "list_all bp_ok (take n bs)" "length (take n ms) = length (take n bs)" "list_all bp_ok (drop n bs)"
    "length (drop n ms) = length (drop n bs)"
    using Cons.prems by (auto simp: list_all_iff dest: in_set_takeD in_set_dropD)
  obtain st1 ms1 bs1 where 1: "predict_all bp_predict h st (take n ms) (take n bs) = Inr (st1, ms1, bs1)"
    using bp.predict_all_ok [OF ok(1,2) assms(3), of st] by blast
  then have "st_type st1 = T_INT" using predict_all_type [OF ok(1,2) assms(3) 1] Cons.prems(3) by simp
  then show ?case
    using Cons.IH [OF ok(3,4), of st1 "Suc i" False] 1 by (auto simp: stream_target_def)
qed simp

lemma never_taken:
  assumes "pred_inv V p" "p_layers p \<noteq> []" "p_bubble p = 0" "\<not> p_pred_valid p"
  shows "\<exists>st p'. pred_predict pc False p = Inr (Some (p_meta_idx p, pc + scast (st_size st), ucast (st_size st),
      mi_taken (p_metas p' ! p_meta_idx p')), p') \<and> st = mi_stream (p_metas p' ! p_meta_idx p) \<and>
    \<not> mi_taken (p_metas p' ! p_meta_idx p) \<and> p_bubble p' = 0 \<and>
    p_meta_idx p' = (p_meta_idx p + 1) mod p_retire_size p"
proof -
  let ?k = "p_meta_idx p" and ?mi = "p_metas p ! p_meta_idx p" and ?hm = "hm_getMeta (p_histories p)"
  let ?st = "fresh_stream pc T_INT (mi_stream ?mi)" and ?d = "0xdeadbeefdeadbeef :: u64"
  have inv: "list_all bp_ok (p_bps p)" "p_histories p \<noteq> []" "list_all (\<lambda>h. length (ghr_bits h) \<le> 64) (p_histories p)"
    "0 < p_retire_size p" "length (p_metas p) = p_retire_size p" "?k < p_retire_size p"
    "length (mi_meta ?mi) = length (p_bps p)"
    using assms(1) by (auto simp: pred_inv_def)
  have h: "length (ghr_bits (hd (p_histories p))) \<le> 64" using inv(2,3) by (cases "p_histories p") auto
  obtain st tk ms bs where r: "predict_layers (hd (p_histories p)) 0 (p_layers p) (?st, ?d, mi_taken ?mi, 0) (mi_meta ?mi) (p_bps p) =
      Inr ((st, ?d, tk, 0), ms, bs)" "\<not> tk"
    using layers_straight [OF inv(1,7) h, of ?st 0 "p_layers p" ?d "mi_taken ?mi" 0] assms(2) by (auto simp: fresh_stream_def)
  let ?p = "p\<lparr> p_metas := (p_metas p)[?k := \<lparr> mi_meta = ms, mi_history = ?hm, mi_stream = st,
      mi_pred_addr = pc + scast (st_size st), mi_taken = tk \<rparr>], p_bps := bs, p_bubble := 0,
      p_histories := hm_update True (st_taken st) (st_type st) ?hm (p_histories p) \<rparr>"
  have s: "pred_start pc p = Inr ?p" using inv r(1) assms(3) by (simp add: pred_start_def Let_def)
  have k: "(?k + 1) mod p_retire_size p < p_retire_size p" using inv(4) by simp
  have "pred_predict pc False p = Inr (Some (?k, pc + scast (st_size st), ucast (st_size st),
      mi_taken (p_metas ?p ! ((?k + 1) mod p_retire_size p))),
      ?p\<lparr> p_meta_idx := (?k + 1) mod p_retire_size p, p_pred_valid := False \<rparr>)"
    using s assms(3,4) inv(4-6) k by (simp add: pred_predict_def Let_def)
  then show ?thesis using inv(5,6) r(2) by auto
qed

section \<open>The history comes back\<close>

text \<open>What a redirect makes of the histories, given what has been predicted since.\<close>

lemma recover_histories:
  assumes "\<forall>h \<in> set hs. length bs < length (ghr_bits h)" "length bs < 2 ^ 31"
  shows "hm_update False t T_INT (hm_getMeta hs) (map (speculate bs) hs) =
    map (\<lambda>h. h\<lparr> ghr_bits := take (length (ghr_bits h) - length bs) (ghr_bits h) @ replicate (length bs) False \<rparr>) hs"
  using assms by (auto simp: hm_update_def hm_getMeta_def zip_map1 zip_map2 zip_same_conv_map recover)

end
