(* ===== verification/Predictors.thy ===== *)
theory Predictors
  imports Predictor
begin

text \<open>The properties of the branch prediction unit, with a concrete unit for the witnesses.\<close>

section \<open>A concrete unit\<close>

definition stream0 :: branch_stream where
  "stream0 = \<lparr> st_type = T_INT, st_taken = False, st_indv = False, st_rasv = False, st_size = 4, st_pc = 0, st_target = 0,
     st_ind_target = 0, st_ras_target = 0 \<rparr>"

definition meta0 :: bp_meta where
  "meta0 = \<lparr> m_tag = 0, m_index = 0, m_hit = False, m_idx = 0, m_ghr = 0, m_top = 0 \<rparr>"

definition info0 :: "inst_type \<Rightarrow> decode_info" where
  "info0 t = \<lparr> dst_mask = (\<lambda>k. 0), src_reg = (\<lambda>k. 0), dst_reg = 0, exception = 31, inst = 0, exc_data = 0,
     dst_data = (\<lambda>k. 0x80000100), dst_idx = (\<lambda>k. 0), inst_size = 4, itype = t \<rparr>"

text \<open>A unit with one predictor of each kind: its parameters, and its state after afterLoad.\<close>

definition params0 :: predictor where
  "params0 = \<lparr> p_retire_size = 2, p_histories = [\<lparr> ghr_bits = [], ghr_idx = 0 \<rparr>],
     p_bps = [BP_BTB \<lparr> b_table_size = 4, b_tag_size = 20, b_offset = 1, b_table = [], b_tag_mask = 0, b_index_mask = 0,
         b_tag_shift = 0 \<rparr>,
       BP_GShare \<lparr> g_table_size = 4, g_bit_size = 2, g_offset = 1, g_hist_bits = 6, g_table = [], g_table_pc_mask = 0,
         g_min = 0, g_max = 0, g_hist_mask = 0, g_counter_mask = 0 \<rparr>,
       BP_RAS \<lparr> r_size = 4, r_stack = [], r_top = 0 \<rparr>],
     p_layers = [], p_metas = [], p_meta_idx = 0, p_bubble = 0, p_pred_valid = False, condPredTimes = 0,
     indirectPredTimes = 0, callPredTimes = 0, condErrorTimes = 0, indirectErrorTimes = 0, callErrorTimes = 0,
     predTimes = 0 \<rparr>"

definition metas0 :: "meta_info list" where
  "metas0 = replicate 2 \<lparr> mi_meta = [meta0, meta0, meta0], mi_history = [0], mi_stream = stream0, mi_pred_addr = 0,
     mi_taken = False \<rparr>"

definition predictor0 :: predictor where
  "predictor0 = (case pred_afterLoad [8] [0, 0, 0, 0] [0, 0, 0] metas0 params0 of Inr p \<Rightarrow> p | Inl e \<Rightarrow> params0)"

lemma predictor0_ok: "pred_inv {} predictor0 \<and> p_layers predictor0 \<noteq> [] \<and> p_meta_idx predictor0 = 0 \<and>
  p_bubble predictor0 = 0 \<and> \<not> p_pred_valid predictor0 \<and> p_retire_size predictor0 = 2 \<and>
  pred_afterLoad [8] [0, 0, 0, 0] [0, 0, 0] metas0 params0 = Inr predictor0"
proof -
  have "\<exists>k\<le>30. (4 :: nat) = 2 ^ k" by (rule exI [of _ 2]) simp
  then have 1: "list_all (bp_config [0, 0, 0, 0]) (p_bps params0)" by (simp add: params0_def)
  have 2: "p_histories params0 \<noteq> []" "p_retire_size params0 = 2" "length (p_bps params0) = 3" by (simp_all add: params0_def)
  have 3: "length metas0 = 2" "list_all (\<lambda>mi. length (mi_meta mi) = 3) metas0"
    by (simp_all add: metas0_def numeral_2_eq_2)
  obtain p where "pred_afterLoad [8] [0, 0, 0, 0] [0, 0, 0] metas0 params0 = Inr p" "pred_inv {} p" "p_layers p \<noteq> []"
    "p_meta_idx p = 0" "p_bubble p = 0" "\<not> p_pred_valid p" "p_retire_size p = 2"
    using pred_afterLoad_ok [OF 1 2(1), of "[8]" "[0, 0, 0]" metas0] 2 3 by auto
  then show ?thesis by (simp add: predictor0_def)
qed

lemmas predictor0_inv = conjunct1 [OF predictor0_ok]

section \<open>Properties\<close>

text \<open>
  C38: the life of a predicted instruction.  A prediction never leaves the tables, and returns an index
  with which redirect and update succeed later, whatever the instruction turns out to be; the unit is
  then again in a state where the same holds.  (The tables have a power of two of entries, the history
  at most 64 bits, the return stack at least four entries.)
\<close>

theorem prediction_can_be_resolved:
  assumes "pred_inv V p" and "sz = 2 \<or> sz = 4"
  shows "\<exists>k a n tk p1. pipe_predict pc i p = Inr ((k, a, n, tk), p1) \<and> k = p_meta_idx p \<and>
    (\<exists>p2. pred_redirect taken rpc sz type k p1 = Inr p2 \<and> pred_inv (insert k V) p2 \<and>
      (\<exists>p3. pred_update taken rpc target type k p2 = Inr p3 \<and> pred_inv (insert k V) p3))"
proof -
  obtain k a n tk p1 where 1: "pipe_predict pc i p = Inr ((k, a, n, tk), p1)" "pred_inv (insert k V) p1" "k = p_meta_idx p"
    using pipe_predict_ok [OF assms(1), of pc i] by blast
  obtain p2 where 2: "pred_redirect taken rpc sz type k p1 = Inr p2" "pred_inv (insert k V) p2"
    using pred_redirect_ok [OF 1(2) _ assms(2), of k taken rpc type] by blast
  then show ?thesis using 1 pred_update_ok [OF 2(2), of k taken rpc target type] by auto
qed

theorem prediction_can_be_resolved_witness:
  "\<exists>a n tk p1 p2. pipe_predict 0x80000000 (info0 T_COND) predictor0 = Inr ((0, a, n, tk), p1) \<and>
     pred_redirect True 0x80000000 4 T_COND 0 p1 = Inr p2"
  using prediction_can_be_resolved [OF predictor0_inv, of 4 "0x80000000" "info0 T_COND" True "0x80000000" T_COND 0]
  by (auto simp: predictor0_ok)



text \<open>
  C40: the unit that is not the pipelined one never predicts a branch: whatever its tables have learnt, the
  next address is the pc plus the size in the stream, the entry is marked not taken, there is no bubble,
  and the direction handed out is that of the next entry of the ring, not of this one.
\<close>

theorem predictor_never_taken:
  assumes "pred_inv V p" and "p_layers p \<noteq> []" and "p_bubble p = 0" and "\<not> p_pred_valid p"
  shows "\<exists>st p'. pred_predict pc False p = Inr (Some (p_meta_idx p, pc + scast (st_size st), ucast (st_size st),
      mi_taken (p_metas p' ! p_meta_idx p')), p') \<and> st = mi_stream (p_metas p' ! p_meta_idx p) \<and>
    \<not> mi_taken (p_metas p' ! p_meta_idx p) \<and> p_bubble p' = 0 \<and> p_meta_idx p' = (p_meta_idx p + 1) mod p_retire_size p"
  by (rule never_taken [OF assms])

theorem predictor_never_taken_witness:
  "\<exists>sz p'. pred_predict 0x80000000 False predictor0 = Inr (Some (0, 0x80000000 + scast (sz :: u32), ucast sz,
      mi_taken (p_metas p' ! 1)), p')"
  using predictor_never_taken [OF predictor0_inv, of "0x80000000"] by (auto simp: predictor0_ok)

end
