(* ===== verification/Queue.thy ===== *)
theory Queue
  imports Prelude
begin

text \<open>
  The interface of a first-in-first-out queue, with what follows for every queue that keeps it: the
  byte FIFO of the serial port, which refuses what does not fit, and the ring of link-list nodes, which
  overwrites.
\<close>

fun push_list :: "('q \<Rightarrow> 'a \<Rightarrow> 'q res) \<Rightarrow> 'q \<Rightarrow> 'a list \<Rightarrow> 'q res" where
  "push_list push q [] = Inr q"
| "push_list push q (x # xs) = rbind (push q x) (\<lambda>q'. push_list push q' xs)"

fun pop_n :: "('q \<Rightarrow> ('a \<times> 'q) res) \<Rightarrow> nat \<Rightarrow> 'q \<Rightarrow> ('a list \<times> 'q) res" where
  "pop_n pop 0 q = Inr ([], q)"
| "pop_n pop (Suc n) q =
     rbind (pop q) (\<lambda>(x, q'). rbind (pop_n pop n q') (\<lambda>(xs, q''). Inr (x # xs, q'')))"

locale fifo_queue =
  fixes inv :: "'q \<Rightarrow> bool" and abs :: "'q \<Rightarrow> 'a list" and cap :: "'q \<Rightarrow> nat"
    and push :: "'q \<Rightarrow> 'a \<Rightarrow> 'q res" and pop :: "'q \<Rightarrow> ('a \<times> 'q) res"
    and is_empty is_full :: "'q \<Rightarrow> bool"
  assumes size_le: "inv q \<Longrightarrow> length (abs q) \<le> cap q"
    and push_room: "inv q \<Longrightarrow> length (abs q) < cap q \<Longrightarrow>
      \<exists>q'. push q x = Inr q' \<and> inv q' \<and> abs q' = abs q @ [x] \<and> cap q' = cap q"
    and pop_some: "inv q \<Longrightarrow> abs q = x # xs \<Longrightarrow>
      \<exists>q'. pop q = Inr (x, q') \<and> inv q' \<and> abs q' = xs \<and> cap q' = cap q"
    and is_empty_spec: "inv q \<Longrightarrow> is_empty q \<longleftrightarrow> abs q = []"
    and is_full_spec: "inv q \<Longrightarrow> is_full q \<longleftrightarrow> length (abs q) = cap q"
begin

lemma push_list_spec:
  "inv q \<Longrightarrow> length (abs q) + length xs \<le> cap q \<Longrightarrow>
   \<exists>q'. push_list push q xs = Inr q' \<and> inv q' \<and> abs q' = abs q @ xs \<and> cap q' = cap q"
proof (induction xs arbitrary: q)
  case (Cons x xs)
  obtain q1 where q1: "push q x = Inr q1" "inv q1" "abs q1 = abs q @ [x]" "cap q1 = cap q"
    using push_room [of q x] Cons.prems by auto
  then show ?case using Cons.IH [of q1] Cons.prems by simp
qed simp

lemma pop_n_spec:
  "inv q \<Longrightarrow> n \<le> length (abs q) \<Longrightarrow>
   \<exists>q'. pop_n pop n q = Inr (take n (abs q), q') \<and> inv q' \<and> abs q' = drop n (abs q) \<and> cap q' = cap q"
proof (induction n arbitrary: q)
  case (Suc n)
  then obtain x xs where xs: "abs q = x # xs" by (cases "abs q") auto
  obtain q1 where q1: "pop q = Inr (x, q1)" "inv q1" "abs q1 = xs" "cap q1 = cap q"
    using pop_some [OF Suc.prems(1) xs] by auto
  then show ?case using Suc.IH [of q1] Suc.prems xs by auto
qed simp

lemma first_in_first_out:
  assumes "inv q" "abs q = []" "length xs \<le> cap q"
  shows "\<exists>q' q''. push_list push q xs = Inr q' \<and> pop_n pop (length xs) q' = Inr (xs, q'')
    \<and> abs q'' = [] \<and> inv q''"
proof -
  obtain q' where q': "push_list push q xs = Inr q'" "inv q'" "abs q' = xs"
    using push_list_spec [of q xs] assms by auto
  then show ?thesis using pop_n_spec [of q' "length xs"] by auto
qed

end

text \<open>A queue that refuses: push fails when there is no room, pop when there is nothing.\<close>

locale bounded_queue = fifo_queue +
  fixes reset :: "'q \<Rightarrow> 'q"
  assumes push_no_room: "inv q \<Longrightarrow> length (abs q) = cap q \<Longrightarrow> \<exists>e. push q x = Inl e"
    and pop_none: "inv q \<Longrightarrow> abs q = [] \<Longrightarrow> \<exists>e. pop q = Inl e"
    and reset_spec: "inv q \<Longrightarrow> inv (reset q) \<and> abs (reset q) = [] \<and> cap (reset q) = cap q"
begin

lemma push_safe_iff: "inv q \<Longrightarrow> (\<exists>q'. push q x = Inr q') \<longleftrightarrow> \<not> is_full q"
  using push_room [of q x] push_no_room [of q x] size_le [of q] is_full_spec [of q]
  by fastforce

lemma pop_safe_iff: "inv q \<Longrightarrow> (\<exists>r. pop q = Inr r) \<longleftrightarrow> \<not> is_empty q"
  using pop_some [of q] pop_none [of q] is_empty_spec [of q]
  by (cases "abs q") fastforce+

lemma overfull_stops:
  assumes "inv q" "length (abs q) + length xs = cap q"
  shows "\<exists>e. push_list push q (xs @ [x]) = Inl e"
  using assms
proof (induction xs arbitrary: q)
  case Nil
  then show ?case using push_no_room [of q x] by fastforce
next
  case (Cons y ys)
  obtain q1 where q1: "push q y = Inr q1" "inv q1" "abs q1 = abs q @ [y]" "cap q1 = cap q"
    using push_room [of q y] Cons.prems by auto
  then show ?case using Cons.IH [of q1] Cons.prems by simp
qed

end

end
