(* ===== verification/LinkRing.thy ===== *)
theory LinkRing
  imports Queue
begin

text \<open>
  LinkList of src/inc/common/linklist.h: push builds a ring of nodes once; after that next hands out the
  node at the tail and pop the node at the head.  LinkListN is the same with the link in the object.
\<close>

section \<open>The list\<close>

text \<open>
  A node is a position in the lists of data pointers and of next pointers; head and tail are null (None)
  before the first push.  The data pointers are the keys of node_map.
\<close>

record link_list =
  ll_data :: "nat list"
  ll_next :: "nat list"
  ll_head :: "nat option"
  ll_tail :: "nat option"
  ll_sizeTail :: nat

definition ll_new :: link_list where
  "ll_new = \<lparr> ll_data = [], ll_next = [], ll_head = None, ll_tail = None, ll_sizeTail = 0 \<rparr>"

definition ll_push :: "nat \<Rightarrow> link_list \<Rightarrow> link_list" where
  "ll_push d l = (let n = length (ll_data l) in case ll_head l of
      None \<Rightarrow> l\<lparr> ll_data := ll_data l @ [d], ll_next := ll_next l @ [n], ll_head := Some n, ll_tail := Some n,
                ll_sizeTail := n \<rparr>
    | Some h \<Rightarrow> l\<lparr> ll_data := ll_data l @ [d], ll_next := (ll_next l)[ll_sizeTail l := n] @ [h], ll_sizeTail := n \<rparr>)"

text \<open>A node pointer is followed only when it is not null.\<close>

definition ll_node :: "nat option \<Rightarrow> link_list \<Rightarrow> (nat \<times> nat) res" where
  "ll_node n l = (case n of None \<Rightarrow> Inl NullDeref
     | Some i \<Rightarrow> if i < length (ll_data l) \<and> i < length (ll_next l) then Inr (ll_data l ! i, ll_next l ! i) else Inl NullDeref)"

definition ll_front :: "link_list \<Rightarrow> nat res" where
  "ll_front l = rbind (ll_node (ll_head l) l) (\<lambda>(d, n). Inr d)"

definition ll_back :: "link_list \<Rightarrow> nat res" where
  "ll_back l = rbind (ll_node (ll_tail l) l) (\<lambda>(d, n). Inr d)"

definition ll_take :: "link_list \<Rightarrow> (nat \<times> link_list) res" where
  "ll_take l = rbind (ll_node (ll_tail l) l) (\<lambda>(d, n). Inr (d, l\<lparr> ll_tail := Some n \<rparr>))"

definition ll_pop :: "link_list \<Rightarrow> (nat \<times> link_list) res" where
  "ll_pop l = rbind (ll_node (ll_head l) l) (\<lambda>(d, n). Inr (d, l\<lparr> ll_head := Some n \<rparr>))"

definition ll_empty :: "link_list \<Rightarrow> bool" where
  "ll_empty l \<longleftrightarrow> ll_head l = ll_tail l"

definition ll_full :: "link_list \<Rightarrow> bool res" where
  "ll_full l = rbind (ll_node (ll_tail l) l) (\<lambda>(d, n). Inr (Some n = ll_head l))"

definition ll_one :: "link_list \<Rightarrow> bool res" where
  "ll_one l = rbind (ll_node (ll_head l) l) (\<lambda>(d, n). Inr (Some n = ll_tail l))"

text \<open>node_map: the last node pushed with these data, null for unknown ones.\<close>

fun node_of :: "nat \<Rightarrow> nat list \<Rightarrow> nat \<Rightarrow> nat option" where
  "node_of d [] i = None"
| "node_of d (x # xs) i = (case node_of d xs (Suc i) of Some j \<Rightarrow> Some j | None \<Rightarrow> if x = d then Some i else None)"

definition ll_setHead :: "nat \<Rightarrow> link_list \<Rightarrow> link_list" where
  "ll_setHead d l = l\<lparr> ll_head := node_of d (ll_data l) 0 \<rparr>"

definition ll_setTail :: "nat \<Rightarrow> link_list \<Rightarrow> link_list" where
  "ll_setTail d l = l\<lparr> ll_tail := node_of d (ll_data l) 0 \<rparr>"

text \<open>The loop that pops until the list is empty; it may not end (head need not reach tail), None then.\<close>

partial_function (option) ll_drain :: "link_list \<Rightarrow> link_list res option" where
  "ll_drain l = (if ll_empty l then Some (Inr l)
     else case ll_pop l of Inl e \<Rightarrow> Some (Inl e) | Inr (d, l) \<Rightarrow> ll_drain l)"

declare ll_drain.simps [code]

section \<open>The ring\<close>

definition ring :: "nat list \<Rightarrow> nat \<Rightarrow> nat \<Rightarrow> link_list \<Rightarrow> bool" where
  "ring ds h t l \<longleftrightarrow> ds \<noteq> [] \<and> ll_data l = ds \<and> length (ll_next l) = length ds \<and>
     (\<forall>i < length ds. ll_next l ! i = (i + 1) mod length ds) \<and> ll_head l = Some h \<and> ll_tail l = Some t \<and>
     h < length ds \<and> t < length ds"

definition ll_pushes :: "nat list \<Rightarrow> link_list \<Rightarrow> link_list" where
  "ll_pushes ds l = fold ll_push ds l"

lemma push_ring:
  assumes "ring ds 0 0 l" "ll_sizeTail l = length ds - 1"
  shows "ring (ds @ [d]) 0 0 (ll_push d l) \<and> ll_sizeTail (ll_push d l) = length ds"
proof -
  have n: "ds \<noteq> []" "ll_data l = ds" "length (ll_next l) = length ds" "ll_head l = Some 0" "ll_tail l = Some 0"
    "\<And>i. i < length ds \<Longrightarrow> ll_next l ! i = (i + 1) mod length ds"
    using assms(1) by (auto simp: ring_def)
  have "((ll_next l)[length ds - 1 := length ds] @ [0]) ! i = (i + 1) mod (length ds + 1)" if "i < length ds + 1" for i
    using that n by (cases "i = length ds"; cases "i = length ds - 1") (auto simp: nth_append nth_list_update)
  then show ?thesis using n assms(2) by (simp add: ring_def ll_push_def Let_def)
qed

lemma pushes_ring:
  "ds \<noteq> [] \<Longrightarrow> ring ds 0 0 (ll_pushes ds ll_new) \<and> ll_sizeTail (ll_pushes ds ll_new) = length ds - 1"
proof (induction ds rule: rev_induct)
  case (snoc d ds)
  show ?case
  proof (cases "ds = []")
    case True
    then show ?thesis by (simp add: ll_pushes_def ll_push_def ll_new_def ring_def)
  next
    case False
    then show ?thesis using snoc push_ring [of ds "ll_pushes ds ll_new" d] by (simp add: ll_pushes_def)
  qed
qed simp

lemma ring_node: "ring ds h t l \<Longrightarrow> i < length ds \<Longrightarrow> ll_node (Some i) l = Inr (ds ! i, (i + 1) mod length ds)"
  by (simp add: ring_def ll_node_def)

lemma ring_take: "ring ds h t l \<Longrightarrow> \<exists>l'. ll_take l = Inr (ds ! t, l') \<and> ring ds h ((t + 1) mod length ds) l'"
  using ring_node [of ds h t l t] by (auto simp: ll_take_def ring_def)

lemma ring_pop: "ring ds h t l \<Longrightarrow> \<exists>l'. ll_pop l = Inr (ds ! h, l') \<and> ring ds ((h + 1) mod length ds) t l'"
  using ring_node [of ds h t l h] by (auto simp: ll_pop_def ring_def)

text \<open>On a ring the loop ends, with the head at the tail.\<close>

lemma ring_head: "ring ds h t l \<Longrightarrow> k < length ds \<Longrightarrow> ring ds k t (l\<lparr> ll_head := Some k \<rparr>)"
  by (simp add: ring_def)

lemma ring_unique: "ring ds h t l \<Longrightarrow> ll_head l = Some h \<and> ll_tail l = Some t"
  by (simp add: ring_def)

lemma ring_drain: "ring ds h t l \<Longrightarrow> \<exists>l'. ll_drain l = Some (Inr l') \<and> ring ds t t l'"
proof (induction "(t + length ds - h) mod length ds" arbitrary: h l rule: less_induct)
  case less
  note r = ring_unique [OF less.prems]
  show ?case
  proof (cases "h = t")
    case True
    then show ?thesis using less.prems r by (subst ll_drain.simps) (simp add: ll_empty_def)
  next
    case False
    obtain l' where p: "ll_pop l = Inr (ds ! h, l')" "ring ds ((h + 1) mod length ds) t l'"
      using ring_pop [OF less.prems] by blast
    have ht: "h < length ds" "t < length ds" using less.prems by (auto simp: ring_def)
    have "(t + length ds - (h + 1) mod length ds) mod length ds < (t + length ds - h) mod length ds"
    proof (cases "h + 1 < length ds")
      case True
      then show ?thesis using False ht
        by (cases "h < t") (auto simp: mod_if)
    next
      case c: False
      then have n: "length ds = h + 1" using ht by simp
      then have "t + length ds - h = t + 1" "t + 1 < length ds" "(h + 1) mod length ds = 0" using False ht by auto
      then show ?thesis by simp
    qed
    from less.hyps [OF this p(2)] show ?thesis
      using False r p(1) by (subst ll_drain.simps) (simp add: ll_empty_def)
  qed
qed

section \<open>The ring as a queue of slots\<close>

text \<open>
  The use the memory makes of it: the slot next hands out is filled, the slot pop hands out is read.  The
  slots from head to tail are the queue; one slot is always free.
\<close>

type_synonym 'a slots_ring = "link_list \<times> (nat \<Rightarrow> 'a)"

definition rq_push :: "'a slots_ring \<Rightarrow> 'a \<Rightarrow> 'a slots_ring res" where
  "rq_push q x = (case q of (l, m) \<Rightarrow> rbind (ll_take l) (\<lambda>(p, l). Inr (l, m(p := x))))"

definition rq_pop :: "'a slots_ring \<Rightarrow> ('a \<times> 'a slots_ring) res" where
  "rq_pop q = (case q of (l, m) \<Rightarrow> rbind (ll_pop l) (\<lambda>(p, l). Inr (m p, l, m)))"

definition rq_inv :: "'a slots_ring \<Rightarrow> bool" where
  "rq_inv q \<longleftrightarrow> (\<exists>h t. ring (ll_data (fst q)) h t (fst q)) \<and> distinct (ll_data (fst q))"

definition rq_at :: "link_list \<Rightarrow> nat \<times> nat \<times> nat" where
  "rq_at l = (the (ll_head l), the (ll_tail l), length (ll_data l))"

definition rq_abs :: "'a slots_ring \<Rightarrow> 'a list" where
  "rq_abs q = (case rq_at (fst q) of (h, t, n) \<Rightarrow>
     map (\<lambda>i. snd q (ll_data (fst q) ! ((h + i) mod n))) [0..<(t + n - h) mod n])"

definition rq_cap :: "'a slots_ring \<Rightarrow> nat" where
  "rq_cap q = length (ll_data (fst q)) - 1"

definition rq_empty :: "'a slots_ring \<Rightarrow> bool" where
  "rq_empty q = ll_empty (fst q)"

definition rq_full :: "'a slots_ring \<Rightarrow> bool" where
  "rq_full q \<longleftrightarrow> ll_full (fst q) = Inr True"

lemma dist_mod:
  fixes h t n :: nat
  assumes "h < n" "t < n"
  shows "(t + n - h) mod n = (if h \<le> t then t - h else t + n - h)"
proof (cases "h \<le> t")
  case True
  then have "t + n - h = (t - h) + n" using assms by simp
  then have "(t + n - h) mod n = (t - h) mod n" by simp
  then show ?thesis using True assms by simp
next
  case False
  then have "t + n - h < n" using assms by simp
  then show ?thesis using False by simp
qed

lemma succ_mod: "t < n \<Longrightarrow> (t + 1) mod n = (if t + 1 = n then 0 else t + 1)" for t n :: nat
  by auto

lemma dist_tail:
  fixes h t n :: nat
  assumes "h < n" "t < n" "(t + n - h) mod n < n - 1"
  shows "((t + 1) mod n + n - h) mod n = (t + n - h) mod n + 1" "(h + (t + n - h) mod n) mod n = t"
proof -
  obtain s where s: "s = (t + 1) mod n" "s < n" using assms by simp
  have "(s + n - h) mod n = (t + n - h) mod n + 1"
    using assms s(1) unfolding dist_mod [OF assms(1) s(2)] dist_mod [OF assms(1,2)] succ_mod [OF assms(2)]
    by (auto split: if_splits)
  then show "((t + 1) mod n + n - h) mod n = (t + n - h) mod n + 1" by (simp only: s)
  show "(h + (t + n - h) mod n) mod n = t"
    using assms by (auto simp: dist_mod)
qed

lemma dist_head:
  fixes h t n :: nat
  assumes "h < n" "t < n" "(t + n - h) mod n = Suc k"
  shows "(t + n - (h + 1) mod n) mod n = k"
proof -
  obtain s where s: "s = (h + 1) mod n" "s < n" using assms by simp
  have "(t + n - s) mod n = k"
    using assms s(1) unfolding dist_mod [OF s(2) assms(2)] dist_mod [OF assms(1,2)] succ_mod [OF assms(1)]
    by (auto split: if_splits)
  then show ?thesis by (simp only: s)
qed

lemma dist_full: "h < n \<Longrightarrow> t < n \<Longrightarrow> (t + 1) mod n = h \<longleftrightarrow> (t + n - h) mod n = n - 1" for h t n :: nat
  unfolding dist_mod succ_mod by (auto split: if_splits)

lemma ring_abs: "ring ds h t l \<Longrightarrow> rq_abs (l, m) = map (\<lambda>i. m (ds ! ((h + i) mod length ds))) [0..<(t + length ds - h) mod length ds]"
  by (simp add: rq_abs_def rq_at_def ring_def)

interpretation rq: fifo_queue rq_inv rq_abs rq_cap rq_push rq_pop rq_empty rq_full
proof (unfold_locales, goal_cases)
  case (1 q)
  then obtain h t where r: "ring (ll_data (fst q)) h t (fst q)" by (auto simp: rq_inv_def)
  then have "(t + length (ll_data (fst q)) - h) mod length (ll_data (fst q)) < length (ll_data (fst q))"
    by (simp add: ring_def)
  then show ?case using ring_abs [OF r, of "snd q"] by (simp add: rq_cap_def)
next
  case (2 q x)
  obtain l m where q: "q = (l, m)" by fastforce
  let ?ds = "ll_data l" and ?n = "length (ll_data l)"
  obtain h t where r: "ring ?ds h t l" and d: "distinct ?ds" using 2(1) by (auto simp: rq_inv_def q)
  have b: "h < ?n" "t < ?n" using r by (auto simp: ring_def)
  have k: "(t + ?n - h) mod ?n < ?n - 1" using 2(2) ring_abs [OF r, of m] by (simp add: rq_cap_def q)
  obtain l' where l': "ll_take l = Inr (?ds ! t, l')" "ring ?ds h ((t + 1) mod ?n) l'" using ring_take [OF r] by blast
  have "rq_abs (l', m(?ds ! t := x)) = rq_abs (l, m) @ [x]"
  proof -
    have "(m(?ds ! t := x)) (?ds ! ((h + i) mod ?n)) = m (?ds ! ((h + i) mod ?n))" if "i < (t + ?n - h) mod ?n" for i
    proof -
      have "(h + i) mod ?n \<noteq> t"
        using mod_add_inj [of i ?n "(t + ?n - h) mod ?n" h] dist_tail(2) [OF b k] that k by fastforce
      moreover have "(h + i) mod ?n < ?n" by (rule mod_less_divisor) (use b in linarith)
      ultimately show ?thesis using d b by (simp add: nth_eq_iff_index_eq)
    qed
    then show ?thesis
      using dist_tail [OF b k] by (simp add: ring_abs [OF l'(2)] ring_abs [OF r])
  qed
  moreover have "ll_data l' = ?ds" using l'(2) by (simp add: ring_def)
  ultimately show ?case using l' d by (auto simp: rq_push_def q rq_inv_def rq_cap_def)
next
  case (3 q x xs)
  obtain l m where q: "q = (l, m)" by fastforce
  let ?ds = "ll_data l" and ?n = "length (ll_data l)"
  obtain h t where r: "ring ?ds h t l" and d: "distinct ?ds" using 3(1) by (auto simp: rq_inv_def q)
  have b: "h < ?n" "t < ?n" using r by (auto simp: ring_def)
  obtain l' where l': "ll_pop l = Inr (?ds ! h, l')" "ring ?ds ((h + 1) mod ?n) t l'" using ring_pop [OF r] by blast
  obtain k where k: "(t + ?n - h) mod ?n = Suc k"
    using 3(2) ring_abs [OF r, of m] by (cases "(t + ?n - h) mod ?n") (auto simp: q)
  have e: "x # xs = map (\<lambda>i. m (?ds ! ((h + i) mod ?n))) [0..<Suc k]"
    using 3(2) ring_abs [OF r, of m] k by (simp add: q)
  then have "x = m (?ds ! h)" "xs = map (\<lambda>i. m (?ds ! ((h + Suc i) mod ?n))) [0..<k]"
    using b unfolding map_upt_shift by simp_all
  moreover have "rq_abs (l', m) = map (\<lambda>i. m (?ds ! (((h + 1) mod ?n + i) mod ?n))) [0..<k]"
    using ring_abs [OF l'(2), of m] dist_head [OF b k] by simp
  moreover have "((h + 1) mod ?n + i) mod ?n = (h + Suc i) mod ?n" for i by (simp add: mod_add_left_eq)
  moreover have "ll_data l' = ?ds" using l'(2) by (simp add: ring_def)
  ultimately show ?case using l' d by (auto simp: rq_pop_def q rq_inv_def rq_cap_def)
next
  case (4 q)
  then obtain h t where r: "ring (ll_data (fst q)) h t (fst q)" by (auto simp: rq_inv_def)
  then have "h < length (ll_data (fst q))" "t < length (ll_data (fst q))" "ll_head (fst q) = Some h" "ll_tail (fst q) = Some t"
    by (auto simp: ring_def)
  then show ?case
    using ring_abs [OF r, of "snd q"] dist_mod [of h "length (ll_data (fst q))" t]
    by (auto simp: rq_empty_def ll_empty_def)
next
  case (5 q)
  let ?n = "length (ll_data (fst q))"
  obtain h t where r: "ring (ll_data (fst q)) h t (fst q)" using 5 by (auto simp: rq_inv_def)
  then have b: "h < ?n" "t < ?n" "ll_head (fst q) = Some h" "ll_tail (fst q) = Some t" by (auto simp: ring_def)
  have "ll_full (fst q) = Inr ((t + 1) mod ?n = h)" using b ring_node [OF r b(2)] by (auto simp: ll_full_def)
  moreover note dist_full [OF b(1,2)]
  ultimately show ?case using ring_abs [OF r, of "snd q"] by (simp add: rq_full_def rq_cap_def)
qed

text \<open>A ring that is full loses everything: one more slot taken and it looks empty.\<close>

lemma overfull_is_empty:
  assumes "rq_inv q" "length (rq_abs q) = rq_cap q"
  shows "\<exists>q'. rq_push q x = Inr q' \<and> rq_inv q' \<and> rq_abs q' = []"
proof -
  obtain l m where q: "q = (l, m)" by fastforce
  let ?ds = "ll_data l" and ?n = "length (ll_data l)"
  obtain h t where r: "ring ?ds h t l" and d: "distinct ?ds" using assms(1) by (auto simp: rq_inv_def q)
  obtain l' where l': "ll_take l = Inr (?ds ! t, l')" "ring ?ds h ((t + 1) mod ?n) l'" using ring_take [OF r] by blast
  have b: "h < ?n" "t < ?n" using r by (auto simp: ring_def)
  have "(t + 1) mod ?n = h"
    using assms(2) ring_abs [OF r, of m] dist_full [OF b] by (simp add: rq_cap_def q)
  then have "rq_abs (l', m(?ds ! t := x)) = []" using ring_abs [OF l'(2)] b by simp
  moreover have "ll_data l' = ?ds" using l'(2) by (simp add: ring_def)
  ultimately show ?thesis using l' d by (auto simp: rq_push_def q rq_inv_def)
qed

end
