(* ===== verification/Device.thy ===== *)
theory Device
  imports Prelude
begin

text \<open>
  Devices: the request handshake between the memory and a device (src/inc/device/device.h), the interrupt
  lines (src/inc/device/irqhandler.h, src/src/device/basicirqhandler.cpp) and the timer
  (src/src/arch/riscv/clint.cpp).
\<close>

section \<open>The request handshake\<close>

text \<open>
  A request object is named by its address.  addRequest answers whether the device takes it, checkResponse
  gives back the request that is done, or the null pointer.
\<close>

record 's port_ops =
  add_op :: "nat \<Rightarrow> 's \<Rightarrow> bool \<times> 's"
  ptick_op :: "'s \<Rightarrow> 's"
  resp_op :: "'s \<Rightarrow> nat option \<times> 's"

datatype port_event = P_Add nat | P_Tick | P_Resp

text \<open>A sequence of calls: the requests taken, and those given back.\<close>

fun port_run :: "'s port_ops \<Rightarrow> port_event list \<Rightarrow> 's \<Rightarrow> nat list \<times> nat list \<times> 's" where
  "port_run k [] s = ([], [], s)"
| "port_run k (P_Add r # es) s = (case add_op k r s of (ok, s) \<Rightarrow>
     case port_run k es s of (acc, ans, s) \<Rightarrow> ((if ok then r # acc else acc), ans, s))"
| "port_run k (P_Tick # es) s = port_run k es (ptick_op k s)"
| "port_run k (P_Resp # es) s = (case resp_op k s of (q, s) \<Rightarrow>
     case port_run k es s of (acc, ans, s) \<Rightarrow> (acc, (case q of None \<Rightarrow> ans | Some r \<Rightarrow> r # ans), s))"

fun opt_list :: "'a option \<Rightarrow> 'a list" where "opt_list None = []" | "opt_list (Some x) = [x]"

text \<open>
  The contract: a device holds at most one request, takes another only after it has given that one back,
  and gives it back after some number of clock ticks.
\<close>

locale request_port =
  fixes k :: "'s port_ops" and inv :: "'s \<Rightarrow> bool" and pending :: "'s \<Rightarrow> nat option" and wait :: "'s \<Rightarrow> nat"
  assumes add_free: "inv s \<Longrightarrow> pending s = None \<Longrightarrow> \<exists>s'. add_op k r s = (True, s') \<and> pending s' = Some r \<and> inv s'"
    and add_busy: "inv s \<Longrightarrow> pending s = Some q \<Longrightarrow> add_op k r s = (False, s)"
    and tick_keeps: "inv s \<Longrightarrow> pending (ptick_op k s) = pending s \<and> inv (ptick_op k s)"
    and tick_nearer: "inv s \<Longrightarrow> pending s \<noteq> None \<Longrightarrow> 0 < wait s \<Longrightarrow> wait (ptick_op k s) < wait s"
    and resp_done: "inv s \<Longrightarrow> resp_op k s = (Some r, s') \<Longrightarrow> pending s = Some r \<and> pending s' = None \<and> inv s'"
    and resp_not: "inv s \<Longrightarrow> resp_op k s = (None, s') \<Longrightarrow> pending s' = pending s \<and> inv s'"
    and resp_ready: "inv s \<Longrightarrow> pending s = Some r \<Longrightarrow> wait s = 0 \<Longrightarrow> fst (resp_op k s) = Some r"
begin

text \<open>What is taken is given back, once and in order; at most the last one is still in the device.\<close>

lemma exactly_once:
  "inv s \<Longrightarrow> port_run k es s = (acc, ans, s') \<Longrightarrow> opt_list (pending s) @ acc = ans @ opt_list (pending s')"
proof (induction es arbitrary: s acc ans)
  case (Cons v es)
  show ?case
  proof (cases v)
    case (P_Add r)
    show ?thesis
    proof (cases "pending s")
      case None
      then obtain s1 where "add_op k r s = (True, s1)" "pending s1 = Some r" "inv s1" using add_free Cons.prems(1) by blast
      then show ?thesis using Cons.prems(2) Cons.IH [of s1] None by (auto simp: P_Add split: prod.splits)
    next
      case (Some q)
      then show ?thesis
        using Cons.prems Cons.IH [of s] add_busy [of s q r] by (auto simp: P_Add split: prod.splits)
    qed
  next
    case P_Tick
    then show ?thesis using Cons.prems Cons.IH [of "ptick_op k s"] tick_keeps by simp
  next
    case P_Resp
    obtain q s1 where q: "resp_op k s = (q, s1)" by fastforce
    then show ?thesis
      using Cons.prems Cons.IH [of s1] resp_done [of s _ s1] resp_not [of s s1]
      by (cases q) (auto simp: P_Resp split: prod.splits)
  qed
qed simp

lemma answer_comes:
  "inv s \<Longrightarrow> pending s = Some r \<Longrightarrow> \<exists>n \<le> wait s. fst (resp_op k ((ptick_op k ^^ n) s)) = Some r"
proof (induction "wait s" arbitrary: s rule: less_induct)
  case less
  show ?case
  proof (cases "wait s = 0")
    case True
    then show ?thesis using resp_ready less.prems by (intro exI [of _ 0]) simp
  next
    case False
    then have w: "wait (ptick_op k s) < wait s" using tick_nearer less.prems by simp
    then obtain n where "n \<le> wait (ptick_op k s)" "fst (resp_op k ((ptick_op k ^^ n) (ptick_op k s))) = Some r"
      using less.hyps tick_keeps less.prems by metis
    then show ?thesis using w by (intro exI [of _ "Suc n"]) (simp add: funpow_swap1)
  qed
qed

end

section \<open>IrqHandler\<close>

text \<open>
  setIrqState on the word irq: 1 << irqnumber is a shift of an int, so a number of 32 or more is
  undefined; the result is what every listener is called with.
\<close>

definition setIrqState :: "u64 \<Rightarrow> bool \<Rightarrow> u64 \<Rightarrow> u64 res" where
  "setIrqState n st irq =
    (if 32 \<le> unat n then Inl (Undefined ''shift count'')
     else
       let irqshift = (scast (push_bit (unat n) 1 :: u32) :: u64)
       in Inr (if st then irq OR irqshift else irq AND NOT irqshift))"

lemma setIrqState_bit:
  assumes "n < 31"
  shows "\<exists>irq'. setIrqState (of_nat n) st irq = Inr irq' \<and> (\<forall>m. bit irq' m \<longleftrightarrow> (if m = n then st else bit irq m))"
proof -
  have n: "unat (of_nat n :: u64) = n" using assms by (simp add: unat_of_nat)
  define w where "w = (scast (push_bit n 1 :: u32) :: u64)"
  have w: "bit w m \<longleftrightarrow> m = n" for m
    using assms by (auto simp: w_def bit_simps bit_1_iff min_def)
  have "bit (if st then irq OR w else irq AND NOT w) m \<longleftrightarrow> (if m = n then st else bit irq m)" for m
    using assms bit_imp_le_length [of irq m] by (auto simp: w bit_or_iff bit_and_iff bit_not_iff)
  moreover have "setIrqState (of_nat n) st irq = Inr (if st then irq OR w else irq AND NOT w)"
    using assms by (simp add: setIrqState_def n w_def Let_def)
  ultimately show ?thesis by blast
qed

section \<open>BasicIrqHandler\<close>

record basic_irq =
  bi_base :: u64
  bi_end :: u64
  bi_ram :: "u64 \<Rightarrow> u8"
  bi_req :: "nat option"

definition bi_inRange :: "basic_irq \<Rightarrow> u64 \<Rightarrow> bool" where
  "bi_inRange d a \<longleftrightarrow> bi_base d \<le> a \<and> a < bi_end d"

text \<open>afterLoad: the contents of the new array are whatever the allocator gives.\<close>

definition bi_afterLoad :: "u64 \<Rightarrow> (u64 \<Rightarrow> u8) \<Rightarrow> basic_irq \<Rightarrow> basic_irq" where
  "bi_afterLoad len mem d = d\<lparr> bi_end := bi_base d + len, bi_ram := mem \<rparr>"

definition bi_read :: "basic_irq \<Rightarrow> u64 \<Rightarrow> nat \<Rightarrow> u8 list option" where
  "bi_read d a n =
    (if a < bi_base d \<or> a + of_nat n > bi_end d then None
     else Some (map (\<lambda>i. bi_ram d (a - bi_base d + of_nat i)) [0..<n]))"

definition bi_write :: "basic_irq \<Rightarrow> u64 \<Rightarrow> u8 list \<Rightarrow> basic_irq" where
  "bi_write d a bs =
    (if a < bi_base d \<or> a + of_nat (length bs) > bi_end d then d
     else d\<lparr> bi_ram := (\<lambda>x. if unat (x - (a - bi_base d)) < length bs then bs ! unat (x - (a - bi_base d))
                              else bi_ram d x) \<rparr>)"

definition bi_addRequest :: "nat \<Rightarrow> basic_irq \<Rightarrow> bool \<times> basic_irq" where
  "bi_addRequest r d = (case bi_req d of Some q \<Rightarrow> (False, d) | None \<Rightarrow> (True, d\<lparr> bi_req := Some r \<rparr>))"

definition bi_checkResponse :: "basic_irq \<Rightarrow> nat option \<times> basic_irq" where
  "bi_checkResponse d = (case bi_req d of None \<Rightarrow> (None, d) | Some r \<Rightarrow> (Some r, d\<lparr> bi_req := None \<rparr>))"

definition bi_ops :: "basic_irq port_ops" where
  "bi_ops = \<lparr> add_op = bi_addRequest, ptick_op = (\<lambda>d. d), resp_op = bi_checkResponse \<rparr>"

interpretation bi: request_port bi_ops "\<lambda>d. True" bi_req "\<lambda>d. 0"
  by unfold_locales (auto simp: bi_ops_def bi_addRequest_def bi_checkResponse_def split: option.splits)

lemma bi_write_read:
  assumes "bi_base d \<le> a" "unat a + length bs < 2 ^ 64" "a + of_nat (length bs) \<le> bi_end d"
  shows "bi_read (bi_write d a bs) a (length bs) = Some bs"
proof -
  have i: "unat (of_nat i :: u64) = i" if "i < length bs" for i
    using that assms(2) by (simp add: unat_of_nat)
  then show ?thesis
    using assms by (auto simp: bi_read_def bi_write_def intro!: nth_equalityI)
qed

section \<open>Clint\<close>

record clint =
  cl_base :: u64
  cl_end :: u64
  msip :: u64
  mtime :: u64
  mtimecmp :: u64
  cl_req :: "nat option"
  irqValid :: bool

abbreviation (input) EXCI_MSI :: u64 where "EXCI_MSI \<equiv> 3"
abbreviation (input) EXCI_MTIMER :: u64 where "EXCI_MTIMER \<equiv> 7"

definition clint_afterLoad :: "clint \<Rightarrow> clint" where
  "clint_afterLoad c = c\<lparr> cl_end := cl_base c + 0x10000, msip := 0, mtime := 0, mtimecmp := 0, irqValid := False \<rparr>"

text \<open>
  The irq word of the handler goes in and out; the Boolean tells whether the listeners were called.
\<close>

definition clint_tick :: "clint \<Rightarrow> u64 \<Rightarrow> (clint \<times> u64 \<times> bool) res" where
  "clint_tick c irq =
    (let c = c\<lparr> mtime := mtime c + 1 \<rparr> in
     if mtimecmp c \<le> mtime c
     then if \<not> irqValid c
          then rbind (setIrqState EXCI_MTIMER True irq) (\<lambda>irq. Inr (c\<lparr> irqValid := True \<rparr>, irq, True))
          else Inr (c, irq, False)
     else if irqValid c
          then rbind (setIrqState EXCI_MTIMER False irq) (\<lambda>irq. Inr (c\<lparr> irqValid := False \<rparr>, irq, True))
          else Inr (c, irq, False))"

definition clint_inRange :: "clint \<Rightarrow> u64 \<Rightarrow> bool" where
  "clint_inRange c a \<longleftrightarrow> cl_base c \<le> a \<and> a < cl_end c"

text \<open>
  Eight bytes are read or written whatever the size; None is an offset that leaves the caller's buffer
  untouched.
\<close>

definition clint_read :: "clint \<Rightarrow> u64 \<Rightarrow> u64 option" where
  "clint_read c a =
    (let offset = a - cl_base c in
     if offset = 0x0000 then Some (msip c) else if offset = 0xbff8 then Some (mtime c)
     else if offset = 0x4000 then Some (mtimecmp c) else None)"

definition clint_write :: "clint \<Rightarrow> u64 \<Rightarrow> u64 \<Rightarrow> u64 \<Rightarrow> (clint \<times> u64 \<times> bool) res" where
  "clint_write c a d irq =
    (let offset = a - cl_base c in
     if offset = 0x0000
     then let c = c\<lparr> msip := d AND 1 \<rparr> in
          rbind (setIrqState EXCI_MSI (msip c \<noteq> 0) irq) (\<lambda>irq. Inr (c, irq, True))
     else if offset = 0xbff8 then Inr (c\<lparr> mtime := d \<rparr>, irq, False)
     else if offset = 0x4000 then Inr (c\<lparr> mtimecmp := d \<rparr>, irq, False)
     else Inr (c, irq, False))"

definition clint_addRequest :: "nat \<Rightarrow> clint \<Rightarrow> bool \<times> clint" where
  "clint_addRequest r c = (case cl_req c of Some q \<Rightarrow> (False, c) | None \<Rightarrow> (True, c\<lparr> cl_req := Some r \<rparr>))"

definition clint_checkResponse :: "clint \<Rightarrow> nat option \<times> clint" where
  "clint_checkResponse c = (case cl_req c of None \<Rightarrow> (None, c) | Some r \<Rightarrow> (Some r, c\<lparr> cl_req := None \<rparr>))"

definition clint_ops :: "clint port_ops" where
  "clint_ops = \<lparr> add_op = clint_addRequest, ptick_op = (\<lambda>c. case clint_tick c 0 of Inr (c, irq, b) \<Rightarrow> c | Inl e \<Rightarrow> c),
     resp_op = clint_checkResponse \<rparr>"

lemma clint_tick_req: "clint_tick c irq = Inr (c', irq', b) \<Longrightarrow> cl_req c' = cl_req c"
  by (auto simp: clint_tick_def Let_def rbind_eq_Inr split: if_splits)

interpretation cl: request_port clint_ops "\<lambda>d. True" cl_req "\<lambda>d. 0"
  by unfold_locales (auto simp: clint_ops_def clint_addRequest_def clint_checkResponse_def
      split: option.splits sum.splits dest: clint_tick_req)

text \<open>The timer line: it is up exactly when the compare value is reached.\<close>

definition timer_line :: "clint \<Rightarrow> u64 \<Rightarrow> bool" where
  "timer_line c irq \<longleftrightarrow> bit irq 7 = irqValid c"

lemma clint_tick_line:
  assumes "timer_line c irq"
  shows "\<exists>c' irq' b. clint_tick c irq = Inr (c', irq', b) \<and> timer_line c' irq' \<and> mtime c' = mtime c + 1 \<and>
    mtimecmp c' = mtimecmp c \<and> (bit irq' 7 \<longleftrightarrow> mtimecmp c \<le> mtime c + 1) \<and> (\<forall>m. m \<noteq> 7 \<longrightarrow> bit irq' m = bit irq m)"
proof -
  obtain up dn where u: "setIrqState 7 True irq = Inr up" "setIrqState 7 False irq = Inr dn"
    "\<forall>m. bit up m \<longleftrightarrow> (if m = 7 then True else bit irq m)" "\<forall>m. bit dn m \<longleftrightarrow> (if m = 7 then False else bit irq m)"
    using setIrqState_bit [of 7 True irq] setIrqState_bit [of 7 False irq] by auto
  show ?thesis
    using assms u by (cases "mtimecmp c \<le> mtime c + 1"; cases "irqValid c")
      (auto simp: clint_tick_def Let_def timer_line_def)
qed

lemma clint_write_line:
  assumes "timer_line c irq"
  shows "\<exists>c' irq' b. clint_write c a d irq = Inr (c', irq', b) \<and> timer_line c' irq' \<and> bit irq' 7 = bit irq 7"
proof -
  obtain v where "setIrqState 3 (d AND 1 \<noteq> 0) irq = Inr v" "\<forall>m. bit v m \<longleftrightarrow> (if m = 3 then d AND 1 \<noteq> 0 else bit irq m)"
    using setIrqState_bit [of 3 "d AND 1 \<noteq> 0" irq] by auto
  then show ?thesis using assms by (auto simp: clint_write_def Let_def timer_line_def)
qed

end
