(* ===== verification/Memory_Port.thy ===== *)
theory Memory_Port
  imports LinkRing Device Cache "HOL-Library.Multiset"
begin

text \<open>
  The timing side of Memory, src/src/cache/memory.cpp: lookup, memoryRead, memoryWrite and tick, in the
  default build (Ramulator).  The devices are behind the request handshake; the DRAM simulator is a
  parameter.
\<close>

section \<open>State\<close>

record dev_req =
  dr_addr :: u64
  dr_size :: u32
  dr_callback :: u8
  dr_id :: "nat \<Rightarrow> u16"
  dr_write :: bool

record dram_meta =
  dm_callback :: u8
  dm_id :: "nat \<Rightarrow> u16"

text \<open>
  The DRAM simulator: send answers whether it takes a request (a write or a read of an address); tick
  gives the number of reads whose callback it calls in this cycle.
\<close>

record 'r dram_ops =
  dram_send :: "bool \<Rightarrow> u64 \<Rightarrow> 'r \<Rightarrow> bool \<times> 'r"
  dram_tick :: "'r \<Rightarrow> nat \<times> 'r"

text \<open>
  write_ids points to the ids inside the caller's request; it is kept as the number of that request and
  read through a map when the answer is given.  The calls of callbacks go to answers.
\<close>

record ('d, 'r) mem_port =
  mp_devices :: "'d list"
  mp_idle :: "nat list"
  mp_reqs :: "nat \<Rightarrow> dev_req"
  mp_queue :: "dram_meta slots_ring"
  mp_dram :: 'r
  mp_write_valid :: bool
  mp_write_ids :: nat
  mp_write_callback :: u8
  answers :: "(u8 \<times> (nat \<Rightarrow> u16)) list"

section \<open>Requests\<close>

text \<open>The first device whose range holds the address.\<close>

fun find_device :: "('d \<Rightarrow> u64 \<Rightarrow> bool) \<Rightarrow> u64 \<Rightarrow> 'd list \<Rightarrow> nat option" where
  "find_device rng a [] = None"
| "find_device rng a (d # ds) = (if rng d a then Some 0 else map_option Suc (find_device rng a ds))"

definition device_access :: "'d port_ops \<Rightarrow> bool \<Rightarrow> nat \<Rightarrow> u8 \<Rightarrow> (nat \<Rightarrow> u16) \<Rightarrow> u64 \<Rightarrow> u32 \<Rightarrow> ('d, 'r) mem_port \<Rightarrow>
    bool \<times> ('d, 'r) mem_port" where
  "device_access k w i cb ids a sz m = (case mp_idle m of
      [] \<Rightarrow> (False, m)
    | r # rs \<Rightarrow>
        let m = m\<lparr> mp_reqs := (mp_reqs m)(r := \<lparr> dr_addr = a, dr_size = sz, dr_callback = cb, dr_id = ids, dr_write = w \<rparr>) \<rparr>;
            (ok, d) = add_op k r (mp_devices m ! i);
            m = m\<lparr> mp_devices := (mp_devices m)[i := d] \<rparr>
        in (ok, if ok then m\<lparr> mp_idle := rs \<rparr> else m))"

definition memoryRead :: "'d port_ops \<Rightarrow> ('d \<Rightarrow> u64 \<Rightarrow> bool) \<Rightarrow> 'r dram_ops \<Rightarrow> u8 \<Rightarrow> (nat \<Rightarrow> u16) \<Rightarrow> u64 \<Rightarrow> u32 \<Rightarrow>
    ('d, 'r) mem_port \<Rightarrow> (bool \<times> ('d, 'r) mem_port) res" where
  "memoryRead k rng e cb ids a sz m = (case find_device rng a (mp_devices m) of
      Some i \<Rightarrow> Inr (device_access k False i cb ids a sz m)
    | None \<Rightarrow>
        let (ok, d) = dram_send e False a (mp_dram m); m = m\<lparr> mp_dram := d \<rparr> in
        if ok then rbind (rq_push (mp_queue m) \<lparr> dm_callback = cb, dm_id = ids \<rparr>) (\<lambda>q. Inr (True, m\<lparr> mp_queue := q \<rparr>))
        else Inr (False, m))"

definition memoryWrite :: "'d port_ops \<Rightarrow> ('d \<Rightarrow> u64 \<Rightarrow> bool) \<Rightarrow> 'r dram_ops \<Rightarrow> u8 \<Rightarrow> nat \<Rightarrow> (nat \<Rightarrow> u16) \<Rightarrow> u64 \<Rightarrow> u32 \<Rightarrow>
    ('d, 'r) mem_port \<Rightarrow> bool \<times> ('d, 'r) mem_port" where
  "memoryWrite k rng e cb p ids a sz m = (case find_device rng a (mp_devices m) of
      Some i \<Rightarrow> device_access k True i cb ids a sz m
    | None \<Rightarrow>
        let (ok, d) = dram_send e True a (mp_dram m); m = m\<lparr> mp_dram := d \<rparr> in
        (ok, if ok then m\<lparr> mp_write_ids := p, mp_write_valid := True, mp_write_callback := cb \<rparr> else m))"

text \<open>lookup: the request object p is changed too, its address is cut to 40 bits.\<close>

definition mem_lookup :: "'d port_ops \<Rightarrow> ('d \<Rightarrow> u64 \<Rightarrow> bool) \<Rightarrow> 'r dram_ops \<Rightarrow> u8 \<Rightarrow> nat \<Rightarrow> (nat \<Rightarrow> cache_req) \<Rightarrow>
    ('d, 'r) mem_port \<Rightarrow> (bool \<times> (nat \<Rightarrow> cache_req) \<times> ('d, 'r) mem_port) res" where
  "mem_lookup k rng e cb p h m =
    (let q = (h p)\<lparr> addr := addr (h p) AND 0xffffffffff \<rparr>; h = h(p := q) in
     if req q = READ_SHARED
     then rbind (memoryRead k rng e cb (req_id q) (addr q) (req_size q) m) (\<lambda>(ok, m). Inr (ok, h, m))
     else let (ok, m) = memoryWrite k rng e cb p (req_id q) (addr q) (req_size q) m in Inr (ok, h, m))"

section \<open>tick\<close>

definition answer :: "u8 \<Rightarrow> (nat \<Rightarrow> u16) \<Rightarrow> ('d, 'r) mem_port \<Rightarrow> ('d, 'r) mem_port" where
  "answer cb ids m = m\<lparr> answers := answers m @ [(cb, ids)] \<rparr>"

text \<open>The callback of a read takes the meta data at the head of the ring, whichever read it is for.\<close>

fun dram_answers :: "nat \<Rightarrow> ('d, 'r) mem_port \<Rightarrow> ('d, 'r) mem_port res" where
  "dram_answers 0 m = Inr m"
| "dram_answers (Suc n) m = rbind (rq_pop (mp_queue m)) (\<lambda>(x, q).
     dram_answers n (answer (dm_callback x) (dm_id x) (m\<lparr> mp_queue := q \<rparr>)))"

definition device_tick :: "'d port_ops \<Rightarrow> nat \<Rightarrow> ('d, 'r) mem_port \<Rightarrow> ('d, 'r) mem_port" where
  "device_tick k i m =
    (let (resp, d) = resp_op k (ptick_op k (mp_devices m ! i)); m = m\<lparr> mp_devices := (mp_devices m)[i := d] \<rparr> in
     case resp of None \<Rightarrow> m
     | Some r \<Rightarrow> (answer (dr_callback (mp_reqs m r)) (dr_id (mp_reqs m r)) m)\<lparr> mp_idle := mp_idle m @ [r] \<rparr>)"

fun device_ticks :: "'d port_ops \<Rightarrow> nat list \<Rightarrow> ('d, 'r) mem_port \<Rightarrow> ('d, 'r) mem_port" where
  "device_ticks k [] m = m"
| "device_ticks k (i # is) m = device_ticks k is (device_tick k i m)"

definition write_answer :: "(nat \<Rightarrow> cache_req) \<Rightarrow> ('d, 'r) mem_port \<Rightarrow> ('d, 'r) mem_port" where
  "write_answer h m = (if mp_write_valid m
     then answer (mp_write_callback m) (req_id (h (mp_write_ids m))) (m\<lparr> mp_write_valid := False \<rparr>) else m)"

definition dram_clock :: "'r dram_ops \<Rightarrow> (nat \<Rightarrow> cache_req) \<Rightarrow> ('d, 'r) mem_port \<Rightarrow> ('d, 'r) mem_port res" where
  "dram_clock e h m =
    (let (n, d) = dram_tick e (mp_dram m) in
     rbind (dram_answers n (m\<lparr> mp_dram := d \<rparr>)) (\<lambda>m. Inr (write_answer h m)))"

definition mem_tick :: "'d port_ops \<Rightarrow> 'r dram_ops \<Rightarrow> (nat \<Rightarrow> cache_req) \<Rightarrow> ('d, 'r) mem_port \<Rightarrow> ('d, 'r) mem_port res" where
  "mem_tick k e h m = rbind (dram_clock e h m) (\<lambda>m. Inr (device_ticks k [0..<length (mp_devices m)] m))"

text \<open>afterLoad: one request object for each device, the meta objects in the ring.\<close>

definition mem_afterLoad :: "nat \<Rightarrow> ('d, 'r) mem_port \<Rightarrow> ('d, 'r) mem_port" where
  "mem_afterLoad queue_size m =
     m\<lparr> mp_idle := [0..<length (mp_devices m)], mp_queue := (ll_pushes [0..<queue_size] ll_new, snd (mp_queue m)),
        mp_write_valid := False \<rparr>"

section \<open>Every request taken by a device is answered once\<close>

text \<open>
  The pool of request objects: the idle ones and those in the devices, all different, one for each
  device; so a free device always finds one.
\<close>

context request_port
begin

definition held :: "'s list \<Rightarrow> nat list" where
  "held ds = concat (map (\<lambda>d. opt_list (pending d)) ds)"

definition pool :: "('s, 'r) mem_port \<Rightarrow> bool" where
  "pool m \<longleftrightarrow> list_all inv (mp_devices m) \<and> distinct (mp_idle m @ held (mp_devices m)) \<and>
     length (mp_idle m) + length (held (mp_devices m)) = length (mp_devices m)"

definition owed :: "('s, 'r) mem_port \<Rightarrow> (u8 \<times> (nat \<Rightarrow> u16)) list" where
  "owed m = map (\<lambda>r. (dr_callback (mp_reqs m r), dr_id (mp_reqs m r))) (held (mp_devices m))"

lemma held_split:
  assumes "i < length ds"
  shows "held ds = held (take i ds) @ opt_list (pending (ds ! i)) @ held (drop (Suc i) ds)"
    "held (ds[i := d]) = held (take i ds) @ opt_list (pending d) @ held (drop (Suc i) ds)"
proof -
  have "ds = take i ds @ ds ! i # drop (Suc i) ds" by (rule id_take_nth_drop [OF assms])
  then have "held ds = held (take i ds @ ds ! i # drop (Suc i) ds)" by simp
  then show "held ds = held (take i ds) @ opt_list (pending (ds ! i)) @ held (drop (Suc i) ds)" by (simp add: held_def)
  show "held (ds[i := d]) = held (take i ds) @ opt_list (pending d) @ held (drop (Suc i) ds)"
    by (simp add: held_def upd_conv_take_nth_drop [OF assms])
qed

lemma inv_update: "list_all inv ds \<Longrightarrow> inv d \<Longrightarrow> list_all inv (ds[i := d])"
  by (auto simp: list_all_iff dest: subsetD [OF set_update_subset_insert])

lemma access_ok:
  assumes "pool m" "i < length (mp_devices m)"
  shows "\<exists>ok m'. device_access k w i cb ids a sz m = (ok, m') \<and> pool m' \<and> ok = (pending (mp_devices m ! i) = None) \<and>
    mset (owed m') = mset (owed m) + (if ok then {#(cb, ids)#} else {#}) \<and> answers m' = answers m"
proof -
  let ?d = "mp_devices m ! i"
  have inv: "list_all inv (mp_devices m)" "inv ?d" using assms by (auto simp: pool_def list_all_length)
  note sp = held_split [OF assms(2)]
  show ?thesis
  proof (cases "pending ?d")
    case None
    have "length (held ds) \<le> length ds" for ds
    proof (induction ds)
      case (Cons d ds)
      then show ?case by (cases "pending d") (auto simp: held_def)
    qed (simp add: held_def)
    from this [of "take i (mp_devices m)"] this [of "drop (Suc i) (mp_devices m)"]
    have "length (held (mp_devices m)) < length (mp_devices m)" using assms(2) None by (simp add: sp(1))
    then obtain r rs where r: "mp_idle m = r # rs" using assms(1) by (cases "mp_idle m") (auto simp: pool_def)
    obtain d where d: "add_op k r ?d = (True, d)" "pending d = Some r" "inv d" using add_free [OF inv(2) None] by blast
    let ?q = "\<lparr> dr_addr = a, dr_size = sz, dr_callback = cb, dr_id = ids, dr_write = w \<rparr>"
    let ?m = "m\<lparr> mp_reqs := (mp_reqs m)(r := ?q), mp_devices := (mp_devices m)[i := d], mp_idle := rs \<rparr>"
    have "r \<notin> set (held (mp_devices m))" using assms(1) r by (auto simp: pool_def)
    moreover have "image_mset (\<lambda>x. (dr_callback (if x = r then ?q else mp_reqs m x), dr_id (if x = r then ?q else mp_reqs m x))) (mset xs) =
        image_mset (\<lambda>x. (dr_callback (mp_reqs m x), dr_id (mp_reqs m x))) (mset xs)" if "r \<notin> set xs" for xs
      using that by (intro image_mset_cong) auto
    ultimately have "mset (owed ?m) = mset (owed m) + {#(cb, ids)#}"
      using None d(2) by (auto simp: owed_def sp)
    moreover have "pool ?m"
      using assms(1) r None d inv_update [OF inv(1) d(3)] by (auto simp: pool_def sp)
    ultimately show ?thesis
      using r d(1) None by (intro exI [of _ True] exI [of _ ?m]) (simp add: device_access_def Let_def)
  next
    case (Some q)
    show ?thesis
    proof (cases "mp_idle m")
      case Nil
      then show ?thesis
        using assms(1) Some by (intro exI [of _ False] exI [of _ m]) (simp add: device_access_def)
    next
      case (Cons r rs)
      have "r \<notin> set (held (mp_devices m))" using assms(1) Cons by (auto simp: pool_def)
      moreover define q1 where "q1 = \<lparr> dr_addr = a, dr_size = sz, dr_callback = cb, dr_id = ids, dr_write = w \<rparr>"
      ultimately have "owed (m\<lparr> mp_reqs := (mp_reqs m)(r := q1) \<rparr>) = owed m" by (auto simp: owed_def)
      moreover have "device_access k w i cb ids a sz m = (False, m\<lparr> mp_reqs := (mp_reqs m)(r := q1) \<rparr>)"
        using Cons add_busy [OF inv(2) Some, of r] by (simp add: device_access_def Let_def q1_def)
      moreover have "pool (m\<lparr> mp_reqs := (mp_reqs m)(r := q1) \<rparr>) = pool m" by (simp add: pool_def)
      ultimately show ?thesis
        using Some assms(1) by (intro exI [of _ False] exI [of _ "m\<lparr> mp_reqs := (mp_reqs m)(r := q1) \<rparr>"]) simp
    qed
  qed
qed

lemma tick_ok:
  assumes "pool m" "i < length (mp_devices m)"
  shows "pool (device_tick k i m) \<and> mset (answers (device_tick k i m)) + mset (owed (device_tick k i m)) =
      mset (answers m) + mset (owed m) \<and> length (mp_devices (device_tick k i m)) = length (mp_devices m)"
proof -
  let ?d = "mp_devices m ! i"
  have inv: "list_all inv (mp_devices m)" "inv ?d" using assms by (auto simp: pool_def list_all_length)
  have t: "pending (ptick_op k ?d) = pending ?d" "inv (ptick_op k ?d)" using tick_keeps [OF inv(2)] by auto
  note sp = held_split [OF assms(2)]
  obtain q d where r: "resp_op k (ptick_op k ?d) = (q, d)" by fastforce
  show ?thesis
  proof (cases q)
    case None
    then have "pending d = pending ?d" "inv d" using resp_not [OF t(2)] r t(1) by auto
    then show ?thesis
      using assms(1) r None inv_update [OF inv(1)] by (auto simp: device_tick_def Let_def pool_def owed_def sp)
  next
    case (Some x)
    then have p: "pending ?d = Some x" "pending d = None" "inv d" using resp_done [OF t(2)] r t(1) by auto
    then show ?thesis
      using assms(1) r Some inv_update [OF inv(1) p(3)]
      by (auto simp: device_tick_def Let_def pool_def owed_def sp answer_def)
  qed
qed

lemma ticks_ok:
  "pool m \<Longrightarrow> \<forall>i \<in> set is. i < length (mp_devices m) \<Longrightarrow>
   pool (device_ticks k is m) \<and> mset (answers (device_ticks k is m)) + mset (owed (device_ticks k is m)) =
     mset (answers m) + mset (owed m)"
proof (induction "is" arbitrary: m)
  case (Cons i "is")
  then show ?case using tick_ok [OF Cons.prems(1), of i] Cons.IH [of "device_tick k i m"] by simp
qed simp

text \<open>Requests to devices and clock cycles, in any order; the requests taken are collected.\<close>

lemma find_device_lt: "find_device rng a ds = Some i \<Longrightarrow> i < length ds"
  by (induction ds arbitrary: i) (auto split: if_splits)

end

datatype mem_event = Access bool nat u8 "nat \<Rightarrow> u16" u64 u32 | Cycle

fun mem_run :: "'d port_ops \<Rightarrow> mem_event list \<Rightarrow> ('d, 'r) mem_port \<Rightarrow> (u8 \<times> (nat \<Rightarrow> u16)) list \<times> ('d, 'r) mem_port" where
  "mem_run k [] m = ([], m)"
| "mem_run k (Access w i cb ids a sz # es) m = (case device_access k w i cb ids a sz m of (ok, m) \<Rightarrow>
     case mem_run k es m of (acc, m) \<Rightarrow> (if ok then (cb, ids) # acc else acc, m))"
| "mem_run k (Cycle # es) m = mem_run k es (device_ticks k [0..<length (mp_devices m)] m)"

fun on_device :: "nat \<Rightarrow> mem_event \<Rightarrow> bool" where
  "on_device n (Access w i cb ids a sz) = (i < n)" | "on_device n Cycle = True"

context request_port
begin

lemma access_length: "device_access k w i cb ids a sz m = (ok, m') \<Longrightarrow> length (mp_devices m') = length (mp_devices m)"
  by (auto simp: device_access_def Let_def split: list.splits prod.splits if_splits)

lemma ticks_length: "length (mp_devices (device_ticks k is m)) = length (mp_devices m)"
  by (induction "is" arbitrary: m) (auto simp: device_tick_def answer_def Let_def split: prod.splits option.splits)

lemma mem_run_ok:
  "pool m \<Longrightarrow> list_all (on_device (length (mp_devices m))) es \<Longrightarrow> mem_run k es m = (acc, m') \<Longrightarrow>
   pool m' \<and> mset (answers m') + mset (owed m') = mset (answers m) + mset (owed m) + mset acc"
proof (induction es arbitrary: m acc m')
  case (Cons v es)
  show ?case
  proof (cases v)
    case (Access w i cb ids a sz)
    then have i: "i < length (mp_devices m)" using Cons.prems(2) by simp
    obtain ok m1 where 1: "device_access k w i cb ids a sz m = (ok, m1)" "pool m1"
      "mset (owed m1) = mset (owed m) + (if ok then {#(cb, ids)#} else {#})" "answers m1 = answers m"
      using access_ok [OF Cons.prems(1) i] by blast
    obtain acc1 m2 where 2: "mem_run k es m1 = (acc1, m2)" by fastforce
    have "pool m2 \<and> mset (answers m2) + mset (owed m2) = mset (answers m1) + mset (owed m1) + mset acc1"
      using Cons.IH [OF 1(2) _ 2] access_length [OF 1(1)] Cons.prems(2) by simp
    then show ?thesis using Cons.prems(3) 1 2 Access by auto
  next
    case Cycle
    then show ?thesis
      using Cons.prems ticks_ok [OF Cons.prems(1), of "[0..<length (mp_devices m)]"]
        Cons.IH [of "device_ticks k [0..<length (mp_devices m)] m" acc] ticks_length [of _ m]
      by simp
  qed
qed simp

lemma afterLoad_pool: "list_all inv (mp_devices m) \<Longrightarrow> list_all (\<lambda>d. pending d = None) (mp_devices m) \<Longrightarrow>
    pool (mem_afterLoad n m) \<and> owed (mem_afterLoad n m) = []"
proof -
  have "list_all (\<lambda>d. pending d = None) ds \<Longrightarrow> held ds = []" for ds
    by (induction ds) (auto simp: held_def)
  then show "list_all inv (mp_devices m) \<Longrightarrow> list_all (\<lambda>d. pending d = None) (mp_devices m) \<Longrightarrow> ?thesis"
    by (simp add: pool_def owed_def mem_afterLoad_def)
qed

end

section \<open>Reads of the DRAM are answered in the order they were taken\<close>

lemma dram_answers_ok:
  "rq_inv (mp_queue m) \<Longrightarrow> n \<le> length (rq_abs (mp_queue m)) \<Longrightarrow>
   \<exists>m'. dram_answers n m = Inr m' \<and> rq_inv (mp_queue m') \<and> rq_abs (mp_queue m') = drop n (rq_abs (mp_queue m)) \<and>
     answers m' = answers m @ map (\<lambda>x. (dm_callback x, dm_id x)) (take n (rq_abs (mp_queue m))) \<and>
     rq_cap (mp_queue m') = rq_cap (mp_queue m)"
proof (induction n arbitrary: m)
  case (Suc n)
  then obtain x xs where x: "rq_abs (mp_queue m) = x # xs" by (cases "rq_abs (mp_queue m)") auto
  obtain q where q: "rq_pop (mp_queue m) = Inr (x, q)" "rq_inv q" "rq_abs q = xs" "rq_cap q = rq_cap (mp_queue m)"
    using rq.pop_some [OF Suc.prems(1) x] by blast
  then show ?case
    using Suc.IH [of "answer (dm_callback x) (dm_id x) (m\<lparr> mp_queue := q \<rparr>)"] Suc.prems(2) x
    by (auto simp: answer_def)
qed simp

fun dram_reads :: "(u8 \<times> (nat \<Rightarrow> u16)) list \<Rightarrow> ('d, 'r) mem_port \<Rightarrow> ('d, 'r) mem_port res" where
  "dram_reads [] m = Inr m"
| "dram_reads ((cb, ids) # rs) m = rbind (rq_push (mp_queue m) \<lparr> dm_callback = cb, dm_id = ids \<rparr>) (\<lambda>q.
     dram_reads rs (m\<lparr> mp_queue := q \<rparr>))"

lemma dram_reads_ok:
  "rq_inv (mp_queue m) \<Longrightarrow> length (rq_abs (mp_queue m)) + length rs \<le> rq_cap (mp_queue m) \<Longrightarrow>
   \<exists>m'. dram_reads rs m = Inr m' \<and> rq_inv (mp_queue m') \<and> answers m' = answers m \<and>
     rq_abs (mp_queue m') = rq_abs (mp_queue m) @ map (\<lambda>(cb, ids). \<lparr> dm_callback = cb, dm_id = ids \<rparr>) rs"
proof (induction rs arbitrary: m)
  case (Cons r rs)
  obtain cb ids where r: "r = (cb, ids)" by fastforce
  obtain q where q: "rq_push (mp_queue m) \<lparr> dm_callback = cb, dm_id = ids \<rparr> = Inr q" "rq_inv q"
    "rq_abs q = rq_abs (mp_queue m) @ [\<lparr> dm_callback = cb, dm_id = ids \<rparr>]" "rq_cap q = rq_cap (mp_queue m)"
    using rq.push_room [OF Cons.prems(1), of "\<lparr> dm_callback = cb, dm_id = ids \<rparr>"] Cons.prems(2) by auto
  then show ?case using Cons.IH [of "m\<lparr> mp_queue := q \<rparr>"] Cons.prems(2) by (auto simp: r)
qed simp

lemma afterLoad_ring: "0 < n \<Longrightarrow> rq_inv (mp_queue (mem_afterLoad n m)) \<and> rq_abs (mp_queue (mem_afterLoad n m)) = [] \<and>
    rq_cap (mp_queue (mem_afterLoad n m)) = n - 1"
proof -
  assume "0 < n"
  then have r: "ring [0..<n] 0 0 (ll_pushes [0..<n] ll_new)" using pushes_ring [of "[0..<n]"] by simp
  then have "ll_data (ll_pushes [0..<n] ll_new) = [0..<n]" by (simp add: ring_def)
  then show ?thesis using r ring_abs [OF r] by (auto simp: mem_afterLoad_def rq_inv_def rq_cap_def)
qed

end
