(* ===== verification/Fifo8.thy ===== *)
theory Fifo8
  imports Queue
begin

text \<open>
  The byte FIFO of src/src/device/fifo8.cpp: a circular buffer with a head index and a count, all
  32-bit unsigned.  Its asserts are the branches that return AssertFail.  The section on
  the interface states what a client of a bounded queue may rely on, and the interpretation at the
  end shows that the circular buffer keeps those promises.
\<close>

section \<open>State and operations\<close>

record fifo8 =
  ff_data :: "u8 list"
  ff_capacity :: u32
  ff_head :: u32
  ff_num :: u32

text \<open>The argument mem is what malloc's fresh block happens to hold.\<close>

definition fifo8_create :: "(nat \<Rightarrow> u8) \<Rightarrow> u32 \<Rightarrow> fifo8" where
  "fifo8_create mem capacity =
     \<lparr> ff_data = map mem [0..<unat capacity], ff_capacity = capacity, ff_head = 0, ff_num = 0 \<rparr>"

definition fifo8_push :: "fifo8 \<Rightarrow> u8 \<Rightarrow> fifo8 res" where
  "fifo8_push f d =
     assert_c (ff_num f < ff_capacity f) ''fifo->num < fifo->capacity''
       (Inr (f\<lparr> ff_data := (ff_data f)[unat ((ff_head f + ff_num f) mod ff_capacity f) := d],
               ff_num := ff_num f + 1 \<rparr>))"

definition fifo8_push_all :: "fifo8 \<Rightarrow> u8 list \<Rightarrow> u32 \<Rightarrow> fifo8 res" where
  "fifo8_push_all f data num =
     assert_c (ff_num f + num \<le> ff_capacity f) ''fifo->num + num <= fifo->capacity''
       (if ff_capacity f = 0 then Inl ArithTrap else
        let start = (ff_head f + ff_num f) mod ff_capacity f;
            xs = take (unat num) data
        in if start + num \<le> ff_capacity f
           then Inr (f\<lparr> ff_data := memcpy_at (ff_data f) (unat start) xs,
                        ff_num := ff_num f + num \<rparr>)
           else let avail = ff_capacity f - start
                in Inr (f\<lparr> ff_data :=
                              memcpy_at (memcpy_at (ff_data f) (unat start) (take (unat avail) xs))
                                0 (drop (unat avail) xs),
                            ff_num := ff_num f + num \<rparr>))"

definition fifo8_pop :: "fifo8 \<Rightarrow> (u8 \<times> fifo8) res" where
  "fifo8_pop f =
     assert_c (0 < ff_num f) ''fifo->num > 0''
       (if unat (ff_head f) < length (ff_data f)
        then if ff_capacity f = 0 then Inl ArithTrap
             else Inr (ff_data f ! unat (ff_head f),
                       f\<lparr> ff_head := (ff_head f + 1) mod ff_capacity f, ff_num := ff_num f - 1 \<rparr>)
        else Inl OutOfBounds)"

text \<open>The returned pointer into the buffer is the list of the bytes it covers.\<close>

definition fifo8_pop_buf :: "fifo8 \<Rightarrow> u32 \<Rightarrow> (u8 list \<times> u32 \<times> fifo8) res" where
  "fifo8_pop_buf f mx =
     assert_c (0 < mx \<and> mx \<le> ff_num f) ''max > 0 && max <= fifo->num''
       (let n = min (ff_capacity f - ff_head f) mx
        in if ff_capacity f = 0 then Inl ArithTrap
           else Inr (take (unat n) (drop (unat (ff_head f)) (ff_data f)), n,
                     f\<lparr> ff_head := (ff_head f + n) mod ff_capacity f, ff_num := ff_num f - n \<rparr>))"

definition fifo8_reset :: "fifo8 \<Rightarrow> fifo8" where
  "fifo8_reset f = f\<lparr> ff_num := 0, ff_head := 0 \<rparr>"

definition fifo8_is_empty :: "fifo8 \<Rightarrow> bool" where
  "fifo8_is_empty f \<longleftrightarrow> ff_num f = 0"

definition fifo8_is_full :: "fifo8 \<Rightarrow> bool" where
  "fifo8_is_full f \<longleftrightarrow> ff_num f = ff_capacity f"

definition fifo8_num_free :: "fifo8 \<Rightarrow> u32" where
  "fifo8_num_free f = ff_capacity f - ff_num f"

definition fifo8_num_used :: "fifo8 \<Rightarrow> u32" where
  "fifo8_num_used f = ff_num f"

section \<open>Invariant and abstraction to a list\<close>

definition fifo_inv :: "fifo8 \<Rightarrow> bool" where
  "fifo_inv f \<longleftrightarrow> length (ff_data f) = unat (ff_capacity f) \<and> ff_num f \<le> ff_capacity f
     \<and> ff_head f < ff_capacity f \<and> unat (ff_capacity f) < 2 ^ 31"

definition fifo_abs :: "fifo8 \<Rightarrow> u8 list" where
  "fifo_abs f = map (\<lambda>i. ff_data f ! ((unat (ff_head f) + i) mod unat (ff_capacity f)))
                    [0..<unat (ff_num f)]"

definition fifo_cap :: "fifo8 \<Rightarrow> nat" where
  "fifo_cap f = unat (ff_capacity f)"

lemma fifo_invD:
  assumes "fifo_inv f"
  shows "length (ff_data f) = unat (ff_capacity f)" "unat (ff_num f) \<le> unat (ff_capacity f)"
    "unat (ff_head f) < unat (ff_capacity f)" "0 < unat (ff_capacity f)"
    "unat (ff_capacity f) < 2 ^ 31"
  using assms by (auto simp: fifo_inv_def word_le_nat_alt word_less_nat_alt)

lemma length_fifo_abs [simp]: "length (fifo_abs f) = unat (ff_num f)"
  by (simp add: fifo_abs_def)

lemma fifo_abs_nth: "i < unat (ff_num f) \<Longrightarrow>
  fifo_abs f ! i = ff_data f ! ((unat (ff_head f) + i) mod unat (ff_capacity f))"
  by (simp add: fifo_abs_def)

lemma unat_plus_31:
  fixes a b :: u32
  assumes "unat a < 2 ^ 31" "unat b \<le> 2 ^ 31"
  shows "unat (a + b) = unat a + unat b"
  using assms by (intro unat_add_lem [THEN iffD1]) simp

lemma fifo_start:
  assumes "fifo_inv f"
  shows "unat ((ff_head f + ff_num f) mod ff_capacity f)
           = (unat (ff_head f) + unat (ff_num f)) mod unat (ff_capacity f)"
proof -
  have "unat (ff_head f + ff_num f) = unat (ff_head f) + unat (ff_num f)"
    by (rule unat_plus_31) (use fifo_invD [OF assms] in auto)
  then show ?thesis by (simp add: unat_mod_distrib)
qed

lemma fifo_create_inv: "0 < c \<Longrightarrow> unat c < 2 ^ 31 \<Longrightarrow> fifo_inv (fifo8_create mem c)"
  by (simp add: fifo_inv_def fifo8_create_def)

lemma fifo_create_abs: "fifo_abs (fifo8_create mem c) = []"
  by (simp add: fifo_abs_def fifo8_create_def)


lemma fifo_push_ok:
  assumes "fifo_inv f" "ff_num f < ff_capacity f"
  obtains f' where "fifo8_push f d = Inr f'" "fifo_inv f'" "fifo_abs f' = fifo_abs f @ [d]"
    "ff_capacity f' = ff_capacity f"
proof -
  define f' where "f' = f\<lparr> ff_data := (ff_data f)[unat ((ff_head f + ff_num f) mod ff_capacity f) := d],
               ff_num := ff_num f + 1 \<rparr>"
  note inv = fifo_invD [OF assms(1)]
  have lt: "unat (ff_num f) < unat (ff_capacity f)"
    using assms(2) by (simp add: word_less_nat_alt)
  have num: "unat (ff_num f + 1) = Suc (unat (ff_num f))"
    using unat_plus_31 [of "ff_num f" 1] lt inv by simp
  have ne: "(unat (ff_head f) + i) mod unat (ff_capacity f) \<noteq>
      (unat (ff_head f) + unat (ff_num f)) mod unat (ff_capacity f)" if "i < unat (ff_num f)" for i
    using mod_add_inj [of i "unat (ff_capacity f)" "unat (ff_num f)" "unat (ff_head f)"] that lt by auto
  have "fifo_abs f' = fifo_abs f @ [d]"
    unfolding fifo_abs_def f'_def using inv
    by (simp add: num fifo_start [OF assms(1)] nth_list_update_neq [OF ne [symmetric]])
  moreover have "fifo_inv f'"
    using assms num lt by (auto simp: fifo_inv_def f'_def word_le_nat_alt)
  moreover have "fifo8_push f d = Inr f'"
    using assms(2) by (simp add: fifo8_push_def f'_def)
  ultimately show ?thesis
    using that [of f'] by (simp add: f'_def)
qed

lemma fifo_push_full:
  "fifo_inv f \<Longrightarrow> \<not> ff_num f < ff_capacity f \<Longrightarrow>
   fifo8_push f d = Inl (AssertFail ''fifo->num < fifo->capacity'')"
  by (simp add: fifo8_push_def)

lemma fifo_pop_ok:
  assumes "fifo_inv f" "fifo_abs f = x # xs"
  obtains f' where "fifo8_pop f = Inr (x, f')" "fifo_inv f'" "fifo_abs f' = xs"
    "ff_capacity f' = ff_capacity f"
proof -
  define f' where "f' = f\<lparr> ff_head := (ff_head f + 1) mod ff_capacity f, ff_num := ff_num f - 1 \<rparr>"
  note inv = fifo_invD [OF assms(1)]
  have n: "unat (ff_num f) = Suc (length xs)"
    using arg_cong [OF assms(2), of length] by simp
  have pos: "0 < ff_num f" using n by (simp add: word_less_nat_alt)
  have num: "unat (ff_num f - 1) = length xs"
    using n pos by (simp add: unat_minus_one)
  have head: "unat ((ff_head f + 1) mod ff_capacity f)
      = Suc (unat (ff_head f)) mod unat (ff_capacity f)"
    using unat_plus_31 [of "ff_head f" 1] inv by (simp add: unat_mod_distrib)
  have eq: "x # xs = ff_data f ! unat (ff_head f) #
      map (\<lambda>i. ff_data f ! ((unat (ff_head f) + Suc i) mod unat (ff_capacity f))) [0..<length xs]"
    using assms(2) inv unfolding fifo_abs_def n map_upt_shift by simp
  have "fifo_abs f' = xs"
    using eq unfolding fifo_abs_def f'_def
    by (simp add: num head mod_add_left_eq)
  moreover have "fifo_inv f'"
    using assms(1) num head inv n
    by (auto simp: fifo_inv_def f'_def word_le_nat_alt word_less_nat_alt)
  moreover have "fifo8_pop f = Inr (x, f')"
    using pos inv eq by (simp add: fifo8_pop_def f'_def word_less_nat_alt) auto
  ultimately show ?thesis
    using that [of f'] by (simp add: f'_def)
qed

lemma fifo_pop_empty:
  "fifo_abs f = [] \<Longrightarrow> fifo8_pop f = Inl (AssertFail ''fifo->num > 0'')"
  by (simp add: fifo8_pop_def fifo_abs_def unat_eq_0)

lemma fifo_reset_abs: "fifo_inv f \<Longrightarrow> fifo_inv (fifo8_reset f) \<and> fifo_abs (fifo8_reset f) = []"
  by (auto simp: fifo_inv_def fifo_abs_def fifo8_reset_def word_less_nat_alt)

lemma fifo_is_empty_abs: "fifo8_is_empty f \<longleftrightarrow> fifo_abs f = []"
  by (auto simp: fifo8_is_empty_def fifo_abs_def unat_eq_0)

lemma fifo_is_full_abs: "fifo8_is_full f \<longleftrightarrow> length (fifo_abs f) = unat (ff_capacity f)"
  by (simp add: fifo8_is_full_def word_unat_eq_iff)


lemma fifo_num_free_abs:
  "fifo_inv f \<Longrightarrow> unat (fifo8_num_free f) = unat (ff_capacity f) - length (fifo_abs f)"
  by (simp add: fifo8_num_free_def fifo_inv_def unat_sub)

section \<open>The block operations\<close>

lemma fifo_slot:
  assumes "fifo_inv f" "i < unat (ff_capacity f)"
  shows "(unat (ff_head f) + i) mod unat (ff_capacity f)
    = (if unat (ff_head f) + i < unat (ff_capacity f) then unat (ff_head f) + i
       else unat (ff_head f) + i - unat (ff_capacity f))"
  by (rule mod_wrap) (use assms fifo_invD [OF assms(1)] in linarith)

text \<open>A state whose buffer agrees with the old list and the new bytes in ring order
  represents their concatenation.\<close>

lemma fifo_abs_append:
  assumes inv: "fifo_inv f" and n: "unat (ff_num f) + length xs \<le> unat (ff_capacity f)"
    and len: "length d' = length (ff_data f)" and num: "unat n' = unat (ff_num f) + length xs"
    and at: "\<And>j. j < unat (ff_capacity f) \<Longrightarrow>
       d' ! ((unat (ff_head f) + j) mod unat (ff_capacity f)) =
       (if unat (ff_num f) \<le> j \<and> j < unat (ff_num f) + length xs then xs ! (j - unat (ff_num f))
        else ff_data f ! ((unat (ff_head f) + j) mod unat (ff_capacity f)))"
  shows "fifo_abs (f\<lparr> ff_data := d', ff_num := n' \<rparr>) = fifo_abs f @ xs"
    and "fifo_inv (f\<lparr> ff_data := d', ff_num := n' \<rparr>)"
proof -
  show "fifo_abs (f\<lparr> ff_data := d', ff_num := n' \<rparr>) = fifo_abs f @ xs"
    by (rule nth_equalityI) (use n at in \<open>auto simp: fifo_abs_def num nth_append\<close>)
  show "fifo_inv (f\<lparr> ff_data := d', ff_num := n' \<rparr>)"
    using inv len n num by (simp add: fifo_inv_def word_le_nat_alt)
qed

lemma ring_write:
  fixes h m c :: nat
  assumes "length d = c" "h < c" "m + length xs \<le> c" "j < c"
    and s: "s = (if h + m < c then h + m else h + m - c)" and fit: "s + length xs \<le> c"
  shows "memcpy_at d s xs ! (if h + j < c then h + j else h + j - c) =
    (if m \<le> j \<and> j < m + length xs then xs ! (j - m)
     else d ! (if h + j < c then h + j else h + j - c))"
proof (cases "h + m < c"; cases "h + j < c")
  assume "h + m < c" "h + j < c"
  then show ?thesis using assms by (auto simp: nth_memcpy_at)
next
  assume "h + m < c" "\<not> h + j < c"
  then show ?thesis using assms by (auto simp: nth_memcpy_at)
next
  assume "\<not> h + m < c" "h + j < c"
  then show ?thesis using assms by (auto simp: nth_memcpy_at)
next
  assume a: "\<not> h + m < c" "\<not> h + j < c"
  then have "h + j - c - (h + m - c) = j - m" by simp
  then show ?thesis using assms a by (auto simp: nth_memcpy_at)
qed

lemma ring_write_split:
  fixes h m c :: nat
  assumes "length d = c" "h < c" "m + length xs \<le> c" "j < c"
    and s: "s = (if h + m < c then h + m else h + m - c)" and over: "c < s + length xs"
  shows "memcpy_at (memcpy_at d s (take (c - s) xs)) 0 (drop (c - s) xs)
      ! (if h + j < c then h + j else h + j - c) =
    (if m \<le> j \<and> j < m + length xs then xs ! (j - m)
     else d ! (if h + j < c then h + j else h + j - c))"
proof -
  have hm: "h + m < c" "s = h + m" using assms by (auto split: if_splits)
  have l: "length (take (c - s) xs) = c - s" "length (drop (c - s) xs) = s + length xs - c"
    using over hm by auto
  show ?thesis
  proof (cases "h + j < c")
    case True
    then show ?thesis using hm l assms by (auto simp: nth_memcpy_at)
  next
    case False
    then have "c - s + (h + j - c) = j - m" using hm by simp
    then show ?thesis using False hm l assms by (auto simp: nth_memcpy_at)
  qed
qed

lemma fifo_push_all_ok:
  assumes inv: "fifo_inv f" and le: "unat (ff_num f) + length xs \<le> unat (ff_capacity f)"
  obtains f' where "fifo8_push_all f xs (of_nat (length xs)) = Inr f'" "fifo_inv f'"
    "fifo_abs f' = fifo_abs f @ xs" "ff_capacity f' = ff_capacity f"
proof -
  define c h m n where "c = unat (ff_capacity f)" and "h = unat (ff_head f)"
    and "m = unat (ff_num f)" and "n = (of_nat (length xs) :: u32)"
  note defs = c_def h_def m_def
  have cs: "length (ff_data f) = c" "m \<le> c" "h < c" "0 < c" "c < 2 ^ 31" "m + length xs \<le> c"
    using fifo_invD [OF inv] le by (simp_all add: defs)
  have un: "unat n = length xs" using cs by (simp add: n_def unat_of_nat)
  have num: "unat (ff_num f + n) = m + length xs"
    using unat_plus_31 [of "ff_num f" n] cs un by (simp add: m_def)
  define s where "s = (ff_head f + ff_num f) mod ff_capacity f"
  have slot: "(h + j) mod c = (if h + j < c then h + j else h + j - c)" if "j \<le> c" for j
    by (rule mod_wrap) (use cs that in linarith)
  have us: "unat s = (if h + m < c then h + m else h + m - c)"
    using fifo_start [OF inv] slot [of m] cs(2) by (simp add: s_def defs)
  then have s_lt: "unat s < c" using cs by (simp split: if_splits)
  have sn: "unat (s + n) = unat s + length xs"
    using unat_plus_31 [of s n] s_lt cs un by simp
  have guard: "ff_num f + n \<le> ff_capacity f"
    using num cs by (simp add: word_le_nat_alt c_def)
  have c0: "ff_capacity f \<noteq> 0" using cs(4) by (auto simp: c_def)
  define a where "a = ff_capacity f - s"
  have ua: "unat a = c - unat s"
    unfolding a_def using s_lt by (simp add: unat_sub word_le_nat_alt c_def)
  define d' where "d' = (if unat s + length xs \<le> c then memcpy_at (ff_data f) (unat s) xs
    else memcpy_at (memcpy_at (ff_data f) (unat s) (take (c - unat s) xs)) 0 (drop (c - unat s) xs))"
  have ld: "length d' = length (ff_data f)"
    using cs s_lt us by (auto simp: d'_def min_def split: if_splits)
  have at: "d' ! ((h + j) mod c) = (if m \<le> j \<and> j < m + length xs then xs ! (j - m)
      else ff_data f ! ((h + j) mod c))" if "j < c" for j
    using ring_write [OF cs(1,3,6) that us] ring_write_split [OF cs(1,3,6) that us] that
    by (cases "unat s + length xs \<le> c") (simp_all add: d'_def slot)
  have "fifo8_push_all f xs n = Inr (f\<lparr> ff_data := d', ff_num := ff_num f + n \<rparr>)"
    using guard c0 sn un ua
    by (simp add: fifo8_push_all_def Let_def d'_def a_def s_def [symmetric] word_le_nat_alt
        c_def [symmetric])
  moreover have "fifo_abs (f\<lparr> ff_data := d', ff_num := ff_num f + n \<rparr>) = fifo_abs f @ xs"
    and "fifo_inv (f\<lparr> ff_data := d', ff_num := ff_num f + n \<rparr>)"
    using fifo_abs_append [OF inv le ld, of "ff_num f + n"] num at by (simp_all add: defs)
  ultimately show ?thesis
    using that [of "f\<lparr> ff_data := d', ff_num := ff_num f + n \<rparr>"] by (simp add: n_def)
qed


lemma fifo_pop_buf_ok:
  assumes inv: "fifo_inv f" and "0 < mx" "mx \<le> ff_num f"
  obtains n f' where "fifo8_pop_buf f mx = Inr (take (unat n) (fifo_abs f), n, f')" "fifo_inv f'"
    "fifo_abs f' = drop (unat n) (fifo_abs f)" "0 < n" "n \<le> mx" "ff_capacity f' = ff_capacity f"
proof -
  define c h m where "c = unat (ff_capacity f)" and "h = unat (ff_head f)" and "m = unat (ff_num f)"
  note defs = c_def h_def m_def
  define n where "n = min (ff_capacity f - ff_head f) mx"
  have cs: "length (ff_data f) = c" "m \<le> c" "h < c" "0 < c" "c < 2 ^ 31"
    using fifo_invD [OF inv] by (simp_all add: defs)
  have "unat (ff_capacity f - ff_head f) = c - h"
    using cs by (simp add: unat_sub word_le_nat_alt defs)
  then have un: "unat n = min (c - h) (unat mx)"
    by (simp add: n_def min_def word_le_nat_alt)
  have mx: "0 < unat mx" "unat mx \<le> m"
    using assms(2,3) by (simp_all add: m_def word_less_nat_alt word_le_nat_alt)
  have nb: "unat n \<le> m" "h + unat n \<le> c" "0 < unat n" using un mx cs by auto
  define f' where "f' = f\<lparr> ff_head := (ff_head f + n) mod ff_capacity f, ff_num := ff_num f - n \<rparr>"
  have head: "unat (ff_head f') = (h + unat n) mod c"
    using unat_plus_31 [of "ff_head f" n] cs nb by (simp add: f'_def unat_mod_distrib defs)
  have num: "unat (ff_num f') = m - unat n"
    using nb by (simp add: f'_def unat_sub word_le_nat_alt defs)
  have "take (unat n) (drop h (ff_data f)) = take (unat n) (fifo_abs f)"
    using nb cs by (intro nth_equalityI) (auto simp: fifo_abs_def defs)
  then have "fifo8_pop_buf f mx = Inr (take (unat n) (fifo_abs f), n, f')"
    using assms(2,3) cs(4) by (auto simp: fifo8_pop_buf_def Let_def n_def f'_def defs)
  moreover have "fifo_abs f' = drop (unat n) (fifo_abs f)"
  proof (rule nth_equalityI)
    show "length (fifo_abs f') = length (drop (unat n) (fifo_abs f))"
      using num by (simp add: m_def)
    fix i assume "i < length (fifo_abs f')"
    then have i: "i < m - unat n" using num by simp
    have cap: "ff_data f' = ff_data f" "ff_capacity f' = ff_capacity f" by (simp_all add: f'_def)
    have "fifo_abs f' ! i = ff_data f ! ((h + (unat n + i)) mod c)"
      using i by (simp add: fifo_abs_nth num head cap mod_add_left_eq add.assoc flip: c_def)
    then show "fifo_abs f' ! i = drop (unat n) (fifo_abs f) ! i"
      using i nb by (simp add: fifo_abs_nth defs)
  qed
  moreover have "fifo_inv f'"
    using inv num head nb cs
    by (auto simp: fifo_inv_def f'_def word_le_nat_alt word_less_nat_alt defs)
  moreover have "0 < n" "n \<le> mx"
    using nb un by (simp_all add: word_less_nat_alt word_le_nat_alt)
  ultimately show ?thesis
    using that [of n f'] by (simp add: f'_def)
qed

section \<open>The FIFO is a bounded queue\<close>

interpretation fq: bounded_queue fifo_inv fifo_abs fifo_cap fifo8_push fifo8_pop
  fifo8_is_empty fifo8_is_full fifo8_reset
proof unfold_locales
  fix q :: fifo8 and x :: u8 and xs
  assume inv: "fifo_inv q"
  show "length (fifo_abs q) \<le> fifo_cap q"
    using fifo_invD [OF inv] by (simp add: fifo_cap_def)
  show "\<exists>q'. fifo8_push q x = Inr q' \<and> fifo_inv q' \<and> fifo_abs q' = fifo_abs q @ [x]
      \<and> fifo_cap q' = fifo_cap q" if "length (fifo_abs q) < fifo_cap q"
    by (rule fifo_push_ok [OF inv, of x]) (use that in \<open>auto simp: fifo_cap_def word_less_nat_alt\<close>)
  show "\<exists>e. fifo8_push q x = Inl e" if "length (fifo_abs q) = fifo_cap q"
    using fifo_push_full [OF inv] that by (auto simp: fifo_cap_def word_less_nat_alt)
  show "\<exists>q'. fifo8_pop q = Inr (x, q') \<and> fifo_inv q' \<and> fifo_abs q' = xs \<and> fifo_cap q' = fifo_cap q"
    if "fifo_abs q = x # xs"
    by (rule fifo_pop_ok [OF inv that]) (auto simp: fifo_cap_def)
  show "\<exists>e. fifo8_pop q = Inl e" if "fifo_abs q = []"
    using fifo_pop_empty [OF that] by blast
  show "fifo_inv (fifo8_reset q) \<and> fifo_abs (fifo8_reset q) = [] \<and> fifo_cap (fifo8_reset q) = fifo_cap q"
    using fifo_reset_abs [OF inv] by (simp add: fifo_cap_def fifo8_reset_def)
  show "fifo8_is_empty q \<longleftrightarrow> fifo_abs q = []"
    by (rule fifo_is_empty_abs)
  show "fifo8_is_full q \<longleftrightarrow> length (fifo_abs q) = fifo_cap q"
    by (simp add: fifo_is_full_abs fifo_cap_def)
qed

end
