(* ===== verification/Serial.thy ===== *)
theory Serial
  imports Fifo8
begin

text \<open>
  The 16550A serial port, src/src/device/serial.cpp: its registers, the two FIFOs, the transmitter, the
  receiver and the interrupt line.  What the port does to the outside is recorded in the state: sent
  collects the bytes written to the file descriptor, irq_calls the levels its irq handler is called with.
  The timers are commented out in the source.
\<close>

section \<open>State\<close>

record serial =
  divider :: u16
  rbr :: u8
  thr :: u8
  tsr :: u8
  ier :: u8
  iir :: u8
  lcr :: u8
  mcr :: u8
  lsr :: u8
  msr :: u8
  scr :: u8
  fcr :: u8
  thr_ipending :: bool
  last_break_enable :: u32
  baudbase :: u32
  tsr_retry :: u32
  watch_tag :: u32
  last_xmit_ts :: u64
  recv_fifo :: fifo8
  xmit_fifo :: fifo8
  recv_fifo_itl :: u8
  timeout_ipending :: bool
  char_transmit_time :: u64
  poll_msl :: int
  sent :: "u8 list"
  irq_calls :: "bool list"

abbreviation (input) UART_LCR_DLAB :: u8 where "UART_LCR_DLAB \<equiv> 0x80"
abbreviation (input) UART_IER_MSI :: u8 where "UART_IER_MSI \<equiv> 0x08"
abbreviation (input) UART_IER_RLSI :: u8 where "UART_IER_RLSI \<equiv> 0x04"
abbreviation (input) UART_IER_THRI :: u8 where "UART_IER_THRI \<equiv> 0x02"
abbreviation (input) UART_IER_RDI :: u8 where "UART_IER_RDI \<equiv> 0x01"
abbreviation (input) UART_IIR_NO_INT :: u8 where "UART_IIR_NO_INT \<equiv> 0x01"
abbreviation (input) UART_IIR_ID :: u32 where "UART_IIR_ID \<equiv> 0x06"
abbreviation (input) UART_IIR_MSI :: u8 where "UART_IIR_MSI \<equiv> 0x00"
abbreviation (input) UART_IIR_THRI :: u8 where "UART_IIR_THRI \<equiv> 0x02"
abbreviation (input) UART_IIR_RDI :: u8 where "UART_IIR_RDI \<equiv> 0x04"
abbreviation (input) UART_IIR_RLSI :: u8 where "UART_IIR_RLSI \<equiv> 0x06"
abbreviation (input) UART_IIR_CTI :: u8 where "UART_IIR_CTI \<equiv> 0x0C"
abbreviation (input) UART_IIR_FE :: u8 where "UART_IIR_FE \<equiv> 0xC0"
abbreviation (input) UART_MCR_LOOP :: u8 where "UART_MCR_LOOP \<equiv> 0x10"
abbreviation (input) UART_LSR_TEMT :: u8 where "UART_LSR_TEMT \<equiv> 0x40"
abbreviation (input) UART_LSR_THRE :: u8 where "UART_LSR_THRE \<equiv> 0x20"
abbreviation (input) UART_LSR_BI :: u8 where "UART_LSR_BI \<equiv> 0x10"
abbreviation (input) UART_LSR_OE :: u8 where "UART_LSR_OE \<equiv> 0x02"
abbreviation (input) UART_LSR_DR :: u8 where "UART_LSR_DR \<equiv> 0x01"
abbreviation (input) UART_LSR_INT_ANY :: u8 where "UART_LSR_INT_ANY \<equiv> 0x1E"
abbreviation (input) UART_MSR_ANY_DELTA :: u8 where "UART_MSR_ANY_DELTA \<equiv> 0x0F"
abbreviation (input) UART_FCR_XFR :: u64 where "UART_FCR_XFR \<equiv> 0x04"
abbreviation (input) UART_FCR_RFR :: u64 where "UART_FCR_RFR \<equiv> 0x02"
abbreviation (input) UART_FCR_FE :: u8 where "UART_FCR_FE \<equiv> 0x01"

definition set_lsr :: "u8 \<Rightarrow> serial \<Rightarrow> serial" where "set_lsr m s = s\<lparr> lsr := lsr s OR m \<rparr>"
definition clr_lsr :: "u8 \<Rightarrow> serial \<Rightarrow> serial" where "clr_lsr m s = s\<lparr> lsr := lsr s AND NOT m \<rparr>"

section \<open>Interrupts\<close>

definition recv_fifo_put :: "serial \<Rightarrow> u8 \<Rightarrow> serial res" where
  "recv_fifo_put s chr =
    (if \<not> fifo8_is_full (recv_fifo s)
     then rbind (fifo8_push (recv_fifo s) chr) (\<lambda>f. Inr (s\<lparr> recv_fifo := f \<rparr>))
     else Inr (set_lsr UART_LSR_OE s))"

definition irq_cause :: "serial \<Rightarrow> u8" where
  "irq_cause s =
    (if ier s AND UART_IER_RLSI \<noteq> 0 \<and> lsr s AND UART_LSR_INT_ANY \<noteq> 0 then UART_IIR_RLSI
     else if ier s AND UART_IER_RDI \<noteq> 0 \<and> timeout_ipending s then UART_IIR_CTI
     else if ier s AND UART_IER_RDI \<noteq> 0 \<and> lsr s AND UART_LSR_DR \<noteq> 0 \<and>
        (fcr s AND UART_FCR_FE = 0 \<or> ff_num (recv_fifo s) \<ge> ucast (recv_fifo_itl s)) then UART_IIR_RDI
     else if ier s AND UART_IER_THRI \<noteq> 0 \<and> thr_ipending s then UART_IIR_THRI
     else if ier s AND UART_IER_MSI \<noteq> 0 \<and> msr s AND UART_MSR_ANY_DELTA \<noteq> 0 then UART_IIR_MSI
     else UART_IIR_NO_INT)"

definition serial_update_irq :: "serial \<Rightarrow> serial" where
  "serial_update_irq s =
    (let tmp_iir = irq_cause s
     in s\<lparr> iir := tmp_iir OR (iir s AND 0xF0), irq_calls := irq_calls s @ [tmp_iir \<noteq> UART_IIR_NO_INT] \<rparr>)"

text \<open>The local variable flags is never set: its value is an argument.\<close>

definition msl_bit :: "u32 \<Rightarrow> u32 \<Rightarrow> u8 \<Rightarrow> u8 \<Rightarrow> u8" where
  "msl_bit flags tiocm b m = (if flags AND tiocm \<noteq> 0 then m OR b else m AND NOT b)"

definition serial_update_msl :: "u32 \<Rightarrow> serial \<Rightarrow> serial" where
  "serial_update_msl flags s =
    (let omsr = msr s;
         m = msl_bit flags 0x080 0x40 (msl_bit flags 0x040 0x80 (msl_bit flags 0x100 0x20 (msl_bit flags 0x020 0x10 omsr)))
     in if m \<noteq> omsr
        then let m = m OR (drop_bit 4 m XOR drop_bit 4 omsr);
                 m = (if m AND 0x04 \<noteq> 0 \<and> omsr AND 0x40 = 0 then m AND NOT 0x04 else m)
             in serial_update_irq (s\<lparr> msr := m \<rparr>)
        else s)"

section \<open>Receiver\<close>

definition serial_receive1 :: "serial \<Rightarrow> u8 list \<Rightarrow> serial res" where
  "serial_receive1 s buf =
    (if fcr s AND UART_FCR_FE \<noteq> 0
     then rbind (push_list recv_fifo_put s buf) (\<lambda>s. Inr (serial_update_irq (set_lsr UART_LSR_DR s)))
     else
       let s = (if lsr s AND UART_LSR_DR \<noteq> 0 then set_lsr UART_LSR_OE s else s)
       in Inr (serial_update_irq (set_lsr UART_LSR_DR (s\<lparr> rbr := hd buf \<rparr>))))"

definition serial_can_receive :: "serial \<Rightarrow> u32" where
  "serial_can_receive s =
    (if fcr s AND UART_FCR_FE \<noteq> 0
     then if ff_num (recv_fifo s) < 16
          then if ff_num (recv_fifo s) \<le> ucast (recv_fifo_itl s) then ucast (recv_fifo_itl s) - ff_num (recv_fifo s) else 1
          else 0
     else of_bool (lsr s AND UART_LSR_DR = 0))"

definition serial_receive_break :: "serial \<Rightarrow> serial res" where
  "serial_receive_break s =
     rbind (recv_fifo_put (s\<lparr> rbr := 0 \<rparr>) 0) (\<lambda>s. Inr (serial_update_irq (set_lsr (UART_LSR_BI OR UART_LSR_DR) s)))"

definition fifo_timeout_int :: "serial \<Rightarrow> serial" where
  "fifo_timeout_int s = (if ff_num (recv_fifo s) \<noteq> 0 then serial_update_irq (s\<lparr> timeout_ipending := True \<rparr>) else s)"

text \<open>The results of read on the file descriptor; at the end of the list there is nothing to read.\<close>

datatype read_result = RD_BYTE u8 | RD_EAGAIN | RD_ERROR | RD_EOF

fun serial_check_io :: "read_result list \<Rightarrow> serial \<Rightarrow> (serial \<times> read_result list) res" where
  "serial_check_io [] s = Inr (s, [])"
| "serial_check_io (r # rs) s =
    (if serial_can_receive s = 0 then Inr (s, r # rs)
     else case r of
       RD_EAGAIN \<Rightarrow> Inr (s, rs)
     | RD_ERROR \<Rightarrow> Inl (ExitCalled ''abort'')
     | RD_EOF \<Rightarrow> Inl (ExitCalled ''abort'')
     | RD_BYTE c \<Rightarrow> rbind (serial_receive1 s [c]) (\<lambda>s. serial_check_io rs (fifo_timeout_int s)))"

section \<open>Transmitter\<close>

text \<open>The body of the loop of serial_xmit.\<close>

definition xmit_load :: "serial \<Rightarrow> serial res" where
  "xmit_load s =
    assert_c (lsr s AND UART_LSR_THRE = 0) ''!(s->lsr & UART_LSR_THRE)''
     (rbind (if fcr s AND UART_FCR_FE \<noteq> 0
             then assert_c (\<not> fifo8_is_empty (xmit_fifo s)) ''!fifo8_is_empty(&s->xmit_fifo)''
                   (rbind (fifo8_pop (xmit_fifo s)) (\<lambda>(d, f).
                      let s = s\<lparr> tsr := d, xmit_fifo := f \<rparr>
                      in Inr (if ff_num f = 0 then set_lsr UART_LSR_THRE s else s)))
             else Inr (set_lsr UART_LSR_THRE (s\<lparr> tsr := thr s \<rparr>)))
       (\<lambda>s. Inr (if lsr s AND UART_LSR_THRE \<noteq> 0 \<and> \<not> thr_ipending s
                then serial_update_irq (s\<lparr> thr_ipending := True \<rparr>) else s)))"

definition xmit_send :: "serial \<Rightarrow> serial res" where
  "xmit_send s =
    (if mcr s AND UART_MCR_LOOP \<noteq> 0 then serial_receive1 s [tsr s] else Inr (s\<lparr> sent := sent s @ [tsr s] \<rparr>))"

definition xmit_round :: "serial \<Rightarrow> serial res" where
  "xmit_round s =
    assert_c (lsr s AND UART_LSR_TEMT = 0) ''!(s->lsr & UART_LSR_TEMT)''
     (rbind (if tsr_retry s = 0 then xmit_load s else Inr s) (\<lambda>s.
      rbind (xmit_send s) (\<lambda>s. Inr (s\<lparr> tsr_retry := 0 \<rparr>))))"

text \<open>A round takes a byte out of the FIFO, or uses up a retry, or is the last.\<close>

definition xmit_left :: "serial \<Rightarrow> nat" where
  "xmit_left s = 2 * unat (ff_num (xmit_fifo s)) + (if tsr_retry s = 0 then 0 else 1)"

lemma update_irq_frame [simp]:
  "xmit_fifo (serial_update_irq s) = xmit_fifo s" "recv_fifo (serial_update_irq s) = recv_fifo s"
  "lsr (serial_update_irq s) = lsr s" "tsr_retry (serial_update_irq s) = tsr_retry s"
  "fcr (serial_update_irq s) = fcr s" "lcr (serial_update_irq s) = lcr s" "mcr (serial_update_irq s) = mcr s"
  "sent (serial_update_irq s) = sent s" "rbr (serial_update_irq s) = rbr s" "thr (serial_update_irq s) = thr s"
  "tsr (serial_update_irq s) = tsr s" "poll_msl (serial_update_irq s) = poll_msl s"
  "timeout_ipending (serial_update_irq s) = timeout_ipending s" "thr_ipending (serial_update_irq s) = thr_ipending s"
  "recv_fifo_itl (serial_update_irq s) = recv_fifo_itl s" "ier (serial_update_irq s) = ier s"
  by (simp_all add: serial_update_irq_def Let_def)

lemma lsr_frame [simp]:
  "xmit_fifo (set_lsr m s) = xmit_fifo s" "recv_fifo (set_lsr m s) = recv_fifo s" "tsr_retry (set_lsr m s) = tsr_retry s"
  "fcr (set_lsr m s) = fcr s" "lcr (set_lsr m s) = lcr s" "mcr (set_lsr m s) = mcr s" "sent (set_lsr m s) = sent s"
  "lsr (set_lsr m s) = lsr s OR m" "rbr (set_lsr m s) = rbr s" "thr (set_lsr m s) = thr s" "tsr (set_lsr m s) = tsr s"
  "thr_ipending (set_lsr m s) = thr_ipending s" "iir (set_lsr m s) = iir s" "irq_calls (set_lsr m s) = irq_calls s"
  "poll_msl (set_lsr m s) = poll_msl s" "timeout_ipending (set_lsr m s) = timeout_ipending s"
  "xmit_fifo (clr_lsr m s) = xmit_fifo s" "recv_fifo (clr_lsr m s) = recv_fifo s" "tsr_retry (clr_lsr m s) = tsr_retry s"
  "fcr (clr_lsr m s) = fcr s" "lcr (clr_lsr m s) = lcr s" "mcr (clr_lsr m s) = mcr s" "sent (clr_lsr m s) = sent s"
  "lsr (clr_lsr m s) = lsr s AND NOT m" "rbr (clr_lsr m s) = rbr s" "thr (clr_lsr m s) = thr s" "tsr (clr_lsr m s) = tsr s"
  "thr_ipending (clr_lsr m s) = thr_ipending s" "iir (clr_lsr m s) = iir s" "irq_calls (clr_lsr m s) = irq_calls s"
  "poll_msl (clr_lsr m s) = poll_msl s" "timeout_ipending (clr_lsr m s) = timeout_ipending s"
  by (simp_all add: set_lsr_def clr_lsr_def)

text \<open>The receiver does not touch the transmitter.\<close>

definition xmit_part :: "serial \<Rightarrow> fifo8 \<times> u32 \<times> u8 \<times> u8 \<times> u8 \<times> u8 list \<times> bool" where
  "xmit_part s = (xmit_fifo s, tsr_retry s, lsr s AND 0x60, fcr s, mcr s, sent s, thr_ipending s)"

lemma and_or_0x60: "(x OR m) AND 0x60 = x AND (0x60 :: u8)" if "m AND 0x60 = 0" for m
  using that by (simp add: and.commute [of _ "0x60"] bit.conj_disj_distrib)

lemma put_xmit: "recv_fifo_put s c = Inr s' \<Longrightarrow> xmit_part s' = xmit_part s"
  by (auto simp: recv_fifo_put_def rbind_eq_Inr xmit_part_def and_or_0x60 split: if_splits)

lemma push_list_xmit: "push_list recv_fifo_put s cs = Inr s' \<Longrightarrow> xmit_part s' = xmit_part s"
  by (induction cs arbitrary: s) (auto simp: rbind_eq_Inr dest: put_xmit)

lemma receive1_xmit: "serial_receive1 s cs = Inr s' \<Longrightarrow> xmit_part s' = xmit_part s"
  by (auto simp: serial_receive1_def rbind_eq_Inr Let_def dest!: push_list_xmit split: if_splits)
    (auto simp: xmit_part_def and_or_0x60)

lemma xmit_part_eq:
  assumes "xmit_part s' = xmit_part s"
  shows "xmit_fifo s' = xmit_fifo s" "tsr_retry s' = tsr_retry s" "lsr s' AND 0x20 = lsr s AND 0x20"
    "lsr s' AND 0x40 = lsr s AND 0x40" "fcr s' = fcr s" "mcr s' = mcr s" "sent s' = sent s"
    "thr_ipending s' = thr_ipending s"
proof -
  have l: "lsr s' AND 0x60 = lsr s AND 0x60" using assms by (simp add: xmit_part_def)
  have "x AND 0x20 = (x AND 0x60) AND 0x20" "x AND 0x40 = (x AND 0x60) AND 0x40" for x :: u8
    by (simp_all add: and.assoc)
  then show "lsr s' AND 0x20 = lsr s AND 0x20" "lsr s' AND 0x40 = lsr s AND 0x40" using l by metis+
qed (use assms in \<open>simp_all add: xmit_part_def\<close>)

lemma xmit_load_cases:
  assumes "xmit_load s = Inr s'"
  shows "lsr s' AND 0x20 \<noteq> 0 \<or> unat (ff_num (xmit_fifo s')) < unat (ff_num (xmit_fifo s))" "tsr_retry s' = tsr_retry s"
  using assms
  by (auto simp: xmit_load_def assert_c_eq_Inr rbind_eq_Inr fifo8_pop_def Let_def word_less_nat_alt unat_minus_one
      fifo8_is_empty_def split: if_splits prod.splits)

lemma xmit_round_left:
  assumes "xmit_round s = Inr s'" "lsr s' AND 0x20 = 0"
  shows "xmit_left s' < xmit_left s"
proof -
  obtain s1 s2 where r: "(if tsr_retry s = 0 then xmit_load s else Inr s) = Inr s1" "xmit_send s1 = Inr s2"
    "s' = s2\<lparr> tsr_retry := 0 \<rparr>"
    using assms(1) by (auto simp: xmit_round_def assert_c_eq_Inr rbind_eq_Inr)
  have "xmit_part s2 = xmit_part s1 \<or> s2 = s1\<lparr> sent := sent s1 @ [tsr s1] \<rparr>"
    using r(2) by (auto simp: xmit_send_def split: if_splits dest: receive1_xmit)
  then have "xmit_fifo s2 = xmit_fifo s1 \<and> lsr s2 AND 0x20 = lsr s1 AND 0x20"
    by (auto dest: xmit_part_eq(1,3))
  then show ?thesis
    using r(1) assms(2) xmit_load_cases [of s s1] by (auto simp: r(3) xmit_left_def split: if_splits)
qed

function serial_xmit :: "serial \<Rightarrow> serial res" where
  "serial_xmit s = (case xmit_round s of
      Inl e \<Rightarrow> Inl e
    | Inr s \<Rightarrow> if lsr s AND UART_LSR_THRE = 0 then serial_xmit s
               else Inr (set_lsr UART_LSR_TEMT (s\<lparr> last_xmit_ts := 0 \<rparr>)))"
  by pat_completeness auto
termination
  by (relation "measure xmit_left") (auto dest: xmit_round_left)

declare serial_xmit.simps [simp del]

section \<open>The registers\<close>

text \<open>serial_update_tiocm only computes a local variable.\<close>

definition serial_update_tiocm :: "serial \<Rightarrow> serial" where "serial_update_tiocm s = s"

definition serial_write_fcr :: "serial \<Rightarrow> u8 \<Rightarrow> serial" where
  "serial_write_fcr s val =
    (let s = s\<lparr> fcr := val \<rparr> in
     if val AND UART_FCR_FE \<noteq> 0
     then s\<lparr> iir := iir s OR UART_IIR_FE,
            recv_fifo_itl := (if val AND 0xC0 = 0 then 1 else if val AND 0xC0 = 0x40 then 4
              else if val AND 0xC0 = 0x80 then 8 else 14) \<rparr>
     else s\<lparr> iir := iir s AND NOT UART_IIR_FE \<rparr>)"

definition write_thr :: "serial \<Rightarrow> u8 \<Rightarrow> serial res" where
  "write_thr s val =
    (let s = s\<lparr> thr := val \<rparr> in
     rbind (if fcr s AND UART_FCR_FE \<noteq> 0
            then rbind (if fifo8_is_full (xmit_fifo s)
                        then rbind (fifo8_pop (xmit_fifo s)) (\<lambda>(d, f). Inr f) else Inr (xmit_fifo s)) (\<lambda>f.
                 rbind (fifo8_push f (thr s)) (\<lambda>f. Inr (s\<lparr> xmit_fifo := f \<rparr>)))
            else Inr s) (\<lambda>s.
       let s = serial_update_irq (clr_lsr UART_LSR_TEMT (clr_lsr UART_LSR_THRE (s\<lparr> thr_ipending := False \<rparr>)))
       in if tsr_retry s = 0 then serial_xmit s else Inr s))"

definition write_ier :: "u32 \<Rightarrow> serial \<Rightarrow> u8 \<Rightarrow> serial" where
  "write_ier flags s val =
    (let changed = (ier s XOR val) AND 0x0f;
         s = s\<lparr> ier := val AND 0x0f \<rparr>;
         s = (if changed AND UART_IER_MSI \<noteq> 0 \<and> 0 \<le> poll_msl s
              then if ier s AND UART_IER_MSI \<noteq> 0 then serial_update_msl flags (s\<lparr> poll_msl := 1 \<rparr>)
                   else s\<lparr> poll_msl := 0 \<rparr>
              else s);
         s = (if changed AND UART_IER_THRI \<noteq> 0
              then s\<lparr> thr_ipending := (ier s AND UART_IER_THRI \<noteq> 0 \<and> lsr s AND UART_LSR_THRE \<noteq> 0) \<rparr> else s)
     in if changed \<noteq> 0 then serial_update_irq s else s)"

definition write_fcr :: "serial \<Rightarrow> u64 \<Rightarrow> serial" where
  "write_fcr s val =
    (let val = (if (val XOR ucast (fcr s)) AND ucast UART_FCR_FE \<noteq> 0 then val OR (UART_FCR_XFR OR UART_FCR_RFR) else val);
         s = (if val AND UART_FCR_RFR \<noteq> 0
              then (clr_lsr (UART_LSR_DR OR UART_LSR_BI) s)\<lparr> timeout_ipending := False,
                     recv_fifo := fifo8_reset (recv_fifo s) \<rparr> else s);
         s = (if val AND UART_FCR_XFR \<noteq> 0
              then (set_lsr UART_LSR_THRE s)\<lparr> thr_ipending := True, xmit_fifo := fifo8_reset (xmit_fifo s) \<rparr> else s)
     in serial_update_irq (serial_write_fcr s (ucast (val AND 0xC9))))"

definition write_lcr :: "serial \<Rightarrow> u64 \<Rightarrow> serial" where
  "write_lcr s val = s\<lparr> lcr := ucast val, last_break_enable := ucast (drop_bit 6 val AND 1) \<rparr>"

definition write_mcr :: "serial \<Rightarrow> u64 \<Rightarrow> serial" where
  "write_mcr s val =
    (let old_mcr = mcr s; s = s\<lparr> mcr := ucast (val AND 0x1f) \<rparr> in
     if val AND ucast UART_MCR_LOOP \<noteq> 0 then s
     else if 0 \<le> poll_msl s \<and> old_mcr \<noteq> mcr s then serial_update_tiocm s else s)"

text \<open>The object is not null; flags is the uninitialised variable of serial_update_msl.\<close>

definition serial_ioport_write :: "u32 \<Rightarrow> serial \<Rightarrow> u64 \<Rightarrow> u64 \<Rightarrow> u32 \<Rightarrow> serial res" where
  "serial_ioport_write flags s addr val sz =
    (let addr = addr AND 7 in
     if addr = 1
     then if lcr s AND UART_LCR_DLAB \<noteq> 0
          then Inr (s\<lparr> divider := ucast (ucast (divider s) AND 0x00ff OR push_bit 8 val) \<rparr>)
          else Inr (write_ier flags s (ucast val))
     else if addr = 2 then Inr (write_fcr s val)
     else if addr = 3 then Inr (write_lcr s val)
     else if addr = 4 then Inr (write_mcr s val)
     else if addr = 5 \<or> addr = 6 then Inr s
     else if addr = 7 then Inr (s\<lparr> scr := ucast val \<rparr>)
     else if lcr s AND UART_LCR_DLAB \<noteq> 0
          then Inr (s\<lparr> divider := (if sz = 1 then ucast (ucast (divider s) AND 0xff00 OR val) else ucast val) \<rparr>)
          else write_thr s (ucast val))"

definition read_rbr :: "serial \<Rightarrow> (u32 \<times> serial) res" where
  "read_rbr s =
    rbind (if fcr s AND UART_FCR_FE \<noteq> 0
           then rbind (if fifo8_is_empty (recv_fifo s) then Inr (0, recv_fifo s) else fifo8_pop (recv_fifo s)) (\<lambda>(d, f).
                  let s = s\<lparr> recv_fifo := f \<rparr>;
                      s = (if ff_num f = 0 then clr_lsr (UART_LSR_DR OR UART_LSR_BI) s else s)
                  in Inr (ucast d, s\<lparr> timeout_ipending := False \<rparr>))
           else Inr (ucast (rbr s), clr_lsr (UART_LSR_DR OR UART_LSR_BI) s))
     (\<lambda>(ret, s). Inr (ret, serial_update_irq s))"

definition read_msr :: "u32 \<Rightarrow> serial \<Rightarrow> u32 \<times> serial" where
  "read_msr flags s =
    (if mcr s AND UART_MCR_LOOP \<noteq> 0
     then (push_bit 4 (ucast (mcr s) AND 0x0c) OR push_bit 3 (ucast (mcr s) AND 0x02) OR push_bit 5 (ucast (mcr s) AND 0x01), s)
     else
       let s = (if 0 \<le> poll_msl s then serial_update_msl flags s else s); ret = ucast (msr s)
       in (ret, if msr s AND UART_MSR_ANY_DELTA \<noteq> 0 then serial_update_irq (s\<lparr> msr := msr s AND 0xF0 \<rparr>) else s))"

definition serial_ioport_read :: "u32 \<Rightarrow> serial \<Rightarrow> u64 \<Rightarrow> u32 \<Rightarrow> (u64 \<times> serial) res" where
  "serial_ioport_read flags s addr sz =
    (let addr = addr AND 7 in
     rbind (if addr = 1
        then Inr (if lcr s AND UART_LCR_DLAB \<noteq> 0 then ucast (drop_bit 8 (divider s) AND 0xff) else ucast (ier s), s)
      else if addr = 2
        then let ret = ucast (iir s)
             in Inr (ret, if ret AND UART_IIR_ID = ucast UART_IIR_THRI
                          then serial_update_irq (s\<lparr> thr_ipending := False \<rparr>) else s)
      else if addr = 3 then Inr (ucast (lcr s), s)
      else if addr = 4 then Inr (ucast (mcr s), s)
      else if addr = 5
        then Inr (ucast (lsr s), if lsr s AND (UART_LSR_BI OR UART_LSR_OE) \<noteq> 0
                                 then serial_update_irq (clr_lsr (UART_LSR_BI OR UART_LSR_OE) s) else s)
      else if addr = 6 then Inr (read_msr flags s)
      else if addr = 7 then Inr (ucast (scr s), s)
      else if lcr s AND UART_LCR_DLAB \<noteq> 0 then Inr (ucast (divider s AND 0xff), s)
      else read_rbr s) (\<lambda>(ret, s). Inr (ucast (ret :: u32), s)))"

section \<open>Reset and creation\<close>

definition serial_reset :: "u32 \<Rightarrow> serial \<Rightarrow> serial" where
  "serial_reset flags s =
    (let s = s\<lparr> watch_tag := 0, rbr := 0, ier := 0, iir := UART_IIR_NO_INT, lcr := 0,
           lsr := UART_LSR_TEMT OR UART_LSR_THRE, msr := 0xB0, divider := 0x0C, mcr := 0x08, scr := 0,
           tsr_retry := 0, char_transmit_time := 1000000000 div 9600 * 10, poll_msl := 0, timeout_ipending := False,
           recv_fifo := fifo8_reset (recv_fifo s), xmit_fifo := fifo8_reset (xmit_fifo s), last_xmit_ts := 0,
           thr_ipending := False, last_break_enable := 0, irq_calls := irq_calls s @ [False] \<rparr>;
         s = serial_update_msl flags s
     in s\<lparr> msr := msr s AND NOT UART_MSR_ANY_DELTA \<rparr>)"

definition serial_be_change :: "u32 \<Rightarrow> serial \<Rightarrow> serial" where
  "serial_be_change flags s =
    (let s = serial_update_msl flags (s\<lparr> poll_msl := (if ier s AND UART_IER_MSI \<noteq> 0 then 1 else 0) \<rparr>)
     in if 0 \<le> poll_msl s \<and> mcr s AND UART_MCR_LOOP = 0 then serial_update_tiocm s else s)"

definition simple_serial_realize_core :: "u32 \<Rightarrow> (nat \<Rightarrow> u8) \<Rightarrow> serial \<Rightarrow> serial" where
  "simple_serial_realize_core flags mem s =
     serial_reset flags (s\<lparr> recv_fifo := fifo8_create mem 16, xmit_fifo := fifo8_create mem 16 \<rparr>)"

definition simple_serial_set_frequency :: "serial \<Rightarrow> u32 \<Rightarrow> serial" where
  "simple_serial_set_frequency s frequency = s\<lparr> baudbase := frequency \<rparr>"

text \<open>simple_serial_init: u is the memory malloc gives.\<close>

definition simple_serial_init :: "u32 \<Rightarrow> (nat \<Rightarrow> u8) \<Rightarrow> u32 \<Rightarrow> serial \<Rightarrow> serial" where
  "simple_serial_init flags mem baud u = simple_serial_realize_core flags mem (u\<lparr> baudbase := baud \<rparr>)"

end
