(* ===== verification/Serial_Props.thy ===== *)
theory Serial_Props
  imports Serial
begin

text \<open>
  Properties of the serial port: no access to its registers and no received byte makes one of its
  assertions fail, the interrupt line follows the interrupt register, a byte written to the transmitter
  goes out at once, and in loopback it comes back.
\<close>

section \<open>The invariant\<close>

text \<open>
  Between two operations the transmitter is idle: nothing in its FIFO, both of its status bits set, no
  retry.  The irq handler was last called with the level iir stands for.
\<close>

definition recv_inv :: "serial \<Rightarrow> bool" where
  "recv_inv s \<longleftrightarrow> fifo_inv (recv_fifo s) \<and> ff_capacity (recv_fifo s) = 16"

definition xmit_idle :: "serial \<Rightarrow> bool" where
  "xmit_idle s \<longleftrightarrow> fifo_inv (xmit_fifo s) \<and> ff_capacity (xmit_fifo s) = 16 \<and>
     fifo_abs (xmit_fifo s) = [] \<and> tsr_retry s = 0 \<and> lsr s AND 0x20 \<noteq> 0 \<and> lsr s AND 0x40 \<noteq> 0"

definition irq_ok :: "serial \<Rightarrow> bool" where
  "irq_ok s \<longleftrightarrow> irq_calls s \<noteq> [] \<and> (last (irq_calls s) \<longleftrightarrow> iir s AND 1 = 0)"

definition serial_inv :: "serial \<Rightarrow> bool" where
  "serial_inv s \<longleftrightarrow> recv_inv s \<and> xmit_idle s \<and> irq_ok s"

lemma irq_cause_bit: "irq_cause s = 1 \<or> irq_cause s \<noteq> 1 \<and> irq_cause s AND 1 = 0"
  by (simp add: irq_cause_def)

lemma update_irq_ok [simp]: "irq_ok (serial_update_irq s)"
proof -
  have "(irq_cause s OR (iir s AND 0xF0)) AND 1 = irq_cause s AND 1"
    by (simp add: bit.conj_disj_distrib2 and.assoc)
  then show ?thesis
    using irq_cause_bit [of s] by (auto simp: irq_ok_def serial_update_irq_def Let_def)
qed

lemma update_irq_parts [simp]:
  "recv_inv (serial_update_irq s) = recv_inv s" "xmit_idle (serial_update_irq s) = xmit_idle s"
  by (simp_all add: recv_inv_def xmit_idle_def)

lemma update_msl_cases: "serial_update_msl fl s = s \<or> (\<exists>m. serial_update_msl fl s = serial_update_irq (s\<lparr> msr := m \<rparr>))"
  by (auto simp: serial_update_msl_def Let_def)

lemma msr_parts [simp]:
  "recv_inv (s\<lparr> msr := m \<rparr>) = recv_inv s" "xmit_idle (s\<lparr> msr := m \<rparr>) = xmit_idle s" "irq_ok (s\<lparr> msr := m \<rparr>) = irq_ok s"
  by (simp_all add: recv_inv_def xmit_idle_def irq_ok_def)

lemma update_msl_parts [simp]:
  "recv_inv (serial_update_msl fl s) = recv_inv s" "xmit_idle (serial_update_msl fl s) = xmit_idle s"
  using update_msl_cases [of fl s] by auto

lemma update_msl_irq: "irq_ok s \<Longrightarrow> irq_ok (serial_update_msl fl s)"
  using update_msl_cases [of fl s] by auto

lemma lsr_recv [simp]: "recv_inv (set_lsr m s) = recv_inv s" "recv_inv (clr_lsr m s) = recv_inv s"
  "irq_ok (set_lsr m s) = irq_ok s" "irq_ok (clr_lsr m s) = irq_ok s"
  by (simp_all add: recv_inv_def irq_ok_def)

lemma xmit_idle_cong: "xmit_part s' = xmit_part s \<Longrightarrow> xmit_idle s' = xmit_idle s"
  by (auto dest: xmit_part_eq simp: xmit_idle_def)

section \<open>Receiver\<close>

lemma put_ok:
  assumes "recv_inv s"
  shows "\<exists>s'. recv_fifo_put s c = Inr s' \<and> recv_inv s'"
proof (cases "fifo8_is_full (recv_fifo s)")
  case True
  then show ?thesis using assms by (simp add: recv_fifo_put_def)
next
  case False
  then have "ff_num (recv_fifo s) < ff_capacity (recv_fifo s)"
    using assms by (auto simp: recv_inv_def fifo8_is_full_def fifo_inv_def order_less_le)
  then obtain f where "fifo8_push (recv_fifo s) c = Inr f" "fifo_inv f" "ff_capacity f = ff_capacity (recv_fifo s)"
    using assms fifo_push_ok [of "recv_fifo s" c] by (auto simp: recv_inv_def)
  then show ?thesis using assms False by (simp add: recv_fifo_put_def recv_inv_def)
qed

lemma push_list_ok: "recv_inv s \<Longrightarrow> \<exists>s'. push_list recv_fifo_put s cs = Inr s' \<and> recv_inv s'"
proof (induction cs arbitrary: s)
  case (Cons c cs)
  then show ?case using put_ok [of s c] by fastforce
qed simp

lemma receive1_ok:
  assumes "recv_inv s"
  shows "\<exists>s'. serial_receive1 s cs = Inr s' \<and> recv_inv s' \<and> irq_ok s' \<and> xmit_part s' = xmit_part s"
proof -
  have "recv_inv (s\<lparr> rbr := r \<rparr>)" for r using assms by (simp add: recv_inv_def)
  then have "\<exists>s'. serial_receive1 s cs = Inr s' \<and> recv_inv s' \<and> irq_ok s'"
    using push_list_ok [OF assms, of cs] assms
    by (auto simp: serial_receive1_def Let_def recv_inv_def)
  then show ?thesis using receive1_xmit by blast
qed

section \<open>Transmitter\<close>

text \<open>While ds is still to be sent: the status bits are clear and the FIFO, or thr, holds it.\<close>

definition sending :: "u8 list \<Rightarrow> serial \<Rightarrow> bool" where
  "sending ds s \<longleftrightarrow> recv_inv s \<and> fifo_inv (xmit_fifo s) \<and> ff_capacity (xmit_fifo s) = 16 \<and> tsr_retry s = 0 \<and>
     lsr s AND 0x40 = 0 \<and> lsr s AND 0x20 = 0 \<and>
     (if fcr s AND 1 \<noteq> 0 then fifo_abs (xmit_fifo s) = ds else ds = [thr s] \<and> fifo_abs (xmit_fifo s) = [])"

definition sent_by :: "serial \<Rightarrow> u8 list \<Rightarrow> u8 list" where
  "sent_by s ds = (if mcr s AND UART_MCR_LOOP \<noteq> 0 then [] else ds)"

lemma or_bit: "(x OR 0x20) AND 0x20 \<noteq> 0" "(x OR 0x20) AND 0x40 = x AND 0x40" "(x OR 0x40) AND 0x40 \<noteq> 0"
  "(x OR 0x40) AND 0x20 = x AND 0x20" for x :: u8
  by (simp_all add: bit.conj_disj_distrib2)

text \<open>Taking the next byte.\<close>

lemma load_ok:
  assumes "sending (d # ds) s"
  shows "\<exists>s'. xmit_load s = Inr s' \<and> tsr s' = d \<and> recv_inv s' \<and> mcr s' = mcr s \<and> sent s' = sent s \<and> fcr s' = fcr s \<and>
    lsr s' AND 0x40 = 0 \<and> tsr_retry s' = 0 \<and> fifo_inv (xmit_fifo s') \<and> ff_capacity (xmit_fifo s') = 16 \<and>
    fifo_abs (xmit_fifo s') = ds \<and> (if ds = [] then lsr s' AND 0x20 \<noteq> 0 else lsr s' AND 0x20 = 0 \<and> fcr s AND 1 \<noteq> 0)"
proof (cases "fcr s AND 1 = 0")
  case True
  then show ?thesis
    using assms by (auto simp: sending_def xmit_load_def or_bit recv_inv_def)
next
  case False
  then have a: "fifo_inv (xmit_fifo s)" "fifo_abs (xmit_fifo s) = d # ds" using assms by (auto simp: sending_def)
  then obtain f where f: "fifo8_pop (xmit_fifo s) = Inr (d, f)" "fifo_inv f" "fifo_abs f = ds"
    "ff_capacity f = ff_capacity (xmit_fifo s)" using fifo_pop_ok by metis
  have "ff_num f = 0 \<longleftrightarrow> ds = []" using f(3) by (simp add: fifo_abs_def unat_eq_0 flip: f(3))
  moreover have "\<not> fifo8_is_empty (xmit_fifo s)" using a by (simp add: fifo_is_empty_abs)
  ultimately show ?thesis
    using assms False f by (auto simp: sending_def xmit_load_def Let_def or_bit recv_inv_def)
qed

lemma round_ok:
  assumes "sending (d # ds) s"
  shows "\<exists>s'. xmit_round s = Inr s' \<and> mcr s' = mcr s \<and> fcr s' = fcr s \<and> sent s' = sent s @ sent_by s [d] \<and>
    (if ds = [] then recv_inv s' \<and> fifo_inv (xmit_fifo s') \<and> ff_capacity (xmit_fifo s') = 16 \<and>
       fifo_abs (xmit_fifo s') = [] \<and> tsr_retry s' = 0 \<and> lsr s' AND 0x20 \<noteq> 0 else sending ds s')"
proof -
  obtain s1 where s1: "xmit_load s = Inr s1" "tsr s1 = d" "recv_inv s1" "mcr s1 = mcr s" "sent s1 = sent s" "fcr s1 = fcr s"
    "lsr s1 AND 0x40 = 0" "tsr_retry s1 = 0" "fifo_inv (xmit_fifo s1)" "ff_capacity (xmit_fifo s1) = 16"
    "fifo_abs (xmit_fifo s1) = ds" "if ds = [] then lsr s1 AND 0x20 \<noteq> 0 else lsr s1 AND 0x20 = 0 \<and> fcr s AND 1 \<noteq> 0"
    using load_ok [OF assms] by blast
  obtain s2 where s2: "xmit_send s1 = Inr s2" "recv_inv s2"
    "xmit_part s2 = xmit_part (s1\<lparr> sent := sent s1 @ sent_by s [d] \<rparr>)"
  proof (cases "mcr s AND UART_MCR_LOOP = 0")
    case True
    have "recv_inv (s1\<lparr> sent := sent s1 @ [d] \<rparr>)" using s1(3) by (simp add: recv_inv_def)
    then show ?thesis using that True s1(2,4) by (simp add: xmit_send_def sent_by_def)
  next
    case False
    then show ?thesis using that receive1_ok [OF s1(3), of "[d]"] s1(2,4) by (auto simp: xmit_send_def sent_by_def)
  qed
  have "lsr s AND 0x40 = 0" "tsr_retry s = 0" using assms by (auto simp: sending_def)
  then have r: "xmit_round s = Inr (s2\<lparr> tsr_retry := 0 \<rparr>)" using s1(1) s2(1) by (simp add: xmit_round_def)
  show ?thesis
    using s1 s2(2) xmit_part_eq [OF s2(3)] by (auto simp: r recv_inv_def sending_def)
qed

text \<open>The whole loop: every byte goes out, in order, and the transmitter is idle again.\<close>

lemma serial_xmit_ok:
  assumes "sending (d # ds) s"
  shows "\<exists>s'. serial_xmit s = Inr s' \<and> recv_inv s' \<and> xmit_idle s' \<and> sent s' = sent s @ sent_by s (d # ds)"
  using assms
proof (induction ds arbitrary: d s)
  case Nil
  then obtain s1 where "xmit_round s = Inr s1" "sent s1 = sent s @ sent_by s [d]" "recv_inv s1"
    "fifo_inv (xmit_fifo s1)" "ff_capacity (xmit_fifo s1) = 16" "fifo_abs (xmit_fifo s1) = []" "tsr_retry s1 = 0"
    "lsr s1 AND 0x20 \<noteq> 0"
    using round_ok [OF Nil] by auto
  then show ?case
    by (subst serial_xmit.simps) (simp add: recv_inv_def xmit_idle_def or_bit)
next
  case (Cons e ds)
  obtain s1 where s1: "xmit_round s = Inr s1" "mcr s1 = mcr s" "sent s1 = sent s @ sent_by s [d]" "sending (e # ds) s1"
    using round_ok [OF Cons.prems] by auto
  then obtain s2 where "serial_xmit s1 = Inr s2" "recv_inv s2" "xmit_idle s2" "sent s2 = sent s1 @ sent_by s1 (e # ds)"
    using Cons.IH by blast
  moreover have "lsr s1 AND 0x20 = 0" using s1(4) by (simp add: sending_def)
  ultimately show ?case using s1(1-3) by (subst serial_xmit.simps) (simp add: sent_by_def)
qed

lemma clr_bits: "((x AND NOT 0x20) AND NOT 0x40) AND 0x20 = 0" "((x AND NOT 0x20) AND NOT 0x40) AND 0x40 = 0" for x :: u8
  by (simp_all add: and.assoc)

lemma write_thr_ok:
  assumes "recv_inv s" "xmit_idle s"
  shows "\<exists>s'. write_thr s v = Inr s' \<and> recv_inv s' \<and> xmit_idle s' \<and> sent s' = sent s @ sent_by s [v]"
proof -
  let ?f = "if fcr s AND 1 \<noteq> 0 then fifo8_push (xmit_fifo s) v else Inr (xmit_fifo s)"
  have x: "fifo_inv (xmit_fifo s)" "fifo_abs (xmit_fifo s) = []" "ff_capacity (xmit_fifo s) = 16"
    using assms(2) by (auto simp: xmit_idle_def)
  then have n: "ff_num (xmit_fifo s) = 0" by (simp add: fifo_abs_def unat_eq_0)
  then have nf: "\<not> fifo8_is_full (xmit_fifo s)" using x by (simp add: fifo8_is_full_def)
  obtain f where f: "fifo8_push (xmit_fifo s) v = Inr f" "fifo_inv f" "fifo_abs f = [v]" "ff_capacity f = 16"
    using fifo_push_ok [OF x(1), of v] x n by auto
  let ?s = "s\<lparr> thr := v, xmit_fifo := (if fcr s AND 1 \<noteq> 0 then f else xmit_fifo s), thr_ipending := False \<rparr>"
  let ?t = "serial_update_irq (clr_lsr 0x40 (clr_lsr 0x20 ?s))"
  have "sending [v] ?t"
    using assms x f clr_bits [of "lsr s"] by (simp add: sending_def recv_inv_def xmit_idle_def)
  then obtain s' where "serial_xmit ?t = Inr s'" "recv_inv s'" "xmit_idle s'" "sent s' = sent ?t @ sent_by ?t [v]"
    using serial_xmit_ok by blast
  moreover have "write_thr s v = serial_xmit ?t"
    using f(1) nf assms(2) by (simp add: write_thr_def Let_def xmit_idle_def)
  ultimately show ?thesis by (simp add: sent_by_def)
qed

section \<open>The registers\<close>

lemma write_ier_ok: "serial_inv s \<Longrightarrow> serial_inv (write_ier fl s v)"
proof -
  assume i: "serial_inv s"
  have keep: "serial_inv (t\<lparr> ier := a \<rparr>)" "serial_inv (t\<lparr> poll_msl := p \<rparr>)" "serial_inv (t\<lparr> thr_ipending := b \<rparr>)"
    "serial_inv (serial_update_msl fl t)" "serial_inv (serial_update_irq t)" if "serial_inv t" for t a p b
    using that update_msl_irq by (simp_all add: serial_inv_def) (simp_all add: recv_inv_def xmit_idle_def irq_ok_def)
  show ?thesis using i by (simp add: write_ier_def Let_def keep)
qed

lemma write_fcr_idle:
  assumes "recv_inv s" "xmit_idle s"
  shows "recv_inv (write_fcr s v)" "xmit_idle (write_fcr s v)" "irq_ok (write_fcr s v)"
proof -
  have bi: "(x AND - 18) AND 32 = x AND 32" "(x AND - 18) AND 64 = x AND 64" for x :: u8
    by (simp_all add: and.assoc)
  have "recv_inv (serial_write_fcr t a) = recv_inv t" "xmit_idle (serial_write_fcr t a) = xmit_idle t" for t a
    by (simp_all add: serial_write_fcr_def recv_inv_def xmit_idle_def Let_def)
  moreover have "recv_inv (t\<lparr> timeout_ipending := b, recv_fifo := fifo8_reset (recv_fifo t') \<rparr>)" if "recv_inv t'" for t t' b
    using that fifo_reset_abs [of "recv_fifo t'"] by (simp add: recv_inv_def fifo8_reset_def)
  moreover have "recv_inv (t\<lparr> thr_ipending := b, xmit_fifo := f \<rparr>) = recv_inv t" for t b f
    by (simp add: recv_inv_def)
  moreover have "xmit_idle ((clr_lsr 0x11 t)\<lparr> timeout_ipending := b, recv_fifo := f \<rparr>) = xmit_idle t" for t b f
    by (simp add: xmit_idle_def bi)
  moreover have "xmit_idle ((set_lsr 0x20 t)\<lparr> thr_ipending := b, xmit_fifo := fifo8_reset (xmit_fifo t) \<rparr>)"
    if "xmit_idle t" for t b
    using that fifo_reset_abs [of "xmit_fifo t"] by (simp add: xmit_idle_def or_bit fifo8_reset_def)
  ultimately show "recv_inv (write_fcr s v)" "xmit_idle (write_fcr s v)" "irq_ok (write_fcr s v)"
    using assms by (simp_all add: write_fcr_def Let_def)
qed

lemma write_plain:
  "serial_inv (write_lcr s v) = serial_inv s" "serial_inv (write_mcr s v) = serial_inv s"
  "serial_inv (s\<lparr> divider := d \<rparr>) = serial_inv s" "serial_inv (s\<lparr> scr := d' \<rparr>) = serial_inv s"
  by (simp_all add: write_lcr_def write_mcr_def serial_update_tiocm_def Let_def serial_inv_def recv_inv_def
      xmit_idle_def irq_ok_def)

section \<open>The interrupt line\<close>

lemma irq_frame [simp]:
  "irq_ok (s\<lparr> tsr := d, xmit_fifo := f \<rparr>) = irq_ok s" "irq_ok (s\<lparr> tsr := d \<rparr>) = irq_ok s"
  "irq_ok (s\<lparr> sent := ds \<rparr>) = irq_ok s" "irq_ok (s\<lparr> tsr_retry := r \<rparr>) = irq_ok s"
  "irq_ok (s\<lparr> last_xmit_ts := t \<rparr>) = irq_ok s"
  by (simp_all add: irq_ok_def)

lemma load_irq: "xmit_load s = Inr s' \<Longrightarrow> irq_ok s \<Longrightarrow> irq_ok s'"
  by (auto simp: xmit_load_def assert_c_eq_Inr rbind_eq_Inr Let_def split: if_splits)

lemma receive1_irq: "serial_receive1 s cs = Inr s' \<Longrightarrow> irq_ok s'"
  by (auto simp: serial_receive1_def rbind_eq_Inr Let_def split: if_splits)

lemma round_irq: "xmit_round s = Inr s' \<Longrightarrow> irq_ok s \<Longrightarrow> irq_ok s'"
  by (auto simp: xmit_round_def xmit_send_def assert_c_eq_Inr rbind_eq_Inr split: if_splits
      dest: load_irq receive1_irq)

lemma xmit_irq: "serial_xmit s = Inr s' \<Longrightarrow> irq_ok s \<Longrightarrow> irq_ok s'"
proof (induction s rule: serial_xmit.induct)
  case (1 s)
  then show ?case
    by (subst (asm) (2) serial_xmit.simps) (auto split: sum.splits if_splits dest: round_irq)
qed

lemma write_thr_irq: "write_thr s v = Inr s' \<Longrightarrow> irq_ok s'"
  by (auto simp: write_thr_def Let_def rbind_eq_Inr split: if_splits dest!: xmit_irq)

section \<open>Every access\<close>

lemma ioport_write_ok:
  assumes "serial_inv s"
  shows "\<exists>s'. serial_ioport_write fl s a v n = Inr s' \<and> serial_inv s'"
  using assms write_thr_ok [of s "ucast v"] write_thr_irq [of s "ucast v"] write_ier_ok [OF assms]
    write_fcr_idle [of s v] write_plain
  by (auto simp: serial_ioport_write_def Let_def) (auto simp: serial_inv_def)

lemma read_rbr_ok:
  assumes "serial_inv s"
  shows "\<exists>r s'. read_rbr s = Inr (r, s') \<and> serial_inv s'"
proof -
  have bi: "(x AND - 18) AND 32 = x AND 32" "(x AND - 18) AND 64 = x AND 64" for x :: u8
    by (simp_all add: and.assoc)
  have r: "fifo_inv (recv_fifo s)" "ff_capacity (recv_fifo s) = 16" "xmit_idle s"
    using assms by (auto simp: serial_inv_def recv_inv_def)
  obtain d f where f: "(if fifo8_is_empty (recv_fifo s) then Inr (0, recv_fifo s) else fifo8_pop (recv_fifo s)) = Inr (d, f)"
    "fifo_inv f" "ff_capacity f = 16"
  proof (cases "fifo_abs (recv_fifo s)")
    case Nil
    then show ?thesis using that r by (simp add: fifo_is_empty_abs)
  next
    case (Cons x xs)
    then show ?thesis using that r fifo_pop_ok [OF r(1) Cons] by (metis fifo_is_empty_abs list.distinct(1))
  qed
  show ?thesis
  proof (cases "fcr s AND 1 = 0")
    case True
    then show ?thesis using r by (simp add: read_rbr_def serial_inv_def recv_inv_def) (simp add: xmit_idle_def bi)
  next
    case False
    then show ?thesis
      using f(2,3) r(3) by (simp add: read_rbr_def f(1) Let_def serial_inv_def recv_inv_def) (simp add: xmit_idle_def bi)
  qed
qed

lemma ioport_read_ok:
  assumes "serial_inv s"
  shows "\<exists>r s'. serial_ioport_read fl s a n = Inr (r, s') \<and> serial_inv s'"
proof -
  have bi: "(x AND - 19) AND 32 = x AND 32" "(x AND - 19) AND 64 = x AND 64" for x :: u8
    by (simp_all add: and.assoc)
  have w: "serial_inv (serial_update_irq (s\<lparr> thr_ipending := False \<rparr>))"
    "serial_inv (serial_update_irq (clr_lsr (UART_LSR_BI OR UART_LSR_OE) s))"
    using assms by (simp_all add: serial_inv_def) (simp_all add: recv_inv_def xmit_idle_def bi)
  have m: "serial_inv (snd (read_msr fl s))"
    using assms update_msl_irq [of s fl] by (simp add: read_msr_def Let_def serial_inv_def)
  obtain r s1 where r: "read_rbr s = Inr (r, s1)" "serial_inv s1" using read_rbr_ok [OF assms] by blast
  define ok where "ok X \<longleftrightarrow> (\<exists>r s'. X = Inr (r, s') \<and> serial_inv s')" for X :: "(u32 \<times> serial) res"
  have i: "ok (if c then x else y) = (if c then ok x else ok y)" for c x y by simp
  have j: "serial_inv (if c then x else y) = (if c then serial_inv x else serial_inv y)" for c x y by simp
  have k: "ok (Inr (a, x)) = serial_inv x" for a x by (simp add: ok_def)
  have u: "\<exists>r s'. rbind X (\<lambda>(ret, s). Inr (ucast ret, s)) = Inr (r, s') \<and> serial_inv s'" if "ok X" for X
    using that by (auto simp: ok_def)
  have l: "ok (Inr (read_msr fl s))" "ok (read_rbr s)"
    using m r by (cases "read_msr fl s"; simp add: ok_def)+
  show ?thesis
    unfolding serial_ioport_read_def Let_def
    by (rule u) (simp only: i j k l w assms if_True if_cancel)
qed

lemma receive_ok: "serial_inv s \<Longrightarrow> \<exists>s'. serial_receive1 s cs = Inr s' \<and> serial_inv s'"
  using receive1_ok [of s cs] by (auto simp: serial_inv_def dest: xmit_idle_cong)

lemma timeout_ok: "serial_inv s \<Longrightarrow> serial_inv (fifo_timeout_int s)"
  by (simp add: fifo_timeout_int_def serial_inv_def) (simp add: recv_inv_def xmit_idle_def)

lemma check_io_ok:
  "serial_inv s \<Longrightarrow> \<forall>r \<in> set rs. r \<noteq> RD_ERROR \<and> r \<noteq> RD_EOF \<Longrightarrow>
   \<exists>s' rs'. serial_check_io rs s = Inr (s', rs') \<and> serial_inv s'"
proof (induction rs arbitrary: s)
  case (Cons r rs)
  show ?case
  proof (cases r)
    case (RD_BYTE c)
    obtain s1 where "serial_receive1 s [c] = Inr s1" "serial_inv s1" using receive_ok Cons.prems by blast
    then show ?thesis using RD_BYTE Cons timeout_ok [of s1] by auto
  qed (use Cons.prems in auto)
qed simp

lemma init_ok: "serial_inv (simple_serial_init fl mem baud u)"
proof -
  have f: "fifo_inv (fifo8_reset (fifo8_create mem 16))" "fifo_abs (fifo8_reset (fifo8_create mem 16)) = []"
    "ff_capacity (fifo8_reset (fifo8_create mem 16)) = 16"
    using fifo_reset_abs [OF fifo_create_inv [of 16 mem]] by (simp_all add: fifo8_reset_def fifo8_create_def)
  show ?thesis
    using update_msl_irq
    by (simp add: simple_serial_init_def simple_serial_realize_core_def serial_reset_def Let_def serial_inv_def)
      (simp add: f recv_inv_def xmit_idle_def irq_ok_def)
qed

section \<open>Runs\<close>

datatype serial_event = S_Write u64 u64 u32 | S_Read u64 u32 | S_Receive "u8 list" | S_Break | S_Timeout

fun serial_event_run :: "u32 \<Rightarrow> serial_event list \<Rightarrow> serial \<Rightarrow> serial res" where
  "serial_event_run fl [] s = Inr s"
| "serial_event_run fl (S_Write a v n # es) s = rbind (serial_ioport_write fl s a v n) (serial_event_run fl es)"
| "serial_event_run fl (S_Read a n # es) s = rbind (serial_ioport_read fl s a n) (\<lambda>(r, s). serial_event_run fl es s)"
| "serial_event_run fl (S_Receive cs # es) s = rbind (serial_receive1 s cs) (serial_event_run fl es)"
| "serial_event_run fl (S_Break # es) s = rbind (serial_receive_break s) (serial_event_run fl es)"
| "serial_event_run fl (S_Timeout # es) s = serial_event_run fl es (fifo_timeout_int s)"

lemma break_ok: "serial_inv s \<Longrightarrow> \<exists>s'. serial_receive_break s = Inr s' \<and> serial_inv s'"
proof -
  assume i: "serial_inv s"
  then have "recv_inv (s\<lparr> rbr := 0 \<rparr>)" "xmit_idle (s\<lparr> rbr := 0 \<rparr>)" by (simp_all add: serial_inv_def recv_inv_def xmit_idle_def)
  then obtain s1 where "recv_fifo_put (s\<lparr> rbr := 0 \<rparr>) 0 = Inr s1" "recv_inv s1" "xmit_idle s1"
    using put_ok xmit_idle_cong put_xmit by metis
  moreover have "(x OR 17) AND 32 = x AND 32" "(x OR 17) AND 64 = x AND 64" for x :: u8
    by (simp_all add: bit.conj_disj_distrib2)
  ultimately show ?thesis by (simp add: serial_receive_break_def serial_inv_def) (simp add: xmit_idle_def)
qed

lemma serial_run_ok: "serial_inv s \<Longrightarrow> \<exists>s'. serial_event_run fl es s = Inr s' \<and> serial_inv s'"
proof (induction es arbitrary: s)
  case (Cons e es)
  have "\<exists>s'. serial_event_run fl (e # es) s = serial_event_run fl es s' \<and> serial_inv s'"
  proof (cases e)
    case (S_Write a v n)
    then show ?thesis using ioport_write_ok [OF Cons.prems, of fl a v n] by auto
  next
    case (S_Read a n)
    obtain r s' where "serial_ioport_read fl s a n = Inr (r, s')" "serial_inv s'"
      using ioport_read_ok [OF Cons.prems] by blast
    then show ?thesis using S_Read by auto
  next
    case (S_Receive cs)
    then show ?thesis using receive_ok [OF Cons.prems, of cs] by auto
  next
    case S_Break
    then show ?thesis using break_ok [OF Cons.prems] by auto
  next
    case S_Timeout
    then show ?thesis using timeout_ok [OF Cons.prems] by auto
  qed
  then show ?case using Cons.IH by metis
qed simp

section \<open>Loopback\<close>

text \<open>Without FIFOs and in loopback mode a byte written is the byte read next.\<close>

lemma ucast_u8_u64: "ucast (ucast x :: u32) = (ucast x :: u64)" for x :: u8
  by (rule bit_word_eqI) (auto simp: bit_simps dest: bit_imp_le_length)

lemma loopback:
  assumes "serial_inv s" "lcr s AND UART_LCR_DLAB = 0" "fcr s AND UART_FCR_FE = 0" "mcr s AND UART_MCR_LOOP \<noteq> 0"
  shows "\<exists>s1 s2. serial_ioport_write fl s 0 v 1 = Inr s1 \<and>
    serial_ioport_read fl s1 0 1 = Inr (ucast (ucast v :: u8), s2) \<and> sent s2 = sent s"
proof -
  let ?t = "serial_update_irq (clr_lsr 0x40 (clr_lsr 0x20 (s\<lparr> thr := ucast v, thr_ipending := False \<rparr>)))"
  let ?l = "serial_update_irq (set_lsr 0x20 (?t\<lparr> tsr := ucast v \<rparr>)\<lparr> thr_ipending := True \<rparr>)"
  have x: "tsr_retry s = 0" "lsr s AND 0x20 \<noteq> 0" using assms(1) by (auto simp: serial_inv_def xmit_idle_def)
  have w: "serial_ioport_write fl s 0 v 1 = serial_xmit ?t"
    using assms(2,3) x by (simp add: serial_ioport_write_def write_thr_def Let_def)
  have load: "xmit_load ?t = Inr ?l"
    using assms(3) clr_bits [of "lsr s"] by (simp add: xmit_load_def or_bit)
  obtain u where u: "serial_receive1 ?l [ucast v] = Inr u" "rbr u = ucast v" "fcr u = fcr s" "lcr u = lcr s" "mcr u = mcr s"
     "sent u = sent s" "lsr u AND 0x20 \<noteq> 0"
    using assms(3) by (auto simp: serial_receive1_def Let_def or_bit and_or_0x60 bit.conj_disj_distrib2)
  have "xmit_round ?t = Inr (u\<lparr> tsr_retry := 0 \<rparr>)"
    using load u assms(4) x(1) clr_bits [of "lsr s"] by (simp add: xmit_round_def xmit_send_def)
  then have "serial_xmit ?t = Inr (set_lsr 0x40 (u\<lparr> tsr_retry := 0, last_xmit_ts := 0 \<rparr>))"
    using u(7) by (subst serial_xmit.simps) simp
  then show ?thesis
    using w u assms(2,3) by (simp add: serial_ioport_read_def read_rbr_def Let_def ucast_u8_u64)
qed

section \<open>Transmission of a text\<close>

text \<open>A write to thr leaves the registers that choose what a write does.\<close>

definition modes :: "serial \<Rightarrow> u8 \<times> u8 \<times> u8" where
  "modes s = (lcr s, mcr s, fcr s)"

lemma modes_simps [simp]:
  "modes (serial_update_irq s) = modes s" "modes (set_lsr m s) = modes s" "modes (clr_lsr m s) = modes s"
  by (simp_all add: modes_def)

lemma put_modes: "recv_fifo_put s c = Inr s' \<Longrightarrow> modes s' = modes s"
  by (auto simp: recv_fifo_put_def rbind_eq_Inr modes_def split: if_splits)

lemma push_list_modes: "push_list recv_fifo_put s cs = Inr s' \<Longrightarrow> modes s' = modes s"
  by (induction cs arbitrary: s) (auto simp: rbind_eq_Inr dest: put_modes)

lemma receive1_modes: "serial_receive1 s cs = Inr s' \<Longrightarrow> modes s' = modes s"
  by (auto simp: serial_receive1_def rbind_eq_Inr Let_def dest!: push_list_modes split: if_splits) (auto simp: modes_def)

lemma load_modes: "xmit_load s = Inr s' \<Longrightarrow> modes s' = modes s"
  by (auto simp: xmit_load_def assert_c_eq_Inr rbind_eq_Inr Let_def modes_def split: if_splits)

lemma round_modes: "xmit_round s = Inr s' \<Longrightarrow> modes s' = modes s"
  by (auto simp: xmit_round_def xmit_send_def assert_c_eq_Inr rbind_eq_Inr split: if_splits
      dest!: load_modes receive1_modes) (auto simp: modes_def)

lemma xmit_modes: "serial_xmit s = Inr s' \<Longrightarrow> modes s' = modes s"
proof (induction s rule: serial_xmit.induct)
  case (1 s)
  show ?case
  proof (cases "xmit_round s")
    case (Inr s1)
    then have "modes s1 = modes s" by (rule round_modes)
    moreover have "modes (s1\<lparr> last_xmit_ts := 0 \<rparr>) = modes s1" by (simp add: modes_def)
    ultimately show ?thesis
      using 1 Inr by (subst (asm) (2) serial_xmit.simps) (auto split: if_splits)
  qed (use 1 in \<open>subst (asm) (2) serial_xmit.simps, simp\<close>)
qed

lemma write_thr_modes: "write_thr s v = Inr s' \<Longrightarrow> modes s' = modes s"
  by (auto simp: write_thr_def Let_def rbind_eq_Inr split: if_splits dest!: xmit_modes) (auto simp: modes_def)

lemma transmit_all:
  "serial_inv s \<Longrightarrow> lcr s AND UART_LCR_DLAB = 0 \<Longrightarrow> mcr s AND UART_MCR_LOOP = 0 \<Longrightarrow>
   \<exists>s'. serial_event_run fl (map (\<lambda>v. S_Write 0 (ucast v) 1) vs) s = Inr s' \<and> serial_inv s' \<and> sent s' = sent s @ vs"
proof (induction vs arbitrary: s)
  case (Cons v vs)
  have "recv_inv s" "xmit_idle s" using Cons.prems(1) by (auto simp: serial_inv_def)
  then obtain s1 where w: "write_thr s v = Inr s1" "recv_inv s1" "xmit_idle s1" "sent s1 = sent s @ sent_by s [v]"
    using write_thr_ok by blast
  moreover have "(ucast (ucast v :: u64) :: u8) = v" by (rule bit_word_eqI) (auto simp: bit_simps dest: bit_imp_le_length)
  ultimately have "serial_ioport_write fl s 0 (ucast v) 1 = Inr s1"
    using Cons.prems(2) by (simp add: serial_ioport_write_def)
  moreover have "serial_inv s1" using w write_thr_irq [OF w(1)] by (simp add: serial_inv_def)
  moreover have "lcr s1 = lcr s" "mcr s1 = mcr s" using write_thr_modes [OF w(1)] by (simp_all add: modes_def)
  ultimately show ?case using Cons.IH [of s1] Cons.prems w(4) by (auto simp: sent_by_def)
qed simp

end
