(* ===== verification/Uart.thy ===== *)
theory Uart
  imports Memory_Port Serial_Props
begin

text \<open>
  The Uart device, src/src/device/uart.cpp: the request handshake with a delay, the byte-wide access to
  the serial port behind it, and its interrupt line at the interrupt controller.
\<close>

section \<open>State\<close>

text \<open>delay and current_delay are ints; a negative delay, which would count down until it overflows, is left out.\<close>

record uart =
  u_base :: u64
  u_end :: u64
  u_irq_number :: u64
  u_delay :: nat
  u_serial :: serial
  u_req :: nat
  u_req_valid :: bool
  u_resp_valid :: bool
  u_current_delay :: nat

definition uart_inRange :: "uart \<Rightarrow> u64 \<Rightarrow> bool" where
  "uart_inRange u a \<longleftrightarrow> u_base u \<le> a \<and> a < u_end u"

definition uart_addRequest :: "nat \<Rightarrow> uart \<Rightarrow> bool \<times> uart" where
  "uart_addRequest r u =
    (if u_req_valid u \<or> u_resp_valid u then (False, u)
     else (True, u\<lparr> u_req := r, u_req_valid := True, u_current_delay := u_delay u \<rparr>))"

definition uart_tick :: "uart \<Rightarrow> uart" where
  "uart_tick u =
    (if u_req_valid u
     then if u_current_delay u = 0 then u\<lparr> u_req_valid := False, u_resp_valid := True \<rparr>
          else u\<lparr> u_current_delay := u_current_delay u - 1 \<rparr>
     else u)"

definition uart_checkResponse :: "uart \<Rightarrow> nat option \<times> uart" where
  "uart_checkResponse u =
    (if \<not> u_resp_valid u then (None, u) else (Some (u_req u), u\<lparr> u_resp_valid := False \<rparr>))"

section \<open>The handshake\<close>

definition uart_ops :: "uart port_ops" where
  "uart_ops = \<lparr> add_op = uart_addRequest, ptick_op = uart_tick, resp_op = uart_checkResponse \<rparr>"

definition uart_inv :: "uart \<Rightarrow> bool" where
  "uart_inv u \<longleftrightarrow> \<not> (u_req_valid u \<and> u_resp_valid u)"

definition uart_pending :: "uart \<Rightarrow> nat option" where
  "uart_pending u = (if u_req_valid u \<or> u_resp_valid u then Some (u_req u) else None)"

definition uart_wait :: "uart \<Rightarrow> nat" where
  "uart_wait u = (if u_req_valid u then u_current_delay u + 1 else 0)"

lemmas uart_defs = uart_ops_def uart_inv_def uart_pending_def uart_wait_def uart_addRequest_def uart_tick_def
  uart_checkResponse_def

interpretation ut: request_port uart_ops uart_inv uart_pending uart_wait
  by unfold_locales (auto simp: uart_defs split: if_splits)

section \<open>Accesses\<close>

text \<open>
  setIrq calls IrqHandler::setIrqState on the word irq of the handler; the serial port calls its irq
  handler, and so setIrq, once for each entry it adds to irq_calls.
\<close>

definition uart_setIrq :: "uart \<Rightarrow> bool \<Rightarrow> u64 \<Rightarrow> u64 res" where
  "uart_setIrq u level irq = setIrqState (u_irq_number u) level irq"

fun uart_setIrqs :: "uart \<Rightarrow> bool list \<Rightarrow> u64 \<Rightarrow> u64 res" where
  "uart_setIrqs u [] irq = Inr irq"
| "uart_setIrqs u (l # ls) irq = rbind (uart_setIrq u l irq) (uart_setIrqs u ls)"

definition with_serial :: "uart \<Rightarrow> u64 \<Rightarrow> serial \<Rightarrow> (uart \<times> u64) res" where
  "with_serial u irq s =
    rbind (uart_setIrqs u (drop (length (irq_calls (u_serial u))) (irq_calls s)) irq) (\<lambda>irq.
      Inr (u\<lparr> u_serial := s \<rparr>, irq))"

definition uart_afterLoad :: "u32 \<Rightarrow> (nat \<Rightarrow> u8) \<Rightarrow> u32 \<Rightarrow> uart \<Rightarrow> u64 \<Rightarrow> (uart \<times> u64) res" where
  "uart_afterLoad fl mem baud u irq =
    rbind (with_serial u irq (simple_serial_init fl mem baud (u_serial u))) (\<lambda>(u, irq).
      Inr (u\<lparr> u_end := u_base u + 0x1000 \<rparr>, irq))"

text \<open>One byte is stored at data, whatever the size.\<close>

definition uart_read :: "u32 \<Rightarrow> uart \<Rightarrow> u64 \<Rightarrow> u32 \<Rightarrow> u64 \<Rightarrow> (u8 \<times> uart \<times> u64) res" where
  "uart_read fl u a n irq =
    rbind (serial_ioport_read fl (u_serial u) a n) (\<lambda>(v, s).
      rbind (with_serial u irq s) (\<lambda>(u, irq). Inr (ucast v, u, irq)))"

definition uart_write :: "u32 \<Rightarrow> uart \<Rightarrow> u64 \<Rightarrow> u32 \<Rightarrow> u8 \<Rightarrow> u64 \<Rightarrow> (uart \<times> u64) res" where
  "uart_write fl u a n b irq =
    rbind (serial_ioport_write fl (u_serial u) a (ucast b) n) (with_serial u irq)"

section \<open>The interrupt line\<close>

text \<open>Bit irq_number of the word of the controller is the last level of the serial port.\<close>

definition uart_line :: "uart \<Rightarrow> u64 \<Rightarrow> bool" where
  "uart_line u irq \<longleftrightarrow> u_irq_number u < 31 \<and> irq_calls (u_serial u) \<noteq> [] \<and>
     bit irq (unat (u_irq_number u)) = last (irq_calls (u_serial u))"

lemma setIrqs_ok:
  assumes "u_irq_number u < 31"
  shows "\<exists>irq'. uart_setIrqs u ls irq = Inr irq' \<and>
    bit irq' (unat (u_irq_number u)) = (if ls = [] then bit irq (unat (u_irq_number u)) else last ls) \<and>
    (\<forall>m. m \<noteq> unat (u_irq_number u) \<longrightarrow> bit irq' m = bit irq m)"
proof (induction ls arbitrary: irq)
  case (Cons l ls)
  have n: "unat (u_irq_number u) < 31" using assms by (simp add: word_less_nat_alt)
  obtain i1 where i1: "uart_setIrq u l irq = Inr i1" "\<forall>m. bit i1 m \<longleftrightarrow> (if m = unat (u_irq_number u) then l else bit irq m)"
    using setIrqState_bit [OF n, of l irq] by (auto simp: uart_setIrq_def)
  obtain i2 where "uart_setIrqs u ls i1 = Inr i2"
    "bit i2 (unat (u_irq_number u)) = (if ls = [] then bit i1 (unat (u_irq_number u)) else last ls)"
    "\<forall>m. m \<noteq> unat (u_irq_number u) \<longrightarrow> bit i2 m = bit i1 m"
    using Cons.IH by blast
  then show ?case using i1 by auto
qed simp


text \<open>The serial port only ever adds to irq_calls.\<close>

definition grows :: "serial \<Rightarrow> serial \<Rightarrow> bool" where
  "grows s s' \<longleftrightarrow> (\<exists>ls. irq_calls s' = irq_calls s @ ls)"

lemma grows_refl [simp]: "irq_calls s' = irq_calls s \<Longrightarrow> grows s s'"
  by (simp add: grows_def)

lemma grows_trans: "grows s t \<Longrightarrow> grows t u \<Longrightarrow> grows s u"
  by (auto simp: grows_def)

lemma grows_cong: "irq_calls s = irq_calls t \<Longrightarrow> grows s u = grows t u"
  by (simp add: grows_def)

lemma grows_step: "irq_calls t = irq_calls s \<Longrightarrow> grows s (serial_update_irq t)"
  by (auto simp: grows_def serial_update_irq_def Let_def)

lemma grows_msl: "irq_calls t = irq_calls s \<Longrightarrow> grows s (serial_update_msl fl t)"
  using update_msl_cases [of fl t] by (auto simp: grows_def serial_update_irq_def Let_def)

lemma put_calls: "recv_fifo_put s c = Inr s' \<Longrightarrow> irq_calls s' = irq_calls s"
  by (auto simp: recv_fifo_put_def rbind_eq_Inr split: if_splits)

lemma push_list_calls: "push_list recv_fifo_put s cs = Inr s' \<Longrightarrow> irq_calls s' = irq_calls s"
  by (induction cs arbitrary: s) (auto simp: rbind_eq_Inr dest: put_calls)

lemma receive1_grows: "serial_receive1 s cs = Inr s' \<Longrightarrow> grows s s'"
  by (auto simp: serial_receive1_def rbind_eq_Inr Let_def split: if_splits dest: push_list_calls intro!: grows_step)

lemma load_grows: "xmit_load s = Inr s' \<Longrightarrow> grows s s'"
  by (auto simp: xmit_load_def assert_c_eq_Inr rbind_eq_Inr Let_def split: if_splits intro!: grows_step)

lemma round_grows: "xmit_round s = Inr s' \<Longrightarrow> grows s s'"
  by (auto simp: xmit_round_def xmit_send_def assert_c_eq_Inr rbind_eq_Inr split: if_splits
      dest!: load_grows receive1_grows) (auto simp: grows_def)

lemma xmit_grows: "serial_xmit s = Inr s' \<Longrightarrow> grows s s'"
proof (induction s rule: serial_xmit.induct)
  case (1 s)
  show ?case
  proof (cases "xmit_round s")
    case (Inr s1)
    then have "grows s s1" by (rule round_grows)
    then show ?thesis
      using 1 Inr grows_trans [of s s1]
      by (subst (asm) (2) serial_xmit.simps) (auto simp: grows_def split: if_splits)
  qed (use 1 in \<open>subst (asm) (2) serial_xmit.simps, simp\<close>)
qed

lemma write_thr_grows: "write_thr s v = Inr s' \<Longrightarrow> grows s s'"
  by (auto simp: write_thr_def Let_def rbind_eq_Inr split: if_splits dest!: xmit_grows
      elim!: grows_trans [rotated] intro!: grows_step)


lemma write_ier_grows: "grows s (write_ier fl s v)"
proof -
  let ?s = "s\<lparr> ier := v AND 0x0f \<rparr>"
  have "grows s (if c then if d then serial_update_msl fl (?s\<lparr> poll_msl := 1 \<rparr>) else ?s\<lparr> poll_msl := 0 \<rparr> else ?s)" for c d
    by (simp add: grows_msl)
  moreover have "grows s t \<Longrightarrow> grows s (if c then t\<lparr> thr_ipending := b \<rparr> else t)" for t b c
    by (simp add: grows_def)
  moreover have "grows s t \<Longrightarrow> grows s (if c then serial_update_irq t else t)" for t c
    using grows_trans [OF _ grows_step [OF refl], of s t] by simp
  ultimately show ?thesis unfolding write_ier_def Let_def by blast
qed

lemma ioport_write_grows:
  assumes "serial_ioport_write fl s a v n = Inr s'"
  shows "grows s s'"
proof -
  have "grows s (write_fcr s v)"
    unfolding write_fcr_def Let_def by (intro grows_step) (simp add: serial_write_fcr_def Let_def)
  then show ?thesis
    using assms write_ier_grows write_thr_grows
    by (auto simp: serial_ioport_write_def write_lcr_def write_mcr_def serial_update_tiocm_def Let_def split: if_splits)
qed

lemma ioport_read_grows:
  assumes "serial_ioport_read fl s a n = Inr (r, s')"
  shows "grows s s'"
proof -
  have "grows s (snd (read_msr fl s))"
    by (auto simp: read_msr_def Let_def grows_msl intro: grows_trans [OF grows_msl grows_step] grows_step)
  moreover have "read_rbr s = Inr (x, t) \<Longrightarrow> grows s t" for x t
    by (auto simp: read_rbr_def rbind_eq_Inr Let_def split: if_splits intro!: grows_step)
  ultimately show ?thesis
    using assms
    by (auto simp: serial_ioport_read_def rbind_eq_Inr Let_def grows_step split: if_splits dest: sym)
qed


text \<open>The line follows the serial port through every access.\<close>

lemma with_serial_line:
  assumes "uart_line u irq" "grows (u_serial u) s"
  shows "\<exists>irq'. with_serial u irq s = Inr (u\<lparr> u_serial := s \<rparr>, irq') \<and> uart_line (u\<lparr> u_serial := s \<rparr>) irq' \<and>
    (\<forall>m. m \<noteq> unat (u_irq_number u) \<longrightarrow> bit irq' m = bit irq m)"
proof -
  obtain ls where ls: "irq_calls s = irq_calls (u_serial u) @ ls" using assms(2) by (auto simp: grows_def)
  obtain irq' where "uart_setIrqs u ls irq = Inr irq'"
    "bit irq' (unat (u_irq_number u)) = (if ls = [] then bit irq (unat (u_irq_number u)) else last ls)"
    "\<forall>m. m \<noteq> unat (u_irq_number u) \<longrightarrow> bit irq' m = bit irq m"
    using setIrqs_ok [of u ls irq] assms(1) by (auto simp: uart_line_def)
  then show ?thesis using assms(1) by (simp add: with_serial_def ls uart_line_def)
qed

datatype uart_access = U_Read u64 u32 | U_Write u64 u32 u8

fun uart_access_run :: "u32 \<Rightarrow> uart_access list \<Rightarrow> uart \<times> u64 \<Rightarrow> (uart \<times> u64) res" where
  "uart_access_run fl [] w = Inr w"
| "uart_access_run fl (U_Read a n # as) w = (case w of (u, irq) \<Rightarrow>
     rbind (uart_read fl u a n irq) (\<lambda>(d, w). uart_access_run fl as w))"
| "uart_access_run fl (U_Write a n b # as) w = (case w of (u, irq) \<Rightarrow>
     rbind (uart_write fl u a n b irq) (uart_access_run fl as))"

lemma uart_write_ok:
  assumes "serial_inv (u_serial u)" "uart_line u irq"
  shows "\<exists>u' irq'. uart_write fl u a n b irq = Inr (u', irq') \<and> serial_inv (u_serial u') \<and> uart_line u' irq' \<and>
    u_irq_number u' = u_irq_number u \<and> (\<forall>m. m \<noteq> unat (u_irq_number u) \<longrightarrow> bit irq' m = bit irq m)"
proof -
  obtain s where s: "serial_ioport_write fl (u_serial u) a (ucast b) n = Inr s" "serial_inv s"
    using ioport_write_ok [OF assms(1)] by blast
  then show ?thesis
    using with_serial_line [OF assms(2) ioport_write_grows [OF s(1)]] by (auto simp: uart_write_def)
qed

lemma uart_read_ok:
  assumes "serial_inv (u_serial u)" "uart_line u irq"
  shows "\<exists>d u' irq'. uart_read fl u a n irq = Inr (d, u', irq') \<and> serial_inv (u_serial u') \<and> uart_line u' irq' \<and>
    u_irq_number u' = u_irq_number u \<and> (\<forall>m. m \<noteq> unat (u_irq_number u) \<longrightarrow> bit irq' m = bit irq m)"
proof -
  obtain r s where s: "serial_ioport_read fl (u_serial u) a n = Inr (r, s)" "serial_inv s"
    using ioport_read_ok [OF assms(1)] by blast
  then show ?thesis
    using with_serial_line [OF assms(2) ioport_read_grows [OF s(1)]] by (auto simp: uart_read_def)
qed

lemma uart_run_ok:
  "serial_inv (u_serial u) \<Longrightarrow> uart_line u irq \<Longrightarrow>
   \<exists>u' irq'. uart_access_run fl as (u, irq) = Inr (u', irq') \<and> serial_inv (u_serial u') \<and> uart_line u' irq' \<and>
     u_irq_number u' = u_irq_number u \<and> (\<forall>m. m \<noteq> unat (u_irq_number u) \<longrightarrow> bit irq' m = bit irq m)"
proof (induction as arbitrary: u irq)
  case (Cons x as)
  obtain u1 irq1 where 1: "uart_access_run fl (x # as) (u, irq) = uart_access_run fl as (u1, irq1)"
    "serial_inv (u_serial u1)" "uart_line u1 irq1" "u_irq_number u1 = u_irq_number u"
    "\<forall>m. m \<noteq> unat (u_irq_number u) \<longrightarrow> bit irq1 m = bit irq m"
  proof (cases x)
    case (U_Read a n)
    obtain d u' irq' where "uart_read fl u a n irq = Inr (d, u', irq')" "serial_inv (u_serial u')" "uart_line u' irq'"
      "u_irq_number u' = u_irq_number u" "\<forall>m. m \<noteq> unat (u_irq_number u) \<longrightarrow> bit irq' m = bit irq m"
      using uart_read_ok [OF Cons.prems] by blast
    then show ?thesis using that [of u' irq'] U_Read by simp
  next
    case (U_Write a n b)
    obtain u' irq' where "uart_write fl u a n b irq = Inr (u', irq')" "serial_inv (u_serial u')" "uart_line u' irq'"
      "u_irq_number u' = u_irq_number u" "\<forall>m. m \<noteq> unat (u_irq_number u) \<longrightarrow> bit irq' m = bit irq m"
      using uart_write_ok [OF Cons.prems] by blast
    then show ?thesis using that [of u' irq'] U_Write by simp
  qed
  then show ?case using Cons.IH [OF 1(2,3)] by auto
qed simp

text \<open>afterLoad establishes it, whatever the memory held.\<close>

lemma uart_afterLoad_ok:
  assumes "u_irq_number u < 31"
  shows "\<exists>u' irq'. uart_afterLoad fl mem baud u irq = Inr (u', irq') \<and> serial_inv (u_serial u') \<and> uart_line u' irq' \<and>
    u_irq_number u' = u_irq_number u"
proof -
  let ?s = "simple_serial_init fl mem baud (u_serial u)"
  have h: "\<exists>ls. irq_calls (serial_update_msl fl t) = cs @ False # ls" if "irq_calls t = cs @ [False]" for t cs
    using grows_msl [of t t fl] that by (auto simp: grows_def)
  have "\<exists>ls. irq_calls ?s = irq_calls (u_serial u) @ False # ls"
    by (simp add: simple_serial_init_def simple_serial_realize_core_def serial_reset_def Let_def) (rule h, simp)
  then obtain ls where ls: "irq_calls ?s = irq_calls (u_serial u) @ False # ls" by blast
  obtain irq' where "uart_setIrqs u (False # ls) irq = Inr irq'" "bit irq' (unat (u_irq_number u)) = last (False # ls)"
    using setIrqs_ok [OF assms, of "False # ls" irq] by auto
  then show ?thesis
    using init_ok assms by (simp add: uart_afterLoad_def with_serial_def ls uart_line_def)
qed

end
