(* ===== verification/Memory.thy ===== *)
theory Memory
  imports ArchState
begin

text \<open>
  Physical memory and the machine state the interpreter works on.  Memory::paddrRead and paddrWrite
  (src/src/cache/memory.cpp) send an address to the first device whose range holds it and else copy
  bytes from or to the RAM block at 0x80000000.  The devices are virtual classes: the record io holds
  their read and write as the memory calls them, a device call may also report the interrupt word it
  passed to the listeners, which the machine stores in mip (RiscvArch::irqListener).
\<close>

section \<open>Little-endian byte access\<close>

fun load_le :: "(u64 \<Rightarrow> u8) \<Rightarrow> u64 \<Rightarrow> nat \<Rightarrow> u64" where
  "load_le m a 0 = 0"
| "load_le m a (Suc n) = ucast (m a) OR push_bit 8 (load_le m (a + 1) n)"

fun store_le :: "(u64 \<Rightarrow> u8) \<Rightarrow> u64 \<Rightarrow> nat \<Rightarrow> u64 \<Rightarrow> (u64 \<Rightarrow> u8)" where
  "store_le m a 0 v = m"
| "store_le m a (Suc n) v = store_le (m(a := ucast v)) (a + 1) n (drop_bit 8 v)"

lemma store_le_out:
  "unat a + n \<le> 2 ^ 64 \<Longrightarrow> unat b < unat a \<or> unat a + n \<le> unat b \<Longrightarrow> store_le m a n v b = m b"
proof (induction n arbitrary: m a v)
  case (Suc n)
  have ab: "a \<noteq> b" using Suc.prems(2) by auto
  show ?case
  proof (cases n)
    case 0
    then show ?thesis using ab by simp
  next
    case (Suc k)
    then have "unat (a + 1) = unat a + 1"
      using Suc.prems(1) by (simp add: unat_word_ariths)
    then show ?thesis
      using Suc.IH [of "a + 1"] Suc.prems ab by auto
  qed
qed simp

lemma load_le_cong:
  "(\<And>i. i < n \<Longrightarrow> m (a + of_nat i) = m' (a + of_nat i)) \<Longrightarrow> load_le m a n = load_le m' a n"
proof (induction n arbitrary: a)
  case (Suc n)
  have "load_le m (a + 1) n = load_le m' (a + 1) n"
    by (rule Suc.IH) (use Suc.prems [of "Suc i" for i] in \<open>simp add: algebra_simps\<close>)
  then show ?case using Suc.prems [of 0] by simp
qed simp

lemma take_bit_split8:
  fixes v :: u64
  shows "take_bit (n + 8) v = take_bit 8 v OR push_bit 8 (take_bit n (drop_bit 8 v))"
  by (rule bit_word_eqI) (auto simp: bit_simps)

text \<open>What is stored is what is loaded.\<close>

lemma load_store_le:
  "unat a + n \<le> 2 ^ 64 \<Longrightarrow> load_le (store_le m a n v) a n = take_bit (8 * n) v"
proof (induction n arbitrary: m a v)
  case (Suc n)
  have byte: "store_le (m(a := ucast v)) (a + 1) n (drop_bit 8 v) a = ucast v"
  proof (cases n)
    case (Suc k)
    then have "unat (a + 1) = unat a + 1"
      using Suc.prems by (simp add: unat_word_ariths)
    then show ?thesis using Suc.prems by (subst store_le_out) auto
  qed simp
  have rest: "load_le (store_le (m(a := ucast v)) (a + 1) n (drop_bit 8 v)) (a + 1) n
      = take_bit (8 * n) (drop_bit 8 v)"
  proof (cases n)
    case (Suc k)
    then have "unat (a + 1) = unat a + 1"
      using Suc.prems by (simp add: unat_word_ariths)
    then show ?thesis using Suc.IH [of "a + 1"] Suc.prems by simp
  qed simp
  have low: "(ucast (ucast v :: u8) :: u64) = take_bit 8 v"
    by (rule bit_word_eqI) (auto simp: bit_simps)
  have "8 * Suc n = 8 * n + 8" by simp
  then show ?case
    by (simp only: store_le.simps load_le.simps byte rest low take_bit_split8)
qed simp

section \<open>Machine\<close>

record 'd memory =
  ram :: "u64 \<Rightarrow> u8"
  mem_size :: u64
  devices :: 'd

record 'd machine =
  state :: arch_state
  info :: decode_info
  env_pc :: u64
  env_paddr :: u64
  ifetch_mmu_state :: bool
  data_mmu_state :: bool
  memory :: "'d memory"
  tick :: u64
  instret :: u64

datatype fetch_type = IFETCH | LFETCH | SFETCH

text \<open>The softfloat functions the interpreter calls.\<close>

datatype sf_fun = SF_int64_to_float64 | SF_uint64_to_float64 | SF_float32_to_float64
  | SF_int32_to_float64 | SF_uint32_to_float64 | SF_float64_to_int64 | SF_float32_to_int64
  | SF_float64_to_uint64 | SF_float32_to_uint64 | SF_float64_to_float32 | SF_int64_to_float32
  | SF_uint64_to_float32 | SF_int32_to_float32 | SF_uint32_to_float32 | SF_float64_to_int32
  | SF_float64_to_uint32 | SF_float32_to_int32 | SF_float64_add | SF_float32_add | SF_float64_sub
  | SF_float32_sub | SF_float64_mul | SF_float32_mul | SF_float64_div | SF_float32_div
  | SF_float64_eq_quiet | SF_float64_le | SF_float32_le | SF_float64_lt | SF_float32_lt
  | SF_float64_muladd | SF_float64_minimum_number

text \<open>
  What the model takes as given: the devices' virtual read and write (address, size and the buffer's
  bytes in; None when no device has the address), the softfloat functions (operands and status in,
  the C result as a 64-bit pattern and the new status out) and the value of a local variable that is
  read before it is written.
\<close>

record 'd plat =
  io_read :: "u64 \<Rightarrow> u32 \<Rightarrow> u64 \<Rightarrow> 'd \<Rightarrow> (u64 \<times> 'd \<times> u64 option) option"
  io_write :: "u64 \<Rightarrow> u32 \<Rightarrow> u64 \<Rightarrow> 'd \<Rightarrow> ('d \<times> u64 option) option"
  softfloat :: "sf_fun \<Rightarrow> u64 list \<Rightarrow> float_status \<Rightarrow> u64 \<times> float_status"
  uninit :: u64

definition irqListener :: "u64 \<Rightarrow> 'd machine \<Rightarrow> 'd machine" where
  "irqListener irq c = c\<lparr> state := (state c)\<lparr> mip := irq \<rparr> \<rparr>"

definition notify :: "u64 option \<Rightarrow> 'd machine \<Rightarrow> 'd machine" where
  "notify i c = (case i of None \<Rightarrow> c | Some irq \<Rightarrow> irqListener irq c)"

definition set_devices :: "'d \<Rightarrow> 'd machine \<Rightarrow> 'd machine" where
  "set_devices d c = c\<lparr> memory := (memory c)\<lparr> devices := d \<rparr> \<rparr>"

definition in_ram :: "'d memory \<Rightarrow> u64 \<Rightarrow> nat \<Rightarrow> bool" where
  "in_ram m paddr n \<longleftrightarrow> unat (paddr - 0x80000000) + n \<le> unat (mem_size m)"

definition mem_paddrRead :: "'d plat \<Rightarrow> u64 \<Rightarrow> u32 \<Rightarrow> u64 \<Rightarrow> 'd machine \<Rightarrow> (u64 \<times> bool \<times> 'd machine) res"
  where
  "mem_paddrRead p paddr sz data c =
    (case io_read p paddr sz data (devices (memory c)) of
       Some (v, d, irq) \<Rightarrow> Inr (v, True, notify irq (set_devices d c))
     | None \<Rightarrow>
         if in_ram (memory c) paddr (unat sz)
         then Inr (load_le (ram (memory c)) (paddr - 0x80000000) (unat sz), False, c)
         else Inl OutOfBounds)"

definition mem_paddrWrite :: "'d plat \<Rightarrow> u64 \<Rightarrow> u32 \<Rightarrow> u64 \<Rightarrow> 'd machine \<Rightarrow> (bool \<times> 'd machine) res" where
  "mem_paddrWrite p paddr sz data c =
    (case io_write p paddr sz data (devices (memory c)) of
       Some (d, irq) \<Rightarrow> Inr (True, notify irq (set_devices d c))
     | None \<Rightarrow>
         if in_ram (memory c) paddr (unat sz)
         then Inr (False, c\<lparr> memory := (memory c)\<lparr> ram :=
                store_le (ram (memory c)) (paddr - 0x80000000) (unat sz) data \<rparr> \<rparr>)
         else Inl OutOfBounds)"

text \<open>RiscvArch::paddrRead and paddrWrite: their result is false for an access to a device.\<close>

definition paddrRead :: "'d plat \<Rightarrow> u64 \<Rightarrow> u32 \<Rightarrow> fetch_type \<Rightarrow> u64 \<Rightarrow> 'd machine \<Rightarrow> (u64 \<times> bool \<times> 'd machine) res"
  where
  "paddrRead p paddr sz ty data c =
     rbind (mem_paddrRead p paddr sz data c) (\<lambda>(v, mmio, c'). Inr (v, \<not> mmio, c'))"

definition paddrWrite :: "'d plat \<Rightarrow> u64 \<Rightarrow> u32 \<Rightarrow> fetch_type \<Rightarrow> u64 \<Rightarrow> 'd machine \<Rightarrow> (bool \<times> 'd machine) res"
  where
  "paddrWrite p paddr sz ty data c =
     rbind (mem_paddrWrite p paddr sz data c) (\<lambda>(mmio, c'). Inr (\<not> mmio, c'))"

section \<open>The memory interface\<close>

text \<open>
  What a client of a byte memory relies on: a read after a write of the same range gives the value
  back, a write leaves disjoint ranges alone.  The RAM of the machine meets it.
\<close>

locale byte_memory =
  fixes ok :: "'s \<Rightarrow> u64 \<Rightarrow> nat \<Rightarrow> bool" and rd :: "'s \<Rightarrow> u64 \<Rightarrow> nat \<Rightarrow> u64"
    and wr :: "'s \<Rightarrow> u64 \<Rightarrow> nat \<Rightarrow> u64 \<Rightarrow> 's"
  assumes ok_wr: "ok s b m \<Longrightarrow> ok (wr s a n v) b m"
    and rd_same: "ok s a n \<Longrightarrow> rd (wr s a n v) a n = take_bit (8 * n) v"
    and rd_other: "ok s a n \<Longrightarrow> ok s b m \<Longrightarrow> unat a + n \<le> unat b \<or> unat b + m \<le> unat a \<Longrightarrow>
      rd (wr s a n v) b m = rd s b m"
begin

lemma write_commute_read:
  assumes "ok s a n" "ok s b m" "unat a + n \<le> unat b \<or> unat b + m \<le> unat a"
  shows "rd (wr (wr s a n v) b m w) a n = take_bit (8 * n) v"
  using assms rd_same [of s a n v] rd_other [of "wr s a n v" b m a n w] ok_wr by metis

lemma last_write_wins: "ok s a n \<Longrightarrow> rd (wr (wr s a n v) a n w) a n = take_bit (8 * n) w"
  using rd_same [of "wr s a n v" a n w] ok_wr by blast

end

definition ram_ok :: "(u64 \<Rightarrow> u8) \<Rightarrow> u64 \<Rightarrow> nat \<Rightarrow> bool" where
  "ram_ok m a n \<longleftrightarrow> unat a + n \<le> 2 ^ 64"

interpretation rm: byte_memory ram_ok load_le store_le
proof unfold_locales
  fix s :: "u64 \<Rightarrow> u8" and a b :: u64 and n m :: nat and v :: u64
  show "ram_ok s b m \<Longrightarrow> ram_ok (store_le s a n v) b m"
    by (simp add: ram_ok_def)
  show "ram_ok s a n \<Longrightarrow> load_le (store_le s a n v) a n = take_bit (8 * n) v"
    by (simp add: ram_ok_def load_store_le)
  assume ok: "ram_ok s a n" "ram_ok s b m" and dis: "unat a + n \<le> unat b \<or> unat b + m \<le> unat a"
  show "load_le (store_le s a n v) b m = load_le s b m"
  proof (rule load_le_cong)
    fix i assume i: "i < m"
    then have "unat (b + of_nat i) = unat b + i"
      using ok(2) by (simp add: ram_ok_def unat_word_ariths unat_of_nat)
    then show "store_le s a n v (b + of_nat i) = s (b + of_nat i)"
      using ok(1) dis i by (intro store_le_out) (auto simp: ram_ok_def)
  qed
qed

lemma in_ram_ok: "in_ram m a n \<Longrightarrow> ram_ok (ram m) (a - 0x80000000) n"
proof -
  have "unat (mem_size m) < 2 ^ LENGTH(64)" by (rule unsigned_less)
  then show "in_ram m a n \<Longrightarrow> ram_ok (ram m) (a - 0x80000000) n"
    by (simp add: in_ram_def ram_ok_def)
qed

end
