(* ===== verification/Bus.thy ===== *)
theory Bus
  imports Uart Memory
begin

text \<open>
  The devices behind the memory: the virtual functions of Device (src/inc/device/device.h) for the three
  devices that keep its contract, the accesses of Memory::paddrRead and paddrWrite to them
  (src/src/cache/memory.cpp), and the clock of the devices with their interrupt lines up to the cpu.
\<close>

section \<open>The virtual functions\<close>

datatype device = D_Uart uart | D_Clint clint | D_Irq basic_irq

fun dev_inRange :: "device \<Rightarrow> u64 \<Rightarrow> bool" where
  "dev_inRange (D_Uart u) a = uart_inRange u a"
| "dev_inRange (D_Clint c) a = clint_inRange c a"
| "dev_inRange (D_Irq d) a = bi_inRange d a"

fun dev_addRequest :: "nat \<Rightarrow> device \<Rightarrow> bool \<times> device" where
  "dev_addRequest r (D_Uart u) = map_prod id D_Uart (uart_addRequest r u)"
| "dev_addRequest r (D_Clint c) = map_prod id D_Clint (clint_addRequest r c)"
| "dev_addRequest r (D_Irq d) = map_prod id D_Irq (bi_addRequest r d)"

fun dev_checkResponse :: "device \<Rightarrow> nat option \<times> device" where
  "dev_checkResponse (D_Uart u) = map_prod id D_Uart (uart_checkResponse u)"
| "dev_checkResponse (D_Clint c) = map_prod id D_Clint (clint_checkResponse c)"
| "dev_checkResponse (D_Irq d) = map_prod id D_Irq (bi_checkResponse d)"

text \<open>tick, with the word of the interrupt handler; the Boolean tells whether its listeners are called.\<close>

fun dev_tick :: "device \<Rightarrow> u64 \<Rightarrow> (device \<times> u64 \<times> bool) res" where
  "dev_tick (D_Uart u) irq = Inr (D_Uart (uart_tick u), irq, False)"
| "dev_tick (D_Clint c) irq = rbind (clint_tick c irq) (\<lambda>(c, irq, b). Inr (D_Clint c, irq, b))"
| "dev_tick (D_Irq d) irq = Inr (D_Irq d, irq, False)"

fun dev_inv :: "device \<Rightarrow> bool" where
  "dev_inv (D_Uart u) = uart_inv u" | "dev_inv (D_Clint c) = True" | "dev_inv (D_Irq d) = True"

fun dev_pending :: "device \<Rightarrow> nat option" where
  "dev_pending (D_Uart u) = uart_pending u" | "dev_pending (D_Clint c) = cl_req c" | "dev_pending (D_Irq d) = bi_req d"

fun dev_wait :: "device \<Rightarrow> nat" where
  "dev_wait (D_Uart u) = uart_wait u" | "dev_wait (D_Clint c) = 0" | "dev_wait (D_Irq d) = 0"

definition dev_ops :: "device port_ops" where
  "dev_ops = \<lparr> add_op = dev_addRequest, ptick_op = (\<lambda>d. case dev_tick d 0 of Inr (d, irq, b) \<Rightarrow> d | Inl e \<Rightarrow> d),
     resp_op = dev_checkResponse \<rparr>"

lemma dev_tick_keeps:
  "dev_tick d irq = Inr (d', irq', b) \<Longrightarrow> dev_inv d \<Longrightarrow> dev_inv d' \<and> dev_pending d' = dev_pending d \<and>
     (dev_pending d \<noteq> None \<longrightarrow> 0 < dev_wait d \<longrightarrow> dev_wait d' < dev_wait d)"
  by (cases d) (auto simp: rbind_eq_Inr uart_defs split: if_splits dest: clint_tick_req)

interpretation dv: request_port dev_ops dev_inv dev_pending dev_wait
proof (unfold_locales, goal_cases)
  case (1 s r)
  then show ?case
    by (cases s) (auto simp: dev_ops_def uart_defs clint_addRequest_def bi_addRequest_def split: if_splits)
next
  case (2 s q r)
  then show ?case
    by (cases s) (auto simp: dev_ops_def uart_defs clint_addRequest_def bi_addRequest_def split: if_splits)
next
  case (3 s)
  then show ?case using dev_tick_keeps [of s 0] by (auto simp: dev_ops_def split: sum.splits)
next
  case (4 s)
  have "\<exists>d irq b. dev_tick s 0 = Inr (d, irq, b)"
  proof (cases s)
    case (D_Clint c)
    then show ?thesis
      using setIrqState_bit [of 7 True 0] setIrqState_bit [of 7 False 0] by (auto simp: clint_tick_def Let_def)
  qed auto
  then show ?case using dev_tick_keeps [of s 0] 4 by (auto simp: dev_ops_def)
next
  case (5 s r s')
  then show ?case
    by (cases s) (auto simp: dev_ops_def uart_defs clint_checkResponse_def bi_checkResponse_def split: if_splits option.splits)
next
  case (6 s s')
  then show ?case
    by (cases s) (auto simp: dev_ops_def uart_defs clint_checkResponse_def bi_checkResponse_def split: if_splits option.splits)
next
  case (7 s r)
  then show ?case
    by (cases s) (auto simp: dev_ops_def uart_defs clint_checkResponse_def bi_checkResponse_def split: if_splits option.splits)
qed

section \<open>Accesses of the cpu\<close>

text \<open>
  The buffer is a 64-bit variable of the caller with the value data; a device overwrites some of its
  bytes.  The uart calls its interrupt handler while it is accessed.
\<close>

definition put_bytes :: "u64 \<Rightarrow> u8 list \<Rightarrow> u64" where
  "put_bytes data bs = horner_sum ucast 256 (map (\<lambda>i. if i < length bs then bs ! i else ucast (drop_bit (8 * i) data)) [0..<8])"

definition get_bytes :: "nat \<Rightarrow> u64 \<Rightarrow> u8 list" where
  "get_bytes n data = map (\<lambda>i. ucast (drop_bit (8 * i) data)) [0..<n]"

definition irq_called :: "uart \<Rightarrow> uart \<Rightarrow> bool" where
  "irq_called u u' \<longleftrightarrow> irq_calls (u_serial u') \<noteq> irq_calls (u_serial u)"

fun dev_read :: "u32 \<Rightarrow> device \<Rightarrow> u64 \<Rightarrow> u32 \<Rightarrow> u64 \<Rightarrow> u64 \<Rightarrow> (u64 \<times> device \<times> u64 \<times> bool) res" where
  "dev_read fl (D_Uart u) a n data irq = rbind (uart_read fl u a n irq) (\<lambda>(b, u', irq).
     Inr (put_bytes data [b], D_Uart u', irq, irq_called u u'))"
| "dev_read fl (D_Clint c) a n data irq = Inr (case clint_read c a of None \<Rightarrow> data | Some v \<Rightarrow> v, D_Clint c, irq, False)"
| "dev_read fl (D_Irq d) a n data irq = Inr (case bi_read d a (unat n) of None \<Rightarrow> data | Some bs \<Rightarrow> put_bytes data bs, D_Irq d, irq, False)"

fun dev_write :: "u32 \<Rightarrow> device \<Rightarrow> u64 \<Rightarrow> u32 \<Rightarrow> u64 \<Rightarrow> u64 \<Rightarrow> (device \<times> u64 \<times> bool) res" where
  "dev_write fl (D_Uart u) a n data irq = rbind (uart_write fl u a n (ucast data) irq) (\<lambda>(u', irq).
     Inr (D_Uart u', irq, irq_called u u'))"
| "dev_write fl (D_Clint c) a n data irq = rbind (clint_write c a data irq) (\<lambda>(c, irq, b). Inr (D_Clint c, irq, b))"
| "dev_write fl (D_Irq d) a n data irq = Inr (D_Irq (bi_write d a (get_bytes (unat n) data)), irq, False)"

text \<open>The devices and the word irq of the interrupt handler.\<close>

record bus =
  bus_devices :: "device list"
  bus_irq :: u64

definition bus_read :: "u32 \<Rightarrow> u64 \<Rightarrow> u32 \<Rightarrow> u64 \<Rightarrow> bus \<Rightarrow> (u64 \<times> bus \<times> u64 option) option res" where
  "bus_read fl a n data b = (case find_device dev_inRange a (bus_devices b) of
      None \<Rightarrow> Inr None
    | Some i \<Rightarrow> rbind (dev_read fl (bus_devices b ! i) a n data (bus_irq b)) (\<lambda>(v, d, irq, called).
        Inr (Some (v, \<lparr> bus_devices = (bus_devices b)[i := d], bus_irq = irq \<rparr>, if called then Some irq else None))))"

definition bus_write :: "u32 \<Rightarrow> u64 \<Rightarrow> u32 \<Rightarrow> u64 \<Rightarrow> bus \<Rightarrow> (bus \<times> u64 option) option res" where
  "bus_write fl a n data b = (case find_device dev_inRange a (bus_devices b) of
      None \<Rightarrow> Inr None
    | Some i \<Rightarrow> rbind (dev_write fl (bus_devices b ! i) a n data (bus_irq b)) (\<lambda>(d, irq, called).
        Inr (Some (\<lparr> bus_devices = (bus_devices b)[i := d], bus_irq = irq \<rparr>, if called then Some irq else None))))"

text \<open>
  The platform of the functional core with these devices.  An access that would stop the program (none
  does while bus_ok holds) becomes an access to no device, which ends outside the RAM.
\<close>

definition bus_plat :: "u32 \<Rightarrow> (sf_fun \<Rightarrow> u64 list \<Rightarrow> float_status \<Rightarrow> u64 \<times> float_status) \<Rightarrow> u64 \<Rightarrow> bus plat" where
  "bus_plat fl sf un = \<lparr> io_read = (\<lambda>a n v b. case bus_read fl a n v b of Inl e \<Rightarrow> None | Inr r \<Rightarrow> r),
     io_write = (\<lambda>a n v b. case bus_write fl a n v b of Inl e \<Rightarrow> None | Inr r \<Rightarrow> r), softfloat = sf, uninit = un \<rparr>"

section \<open>The clock of the devices\<close>

text \<open>Each device ticks in turn; the listeners of the handler set mip of the cpu.\<close>

fun bus_ticks :: "nat list \<Rightarrow> bus machine \<Rightarrow> bus machine res" where
  "bus_ticks [] c = Inr c"
| "bus_ticks (i # is) c = (let b = devices (memory c) in
     rbind (dev_tick (bus_devices b ! i) (bus_irq b)) (\<lambda>(d, irq, called).
       bus_ticks is (notify (if called then Some irq else None)
         (set_devices \<lparr> bus_devices = (bus_devices b)[i := d], bus_irq = irq \<rparr> c))))"

definition bus_clock :: "bus machine \<Rightarrow> bus machine res" where
  "bus_clock c = bus_ticks [0..<length (bus_devices (devices (memory c)))] c"

section \<open>What every access and every cycle keeps\<close>

text \<open>The lines of the devices in the word of the handler.\<close>

definition dev_ok :: "u64 \<Rightarrow> device \<Rightarrow> bool" where
  "dev_ok irq d = (case d of D_Uart u \<Rightarrow> serial_inv (u_serial u) \<and> uart_line u irq \<and> u_irq_number u \<noteq> 3 \<and> u_irq_number u \<noteq> 7
     | D_Clint c \<Rightarrow> timer_line c irq | D_Irq d \<Rightarrow> True)"

text \<open>At most one device of each kind, so no two drive the same line.\<close>

fun dev_kind :: "device \<Rightarrow> nat" where
  "dev_kind (D_Uart u) = 0" | "dev_kind (D_Clint c) = 1" | "dev_kind (D_Irq d) = 2"

definition bus_ok :: "bus \<Rightarrow> bool" where
  "bus_ok b \<longleftrightarrow> distinct (map dev_kind (bus_devices b)) \<and> list_all (dev_ok (bus_irq b)) (bus_devices b)"

text \<open>The bits of the word a device drives.\<close>

fun dev_lines :: "device \<Rightarrow> nat set" where
  "dev_lines (D_Uart u) = {unat (u_irq_number u)}" | "dev_lines (D_Clint c) = {3, 7}" | "dev_lines (D_Irq d) = {}"

lemma dev_ok_cong: "\<forall>m \<in> dev_lines d. bit irq' m = bit irq m \<Longrightarrow> dev_ok irq' d = dev_ok irq d"
  by (cases d) (auto simp: dev_ok_def uart_line_def timer_line_def)

lemma lines_disjoint: "dev_ok irq d \<Longrightarrow> dev_ok irq' e \<Longrightarrow> dev_kind d \<noteq> dev_kind e \<Longrightarrow> dev_lines d \<inter> dev_lines e = {}"
proof -
  have "unat w = 3 \<Longrightarrow> w = 3" "unat w = 7 \<Longrightarrow> w = 7" for w :: u64 by (simp_all add: word_unat_eq_iff)
  then show "dev_ok irq d \<Longrightarrow> dev_ok irq' e \<Longrightarrow> dev_kind d \<noteq> dev_kind e \<Longrightarrow> ?thesis"
    by (cases d; cases e) (auto simp: dev_ok_def)
qed

text \<open>What an access or a tick may do to the device and the word.\<close>

definition dev_step :: "device \<Rightarrow> u64 \<Rightarrow> device \<Rightarrow> u64 \<Rightarrow> bool \<Rightarrow> bool" where
  "dev_step d irq d' irq' called \<longleftrightarrow> dev_ok irq' d' \<and> dev_kind d' = dev_kind d \<and> dev_lines d' = dev_lines d \<and>
     (\<forall>m. m \<notin> dev_lines d \<longrightarrow> bit irq' m = bit irq m) \<and> (\<not> called \<longrightarrow> irq' = irq)"

lemma with_serial_quiet: "with_serial u irq s = Inr (u', irq') \<Longrightarrow> irq_calls s = irq_calls (u_serial u) \<Longrightarrow> irq' = irq"
  by (auto simp: with_serial_def)

lemma uart_quiet:
  "uart_read fl u a n irq = Inr (b, u', irq') \<Longrightarrow> \<not> irq_called u u' \<Longrightarrow> irq' = irq"
  "uart_write fl u a n v irq = Inr (u', irq') \<Longrightarrow> \<not> irq_called u u' \<Longrightarrow> irq' = irq"
  by (auto simp: uart_read_def uart_write_def rbind_eq_Inr irq_called_def with_serial_def)

lemma clint_write_step:
  assumes "timer_line c irq"
  shows "\<exists>c' irq' b. clint_write c a v irq = Inr (c', irq', b) \<and> timer_line c' irq' \<and>
    (\<forall>m. m \<noteq> 3 \<longrightarrow> bit irq' m = bit irq m) \<and> (\<not> b \<longrightarrow> irq' = irq)"
proof -
  obtain w where "setIrqState 3 (v AND 1 \<noteq> 0) irq = Inr w" "\<forall>m. bit w m \<longleftrightarrow> (if m = 3 then v AND 1 \<noteq> 0 else bit irq m)"
    using setIrqState_bit [of 3 "v AND 1 \<noteq> 0" irq] by auto
  then show ?thesis using assms by (auto simp: clint_write_def Let_def timer_line_def)
qed

lemma clint_tick_step:
  assumes "timer_line c irq"
  shows "\<exists>c' irq' b. clint_tick c irq = Inr (c', irq', b) \<and> timer_line c' irq' \<and>
    (bit irq' 7 \<longleftrightarrow> mtimecmp c' \<le> mtime c') \<and> mtime c' = mtime c + 1 \<and> mtimecmp c' = mtimecmp c \<and>
    (\<forall>m. m \<noteq> 7 \<longrightarrow> bit irq' m = bit irq m) \<and> (\<not> b \<longrightarrow> irq' = irq)"
proof -
  obtain c' irq' b where t: "clint_tick c irq = Inr (c', irq', b)" "timer_line c' irq'" "mtime c' = mtime c + 1"
    "mtimecmp c' = mtimecmp c" "bit irq' 7 \<longleftrightarrow> mtimecmp c \<le> mtime c + 1" "\<forall>m. m \<noteq> 7 \<longrightarrow> bit irq' m = bit irq m"
    using clint_tick_line [OF assms] by blast
  have "\<not> b \<longrightarrow> irq' = irq" using t(1) by (auto simp: clint_tick_def Let_def rbind_eq_Inr split: if_splits)
  then show ?thesis using t by auto
qed

lemma dev_read_ok:
  assumes "dev_ok irq d"
  shows "\<exists>v d' irq' b. dev_read fl d a n data irq = Inr (v, d', irq', b) \<and> dev_step d irq d' irq' b"
proof (cases d)
  case (D_Uart u)
  then obtain x u' irq' where "uart_read fl u a n irq = Inr (x, u', irq')" "serial_inv (u_serial u')" "uart_line u' irq'"
    "u_irq_number u' = u_irq_number u" "\<forall>m. m \<noteq> unat (u_irq_number u) \<longrightarrow> bit irq' m = bit irq m"
    using uart_read_ok [of u irq] assms by (fastforce simp: dev_ok_def)
  then show ?thesis using D_Uart assms uart_quiet(1) by (auto simp: dev_step_def dev_ok_def)
qed (use assms in \<open>auto simp: dev_step_def dev_ok_def\<close>)

lemma dev_write_ok:
  assumes "dev_ok irq d"
  shows "\<exists>d' irq' b. dev_write fl d a n data irq = Inr (d', irq', b) \<and> dev_step d irq d' irq' b"
proof (cases d)
  case (D_Uart u)
  then obtain u' irq' where "uart_write fl u a n (ucast data) irq = Inr (u', irq')" "serial_inv (u_serial u')" "uart_line u' irq'"
    "u_irq_number u' = u_irq_number u" "\<forall>m. m \<noteq> unat (u_irq_number u) \<longrightarrow> bit irq' m = bit irq m"
    using uart_write_ok [of u irq] assms by (fastforce simp: dev_ok_def)
  then show ?thesis using D_Uart assms uart_quiet(2) by (auto simp: dev_step_def dev_ok_def)
next
  case (D_Clint c)
  then show ?thesis using clint_write_step [of c irq a data] assms by (auto simp: dev_step_def dev_ok_def)
qed (use assms in \<open>auto simp: dev_step_def dev_ok_def\<close>)

lemma dev_tick_ok:
  assumes "dev_ok irq d"
  shows "\<exists>d' irq' b. dev_tick d irq = Inr (d', irq', b) \<and> dev_step d irq d' irq' b \<and>
    (\<forall>c'. d' = D_Clint c' \<longrightarrow> (bit irq' 7 \<longleftrightarrow> mtimecmp c' \<le> mtime c'))"
proof (cases d)
  case (D_Uart u)
  then show ?thesis using assms by (auto simp: dev_step_def dev_ok_def uart_tick_def uart_line_def)
next
  case (D_Clint c)
  then show ?thesis using clint_tick_step [of c irq] assms by (auto simp: dev_step_def dev_ok_def)
qed (use assms in \<open>auto simp: dev_step_def dev_ok_def\<close>)

lemma bus_find_lt: "find_device rng a ds = Some i \<Longrightarrow> i < length ds"
  by (induction ds arbitrary: i) (auto split: if_splits)

lemma bus_step:
  assumes "bus_ok b" "i < length (bus_devices b)" "dev_step (bus_devices b ! i) (bus_irq b) d irq called"
  shows "bus_ok \<lparr> bus_devices = (bus_devices b)[i := d], bus_irq = irq \<rparr>"
proof -
  let ?ds = "bus_devices b"
  have ok: "dev_ok (bus_irq b) (?ds ! j)" if "j < length ?ds" for j using assms(1) that by (simp add: bus_ok_def list_all_length)
  have kinds: "map dev_kind (?ds[i := d]) = map dev_kind ?ds"
    using assms(2,3) by (simp add: map_update dev_step_def list_update_same_conv)
  have "dev_ok irq (?ds[i := d] ! j)" if j: "j < length ?ds" for j
  proof (cases "j = i")
    case False
    have "dev_kind (?ds ! i) \<noteq> dev_kind (?ds ! j)"
      using assms(1,2) j False by (auto simp: bus_ok_def distinct_conv_nth)
    then have "dev_lines (?ds ! i) \<inter> dev_lines (?ds ! j) = {}" by (rule lines_disjoint [OF ok [OF assms(2)] ok [OF j]])
    then have "\<forall>m \<in> dev_lines (?ds ! j). bit irq m = bit (bus_irq b) m" using assms(3) by (auto simp: dev_step_def)
    then show ?thesis using dev_ok_cong [of "?ds ! j" irq "bus_irq b"] ok [OF j] False by simp
  qed (use assms(2,3) in \<open>simp add: dev_step_def\<close>)
  then show ?thesis using assms(1) kinds by (simp add: bus_ok_def list_all_length)
qed

lemma bus_read_ok:
  assumes "bus_ok b"
  shows "\<exists>r. bus_read fl a n data b = Inr r \<and> (\<forall>v b' i. r = Some (v, b', i) \<longrightarrow> bus_ok b' \<and>
    (case i of None \<Rightarrow> bus_irq b' = bus_irq b | Some irq \<Rightarrow> bus_irq b' = irq))"
proof (cases "find_device dev_inRange a (bus_devices b)")
  case (Some i)
  then have i: "i < length (bus_devices b)" by (rule bus_find_lt)
  then have "dev_ok (bus_irq b) (bus_devices b ! i)" using assms by (simp add: bus_ok_def list_all_length)
  then obtain v d irq c where r: "dev_read fl (bus_devices b ! i) a n data (bus_irq b) = Inr (v, d, irq, c)"
    "dev_step (bus_devices b ! i) (bus_irq b) d irq c"
    using dev_read_ok by blast
  then show ?thesis using Some bus_step [OF assms i r(2)] by (auto simp: bus_read_def dev_step_def)
qed (simp add: bus_read_def)

lemma bus_write_ok:
  assumes "bus_ok b"
  shows "\<exists>r. bus_write fl a n data b = Inr r \<and> (\<forall>b' i. r = Some (b', i) \<longrightarrow> bus_ok b' \<and>
    (case i of None \<Rightarrow> bus_irq b' = bus_irq b | Some irq \<Rightarrow> bus_irq b' = irq))"
proof (cases "find_device dev_inRange a (bus_devices b)")
  case (Some i)
  then have i: "i < length (bus_devices b)" by (rule bus_find_lt)
  then have "dev_ok (bus_irq b) (bus_devices b ! i)" using assms by (simp add: bus_ok_def list_all_length)
  then obtain d irq c where r: "dev_write fl (bus_devices b ! i) a n data (bus_irq b) = Inr (d, irq, c)"
    "dev_step (bus_devices b ! i) (bus_irq b) d irq c"
    using dev_write_ok by blast
  then show ?thesis using Some bus_step [OF assms i r(2)] by (auto simp: bus_write_def dev_step_def)
qed (simp add: bus_write_def)

section \<open>The interrupt lines reach the cpu\<close>

text \<open>The pending bits of the cpu are the word of the handler.\<close>

definition wired :: "bus machine \<Rightarrow> bool" where
  "wired c \<longleftrightarrow> bus_ok (devices (memory c)) \<and> mip (state c) = bus_irq (devices (memory c))"

lemma wired_notify:
  "bus_ok b \<Longrightarrow> (case i of None \<Rightarrow> bus_irq b = bus_irq (devices (memory c)) | Some irq \<Rightarrow> bus_irq b = irq) \<Longrightarrow> wired c \<Longrightarrow>
   wired (notify i (set_devices b c)) \<and> devices (memory (notify i (set_devices b c))) = b"
  by (cases i) (auto simp: wired_def notify_def irqListener_def set_devices_def)

definition timer_shows :: "bus machine \<Rightarrow> nat \<Rightarrow> bool" where
  "timer_shows c i \<longleftrightarrow> (case bus_devices (devices (memory c)) ! i of
     D_Clint k \<Rightarrow> (bit (mip (state c)) 7 \<longleftrightarrow> mtimecmp k \<le> mtime k) | _ \<Rightarrow> True)"

lemma bus_tick1:
  assumes "wired c" "i < length (bus_devices (devices (memory c)))"
  obtains d irq b c1 where "dev_tick (bus_devices (devices (memory c)) ! i) (bus_irq (devices (memory c))) = Inr (d, irq, b)"
    "c1 = notify (if b then Some irq else None)
       (set_devices \<lparr> bus_devices = (bus_devices (devices (memory c)))[i := d], bus_irq = irq \<rparr> c)"
    "wired c1" "length (bus_devices (devices (memory c1))) = length (bus_devices (devices (memory c)))" "timer_shows c1 i"
    "\<forall>j < length (bus_devices (devices (memory c))). j \<noteq> i \<longrightarrow> timer_shows c j \<longrightarrow> timer_shows c1 j"
proof -
  let ?b = "devices (memory c)"
  have b: "bus_ok ?b" using assms(1) by (simp add: wired_def)
  then have ok: "dev_ok (bus_irq ?b) (bus_devices ?b ! j)" if "j < length (bus_devices ?b)" for j
    using that by (simp add: bus_ok_def list_all_length)
  obtain d irq r where t: "dev_tick (bus_devices ?b ! i) (bus_irq ?b) = Inr (d, irq, r)"
    "dev_step (bus_devices ?b ! i) (bus_irq ?b) d irq r" "\<forall>c'. d = D_Clint c' \<longrightarrow> (bit irq 7 \<longleftrightarrow> mtimecmp c' \<le> mtime c')"
    using dev_tick_ok [OF ok [OF assms(2)]] by blast
  let ?b1 = "\<lparr> bus_devices = (bus_devices ?b)[i := d], bus_irq = irq \<rparr>"
  define c1 where "c1 = notify (if r then Some irq else None) (set_devices ?b1 c)"
  have w: "wired c1" "devices (memory c1) = ?b1"
    using wired_notify [OF bus_step [OF b assms(2) t(2)], where i = "if r then Some irq else None" and c = c] t(2) assms(1)
    by (auto simp: c1_def dev_step_def)
  then have mip: "mip (state c1) = irq" by (simp add: wired_def)
  have "timer_shows c1 i" using t(3) assms(2) by (auto simp: timer_shows_def w(2) mip split: device.splits)
  moreover have "timer_shows c1 j" if j: "j < length (bus_devices ?b)" "j \<noteq> i" "timer_shows c j" for j
  proof (cases "bus_devices ?b ! j")
    case (D_Clint k)
    have "dev_kind (bus_devices ?b ! i) \<noteq> dev_kind (bus_devices ?b ! j)"
      using b assms(2) j(1,2) by (auto simp: bus_ok_def distinct_conv_nth)
    then have "7 \<notin> dev_lines (bus_devices ?b ! i)"
      using lines_disjoint [OF ok [OF assms(2)] ok [OF j(1)]] D_Clint by auto
    then have "bit irq 7 = bit (mip (state c)) 7" using t(2) assms(1) by (simp add: dev_step_def wired_def)
    then show ?thesis using j D_Clint by (simp add: timer_shows_def w(2) mip)
  qed (use j in \<open>simp_all add: timer_shows_def w(2)\<close>)
  ultimately show ?thesis using that [OF t(1) c1_def w(1)] by (simp add: w(2))
qed

lemma bus_ticks_ok:
  "wired c \<Longrightarrow> \<forall>i \<in> set is. i < length (bus_devices (devices (memory c))) \<Longrightarrow>
   \<exists>c'. bus_ticks is c = Inr c' \<and> wired c' \<and>
     length (bus_devices (devices (memory c'))) = length (bus_devices (devices (memory c))) \<and>
     (\<forall>i < length (bus_devices (devices (memory c))). i \<in> set is \<or> timer_shows c i \<longrightarrow> timer_shows c' i)"
proof (induction "is" arbitrary: c)
  case (Cons i "is")
  have i: "i < length (bus_devices (devices (memory c)))" using Cons.prems(2) by simp
  obtain d irq b c1 where 1: "dev_tick (bus_devices (devices (memory c)) ! i) (bus_irq (devices (memory c))) = Inr (d, irq, b)"
    "c1 = notify (if b then Some irq else None)
       (set_devices \<lparr> bus_devices = (bus_devices (devices (memory c)))[i := d], bus_irq = irq \<rparr> c)"
    "wired c1" "length (bus_devices (devices (memory c1))) = length (bus_devices (devices (memory c)))" "timer_shows c1 i"
    "\<forall>j < length (bus_devices (devices (memory c))). j \<noteq> i \<longrightarrow> timer_shows c j \<longrightarrow> timer_shows c1 j"
    by (rule bus_tick1 [OF Cons.prems(1) i])
  have "bus_ticks (i # is) c = bus_ticks is c1" using 1(1) by (simp add: 1(2) Let_def)
  moreover obtain c' where "bus_ticks is c1 = Inr c'" "wired c'"
    "length (bus_devices (devices (memory c'))) = length (bus_devices (devices (memory c1)))"
    "\<forall>i < length (bus_devices (devices (memory c1))). i \<in> set is \<or> timer_shows c1 i \<longrightarrow> timer_shows c' i"
    using Cons.IH [OF 1(3)] Cons.prems(2) 1(4) by auto
  ultimately show ?case using 1(4-6) by auto
qed simp

lemma bus_clock_ok:
  assumes "wired c"
  shows "\<exists>c'. bus_clock c = Inr c' \<and> wired c' \<and>
    (\<forall>i < length (bus_devices (devices (memory c'))). timer_shows c' i)"
  using bus_ticks_ok [OF assms, of "[0..<length (bus_devices (devices (memory c)))]"] by (auto simp: bus_clock_def)

text \<open>Accesses of the functional core through the platform of this bus.\<close>

lemma wired_access:
  assumes "wired c"
  shows "mem_paddrRead (bus_plat fl sf un) a n v c = Inr (x, m, c') \<Longrightarrow> wired c'"
    "mem_paddrWrite (bus_plat fl sf un) a n v c = Inr (m, c') \<Longrightarrow> wired c'"
proof -
  have b: "bus_ok (devices (memory c))" using assms by (simp add: wired_def)
  obtain r where r: "bus_read fl a n v (devices (memory c)) = Inr r" "\<forall>v b' i. r = Some (v, b', i) \<longrightarrow> bus_ok b' \<and>
    (case i of None \<Rightarrow> bus_irq b' = bus_irq (devices (memory c)) | Some irq \<Rightarrow> bus_irq b' = irq)"
    using bus_read_ok [OF b] by blast
  show "wired c'" if run: "mem_paddrRead (bus_plat fl sf un) a n v c = Inr (x, m, c')"
  proof (cases r)
    case None
    then show ?thesis using run r(1) assms by (auto simp: mem_paddrRead_def bus_plat_def split: if_split_asm)
  next
    case (Some y)
    obtain w b' i where y: "y = (w, b', i)" by (rule prod_cases3)
    then have "c' = notify i (set_devices b' c)" using run r(1) Some by (simp add: mem_paddrRead_def bus_plat_def)
    then show ?thesis using r(2) Some y wired_notify assms by blast
  qed
  obtain q where q: "bus_write fl a n v (devices (memory c)) = Inr q" "\<forall>b' i. q = Some (b', i) \<longrightarrow> bus_ok b' \<and>
    (case i of None \<Rightarrow> bus_irq b' = bus_irq (devices (memory c)) | Some irq \<Rightarrow> bus_irq b' = irq)"
    using bus_write_ok [OF b] by blast
  show "wired c'" if run: "mem_paddrWrite (bus_plat fl sf un) a n v c = Inr (m, c')"
  proof (cases q)
    case None
    then show ?thesis
      using run q(1) assms by (auto simp: mem_paddrWrite_def bus_plat_def wired_def split: if_split_asm)
  next
    case (Some y)
    obtain b' i where y: "y = (b', i)" by (rule prod.exhaust)
    then have "c' = notify i (set_devices b' c)" using run q(1) Some by (simp add: mem_paddrWrite_def bus_plat_def)
    then show ?thesis using q(2) Some y wired_notify assms by blast
  qed
qed

end
