(* ===== verification/SimpleUart.thy ===== *)
theory SimpleUart
  imports Device
begin

text \<open>
  The simple serial device, src/src/device/simpleuart.cpp over the 8250 model of
  src/inc/device/uart8250.h.
\<close>

section \<open>uart8250\<close>

text \<open>
  A char is a byte; the bytes printed to the terminal are kept in printed.  The locks are not modelled:
  only one thread uses the object.
\<close>

record uart8250 =
  rx :: "u8 list"
  debug_rx :: "u8 list"
  tx :: "u8 list"
  thr_empty :: bool
  access_uart :: bool
  DLL :: u8
  DLM :: u8
  IER :: u8
  LCR :: u8
  IIR :: u8
  MCR :: u8
  printed :: "u8 list"

definition uart8250_new :: uart8250 where
  "uart8250_new = \<lparr> rx = [], debug_rx = [], tx = [], thr_empty = False, access_uart = False, DLL = 0, DLM = 0,
     IER = 0, LCR = 3, IIR = 0, MCR = 0, printed = [] \<rparr>"

definition DLAB :: "uart8250 \<Rightarrow> bool" where
  "DLAB u \<longleftrightarrow> drop_bit 7 (LCR u) \<noteq> 0"

definition update_IIR :: "uart8250 \<Rightarrow> uart8250" where
  "update_IIR u =
    (let u = u\<lparr> IIR := push_bit 6 3 \<rparr>; no_int = True;
         (u, no_int) = (if IER u AND 2 \<noteq> 0 \<and> thr_empty u then (u\<lparr> IIR := IIR u OR push_bit 1 1 \<rparr>, False) else (u, no_int));
         (u, no_int) = (if IER u AND 1 \<noteq> 0 \<and> rx u \<noteq> [] then (u\<lparr> IIR := IIR u OR push_bit 1 2 \<rparr>, False) else (u, no_int))
     in u\<lparr> IIR := IIR u OR of_bool no_int \<rparr>)"

text \<open>do_read: the byte stored in the buffer, None when it is left as it was.\<close>

definition do_read :: "u64 \<Rightarrow> u64 \<Rightarrow> bool \<Rightarrow> uart8250 \<Rightarrow> (u8 option \<times> uart8250) res" where
  "do_read a sz debug u = assert_c (sz = 1) ''size == 1''
    (let u = u\<lparr> access_uart := True \<rparr> in
     if a = 0 then
       if DLAB u then Inr (Some (DLL u), u)
       else if debug then
         (case debug_rx u of [] \<Rightarrow> Inr (None, u) | c # cs \<Rightarrow> Inr (Some c, u\<lparr> debug_rx := cs \<rparr>))
       else (case rx u of [] \<Rightarrow> Inr (None, u) | c # cs \<Rightarrow> Inr (Some c, u\<lparr> rx := cs \<rparr>))
     else if a = 1 then Inr (Some (if DLAB u then DLM u else IER u), u)
     else if a = 2 then let u = update_IIR u in Inr (Some (IIR u), u\<lparr> thr_empty := False \<rparr>)
     else if a = 3 then Inr (Some (LCR u), u)
     else if a = 4 then Inr (Some (MCR u), u)
     else if a = 5 then
       Inr (Some (if debug then of_bool (debug_rx u \<noteq> []) OR push_bit 5 1 OR push_bit 6 1
                  else of_bool (rx u \<noteq> []) OR push_bit 5 1 OR push_bit 6 1), u)
     else if a = 6 then Inr (Some (push_bit 7 1 OR push_bit 4 1), u)
     else if a = 7 then Inr (Some 0, u)
     else Inl (AssertFail ''false''))"

definition do_write :: "u64 \<Rightarrow> u64 \<Rightarrow> u8 \<Rightarrow> uart8250 \<Rightarrow> uart8250 res" where
  "do_write a sz b u = assert_c (sz = 1) ''size == 1''
    (if a = 0 then
       if DLAB u then Inr (u\<lparr> DLL := b \<rparr>)
       else Inr (u\<lparr> tx := tx u @ [b], thr_empty := False, printed := printed u @ [b] \<rparr>)
     else if a = 1 then Inr (if DLAB u then u\<lparr> DLM := b \<rparr> else u\<lparr> IER := b \<rparr>)
     else if a = 2 then
       let u = (if b AND push_bit 1 1 \<noteq> 0 then u\<lparr> rx := [], debug_rx := [] \<rparr> else u)
       in Inr (if b AND push_bit 2 1 \<noteq> 0 then u\<lparr> tx := [] \<rparr> else u)
     else if a = 3 then Inr (u\<lparr> LCR := b \<rparr>)
     else if a = 4 then Inr (u\<lparr> MCR := b \<rparr>)
     else if a = 5 \<or> a = 6 \<or> a = 7 then Inr u
     else Inl (AssertFail ''false''))"

definition uart_putc :: "u8 \<Rightarrow> uart8250 \<Rightarrow> uart8250" where
  "uart_putc c u = u\<lparr> debug_rx := debug_rx u @ [c], rx := rx u @ [c] \<rparr>"

text \<open>getc: EOF is -1 as a char.\<close>

definition uart_getc :: "uart8250 \<Rightarrow> u8 \<times> uart8250" where
  "uart_getc u = (case tx u of [] \<Rightarrow> (-1, u)
     | c # cs \<Rightarrow> (c, if cs = [] then u\<lparr> tx := cs, thr_empty := True \<rparr> else u\<lparr> tx := cs \<rparr>))"

definition uart_irq :: "uart8250 \<Rightarrow> bool \<times> uart8250" where
  "uart_irq u = (let u = update_IIR u in (IIR u AND 1 = 0, u))"

definition exist_tx :: "uart8250 \<Rightarrow> bool" where
  "exist_tx u \<longleftrightarrow> tx u \<noteq> []"

record apb_channel =
  psel :: u8
  penable :: u8
  pwrite :: u8
  prdata :: u32
  pwdata :: u32
  paddr :: u64

definition handle_apb :: "apb_channel \<Rightarrow> uart8250 \<Rightarrow> (apb_channel \<times> uart8250) res" where
  "handle_apb apb u =
    (if psel apb AND penable apb \<noteq> 0
     then if pwrite apb \<noteq> 0
          then rbind (do_write (paddr apb AND 7) 1 (ucast (pwdata apb)) u) (\<lambda>u. Inr (apb, u))
          else rbind (do_read (paddr apb AND 7) 1 False u) (\<lambda>(b, u).
                 Inr (apb\<lparr> prdata := scast (case b of None \<Rightarrow> 0 | Some c \<Rightarrow> c) \<rparr>, u))
     else Inr (apb, u))"

text \<open>Terminal and program: what the program writes with DLAB clear is printed, what is put in is read, in order.\<close>

lemma putc_read:
  assumes "\<not> DLAB u" "rx u = c # cs"
  shows "\<exists>u'. do_read 0 1 False (uart_putc d u) = Inr (Some c, u') \<and> rx u' = cs @ [d] \<and> debug_rx u' = debug_rx u @ [d]"
  using assms by (simp add: do_read_def uart_putc_def DLAB_def)

fun uart_puts :: "u8 list \<Rightarrow> uart8250 \<Rightarrow> uart8250 res" where
  "uart_puts [] u = Inr u"
| "uart_puts (c # cs) u = rbind (do_write 0 1 c u) (uart_puts cs)"

fun uart_gets :: "nat \<Rightarrow> uart8250 \<Rightarrow> u8 list \<times> uart8250" where
  "uart_gets 0 u = ([], u)"
| "uart_gets (Suc n) u = (let (c, u) = uart_getc u; (cs, u) = uart_gets n u in (c # cs, u))"

lemma puts_ok: "\<not> DLAB u \<Longrightarrow> \<exists>u'. uart_puts cs u = Inr u' \<and> tx u' = tx u @ cs \<and> printed u' = printed u @ cs"
proof (induction cs arbitrary: u)
  case (Cons c cs)
  let ?u = "u\<lparr> tx := tx u @ [c], thr_empty := False, printed := printed u @ [c] \<rparr>"
  have "do_write 0 1 c u = Inr ?u" using Cons.prems by (simp add: do_write_def)
  moreover have "\<not> DLAB ?u" using Cons.prems by (simp add: DLAB_def)
  ultimately show ?case using Cons.IH [of ?u] by auto
qed simp

lemma gets_ok: "n \<le> length (tx u) \<Longrightarrow> \<exists>u'. uart_gets n u = (take n (tx u), u') \<and> tx u' = drop n (tx u)"
proof (induction n arbitrary: u)
  case (Suc n)
  then obtain c cs where "tx u = c # cs" by (cases "tx u") auto
  moreover define u1 where "u1 = snd (uart_getc u)"
  ultimately have u1: "uart_getc u = (c, u1)" "tx u1 = cs" by (auto simp: uart_getc_def)
  then show ?case using Suc \<open>tx u = c # cs\<close> Suc.IH [of u1] by (auto split: prod.splits)
qed simp

section \<open>SimpleUart\<close>

record simple_uart =
  su_base :: u64
  su_uart :: uart8250
  su_req :: nat
  su_req_valid :: bool

definition su_addRequest :: "nat \<Rightarrow> simple_uart \<Rightarrow> bool \<times> simple_uart" where
  "su_addRequest r d = (True, d\<lparr> su_req := r, su_req_valid := True \<rparr>)"

definition su_checkResponse :: "simple_uart \<Rightarrow> nat option \<times> simple_uart" where
  "su_checkResponse d = (if su_req_valid d then (Some (su_req d), d\<lparr> su_req_valid := False \<rparr>) else (None, d))"

definition su_inRange :: "simple_uart \<Rightarrow> u64 \<Rightarrow> bool" where
  "su_inRange d a \<longleftrightarrow> su_base d \<le> a \<and> a < su_base d + 0x1000"

definition su_read :: "simple_uart \<Rightarrow> u64 \<Rightarrow> int \<Rightarrow> (u8 option \<times> simple_uart) res" where
  "su_read d a n = rbind (do_read (a - su_base d) (of_int n) False (su_uart d)) (\<lambda>(b, u). Inr (b, d\<lparr> su_uart := u \<rparr>))"

definition su_write :: "simple_uart \<Rightarrow> u64 \<Rightarrow> int \<Rightarrow> u8 \<Rightarrow> simple_uart res" where
  "su_write d a n b = rbind (do_write (a - su_base d) (of_int n) b (su_uart d)) (\<lambda>u. Inr (d\<lparr> su_uart := u \<rparr>))"

definition su_ops :: "simple_uart port_ops" where
  "su_ops = \<lparr> add_op = su_addRequest, ptick_op = (\<lambda>d. d), resp_op = su_checkResponse \<rparr>"

text \<open>
  addRequest takes a request while one is pending and forgets the older one, so the contract of a
  device does not hold: of two requests taken in a row only the second is answered.
\<close>

lemma su_forgets:
  "port_run su_ops [P_Add r, P_Add q, P_Resp, P_Resp] d = (acc, ans, d') \<Longrightarrow> acc = [r, q] \<and> ans = [q]"
  by (auto simp: su_ops_def su_addRequest_def su_checkResponse_def)

text \<open>The register file ends at offset 7, the range at 0xfff; an access of another size than a byte stops the program.\<close>

lemma su_access_stops:
  assumes "0 < n" "n < 2 ^ 31"
  shows "(\<exists>r. su_read d a n = Inr r) \<longleftrightarrow> n = 1 \<and> a - su_base d \<le> 7"
    "(\<exists>r. su_write d a n b = Inr r) \<longleftrightarrow> n = 1 \<and> a - su_base d \<le> 7"
proof -
  have one: "(of_int n :: u64) = 1 \<longleftrightarrow> n = 1"
  proof
    assume "(of_int n :: u64) = 1"
    then have "uint (of_int n :: u64) = 1" by simp
    then show "n = 1" using assms by (simp add: uint_word_of_int)
  qed simp
  have seven: "x \<le> 7 \<longleftrightarrow> x = 0 \<or> x = 1 \<or> x = 2 \<or> x = 3 \<or> x = 4 \<or> x = 5 \<or> x = 6 \<or> x = 7" for x :: u64
    by (simp add: word_le_nat_alt word_unat_eq_iff) arith
  show "(\<exists>r. su_read d a n = Inr r) \<longleftrightarrow> n = 1 \<and> a - su_base d \<le> 7"
    by (auto simp: su_read_def do_read_def assert_c_def one seven Let_def rbind_def split: list.splits sum.splits)
  show "(\<exists>r. su_write d a n b = Inr r) \<longleftrightarrow> n = 1 \<and> a - su_base d \<le> 7"
    by (auto simp: su_write_def do_write_def assert_c_def one seven Let_def rbind_def split: sum.splits)
qed

end
