(* ===== verification/Devices.thy ===== *)
theory Devices
  imports Bus SimpleUart
begin

text \<open>
  The properties of the devices, over the operations of their theories, with concrete devices for the
  witnesses.
\<close>

section \<open>Concrete devices\<close>

definition fifo0 :: fifo8 where
  "fifo0 = fifo8_create (\<lambda>k. 0) 16"

definition serial0 :: serial where
  "serial0 = simple_serial_init 0 (\<lambda>k. 0) 115200 \<lparr> divider = 0, rbr = 0, thr = 0, tsr = 0, ier = 0, iir = 0, lcr = 0, mcr = 0,
     lsr = 0, msr = 0, scr = 0, fcr = 0, thr_ipending = False, last_break_enable = 0, baudbase = 0, tsr_retry = 0,
     watch_tag = 0, last_xmit_ts = 0, recv_fifo = fifo0, xmit_fifo = fifo0, recv_fifo_itl = 0, timeout_ipending = False,
     char_transmit_time = 0, poll_msl = 0, sent = [], irq_calls = [] \<rparr>"

definition uart0 :: uart where
  "uart0 = \<lparr> u_base = 0x10000000, u_end = 0x10001000, u_irq_number = 1, u_delay = 1, u_serial = serial0, u_req = 0,
     u_req_valid = False, u_resp_valid = False, u_current_delay = 0 \<rparr>"

definition clint0 :: clint where
  "clint0 = clint_afterLoad \<lparr> cl_base = 0x2000000, cl_end = 0, msip = 0, mtime = 0, mtimecmp = 0, cl_req = None,
     irqValid = False \<rparr>"


lemma serial0_inv: "serial_inv serial0"
  unfolding serial0_def by (rule init_ok)

lemma serial0_calls: "irq_calls serial0 = [False] \<or> irq_calls serial0 = [False, False]"
  unfolding serial0_def simple_serial_init_def simple_serial_realize_core_def serial_reset_def
  by (simp add: Let_def serial_update_msl_def serial_update_irq_def irq_cause_def)

section \<open>Requests\<close>




text \<open>
  C34: a request the uart accepts is answered after at most its delay plus one clock cycles, and while it
  waits the uart refuses every other request.
\<close>

theorem uart_answers_in_time:
  assumes "uart_addRequest r u = (True, u1)"
  shows "(\<exists>n \<le> u_delay u + 1. fst (uart_checkResponse ((uart_tick ^^ n) u1)) = Some r) \<and> fst (uart_addRequest q u1) = False"
proof -
  have "uart_inv u1" "uart_pending u1 = Some r" "uart_wait u1 = u_delay u + 1"
    using assms by (auto simp: uart_addRequest_def uart_inv_def uart_pending_def uart_wait_def split: if_splits)
  then show ?thesis
    using ut.answer_comes [of u1 r] ut.add_busy [of u1 r q] by (simp add: uart_ops_def)
qed

theorem uart_answers_in_time_witness:
  "\<exists>u1. uart_addRequest 5 uart0 = (True, u1) \<and> (\<exists>n \<le> 2. fst (uart_checkResponse ((uart_tick ^^ n) u1)) = Some 5)"
proof -
  obtain u1 where u: "uart_addRequest 5 uart0 = (True, u1)" by (simp add: uart_addRequest_def uart0_def)
  then show ?thesis using uart_answers_in_time [OF u] by (simp add: uart0_def numeral_2_eq_2)
qed

section \<open>Serial port\<close>

text \<open>
  C35: from its creation on, whatever the guest writes to and reads from its registers, with any sizes and
  offsets, and whatever bytes, breaks and timeouts arrive in between, no assertion of the serial port or
  of its FIFOs fails, and the level its interrupt handler was last called with is the one the interrupt
  identification register shows.
\<close>

theorem serial_never_asserts:
  "\<exists>s. serial_event_run fl es (simple_serial_init fl mem baud u) = Inr s \<and> (last (irq_calls s) \<longleftrightarrow> iir s AND 1 = 0)"
  using serial_run_ok [OF init_ok, of fl es fl mem baud u] by (auto simp: serial_inv_def irq_ok_def)

text \<open>
  C36: with the divisor latch closed and loopback off, the bytes written to the transmit register, with or
  without the FIFOs, are exactly the bytes sent, in order, and the port is ready for the next.
\<close>

theorem serial_transmits_in_order:
  assumes "serial_inv s" and "lcr s AND UART_LCR_DLAB = 0" and "mcr s AND UART_MCR_LOOP = 0"
  shows "\<exists>s'. serial_event_run fl (map (\<lambda>v. S_Write 0 (ucast v) 1) vs) s = Inr s' \<and> sent s' = sent s @ vs \<and> serial_inv s'"
  using transmit_all [OF assms] by blast

theorem serial_transmits_in_order_witness:
  "\<exists>s'. serial_event_run 0 (map (\<lambda>v. S_Write 0 (ucast v) 1) [0x68, 0x69 :: u8]) serial0 = Inr s' \<and> sent s' = [0x68, 0x69]"
proof -
  have "lcr serial0 AND UART_LCR_DLAB = 0" "mcr serial0 AND UART_MCR_LOOP = 0" "sent serial0 = []"
    unfolding serial0_def simple_serial_init_def simple_serial_realize_core_def serial_reset_def
    by (simp_all add: Let_def serial_update_msl_def serial_update_irq_def)
  then show ?thesis using serial_transmits_in_order [OF serial0_inv, of 0 "[0x68, 0x69 :: u8]"] by auto
qed

section \<open>A closed machine\<close>

definition bus0 :: bus where
  "bus0 = \<lparr> bus_devices = [D_Clint clint0, D_Uart uart0], bus_irq = 0 \<rparr>"

lemma bus0_ok: "bus_ok bus0"
  using serial0_inv serial0_calls
  by (auto simp: bus_ok_def bus0_def dev_ok_def uart_line_def timer_line_def uart0_def clint0_def clint_afterLoad_def)

end
