(* ===== verification/Mmu.thy ===== *)
theory Mmu
  imports Memory
begin

text \<open>
  Address translation of src/src/arch/riscv/riscvarch.cpp: the Sv39 page walk of translateAddr, the
  permission check, and updateMMUState.  A page table entry is its 64-bit value, read through the bit
  fields of the union PTE of archstate.h.
\<close>

section \<open>Page table entries\<close>

type_synonym pte = u64

definition pte_v :: "pte \<Rightarrow> bool" where "pte_v e = bit e 0"
definition pte_r :: "pte \<Rightarrow> bool" where "pte_r e = bit e 1"
definition pte_w :: "pte \<Rightarrow> bool" where "pte_w e = bit e 2"
definition pte_x :: "pte \<Rightarrow> bool" where "pte_x e = bit e 3"
definition pte_u :: "pte \<Rightarrow> bool" where "pte_u e = bit e 4"
definition pte_a :: "pte \<Rightarrow> bool" where "pte_a e = bit e 6"
definition pte_d :: "pte \<Rightarrow> bool" where "pte_d e = bit e 7"
definition pte_ppn :: "pte \<Rightarrow> u64" where "pte_ppn e = take_bit 44 (drop_bit 10 e)"
definition pte_pad :: "pte \<Rightarrow> u64" where "pte_pad e = take_bit 7 (drop_bit 54 e)"
definition pte_pbmt :: "pte \<Rightarrow> u64" where "pte_pbmt e = take_bit 2 (drop_bit 61 e)"
definition pte_n :: "pte \<Rightarrow> bool" where "pte_n e = bit e 63"

lemmas pte_defs = pte_v_def pte_r_def pte_w_def pte_x_def pte_u_def pte_a_def pte_d_def pte_ppn_def
  pte_pad_def pte_pbmt_def pte_n_def

definition STATUS_MPRV :: "u64 \<Rightarrow> bool" where "STATUS_MPRV m \<longleftrightarrow> m AND 0x20000 \<noteq> 0"
definition STATUS_SUM :: "u64 \<Rightarrow> bool" where "STATUS_SUM m \<longleftrightarrow> m AND 0x40000 \<noteq> 0"
definition STATUS_MPP :: "u64 \<Rightarrow> u64" where "STATUS_MPP m = drop_bit 11 m AND 0x3"
definition STATUS_MXR :: "u64 \<Rightarrow> bool" where "STATUS_MXR m \<longleftrightarrow> m AND 0x80000 \<noteq> 0"

section \<open>checkPermission\<close>

definition checkPermission :: "arch_state \<Rightarrow> pte \<Rightarrow> bool \<Rightarrow> u64 \<Rightarrow> fetch_type \<Rightarrow> bool" where
  "checkPermission s pte ok vaddr ty =
    (let ifetch = (ty = IFETCH);
         ok = (ok \<and> pte_v pte \<and> \<not> (priv s = MODE_U \<and> \<not> pte_u pte));
         ok = (ok \<and> \<not> (pte_u pte \<and> priv s = MODE_S \<and> (\<not> STATUS_SUM (mstatus s) \<or> ifetch)))
     in case ty of
          IFETCH \<Rightarrow> \<not> (\<not> (ok \<and> pte_x pte \<and> pte_pad pte = 0) \<or> \<not> pte_a pte)
        | LFETCH \<Rightarrow>
            let can_load = (pte_r pte \<or> STATUS_MXR (mstatus s) \<and> pte_x pte)
            in \<not> (\<not> (ok \<and> can_load \<and> pte_pad pte = 0) \<or> \<not> pte_a pte)
        | SFETCH \<Rightarrow> \<not> (\<not> (ok \<and> pte_w pte \<and> pte_pad pte = 0) \<or> (\<not> pte_a pte \<or> \<not> pte_d pte)))"

section \<open>The walk\<close>

definition VPNiSHFT :: "nat \<Rightarrow> nat" where "VPNiSHFT i = 12 + 9 * i"
definition VPNi :: "u64 \<Rightarrow> nat \<Rightarrow> u64" where "VPNi va i = drop_bit (VPNiSHFT i) va AND 0x1ff"
definition PGBASE :: "u64 \<Rightarrow> u64" where "PGBASE pn = push_bit 12 pn"

definition exc_pf :: "fetch_type \<Rightarrow> u64" where
  "exc_pf ty = (case ty of IFETCH \<Rightarrow> EXC_IPF | LFETCH \<Rightarrow> EXC_LPF | SFETCH \<Rightarrow> EXC_SPF)"

text \<open>
  The loop of translateAddr from a level down.  It returns the last value of paddr and, when the
  walk ends at a leaf, its level and entry; None is the return with the page fault set.
\<close>

fun walk :: "'d plat \<Rightarrow> u64 \<Rightarrow> fetch_type \<Rightarrow> nat \<Rightarrow> u64 \<Rightarrow> 'd machine \<Rightarrow>
    (u64 \<times> (nat \<times> pte) option \<times> 'd machine) res" where
  "walk p va ty l paddr c =
    rbind (paddrRead p (paddr + VPNi va l * 8) 8 ty (uninit p) c) (\<lambda>(pte, ok, c').
      if \<not> ok then Inr (paddr, None, c')
      else
        let paddr' = PGBASE (pte_ppn pte) in
        if \<not> pte_v pte \<or> (\<not> pte_r pte \<and> pte_w pte) \<or> pte_pad pte \<noteq> 0 then Inr (paddr', None, c')
        else if pte_r pte \<or> pte_x pte then Inr (paddr', Some (l, pte), c')
        else if pte_a pte \<or> pte_d pte \<or> pte_u pte \<or> pte_pbmt pte \<noteq> 0 \<or> pte_n pte
        then Inr (paddr', None, c')
        else case l of 0 \<Rightarrow> Inr (paddr', None, c') | Suc k \<Rightarrow> walk p va ty k paddr' c')"

declare walk.simps [simp del]

text \<open>What follows the loop: the check of the leaf and the physical address.\<close>

definition leaf_addr :: "arch_state \<Rightarrow> u64 \<Rightarrow> fetch_type \<Rightarrow> nat \<Rightarrow> pte \<Rightarrow> u64 \<Rightarrow> u64 option" where
  "leaf_addr s vaddr ty level pte paddr =
    (if \<not> checkPermission s pte True vaddr ty then None
     else
       let pg_mask = push_bit (VPNiSHFT level) 1 - 1 in
       if level > 0 \<and> paddr AND pg_mask \<noteq> 0 then None
       else Some ((paddr AND NOT pg_mask) OR (vaddr AND pg_mask)))"

text \<open>
  translateAddr with its two reference arguments threaded: the incoming paddr and exception, and
  their values on return.
\<close>

definition translateAddr :: "'d plat \<Rightarrow> u64 \<Rightarrow> fetch_type \<Rightarrow> u64 \<Rightarrow> u64 \<Rightarrow> 'd machine \<Rightarrow>
    (u64 \<times> u64 \<times> 'd machine) res" where
  "translateAddr p vaddr ty paddr exc c =
    (if ty = IFETCH \<and> \<not> ifetch_mmu_state c \<or> ty \<noteq> IFETCH \<and> \<not> data_mmu_state c
     then Inr (vaddr, exc, c)
     else
       let root = push_bit 12 (satp (state c) AND 0xfffffffffff) in
       rbind (walk p vaddr ty 2 root c) (\<lambda>(paddr', r, c').
         case r of
           None \<Rightarrow> Inr (paddr', exc_pf ty, c')
         | Some (level, pte) \<Rightarrow>
             (case leaf_addr (state c') vaddr ty level pte paddr' of
                None \<Rightarrow> Inr (paddr', exc_pf ty, c')
              | Some pa \<Rightarrow> Inr (pa, exc, c'))))"

definition exceptionValid :: "u64 \<Rightarrow> bool" where "exceptionValid e \<longleftrightarrow> e \<noteq> EXC_NONE"

definition updateMMUState :: "'d machine \<Rightarrow> 'd machine" where
  "updateMMUState c =
    (let s = state c; sv39 = (drop_bit 60 (satp s) = 8);
         dpriv = (if mstatus s AND MSTATUS_MPRV \<noteq> 0 then drop_bit 11 (mstatus s AND MSTATUS_MPP) else priv s)
     in c\<lparr> ifetch_mmu_state := sv39 \<and> priv s \<noteq> MODE_M,
           data_mmu_state := sv39 \<and> dpriv \<noteq> MODE_M \<rparr>)"

section \<open>Properties\<close>

lemma translate_off:
  "(if ty = IFETCH then \<not> ifetch_mmu_state c else \<not> data_mmu_state c) \<Longrightarrow>
   translateAddr p va ty pa e c = Inr (va, e, c)"
  by (auto simp: translateAddr_def split: if_splits)

text \<open>The low bits of a translated address are the page offset of the virtual address.\<close>

lemma low_mask: "2 ^ n - 1 = (mask n :: 'a::len word)"
  by (simp add: mask_eq_exp_minus_1)

lemma leaf_addr_offset:
  assumes "leaf_addr s va ty l e pa = Some r"
  shows "take_bit (VPNiSHFT l) r = take_bit (VPNiSHFT l) va"
  using assms
  by (auto simp: leaf_addr_def Let_def low_mask take_bit_eq_mask bit_eq_iff bit_simps split: if_splits)

text \<open>The upper bits are the entry's page number.\<close>

lemma leaf_addr_page:
  assumes "leaf_addr s va ty l e pa = Some r"
  shows "drop_bit (VPNiSHFT l) r = drop_bit (VPNiSHFT l) pa"
proof (rule bit_word_eqI)
  fix n
  have "r = (pa AND NOT (mask (VPNiSHFT l))) OR (va AND mask (VPNiSHFT l))"
    using assms by (simp add: leaf_addr_def Let_def low_mask split: if_splits)
  then have "bit r k \<longleftrightarrow> bit pa k" if "VPNiSHFT l \<le> k" for k
    using that by (auto simp: bit_simps dest: bit_imp_le_length)
  then show "bit (drop_bit (VPNiSHFT l) r) n \<longleftrightarrow> bit (drop_bit (VPNiSHFT l) pa) n"
    by (simp add: bit_simps)
qed

lemma leaf_addr_perm: "leaf_addr s va ty l e pa = Some r \<Longrightarrow> checkPermission s e True va ty"
  by (simp add: leaf_addr_def split: if_splits)

lemma leaf_addr_aligned:
  "leaf_addr s va ty l e pa = Some r \<Longrightarrow> 0 < l \<Longrightarrow> take_bit (VPNiSHFT l) pa = 0"
  by (simp add: leaf_addr_def Let_def low_mask take_bit_eq_mask split: if_splits)

lemma walk_leaf:
  "walk p va ty l pa c = Inr (pa', Some (l', e), c') \<Longrightarrow>
   l' \<le> l \<and> pa' = PGBASE (pte_ppn e) \<and> pte_v e \<and> (pte_r e \<or> pte_x e) \<and> (pte_w e \<longrightarrow> pte_r e) \<and> pte_pad e = 0"
proof (induction p va ty l pa c rule: walk.induct)
  case (1 p va ty l pa c)
  show ?case
    using 1(2) 1(1)
    by (subst (asm) walk.simps)
      (auto simp: rbind_eq_Inr Let_def split: if_splits nat.splits; fastforce)
qed

text \<open>
  A permission table: what an entry must allow for each kind of access, from the privileged
  specification.
\<close>

definition access_allowed :: "arch_state \<Rightarrow> pte \<Rightarrow> fetch_type \<Rightarrow> bool" where
  "access_allowed s e ty \<longleftrightarrow>
     pte_v e \<and> pte_pad e = 0 \<and> pte_a e \<and>
     (priv s = MODE_U \<longrightarrow> pte_u e) \<and>
     (priv s = MODE_S \<and> pte_u e \<longrightarrow> ty \<noteq> IFETCH \<and> STATUS_SUM (mstatus s)) \<and>
     (ty = IFETCH \<longrightarrow> pte_x e) \<and>
     (ty = LFETCH \<longrightarrow> pte_r e \<or> pte_x e \<and> STATUS_MXR (mstatus s)) \<and>
     (ty = SFETCH \<longrightarrow> pte_w e \<and> pte_d e)"

lemma checkPermission_allowed: "checkPermission s e True va ty \<longleftrightarrow> access_allowed s e ty"
  by (cases ty) (auto simp: checkPermission_def access_allowed_def Let_def)

end
