(* ===== verification/Bitfield.thy ===== *)
theory Bitfield
  imports Prelude
begin

text \<open>
  The bit-field helpers the decoders call: extract32, sextract32 and deposit32 of
  thirdparty/softfloat/inc/qemu/bitops.h and the ex_ functions of
  src/src/arch/riscv/interpreter.cpp.  The asserts of the former hold at every call, since start
  and length are literals there.
\<close>

definition extract32 :: "u32 \<Rightarrow> nat \<Rightarrow> nat \<Rightarrow> u32" where
  "extract32 value start len = drop_bit start value AND drop_bit (32 - len) (NOT 0)"

definition sextract32 :: "u32 \<Rightarrow> nat \<Rightarrow> nat \<Rightarrow> u32" where
  "sextract32 value start len = signed_drop_bit (32 - len) (push_bit (32 - len - start) value)"

definition deposit32 :: "u32 \<Rightarrow> nat \<Rightarrow> nat \<Rightarrow> u32 \<Rightarrow> u32" where
  "deposit32 value start len fieldval =
     (let msk = push_bit start (drop_bit (32 - len) (NOT 0))
      in (value AND NOT msk) OR (push_bit start fieldval AND msk))"

definition ex_plus_1 :: "u32 \<Rightarrow> u32" where "ex_plus_1 nf = nf + 1"

definition ex_shift_1 :: "u32 \<Rightarrow> u32" where "ex_shift_1 imm = push_bit 1 imm"
definition ex_shift_2 :: "u32 \<Rightarrow> u32" where "ex_shift_2 imm = push_bit 2 imm"
definition ex_shift_3 :: "u32 \<Rightarrow> u32" where "ex_shift_3 imm = push_bit 3 imm"
definition ex_shift_4 :: "u32 \<Rightarrow> u32" where "ex_shift_4 imm = push_bit 4 imm"
definition ex_shift_12 :: "u32 \<Rightarrow> u32" where "ex_shift_12 imm = push_bit 12 imm"

definition ex_rvc_register :: "u32 \<Rightarrow> u32" where "ex_rvc_register r = r + 8"

definition ex_sreg_register :: "u32 \<Rightarrow> u32" where
  "ex_sreg_register r = r + push_bit (of_bool (sint r < 2)) 8"

definition ex_rvc_shiftli :: "u32 \<Rightarrow> u32" where "ex_rvc_shiftli imm = imm"
definition ex_rvc_shiftri :: "u32 \<Rightarrow> u32" where "ex_rvc_shiftri imm = imm"

lemma bit_extract32:
  "len \<le> 32 \<Longrightarrow> bit (extract32 v s len) n \<longleftrightarrow> n < len \<and> bit v (s + n)"
  by (auto simp: extract32_def bit_simps)

lemma bit_sextract32:
  "0 < len \<Longrightarrow> len + s \<le> 32 \<Longrightarrow>
   bit (sextract32 v s len) n \<longleftrightarrow> n < 32 \<and> bit v (s + min n (len - 1))"
  by (auto simp: sextract32_def bit_simps min_def add.commute)

lemma bit_deposit32:
  "s + len \<le> 32 \<Longrightarrow>
   bit (deposit32 v s len f) n \<longleftrightarrow> (if s \<le> n \<and> n < s + len then bit f (n - s) else bit v n)"
  by (auto simp: deposit32_def Let_def bit_simps dest: bit_imp_le_length)

lemma extract32_eq: "len \<le> 32 \<Longrightarrow> extract32 v s len = take_bit len (drop_bit s v)"
  by (rule bit_word_eqI) (auto simp: bit_simps bit_extract32)

lemma unat_extract32_less: "len \<le> 32 \<Longrightarrow> unat (extract32 v s len) < 2 ^ len"
  by (simp add: extract32_eq unsigned_take_bit_eq)

lemma reg5_lt [simp]: "extract32 v s 5 < 32"
  using unat_extract32_less [of 5 v s] by (simp add: word_less_nat_alt)

lemma reg3_rvc [simp]: "ex_rvc_register (extract32 v s 3) < 16" "8 \<le> ex_rvc_register (extract32 v s 3)"
  using unat_extract32_less [of 3 v s]
  by (auto simp: ex_rvc_register_def word_less_nat_alt word_le_nat_alt unat_word_ariths)

end
