(* ===== verification/Decode_Types.thy ===== *)
theory Decode_Types
  imports Bitfield
begin

text \<open>
  The argument structs of the decoded instructions (src/inc/arch/riscv/trans_rv32.h) and the
  decoder's result.  A decoder tries trans functions in order; its result here is that list of
  calls, each a trans function (a constructor O_...) with its argument struct.  The trans functions
  whose body is __NOT_IMPLEMENTED_EXIT__ ignore their argument and are one constructor, Stub, that
  carries their name.
\<close>

record arg_atomic =
  at_aq :: u32
  at_rl :: u32
  at_rs2 :: u32
  at_rs1 :: u32
  at_rd :: u32

record arg_b =
  b_imm :: u32
  b_rs2 :: u32
  b_rs1 :: u32

record arg_decode_insn3218 =
  cs_csr :: u32
  cs_rs1 :: u32
  cs_rd :: u32

record arg_decode_insn3219 =
  f4_rs3 :: u32
  f4_rs2 :: u32
  f4_rs1 :: u32
  f4_rm :: u32
  f4_rd :: u32

record arg_decode_insn3220 =
  f3_rs2 :: u32
  f3_rs1 :: u32
  f3_rm :: u32
  f3_rd :: u32

record arg_decode_insn3221 =
  f2_rs1 :: u32
  f2_rm :: u32
  f2_rd :: u32

record arg_decode_insn3227 =
  fe_pred :: u32
  fe_succ :: u32

record arg_i =
  i_imm :: u32
  i_rs1 :: u32
  i_rd :: u32

record arg_j =
  j_imm :: u32
  j_rd :: u32

record arg_r =
  r_rd :: u32
  r_rs1 :: u32
  r_rs2 :: u32

record arg_r2 =
  r2_rd :: u32
  r2_rs1 :: u32

record arg_r2_s =
  r2s_rs1 :: u32
  r2s_rs2 :: u32

record arg_s =
  s_imm :: u32
  s_rs1 :: u32
  s_rs2 :: u32

record arg_shift =
  sh_shamt :: u32
  sh_rs1 :: u32
  sh_rd :: u32

record arg_u =
  u_imm :: u32
  u_rd :: u32

datatype op_r = O_add | O_sub | O_addw | O_subw | O_and | O_or | O_xor | O_sll | O_srl | O_sra | O_sllw | O_srlw | O_sraw | O_slt | O_sltu | O_mul | O_mulh | O_mulhu | O_mulw | O_div | O_divu | O_divw | O_divuw | O_rem | O_remu | O_remw | O_remuw

datatype op_rb = O_add_uw | O_andn | O_orn | O_xnor | O_bclr | O_bext | O_binv | O_bset | O_max | O_maxu | O_min | O_minu | O_pack | O_packh | O_packw | O_rol | O_rolw | O_ror | O_rorw | O_sh1add | O_sh1add_uw | O_sh2add | O_sh2add_uw | O_sh3add | O_sh3add_uw

datatype op_fr = O_feq_d | O_fle_d | O_fle_s | O_flt_d | O_flt_s | O_fmin_d | O_fsgnj_d | O_fsgnj_s | O_fsgnjn_d | O_fsgnjn_s | O_fsgnjx_d | O_fsgnjx_s

datatype op_i = O_addi | O_addiw | O_andi | O_ori | O_xori | O_slti | O_sltiu | O_jalr | O_lb | O_lbu | O_lh | O_lhu | O_lw | O_lwu | O_ld | O_lq | O_flw | O_fld | O_c_fld

datatype op_atomic = O_lr_w | O_lr_d | O_sc_w | O_sc_d | O_amoadd_w | O_amoadd_d | O_amoand_w | O_amoand_d | O_amoor_w | O_amoor_d | O_amoxor_w | O_amoxor_d | O_amomax_w | O_amomax_d | O_amomaxu_w | O_amomaxu_d | O_amomin_w | O_amomin_d | O_amominu_w | O_amominu_d | O_amoswap_w | O_amoswap_d

datatype op_u = O_lui | O_auipc

datatype op_shift = O_slli | O_srli | O_srai | O_slliw | O_srliw | O_sraiw | O_slli_uw | O_bclri | O_bexti | O_binvi | O_bseti | O_rori | O_roriw

datatype op_b = O_beq | O_bne | O_blt | O_bge | O_bltu | O_bgeu

datatype op_r2 = O_brev8 | O_clz | O_clzw | O_ctz | O_ctzw | O_orc_b | O_rev8_32 | O_rev8_64 | O_sext_b | O_sext_h | O_zext_h_64 | O_fmv_d_x | O_fmv_w_x | O_fmv_x_d | O_fmv_x_w

datatype op_s = O_sb | O_sh | O_sw | O_sd | O_sq | O_fsw | O_fsd | O_c_fsd

datatype op_csr = O_csrrc | O_csrrci | O_csrrs | O_csrrsi | O_csrrw | O_csrrwi

datatype op_empty = O_ebreak | O_ecall | O_fence_i | O_mret | O_pause | O_sret | O_wfi

datatype op_f3 = O_fadd_d | O_fadd_s | O_fsub_d | O_fsub_s | O_fmul_d | O_fmul_s | O_fdiv_d | O_fdiv_s

datatype op_f2 = O_fcvt_d_l | O_fcvt_d_lu | O_fcvt_d_s | O_fcvt_d_w | O_fcvt_d_wu | O_fcvt_l_d | O_fcvt_l_s | O_fcvt_lu_d | O_fcvt_lu_s | O_fcvt_s_d | O_fcvt_s_l | O_fcvt_s_lu | O_fcvt_s_w | O_fcvt_s_wu | O_fcvt_w_d | O_fcvt_w_s | O_fcvt_wu_d

datatype insn =
    R op_r arg_r
  | Rb op_rb arg_r
  | Fr op_fr arg_r
  | I op_i arg_i
  | A op_atomic arg_atomic
  | U op_u arg_u
  | Sh op_shift arg_shift
  | B op_b arg_b
  | R2 op_r2 arg_r2
  | S op_s arg_s
  | Csr op_csr arg_decode_insn3218
  | E op_empty
  | F3 op_f3 arg_decode_insn3220
  | F2 op_f2 arg_decode_insn3221
  | Fence arg_decode_insn3227
  | Fmadd_d arg_decode_insn3219
  | Jal arg_j
  | Sfence_vma arg_r2_s
  | Stub string

end
