(* ===== verification/Interp.thy ===== *)
theory Interp
  imports Mmu Decode_Types
begin

text \<open>
  The helpers of src/src/arch/riscv/interpreter.cpp that all trans functions use: register reads,
  loads and stores, and the macros that record sources, destination and result in DecodeInfo.
\<close>

section \<open>Updates of DecodeInfo\<close>

definition upd_info :: "(decode_info \<Rightarrow> decode_info) \<Rightarrow> 'd machine \<Rightarrow> 'd machine" where
  "upd_info f c = c\<lparr> info := f (info c) \<rparr>"

definition upd_state :: "(arch_state \<Rightarrow> arch_state) \<Rightarrow> 'd machine \<Rightarrow> 'd machine" where
  "upd_state f c = c\<lparr> state := f (state c) \<rparr>"

definition set_exception :: "u64 \<Rightarrow> 'd machine \<Rightarrow> 'd machine" where
  "set_exception e = upd_info (\<lambda>i. i\<lparr> exception := e \<rparr>)"

definition set_exc_data :: "u64 \<Rightarrow> 'd machine \<Rightarrow> 'd machine" where
  "set_exc_data d = upd_info (\<lambda>i. i\<lparr> exc_data := d \<rparr>)"

definition set_dst_idx :: "nat \<Rightarrow> u16 \<Rightarrow> 'd machine \<Rightarrow> 'd machine" where
  "set_dst_idx k v = upd_info (\<lambda>i. i\<lparr> dst_idx := (dst_idx i)(k := v) \<rparr>)"

definition set_dst_mask :: "nat \<Rightarrow> u64 \<Rightarrow> 'd machine \<Rightarrow> 'd machine" where
  "set_dst_mask k v = upd_info (\<lambda>i. i\<lparr> dst_mask := (dst_mask i)(k := v) \<rparr>)"

definition set_dst_data :: "nat \<Rightarrow> u64 \<Rightarrow> 'd machine \<Rightarrow> 'd machine" where
  "set_dst_data k v = upd_info (\<lambda>i. i\<lparr> dst_data := (dst_data i)(k := v) \<rparr>)"

definition set_dst :: "nat \<Rightarrow> u16 \<Rightarrow> u64 \<Rightarrow> u64 \<Rightarrow> 'd machine \<Rightarrow> 'd machine" where
  "set_dst k idx m d c = set_dst_data k d (set_dst_mask k m (set_dst_idx k idx c))"

definition set_src :: "nat \<Rightarrow> u32 \<Rightarrow> 'd machine \<Rightarrow> 'd machine" where
  "set_src k r = upd_info (\<lambda>i. i\<lparr> src_reg := (src_reg i)(k := ucast r) \<rparr>)"

definition set_dst_reg :: "u32 \<Rightarrow> 'd machine \<Rightarrow> 'd machine" where
  "set_dst_reg r = upd_info (\<lambda>i. i\<lparr> dst_reg := ucast r \<rparr>)"

definition set_type :: "inst_type \<Rightarrow> 'd machine \<Rightarrow> 'd machine" where
  "set_type t = upd_info (\<lambda>i. i\<lparr> itype := t \<rparr>)"

lemmas info_defs = upd_info_def upd_state_def set_exception_def set_exc_data_def set_dst_idx_def set_dst_mask_def
  set_dst_data_def set_dst_def set_src_def set_dst_reg_def set_type_def

section \<open>The SET_ macros\<close>

text \<open>An int converted to uint64_t: sign extension.\<close>

definition sx :: "u32 \<Rightarrow> u64" where "sx v = scast v"

definition SET_GPR_64 :: "u32 \<Rightarrow> u64 \<Rightarrow> 'd machine \<Rightarrow> 'd machine" where
  "SET_GPR_64 rd dest = set_dst 0 (ucast (rd * 8)) all1 dest"

definition SET_GPR_32 :: "u32 \<Rightarrow> u64 \<Rightarrow> 'd machine \<Rightarrow> 'd machine" where
  "SET_GPR_32 rd dest = set_dst 0 (ucast (rd * 8)) all1 (sx (ucast dest))"

definition SET_FPR_64 :: "u32 \<Rightarrow> u64 \<Rightarrow> 'd machine \<Rightarrow> 'd machine" where
  "SET_FPR_64 rd dest = set_dst 0 (ucast (rd * 8 + of_nat ARCH_FPR)) all1 dest"

definition SET_SRC2 :: "u32 \<Rightarrow> u32 \<Rightarrow> 'd machine \<Rightarrow> 'd machine" where
  "SET_SRC2 rs1 rs2 c = set_src 1 rs2 (set_src 0 rs1 c)"

definition SET_SRC0_DST :: "u32 \<Rightarrow> 'd machine \<Rightarrow> 'd machine" where
  "SET_SRC0_DST rd = set_dst_reg rd"

definition SET_SRC1_DST :: "u32 \<Rightarrow> u32 \<Rightarrow> 'd machine \<Rightarrow> 'd machine" where
  "SET_SRC1_DST rs1 rd c = set_dst_reg rd (set_src 0 rs1 c)"

definition SET_SRC2_DST :: "u32 \<Rightarrow> u32 \<Rightarrow> u32 \<Rightarrow> 'd machine \<Rightarrow> 'd machine" where
  "SET_SRC2_DST rs1 rs2 rd c = set_dst_reg rd (set_src 1 rs2 (set_src 0 rs1 c))"

definition SET_SRC2_DST_ADDR :: "u32 \<Rightarrow> u32 \<Rightarrow> u32 \<Rightarrow> 'd machine \<Rightarrow> 'd machine" where
  "SET_SRC2_DST_ADDR rs1 rs2 rd c = set_dst_reg rd (set_src 1 rs2 (set_src 0 rs1 c))"

definition SET_SRC1_DSTF :: "u32 \<Rightarrow> u32 \<Rightarrow> 'd machine \<Rightarrow> 'd machine" where
  "SET_SRC1_DSTF rs1 rd c = set_dst_reg (rd OR DSTF_REG_MASK) (set_src 0 rs1 c)"

definition SET_SRC1F_DST :: "u32 \<Rightarrow> u32 \<Rightarrow> 'd machine \<Rightarrow> 'd machine" where
  "SET_SRC1F_DST rs1 rd c = set_dst_reg rd (set_src 0 (rs1 OR DSTF_REG_MASK) c)"

definition SET_SRC1F_DSTF :: "u32 \<Rightarrow> u32 \<Rightarrow> 'd machine \<Rightarrow> 'd machine" where
  "SET_SRC1F_DSTF rs1 rd c = set_dst_reg (rd OR DSTF_REG_MASK) (set_src 0 (rs1 OR DSTF_REG_MASK) c)"

definition SET_SRC2F_DSTF :: "u32 \<Rightarrow> u32 \<Rightarrow> u32 \<Rightarrow> 'd machine \<Rightarrow> 'd machine" where
  "SET_SRC2F_DSTF rs1 rs2 rd c = set_dst_reg (rd OR DSTF_REG_MASK)
     (set_src 1 (rs2 OR DSTF_REG_MASK) (set_src 0 (rs1 OR DSTF_REG_MASK) c))"

definition SET_SRC2F_DST :: "u32 \<Rightarrow> u32 \<Rightarrow> u32 \<Rightarrow> 'd machine \<Rightarrow> 'd machine" where
  "SET_SRC2F_DST rs1 rs2 rd c = set_dst_reg rd
     (set_src 1 (rs2 OR DSTF_REG_MASK) (set_src 0 (rs1 OR DSTF_REG_MASK) c))"

definition SET_SRC3F_DSTF :: "u32 \<Rightarrow> u32 \<Rightarrow> u32 \<Rightarrow> u32 \<Rightarrow> 'd machine \<Rightarrow> 'd machine" where
  "SET_SRC3F_DSTF rs1 rs2 rs3 rd c = set_dst_reg (rd OR DSTF_REG_MASK)
     (set_src 2 (rs3 OR DSTF_REG_MASK) (set_src 1 (rs2 OR DSTF_REG_MASK) (set_src 0 (rs1 OR DSTF_REG_MASK) c)))"

definition SET_SRC1_DSTF_ADDR :: "u32 \<Rightarrow> u32 \<Rightarrow> 'd machine \<Rightarrow> 'd machine" where
  "SET_SRC1_DSTF_ADDR rs1 rd c = set_dst_reg (rd OR DSTF_REG_MASK) (set_src 0 rs1 c)"

definition SET_SRC1_SRC2F_ADDR :: "u32 \<Rightarrow> u32 \<Rightarrow> 'd machine \<Rightarrow> 'd machine" where
  "SET_SRC1_SRC2F_ADDR rs1 rs2 c = set_src 1 (rs2 OR DSTF_REG_MASK) (set_src 0 rs1 c)"

definition SET_SRC1_DST_ADDR :: "u32 \<Rightarrow> u32 \<Rightarrow> 'd machine \<Rightarrow> 'd machine" where
  "SET_SRC1_DST_ADDR rs1 rd c = set_dst_reg rd (set_src 0 rs1 c)"

definition SET_SRC1_SRC2_ADDR :: "u32 \<Rightarrow> u32 \<Rightarrow> 'd machine \<Rightarrow> 'd machine" where
  "SET_SRC1_SRC2_ADDR rs1 rs2 c = set_src 1 rs2 (set_src 0 rs1 c)"

lemmas macro_defs = SET_GPR_64_def SET_GPR_32_def SET_FPR_64_def SET_SRC2_def SET_SRC0_DST_def
  SET_SRC1_DST_def SET_SRC2_DST_def SET_SRC2_DST_ADDR_def SET_SRC1_DSTF_def SET_SRC1F_DST_def
  SET_SRC1F_DSTF_def SET_SRC2F_DSTF_def SET_SRC2F_DST_def SET_SRC3F_DSTF_def SET_SRC1_DSTF_ADDR_def
  SET_SRC1_SRC2F_ADDR_def SET_SRC1_DST_ADDR_def SET_SRC1_SRC2_ADDR_def

section \<open>Registers and addresses\<close>

definition get_gpr_64 :: "'d machine \<Rightarrow> u32 \<Rightarrow> u64" where
  "get_gpr_64 c r = gpr (state c) (unat r)"

text \<open>All calls pass EXT_NONE, for which get_gpr_32 returns the whole register.\<close>

datatype DisasExtend = EXT_NONE | EXT_SIGN | EXT_ZERO

definition get_gpr_32 :: "'d machine \<Rightarrow> u32 \<Rightarrow> DisasExtend \<Rightarrow> u64" where
  "get_gpr_32 c r ext = (case ext of
      EXT_NONE \<Rightarrow> gpr (state c) (unat r)
    | EXT_SIGN \<Rightarrow> sx (ucast (gpr (state c) (unat r)))
    | EXT_ZERO \<Rightarrow> ucast (ucast (gpr (state c) (unat r)) :: u32))"

definition get_fpr_64 :: "'d machine \<Rightarrow> u32 \<Rightarrow> u64" where
  "get_fpr_64 c r = fpr (state c) (unat r)"

definition get_address :: "'d machine \<Rightarrow> u32 \<Rightarrow> u32 \<Rightarrow> u64" where
  "get_address c rs1 imm = get_gpr_64 c rs1 + sx imm"

definition gen_pc_plus_diff :: "'d machine \<Rightarrow> u64 \<Rightarrow> u64" where
  "gen_pc_plus_diff c diff = env_pc c + diff"

section \<open>Loads and stores\<close>

text \<open>
  The part ld_b, ld_h, ld_w and ld_d share after their alignment test: n bytes are read, the size is
  left in dst_idx[2], and 0 is the value of a faulting load.
\<close>

definition ld_n :: "'d plat \<Rightarrow> nat \<Rightarrow> u64 \<Rightarrow> 'd machine \<Rightarrow> (u64 \<times> 'd machine) res" where
  "ld_n p n va c =
     rbind (translateAddr p va LFETCH (uninit p) EXC_NONE c) (\<lambda>(ha, e, c1).
       if exceptionValid e then Inr (0, set_exception EXC_LPF c1)
       else rbind (paddrRead p ha (of_nat n) LFETCH (uninit p) c1) (\<lambda>(v, ok, c2).
              Inr (take_bit (8 * n) v, set_dst_idx 2 (of_nat n) c2)))"

definition ld_b :: "'d plat \<Rightarrow> u64 \<Rightarrow> 'd machine \<Rightarrow> (u64 \<times> 'd machine) res" where
  "ld_b p va c = rbind (ld_n p 1 va c) (\<lambda>(v, c'). Inr (scast (ucast v :: u8), c'))"

definition ld_h :: "'d plat \<Rightarrow> u64 \<Rightarrow> 'd machine \<Rightarrow> (u64 \<times> 'd machine) res" where
  "ld_h p va c =
    (if va AND 0x1 \<noteq> 0 then Inr (0, set_exception EXC_LAM c)
     else rbind (ld_n p 2 va c) (\<lambda>(v, c'). Inr (scast (ucast v :: u16), c')))"

definition ld_w :: "'d plat \<Rightarrow> u64 \<Rightarrow> 'd machine \<Rightarrow> (u64 \<times> 'd machine) res" where
  "ld_w p va c =
    (if va AND 0x3 \<noteq> 0 then Inr (0, set_exception EXC_LAM c)
     else rbind (ld_n p 4 va c) (\<lambda>(v, c'). Inr (scast (ucast v :: u32), c')))"

definition ld_d :: "'d plat \<Rightarrow> u64 \<Rightarrow> 'd machine \<Rightarrow> (u64 \<times> 'd machine) res" where
  "ld_d p va c =
    (if va AND 0x7 \<noteq> 0 then Inr (0, set_exception EXC_LAM c) else ld_n p 8 va c)"

text \<open>
  The stores only translate: the physical address and the size go to dst_data[2] and dst_idx[2], the
  write itself happens when the instruction commits.
\<close>

definition st_n :: "'d plat \<Rightarrow> nat \<Rightarrow> u64 \<Rightarrow> 'd machine \<Rightarrow> (bool \<times> 'd machine) res" where
  "st_n p n va c =
     rbind (translateAddr p va SFETCH (uninit p) EXC_NONE c) (\<lambda>(ha, e, c1).
       if exceptionValid e then Inr (False, set_exception EXC_SPF c1)
       else Inr (True, set_dst_data 2 ha (set_dst_idx 2 (of_nat n) c1)))"

definition st_b :: "'d plat \<Rightarrow> u64 \<Rightarrow> 'd machine \<Rightarrow> (bool \<times> 'd machine) res" where
  "st_b p va c = st_n p 1 va c"

definition st_h :: "'d plat \<Rightarrow> u64 \<Rightarrow> 'd machine \<Rightarrow> (bool \<times> 'd machine) res" where
  "st_h p va c = (if va AND 0x1 \<noteq> 0 then Inr (False, set_exception EXC_SAM c) else st_n p 2 va c)"

definition st_w :: "'d plat \<Rightarrow> u64 \<Rightarrow> 'd machine \<Rightarrow> (bool \<times> 'd machine) res" where
  "st_w p va c = (if va AND 0x3 \<noteq> 0 then Inr (False, set_exception EXC_SAM c) else st_n p 4 va c)"

definition st_d :: "'d plat \<Rightarrow> u64 \<Rightarrow> 'd machine \<Rightarrow> (bool \<times> 'd machine) res" where
  "st_d p va c = (if va AND 0x7 \<noteq> 0 then Inr (False, set_exception EXC_SAM c) else st_n p 8 va c)"

text \<open>REQUIRE_FPU: the macro returns from the trans function when the FPU is off.\<close>

definition REQUIRE_FPU :: "'d machine \<Rightarrow> ('d machine \<Rightarrow> (bool \<times> 'd machine) res) \<Rightarrow> (bool \<times> 'd machine) res"
  where
  "REQUIRE_FPU c k =
    (if mstatus (state c) AND MSTATUS_FS = 0 then Inr (True, set_exception EXC_II c)
     else k (upd_state (\<lambda>s. s\<lparr> mstatus := mstatus s OR MSTATUS_FS \<rparr>) c))"

definition check_nanbox_s :: "u64 \<Rightarrow> u64" where
  "check_nanbox_s f = (let m = 0xffffffff00000000
     in if f AND m = m then ucast (ucast f :: u32) else 0x7fc00000)"

definition nanbox_s :: "u64 \<Rightarrow> u64" where "nanbox_s f = f OR 0xffffffff00000000"

definition setrm :: "u32 \<Rightarrow> 'd machine \<Rightarrow> 'd machine" where
  "setrm rm = upd_state (\<lambda>s. s\<lparr> fp_status := (fp_status s)\<lparr> fs_round := ucast rm \<rparr> \<rparr>)"

text \<open>A softfloat call on the machine's fp_status.\<close>

definition sf_call :: "'d plat \<Rightarrow> sf_fun \<Rightarrow> u64 list \<Rightarrow> 'd machine \<Rightarrow> u64 \<times> 'd machine" where
  "sf_call p f xs c = (let (v, st) = softfloat p f xs (fp_status (state c))
     in (v, upd_state (\<lambda>s. s\<lparr> fp_status := st \<rparr>) c))"

end
