(* ===== verification/Exec_Alu.thy ===== *)
theory Exec_Alu
  imports Interp "HOL-Library.Signed_Division"
begin

text \<open>
  The integer, bit-manipulation and branch instructions of src/src/arch/riscv/interpreter.cpp, one
  definition per trans_ function.  Signed 64-bit additions wrap; a shift count the C code leaves
  undefined and a division the host traps on are error results.
\<close>

type_synonym 'd trans = "'d machine \<Rightarrow> (bool \<times> 'd machine) res"

definition zx32 :: "u64 \<Rightarrow> u64" where "zx32 v = ucast (ucast v :: u32)"

text \<open>The quotient that does not fit: the host's division traps on it.\<close>

definition div_overflow :: "'a::len word \<Rightarrow> 'a word \<Rightarrow> bool" where
  "div_overflow x y \<longleftrightarrow> x = push_bit (LENGTH('a) - 1) 1 \<and> y = - 1"

definition countl_zero :: "'a::len word \<Rightarrow> nat" where
  "countl_zero w = length (takeWhile (\<lambda>i. \<not> bit w i) (rev [0..<LENGTH('a)]))"

definition countr_zero :: "'a::len word \<Rightarrow> nat" where
  "countr_zero w = length (takeWhile (\<lambda>i. \<not> bit w i) [0..<LENGTH('a)])"

definition byte_of :: "u64 \<Rightarrow> nat \<Rightarrow> u64" where "byte_of v i = drop_bit (i * 8) v AND 0xFF"

definition bswap64 :: "u64 \<Rightarrow> u64" where
  "bswap64 v = foldl (\<lambda>d i. d OR push_bit ((7 - i) * 8) (byte_of v i)) 0 [0..<8]"

definition bswap32 :: "u64 \<Rightarrow> u64" where
  "bswap32 v = foldl (\<lambda>d i. d OR push_bit ((3 - i) * 8) (byte_of v i)) 0 [0..<4]"

definition trans_slli_uw :: "arg_shift \<Rightarrow> 'd trans" where
  "trans_slli_uw a c =
    (let src1 = get_gpr_64 c (sh_rs1 a) in
     if 32 \<le> unat (sh_shamt a) then Inl (Undefined ''shift count'') else
     let dest = ucast (push_bit (unat (sh_shamt a)) (ucast src1 :: u32)) in
     let c = SET_GPR_64 (sh_rd a) dest c in
     let c = SET_SRC1_DST (sh_rs1 a) (sh_rd a) c in
     let c = set_type T_INT c in
     Inr (True, c))"

definition trans_addi :: "arg_i \<Rightarrow> 'd trans" where
  "trans_addi a c =
    (let src1 = get_gpr_64 c (i_rs1 a) in
     let dest = src1 + sx (i_imm a) in
     let c = SET_GPR_64 (i_rd a) dest c in
     let c = SET_SRC1_DST (i_rs1 a) (i_rd a) c in
     let c = set_type T_INT c in
     Inr (True, c))"

definition trans_addiw :: "arg_i \<Rightarrow> 'd trans" where
  "trans_addiw a c =
    (let src1 = get_gpr_32 c (i_rs1 a) EXT_NONE in
     let dest = src1 + sx (i_imm a) in
     let c = SET_GPR_32 (i_rd a) dest c in
     let c = SET_SRC1_DST (i_rs1 a) (i_rd a) c in
     let c = set_type T_INT c in
     Inr (True, c))"

definition trans_addw :: "arg_r \<Rightarrow> 'd trans" where
  "trans_addw a c =
    (let src1 = get_gpr_32 c (r_rs1 a) EXT_NONE in
     let src2 = get_gpr_32 c (r_rs2 a) EXT_NONE in
     let dest = sx (ucast src1 + ucast src2) in
     let c = SET_GPR_32 (r_rd a) dest c in
     let c = SET_SRC2_DST (r_rs1 a) (r_rs2 a) (r_rd a) c in
     let c = set_type T_INT c in
     Inr (True, c))"

definition trans_subw :: "arg_r \<Rightarrow> 'd trans" where
  "trans_subw a c =
    (let src1 = get_gpr_32 c (r_rs1 a) EXT_NONE in
     let src2 = get_gpr_32 c (r_rs2 a) EXT_NONE in
     let dest = sx (ucast src1 - ucast src2) in
     let c = SET_GPR_32 (r_rd a) dest c in
     let c = SET_SRC2_DST (r_rs1 a) (r_rs2 a) (r_rd a) c in
     let c = set_type T_INT c in
     Inr (True, c))"

definition trans_slliw :: "arg_shift \<Rightarrow> 'd trans" where
  "trans_slliw a c =
    (let src1 = get_gpr_32 c (sh_rs1 a) EXT_NONE in
     if 64 \<le> unat (sh_shamt a) then Inl (Undefined ''shift count'') else
     let dest = push_bit (unat (sh_shamt a)) src1 in
     let c = SET_GPR_32 (sh_rd a) dest c in
     let c = SET_SRC1_DST (sh_rs1 a) (sh_rd a) c in
     let c = set_type T_INT c in
     Inr (True, c))"

definition trans_sllw :: "arg_r \<Rightarrow> 'd trans" where
  "trans_sllw a c =
    (let src1 = get_gpr_32 c (r_rs1 a) EXT_NONE in
     let src2 = get_gpr_32 c (r_rs2 a) EXT_NONE in
     let dest = push_bit (unat (src2 AND 0x1f)) src1 in
     let c = SET_GPR_32 (r_rd a) dest c in
     let c = SET_SRC2_DST (r_rs1 a) (r_rs2 a) (r_rd a) c in
     let c = set_type T_INT c in
     Inr (True, c))"

definition trans_srliw :: "arg_shift \<Rightarrow> 'd trans" where
  "trans_srliw a c =
    (let src1 = get_gpr_32 c (sh_rs1 a) EXT_NONE in
     if 32 \<le> unat (sh_shamt a) then Inl (Undefined ''shift count'') else
     let dest = ucast (drop_bit (unat (sh_shamt a)) (ucast src1 :: u32)) in
     let c = SET_GPR_32 (sh_rd a) dest c in
     let c = SET_SRC1_DST (sh_rs1 a) (sh_rd a) c in
     let c = set_type T_INT c in
     Inr (True, c))"

definition trans_srlw :: "arg_r \<Rightarrow> 'd trans" where
  "trans_srlw a c =
    (let src1 = get_gpr_32 c (r_rs1 a) EXT_NONE in
     let src2 = get_gpr_32 c (r_rs2 a) EXT_NONE in
     let dest = ucast (drop_bit (unat (src2 AND 0x1f)) (ucast src1 :: u32)) in
     let c = SET_GPR_32 (r_rd a) dest c in
     let c = SET_SRC2_DST (r_rs1 a) (r_rs2 a) (r_rd a) c in
     let c = set_type T_INT c in
     Inr (True, c))"

definition trans_sraiw :: "arg_shift \<Rightarrow> 'd trans" where
  "trans_sraiw a c =
    (let src1 = get_gpr_32 c (sh_rs1 a) EXT_NONE in
     if 32 \<le> unat (sh_shamt a) then Inl (Undefined ''shift count'') else
     let dest = sx (signed_drop_bit (unat (sh_shamt a)) (ucast src1 :: u32)) in
     let c = SET_GPR_32 (sh_rd a) dest c in
     let c = SET_SRC1_DST (sh_rs1 a) (sh_rd a) c in
     let c = set_type T_INT c in
     Inr (True, c))"

definition trans_sraw :: "arg_r \<Rightarrow> 'd trans" where
  "trans_sraw a c =
    (let src1 = get_gpr_32 c (r_rs1 a) EXT_NONE in
     let src2 = get_gpr_32 c (r_rs2 a) EXT_NONE in
     let dest = sx (signed_drop_bit (unat (src2 AND 0x1f)) (ucast src1 :: u32)) in
     let c = SET_GPR_32 (r_rd a) dest c in
     let c = SET_SRC2_DST (r_rs1 a) (r_rs2 a) (r_rd a) c in
     let c = set_type T_INT c in
     Inr (True, c))"

definition trans_add :: "arg_r \<Rightarrow> 'd trans" where
  "trans_add a c =
    (let src1 = get_gpr_64 c (r_rs1 a) in
     let src2 = get_gpr_64 c (r_rs2 a) in
     let dest = src1 + src2 in
     let c = SET_GPR_64 (r_rd a) dest c in
     let c = SET_SRC2_DST (r_rs1 a) (r_rs2 a) (r_rd a) c in
     let c = set_type T_INT c in
     Inr (True, c))"

definition trans_sub :: "arg_r \<Rightarrow> 'd trans" where
  "trans_sub a c =
    (let src1 = get_gpr_64 c (r_rs1 a) in
     let src2 = get_gpr_64 c (r_rs2 a) in
     let dest = src1 - src2 in
     let c = SET_GPR_64 (r_rd a) dest c in
     let c = SET_SRC2_DST (r_rs1 a) (r_rs2 a) (r_rd a) c in
     let c = set_type T_INT c in
     Inr (True, c))"

definition trans_add_uw :: "arg_r \<Rightarrow> 'd trans" where
  "trans_add_uw a c =
    (let src1 = get_gpr_64 c (r_rs1 a) in
     let src2 = get_gpr_64 c (r_rs2 a) in
     let dest = zx32 src1 + src2 in
     let c = SET_GPR_64 (r_rd a) dest c in
     let c = SET_SRC2_DST (r_rs1 a) (r_rs2 a) (r_rd a) c in
     let c = set_type T_INT c in
     Inr (True, c))"

definition trans_orn :: "arg_r \<Rightarrow> 'd trans" where
  "trans_orn a c =
    (let src1 = get_gpr_64 c (r_rs1 a) in
     let src2 = get_gpr_64 c (r_rs2 a) in
     let dest = src1 OR NOT src2 in
     let c = SET_GPR_64 (r_rd a) dest c in
     let c = SET_SRC2_DST (r_rs1 a) (r_rs2 a) (r_rd a) c in
     let c = set_type T_INT c in
     Inr (True, c))"

definition trans_xnor :: "arg_r \<Rightarrow> 'd trans" where
  "trans_xnor a c =
    (let src1 = get_gpr_64 c (r_rs1 a) in
     let src2 = get_gpr_64 c (r_rs2 a) in
     let dest = NOT (src1 XOR src2) in
     let c = SET_GPR_64 (r_rd a) dest c in
     let c = SET_SRC2_DST (r_rs1 a) (r_rs2 a) (r_rd a) c in
     let c = set_type T_INT c in
     Inr (True, c))"

definition trans_andn :: "arg_r \<Rightarrow> 'd trans" where
  "trans_andn a c =
    (let src1 = get_gpr_64 c (r_rs1 a) in
     let src2 = get_gpr_64 c (r_rs2 a) in
     let dest = src1 AND NOT src2 in
     let c = SET_GPR_64 (r_rd a) dest c in
     let c = SET_SRC2_DST (r_rs1 a) (r_rs2 a) (r_rd a) c in
     let c = set_type T_INT c in
     Inr (True, c))"

definition trans_bclr :: "arg_r \<Rightarrow> 'd trans" where
  "trans_bclr a c =
    (let src1 = get_gpr_64 c (r_rs1 a) in
     let src2 = get_gpr_64 c (r_rs2 a) in
     let dest = src1 AND NOT (push_bit (unat (src2 AND 0x3f)) 1) in
     let c = SET_GPR_64 (r_rd a) dest c in
     let c = SET_SRC2_DST (r_rs1 a) (r_rs2 a) (r_rd a) c in
     let c = set_type T_INT c in
     Inr (True, c))"

definition trans_bclri :: "arg_shift \<Rightarrow> 'd trans" where
  "trans_bclri a c =
    (let src1 = get_gpr_64 c (sh_rs1 a) in
     if 64 \<le> unat (sh_shamt a) then Inl (Undefined ''shift count'') else
     let dest = src1 AND NOT (push_bit (unat (sh_shamt a)) 1) in
     let c = SET_GPR_64 (sh_rd a) dest c in
     let c = SET_SRC1_DST (sh_rs1 a) (sh_rd a) c in
     let c = set_type T_INT c in
     Inr (True, c))"

definition trans_bext :: "arg_r \<Rightarrow> 'd trans" where
  "trans_bext a c =
    (let src1 = get_gpr_64 c (r_rs1 a) in
     let src2 = get_gpr_64 c (r_rs2 a) in
     let dest = drop_bit (unat (src2 AND 0x3f)) src1 AND 1 in
     let c = SET_GPR_64 (r_rd a) dest c in
     let c = SET_SRC2_DST (r_rs1 a) (r_rs2 a) (r_rd a) c in
     let c = set_type T_INT c in
     Inr (True, c))"

definition trans_bexti :: "arg_shift \<Rightarrow> 'd trans" where
  "trans_bexti a c =
    (let src1 = get_gpr_64 c (sh_rs1 a) in
     if 64 \<le> unat (sh_shamt a) then Inl (Undefined ''shift count'') else
     let dest = drop_bit (unat (sh_shamt a)) src1 AND 1 in
     let c = SET_GPR_64 (sh_rd a) dest c in
     let c = SET_SRC1_DST (sh_rs1 a) (sh_rd a) c in
     let c = set_type T_INT c in
     Inr (True, c))"

definition trans_binv :: "arg_r \<Rightarrow> 'd trans" where
  "trans_binv a c =
    (let src1 = get_gpr_64 c (r_rs1 a) in
     let src2 = get_gpr_64 c (r_rs2 a) in
     let dest = src1 XOR push_bit (unat (src2 AND 0x3f)) 1 in
     let c = SET_GPR_64 (r_rd a) dest c in
     let c = SET_SRC2_DST (r_rs1 a) (r_rs2 a) (r_rd a) c in
     let c = set_type T_INT c in
     Inr (True, c))"

definition trans_binvi :: "arg_shift \<Rightarrow> 'd trans" where
  "trans_binvi a c =
    (let src1 = get_gpr_64 c (sh_rs1 a) in
     if 64 \<le> unat (sh_shamt a) then Inl (Undefined ''shift count'') else
     let dest = src1 XOR push_bit (unat (sh_shamt a)) 1 in
     let c = SET_GPR_64 (sh_rd a) dest c in
     let c = SET_SRC1_DST (sh_rs1 a) (sh_rd a) c in
     let c = set_type T_INT c in
     Inr (True, c))"

definition trans_brev8 :: "arg_r2 \<Rightarrow> 'd trans" where
  "trans_brev8 a c =
     (let src1 = get_gpr_64 c (r2_rs1 a);
          dest = foldl (\<lambda>d i.
             let byte = byte_of src1 i;
                 reversed = foldl (\<lambda>r j. if bit byte j then r OR push_bit (7 - j) 1 else r) (0 :: u64) [0..<8]
             in d OR push_bit (i * 8) reversed) 0 [0..<8];
          c = SET_GPR_64 (r2_rd a) dest c;
          c = SET_SRC1_DST (r2_rs1 a) (r2_rd a) c;
          c = set_type T_INT c
      in Inr (True, c))"

definition trans_bset :: "arg_r \<Rightarrow> 'd trans" where
  "trans_bset a c =
    (let src1 = get_gpr_64 c (r_rs1 a) in
     let src2 = get_gpr_64 c (r_rs2 a) in
     let dest = src1 OR push_bit (unat (src2 AND 0x3f)) 1 in
     let c = SET_GPR_64 (r_rd a) dest c in
     let c = SET_SRC2_DST (r_rs1 a) (r_rs2 a) (r_rd a) c in
     let c = set_type T_INT c in
     Inr (True, c))"

definition trans_bseti :: "arg_shift \<Rightarrow> 'd trans" where
  "trans_bseti a c =
    (let src1 = get_gpr_64 c (sh_rs1 a) in
     if 64 \<le> unat (sh_shamt a) then Inl (Undefined ''shift count'') else
     let dest = src1 OR push_bit (unat (sh_shamt a)) 1 in
     let c = SET_GPR_64 (sh_rd a) dest c in
     let c = SET_SRC1_DST (sh_rs1 a) (sh_rd a) c in
     let c = set_type T_INT c in
     Inr (True, c))"

definition trans_max :: "arg_r \<Rightarrow> 'd trans" where
  "trans_max a c =
    (let src1 = get_gpr_64 c (r_rs1 a) in
     let src2 = get_gpr_64 c (r_rs2 a) in
     let dest = (if sint src1 > sint src2 then src1 else src2) in
     let c = SET_GPR_64 (r_rd a) dest c in
     let c = SET_SRC2_DST (r_rs1 a) (r_rs2 a) (r_rd a) c in
     let c = set_type T_INT c in
     Inr (True, c))"

definition trans_maxu :: "arg_r \<Rightarrow> 'd trans" where
  "trans_maxu a c =
    (let src1 = get_gpr_64 c (r_rs1 a) in
     let src2 = get_gpr_64 c (r_rs2 a) in
     let dest = (if src1 > src2 then src1 else src2) in
     let c = SET_GPR_64 (r_rd a) dest c in
     let c = SET_SRC2_DST (r_rs1 a) (r_rs2 a) (r_rd a) c in
     let c = set_type T_INT c in
     Inr (True, c))"

definition trans_min :: "arg_r \<Rightarrow> 'd trans" where
  "trans_min a c =
    (let src1 = get_gpr_64 c (r_rs1 a) in
     let src2 = get_gpr_64 c (r_rs2 a) in
     let dest = (if sint src1 < sint src2 then src1 else src2) in
     let c = SET_GPR_64 (r_rd a) dest c in
     let c = SET_SRC2_DST (r_rs1 a) (r_rs2 a) (r_rd a) c in
     let c = set_type T_INT c in
     Inr (True, c))"

definition trans_minu :: "arg_r \<Rightarrow> 'd trans" where
  "trans_minu a c =
    (let src1 = get_gpr_64 c (r_rs1 a) in
     let src2 = get_gpr_64 c (r_rs2 a) in
     let dest = (if src1 < src2 then src1 else src2) in
     let c = SET_GPR_64 (r_rd a) dest c in
     let c = SET_SRC2_DST (r_rs1 a) (r_rs2 a) (r_rd a) c in
     let c = set_type T_INT c in
     Inr (True, c))"

definition trans_orc_b :: "arg_r2 \<Rightarrow> 'd trans" where
  "trans_orc_b a c =
     (let src1 = get_gpr_64 c (r2_rs1 a);
          dest = foldl (\<lambda>d i. if byte_of src1 i \<noteq> 0 then d OR push_bit (i * 8) 0xFF else d) 0 [0..<8];
          c = SET_GPR_64 (r2_rd a) dest c;
          c = SET_SRC1_DST (r2_rs1 a) (r2_rd a) c;
          c = set_type T_INT c
      in Inr (True, c))"

definition trans_pack :: "arg_r \<Rightarrow> 'd trans" where
  "trans_pack a c =
    (let src1 = get_gpr_64 c (r_rs1 a) in
     let src2 = get_gpr_64 c (r_rs2 a) in
     let dest = push_bit 16 (src2 AND 0xFFFF) OR (src1 AND 0xFFFF) in
     let c = SET_GPR_64 (r_rd a) dest c in
     let c = SET_SRC2_DST (r_rs1 a) (r_rs2 a) (r_rd a) c in
     let c = set_type T_INT c in
     Inr (True, c))"

definition trans_packh :: "arg_r \<Rightarrow> 'd trans" where
  "trans_packh a c =
    (let src1 = get_gpr_64 c (r_rs1 a) in
     let src2 = get_gpr_64 c (r_rs2 a) in
     let dest = push_bit 16 (drop_bit 8 src2 AND 0xFF) OR (drop_bit 8 src1 AND 0xFF) in
     let c = SET_GPR_64 (r_rd a) dest c in
     let c = SET_SRC2_DST (r_rs1 a) (r_rs2 a) (r_rd a) c in
     let c = set_type T_INT c in
     Inr (True, c))"

definition trans_packw :: "arg_r \<Rightarrow> 'd trans" where
  "trans_packw a c =
    (let src1 = get_gpr_64 c (r_rs1 a) in
     let src2 = get_gpr_64 c (r_rs2 a) in
     let dest = push_bit 32 (src2 AND 0xFFFFFFFF) OR (src1 AND 0xFFFFFFFF) in
     let c = SET_GPR_64 (r_rd a) dest c in
     let c = SET_SRC2_DST (r_rs1 a) (r_rs2 a) (r_rd a) c in
     let c = set_type T_INT c in
     Inr (True, c))"

definition trans_rev8_32 :: "arg_r2 \<Rightarrow> 'd trans" where
  "trans_rev8_32 a c =
    (let src1 = get_gpr_64 c (r2_rs1 a) in
     let dest = bswap32 src1 in
     let c = SET_GPR_64 (r2_rd a) dest c in
     let c = SET_SRC1_DST (r2_rs1 a) (r2_rd a) c in
     let c = set_type T_INT c in
     Inr (True, c))"

definition trans_rev8_64 :: "arg_r2 \<Rightarrow> 'd trans" where
  "trans_rev8_64 a c =
    (let src1 = get_gpr_64 c (r2_rs1 a) in
     let dest = bswap64 src1 in
     let c = SET_GPR_64 (r2_rd a) dest c in
     let c = SET_SRC1_DST (r2_rs1 a) (r2_rd a) c in
     let c = set_type T_INT c in
     Inr (True, c))"

definition trans_rol :: "arg_r \<Rightarrow> 'd trans" where
  "trans_rol a c =
    (let src1 = get_gpr_64 c (r_rs1 a) in
     let src2 = get_gpr_64 c (r_rs2 a) in
     let dest = word_rotl (unat (src2 AND 0x3f)) src1 in
     let c = SET_GPR_64 (r_rd a) dest c in
     let c = SET_SRC2_DST (r_rs1 a) (r_rs2 a) (r_rd a) c in
     let c = set_type T_INT c in
     Inr (True, c))"

definition trans_rolw :: "arg_r \<Rightarrow> 'd trans" where
  "trans_rolw a c =
    (let src1 = get_gpr_32 c (r_rs1 a) EXT_NONE in
     let src2 = get_gpr_32 c (r_rs2 a) EXT_NONE in
     let shift = src2 AND 0x1f in
     let src1_32 = zx32 src1 in
     let dest = ucast (word_rotl (unat shift) (ucast src1_32 :: u32)) in
     let c = SET_GPR_32 (r_rd a) dest c in
     let c = SET_SRC2_DST (r_rs1 a) (r_rs2 a) (r_rd a) c in
     let c = set_type T_INT c in
     Inr (True, c))"

definition trans_ror :: "arg_r \<Rightarrow> 'd trans" where
  "trans_ror a c =
    (let src1 = get_gpr_64 c (r_rs1 a) in
     let src2 = get_gpr_64 c (r_rs2 a) in
     let dest = word_rotr (unat (src2 AND 0x3f)) src1 in
     let c = SET_GPR_64 (r_rd a) dest c in
     let c = SET_SRC2_DST (r_rs1 a) (r_rs2 a) (r_rd a) c in
     let c = set_type T_INT c in
     Inr (True, c))"

definition trans_rori :: "arg_shift \<Rightarrow> 'd trans" where
  "trans_rori a c =
    (let src1 = get_gpr_64 c (sh_rs1 a) in
     let dest = word_rotr (unat (sh_shamt a)) src1 in
     let c = SET_GPR_64 (sh_rd a) dest c in
     let c = SET_SRC1_DST (sh_rs1 a) (sh_rd a) c in
     let c = set_type T_INT c in
     Inr (True, c))"

definition trans_roriw :: "arg_shift \<Rightarrow> 'd trans" where
  "trans_roriw a c =
    (let src1 = get_gpr_32 c (sh_rs1 a) EXT_NONE in
     let shift = (ucast (sh_shamt a) :: u64) in
     let src1_32 = zx32 src1 in
     let dest = ucast (word_rotr (unat shift) (ucast src1_32 :: u32)) in
     let c = SET_GPR_32 (sh_rd a) dest c in
     let c = SET_SRC1_DST (sh_rs1 a) (sh_rd a) c in
     let c = set_type T_INT c in
     Inr (True, c))"

definition trans_rorw :: "arg_r \<Rightarrow> 'd trans" where
  "trans_rorw a c =
    (let src1 = get_gpr_32 c (r_rs1 a) EXT_NONE in
     let src2 = get_gpr_32 c (r_rs2 a) EXT_NONE in
     let shift = src2 AND 0x1f in
     let src1_32 = zx32 src1 in
     let dest = ucast (word_rotr (unat shift) (ucast src1_32 :: u32)) in
     let c = SET_GPR_32 (r_rd a) dest c in
     let c = SET_SRC2_DST (r_rs1 a) (r_rs2 a) (r_rd a) c in
     let c = set_type T_INT c in
     Inr (True, c))"

definition trans_and :: "arg_r \<Rightarrow> 'd trans" where
  "trans_and a c =
    (let src1 = get_gpr_64 c (r_rs1 a) in
     let src2 = get_gpr_64 c (r_rs2 a) in
     let dest = src1 AND src2 in
     let c = SET_GPR_64 (r_rd a) dest c in
     let c = SET_SRC2_DST (r_rs1 a) (r_rs2 a) (r_rd a) c in
     let c = set_type T_INT c in
     Inr (True, c))"

definition trans_andi :: "arg_i \<Rightarrow> 'd trans" where
  "trans_andi a c =
    (let src1 = get_gpr_64 c (i_rs1 a) in
     let dest = src1 AND sx (i_imm a) in
     let c = SET_GPR_64 (i_rd a) dest c in
     let c = SET_SRC1_DST (i_rs1 a) (i_rd a) c in
     let c = set_type T_INT c in
     Inr (True, c))"

definition trans_or :: "arg_r \<Rightarrow> 'd trans" where
  "trans_or a c =
    (let src1 = get_gpr_64 c (r_rs1 a) in
     let src2 = get_gpr_64 c (r_rs2 a) in
     let dest = src1 OR src2 in
     let c = SET_GPR_64 (r_rd a) dest c in
     let c = SET_SRC2_DST (r_rs1 a) (r_rs2 a) (r_rd a) c in
     let c = set_type T_INT c in
     Inr (True, c))"

definition trans_ori :: "arg_i \<Rightarrow> 'd trans" where
  "trans_ori a c =
    (let src1 = get_gpr_64 c (i_rs1 a) in
     let dest = src1 OR sx (i_imm a) in
     let c = SET_GPR_64 (i_rd a) dest c in
     let c = SET_SRC1_DST (i_rs1 a) (i_rd a) c in
     let c = set_type T_INT c in
     Inr (True, c))"

definition trans_xor :: "arg_r \<Rightarrow> 'd trans" where
  "trans_xor a c =
    (let src1 = get_gpr_64 c (r_rs1 a) in
     let src2 = get_gpr_64 c (r_rs2 a) in
     let dest = src1 XOR src2 in
     let c = SET_GPR_64 (r_rd a) dest c in
     let c = SET_SRC2_DST (r_rs1 a) (r_rs2 a) (r_rd a) c in
     let c = set_type T_INT c in
     Inr (True, c))"

definition trans_xori :: "arg_i \<Rightarrow> 'd trans" where
  "trans_xori a c =
    (let src1 = get_gpr_64 c (i_rs1 a) in
     let dest = src1 XOR sx (i_imm a) in
     let c = SET_GPR_64 (i_rd a) dest c in
     let c = SET_SRC1_DST (i_rs1 a) (i_rd a) c in
     let c = set_type T_INT c in
     Inr (True, c))"

definition trans_auipc :: "arg_u \<Rightarrow> 'd trans" where
  "trans_auipc a c =
    (let dest = gen_pc_plus_diff c (sx (u_imm a)) in
     let c = SET_GPR_64 (u_rd a) dest c in
     let c = SET_SRC0_DST (u_rd a) c in
     let c = set_type T_INT c in
     Inr (True, c))"

definition trans_beq :: "arg_b \<Rightarrow> 'd trans" where
  "trans_beq a c =
    (let src1 = get_gpr_64 c (b_rs1 a) in
     let src2 = get_gpr_64 c (b_rs2 a) in
     let taken = of_bool (src1 = src2) in
     let c = set_dst_data 1 taken c in
     let c = set_dst_data 2 (gen_pc_plus_diff c (sx (b_imm a))) c in
     let c = set_type T_COND c in
     let c = SET_SRC2 (b_rs1 a) (b_rs2 a) c in
     Inr (True, c))"

definition trans_bne :: "arg_b \<Rightarrow> 'd trans" where
  "trans_bne a c =
    (let src1 = get_gpr_64 c (b_rs1 a) in
     let src2 = get_gpr_64 c (b_rs2 a) in
     let taken = of_bool (src1 \<noteq> src2) in
     let c = set_dst_data 1 taken c in
     let c = set_dst_data 2 (gen_pc_plus_diff c (sx (b_imm a))) c in
     let c = set_type T_COND c in
     let c = SET_SRC2 (b_rs1 a) (b_rs2 a) c in
     Inr (True, c))"

definition trans_blt :: "arg_b \<Rightarrow> 'd trans" where
  "trans_blt a c =
    (let src1 = get_gpr_64 c (b_rs1 a) in
     let src2 = get_gpr_64 c (b_rs2 a) in
     let taken = of_bool (sint src1 < sint src2) in
     let c = set_dst_data 1 taken c in
     let c = set_dst_data 2 (gen_pc_plus_diff c (sx (b_imm a))) c in
     let c = set_type T_COND c in
     let c = SET_SRC2 (b_rs1 a) (b_rs2 a) c in
     Inr (True, c))"

definition trans_bltu :: "arg_b \<Rightarrow> 'd trans" where
  "trans_bltu a c =
    (let src1 = get_gpr_64 c (b_rs1 a) in
     let src2 = get_gpr_64 c (b_rs2 a) in
     let taken = of_bool (src1 < src2) in
     let c = set_dst_data 1 taken c in
     let c = set_dst_data 2 (gen_pc_plus_diff c (sx (b_imm a))) c in
     let c = set_type T_COND c in
     let c = SET_SRC2 (b_rs1 a) (b_rs2 a) c in
     Inr (True, c))"

definition trans_bge :: "arg_b \<Rightarrow> 'd trans" where
  "trans_bge a c =
    (let src1 = get_gpr_64 c (b_rs1 a) in
     let src2 = get_gpr_64 c (b_rs2 a) in
     let taken = of_bool (sint src1 \<ge> sint src2) in
     let c = set_dst_data 1 taken c in
     let c = set_dst_data 2 (gen_pc_plus_diff c (sx (b_imm a))) c in
     let c = set_type T_COND c in
     let c = SET_SRC2 (b_rs1 a) (b_rs2 a) c in
     Inr (True, c))"

definition trans_bgeu :: "arg_b \<Rightarrow> 'd trans" where
  "trans_bgeu a c =
    (let src1 = get_gpr_64 c (b_rs1 a) in
     let src2 = get_gpr_64 c (b_rs2 a) in
     let taken = of_bool (src1 \<ge> src2) in
     let c = set_dst_data 1 taken c in
     let c = set_dst_data 2 (gen_pc_plus_diff c (sx (b_imm a))) c in
     let c = set_type T_COND c in
     let c = SET_SRC2 (b_rs1 a) (b_rs2 a) c in
     Inr (True, c))"

definition trans_clz :: "arg_r2 \<Rightarrow> 'd trans" where
  "trans_clz a c =
    (let src1 = get_gpr_64 c (r2_rs1 a) in
     let dest = of_nat (countl_zero src1) in
     let c = SET_GPR_64 (r2_rd a) dest c in
     let c = SET_SRC1_DST (r2_rs1 a) (r2_rd a) c in
     let c = set_type T_INT c in
     Inr (True, c))"

definition trans_clzw :: "arg_r2 \<Rightarrow> 'd trans" where
  "trans_clzw a c =
    (let src1 = get_gpr_64 c (r2_rs1 a) in
     let dest = of_nat (countl_zero (ucast src1 :: u32)) in
     let c = SET_GPR_64 (r2_rd a) dest c in
     let c = SET_SRC1_DST (r2_rs1 a) (r2_rd a) c in
     let c = set_type T_INT c in
     Inr (True, c))"

definition trans_ctz :: "arg_r2 \<Rightarrow> 'd trans" where
  "trans_ctz a c =
    (let src1 = get_gpr_64 c (r2_rs1 a) in
     let dest = of_nat (countr_zero src1) in
     let c = SET_GPR_64 (r2_rd a) dest c in
     let c = SET_SRC1_DST (r2_rs1 a) (r2_rd a) c in
     let c = set_type T_INT c in
     Inr (True, c))"

definition trans_ctzw :: "arg_r2 \<Rightarrow> 'd trans" where
  "trans_ctzw a c =
    (let src1 = get_gpr_64 c (r2_rs1 a) in
     let dest = of_nat (countr_zero (ucast src1 :: u32)) in
     let c = SET_GPR_64 (r2_rd a) dest c in
     let c = SET_SRC1_DST (r2_rs1 a) (r2_rd a) c in
     let c = set_type T_INT c in
     Inr (True, c))"

definition trans_jal :: "arg_j \<Rightarrow> 'd trans" where
  "trans_jal a c =
     (let target_pc = gen_pc_plus_diff c (sx (j_imm a));
          succ_pc = gen_pc_plus_diff c (ucast (inst_size (info c)));
          c = set_dst 0 (ucast (j_rd a * 8)) all1 succ_pc c;
          c = set_dst_data 2 target_pc c;
          c = set_dst_reg (j_rd a) c;
          c = (if j_rd a = 0 then set_type T_DIRECT c else set_type T_PUSH c)
      in Inr (True, c))"

definition trans_jalr :: "arg_i \<Rightarrow> 'd trans" where
  "trans_jalr a c =
     (let target_pc = get_gpr_64 c (i_rs1 a) + sx (i_imm a);
          succ_pc = gen_pc_plus_diff c (ucast (inst_size (info c)));
          c = set_dst 0 (ucast (i_rd a * 8)) all1 succ_pc c;
          c = set_dst_data 2 target_pc c;
          c = SET_SRC1_DST (i_rs1 a) (i_rd a) c;
          rd_valid = (i_rd a = 1 \<or> i_rd a = 5);
          rs1_valid = (i_rs1 a = 1 \<or> i_rs1 a = 5);
          c = (if rd_valid \<and> rs1_valid
                 then set_type (if i_rd a = i_rs1 a then T_IND_PUSH else T_POP_PUSH) c
               else if rd_valid
                 then (if i_rs1 a \<noteq> 0 then set_type T_IND_CALL c else set_type T_IND_PUSH c)
               else if rs1_valid then set_type T_POP c
               else if i_rs1 a \<noteq> 0 then set_type T_INDIRECT c
               else c)
      in Inr (True, c))"

definition trans_lui :: "arg_u \<Rightarrow> 'd trans" where
  "trans_lui a c =
    (let dest = sx (u_imm a) in
     let c = SET_GPR_64 (u_rd a) dest c in
     let c = SET_SRC0_DST (u_rd a) c in
     let c = set_type T_INT c in
     Inr (True, c))"

definition trans_mul :: "arg_r \<Rightarrow> 'd trans" where
  "trans_mul a c =
    (let src1 = get_gpr_64 c (r_rs1 a) in
     let src2 = get_gpr_64 c (r_rs2 a) in
     let dest = src1 * src2 in
     let c = SET_GPR_64 (r_rd a) dest c in
     let c = SET_SRC2_DST (r_rs1 a) (r_rs2 a) (r_rd a) c in
     let c = set_type T_MULT c in
     Inr (True, c))"

definition trans_div :: "arg_r \<Rightarrow> 'd trans" where
  "trans_div a c =
     (let src1 = get_gpr_64 c (r_rs1 a); src2 = get_gpr_64 c (r_rs2 a);
          dest = (if src2 = 0 then - 1
                  else if src1 = push_bit 63 1 \<and> sint src2 = - 1 then src1
                  else word_of_int (sint src1 sdiv sint src2));
          c = SET_GPR_64 (r_rd a) dest c;
          c = SET_SRC2_DST (r_rs1 a) (r_rs2 a) (r_rd a) c;
          c = set_type T_DIV c
      in Inr (True, c))"

definition trans_divu :: "arg_r \<Rightarrow> 'd trans" where
  "trans_divu a c =
    (let src1 = get_gpr_64 c (r_rs1 a) in
     let src2 = get_gpr_64 c (r_rs2 a) in
     if src2 = 0 then Inl ArithTrap else
     let dest = src1 div src2 in
     let c = SET_GPR_64 (r_rd a) dest c in
     let c = SET_SRC2_DST (r_rs1 a) (r_rs2 a) (r_rd a) c in
     let c = set_type T_DIV c in
     Inr (True, c))"

definition trans_rem :: "arg_r \<Rightarrow> 'd trans" where
  "trans_rem a c =
    (let src1 = get_gpr_64 c (r_rs1 a) in
     let src2 = get_gpr_64 c (r_rs2 a) in
     if src2 = 0 \<or> div_overflow src1 src2 then Inl ArithTrap else
     let dest = word_of_int (sint src1 smod sint src2) in
     let c = SET_GPR_64 (r_rd a) dest c in
     let c = SET_SRC2_DST (r_rs1 a) (r_rs2 a) (r_rd a) c in
     let c = set_type T_DIV c in
     Inr (True, c))"

definition trans_remu :: "arg_r \<Rightarrow> 'd trans" where
  "trans_remu a c =
    (let src1 = get_gpr_64 c (r_rs1 a) in
     let src2 = get_gpr_64 c (r_rs2 a) in
     if src2 = 0 then Inl ArithTrap else
     let dest = src1 mod src2 in
     let c = SET_GPR_64 (r_rd a) dest c in
     let c = SET_SRC2_DST (r_rs1 a) (r_rs2 a) (r_rd a) c in
     let c = set_type T_DIV c in
     Inr (True, c))"

definition trans_mulh :: "arg_r \<Rightarrow> 'd trans" where
  "trans_mulh a c =
     (let src1 = get_gpr_64 c (r_rs1 a); src2 = get_gpr_64 c (r_rs2 a);
          t = (scast src1 * scast src2 :: 128 word);
          dest = ucast (signed_drop_bit 64 t);
          c = SET_GPR_64 (r_rd a) dest c;
          c = SET_SRC2_DST (r_rs1 a) (r_rs2 a) (r_rd a) c;
          c = set_type T_MULT c
      in Inr (True, c))"

definition trans_mulhu :: "arg_r \<Rightarrow> 'd trans" where
  "trans_mulhu a c =
     (let src1 = get_gpr_64 c (r_rs1 a); src2 = get_gpr_64 c (r_rs2 a);
          t = (ucast src1 * ucast src2 :: 128 word);
          dest = ucast (drop_bit 64 t);
          c = SET_GPR_64 (r_rd a) dest c;
          c = SET_SRC2_DST (r_rs1 a) (r_rs2 a) (r_rd a) c;
          c = set_type T_MULT c
      in Inr (True, c))"

definition trans_mulw :: "arg_r \<Rightarrow> 'd trans" where
  "trans_mulw a c =
    (let src1 = get_gpr_64 c (r_rs1 a) in
     let src2 = get_gpr_64 c (r_rs2 a) in
     let dest = sx (ucast src1 * ucast src2) in
     let c = SET_GPR_32 (r_rd a) dest c in
     let c = SET_SRC2_DST (r_rs1 a) (r_rs2 a) (r_rd a) c in
     let c = set_type T_MULT c in
     Inr (True, c))"

definition trans_divw :: "arg_r \<Rightarrow> 'd trans" where
  "trans_divw a c =
    (let src1 = get_gpr_64 c (r_rs1 a) in
     let src2 = get_gpr_64 c (r_rs2 a) in
     if (ucast src2 :: u32) = 0 \<or> div_overflow (ucast src1 :: u32) (ucast src2) then Inl ArithTrap else
     let dest = sx (word_of_int (sint (ucast src1 :: u32) sdiv sint (ucast src2 :: u32))) in
     let c = SET_GPR_32 (r_rd a) dest c in
     let c = SET_SRC2_DST (r_rs1 a) (r_rs2 a) (r_rd a) c in
     let c = set_type T_DIV c in
     Inr (True, c))"

definition trans_divuw :: "arg_r \<Rightarrow> 'd trans" where
  "trans_divuw a c =
    (let src1 = get_gpr_64 c (r_rs1 a) in
     let src2 = get_gpr_64 c (r_rs2 a) in
     if (ucast src2 :: u32) = 0 then Inl ArithTrap else
     let dest = ucast ((ucast src1 :: u32) div ucast src2) in
     let c = SET_GPR_32 (r_rd a) dest c in
     let c = SET_SRC2_DST (r_rs1 a) (r_rs2 a) (r_rd a) c in
     let c = set_type T_DIV c in
     Inr (True, c))"

definition trans_remw :: "arg_r \<Rightarrow> 'd trans" where
  "trans_remw a c =
    (let src1 = get_gpr_64 c (r_rs1 a) in
     let src2 = get_gpr_64 c (r_rs2 a) in
     if (ucast src2 :: u32) = 0 \<or> div_overflow (ucast src1 :: u32) (ucast src2) then Inl ArithTrap else
     let dest = sx (word_of_int (sint (ucast src1 :: u32) smod sint (ucast src2 :: u32))) in
     let c = SET_GPR_32 (r_rd a) dest c in
     let c = SET_SRC2_DST (r_rs1 a) (r_rs2 a) (r_rd a) c in
     let c = set_type T_DIV c in
     let c = SET_SRC2_DST (r_rs1 a) (r_rs2 a) (r_rd a) c in
     Inr (True, c))"

definition trans_remuw :: "arg_r \<Rightarrow> 'd trans" where
  "trans_remuw a c =
    (let src1 = get_gpr_64 c (r_rs1 a) in
     let src2 = get_gpr_64 c (r_rs2 a) in
     if (ucast src2 :: u32) = 0 then Inl ArithTrap else
     let dest = ucast ((ucast src1 :: u32) mod ucast src2) in
     let c = SET_GPR_32 (r_rd a) dest c in
     let c = SET_SRC2_DST (r_rs1 a) (r_rs2 a) (r_rd a) c in
     let c = set_type T_DIV c in
     Inr (True, c))"

definition trans_sext_b :: "arg_r2 \<Rightarrow> 'd trans" where
  "trans_sext_b a c =
    (let src1 = get_gpr_64 c (r2_rs1 a) in
     let dest = scast (ucast src1 :: u8) in
     let c = SET_GPR_64 (r2_rd a) dest c in
     let c = SET_SRC1_DST (r2_rs1 a) (r2_rd a) c in
     let c = set_type T_INT c in
     Inr (True, c))"

definition trans_sext_h :: "arg_r2 \<Rightarrow> 'd trans" where
  "trans_sext_h a c =
    (let src1 = get_gpr_64 c (r2_rs1 a) in
     let dest = scast (ucast src1 :: u16) in
     let c = SET_GPR_64 (r2_rd a) dest c in
     let c = SET_SRC1_DST (r2_rs1 a) (r2_rd a) c in
     let c = set_type T_INT c in
     Inr (True, c))"

definition trans_sh1add :: "arg_r \<Rightarrow> 'd trans" where
  "trans_sh1add a c =
    (let src1 = get_gpr_64 c (r_rs1 a) in
     let src2 = get_gpr_64 c (r_rs2 a) in
     let dest = push_bit 1 src1 + src2 in
     let c = SET_GPR_64 (r_rd a) dest c in
     let c = SET_SRC2_DST (r_rs1 a) (r_rs2 a) (r_rd a) c in
     let c = set_type T_INT c in
     Inr (True, c))"

definition trans_sh1add_uw :: "arg_r \<Rightarrow> 'd trans" where
  "trans_sh1add_uw a c =
    (let src1 = zx32 (get_gpr_64 c (r_rs1 a)) in
     let src2 = get_gpr_64 c (r_rs2 a) in
     let dest = push_bit 1 src1 + src2 in
     let c = SET_GPR_64 (r_rd a) dest c in
     let c = SET_SRC2_DST (r_rs1 a) (r_rs2 a) (r_rd a) c in
     let c = set_type T_INT c in
     Inr (True, c))"

definition trans_sh2add :: "arg_r \<Rightarrow> 'd trans" where
  "trans_sh2add a c =
    (let src1 = get_gpr_64 c (r_rs1 a) in
     let src2 = get_gpr_64 c (r_rs2 a) in
     let dest = push_bit 2 src1 + src2 in
     let c = SET_GPR_64 (r_rd a) dest c in
     let c = SET_SRC2_DST (r_rs1 a) (r_rs2 a) (r_rd a) c in
     let c = set_type T_INT c in
     Inr (True, c))"

definition trans_sh2add_uw :: "arg_r \<Rightarrow> 'd trans" where
  "trans_sh2add_uw a c =
    (let src1 = zx32 (get_gpr_64 c (r_rs1 a)) in
     let src2 = get_gpr_64 c (r_rs2 a) in
     let dest = push_bit 2 src1 + src2 in
     let c = SET_GPR_64 (r_rd a) dest c in
     let c = SET_SRC2_DST (r_rs1 a) (r_rs2 a) (r_rd a) c in
     let c = set_type T_INT c in
     Inr (True, c))"

definition trans_sh3add :: "arg_r \<Rightarrow> 'd trans" where
  "trans_sh3add a c =
    (let src1 = get_gpr_64 c (r_rs1 a) in
     let src2 = get_gpr_64 c (r_rs2 a) in
     let dest = push_bit 3 src1 + src2 in
     let c = SET_GPR_64 (r_rd a) dest c in
     let c = SET_SRC2_DST (r_rs1 a) (r_rs2 a) (r_rd a) c in
     let c = set_type T_INT c in
     Inr (True, c))"

definition trans_sh3add_uw :: "arg_r \<Rightarrow> 'd trans" where
  "trans_sh3add_uw a c =
    (let src1 = zx32 (get_gpr_64 c (r_rs1 a)) in
     let src2 = get_gpr_64 c (r_rs2 a) in
     let dest = push_bit 3 src1 + src2 in
     let c = SET_GPR_64 (r_rd a) dest c in
     let c = SET_SRC2_DST (r_rs1 a) (r_rs2 a) (r_rd a) c in
     let c = set_type T_INT c in
     Inr (True, c))"

definition trans_sll :: "arg_r \<Rightarrow> 'd trans" where
  "trans_sll a c =
    (let src1 = get_gpr_64 c (r_rs1 a) in
     let src2 = get_gpr_64 c (r_rs2 a) AND 0x3f in
     let dest = push_bit (unat src2) src1 in
     let c = SET_GPR_64 (r_rd a) dest c in
     let c = SET_SRC2_DST (r_rs1 a) (r_rs2 a) (r_rd a) c in
     let c = set_type T_INT c in
     Inr (True, c))"

definition trans_slli :: "arg_shift \<Rightarrow> 'd trans" where
  "trans_slli a c =
    (let src1 = get_gpr_64 c (sh_rs1 a) in
     if 64 \<le> unat (sh_shamt a) then Inl (Undefined ''shift count'') else
     let dest = push_bit (unat (sh_shamt a)) src1 in
     let c = SET_GPR_64 (sh_rd a) dest c in
     let c = SET_SRC1_DST (sh_rs1 a) (sh_rd a) c in
     let c = set_type T_INT c in
     Inr (True, c))"

definition trans_sra :: "arg_r \<Rightarrow> 'd trans" where
  "trans_sra a c =
    (let src1 = get_gpr_64 c (r_rs1 a) in
     let src2 = get_gpr_64 c (r_rs2 a) AND 0x3f in
     let dest = signed_drop_bit (unat src2) src1 in
     let c = SET_GPR_64 (r_rd a) dest c in
     let c = SET_SRC2_DST (r_rs1 a) (r_rs2 a) (r_rd a) c in
     let c = set_type T_INT c in
     Inr (True, c))"

definition trans_srai :: "arg_shift \<Rightarrow> 'd trans" where
  "trans_srai a c =
    (let src1 = get_gpr_64 c (sh_rs1 a) in
     if 64 \<le> unat (sh_shamt a) then Inl (Undefined ''shift count'') else
     let dest = signed_drop_bit (unat (sh_shamt a)) src1 in
     let c = SET_GPR_64 (sh_rd a) dest c in
     let c = SET_SRC1_DST (sh_rs1 a) (sh_rd a) c in
     let c = set_type T_INT c in
     Inr (True, c))"

definition trans_srl :: "arg_r \<Rightarrow> 'd trans" where
  "trans_srl a c =
    (let src1 = get_gpr_64 c (r_rs1 a) in
     let src2 = get_gpr_64 c (r_rs2 a) AND 0x3f in
     let dest = drop_bit (unat src2) src1 in
     let c = SET_GPR_64 (r_rd a) dest c in
     let c = SET_SRC2_DST (r_rs1 a) (r_rs2 a) (r_rd a) c in
     let c = set_type T_INT c in
     Inr (True, c))"

definition trans_srli :: "arg_shift \<Rightarrow> 'd trans" where
  "trans_srli a c =
    (let src1 = get_gpr_64 c (sh_rs1 a) in
     if 64 \<le> unat (sh_shamt a) then Inl (Undefined ''shift count'') else
     let dest = drop_bit (unat (sh_shamt a)) src1 in
     let c = SET_GPR_64 (sh_rd a) dest c in
     let c = SET_SRC1_DST (sh_rs1 a) (sh_rd a) c in
     let c = set_type T_INT c in
     Inr (True, c))"

definition trans_slt :: "arg_r \<Rightarrow> 'd trans" where
  "trans_slt a c =
    (let src1 = get_gpr_64 c (r_rs1 a) in
     let src2 = get_gpr_64 c (r_rs2 a) in
     let dest = of_bool (sint src1 < sint src2) in
     let c = SET_GPR_64 (r_rd a) dest c in
     let c = SET_SRC2_DST (r_rs1 a) (r_rs2 a) (r_rd a) c in
     let c = set_type T_INT c in
     Inr (True, c))"

definition trans_slti :: "arg_i \<Rightarrow> 'd trans" where
  "trans_slti a c =
    (let src1 = get_gpr_64 c (i_rs1 a) in
     let dest = of_bool (sint src1 < sint (sx (i_imm a))) in
     let c = SET_GPR_64 (i_rd a) dest c in
     let c = SET_SRC1_DST (i_rs1 a) (i_rd a) c in
     let c = set_type T_INT c in
     Inr (True, c))"

definition trans_sltu :: "arg_r \<Rightarrow> 'd trans" where
  "trans_sltu a c =
    (let src1 = get_gpr_64 c (r_rs1 a) in
     let src2 = get_gpr_64 c (r_rs2 a) in
     let dest = of_bool (src1 < src2) in
     let c = SET_GPR_64 (r_rd a) dest c in
     let c = SET_SRC2_DST (r_rs1 a) (r_rs2 a) (r_rd a) c in
     let c = set_type T_INT c in
     Inr (True, c))"

definition trans_sltiu :: "arg_i \<Rightarrow> 'd trans" where
  "trans_sltiu a c =
    (let src1 = get_gpr_64 c (i_rs1 a) in
     let dest = of_bool (src1 < sx (i_imm a)) in
     let c = SET_GPR_64 (i_rd a) dest c in
     let c = SET_SRC1_DST (i_rs1 a) (i_rd a) c in
     let c = set_type T_INT c in
     Inr (True, c))"

definition trans_zext_h_64 :: "arg_r2 \<Rightarrow> 'd trans" where
  "trans_zext_h_64 a c =
    (let src1 = get_gpr_64 c (r2_rs1 a) in
     let dest = ucast (ucast src1 :: u16) in
     let c = SET_GPR_64 (r2_rd a) dest c in
     let c = SET_SRC1_DST (r2_rs1 a) (r2_rd a) c in
     let c = set_type T_INT c in
     Inr (True, c))"

end
