(* ===== verification/Exec_Mem.thy ===== *)
theory Exec_Mem
  imports Exec_Alu
begin

text \<open>
  Loads, stores, load-reserved / store-conditional and atomic instructions of
  src/src/arch/riscv/interpreter.cpp.
\<close>

definition trans_lq :: "arg_i \<Rightarrow> 'd trans" where
  "trans_lq a c =
     Inr (False, c)"

definition trans_sq :: "arg_s \<Rightarrow> 'd trans" where
  "trans_sq a c =
     Inr (False, c)"

definition trans_amoadd_w :: "'d plat \<Rightarrow> arg_atomic \<Rightarrow> 'd trans" where
  "trans_amoadd_w p a c =
    (let addr = get_address c (at_rs1 a) 0 in
     let c = set_exc_data addr c in
     rbind (ld_w p addr c) (\<lambda>(dest, c).
     let data = get_gpr_32 c (at_rs2 a) EXT_NONE in
     let res = zx32 (dest + data) in
     rbind (st_w p addr c) (\<lambda>(mem, c).
     let c = set_dst_data 1 res c in
     let c = SET_GPR_32 (at_rd a) dest c in
     let c = SET_SRC2_DST_ADDR (at_rs1 a) (at_rs2 a) (at_rd a) c in
     let c = set_type T_AMO c in
     Inr (True, c))))"

definition trans_amoadd_d :: "'d plat \<Rightarrow> arg_atomic \<Rightarrow> 'd trans" where
  "trans_amoadd_d p a c =
    (let addr = get_address c (at_rs1 a) 0 in
     let c = set_exc_data addr c in
     rbind (ld_d p addr c) (\<lambda>(dest, c).
     let data = get_gpr_64 c (at_rs2 a) in
     let res = dest + data in
     rbind (st_d p addr c) (\<lambda>(mem, c).
     let c = set_dst_data 1 res c in
     let c = SET_GPR_64 (at_rd a) dest c in
     let c = SET_SRC2_DST_ADDR (at_rs1 a) (at_rs2 a) (at_rd a) c in
     let c = set_type T_AMO c in
     Inr (True, c))))"

definition trans_amoand_w :: "'d plat \<Rightarrow> arg_atomic \<Rightarrow> 'd trans" where
  "trans_amoand_w p a c =
    (let addr = get_address c (at_rs1 a) 0 in
     let c = set_exc_data addr c in
     rbind (ld_w p addr c) (\<lambda>(dest, c).
     let data = get_gpr_32 c (at_rs2 a) EXT_NONE in
     let res = zx32 (dest AND data) in
     rbind (st_w p addr c) (\<lambda>(mem, c).
     let c = set_dst_data 1 res c in
     let c = SET_GPR_32 (at_rd a) dest c in
     let c = SET_SRC2_DST_ADDR (at_rs1 a) (at_rs2 a) (at_rd a) c in
     let c = set_type T_AMO c in
     Inr (True, c))))"

definition trans_amoand_d :: "'d plat \<Rightarrow> arg_atomic \<Rightarrow> 'd trans" where
  "trans_amoand_d p a c =
    (let addr = get_address c (at_rs1 a) 0 in
     let c = set_exc_data addr c in
     rbind (ld_d p addr c) (\<lambda>(dest, c).
     let data = get_gpr_64 c (at_rs2 a) in
     let res = dest AND data in
     rbind (st_d p addr c) (\<lambda>(mem, c).
     let c = set_dst_data 1 res c in
     let c = SET_GPR_64 (at_rd a) dest c in
     let c = SET_SRC2_DST_ADDR (at_rs1 a) (at_rs2 a) (at_rd a) c in
     let c = set_type T_AMO c in
     Inr (True, c))))"

definition trans_amoor_w :: "'d plat \<Rightarrow> arg_atomic \<Rightarrow> 'd trans" where
  "trans_amoor_w p a c =
    (let addr = get_address c (at_rs1 a) 0 in
     let c = set_exc_data addr c in
     rbind (ld_w p addr c) (\<lambda>(dest, c).
     let data = get_gpr_32 c (at_rs2 a) EXT_NONE in
     let res = zx32 (dest OR data) in
     rbind (st_w p addr c) (\<lambda>(mem, c).
     let c = set_dst_data 1 res c in
     let c = SET_GPR_32 (at_rd a) dest c in
     let c = SET_SRC2_DST_ADDR (at_rs1 a) (at_rs2 a) (at_rd a) c in
     let c = set_type T_AMO c in
     Inr (True, c))))"

definition trans_amoor_d :: "'d plat \<Rightarrow> arg_atomic \<Rightarrow> 'd trans" where
  "trans_amoor_d p a c =
    (let addr = get_address c (at_rs1 a) 0 in
     let c = set_exc_data addr c in
     rbind (ld_d p addr c) (\<lambda>(dest, c).
     let data = get_gpr_64 c (at_rs2 a) in
     let res = dest OR data in
     rbind (st_d p addr c) (\<lambda>(mem, c).
     let c = set_dst_data 1 res c in
     let c = SET_GPR_64 (at_rd a) dest c in
     let c = SET_SRC2_DST_ADDR (at_rs1 a) (at_rs2 a) (at_rd a) c in
     let c = set_type T_AMO c in
     Inr (True, c))))"

definition trans_amoxor_w :: "'d plat \<Rightarrow> arg_atomic \<Rightarrow> 'd trans" where
  "trans_amoxor_w p a c =
    (let addr = get_address c (at_rs1 a) 0 in
     let c = set_exc_data addr c in
     rbind (ld_w p addr c) (\<lambda>(dest, c).
     let data = get_gpr_32 c (at_rs2 a) EXT_NONE in
     let res = zx32 (dest XOR data) in
     rbind (st_w p addr c) (\<lambda>(mem, c).
     let c = set_dst_data 1 res c in
     let c = SET_GPR_32 (at_rd a) dest c in
     let c = SET_SRC2_DST_ADDR (at_rs1 a) (at_rs2 a) (at_rd a) c in
     let c = set_type T_AMO c in
     Inr (True, c))))"

definition trans_amoxor_d :: "'d plat \<Rightarrow> arg_atomic \<Rightarrow> 'd trans" where
  "trans_amoxor_d p a c =
    (let addr = get_address c (at_rs1 a) 0 in
     let c = set_exc_data addr c in
     rbind (ld_d p addr c) (\<lambda>(dest, c).
     let data = get_gpr_64 c (at_rs2 a) in
     let res = dest XOR data in
     rbind (st_d p addr c) (\<lambda>(mem, c).
     let c = set_dst_data 1 res c in
     let c = SET_GPR_64 (at_rd a) dest c in
     let c = SET_SRC2_DST_ADDR (at_rs1 a) (at_rs2 a) (at_rd a) c in
     let c = set_type T_AMO c in
     Inr (True, c))))"

definition trans_amomax_w :: "'d plat \<Rightarrow> arg_atomic \<Rightarrow> 'd trans" where
  "trans_amomax_w p a c =
    (let addr = get_address c (at_rs1 a) 0 in
     let c = set_exc_data addr c in
     rbind (ld_w p addr c) (\<lambda>(dest, c).
     let data = get_gpr_32 c (at_rs2 a) EXT_NONE in
     let res = zx32 ((if sint (ucast data :: u32) > sint (ucast dest :: u32) then data else dest)) in
     rbind (st_w p addr c) (\<lambda>(mem, c).
     let c = set_dst_data 1 res c in
     let c = SET_GPR_32 (at_rd a) dest c in
     let c = SET_SRC2_DST_ADDR (at_rs1 a) (at_rs2 a) (at_rd a) c in
     let c = set_type T_AMO c in
     Inr (True, c))))"

definition trans_amomax_d :: "'d plat \<Rightarrow> arg_atomic \<Rightarrow> 'd trans" where
  "trans_amomax_d p a c =
    (let addr = get_address c (at_rs1 a) 0 in
     let c = set_exc_data addr c in
     rbind (ld_d p addr c) (\<lambda>(dest, c).
     let data = get_gpr_64 c (at_rs2 a) in
     let res = (if sint data > sint dest then data else dest) in
     rbind (st_d p addr c) (\<lambda>(mem, c).
     let c = set_dst_data 1 res c in
     let c = SET_GPR_64 (at_rd a) dest c in
     let c = SET_SRC2_DST_ADDR (at_rs1 a) (at_rs2 a) (at_rd a) c in
     let c = set_type T_AMO c in
     Inr (True, c))))"

definition trans_amomaxu_w :: "'d plat \<Rightarrow> arg_atomic \<Rightarrow> 'd trans" where
  "trans_amomaxu_w p a c =
    (let addr = get_address c (at_rs1 a) 0 in
     let c = set_exc_data addr c in
     rbind (ld_w p addr c) (\<lambda>(dest, c).
     let data = get_gpr_32 c (at_rs2 a) EXT_NONE in
     let res = zx32 ((if (ucast data :: u32) > (ucast dest :: u32) then data else dest)) in
     rbind (st_w p addr c) (\<lambda>(mem, c).
     let c = set_dst_data 1 res c in
     let c = SET_GPR_32 (at_rd a) dest c in
     let c = SET_SRC2_DST_ADDR (at_rs1 a) (at_rs2 a) (at_rd a) c in
     let c = set_type T_AMO c in
     Inr (True, c))))"

definition trans_amomaxu_d :: "'d plat \<Rightarrow> arg_atomic \<Rightarrow> 'd trans" where
  "trans_amomaxu_d p a c =
    (let addr = get_address c (at_rs1 a) 0 in
     let c = set_exc_data addr c in
     rbind (ld_d p addr c) (\<lambda>(dest, c).
     let data = get_gpr_64 c (at_rs2 a) in
     let res = (if data > dest then data else dest) in
     rbind (st_d p addr c) (\<lambda>(mem, c).
     let c = set_dst_data 1 res c in
     let c = SET_GPR_64 (at_rd a) dest c in
     let c = SET_SRC2_DST_ADDR (at_rs1 a) (at_rs2 a) (at_rd a) c in
     let c = set_type T_AMO c in
     Inr (True, c))))"

definition trans_amomin_w :: "'d plat \<Rightarrow> arg_atomic \<Rightarrow> 'd trans" where
  "trans_amomin_w p a c =
    (let addr = get_address c (at_rs1 a) 0 in
     let c = set_exc_data addr c in
     rbind (ld_w p addr c) (\<lambda>(dest, c).
     let data = get_gpr_32 c (at_rs2 a) EXT_NONE in
     let res = zx32 ((if sint (ucast data :: u32) < sint (ucast dest :: u32) then data else dest)) in
     rbind (st_w p addr c) (\<lambda>(mem, c).
     let c = set_dst_data 1 res c in
     let c = SET_GPR_32 (at_rd a) dest c in
     let c = SET_SRC2_DST_ADDR (at_rs1 a) (at_rs2 a) (at_rd a) c in
     let c = set_type T_AMO c in
     Inr (True, c))))"

definition trans_amomin_d :: "'d plat \<Rightarrow> arg_atomic \<Rightarrow> 'd trans" where
  "trans_amomin_d p a c =
    (let addr = get_address c (at_rs1 a) 0 in
     let c = set_exc_data addr c in
     rbind (ld_d p addr c) (\<lambda>(dest, c).
     let data = get_gpr_64 c (at_rs2 a) in
     let res = (if sint data < sint dest then data else dest) in
     rbind (st_d p addr c) (\<lambda>(mem, c).
     let c = set_dst_data 1 res c in
     let c = SET_GPR_64 (at_rd a) dest c in
     let c = SET_SRC2_DST_ADDR (at_rs1 a) (at_rs2 a) (at_rd a) c in
     let c = set_type T_AMO c in
     Inr (True, c))))"

definition trans_amominu_w :: "'d plat \<Rightarrow> arg_atomic \<Rightarrow> 'd trans" where
  "trans_amominu_w p a c =
    (let addr = get_address c (at_rs1 a) 0 in
     let c = set_exc_data addr c in
     rbind (ld_w p addr c) (\<lambda>(dest, c).
     let data = get_gpr_32 c (at_rs2 a) EXT_NONE in
     let res = zx32 ((if (ucast data :: u32) < (ucast dest :: u32) then data else dest)) in
     rbind (st_w p addr c) (\<lambda>(mem, c).
     let c = set_dst_data 1 res c in
     let c = SET_GPR_32 (at_rd a) dest c in
     let c = SET_SRC2_DST_ADDR (at_rs1 a) (at_rs2 a) (at_rd a) c in
     let c = set_type T_AMO c in
     Inr (True, c))))"

definition trans_amominu_d :: "'d plat \<Rightarrow> arg_atomic \<Rightarrow> 'd trans" where
  "trans_amominu_d p a c =
    (let addr = get_address c (at_rs1 a) 0 in
     let c = set_exc_data addr c in
     rbind (ld_d p addr c) (\<lambda>(dest, c).
     let data = get_gpr_64 c (at_rs2 a) in
     let res = (if data < dest then data else dest) in
     rbind (st_d p addr c) (\<lambda>(mem, c).
     let c = set_dst_data 1 res c in
     let c = SET_GPR_64 (at_rd a) dest c in
     let c = SET_SRC2_DST_ADDR (at_rs1 a) (at_rs2 a) (at_rd a) c in
     let c = set_type T_AMO c in
     Inr (True, c))))"

definition trans_amoswap_w :: "'d plat \<Rightarrow> arg_atomic \<Rightarrow> 'd trans" where
  "trans_amoswap_w p a c =
    (let addr = get_address c (at_rs1 a) 0 in
     let c = set_exc_data addr c in
     rbind (ld_w p addr c) (\<lambda>(dest, c).
     let data = get_gpr_32 c (at_rs2 a) EXT_NONE in
     rbind (st_w p addr c) (\<lambda>(mem, c).
     let c = set_dst_data 1 (zx32 data) c in
     let c = SET_GPR_32 (at_rd a) dest c in
     let c = SET_SRC2_DST_ADDR (at_rs1 a) (at_rs2 a) (at_rd a) c in
     let c = set_type T_AMO c in
     Inr (True, c))))"

definition trans_amoswap_d :: "'d plat \<Rightarrow> arg_atomic \<Rightarrow> 'd trans" where
  "trans_amoswap_d p a c =
    (let addr = get_address c (at_rs1 a) 0 in
     let c = set_exc_data addr c in
     rbind (ld_d p addr c) (\<lambda>(dest, c).
     let data = get_gpr_64 c (at_rs2 a) in
     rbind (st_d p addr c) (\<lambda>(mem, c).
     let c = set_dst_data 1 (data) c in
     let c = SET_GPR_64 (at_rd a) dest c in
     let c = SET_SRC2_DST_ADDR (at_rs1 a) (at_rs2 a) (at_rd a) c in
     let c = set_type T_AMO c in
     Inr (True, c))))"

definition trans_lb :: "'d plat \<Rightarrow> arg_i \<Rightarrow> 'd trans" where
  "trans_lb p a c =
    (let addr = get_address c (i_rs1 a) (i_imm a) in
     let c = set_exc_data addr c in
     rbind (ld_b p addr c) (\<lambda>(dest, c).
     let c = SET_GPR_64 (i_rd a) dest c in
     let c = SET_SRC1_DST_ADDR (i_rs1 a) (i_rd a) c in
     let c = set_type T_LOAD c in
     Inr (True, c)))"

definition trans_lbu :: "'d plat \<Rightarrow> arg_i \<Rightarrow> 'd trans" where
  "trans_lbu p a c =
    (let addr = get_address c (i_rs1 a) (i_imm a) in
     let c = set_exc_data addr c in
     rbind (ld_b p addr c) (\<lambda>(dest, c).
     let dest = ucast (ucast dest :: u8) in
     let c = SET_GPR_64 (i_rd a) dest c in
     let c = SET_SRC1_DST_ADDR (i_rs1 a) (i_rd a) c in
     let c = set_type T_LOAD c in
     Inr (True, c)))"

definition trans_lh :: "'d plat \<Rightarrow> arg_i \<Rightarrow> 'd trans" where
  "trans_lh p a c =
    (let addr = get_address c (i_rs1 a) (i_imm a) in
     let c = set_exc_data addr c in
     rbind (ld_h p addr c) (\<lambda>(dest, c).
     let c = SET_GPR_64 (i_rd a) dest c in
     let c = SET_SRC1_DST_ADDR (i_rs1 a) (i_rd a) c in
     let c = set_type T_LOAD c in
     Inr (True, c)))"

definition trans_lhu :: "'d plat \<Rightarrow> arg_i \<Rightarrow> 'd trans" where
  "trans_lhu p a c =
    (let addr = get_address c (i_rs1 a) (i_imm a) in
     let c = set_exc_data addr c in
     rbind (ld_h p addr c) (\<lambda>(dest, c).
     let dest = ucast (ucast dest :: u16) in
     let c = SET_GPR_64 (i_rd a) dest c in
     let c = SET_SRC1_DST_ADDR (i_rs1 a) (i_rd a) c in
     let c = set_type T_LOAD c in
     Inr (True, c)))"

definition trans_lw :: "'d plat \<Rightarrow> arg_i \<Rightarrow> 'd trans" where
  "trans_lw p a c =
    (let addr = get_address c (i_rs1 a) (i_imm a) in
     let c = set_exc_data addr c in
     rbind (ld_w p addr c) (\<lambda>(dest, c).
     let c = SET_GPR_64 (i_rd a) dest c in
     let c = SET_SRC1_DST_ADDR (i_rs1 a) (i_rd a) c in
     let c = set_type T_LOAD c in
     Inr (True, c)))"

definition trans_lwu :: "'d plat \<Rightarrow> arg_i \<Rightarrow> 'd trans" where
  "trans_lwu p a c =
    (let addr = get_address c (i_rs1 a) (i_imm a) in
     let c = set_exc_data addr c in
     rbind (ld_w p addr c) (\<lambda>(dest, c).
     let dest = zx32 dest in
     let c = SET_GPR_64 (i_rd a) dest c in
     let c = SET_SRC1_DST_ADDR (i_rs1 a) (i_rd a) c in
     let c = set_type T_LOAD c in
     Inr (True, c)))"

definition trans_ld :: "'d plat \<Rightarrow> arg_i \<Rightarrow> 'd trans" where
  "trans_ld p a c =
    (let addr = get_address c (i_rs1 a) (i_imm a) in
     let c = set_exc_data addr c in
     rbind (ld_d p addr c) (\<lambda>(dest, c).
     let c = SET_GPR_64 (i_rd a) dest c in
     let c = SET_SRC1_DST_ADDR (i_rs1 a) (i_rd a) c in
     let c = set_type T_LOAD c in
     Inr (True, c)))"

definition trans_lr_w :: "'d plat \<Rightarrow> arg_atomic \<Rightarrow> 'd trans" where
  "trans_lr_w p a c =
    (let addr = get_address c (at_rs1 a) 0 in
     let c = set_exc_data addr c in
     rbind (ld_w p addr c) (\<lambda>(dest, c).
     let c = set_dst_idx 0 (ucast (at_rd a * 8)) c in
     let c = set_dst_mask 0 all1 c in
     let c = set_dst_data 0 dest c in
     let c = set_dst_idx 1 (of_nat ARCH_LOAD_VAL) c in
     let c = set_dst_mask 1 all1 c in
     let c = set_dst_data 1 dest c in
     let c = set_dst_idx 2 (of_nat ARCH_LOAD_RES) c in
     let c = set_dst_mask 2 all1 c in
     let c = set_dst_data 2 addr c in
     let c = SET_SRC1_DST_ADDR (at_rs1 a) (at_rd a) c in
     let c = set_type T_LR c in
     Inr (True, c)))"

definition trans_lr_d :: "'d plat \<Rightarrow> arg_atomic \<Rightarrow> 'd trans" where
  "trans_lr_d p a c =
    (let addr = get_address c (at_rs1 a) 0 in
     let c = set_exc_data addr c in
     rbind (ld_d p addr c) (\<lambda>(dest, c).
     let c = set_dst_idx 0 (ucast (at_rd a * 8)) c in
     let c = set_dst_mask 0 all1 c in
     let c = set_dst_data 0 dest c in
     let c = set_dst_idx 1 (of_nat ARCH_LOAD_VAL) c in
     let c = set_dst_mask 1 all1 c in
     let c = set_dst_data 1 dest c in
     let c = set_dst_idx 2 (of_nat ARCH_LOAD_RES) c in
     let c = set_dst_mask 2 all1 c in
     let c = set_dst_data 2 addr c in
     let c = SET_SRC1_DST_ADDR (at_rs1 a) (at_rd a) c in
     let c = set_type T_LR c in
     Inr (True, c)))"

definition trans_sc_w :: "'d plat \<Rightarrow> arg_atomic \<Rightarrow> 'd trans" where
  "trans_sc_w p a c =
     (let addr = get_address c (at_rs1 a) 0;
          c = set_exc_data addr c;
          src = get_gpr_64 c (at_rs2 a);
          failed = (\<lambda>c. Inr (set_dst 0 (ucast (at_rd a * 8)) all1 1 c));
          stored = (\<lambda>c. rbind (st_w p addr c) (\<lambda>(mem, c).
             Inr (set_dst_data 2 src (set_dst 0 (ucast (at_rd a * 8)) all1 0 c))))
      in rbind (if addr \<noteq> load_res (state c) then failed c
                else rbind (ld_w p addr c) (\<lambda>(v, c).
                       if v \<noteq> load_val (state c) then failed c else stored c)) (\<lambda>c.
         let c = set_dst 1 (of_nat ARCH_LOAD_RES) all1 all1 c;
             c = SET_SRC1_SRC2_ADDR (at_rs1 a) (at_rs2 a) c;
             c = set_type T_SC c
         in Inr (True, c)))"

definition trans_sc_d :: "'d plat \<Rightarrow> arg_atomic \<Rightarrow> 'd trans" where
  "trans_sc_d p a c =
     (let addr = get_address c (at_rs1 a) 0;
          c = set_exc_data addr c;
          src = get_gpr_64 c (at_rs2 a);
          failed = (\<lambda>c. Inr (set_dst 0 (ucast (at_rd a * 8)) all1 1 c));
          stored = (\<lambda>c. rbind (st_d p addr c) (\<lambda>(mem, c).
             Inr (set_dst_data 2 src (set_dst 0 (ucast (at_rd a * 8)) all1 0 c))))
      in rbind (if addr \<noteq> load_res (state c) then failed c
                else rbind (ld_d p addr c) (\<lambda>(v, c).
                       if v \<noteq> load_val (state c) then failed c else stored c)) (\<lambda>c.
         let c = set_dst 1 (of_nat ARCH_LOAD_RES) all1 all1 c;
             c = SET_SRC1_SRC2_ADDR (at_rs1 a) (at_rs2 a) c;
             c = set_type T_SC c
         in Inr (True, c)))"

definition trans_sb :: "'d plat \<Rightarrow> arg_s \<Rightarrow> 'd trans" where
  "trans_sb p a c =
    (let addr = get_address c (s_rs1 a) (s_imm a) in
     let c = set_exc_data addr c in
     let data = get_gpr_64 c (s_rs2 a) in
     rbind (st_b p addr c) (\<lambda>(mem, c).
     let c = set_dst_data 1 (ucast (ucast data :: u8)) c in
     let c = SET_SRC1_SRC2_ADDR (s_rs1 a) (s_rs2 a) c in
     let c = set_type T_STORE c in
     Inr (True, c)))"

definition trans_sh :: "'d plat \<Rightarrow> arg_s \<Rightarrow> 'd trans" where
  "trans_sh p a c =
    (let addr = get_address c (s_rs1 a) (s_imm a) in
     let c = set_exc_data addr c in
     let data = get_gpr_64 c (s_rs2 a) in
     rbind (st_h p addr c) (\<lambda>(mem, c).
     let c = set_dst_data 1 (ucast (ucast data :: u16)) c in
     let c = SET_SRC1_SRC2_ADDR (s_rs1 a) (s_rs2 a) c in
     let c = set_type T_STORE c in
     Inr (True, c)))"

definition trans_sw :: "'d plat \<Rightarrow> arg_s \<Rightarrow> 'd trans" where
  "trans_sw p a c =
    (let addr = get_address c (s_rs1 a) (s_imm a) in
     let c = set_exc_data addr c in
     let data = get_gpr_64 c (s_rs2 a) in
     rbind (st_w p addr c) (\<lambda>(mem, c).
     let c = set_dst_data 1 (zx32 data) c in
     let c = SET_SRC1_SRC2_ADDR (s_rs1 a) (s_rs2 a) c in
     let c = set_type T_STORE c in
     Inr (True, c)))"

definition trans_sd :: "'d plat \<Rightarrow> arg_s \<Rightarrow> 'd trans" where
  "trans_sd p a c =
    (let addr = get_address c (s_rs1 a) (s_imm a) in
     let c = set_exc_data addr c in
     let data = get_gpr_64 c (s_rs2 a) in
     rbind (st_d p addr c) (\<lambda>(mem, c).
     let c = set_dst_data 1 (data) c in
     let c = SET_SRC1_SRC2_ADDR (s_rs1 a) (s_rs2 a) c in
     let c = set_type T_STORE c in
     Inr (True, c)))"

end
