(* ===== verification/Csr.thy ===== *)
theory Csr
  imports Interp
begin

text \<open>
  The control and status registers of src/src/arch/riscv/riscvarch.cpp: the read, write and
  read-modify-write functions, the table initOps fills, and the access path riscv_csrrw of
  src/src/arch/riscv/interpreter.cpp.  The predicate functions of the table are never called, the
  code only tests that the pointer is set.
\<close>

section \<open>Masks of csrdefines.h\<close>

definition MSTATUS_MASK :: u64 where
  "MSTATUS_MASK = 0x2 OR 0x20 OR 0x8 OR 0x80 OR 0x100 OR 0x20000 OR 0x40000 OR 0x1800 OR 0x80000
     OR 0x100000 OR 0x400000 OR 0x200000 OR 0x6000"

definition SSTATUS_MASK :: u64 where
  "SSTATUS_MASK = 0x2 OR 0x20 OR 0x1 OR 0x10 OR 0x100 OR 0x6000 OR 0x18000 OR 0x40000 OR 0x80000"

definition MSTATUS64_UXL :: u64 where "MSTATUS64_UXL = 0x0000000300000000"
definition MSTATUS64_SXL :: u64 where "MSTATUS64_SXL = 0x0000000C00000000"

definition M_MODE_INTERRUPTS :: u64 where
  "M_MODE_INTERRUPTS = push_bit 3 1 OR push_bit 7 1 OR push_bit 11 1"
definition S_MODE_INTERRUPTS :: u64 where
  "S_MODE_INTERRUPTS = push_bit 1 1 OR push_bit 5 1 OR push_bit 9 1"
definition LOCAL_INTERRUPTS :: u64 where "LOCAL_INTERRUPTS = NOT 0x1FFF"

definition delegable_ints :: u64 where "delegable_ints = S_MODE_INTERRUPTS"
definition all_ints :: u64 where
  "all_ints = M_MODE_INTERRUPTS OR S_MODE_INTERRUPTS OR LOCAL_INTERRUPTS"

definition DELEGABLE_EXCPS :: u64 where
  "DELEGABLE_EXCPS = push_bit 0 1 OR push_bit 1 1 OR push_bit 2 1 OR push_bit 3 1 OR push_bit 4 1
     OR push_bit 5 1 OR push_bit 6 1 OR push_bit 7 1 OR push_bit 8 1 OR push_bit 9 1 OR push_bit 11 1
     OR push_bit 12 1 OR push_bit 13 1 OR push_bit 15 1 OR push_bit 16 1 OR push_bit 19 1"

definition MENVCFG_MASK :: u64 where
  "MENVCFG_MASK = push_bit 0 1 OR push_bit 4 3 OR push_bit 6 1 OR push_bit 7 1"

definition FSR_AEXC :: u64 where "FSR_AEXC = 0x10 OR 0x04 OR 0x02 OR 0x08 OR 0x01"
definition FSR_RD :: u64 where "FSR_RD = push_bit 5 0x7"

abbreviation (input) CSR_PMPCFG0 :: u32 where "CSR_PMPCFG0 \<equiv> 0x3a0"
abbreviation (input) CSR_PMPADDR0 :: u32 where "CSR_PMPADDR0 \<equiv> 0x3b0"

lemmas mask_defs = MSTATUS_MASK_def SSTATUS_MASK_def MSTATUS64_UXL_def MSTATUS64_SXL_def
  M_MODE_INTERRUPTS_def S_MODE_INTERRUPTS_def LOCAL_INTERRUPTS_def delegable_ints_def all_ints_def
  DELEGABLE_EXCPS_def MENVCFG_MASK_def FSR_AEXC_def FSR_RD_def

section \<open>The accessors\<close>

text \<open>
  A read function gets the value its out-parameter holds (it keeps it when it faults before storing);
  a read-modify-write function is always called with a place for the old value.
\<close>

type_synonym 'd csr_read_fn = "u32 \<Rightarrow> u64 \<Rightarrow> 'd machine \<Rightarrow> (u64 \<times> 'd machine) res"
type_synonym 'd csr_write_fn = "u32 \<Rightarrow> u64 \<Rightarrow> 'd machine \<Rightarrow> 'd machine res"
type_synonym 'd csr_op_fn = "u32 \<Rightarrow> u64 \<Rightarrow> u64 \<Rightarrow> 'd machine \<Rightarrow> (u64 \<times> 'd machine) res"

record 'd riscv_csr_operations =
  csr_name :: string
  csr_pred :: bool
  csr_read :: "'d csr_read_fn option"
  csr_write :: "'d csr_write_fn option"
  csr_op :: "'d csr_op_fn option"

definition mk_csr :: "string \<Rightarrow> bool \<Rightarrow> 'd csr_read_fn option \<Rightarrow> 'd csr_write_fn option \<Rightarrow> 'd csr_op_fn option \<Rightarrow>
    'd riscv_csr_operations" where
  "mk_csr n pr r w f = \<lparr> csr_name = n, csr_pred = pr, csr_read = r, csr_write = w, csr_op = f \<rparr>"

definition read_fflags :: "'d csr_read_fn" where
  "read_fflags csrno v c =
     (if mstatus (state c) AND MSTATUS_FS = 0 then Inr (v, set_exception EXC_II c)
      else let c = upd_state (\<lambda>s. s\<lparr> mstatus := mstatus s OR MSTATUS_FS \<rparr>) c in
           Inr (ucast (fs_flags (fp_status (state c))), c))"

definition read_frm :: "'d csr_read_fn" where
  "read_frm csrno v c =
     (if mstatus (state c) AND MSTATUS_FS = 0 then Inr (v, set_exception EXC_II c)
      else let c = upd_state (\<lambda>s. s\<lparr> mstatus := mstatus s OR MSTATUS_FS \<rparr>) c in
           Inr (ucast (frm (state c)), c))"

definition read_fcsr :: "'d csr_read_fn" where
  "read_fcsr csrno v c =
     (if mstatus (state c) AND MSTATUS_FS = 0 then Inr (v, set_exception EXC_II c)
      else let c = upd_state (\<lambda>s. s\<lparr> mstatus := mstatus s OR MSTATUS_FS \<rparr>) c in
           Inr (ucast (fs_flags (fp_status (state c))) OR push_bit 5 (ucast (frm (state c))), c))"

definition read_time :: "'d csr_read_fn" where
  "read_time csrno v c =
     Inr (tick c, c)"

definition read_cycle :: "'d csr_read_fn" where
  "read_cycle csrno v c =
     Inr (tick c, c)"

definition read_noop :: "'d csr_read_fn" where
  "read_noop csrno v c =
     Inr (0, c)"

definition read_instret :: "'d csr_read_fn" where
  "read_instret csrno v c =
     Inr (instret c, c)"

definition read_mvendorid :: "'d csr_read_fn" where
  "read_mvendorid csrno v c =
     Inr (ucast (mvendorid (state c)), c)"

definition read_marchid :: "'d csr_read_fn" where
  "read_marchid csrno v c =
     Inr (marchid (state c), c)"

definition read_mimpid :: "'d csr_read_fn" where
  "read_mimpid csrno v c =
     Inr (mimpid (state c), c)"

definition read_mhartid :: "'d csr_read_fn" where
  "read_mhartid csrno v c =
     Inr (mhartid (state c), c)"

definition read_misa :: "'d csr_read_fn" where
  "read_misa csrno v c =
     Inr (misa (state c), c)"

definition read_medeleg :: "'d csr_read_fn" where
  "read_medeleg csrno v c =
     Inr (medeleg (state c), c)"

definition read_mtvec :: "'d csr_read_fn" where
  "read_mtvec csrno v c =
     Inr (mtvec (state c), c)"

definition read_mcounteren :: "'d csr_read_fn" where
  "read_mcounteren csrno v c =
     Inr (mcounteren (state c), c)"

definition read_mscratch :: "'d csr_read_fn" where
  "read_mscratch csrno v c =
     Inr (mscratch (state c), c)"

definition read_mepc :: "'d csr_read_fn" where
  "read_mepc csrno v c =
     Inr (mepc (state c), c)"

definition read_mcause :: "'d csr_read_fn" where
  "read_mcause csrno v c =
     Inr (mcause (state c), c)"

definition read_mtval :: "'d csr_read_fn" where
  "read_mtval csrno v c =
     Inr (mtval (state c), c)"

definition read_menvcfg :: "'d csr_read_fn" where
  "read_menvcfg csrno v c =
     Inr (menvcfg (state c), c)"

definition read_senvcfg :: "'d csr_read_fn" where
  "read_senvcfg csrno v c =
     Inr (senvcfg (state c), c)"

definition read_stvec :: "'d csr_read_fn" where
  "read_stvec csrno v c =
     Inr (stvec (state c), c)"

definition read_scounteren :: "'d csr_read_fn" where
  "read_scounteren csrno v c =
     Inr (scounteren (state c), c)"

definition read_sscratch :: "'d csr_read_fn" where
  "read_sscratch csrno v c =
     Inr (sscratch (state c), c)"

definition read_sepc :: "'d csr_read_fn" where
  "read_sepc csrno v c =
     Inr (sepc (state c), c)"

definition read_scause :: "'d csr_read_fn" where
  "read_scause csrno v c =
     Inr (scause (state c), c)"

definition read_stval :: "'d csr_read_fn" where
  "read_stval csrno v c =
     Inr (stval (state c), c)"

definition read_satp :: "'d csr_read_fn" where
  "read_satp csrno v c =
     Inr (satp (state c), c)"

definition read_mcountinhibit :: "'d csr_read_fn" where
  "read_mcountinhibit csrno v c =
     Inr (mcountinhibit (state c), c)"

definition read_mstatus :: "'d csr_read_fn" where
  "read_mstatus csrno v c =
     Inr ((mstatus (state c) AND (MSTATUS_MASK OR MSTATUS64_UXL OR MSTATUS64_SXL)) OR
         push_bit 63 (of_bool (mstatus (state c) AND MSTATUS_FS = MSTATUS_FS)), c)"

definition read_sstatus :: "'d csr_read_fn" where
  "read_sstatus csrno v c =
     Inr ((mstatus (state c) AND (SSTATUS_MASK OR MSTATUS64_UXL)) OR
         push_bit 63 (of_bool (mstatus (state c) AND MSTATUS_FS = MSTATUS_FS)), c)"

definition read_pmpcfg :: "'d csr_read_fn" where
  "read_pmpcfg csrno v c =
     (let reg_index = csrno - CSR_PMPCFG0 in
      if reg_index AND 1 \<noteq> 0 then Inr (v, set_exception EXC_II c)
      else Inr (pmpcfg (state c) (unat (drop_bit 1 reg_index)), c))"

definition read_pmpaddr :: "'d csr_read_fn" where
  "read_pmpaddr csrno v c =
     (let reg_index = csrno - CSR_PMPADDR0 in Inr (pmpaddr (state c) (unat reg_index), c))"

definition write_fflags :: "'d csr_write_fn" where
  "write_fflags csrno val c =
     (if mstatus (state c) AND MSTATUS_FS = 0 then Inr (set_exception EXC_II c)
      else let c = upd_state (\<lambda>s. s\<lparr> mstatus := mstatus s OR MSTATUS_FS \<rparr>) c in
           Inr (set_dst 2 (of_nat ARCH_MSTATUS) MSTATUS_FS MSTATUS_FS
             (set_dst 1 (of_nat ARCH_FFLAGS) FSR_AEXC (val AND FSR_AEXC) c)))"

definition write_frm :: "'d csr_write_fn" where
  "write_frm csrno val c =
     (if mstatus (state c) AND MSTATUS_FS = 0 then Inr (set_exception EXC_II c)
      else let c = upd_state (\<lambda>s. s\<lparr> mstatus := mstatus s OR MSTATUS_FS \<rparr>) c in
           Inr (set_dst 2 (of_nat ARCH_MSTATUS) MSTATUS_FS MSTATUS_FS
             (set_dst 1 (of_nat ARCH_FRM) FSR_RD (drop_bit 5 (val AND FSR_RD)) c)))"

definition write_fcsr :: "'d csr_write_fn" where
  "write_fcsr csrno val c =
     (if mstatus (state c) AND MSTATUS_FS = 0 then Inr (set_exception EXC_II c)
      else let c = upd_state (\<lambda>s. s\<lparr> mstatus := mstatus s OR MSTATUS_FS \<rparr>) c in
           Inr (set_dst 2 (of_nat ARCH_MSTATUS) MSTATUS_FS MSTATUS_FS
             (set_dst 1 (of_nat ARCH_FRM) (push_bit 8 FSR_AEXC OR FSR_RD)
               (push_bit 8 (val AND FSR_AEXC) OR drop_bit 5 (val AND FSR_RD)) c)))"

definition write_mhpmcounter :: "'d csr_write_fn" where
  "write_mhpmcounter csrno val c =
     Inl (AssertFail ''0'')"

definition write_misa :: "'d csr_write_fn" where
  "write_misa csrno val c =
     Inr (set_exception EXC_II c)"

definition write_mstatus :: "'d csr_write_fn" where
  "write_mstatus csrno val c =
     Inr (set_dst 1 (of_nat ARCH_MSTATUS) MSTATUS_MASK val c)"

definition write_sstatus :: "'d csr_write_fn" where
  "write_sstatus csrno val c =
     Inr (set_dst 1 (of_nat ARCH_MSTATUS) SSTATUS_MASK val c)"

definition write_medeleg :: "'d csr_write_fn" where
  "write_medeleg csrno val c =
     Inr (set_dst 1 (of_nat ARCH_MEDELEG) DELEGABLE_EXCPS val c)"

definition write_mtvec :: "'d csr_write_fn" where
  "write_mtvec csrno val c =
     Inr (set_dst 1 (of_nat ARCH_MTVEC) 0xfffffffffffffffd val c)"

definition write_stvec :: "'d csr_write_fn" where
  "write_stvec csrno val c =
     Inr (set_dst 1 (of_nat ARCH_STVEC) 0xfffffffffffffffd val c)"

definition write_mcounteren :: "'d csr_write_fn" where
  "write_mcounteren csrno val c =
     Inr (set_dst 1 (of_nat ARCH_MCOUNTEREN) 0x7 val c)"

definition write_scounteren :: "'d csr_write_fn" where
  "write_scounteren csrno val c =
     Inr (set_dst 1 (of_nat ARCH_SCOUNTEREN) 0x7 val c)"

definition write_mscratch :: "'d csr_write_fn" where
  "write_mscratch csrno val c =
     Inr (set_dst 1 (of_nat ARCH_MSCRATCH) all1 val c)"

definition write_mepc :: "'d csr_write_fn" where
  "write_mepc csrno val c =
     Inr (set_dst 1 (of_nat ARCH_MEPC) all1 val c)"

definition write_mcause :: "'d csr_write_fn" where
  "write_mcause csrno val c =
     Inr (set_dst 1 (of_nat ARCH_MCAUSE) all1 val c)"

definition write_mtval :: "'d csr_write_fn" where
  "write_mtval csrno val c =
     Inr (set_dst 1 (of_nat ARCH_MTVAL) all1 val c)"

definition write_sscratch :: "'d csr_write_fn" where
  "write_sscratch csrno val c =
     Inr (set_dst 1 (of_nat ARCH_SSCRATCH) all1 val c)"

definition write_sepc :: "'d csr_write_fn" where
  "write_sepc csrno val c =
     Inr (set_dst 1 (of_nat ARCH_SEPC) all1 val c)"

definition write_scause :: "'d csr_write_fn" where
  "write_scause csrno val c =
     Inr (set_dst 1 (of_nat ARCH_SCAUSE) all1 val c)"

definition write_stval :: "'d csr_write_fn" where
  "write_stval csrno val c =
     Inr (set_dst 1 (of_nat ARCH_STVAL) all1 val c)"

definition write_menvcfg :: "'d csr_write_fn" where
  "write_menvcfg csrno val c =
     Inr (set_dst 1 (of_nat ARCH_MENVCFG) MENVCFG_MASK val c)"

definition write_senvcfg :: "'d csr_write_fn" where
  "write_senvcfg csrno val c =
     Inr (set_dst 1 (of_nat ARCH_SENVCFG) MENVCFG_MASK val c)"

definition write_satp :: "'d csr_write_fn" where
  "write_satp csrno val c =
     (let mode = drop_bit 60 val in
      if mode = 0 \<or> mode = 8
      then Inr (set_dst 1 (of_nat ARCH_SATP) 0x800fffffffffffff val c) else Inr c)"

definition write_pmpcfg :: "'d csr_write_fn" where
  "write_pmpcfg csrno val c =
     (let reg_index = csrno - CSR_PMPCFG0 in
      if reg_index AND 1 \<noteq> 0 then Inr (set_exception EXC_II c)
      else Inr (set_dst 1 (of_nat ARCH_PMPCFG + ucast (push_bit 2 reg_index)) all1 val c))"

definition write_pmpaddr :: "'d csr_write_fn" where
  "write_pmpaddr csrno val c =
     (let reg_index = csrno - CSR_PMPADDR0
      in Inr (set_dst 1 (of_nat ARCH_PMPADDR + ucast (push_bit 3 reg_index)) 0xfffffffffffffc00 val c))"

definition write_noop :: "'d csr_write_fn" where
  "write_noop csrno val c =
     Inr c"

definition write_mcountinhibit :: "'d csr_write_fn" where
  "write_mcountinhibit csrno val c =
     Inr c"

definition rmw_mideleg :: "'d csr_op_fn" where
  "rmw_mideleg csrno new_val wr_mask c =
     Inr (mideleg (state c), set_dst 1 (of_nat ARCH_MIDELEG) (delegable_ints AND wr_mask) new_val c)"

definition rmw_mie :: "'d csr_op_fn" where
  "rmw_mie csrno new_val wr_mask c =
     Inr (mie (state c), set_dst 1 (of_nat ARCH_MIE) (all_ints AND wr_mask) new_val c)"

definition rmw_mip :: "'d csr_op_fn" where
  "rmw_mip csrno new_val wr_mask c =
     Inr (mip (state c), set_dst 1 (of_nat ARCH_MIP) (wr_mask AND delegable_ints) new_val c)"

definition rmw_sie :: "'d csr_op_fn" where
  "rmw_sie csrno new_val wr_mask c =
     rmw_mie csrno new_val (wr_mask AND mideleg (state c) AND (S_MODE_INTERRUPTS OR LOCAL_INTERRUPTS)) c"

definition rmw_sip :: "'d csr_op_fn" where
  "rmw_sip csrno new_val wr_mask c =
     rmw_mip csrno new_val (wr_mask AND mideleg (state c) AND (LOCAL_INTERRUPTS OR S_MODE_INTERRUPTS)) c"

definition csr_table :: "(u32 \<times> 'd riscv_csr_operations) list" where
  "csr_table =
    [(0x001, mk_csr ''fflags'' True (Some read_fflags) (Some write_fflags) (None)),
     (0x002, mk_csr ''frm'' True (Some read_frm) (Some write_frm) (None)),
     (0x003, mk_csr ''fcsr'' True (Some read_fcsr) (Some write_fcsr) (None)),
     (0xc00, mk_csr ''cycle'' True (Some read_cycle) (None) (None)),
     (0xc02, mk_csr ''instret'' True (Some read_instret) (None) (None)),
     (0xc01, mk_csr ''time'' True (Some read_time) (None) (None)),
     (0xb00, mk_csr ''mcycle'' True (Some read_cycle) (Some write_mhpmcounter) (None)),
     (0xb02, mk_csr ''minstret'' True (Some read_instret) (Some write_mhpmcounter) (None)),
     (0xf11, mk_csr ''mvendorid'' True (Some read_mvendorid) (None) (None)),
     (0xf12, mk_csr ''marchid'' True (Some read_marchid) (None) (None)),
     (0xf13, mk_csr ''mimpid'' True (Some read_mimpid) (None) (None)),
     (0xf14, mk_csr ''mhartid'' True (Some read_mhartid) (None) (None)),
     (0x300, mk_csr ''mstatus'' True (Some read_mstatus) (Some write_mstatus) (None)),
     (0x301, mk_csr ''misa'' True (Some read_misa) (Some write_misa) (None)),
     (0x303, mk_csr ''mideleg'' True (None) (None) (Some rmw_mideleg)),
     (0x302, mk_csr ''medeleg'' True (Some read_medeleg) (Some write_medeleg) (None)),
     (0x304, mk_csr ''mie'' True (None) (None) (Some rmw_mie)),
     (0x305, mk_csr ''mtvec'' True (Some read_mtvec) (Some write_mtvec) (None)),
     (0x306, mk_csr ''mcounteren'' True (Some read_mcounteren) (Some write_mcounteren) (None)),
     (0x340, mk_csr ''mscratch'' True (Some read_mscratch) (Some write_mscratch) (None)),
     (0x341, mk_csr ''mepc'' True (Some read_mepc) (Some write_mepc) (None)),
     (0x342, mk_csr ''mcause'' True (Some read_mcause) (Some write_mcause) (None)),
     (0x343, mk_csr ''mtval'' True (Some read_mtval) (Some write_mtval) (None)),
     (0x344, mk_csr ''mip'' True (None) (None) (Some rmw_mip)),
     (0x30a, mk_csr ''menvcfg'' True (Some read_menvcfg) (Some write_menvcfg) (None)),
     (0x10a, mk_csr ''senvcfg'' True (Some read_senvcfg) (Some write_senvcfg) (None)),
     (0x100, mk_csr ''sstatus'' True (Some read_sstatus) (Some write_sstatus) (None)),
     (0x104, mk_csr ''sie'' True (None) (None) (Some rmw_sie)),
     (0x105, mk_csr ''stvec'' True (Some read_stvec) (Some write_stvec) (None)),
     (0x106, mk_csr ''scounteren'' True (Some read_scounteren) (Some write_scounteren) (None)),
     (0x140, mk_csr ''sscratch'' True (Some read_sscratch) (Some write_sscratch) (None)),
     (0x141, mk_csr ''sepc'' True (Some read_sepc) (Some write_sepc) (None)),
     (0x142, mk_csr ''scause'' True (Some read_scause) (Some write_scause) (None)),
     (0x143, mk_csr ''stval'' True (Some read_stval) (Some write_stval) (None)),
     (0x144, mk_csr ''sip'' True (None) (None) (Some rmw_sip)),
     (0x180, mk_csr ''satp'' True (Some read_satp) (Some write_satp) (None)),
     (0x3a0, mk_csr ''pmpcfg0'' True (Some read_pmpcfg) (Some write_pmpcfg) (None)),
     (0x3a1, mk_csr ''pmpcfg1'' True (Some read_pmpcfg) (Some write_pmpcfg) (None)),
     (0x3a2, mk_csr ''pmpcfg2'' True (Some read_pmpcfg) (Some write_pmpcfg) (None)),
     (0x3a3, mk_csr ''pmpcfg3'' True (Some read_pmpcfg) (Some write_pmpcfg) (None)),
     (0x3b0, mk_csr ''pmpaddr0'' True (Some read_pmpaddr) (Some write_pmpaddr) (None)),
     (0x3b1, mk_csr ''pmpaddr1'' True (Some read_pmpaddr) (Some write_pmpaddr) (None)),
     (0x3b2, mk_csr ''pmpaddr2'' True (Some read_pmpaddr) (Some write_pmpaddr) (None)),
     (0x3b3, mk_csr ''pmpaddr3'' True (Some read_pmpaddr) (Some write_pmpaddr) (None)),
     (0x3b4, mk_csr ''pmpaddr4'' True (Some read_pmpaddr) (Some write_pmpaddr) (None)),
     (0x3b5, mk_csr ''pmpaddr5'' True (Some read_pmpaddr) (Some write_pmpaddr) (None)),
     (0x3b6, mk_csr ''pmpaddr6'' True (Some read_pmpaddr) (Some write_pmpaddr) (None)),
     (0x3b7, mk_csr ''pmpaddr7'' True (Some read_pmpaddr) (Some write_pmpaddr) (None)),
     (0x3b8, mk_csr ''pmpaddr8'' True (Some read_pmpaddr) (Some write_pmpaddr) (None)),
     (0x3b9, mk_csr ''pmpaddr9'' True (Some read_pmpaddr) (Some write_pmpaddr) (None)),
     (0x3ba, mk_csr ''pmpaddr10'' True (Some read_pmpaddr) (Some write_pmpaddr) (None)),
     (0x3bb, mk_csr ''pmpaddr11'' True (Some read_pmpaddr) (Some write_pmpaddr) (None)),
     (0x3bc, mk_csr ''pmpaddr12'' True (Some read_pmpaddr) (Some write_pmpaddr) (None)),
     (0x3bd, mk_csr ''pmpaddr13'' True (Some read_pmpaddr) (Some write_pmpaddr) (None)),
     (0x3be, mk_csr ''pmpaddr14'' True (Some read_pmpaddr) (Some write_pmpaddr) (None)),
     (0x3bf, mk_csr ''pmpaddr15'' True (Some read_pmpaddr) (Some write_pmpaddr) (None)),
     (0x320, mk_csr ''mcountinhibit'' True (Some read_mcountinhibit) (Some write_mcountinhibit) (None))]"

text \<open>
  The table after initOps: the loop at its end sets the hardware performance counters, the entries
  never assigned are all null.
\<close>

definition csr_ops :: "u32 \<Rightarrow> 'd riscv_csr_operations" where
  "csr_ops n =
    (if 0xc03 \<le> n \<and> n < 0xc03 + 29
       then mk_csr ''hpmcounter'' True (Some read_noop) (Some write_noop) None
     else if 0xb03 \<le> n \<and> n < 0xb03 + 29
       then mk_csr ''mhpmcounter'' True (Some read_noop) (Some write_noop) None
     else (case map_of csr_table n of Some e \<Rightarrow> e | None \<Rightarrow> mk_csr '''' False None None None))"

section \<open>The access path\<close>

definition riscv_csrrw_check :: "u32 \<Rightarrow> bool \<Rightarrow> 'd machine \<Rightarrow> bool \<times> 'd machine" where
  "riscv_csrrw_check csrno wr c =
    (let readOnly = (signed_drop_bit 10 csrno = 3) in
     if \<not> csr_pred (csr_ops csrno :: 'd riscv_csr_operations) \<or> wr \<and> readOnly
     then (False, set_exc_data (ucast (inst (info c))) (set_exception EXC_II c))
     else (True, c))"

text \<open>The callers pass a non-null ret_value whose cell holds ret.\<close>

definition riscv_csrrw :: "u32 \<Rightarrow> u64 \<Rightarrow> u64 \<Rightarrow> u64 \<Rightarrow> 'd machine \<Rightarrow> (u64 \<times> 'd machine) res" where
  "riscv_csrrw csrno ret new_value write_mask c =
    (case csr_op (csr_ops csrno) of
       Some f \<Rightarrow> f csrno new_value write_mask c
     | None \<Rightarrow>
         (case csr_read (csr_ops csrno) of
            None \<Rightarrow> Inl NullDeref
          | Some rd \<Rightarrow>
              rbind (rd csrno 0 c) (\<lambda>(old_value, c1).
                if exception (info c1) \<noteq> EXC_NONE then Inr (ret, c1)
                else if write_mask \<noteq> 0 then
                  (case csr_write (csr_ops csrno) of
                     None \<Rightarrow> Inl NullDeref
                   | Some wr \<Rightarrow>
                       rbind (wr csrno (mask_merge old_value write_mask new_value) c1)
                         (\<lambda>c2. Inr (old_value, c2)))
                else Inr (old_value, c1))))"

definition do_csrr :: "'d plat \<Rightarrow> u32 \<Rightarrow> u32 \<Rightarrow> 'd machine \<Rightarrow> 'd machine res" where
  "do_csrr p rd rc c =
    (let (ok, c) = riscv_csrrw_check rc False c in
     if \<not> ok then Inr c
     else rbind (riscv_csrrw rc (uninit p) 0 0 c) (\<lambda>(dest, c).
            Inr (set_dst 0 (ucast (rd * 8)) all1 dest c)))"

definition do_csrrw :: "'d plat \<Rightarrow> u32 \<Rightarrow> u32 \<Rightarrow> u64 \<Rightarrow> u64 \<Rightarrow> 'd machine \<Rightarrow> 'd machine res" where
  "do_csrrw p rd rc src msk c =
    (let (ok, c) = riscv_csrrw_check rc True c in
     if \<not> ok then Inr c
     else rbind (riscv_csrrw rc (uninit p) src msk c) (\<lambda>(dest, c).
            Inr (set_dst 0 (ucast (rd * 8)) all1 dest c)))"

end
