(* ===== verification/Exec_Sys.thy ===== *)
theory Exec_Sys
  imports Exec_Alu Csr
begin

text \<open>
  The CSR instructions, fences, calls, returns and the fence of the address translation of
  src/src/arch/riscv/interpreter.cpp.
\<close>

definition trans_csrrc :: "'d plat \<Rightarrow> arg_decode_insn3218 \<Rightarrow> 'd trans" where
  "trans_csrrc p a c =
     (let v = get_gpr_64 c (cs_rs1 a) in
      rbind (if cs_rs1 a = 0 then do_csrr p (cs_rd a) (cs_csr a) c
             else do_csrrw p (cs_rd a) (cs_csr a) 0 v c) (\<lambda>c.
        let c = SET_SRC1_DST (cs_rs1 a) (cs_rd a) c;
            c = set_type T_CSRWR c
        in Inr (True, c)))"

definition trans_csrrci :: "'d plat \<Rightarrow> arg_decode_insn3218 \<Rightarrow> 'd trans" where
  "trans_csrrci p a c =
     (let v = sx (cs_rs1 a) in
      rbind (if cs_rs1 a = 0 then do_csrr p (cs_rd a) (cs_csr a) c
             else do_csrrw p (cs_rd a) (cs_csr a) 0 v c) (\<lambda>c.
        let c = SET_SRC0_DST (cs_rd a) c;
            c = set_type T_CSRWR c
        in Inr (True, c)))"

definition trans_csrrs :: "'d plat \<Rightarrow> arg_decode_insn3218 \<Rightarrow> 'd trans" where
  "trans_csrrs p a c =
     (let v = get_gpr_64 c (cs_rs1 a) in
      rbind (if cs_rs1 a = 0 then do_csrr p (cs_rd a) (cs_csr a) c
             else do_csrrw p (cs_rd a) (cs_csr a) all1 v c) (\<lambda>c.
        let c = SET_SRC1_DST (cs_rs1 a) (cs_rd a) c;
            c = set_type T_CSRWR c
        in Inr (True, c)))"

definition trans_csrrsi :: "'d plat \<Rightarrow> arg_decode_insn3218 \<Rightarrow> 'd trans" where
  "trans_csrrsi p a c =
     (let v = sx (cs_rs1 a) in
      rbind (if cs_rs1 a = 0 then do_csrr p (cs_rd a) (cs_csr a) c
             else do_csrrw p (cs_rd a) (cs_csr a) all1 v c) (\<lambda>c.
        let c = SET_SRC0_DST (cs_rd a) c;
            c = set_type T_CSRWR c
        in Inr (True, c)))"

definition trans_csrrw :: "'d plat \<Rightarrow> arg_decode_insn3218 \<Rightarrow> 'd trans" where
  "trans_csrrw p a c =
     (let v = get_gpr_64 c (cs_rs1 a) in
      rbind (do_csrrw p (cs_rd a) (cs_csr a) v all1 c) (\<lambda>c.
        let c = SET_SRC1_DST (cs_rs1 a) (cs_rd a) c;
            c = set_type T_CSRWR c
        in Inr (True, c)))"

definition trans_csrrwi :: "'d plat \<Rightarrow> arg_decode_insn3218 \<Rightarrow> 'd trans" where
  "trans_csrrwi p a c =
     (let v = sx (cs_rs1 a) in
      rbind (do_csrrw p (cs_rd a) (cs_csr a) v all1 c) (\<lambda>c.
        let c = SET_SRC0_DST (cs_rd a) c;
            c = set_type T_CSRWR c
        in Inr (True, c)))"

definition trans_fence :: "arg_decode_insn3227 \<Rightarrow> 'd trans" where
  "trans_fence a c =
    (let c = set_type T_FENCE c in
     Inr (True, c))"

definition trans_fence_i :: "'d trans" where
  "trans_fence_i c =
    (let c = set_type T_IFENCE c in
     Inr (True, c))"

definition trans_pause :: "'d trans" where
  "trans_pause c =
     Inr (True, set_type T_INT c)"

definition trans_sret :: "'d trans" where
  "trans_sret c =
     (let c = (if \<not> (MODE_S \<le> priv (state c))
                then set_exc_data (ucast (inst (info c))) (set_exception EXC_II c)
                else set_exception EXC_SRET c);
          c = set_type T_SRET c
      in Inr (True, c))"

definition trans_mret :: "'d trans" where
  "trans_mret c =
     (let c = (if \<not> (MODE_M \<le> priv (state c))
                then set_exc_data (ucast (inst (info c))) (set_exception EXC_II c)
                else set_exception EXC_MRET c);
          c = set_type T_MRET c
      in Inr (True, c))"

definition trans_wfi :: "'d trans" where
  "trans_wfi c =
    (let c = set_type T_INT c in
     Inr (True, c))"

definition trans_ebreak :: "'d trans" where
  "trans_ebreak c =
     Inr (True, set_type T_CSRWR (set_exception EXC_BP (set_exc_data (env_pc c) c)))"

definition trans_ecall :: "'d trans" where
  "trans_ecall c =
     Inr (True, set_type T_CSRWR (set_exc_data (ucast (inst (info c)))
       (set_exception (EXC_ECU + priv (state c)) c)))"

definition trans_sfence_vma :: "arg_r2_s \<Rightarrow> 'd trans" where
  "trans_sfence_vma a c =
    (let src1 = get_gpr_64 c (r2s_rs1 a) in
     let src2 = get_gpr_64 c (r2s_rs2 a) in
     let c = set_dst_data 1 (src1) c in
     let c = set_dst_data 2 (src2) c in
     let c = set_type T_SFENCE c in
     let c = SET_SRC2 (r2s_rs1 a) (r2s_rs2 a) c in
     Inr (True, c))"

end
