(* ===== verification/Exec_Fp.thy ===== *)
theory Exec_Fp
  imports Exec_Alu
begin

text \<open>
  The floating-point instructions of src/src/arch/riscv/interpreter.cpp over the softfloat functions
  of the platform record.
\<close>

definition trans_fcvt_d_l :: "'d plat \<Rightarrow> arg_decode_insn3221 \<Rightarrow> 'd trans" where
  "trans_fcvt_d_l p a c =
     REQUIRE_FPU c (\<lambda>c.
     let src = get_gpr_64 c (f2_rs1 a) in
     let c = setrm (f2_rm a) c in
     let (v, c) = sf_call p SF_int64_to_float64 [src] c; dest = v in
     let c = SET_FPR_64 (f2_rd a) dest c in
     let c = SET_SRC1_DSTF (f2_rs1 a) (f2_rd a) c in
     let c = set_type T_FMISC_SIMPLE c in
     Inr (True, c))"

definition trans_fcvt_d_lu :: "'d plat \<Rightarrow> arg_decode_insn3221 \<Rightarrow> 'd trans" where
  "trans_fcvt_d_lu p a c =
     REQUIRE_FPU c (\<lambda>c.
     let src = get_gpr_64 c (f2_rs1 a) in
     let c = setrm (f2_rm a) c in
     let (v, c) = sf_call p SF_uint64_to_float64 [src] c; dest = v in
     let c = SET_FPR_64 (f2_rd a) dest c in
     let c = SET_SRC1_DSTF (f2_rs1 a) (f2_rd a) c in
     let c = set_type T_FMISC_SIMPLE c in
     Inr (True, c))"

definition trans_fcvt_d_s :: "'d plat \<Rightarrow> arg_decode_insn3221 \<Rightarrow> 'd trans" where
  "trans_fcvt_d_s p a c =
     REQUIRE_FPU c (\<lambda>c.
     let src = check_nanbox_s (get_gpr_64 c (f2_rs1 a)) in
     let c = setrm (f2_rm a) c in
     let (v, c) = sf_call p SF_float32_to_float64 [zx32 src] c; dest = v in
     let c = SET_FPR_64 (f2_rd a) dest c in
     let c = SET_SRC1F_DSTF (f2_rs1 a) (f2_rd a) c in
     let c = set_type T_FMISC_SIMPLE c in
     Inr (True, c))"

definition trans_fcvt_d_w :: "'d plat \<Rightarrow> arg_decode_insn3221 \<Rightarrow> 'd trans" where
  "trans_fcvt_d_w p a c =
     REQUIRE_FPU c (\<lambda>c.
     let src = get_gpr_64 c (f2_rs1 a) in
     let c = setrm (f2_rm a) c in
     let (v, c) = sf_call p SF_int32_to_float64 [zx32 src] c; dest = v in
     let c = SET_FPR_64 (f2_rd a) dest c in
     let c = SET_SRC1_DSTF (f2_rs1 a) (f2_rd a) c in
     let c = set_type T_FMISC_SIMPLE c in
     Inr (True, c))"

definition trans_fcvt_d_wu :: "'d plat \<Rightarrow> arg_decode_insn3221 \<Rightarrow> 'd trans" where
  "trans_fcvt_d_wu p a c =
     REQUIRE_FPU c (\<lambda>c.
     let src = get_gpr_64 c (f2_rs1 a) in
     let c = setrm (f2_rm a) c in
     let (v, c) = sf_call p SF_uint32_to_float64 [zx32 src] c; dest = v in
     let c = SET_FPR_64 (f2_rd a) dest c in
     let c = SET_SRC1_DSTF (f2_rs1 a) (f2_rd a) c in
     let c = set_type T_FMISC_SIMPLE c in
     Inr (True, c))"

definition trans_fcvt_l_d :: "'d plat \<Rightarrow> arg_decode_insn3221 \<Rightarrow> 'd trans" where
  "trans_fcvt_l_d p a c =
     REQUIRE_FPU c (\<lambda>c.
     let src = get_fpr_64 c (f2_rs1 a) in
     let c = setrm (f2_rm a) c in
     let (v, c) = sf_call p SF_float64_to_int64 [src] c; dest = v in
     let c = SET_GPR_64 (f2_rd a) dest c in
     let c = SET_SRC1F_DST (f2_rs1 a) (f2_rd a) c in
     let c = set_type T_FMISC_COMPLEX c in
     Inr (True, c))"

definition trans_fcvt_l_s :: "'d plat \<Rightarrow> arg_decode_insn3221 \<Rightarrow> 'd trans" where
  "trans_fcvt_l_s p a c =
     REQUIRE_FPU c (\<lambda>c.
     let src = check_nanbox_s (get_fpr_64 c (f2_rs1 a)) in
     let c = setrm (f2_rm a) c in
     let (v, c) = sf_call p SF_float32_to_int64 [zx32 src] c; dest = v in
     let c = SET_GPR_64 (f2_rd a) dest c in
     let c = SET_SRC1F_DST (f2_rs1 a) (f2_rd a) c in
     let c = set_type T_FMISC_COMPLEX c in
     Inr (True, c))"

definition trans_fcvt_lu_d :: "'d plat \<Rightarrow> arg_decode_insn3221 \<Rightarrow> 'd trans" where
  "trans_fcvt_lu_d p a c =
     REQUIRE_FPU c (\<lambda>c.
     let src = get_fpr_64 c (f2_rs1 a) in
     let c = setrm (f2_rm a) c in
     let (v, c) = sf_call p SF_float64_to_uint64 [src] c; dest = v in
     let c = SET_GPR_64 (f2_rd a) dest c in
     let c = SET_SRC1F_DST (f2_rs1 a) (f2_rd a) c in
     let c = set_type T_FMISC_COMPLEX c in
     Inr (True, c))"

definition trans_fcvt_lu_s :: "'d plat \<Rightarrow> arg_decode_insn3221 \<Rightarrow> 'd trans" where
  "trans_fcvt_lu_s p a c =
     REQUIRE_FPU c (\<lambda>c.
     let src = check_nanbox_s (get_fpr_64 c (f2_rs1 a)) in
     let c = setrm (f2_rm a) c in
     let (v, c) = sf_call p SF_float32_to_uint64 [zx32 src] c; dest = v in
     let c = SET_GPR_64 (f2_rd a) dest c in
     let c = SET_SRC1F_DST (f2_rs1 a) (f2_rd a) c in
     let c = set_type T_FMISC_COMPLEX c in
     Inr (True, c))"

definition trans_fcvt_s_d :: "'d plat \<Rightarrow> arg_decode_insn3221 \<Rightarrow> 'd trans" where
  "trans_fcvt_s_d p a c =
     REQUIRE_FPU c (\<lambda>c.
     let src = get_fpr_64 c (f2_rs1 a) in
     let c = setrm (f2_rm a) c in
     let (v, c) = sf_call p SF_float64_to_float32 [src] c; dest = nanbox_s (zx32 v) in
     let c = SET_FPR_64 (f2_rd a) dest c in
     let c = SET_SRC1F_DSTF (f2_rs1 a) (f2_rd a) c in
     let c = set_type T_FMISC_SIMPLE c in
     Inr (True, c))"

definition trans_fcvt_s_l :: "'d plat \<Rightarrow> arg_decode_insn3221 \<Rightarrow> 'd trans" where
  "trans_fcvt_s_l p a c =
     REQUIRE_FPU c (\<lambda>c.
     let src = get_gpr_64 c (f2_rs1 a) in
     let c = setrm (f2_rm a) c in
     let (v, c) = sf_call p SF_int64_to_float32 [src] c; dest = nanbox_s (zx32 v) in
     let c = SET_FPR_64 (f2_rd a) dest c in
     let c = SET_SRC1_DSTF (f2_rs1 a) (f2_rd a) c in
     let c = set_type T_FMISC_SIMPLE c in
     Inr (True, c))"

definition trans_fcvt_s_lu :: "'d plat \<Rightarrow> arg_decode_insn3221 \<Rightarrow> 'd trans" where
  "trans_fcvt_s_lu p a c =
     REQUIRE_FPU c (\<lambda>c.
     let src = get_gpr_64 c (f2_rs1 a) in
     let c = setrm (f2_rm a) c in
     let (v, c) = sf_call p SF_uint64_to_float32 [src] c; dest = nanbox_s (zx32 v) in
     let c = SET_FPR_64 (f2_rd a) dest c in
     let c = SET_SRC1_DSTF (f2_rs1 a) (f2_rd a) c in
     let c = set_type T_FMISC_SIMPLE c in
     Inr (True, c))"

definition trans_fcvt_s_w :: "'d plat \<Rightarrow> arg_decode_insn3221 \<Rightarrow> 'd trans" where
  "trans_fcvt_s_w p a c =
     REQUIRE_FPU c (\<lambda>c.
     let src = get_gpr_64 c (f2_rs1 a) in
     let c = setrm (f2_rm a) c in
     let (v, c) = sf_call p SF_int32_to_float32 [zx32 src] c; dest = nanbox_s (zx32 v) in
     let c = SET_FPR_64 (f2_rd a) dest c in
     let c = SET_SRC1_DSTF (f2_rs1 a) (f2_rd a) c in
     let c = set_type T_FMISC_SIMPLE c in
     Inr (True, c))"

definition trans_fcvt_s_wu :: "'d plat \<Rightarrow> arg_decode_insn3221 \<Rightarrow> 'd trans" where
  "trans_fcvt_s_wu p a c =
     REQUIRE_FPU c (\<lambda>c.
     let src = get_gpr_64 c (f2_rs1 a) in
     let c = setrm (f2_rm a) c in
     let (v, c) = sf_call p SF_uint32_to_float32 [zx32 src] c; dest = nanbox_s (zx32 v) in
     let c = SET_FPR_64 (f2_rd a) dest c in
     let c = SET_SRC1_DSTF (f2_rs1 a) (f2_rd a) c in
     let c = set_type T_FMISC_SIMPLE c in
     Inr (True, c))"

definition trans_fcvt_w_d :: "'d plat \<Rightarrow> arg_decode_insn3221 \<Rightarrow> 'd trans" where
  "trans_fcvt_w_d p a c =
     REQUIRE_FPU c (\<lambda>c.
     let src = get_fpr_64 c (f2_rs1 a) in
     let c = setrm (f2_rm a) c in
     let (v, c) = sf_call p SF_float64_to_int32 [src] c; dest = sx (ucast v) in
     let c = SET_GPR_64 (f2_rd a) dest c in
     let c = SET_SRC1F_DST (f2_rs1 a) (f2_rd a) c in
     let c = set_type T_FMISC_COMPLEX c in
     Inr (True, c))"

definition trans_fcvt_wu_d :: "'d plat \<Rightarrow> arg_decode_insn3221 \<Rightarrow> 'd trans" where
  "trans_fcvt_wu_d p a c =
     REQUIRE_FPU c (\<lambda>c.
     let src = get_fpr_64 c (f2_rs1 a) in
     let c = setrm (f2_rm a) c in
     let (v, c) = sf_call p SF_float64_to_uint32 [src] c; dest = zx32 v in
     let c = SET_GPR_64 (f2_rd a) dest c in
     let c = SET_SRC1F_DST (f2_rs1 a) (f2_rd a) c in
     let c = set_type T_FMISC_COMPLEX c in
     Inr (True, c))"

definition trans_fcvt_w_s :: "'d plat \<Rightarrow> arg_decode_insn3221 \<Rightarrow> 'd trans" where
  "trans_fcvt_w_s p a c =
     REQUIRE_FPU c (\<lambda>c.
     let src = check_nanbox_s (get_fpr_64 c (f2_rs1 a)) in
     let c = setrm (f2_rm a) c in
     let (v, c) = sf_call p SF_float32_to_int32 [zx32 src] c; dest = sx (ucast v) in
     let c = SET_GPR_64 (f2_rd a) dest c in
     let c = SET_SRC1F_DST (f2_rs1 a) (f2_rd a) c in
     let c = set_type T_FMISC_COMPLEX c in
     Inr (True, c))"

definition trans_fadd_d :: "'d plat \<Rightarrow> arg_decode_insn3220 \<Rightarrow> 'd trans" where
  "trans_fadd_d p a c =
     REQUIRE_FPU c (\<lambda>c.
     let src1 = get_fpr_64 c (f3_rs1 a) in
     let src2 = get_fpr_64 c (f3_rs2 a) in
     let c = setrm (f3_rm a) c in
     let (v, c) = sf_call p SF_float64_add [src1, src2] c; dest = v in
     let c = SET_FPR_64 (f3_rd a) dest c in
     let c = SET_SRC2F_DSTF (f3_rs1 a) (f3_rs2 a) (f3_rd a) c in
     let c = set_type T_FADD c in
     Inr (True, c))"

definition trans_fadd_s :: "'d plat \<Rightarrow> arg_decode_insn3220 \<Rightarrow> 'd trans" where
  "trans_fadd_s p a c =
     REQUIRE_FPU c (\<lambda>c.
     let src1 = check_nanbox_s (get_fpr_64 c (f3_rs1 a)) in
     let src2 = check_nanbox_s (get_fpr_64 c (f3_rs2 a)) in
     let c = setrm (f3_rm a) c in
     let (v, c) = sf_call p SF_float32_add [zx32 src1, zx32 src2] c; dest = nanbox_s (zx32 v) in
     let c = SET_FPR_64 (f3_rd a) dest c in
     let c = SET_SRC2F_DSTF (f3_rs1 a) (f3_rs2 a) (f3_rd a) c in
     let c = set_type T_FADD c in
     Inr (True, c))"

definition trans_fsub_d :: "'d plat \<Rightarrow> arg_decode_insn3220 \<Rightarrow> 'd trans" where
  "trans_fsub_d p a c =
     REQUIRE_FPU c (\<lambda>c.
     let src1 = get_fpr_64 c (f3_rs1 a) in
     let src2 = get_fpr_64 c (f3_rs2 a) in
     let c = setrm (f3_rm a) c in
     let (v, c) = sf_call p SF_float64_sub [src1, src2] c; dest = v in
     let c = SET_FPR_64 (f3_rd a) dest c in
     let c = SET_SRC2F_DSTF (f3_rs1 a) (f3_rs2 a) (f3_rd a) c in
     let c = set_type T_FADD c in
     Inr (True, c))"

definition trans_fsub_s :: "'d plat \<Rightarrow> arg_decode_insn3220 \<Rightarrow> 'd trans" where
  "trans_fsub_s p a c =
     REQUIRE_FPU c (\<lambda>c.
     let src1 = check_nanbox_s (get_fpr_64 c (f3_rs1 a)) in
     let src2 = check_nanbox_s (get_fpr_64 c (f3_rs2 a)) in
     let c = setrm (f3_rm a) c in
     let (v, c) = sf_call p SF_float32_sub [zx32 src1, zx32 src2] c; dest = nanbox_s (zx32 v) in
     let c = SET_FPR_64 (f3_rd a) dest c in
     let c = SET_SRC2F_DSTF (f3_rs1 a) (f3_rs2 a) (f3_rd a) c in
     let c = set_type T_FADD c in
     Inr (True, c))"

definition trans_fmul_d :: "'d plat \<Rightarrow> arg_decode_insn3220 \<Rightarrow> 'd trans" where
  "trans_fmul_d p a c =
     REQUIRE_FPU c (\<lambda>c.
     let src1 = get_fpr_64 c (f3_rs1 a) in
     let src2 = get_fpr_64 c (f3_rs2 a) in
     let c = setrm (f3_rm a) c in
     let (v, c) = sf_call p SF_float64_mul [src1, src2] c; dest = v in
     let c = SET_FPR_64 (f3_rd a) dest c in
     let c = SET_SRC2F_DSTF (f3_rs1 a) (f3_rs2 a) (f3_rd a) c in
     let c = set_type T_FMUL c in
     Inr (True, c))"

definition trans_fmul_s :: "'d plat \<Rightarrow> arg_decode_insn3220 \<Rightarrow> 'd trans" where
  "trans_fmul_s p a c =
     REQUIRE_FPU c (\<lambda>c.
     let src1 = check_nanbox_s (get_fpr_64 c (f3_rs1 a)) in
     let src2 = check_nanbox_s (get_fpr_64 c (f3_rs2 a)) in
     let c = setrm (f3_rm a) c in
     let (v, c) = sf_call p SF_float32_mul [zx32 src1, zx32 src2] c; dest = nanbox_s (zx32 v) in
     let c = SET_FPR_64 (f3_rd a) dest c in
     let c = SET_SRC2F_DSTF (f3_rs1 a) (f3_rs2 a) (f3_rd a) c in
     let c = set_type T_FMUL c in
     Inr (True, c))"

definition trans_fdiv_d :: "'d plat \<Rightarrow> arg_decode_insn3220 \<Rightarrow> 'd trans" where
  "trans_fdiv_d p a c =
     REQUIRE_FPU c (\<lambda>c.
     let src1 = get_fpr_64 c (f3_rs1 a) in
     let src2 = get_fpr_64 c (f3_rs2 a) in
     let c = setrm (f3_rm a) c in
     let (v, c) = sf_call p SF_float64_div [src1, src2] c; dest = v in
     let c = SET_FPR_64 (f3_rd a) dest c in
     let c = SET_SRC2F_DSTF (f3_rs1 a) (f3_rs2 a) (f3_rd a) c in
     let c = set_type T_FDIV c in
     Inr (True, c))"

definition trans_fdiv_s :: "'d plat \<Rightarrow> arg_decode_insn3220 \<Rightarrow> 'd trans" where
  "trans_fdiv_s p a c =
     REQUIRE_FPU c (\<lambda>c.
     let src1 = check_nanbox_s (get_fpr_64 c (f3_rs1 a)) in
     let src2 = check_nanbox_s (get_fpr_64 c (f3_rs2 a)) in
     let c = setrm (f3_rm a) c in
     let (v, c) = sf_call p SF_float32_div [zx32 src1, zx32 src2] c; dest = nanbox_s (zx32 v) in
     let c = SET_FPR_64 (f3_rd a) dest c in
     let c = SET_SRC2F_DSTF (f3_rs1 a) (f3_rs2 a) (f3_rd a) c in
     let c = set_type T_FDIV c in
     Inr (True, c))"

definition trans_feq_d :: "'d plat \<Rightarrow> arg_r \<Rightarrow> 'd trans" where
  "trans_feq_d p a c =
     REQUIRE_FPU c (\<lambda>c.
     let src1 = get_fpr_64 c (r_rs1 a) in
     let src2 = get_fpr_64 c (r_rs2 a) in
     let (v, c) = sf_call p SF_float64_eq_quiet [src1, src2] c; dest = of_bool (v \<noteq> 0) in
     let c = SET_GPR_64 (r_rd a) dest c in
     let c = SET_SRC2F_DST (r_rs1 a) (r_rs2 a) (r_rd a) c in
     let c = set_type T_FMISC_SIMPLE c in
     Inr (True, c))"

definition trans_fle_d :: "'d plat \<Rightarrow> arg_r \<Rightarrow> 'd trans" where
  "trans_fle_d p a c =
     REQUIRE_FPU c (\<lambda>c.
     let src1 = get_fpr_64 c (r_rs1 a) in
     let src2 = get_fpr_64 c (r_rs2 a) in
     let (v, c) = sf_call p SF_float64_le [src1, src2] c; dest = of_bool (v \<noteq> 0) in
     let c = SET_GPR_64 (r_rd a) dest c in
     let c = SET_SRC2F_DST (r_rs1 a) (r_rs2 a) (r_rd a) c in
     let c = set_type T_FMISC_SIMPLE c in
     Inr (True, c))"

definition trans_fle_s :: "'d plat \<Rightarrow> arg_r \<Rightarrow> 'd trans" where
  "trans_fle_s p a c =
     REQUIRE_FPU c (\<lambda>c.
     let src1 = check_nanbox_s (get_fpr_64 c (r_rs1 a)) in
     let src2 = check_nanbox_s (get_fpr_64 c (r_rs2 a)) in
     let (v, c) = sf_call p SF_float32_le [zx32 src1, zx32 src2] c; dest = of_bool (v \<noteq> 0) in
     let c = SET_GPR_64 (r_rd a) dest c in
     let c = SET_SRC2F_DST (r_rs1 a) (r_rs2 a) (r_rd a) c in
     let c = set_type T_FMISC_SIMPLE c in
     Inr (True, c))"

definition trans_flt_d :: "'d plat \<Rightarrow> arg_r \<Rightarrow> 'd trans" where
  "trans_flt_d p a c =
     REQUIRE_FPU c (\<lambda>c.
     let src1 = get_fpr_64 c (r_rs1 a) in
     let src2 = get_fpr_64 c (r_rs2 a) in
     let (v, c) = sf_call p SF_float64_lt [src1, src2] c; dest = of_bool (v \<noteq> 0) in
     let c = SET_GPR_64 (r_rd a) dest c in
     let c = SET_SRC2F_DST (r_rs1 a) (r_rs2 a) (r_rd a) c in
     let c = set_type T_FMISC_SIMPLE c in
     Inr (True, c))"

definition trans_flt_s :: "'d plat \<Rightarrow> arg_r \<Rightarrow> 'd trans" where
  "trans_flt_s p a c =
     REQUIRE_FPU c (\<lambda>c.
     let src1 = check_nanbox_s (get_fpr_64 c (r_rs1 a)) in
     let src2 = check_nanbox_s (get_fpr_64 c (r_rs2 a)) in
     let (v, c) = sf_call p SF_float32_lt [zx32 src1, zx32 src2] c; dest = of_bool (v \<noteq> 0) in
     let c = SET_GPR_64 (r_rd a) dest c in
     let c = SET_SRC2F_DST (r_rs1 a) (r_rs2 a) (r_rd a) c in
     let c = set_type T_FMISC_SIMPLE c in
     Inr (True, c))"

definition trans_fmadd_d :: "'d plat \<Rightarrow> arg_decode_insn3219 \<Rightarrow> 'd trans" where
  "trans_fmadd_d p a c =
     REQUIRE_FPU c (\<lambda>c.
     let src1 = get_fpr_64 c (f4_rs1 a) in
     let src2 = get_fpr_64 c (f4_rs2 a) in
     let src3 = get_fpr_64 c (f4_rs3 a) in
     let c = setrm (f4_rm a) c in
     let (v, c) = sf_call p SF_float64_muladd [src1, src2, src3, 0] c; dest = v in
     let c = SET_FPR_64 (f4_rd a) dest c in
     let c = SET_SRC3F_DSTF (f4_rs1 a) (f4_rs2 a) (f4_rs3 a) (f4_rd a) c in
     let c = set_type T_FMA c in
     Inr (True, c))"

definition trans_fmin_d :: "'d plat \<Rightarrow> arg_r \<Rightarrow> 'd trans" where
  "trans_fmin_d p a c =
     REQUIRE_FPU c (\<lambda>c.
     let src1 = get_fpr_64 c (r_rs1 a) in
     let src2 = get_fpr_64 c (r_rs2 a) in
     let (v, c) = sf_call p SF_float64_minimum_number [src1, src2] c; dest = v in
     let c = SET_FPR_64 (r_rd a) dest c in
     let c = SET_SRC2F_DSTF (r_rs1 a) (r_rs2 a) (r_rd a) c in
     let c = set_type T_FMISC_SIMPLE c in
     Inr (True, c))"

definition trans_fmv_d_x :: "arg_r2 \<Rightarrow> 'd trans" where
  "trans_fmv_d_x a c =
     REQUIRE_FPU c (\<lambda>c.
     let dest = get_gpr_64 c (r2_rs1 a) in
     let c = SET_FPR_64 (r2_rd a) dest c in
     let c = SET_SRC1_DSTF (r2_rs1 a) (r2_rd a) c in
     let c = set_type T_FMISC_SIMPLE c in
     Inr (True, c))"

definition trans_fmv_w_x :: "arg_r2 \<Rightarrow> 'd trans" where
  "trans_fmv_w_x a c =
     REQUIRE_FPU c (\<lambda>c.
     let dest = nanbox_s (get_gpr_32 c (r2_rs1 a) EXT_NONE) in
     let c = SET_FPR_64 (r2_rd a) dest c in
     let c = SET_SRC1_DSTF (r2_rs1 a) (r2_rd a) c in
     let c = set_type T_FMISC_SIMPLE c in
     Inr (True, c))"

definition trans_fmv_x_d :: "arg_r2 \<Rightarrow> 'd trans" where
  "trans_fmv_x_d a c =
     REQUIRE_FPU c (\<lambda>c.
     let dest = get_fpr_64 c (r2_rs1 a) in
     let c = SET_GPR_64 (r2_rd a) dest c in
     let c = SET_SRC1F_DST (r2_rs1 a) (r2_rd a) c in
     let c = set_type T_FMISC_SIMPLE c in
     Inr (True, c))"

definition trans_fmv_x_w :: "arg_r2 \<Rightarrow> 'd trans" where
  "trans_fmv_x_w a c =
     REQUIRE_FPU c (\<lambda>c.
     let dest = nanbox_s (get_fpr_64 c (r2_rs1 a)) in
     let c = SET_FPR_64 (r2_rd a) dest c in
     let c = SET_SRC1F_DST (r2_rs1 a) (r2_rd a) c in
     let c = set_type T_FMISC_SIMPLE c in
     Inr (True, c))"

definition trans_flw :: "'d plat \<Rightarrow> arg_i \<Rightarrow> 'd trans" where
  "trans_flw p a c =
     REQUIRE_FPU c (\<lambda>c.
     let addr = get_address c (i_rs1 a) (i_imm a) in
     rbind (ld_w p addr c) (\<lambda>(dest, c).
     let dest = nanbox_s dest in
     let c = SET_FPR_64 (i_rd a) dest c in
     let c = SET_SRC1_DSTF_ADDR (i_rs1 a) (i_rd a) c in
     let c = set_type T_LOAD c in
     Inr (True, c)))"

definition trans_fld :: "'d plat \<Rightarrow> arg_i \<Rightarrow> 'd trans" where
  "trans_fld p a c =
     REQUIRE_FPU c (\<lambda>c.
     let addr = get_address c (i_rs1 a) (i_imm a) in
     rbind (ld_d p addr c) (\<lambda>(dest, c).
     let c = SET_FPR_64 (i_rd a) dest c in
     let c = SET_SRC1_DSTF_ADDR (i_rs1 a) (i_rd a) c in
     let c = set_type T_LOAD c in
     Inr (True, c)))"

definition trans_fsw :: "'d plat \<Rightarrow> arg_s \<Rightarrow> 'd trans" where
  "trans_fsw p a c =
    (let addr = get_address c (s_rs1 a) (s_imm a) in
     let src = get_fpr_64 c (s_rs2 a) in
     rbind (st_w p addr c) (\<lambda>(mem, c).
     let c = set_dst_data 1 src c in
     let c = SET_SRC1_SRC2F_ADDR (s_rs1 a) (s_rs2 a) c in
     let c = set_type T_STORE c in
     Inr (True, c)))"

definition trans_fsd :: "'d plat \<Rightarrow> arg_s \<Rightarrow> 'd trans" where
  "trans_fsd p a c =
    (let addr = get_address c (s_rs1 a) (s_imm a) in
     let src = get_fpr_64 c (s_rs2 a) in
     rbind (st_d p addr c) (\<lambda>(mem, c).
     let c = set_dst_data 1 src c in
     let c = SET_SRC1_SRC2F_ADDR (s_rs1 a) (s_rs2 a) c in
     let c = set_type T_STORE c in
     Inr (True, c)))"

definition trans_fsgnj_d :: "arg_r \<Rightarrow> 'd trans" where
  "trans_fsgnj_d a c =
     REQUIRE_FPU c (\<lambda>c.
     let src1 = get_fpr_64 c (r_rs1 a) in
     let src2 = get_fpr_64 c (r_rs2 a) in
     let dest = (src1 AND 0x7fffffffffffffff) OR (src2 AND NOT 0x8000000000000000) in
     let c = SET_SRC2F_DSTF (r_rs1 a) (r_rs2 a) (r_rd a) c in
     let c = SET_FPR_64 (r_rd a) dest c in
     let c = set_type T_FMISC_SIMPLE c in
     Inr (True, c))"

definition trans_fsgnjn_d :: "arg_r \<Rightarrow> 'd trans" where
  "trans_fsgnjn_d a c =
     REQUIRE_FPU c (\<lambda>c.
     let src1 = get_fpr_64 c (r_rs1 a) in
     let src2 = get_fpr_64 c (r_rs2 a) in
     let dest = (src1 AND 0x7fffffffffffffff) OR (NOT src2 AND 0x8000000000000000) in
     let c = SET_SRC2F_DSTF (r_rs1 a) (r_rs2 a) (r_rd a) c in
     let c = SET_FPR_64 (r_rd a) dest c in
     let c = set_type T_FMISC_SIMPLE c in
     Inr (True, c))"

definition trans_fsgnjn_s :: "arg_r \<Rightarrow> 'd trans" where
  "trans_fsgnjn_s a c =
     REQUIRE_FPU c (\<lambda>c.
     let src1 = get_fpr_64 c (r_rs1 a) in
     let src2 = get_fpr_64 c (r_rs2 a) in
     let dest = (src1 AND 0x7fffffff) OR (NOT src2 AND 0x80000000) in
     let c = SET_SRC2F_DSTF (r_rs1 a) (r_rs2 a) (r_rd a) c in
     let c = SET_FPR_64 (r_rd a) dest c in
     let c = set_type T_FMISC_SIMPLE c in
     Inr (True, c))"

definition trans_fsgnj_s :: "arg_r \<Rightarrow> 'd trans" where
  "trans_fsgnj_s a c =
     REQUIRE_FPU c (\<lambda>c.
     let src1 = get_fpr_64 c (r_rs1 a) in
     let src2 = get_fpr_64 c (r_rs2 a) in
     let dest = (src1 AND 0x7fffffff) OR (src2 AND 0x80000000) in
     let c = SET_SRC2F_DSTF (r_rs1 a) (r_rs2 a) (r_rd a) c in
     let c = SET_FPR_64 (r_rd a) dest c in
     let c = set_type T_FMISC_SIMPLE c in
     Inr (True, c))"

definition trans_fsgnjx_s :: "arg_r \<Rightarrow> 'd trans" where
  "trans_fsgnjx_s a c =
     REQUIRE_FPU c (\<lambda>c.
     let src1 = get_fpr_64 c (r_rs1 a) in
     let src2 = get_fpr_64 c (r_rs2 a) in
     let dest = (src1 AND 0x7fffffff) OR ((src1 XOR src2) AND 0x80000000) in
     let c = SET_SRC2F_DSTF (r_rs1 a) (r_rs2 a) (r_rd a) c in
     let c = SET_FPR_64 (r_rd a) dest c in
     let c = set_type T_FMISC_SIMPLE c in
     Inr (True, c))"

definition trans_fsgnjx_d :: "arg_r \<Rightarrow> 'd trans" where
  "trans_fsgnjx_d a c =
     REQUIRE_FPU c (\<lambda>c.
     let src1 = get_fpr_64 c (r_rs1 a) in
     let src2 = get_fpr_64 c (r_rs2 a) in
     let dest = (src1 AND 0x7fffffffffffffff) OR ((src1 XOR src2) AND 0x8000000000000000) in
     let c = SET_SRC2F_DSTF (r_rs1 a) (r_rs2 a) (r_rd a) c in
     let c = SET_FPR_64 (r_rd a) dest c in
     let c = set_type T_FMISC_SIMPLE c in
     Inr (True, c))"

definition trans_c_fld :: "'d plat \<Rightarrow> arg_i \<Rightarrow> 'd trans" where
  "trans_c_fld p a c =
     trans_fld p a c"

definition trans_c_fsd :: "'d plat \<Rightarrow> arg_s \<Rightarrow> 'd trans" where
  "trans_c_fsd p a c =
     trans_fsd p a c"

end
