(* ===== verification/Extract16.thy ===== *)
theory Extract16
  imports Decode_Types
begin

text \<open>
  The field extractors of src/inc/arch/riscv/trans_rv16.h: one definition per function
  decode_insn16_extract_..., each field in the source's expression.
\<close>

text \<open>What a union member holds before the fields below are stored; every use overwrites it.\<close>

definition uninit_arg_i :: arg_i where
  "uninit_arg_i = \<lparr> i_imm = 0, i_rs1 = 0, i_rd = 0 \<rparr>"

text \<open>What a union member holds before the fields below are stored; every use overwrites it.\<close>

definition uninit_arg_j :: arg_j where
  "uninit_arg_j = \<lparr> j_imm = 0, j_rd = 0 \<rparr>"

definition decode_insn16_extract_c_addi16sp :: "u16 \<Rightarrow> arg_i" where
  "decode_insn16_extract_c_addi16sp insn =
     \<lparr> i_imm = ex_shift_4 (deposit32 (deposit32 (deposit32 (deposit32 (extract32 (ucast insn) 6 1) 1 31 (extract32 (ucast insn) 2 1)) 2 30 (extract32 (ucast insn) 5 1)) 3 29 (extract32 (ucast insn) 3 2)) 5 27 (sextract32 (ucast insn) 12 1)),
       i_rs1 = 2,
       i_rd = 2 \<rparr>"

definition decode_insn16_extract_c_addi4spn :: "u16 \<Rightarrow> arg_i" where
  "decode_insn16_extract_c_addi4spn insn =
     \<lparr> i_imm = ex_shift_2 (deposit32 (deposit32 (deposit32 (extract32 (ucast insn) 6 1) 1 31 (extract32 (ucast insn) 5 1)) 2 30 (extract32 (ucast insn) 11 2)) 4 28 (extract32 (ucast insn) 7 4)),
       i_rs1 = 2,
       i_rd = ex_rvc_register (extract32 (ucast insn) 2 3) \<rparr>"

definition decode_insn16_extract_c_andi :: "u16 \<Rightarrow> arg_i" where
  "decode_insn16_extract_c_andi insn =
     \<lparr> i_imm = deposit32 (extract32 (ucast insn) 2 5) 5 27 (sextract32 (ucast insn) 12 1),
       i_rs1 = ex_rvc_register (extract32 (ucast insn) 7 3),
       i_rd = ex_rvc_register (extract32 (ucast insn) 7 3) \<rparr>"

definition decode_insn16_extract_c_jalr :: "arg_i \<Rightarrow> u16 \<Rightarrow> arg_i" where
  "decode_insn16_extract_c_jalr a insn =
     a\<lparr> i_rs1 := extract32 (ucast insn) 7 5,
       i_imm := 0 \<rparr>"

definition decode_insn16_extract_c_ldsp :: "u16 \<Rightarrow> arg_i" where
  "decode_insn16_extract_c_ldsp insn =
     \<lparr> i_imm = ex_shift_3 (deposit32 (deposit32 (extract32 (ucast insn) 5 2) 2 30 (extract32 (ucast insn) 12 1)) 3 29 (extract32 (ucast insn) 2 3)),
       i_rs1 = 2,
       i_rd = extract32 (ucast insn) 7 5 \<rparr>"

definition decode_insn16_extract_c_li :: "u16 \<Rightarrow> arg_i" where
  "decode_insn16_extract_c_li insn =
     \<lparr> i_imm = deposit32 (extract32 (ucast insn) 2 5) 5 27 (sextract32 (ucast insn) 12 1),
       i_rs1 = 0,
       i_rd = extract32 (ucast insn) 7 5 \<rparr>"

definition decode_insn16_extract_c_lqsp :: "u16 \<Rightarrow> arg_i" where
  "decode_insn16_extract_c_lqsp insn =
     \<lparr> i_imm = ex_shift_4 (deposit32 (deposit32 (extract32 (ucast insn) 6 1) 1 31 (extract32 (ucast insn) 12 1)) 2 30 (extract32 (ucast insn) 2 4)),
       i_rs1 = 2,
       i_rd = extract32 (ucast insn) 7 5 \<rparr>"

definition decode_insn16_extract_c_lui :: "u16 \<Rightarrow> arg_u" where
  "decode_insn16_extract_c_lui insn =
     \<lparr> u_imm = ex_shift_12 (deposit32 (extract32 (ucast insn) 2 5) 5 27 (sextract32 (ucast insn) 12 1)),
       u_rd = extract32 (ucast insn) 7 5 \<rparr>"

definition decode_insn16_extract_c_lwsp :: "u16 \<Rightarrow> arg_i" where
  "decode_insn16_extract_c_lwsp insn =
     \<lparr> i_imm = ex_shift_2 (deposit32 (deposit32 (extract32 (ucast insn) 4 3) 3 29 (extract32 (ucast insn) 12 1)) 4 28 (extract32 (ucast insn) 2 2)),
       i_rs1 = 2,
       i_rd = extract32 (ucast insn) 7 5 \<rparr>"

definition decode_insn16_extract_c_mv :: "u16 \<Rightarrow> arg_i" where
  "decode_insn16_extract_c_mv insn =
     \<lparr> i_imm = 0,
       i_rs1 = extract32 (ucast insn) 2 5,
       i_rd = extract32 (ucast insn) 7 5 \<rparr>"

definition decode_insn16_extract_c_sdsp :: "u16 \<Rightarrow> arg_s" where
  "decode_insn16_extract_c_sdsp insn =
     \<lparr> s_imm = ex_shift_3 (deposit32 (extract32 (ucast insn) 10 3) 3 29 (extract32 (ucast insn) 7 3)),
       s_rs1 = 2,
       s_rs2 = extract32 (ucast insn) 2 5 \<rparr>"

definition decode_insn16_extract_c_shift :: "u16 \<Rightarrow> arg_shift" where
  "decode_insn16_extract_c_shift insn =
     \<lparr> sh_shamt = ex_rvc_shiftri (deposit32 (extract32 (ucast insn) 2 5) 5 27 (extract32 (ucast insn) 12 1)),
       sh_rs1 = ex_rvc_register (extract32 (ucast insn) 7 3),
       sh_rd = ex_rvc_register (extract32 (ucast insn) 7 3) \<rparr>"

definition decode_insn16_extract_c_shift2 :: "u16 \<Rightarrow> arg_shift" where
  "decode_insn16_extract_c_shift2 insn =
     \<lparr> sh_shamt = ex_rvc_shiftli (deposit32 (extract32 (ucast insn) 2 5) 5 27 (extract32 (ucast insn) 12 1)),
       sh_rs1 = extract32 (ucast insn) 7 5,
       sh_rd = extract32 (ucast insn) 7 5 \<rparr>"

definition decode_insn16_extract_c_sqsp :: "u16 \<Rightarrow> arg_s" where
  "decode_insn16_extract_c_sqsp insn =
     \<lparr> s_imm = ex_shift_4 (deposit32 (extract32 (ucast insn) 11 2) 2 30 (extract32 (ucast insn) 7 4)),
       s_rs1 = 2,
       s_rs2 = extract32 (ucast insn) 2 5 \<rparr>"

definition decode_insn16_extract_c_swsp :: "u16 \<Rightarrow> arg_s" where
  "decode_insn16_extract_c_swsp insn =
     \<lparr> s_imm = ex_shift_2 (deposit32 (extract32 (ucast insn) 9 4) 4 28 (extract32 (ucast insn) 7 2)),
       s_rs1 = 2,
       s_rs2 = extract32 (ucast insn) 2 5 \<rparr>"

definition decode_insn16_extract_cb_z :: "u16 \<Rightarrow> arg_b" where
  "decode_insn16_extract_cb_z insn =
     \<lparr> b_imm = ex_shift_1 (deposit32 (deposit32 (deposit32 (deposit32 (extract32 (ucast insn) 3 2) 2 30 (extract32 (ucast insn) 10 2)) 4 28 (extract32 (ucast insn) 2 1)) 5 27 (extract32 (ucast insn) 5 2)) 7 25 (sextract32 (ucast insn) 12 1)),
       b_rs2 = 0,
       b_rs1 = ex_rvc_register (extract32 (ucast insn) 7 3) \<rparr>"

definition decode_insn16_extract_ci :: "u16 \<Rightarrow> arg_i" where
  "decode_insn16_extract_ci insn =
     \<lparr> i_imm = deposit32 (extract32 (ucast insn) 2 5) 5 27 (sextract32 (ucast insn) 12 1),
       i_rs1 = extract32 (ucast insn) 7 5,
       i_rd = extract32 (ucast insn) 7 5 \<rparr>"

definition decode_insn16_extract_cj :: "arg_j \<Rightarrow> u16 \<Rightarrow> arg_j" where
  "decode_insn16_extract_cj a insn =
     a\<lparr> j_imm := ex_shift_1 (deposit32 (deposit32 (deposit32 (deposit32 (deposit32 (deposit32 (deposit32 (extract32 (ucast insn) 3 3) 3 29 (extract32 (ucast insn) 11 1)) 4 28 (extract32 (ucast insn) 2 1)) 5 27 (extract32 (ucast insn) 7 1)) 6 26 (extract32 (ucast insn) 6 1)) 7 25 (extract32 (ucast insn) 9 2)) 9 23 (extract32 (ucast insn) 8 1)) 10 22 (sextract32 (ucast insn) 12 1)) \<rparr>"

definition decode_insn16_extract_cl_d :: "u16 \<Rightarrow> arg_i" where
  "decode_insn16_extract_cl_d insn =
     \<lparr> i_imm = ex_shift_3 (deposit32 (extract32 (ucast insn) 10 3) 3 29 (extract32 (ucast insn) 5 2)),
       i_rs1 = ex_rvc_register (extract32 (ucast insn) 7 3),
       i_rd = ex_rvc_register (extract32 (ucast insn) 2 3) \<rparr>"

definition decode_insn16_extract_cl_q :: "u16 \<Rightarrow> arg_i" where
  "decode_insn16_extract_cl_q insn =
     \<lparr> i_imm = ex_shift_4 (deposit32 (deposit32 (extract32 (ucast insn) 11 2) 2 30 (extract32 (ucast insn) 5 2)) 4 28 (extract32 (ucast insn) 10 1)),
       i_rs1 = ex_rvc_register (extract32 (ucast insn) 7 3),
       i_rd = ex_rvc_register (extract32 (ucast insn) 2 3) \<rparr>"

definition decode_insn16_extract_cl_w :: "u16 \<Rightarrow> arg_i" where
  "decode_insn16_extract_cl_w insn =
     \<lparr> i_imm = ex_shift_2 (deposit32 (deposit32 (extract32 (ucast insn) 6 1) 1 31 (extract32 (ucast insn) 10 3)) 4 28 (extract32 (ucast insn) 5 1)),
       i_rs1 = ex_rvc_register (extract32 (ucast insn) 7 3),
       i_rd = ex_rvc_register (extract32 (ucast insn) 2 3) \<rparr>"

definition decode_insn16_extract_cr :: "u16 \<Rightarrow> arg_r" where
  "decode_insn16_extract_cr insn =
     \<lparr> r_rd = extract32 (ucast insn) 7 5,
       r_rs1 = extract32 (ucast insn) 7 5,
       r_rs2 = extract32 (ucast insn) 2 5 \<rparr>"

definition decode_insn16_extract_cs_2 :: "u16 \<Rightarrow> arg_r" where
  "decode_insn16_extract_cs_2 insn =
     \<lparr> r_rd = ex_rvc_register (extract32 (ucast insn) 7 3),
       r_rs1 = ex_rvc_register (extract32 (ucast insn) 7 3),
       r_rs2 = ex_rvc_register (extract32 (ucast insn) 2 3) \<rparr>"

definition decode_insn16_extract_cs_d :: "u16 \<Rightarrow> arg_s" where
  "decode_insn16_extract_cs_d insn =
     \<lparr> s_imm = ex_shift_3 (deposit32 (extract32 (ucast insn) 10 3) 3 29 (extract32 (ucast insn) 5 2)),
       s_rs1 = ex_rvc_register (extract32 (ucast insn) 7 3),
       s_rs2 = ex_rvc_register (extract32 (ucast insn) 2 3) \<rparr>"

definition decode_insn16_extract_cs_q :: "u16 \<Rightarrow> arg_s" where
  "decode_insn16_extract_cs_q insn =
     \<lparr> s_imm = ex_shift_4 (deposit32 (deposit32 (extract32 (ucast insn) 11 2) 2 30 (extract32 (ucast insn) 5 2)) 4 28 (extract32 (ucast insn) 10 1)),
       s_rs1 = ex_rvc_register (extract32 (ucast insn) 7 3),
       s_rs2 = ex_rvc_register (extract32 (ucast insn) 2 3) \<rparr>"

definition decode_insn16_extract_cs_w :: "u16 \<Rightarrow> arg_s" where
  "decode_insn16_extract_cs_w insn =
     \<lparr> s_imm = ex_shift_2 (deposit32 (deposit32 (extract32 (ucast insn) 6 1) 1 31 (extract32 (ucast insn) 10 3)) 4 28 (extract32 (ucast insn) 5 1)),
       s_rs1 = ex_rvc_register (extract32 (ucast insn) 7 3),
       s_rs2 = ex_rvc_register (extract32 (ucast insn) 2 3) \<rparr>"

end
