(* ===== verification/Decode16.thy ===== *)
theory Decode16
  imports Extract16
begin

text \<open>
  The compressed-instruction decoder decode_insn16 (src/inc/arch/riscv/trans_rv16.h), one definition
  per part of its switch.
\<close>

definition decode_insn16_8001_3 :: "u16 \<Rightarrow> insn list" where
  "decode_insn16_8001_3 insn =
     (let x = insn AND 0x1060 in
      if x = 0x0000 then
         [R O_sub (decode_insn16_extract_cs_2 insn)]
      else if x = 0x0020 then
         [R O_xor (decode_insn16_extract_cs_2 insn)]
      else if x = 0x0040 then
         [R O_or (decode_insn16_extract_cs_2 insn)]
      else if x = 0x0060 then
         [R O_and (decode_insn16_extract_cs_2 insn)]
      else if x = 0x1000 then
         [R O_subw (decode_insn16_extract_cs_2 insn)]
      else if x = 0x1020 then
         [R O_addw (decode_insn16_extract_cs_2 insn)]
      else if x = 0x1040 then
         [Stub ''c_mul'']
      else if x = 0x1060 then
         (let x = drop_bit 2 insn AND 0x7 in
          if x = 0x0 then
             [Stub ''c_zext_b'']
          else if x = 0x1 then
             [Stub ''c_sext_b'']
          else if x = 0x2 then
             [Stub ''c_zext_h'']
          else if x = 0x3 then
             [Stub ''c_sext_h'']
          else if x = 0x4 then
             [Stub ''c_zext_w'']
          else if x = 0x5 then
             [Stub ''c_not'']
          else [])
      else [])"

definition decode_insn16_8001 :: "u16 \<Rightarrow> insn list" where
  "decode_insn16_8001 insn =
     (let x = drop_bit 10 insn AND 0x3 in
      if x = 0x0 then
         [Sh O_srli (decode_insn16_extract_c_shift insn)]
      else if x = 0x1 then
         [Sh O_srai (decode_insn16_extract_c_shift insn)]
      else if x = 0x2 then
         [I O_andi (decode_insn16_extract_c_andi insn)]
      else if x = 0x3 then
         decode_insn16_8001_3 insn
      else [])"

definition decode_insn16_a002 :: "u16 \<Rightarrow> insn list" where
  "decode_insn16_a002 insn =
     [S O_sq (decode_insn16_extract_c_sqsp insn),
      S O_c_fsd (decode_insn16_extract_c_sdsp insn)]
     @
     (let x = drop_bit 10 insn AND 0x7 in
      if x = 0x0 then
         [Stub ''cm_jalt'']
      else if x = 0x3 then
         (let x = drop_bit 5 insn AND 0x3 in
          if x = 0x1 then
             [Stub ''cm_mvsa01'']
          else if x = 0x3 then
             [Stub ''cm_mva01s'']
          else [])
      else if x = 0x6 then
         (let x = drop_bit 8 insn AND 0x3 in
          if x = 0x0 then
             [Stub ''cm_push'']
          else if x = 0x2 then
             [Stub ''cm_pop'']
          else [])
      else if x = 0x7 then
         (let x = drop_bit 8 insn AND 0x3 in
          if x = 0x0 then
             [Stub ''cm_popretz'']
          else if x = 0x2 then
             [Stub ''cm_popret'']
          else [])
      else [])"

definition decode_insn16_part2 :: "u16 \<Rightarrow> insn list" where
  "decode_insn16_part2 insn =
     (let x = insn AND 0xe003 in
      if x = 0x8002 then
         (let x = drop_bit 12 insn AND 0x1 in
          if x = 0x0 then
             (if insn AND 0x0ffc = 0x0000 then
               [Stub ''illegal'']
              else [])
             @
             (if insn AND 0x007c = 0x0000 then
               [I O_jalr ((decode_insn16_extract_c_jalr uninit_arg_i insn)\<lparr>i_rd := 0\<rparr>)]
              else [])
             @
             [I O_addi (decode_insn16_extract_c_mv insn)]
          else if x = 0x1 then
             (if insn AND 0x0ffc = 0x0000 then
               [E O_ebreak]
              else [])
             @
             (if insn AND 0x007c = 0x0000 then
               [I O_jalr ((decode_insn16_extract_c_jalr uninit_arg_i insn)\<lparr>i_rd := 1\<rparr>)]
              else [])
             @
             [R O_add (decode_insn16_extract_cr insn)]
          else [])
      else if x = 0xa000 then
         [S O_sq (decode_insn16_extract_cs_q insn),
          S O_c_fsd (decode_insn16_extract_cs_d insn)]
      else if x = 0xa001 then
         [Jal ((decode_insn16_extract_cj uninit_arg_j insn)\<lparr>j_rd := 0\<rparr>)]
      else if x = 0xa002 then
         decode_insn16_a002 insn
      else if x = 0xc000 then
         [S O_sw (decode_insn16_extract_cs_w insn)]
      else if x = 0xc001 then
         [B O_beq (decode_insn16_extract_cb_z insn)]
      else if x = 0xc002 then
         [S O_sw (decode_insn16_extract_c_swsp insn)]
      else if x = 0xe000 then
         [S O_sd (decode_insn16_extract_cs_d insn),
          Stub ''c_fsw'']
      else if x = 0xe001 then
         [B O_bne (decode_insn16_extract_cb_z insn)]
      else if x = 0xe002 then
         [S O_sd (decode_insn16_extract_c_sdsp insn),
          Stub ''c_fsw'']
      else [])"

definition decode_insn16_part1 :: "u16 \<Rightarrow> insn list" where
  "decode_insn16_part1 insn =
     (let x = insn AND 0xe003 in
      if x = 0x6001 then
         (if insn AND 0x1ffc = 0x0080 then
           [Stub ''sspush'']
          else [])
         @
         (if insn AND 0x1ffc = 0x0280 then
           [Stub ''sspopchk'']
          else [])
         @
         (if insn AND 0x18fc = 0x0080 then
           [Stub ''c_mop_n'']
          else [])
         @
         (if insn AND 0x107c = 0x0000 then
           [Stub ''illegal'']
          else [])
         @
         (if insn AND 0x0f80 = 0x0100 then
           [I O_addi (decode_insn16_extract_c_addi16sp insn)]
          else [])
         @
         [U O_lui (decode_insn16_extract_c_lui insn)]
      else if x = 0x6002 then
         (if insn AND 0x0f80 = 0x0000 then
           [Stub ''c64_illegal'']
          else [])
         @
         [I O_ld (decode_insn16_extract_c_ldsp insn),
          Stub ''c_flw'']
      else if x = 0x8000 then
         (let x = drop_bit 10 insn AND 0x7 in
          if x = 0x0 then
             [Stub ''c_lbu'']
          else if x = 0x1 then
             (let x = drop_bit 6 insn AND 0x1 in
              if x = 0x0 then
                 [Stub ''c_lhu'']
              else if x = 0x1 then
                 [Stub ''c_lh'']
              else [])
          else if x = 0x2 then
             [Stub ''c_sb'']
          else if x = 0x3 then
             (let x = drop_bit 6 insn AND 0x1 in
              if x = 0x0 then
                 [Stub ''c_sh'']
              else [])
          else [])
      else if x = 0x8001 then
         decode_insn16_8001 insn
      else decode_insn16_part2 insn)"

definition decode_insn16 :: "u16 \<Rightarrow> insn list" where
  "decode_insn16 insn =
     (let x = insn AND 0xe003 in
      if x = 0x0000 then
         (if insn AND 0x1fe0 = 0x0000 then
           [Stub ''illegal'']
          else [])
         @
         [I O_addi (decode_insn16_extract_c_addi4spn insn)]
      else if x = 0x0001 then
         [I O_addi (decode_insn16_extract_ci insn)]
      else if x = 0x0002 then
         [Sh O_slli (decode_insn16_extract_c_shift2 insn)]
      else if x = 0x2000 then
         [I O_lq (decode_insn16_extract_cl_q insn),
          I O_c_fld (decode_insn16_extract_cl_d insn)]
      else if x = 0x2001 then
         (if insn AND 0x0f80 = 0x0000 then
           [Stub ''c64_illegal'']
          else [])
         @
         [I O_addiw (decode_insn16_extract_ci insn),
          Jal ((decode_insn16_extract_cj uninit_arg_j insn)\<lparr>j_rd := 1\<rparr>)]
      else if x = 0x2002 then
         [I O_lq (decode_insn16_extract_c_lqsp insn),
          I O_c_fld (decode_insn16_extract_c_ldsp insn)]
      else if x = 0x4000 then
         [I O_lw (decode_insn16_extract_cl_w insn)]
      else if x = 0x4001 then
         [I O_addi (decode_insn16_extract_c_li insn)]
      else if x = 0x4002 then
         (if insn AND 0x0f80 = 0x0000 then
           [Stub ''illegal'']
          else [])
         @
         [I O_lw (decode_insn16_extract_c_lwsp insn)]
      else if x = 0x6000 then
         [I O_ld (decode_insn16_extract_cl_d insn),
          Stub ''c_flw'']
      else decode_insn16_part1 insn)"

end
