(* ===== verification/Extract32.thy ===== *)
theory Extract32
  imports Decode_Types
begin

text \<open>
  The field extractors of src/inc/arch/riscv/trans_rv32.h: one definition per function
  decode_insn32_extract_..., each field in the source's expression.
\<close>


definition decode_insn32_extract_atom_ld :: "u32 \<Rightarrow> arg_atomic" where
  "decode_insn32_extract_atom_ld insn =
     \<lparr> at_aq = extract32 insn 26 1,
       at_rl = extract32 insn 25 1,
       at_rs2 = 0,
       at_rs1 = extract32 insn 15 5,
       at_rd = extract32 insn 7 5 \<rparr>"

definition decode_insn32_extract_atom_st :: "u32 \<Rightarrow> arg_atomic" where
  "decode_insn32_extract_atom_st insn =
     \<lparr> at_aq = extract32 insn 26 1,
       at_rl = extract32 insn 25 1,
       at_rs2 = extract32 insn 20 5,
       at_rs1 = extract32 insn 15 5,
       at_rd = extract32 insn 7 5 \<rparr>"

definition decode_insn32_extract_b :: "u32 \<Rightarrow> arg_b" where
  "decode_insn32_extract_b insn =
     \<lparr> b_imm = ex_shift_1 (deposit32 (deposit32 (deposit32 (extract32 insn 8 4) 4 28 (extract32 insn 25 6)) 10 22 (extract32 insn 7 1)) 11 21 (sextract32 insn 31 1)),
       b_rs2 = extract32 insn 20 5,
       b_rs1 = extract32 insn 15 5 \<rparr>"

definition decode_insn32_extract_csr :: "u32 \<Rightarrow> arg_decode_insn3218" where
  "decode_insn32_extract_csr insn =
     \<lparr> cs_csr = extract32 insn 20 12,
       cs_rs1 = extract32 insn 15 5,
       cs_rd = extract32 insn 7 5 \<rparr>"

definition decode_insn32_extract_decode_insn32_Fmt_39 :: "u32 \<Rightarrow> arg_decode_insn3227" where
  "decode_insn32_extract_decode_insn32_Fmt_39 insn =
     \<lparr> fe_pred = extract32 insn 24 4,
       fe_succ = extract32 insn 20 4 \<rparr>"

definition decode_insn32_extract_i :: "u32 \<Rightarrow> arg_i" where
  "decode_insn32_extract_i insn =
     \<lparr> i_imm = sextract32 insn 20 12,
       i_rs1 = extract32 insn 15 5,
       i_rd = extract32 insn 7 5 \<rparr>"

definition decode_insn32_extract_j :: "u32 \<Rightarrow> arg_j" where
  "decode_insn32_extract_j insn =
     \<lparr> j_imm = ex_shift_1 (deposit32 (deposit32 (deposit32 (extract32 insn 21 10) 10 22 (extract32 insn 20 1)) 11 21 (extract32 insn 12 8)) 19 13 (sextract32 insn 31 1)),
       j_rd = extract32 insn 7 5 \<rparr>"

definition decode_insn32_extract_r :: "u32 \<Rightarrow> arg_r" where
  "decode_insn32_extract_r insn =
     \<lparr> r_rd = extract32 insn 7 5,
       r_rs1 = extract32 insn 15 5,
       r_rs2 = extract32 insn 20 5 \<rparr>"

definition decode_insn32_extract_r2 :: "u32 \<Rightarrow> arg_r2" where
  "decode_insn32_extract_r2 insn =
     \<lparr> r2_rd = extract32 insn 7 5,
       r2_rs1 = extract32 insn 15 5 \<rparr>"

definition decode_insn32_extract_r2_rm :: "u32 \<Rightarrow> arg_decode_insn3221" where
  "decode_insn32_extract_r2_rm insn =
     \<lparr> f2_rs1 = extract32 insn 15 5,
       f2_rm = extract32 insn 12 3,
       f2_rd = extract32 insn 7 5 \<rparr>"

definition decode_insn32_extract_r4_rm :: "u32 \<Rightarrow> arg_decode_insn3219" where
  "decode_insn32_extract_r4_rm insn =
     \<lparr> f4_rs3 = extract32 insn 27 5,
       f4_rs2 = extract32 insn 20 5,
       f4_rs1 = extract32 insn 15 5,
       f4_rm = extract32 insn 12 3,
       f4_rd = extract32 insn 7 5 \<rparr>"

definition decode_insn32_extract_r_rm :: "u32 \<Rightarrow> arg_decode_insn3220" where
  "decode_insn32_extract_r_rm insn =
     \<lparr> f3_rs2 = extract32 insn 20 5,
       f3_rs1 = extract32 insn 15 5,
       f3_rm = extract32 insn 12 3,
       f3_rd = extract32 insn 7 5 \<rparr>"

definition decode_insn32_extract_s :: "u32 \<Rightarrow> arg_s" where
  "decode_insn32_extract_s insn =
     \<lparr> s_imm = deposit32 (extract32 insn 7 5) 5 27 (sextract32 insn 25 7),
       s_rs1 = extract32 insn 15 5,
       s_rs2 = extract32 insn 20 5 \<rparr>"

definition decode_insn32_extract_sfence_vma :: "u32 \<Rightarrow> arg_r2_s" where
  "decode_insn32_extract_sfence_vma insn =
     \<lparr> r2s_rs1 = extract32 insn 15 5,
       r2s_rs2 = extract32 insn 20 5 \<rparr>"

definition decode_insn32_extract_sh :: "u32 \<Rightarrow> arg_shift" where
  "decode_insn32_extract_sh insn =
     \<lparr> sh_shamt = extract32 insn 20 7,
       sh_rs1 = extract32 insn 15 5,
       sh_rd = extract32 insn 7 5 \<rparr>"

definition decode_insn32_extract_sh5 :: "u32 \<Rightarrow> arg_shift" where
  "decode_insn32_extract_sh5 insn =
     \<lparr> sh_shamt = extract32 insn 20 5,
       sh_rs1 = extract32 insn 15 5,
       sh_rd = extract32 insn 7 5 \<rparr>"

definition decode_insn32_extract_u :: "u32 \<Rightarrow> arg_u" where
  "decode_insn32_extract_u insn =
     \<lparr> u_imm = ex_shift_12 (sextract32 insn 12 20),
       u_rd = extract32 insn 7 5 \<rparr>"

end
