(* ===== verification/Decode32_Vector.thy ===== *)
theory Decode32_Vector
  imports Extract32
begin

text \<open>
  The opcodes of decode_insn32 (src/inc/arch/riscv/trans_rv32.h) that hold the vector and the
  vector-crypto instructions: floating-point and vector loads and stores (0x07, 0x27), OP-V (0x57),
  custom-2 (0x5b) and OP-VE (0x77).
\<close>

definition decode_insn32_7_0_0_0 :: "u32 \<Rightarrow> insn list" where
  "decode_insn32_7_0_0_0 insn =
     (let x = drop_bit 20 insn AND 0x1f in
      if x = 0x0 then
         [Stub ''vle8_v'']
      else if x = 0x8 then
         (let x = insn AND 0xe2000000 in
          if x = 0x02000000 then
             [Stub ''vl1re8_v'']
          else if x = 0x22000000 then
             [Stub ''vl2re8_v'']
          else if x = 0x62000000 then
             [Stub ''vl4re8_v'']
          else if x = 0xe2000000 then
             [Stub ''vl8re8_v'']
          else [])
      else if x = 0xb then
         (let x = insn AND 0xe2000000 in
          if x = 0x02000000 then
             [Stub ''vlm_v'']
          else [])
      else if x = 0x10 then
         [Stub ''vle8ff_v'']
      else [])"

definition decode_insn32_7_0_0 :: "u32 \<Rightarrow> insn list" where
  "decode_insn32_7_0_0 insn =
     (let x = drop_bit 27 insn AND 0x1 in
      if x = 0x0 then
         decode_insn32_7_0_0_0 insn
      else if x = 0x1 then
         [Stub ''vlse8_v'']
      else [])"

definition decode_insn32_7_0 :: "u32 \<Rightarrow> insn list" where
  "decode_insn32_7_0 insn =
     (let x = insn AND 0x14000000 in
      if x = 0x00000000 then
         decode_insn32_7_0_0 insn
      else if x = 0x04000000 then
         [Stub ''vlxei8_v'']
      else [])"

definition decode_insn32_7_5_0 :: "u32 \<Rightarrow> insn list" where
  "decode_insn32_7_5_0 insn =
     (let x = drop_bit 27 insn AND 0x1 in
      if x = 0x0 then
         (let x = drop_bit 20 insn AND 0x1f in
          if x = 0x0 then
             [Stub ''vle16_v'']
          else if x = 0x8 then
             (let x = insn AND 0xe2000000 in
              if x = 0x02000000 then
                 [Stub ''vl1re16_v'']
              else if x = 0x22000000 then
                 [Stub ''vl2re16_v'']
              else if x = 0x62000000 then
                 [Stub ''vl4re16_v'']
              else if x = 0xe2000000 then
                 [Stub ''vl8re16_v'']
              else [])
          else if x = 0x10 then
             [Stub ''vle16ff_v'']
          else [])
      else if x = 0x1 then
         [Stub ''vlse16_v'']
      else [])"

definition decode_insn32_7_5 :: "u32 \<Rightarrow> insn list" where
  "decode_insn32_7_5 insn =
     (let x = insn AND 0x14000000 in
      if x = 0x00000000 then
         decode_insn32_7_5_0 insn
      else if x = 0x04000000 then
         [Stub ''vlxei16_v'']
      else [])"

definition decode_insn32_7_6_0 :: "u32 \<Rightarrow> insn list" where
  "decode_insn32_7_6_0 insn =
     (let x = drop_bit 27 insn AND 0x1 in
      if x = 0x0 then
         (let x = drop_bit 20 insn AND 0x1f in
          if x = 0x0 then
             [Stub ''vle32_v'']
          else if x = 0x8 then
             (let x = insn AND 0xe2000000 in
              if x = 0x02000000 then
                 [Stub ''vl1re32_v'']
              else if x = 0x22000000 then
                 [Stub ''vl2re32_v'']
              else if x = 0x62000000 then
                 [Stub ''vl4re32_v'']
              else if x = 0xe2000000 then
                 [Stub ''vl8re32_v'']
              else [])
          else if x = 0x10 then
             [Stub ''vle32ff_v'']
          else [])
      else if x = 0x1 then
         [Stub ''vlse32_v'']
      else [])"

definition decode_insn32_7_6 :: "u32 \<Rightarrow> insn list" where
  "decode_insn32_7_6 insn =
     (let x = insn AND 0x14000000 in
      if x = 0x00000000 then
         decode_insn32_7_6_0 insn
      else if x = 0x04000000 then
         [Stub ''vlxei32_v'']
      else [])"

definition decode_insn32_7_7_0 :: "u32 \<Rightarrow> insn list" where
  "decode_insn32_7_7_0 insn =
     (let x = drop_bit 27 insn AND 0x1 in
      if x = 0x0 then
         (let x = drop_bit 20 insn AND 0x1f in
          if x = 0x0 then
             [Stub ''vle64_v'']
          else if x = 0x8 then
             (let x = insn AND 0xe2000000 in
              if x = 0x02000000 then
                 [Stub ''vl1re64_v'']
              else if x = 0x22000000 then
                 [Stub ''vl2re64_v'']
              else if x = 0x62000000 then
                 [Stub ''vl4re64_v'']
              else if x = 0xe2000000 then
                 [Stub ''vl8re64_v'']
              else [])
          else if x = 0x10 then
             [Stub ''vle64ff_v'']
          else [])
      else if x = 0x1 then
         [Stub ''vlse64_v'']
      else [])"

definition decode_insn32_7_7 :: "u32 \<Rightarrow> insn list" where
  "decode_insn32_7_7 insn =
     (let x = insn AND 0x14000000 in
      if x = 0x00000000 then
         decode_insn32_7_7_0 insn
      else if x = 0x04000000 then
         [Stub ''vlxei64_v'']
      else [])"

definition decode_insn32_7 :: "u32 \<Rightarrow> insn list" where
  "decode_insn32_7 insn =
     (let x = drop_bit 12 insn AND 0x7 in
      if x = 0x0 then
         decode_insn32_7_0 insn
      else if x = 0x1 then
         [Stub ''flh'']
      else if x = 0x2 then
         [I O_flw (decode_insn32_extract_i insn)]
      else if x = 0x3 then
         [I O_fld (decode_insn32_extract_i insn)]
      else if x = 0x5 then
         decode_insn32_7_5 insn
      else if x = 0x6 then
         decode_insn32_7_6 insn
      else if x = 0x7 then
         decode_insn32_7_7 insn
      else [])"

definition decode_insn32_27_0_0 :: "u32 \<Rightarrow> insn list" where
  "decode_insn32_27_0_0 insn =
     (let x = drop_bit 27 insn AND 0x1 in
      if x = 0x0 then
         (let x = drop_bit 20 insn AND 0x1f in
          if x = 0x0 then
             [Stub ''vse8_v'']
          else if x = 0x8 then
             (let x = insn AND 0xe2000000 in
              if x = 0x02000000 then
                 [Stub ''vs1r_v'']
              else if x = 0x22000000 then
                 [Stub ''vs2r_v'']
              else if x = 0x62000000 then
                 [Stub ''vs4r_v'']
              else if x = 0xe2000000 then
                 [Stub ''vs8r_v'']
              else [])
          else if x = 0xb then
             (let x = insn AND 0xe2000000 in
              if x = 0x02000000 then
                 [Stub ''vsm_v'']
              else [])
          else [])
      else if x = 0x1 then
         [Stub ''vsse8_v'']
      else [])"

definition decode_insn32_27_0 :: "u32 \<Rightarrow> insn list" where
  "decode_insn32_27_0 insn =
     (let x = insn AND 0x14000000 in
      if x = 0x00000000 then
         decode_insn32_27_0_0 insn
      else if x = 0x04000000 then
         [Stub ''vsxei8_v'']
      else [])"

definition decode_insn32_27_part1 :: "u32 \<Rightarrow> insn list" where
  "decode_insn32_27_part1 insn =
     (let x = drop_bit 12 insn AND 0x7 in
      if x = 0x7 then
         (let x = insn AND 0x14000000 in
          if x = 0x00000000 then
             (let x = drop_bit 27 insn AND 0x1 in
              if x = 0x0 then
                 (let x = drop_bit 20 insn AND 0x1f in
                  if x = 0x0 then
                     [Stub ''vse64_v'']
                  else [])
              else if x = 0x1 then
                 [Stub ''vsse64_v'']
              else [])
          else if x = 0x04000000 then
             [Stub ''vsxei64_v'']
          else [])
      else [])"

definition decode_insn32_27 :: "u32 \<Rightarrow> insn list" where
  "decode_insn32_27 insn =
     (let x = drop_bit 12 insn AND 0x7 in
      if x = 0x0 then
         decode_insn32_27_0 insn
      else if x = 0x1 then
         [Stub ''fsh'']
      else if x = 0x2 then
         [S O_fsw (decode_insn32_extract_s insn)]
      else if x = 0x3 then
         [S O_fsd (decode_insn32_extract_s insn)]
      else if x = 0x5 then
         (let x = insn AND 0x14000000 in
          if x = 0x00000000 then
             (let x = drop_bit 27 insn AND 0x1 in
              if x = 0x0 then
                 (let x = drop_bit 20 insn AND 0x1f in
                  if x = 0x0 then
                     [Stub ''vse16_v'']
                  else [])
              else if x = 0x1 then
                 [Stub ''vsse16_v'']
              else [])
          else if x = 0x04000000 then
             [Stub ''vsxei16_v'']
          else [])
      else if x = 0x6 then
         (let x = insn AND 0x14000000 in
          if x = 0x00000000 then
             (let x = drop_bit 27 insn AND 0x1 in
              if x = 0x0 then
                 (let x = drop_bit 20 insn AND 0x1f in
                  if x = 0x0 then
                     [Stub ''vse32_v'']
                  else [])
              else if x = 0x1 then
                 [Stub ''vsse32_v'']
              else [])
          else if x = 0x04000000 then
             [Stub ''vsxei32_v'']
          else [])
      else decode_insn32_27_part1 insn)"

definition decode_insn32_57_0_part1 :: "u32 \<Rightarrow> insn list" where
  "decode_insn32_57_0_part1 insn =
     (let x = drop_bit 26 insn AND 0x1f in
      if x = 0x14 then
         [Stub ''vror_vv'']
      else if x = 0x15 then
         [Stub ''vrol_vv'']
      else if x = 0x17 then
         (let x = drop_bit 25 insn AND 0x1 in
          if x = 0x0 then
             [Stub ''vmerge_vvm'']
          else if x = 0x1 then
             (let x = drop_bit 20 insn AND 0x1f in
              if x = 0x0 then
                 [Stub ''vmv_v_v'']
              else [])
          else [])
      else if x = 0x18 then
         [Stub ''vmseq_vv'']
      else if x = 0x19 then
         [Stub ''vmsne_vv'']
      else if x = 0x1a then
         [Stub ''vmsltu_vv'']
      else if x = 0x1b then
         [Stub ''vmslt_vv'']
      else if x = 0x1c then
         [Stub ''vmsleu_vv'']
      else if x = 0x1d then
         [Stub ''vmsle_vv'']
      else [])"

definition decode_insn32_57_0 :: "u32 \<Rightarrow> insn list" where
  "decode_insn32_57_0 insn =
     (let x = drop_bit 26 insn AND 0x1f in
      if x = 0x0 then
         [Stub ''vadd_vv'']
      else if x = 0x1 then
         [Stub ''vandn_vv'']
      else if x = 0x2 then
         [Stub ''vsub_vv'']
      else if x = 0x4 then
         [Stub ''vminu_vv'']
      else if x = 0x5 then
         [Stub ''vmin_vv'']
      else if x = 0x6 then
         [Stub ''vmaxu_vv'']
      else if x = 0x7 then
         [Stub ''vmax_vv'']
      else if x = 0x9 then
         [Stub ''vand_vv'']
      else if x = 0xa then
         [Stub ''vor_vv'']
      else if x = 0xb then
         [Stub ''vxor_vv'']
      else if x = 0xc then
         [Stub ''vrgather_vv'']
      else if x = 0xe then
         [Stub ''vrgatherei16_vv'']
      else if x = 0x10 then
         (let x = drop_bit 25 insn AND 0x1 in
          if x = 0x0 then
             [Stub ''vadc_vvm'']
          else [])
      else if x = 0x11 then
         [Stub ''vmadc_vvm'']
      else if x = 0x12 then
         (let x = drop_bit 25 insn AND 0x1 in
          if x = 0x0 then
             [Stub ''vsbc_vvm'']
          else [])
      else if x = 0x13 then
         [Stub ''vmsbc_vvm'']
      else decode_insn32_57_0_part1 insn)"

definition decode_insn32_57_1000_12_part1 :: "u32 \<Rightarrow> insn list" where
  "decode_insn32_57_1000_12_part1 insn =
     (let x = drop_bit 15 insn AND 0x1f in
      if x = 0x16 then
         [Stub ''vfncvt_rtz_xu_f_w'']
      else if x = 0x17 then
         [Stub ''vfncvt_rtz_x_f_w'']
      else if x = 0x1d then
         [Stub ''vfncvtbf16_f_f_w'']
      else [])"

definition decode_insn32_57_1000_12 :: "u32 \<Rightarrow> insn list" where
  "decode_insn32_57_1000_12 insn =
     (let x = drop_bit 15 insn AND 0x1f in
      if x = 0x0 then
         [Stub ''vfcvt_xu_f_v'']
      else if x = 0x1 then
         [Stub ''vfcvt_x_f_v'']
      else if x = 0x2 then
         [Stub ''vfcvt_f_xu_v'']
      else if x = 0x3 then
         [Stub ''vfcvt_f_x_v'']
      else if x = 0x6 then
         [Stub ''vfcvt_rtz_xu_f_v'']
      else if x = 0x7 then
         [Stub ''vfcvt_rtz_x_f_v'']
      else if x = 0x8 then
         [Stub ''vfwcvt_xu_f_v'']
      else if x = 0x9 then
         [Stub ''vfwcvt_x_f_v'']
      else if x = 0xa then
         [Stub ''vfwcvt_f_xu_v'']
      else if x = 0xb then
         [Stub ''vfwcvt_f_x_v'']
      else if x = 0xc then
         [Stub ''vfwcvt_f_f_v'']
      else if x = 0xd then
         [Stub ''vfwcvtbf16_f_f_v'']
      else if x = 0xe then
         [Stub ''vfwcvt_rtz_xu_f_v'']
      else if x = 0xf then
         [Stub ''vfwcvt_rtz_x_f_v'']
      else if x = 0x10 then
         [Stub ''vfncvt_xu_f_w'']
      else if x = 0x11 then
         [Stub ''vfncvt_x_f_w'']
      else if x = 0x12 then
         [Stub ''vfncvt_f_xu_w'']
      else if x = 0x13 then
         [Stub ''vfncvt_f_x_w'']
      else if x = 0x14 then
         [Stub ''vfncvt_f_f_w'']
      else if x = 0x15 then
         [Stub ''vfncvt_rod_f_f_w'']
      else decode_insn32_57_1000_12_part1 insn)"

definition decode_insn32_57_1000_part1 :: "u32 \<Rightarrow> insn list" where
  "decode_insn32_57_1000_part1 insn =
     (let x = drop_bit 26 insn AND 0x1f in
      if x = 0x18 then
         [Stub ''vmfeq_vv'']
      else if x = 0x19 then
         [Stub ''vmfle_vv'']
      else if x = 0x1b then
         [Stub ''vmflt_vv'']
      else if x = 0x1c then
         [Stub ''vmfne_vv'']
      else [])"

definition decode_insn32_57_1000 :: "u32 \<Rightarrow> insn list" where
  "decode_insn32_57_1000 insn =
     (let x = drop_bit 26 insn AND 0x1f in
      if x = 0x0 then
         [Stub ''vfadd_vv'']
      else if x = 0x1 then
         [Stub ''vfredusum_vs'']
      else if x = 0x2 then
         [Stub ''vfsub_vv'']
      else if x = 0x3 then
         [Stub ''vfredosum_vs'']
      else if x = 0x4 then
         [Stub ''vfmin_vv'']
      else if x = 0x5 then
         [Stub ''vfredmin_vs'']
      else if x = 0x6 then
         [Stub ''vfmax_vv'']
      else if x = 0x7 then
         [Stub ''vfredmax_vs'']
      else if x = 0x8 then
         [Stub ''vfsgnj_vv'']
      else if x = 0x9 then
         [Stub ''vfsgnjn_vv'']
      else if x = 0xa then
         [Stub ''vfsgnjx_vv'']
      else if x = 0x10 then
         (let x = insn AND 0x020f8000 in
          if x = 0x02000000 then
             [Stub ''vfmv_f_s'']
          else [])
      else if x = 0x12 then
         decode_insn32_57_1000_12 insn
      else if x = 0x13 then
         (let x = drop_bit 15 insn AND 0x1f in
          if x = 0x0 then
             [Stub ''vfsqrt_v'']
          else if x = 0x4 then
             [Stub ''vfrsqrt7_v'']
          else if x = 0x5 then
             [Stub ''vfrec7_v'']
          else if x = 0x10 then
             [Stub ''vfclass_v'']
          else [])
      else decode_insn32_57_1000_part1 insn)"

definition decode_insn32_57_2000_12 :: "u32 \<Rightarrow> insn list" where
  "decode_insn32_57_2000_12 insn =
     (let x = drop_bit 15 insn AND 0x1f in
      if x = 0x2 then
         [Stub ''vzext_vf8'']
      else if x = 0x3 then
         [Stub ''vsext_vf8'']
      else if x = 0x4 then
         [Stub ''vzext_vf4'']
      else if x = 0x5 then
         [Stub ''vsext_vf4'']
      else if x = 0x6 then
         [Stub ''vzext_vf2'']
      else if x = 0x7 then
         [Stub ''vsext_vf2'']
      else if x = 0x8 then
         [Stub ''vbrev8_v'']
      else if x = 0x9 then
         [Stub ''vrev8_v'']
      else if x = 0xa then
         [Stub ''vbrev_v'']
      else if x = 0xc then
         [Stub ''vclz_v'']
      else if x = 0xd then
         [Stub ''vctz_v'']
      else if x = 0xe then
         [Stub ''vcpop_v'']
      else [])"

definition decode_insn32_57_2000_part2 :: "u32 \<Rightarrow> insn list" where
  "decode_insn32_57_2000_part2 insn =
     (let x = drop_bit 26 insn AND 0x1f in
      if x = 0x1d then
         [Stub ''vmnand_mm'']
      else if x = 0x1e then
         [Stub ''vmnor_mm'']
      else if x = 0x1f then
         [Stub ''vmxnor_mm'']
      else [])"

definition decode_insn32_57_2000_part1 :: "u32 \<Rightarrow> insn list" where
  "decode_insn32_57_2000_part1 insn =
     (let x = drop_bit 26 insn AND 0x1f in
      if x = 0x10 then
         (let x = drop_bit 15 insn AND 0x1f in
          if x = 0x0 then
             (let x = drop_bit 25 insn AND 0x1 in
              if x = 0x1 then
                 [Stub ''vmv_x_s'']
              else [])
          else if x = 0x10 then
             [Stub ''vcpop_m'']
          else if x = 0x11 then
             [Stub ''vfirst_m'']
          else [])
      else if x = 0x12 then
         decode_insn32_57_2000_12 insn
      else if x = 0x14 then
         (let x = drop_bit 15 insn AND 0x1f in
          if x = 0x1 then
             [Stub ''vmsbf_m'']
          else if x = 0x2 then
             [Stub ''vmsof_m'']
          else if x = 0x3 then
             [Stub ''vmsif_m'']
          else if x = 0x10 then
             [Stub ''viota_m'']
          else if x = 0x11 then
             (let x = drop_bit 20 insn AND 0x1f in
              if x = 0x0 then
                 [Stub ''vid_v'']
              else [])
          else [])
      else if x = 0x17 then
         [Stub ''vcompress_vm'']
      else if x = 0x18 then
         [Stub ''vmandn_mm'']
      else if x = 0x19 then
         [Stub ''vmand_mm'']
      else if x = 0x1a then
         [Stub ''vmor_mm'']
      else if x = 0x1b then
         [Stub ''vmxor_mm'']
      else if x = 0x1c then
         [Stub ''vmorn_mm'']
      else decode_insn32_57_2000_part2 insn)"

definition decode_insn32_57_2000 :: "u32 \<Rightarrow> insn list" where
  "decode_insn32_57_2000 insn =
     (let x = drop_bit 26 insn AND 0x1f in
      if x = 0x0 then
         [Stub ''vredsum_vs'']
      else if x = 0x1 then
         [Stub ''vredand_vs'']
      else if x = 0x2 then
         [Stub ''vredor_vs'']
      else if x = 0x3 then
         [Stub ''vredxor_vs'']
      else if x = 0x4 then
         [Stub ''vredminu_vs'']
      else if x = 0x5 then
         [Stub ''vredmin_vs'']
      else if x = 0x6 then
         [Stub ''vredmaxu_vs'']
      else if x = 0x7 then
         [Stub ''vredmax_vs'']
      else if x = 0x8 then
         [Stub ''vaaddu_vv'']
      else if x = 0x9 then
         [Stub ''vaadd_vv'']
      else if x = 0xa then
         [Stub ''vasubu_vv'']
      else if x = 0xb then
         [Stub ''vasub_vv'']
      else if x = 0xc then
         [Stub ''vclmul_vv'']
      else if x = 0xd then
         [Stub ''vclmulh_vv'']
      else decode_insn32_57_2000_part1 insn)"

definition decode_insn32_57_3000_part1 :: "u32 \<Rightarrow> insn list" where
  "decode_insn32_57_3000_part1 insn =
     (let x = drop_bit 27 insn AND 0xf in
      if x = 0xb then
         (let x = drop_bit 25 insn AND 0x3 in
          if x = 0x2 then
             [Stub ''vmerge_vim'']
          else if x = 0x3 then
             (let x = drop_bit 20 insn AND 0x1f in
              if x = 0x0 then
                 [Stub ''vmv_v_i'']
              else [])
          else [])
      else if x = 0xc then
         (let x = drop_bit 26 insn AND 0x1 in
          if x = 0x0 then
             [Stub ''vmseq_vi'']
          else if x = 0x1 then
             [Stub ''vmsne_vi'']
          else [])
      else if x = 0xe then
         (let x = drop_bit 26 insn AND 0x1 in
          if x = 0x0 then
             [Stub ''vmsleu_vi'']
          else if x = 0x1 then
             [Stub ''vmsle_vi'']
          else [])
      else if x = 0xf then
         (let x = drop_bit 26 insn AND 0x1 in
          if x = 0x0 then
             [Stub ''vmsgtu_vi'']
          else if x = 0x1 then
             [Stub ''vmsgt_vi'']
          else [])
      else [])"

definition decode_insn32_57_3000 :: "u32 \<Rightarrow> insn list" where
  "decode_insn32_57_3000 insn =
     (let x = drop_bit 27 insn AND 0xf in
      if x = 0x0 then
         (let x = drop_bit 26 insn AND 0x1 in
          if x = 0x0 then
             [Stub ''vadd_vi'']
          else [])
      else if x = 0x1 then
         (let x = drop_bit 26 insn AND 0x1 in
          if x = 0x1 then
             [Stub ''vrsub_vi'']
          else [])
      else if x = 0x4 then
         (let x = drop_bit 26 insn AND 0x1 in
          if x = 0x1 then
             [Stub ''vand_vi'']
          else [])
      else if x = 0x5 then
         (let x = drop_bit 26 insn AND 0x1 in
          if x = 0x0 then
             [Stub ''vor_vi'']
          else if x = 0x1 then
             [Stub ''vxor_vi'']
          else [])
      else if x = 0x6 then
         (let x = drop_bit 26 insn AND 0x1 in
          if x = 0x0 then
             [Stub ''vrgather_vi'']
          else [])
      else if x = 0x7 then
         (let x = drop_bit 26 insn AND 0x1 in
          if x = 0x0 then
             [Stub ''vslideup_vi'']
          else if x = 0x1 then
             [Stub ''vslidedown_vi'']
          else [])
      else if x = 0x8 then
         (let x = drop_bit 26 insn AND 0x1 in
          if x = 0x0 then
             (let x = drop_bit 25 insn AND 0x1 in
              if x = 0x0 then
                 [Stub ''vadc_vim'']
              else [])
          else if x = 0x1 then
             [Stub ''vmadc_vim'']
          else [])
      else if x = 0xa then
         [Stub ''vror_vi'']
      else decode_insn32_57_3000_part1 insn)"

definition decode_insn32_57_4000_part1 :: "u32 \<Rightarrow> insn list" where
  "decode_insn32_57_4000_part1 insn =
     (let x = drop_bit 26 insn AND 0x1f in
      if x = 0x12 then
         (let x = drop_bit 25 insn AND 0x1 in
          if x = 0x0 then
             [Stub ''vsbc_vxm'']
          else [])
      else if x = 0x13 then
         [Stub ''vmsbc_vxm'']
      else if x = 0x14 then
         [Stub ''vror_vx'']
      else if x = 0x15 then
         [Stub ''vrol_vx'']
      else if x = 0x17 then
         (let x = drop_bit 25 insn AND 0x1 in
          if x = 0x0 then
             [Stub ''vmerge_vxm'']
          else if x = 0x1 then
             (let x = drop_bit 20 insn AND 0x1f in
              if x = 0x0 then
                 [Stub ''vmv_v_x'']
              else [])
          else [])
      else if x = 0x18 then
         [Stub ''vmseq_vx'']
      else if x = 0x19 then
         [Stub ''vmsne_vx'']
      else if x = 0x1a then
         [Stub ''vmsltu_vx'']
      else if x = 0x1b then
         [Stub ''vmslt_vx'']
      else if x = 0x1c then
         [Stub ''vmsleu_vx'']
      else if x = 0x1d then
         [Stub ''vmsle_vx'']
      else if x = 0x1e then
         [Stub ''vmsgtu_vx'']
      else if x = 0x1f then
         [Stub ''vmsgt_vx'']
      else [])"

definition decode_insn32_57_4000 :: "u32 \<Rightarrow> insn list" where
  "decode_insn32_57_4000 insn =
     (let x = drop_bit 26 insn AND 0x1f in
      if x = 0x0 then
         [Stub ''vadd_vx'']
      else if x = 0x1 then
         [Stub ''vandn_vx'']
      else if x = 0x2 then
         [Stub ''vsub_vx'']
      else if x = 0x3 then
         [Stub ''vrsub_vx'']
      else if x = 0x4 then
         [Stub ''vminu_vx'']
      else if x = 0x5 then
         [Stub ''vmin_vx'']
      else if x = 0x6 then
         [Stub ''vmaxu_vx'']
      else if x = 0x7 then
         [Stub ''vmax_vx'']
      else if x = 0x9 then
         [Stub ''vand_vx'']
      else if x = 0xa then
         [Stub ''vor_vx'']
      else if x = 0xb then
         [Stub ''vxor_vx'']
      else if x = 0xc then
         [Stub ''vrgather_vx'']
      else if x = 0xe then
         [Stub ''vslideup_vx'']
      else if x = 0xf then
         [Stub ''vslidedown_vx'']
      else if x = 0x10 then
         (let x = drop_bit 25 insn AND 0x1 in
          if x = 0x0 then
             [Stub ''vadc_vxm'']
          else [])
      else if x = 0x11 then
         [Stub ''vmadc_vxm'']
      else decode_insn32_57_4000_part1 insn)"

definition decode_insn32_57_5000_part1 :: "u32 \<Rightarrow> insn list" where
  "decode_insn32_57_5000_part1 insn =
     (let x = drop_bit 26 insn AND 0x1f in
      if x = 0x1c then
         [Stub ''vmfne_vf'']
      else if x = 0x1d then
         [Stub ''vmfgt_vf'']
      else if x = 0x1f then
         [Stub ''vmfge_vf'']
      else [])"

definition decode_insn32_57_5000 :: "u32 \<Rightarrow> insn list" where
  "decode_insn32_57_5000 insn =
     (let x = drop_bit 26 insn AND 0x1f in
      if x = 0x0 then
         [Stub ''vfadd_vf'']
      else if x = 0x2 then
         [Stub ''vfsub_vf'']
      else if x = 0x4 then
         [Stub ''vfmin_vf'']
      else if x = 0x6 then
         [Stub ''vfmax_vf'']
      else if x = 0x8 then
         [Stub ''vfsgnj_vf'']
      else if x = 0x9 then
         [Stub ''vfsgnjn_vf'']
      else if x = 0xa then
         [Stub ''vfsgnjx_vf'']
      else if x = 0xe then
         [Stub ''vfslide1up_vf'']
      else if x = 0xf then
         [Stub ''vfslide1down_vf'']
      else if x = 0x10 then
         (let x = drop_bit 20 insn AND 0x3f in
          if x = 0x20 then
             [Stub ''vfmv_s_f'']
          else [])
      else if x = 0x17 then
         (let x = drop_bit 25 insn AND 0x1 in
          if x = 0x0 then
             [Stub ''vfmerge_vfm'']
          else if x = 0x1 then
             (let x = drop_bit 20 insn AND 0x1f in
              if x = 0x0 then
                 [Stub ''vfmv_v_f'']
              else [])
          else [])
      else if x = 0x18 then
         [Stub ''vmfeq_vf'']
      else if x = 0x19 then
         [Stub ''vmfle_vf'']
      else if x = 0x1b then
         [Stub ''vmflt_vf'']
      else decode_insn32_57_5000_part1 insn)"

definition decode_insn32_57_6000 :: "u32 \<Rightarrow> insn list" where
  "decode_insn32_57_6000 insn =
     (let x = drop_bit 26 insn AND 0x1f in
      if x = 0x8 then
         [Stub ''vaaddu_vx'']
      else if x = 0x9 then
         [Stub ''vaadd_vx'']
      else if x = 0xa then
         [Stub ''vasubu_vx'']
      else if x = 0xb then
         [Stub ''vasub_vx'']
      else if x = 0xc then
         [Stub ''vclmul_vx'']
      else if x = 0xd then
         [Stub ''vclmulh_vx'']
      else if x = 0xe then
         [Stub ''vslide1up_vx'']
      else if x = 0xf then
         [Stub ''vslide1down_vx'']
      else if x = 0x10 then
         (let x = drop_bit 20 insn AND 0x3f in
          if x = 0x20 then
             [Stub ''vmv_s_x'']
          else [])
      else [])"

definition decode_insn32_57_80000000 :: "u32 \<Rightarrow> insn list" where
  "decode_insn32_57_80000000 insn =
     (let x = drop_bit 26 insn AND 0x1f in
      if x = 0x0 then
         [Stub ''vsaddu_vv'']
      else if x = 0x1 then
         [Stub ''vsadd_vv'']
      else if x = 0x2 then
         [Stub ''vssubu_vv'']
      else if x = 0x3 then
         [Stub ''vssub_vv'']
      else if x = 0x5 then
         [Stub ''vsll_vv'']
      else if x = 0x7 then
         [Stub ''vsmul_vv'']
      else if x = 0x8 then
         [Stub ''vsrl_vv'']
      else if x = 0x9 then
         [Stub ''vsra_vv'']
      else if x = 0xa then
         [Stub ''vssrl_vv'']
      else if x = 0xb then
         [Stub ''vssra_vv'']
      else if x = 0xc then
         [Stub ''vnsrl_wv'']
      else if x = 0xd then
         [Stub ''vnsra_wv'']
      else if x = 0xe then
         [Stub ''vnclipu_wv'']
      else if x = 0xf then
         [Stub ''vnclip_wv'']
      else if x = 0x10 then
         [Stub ''vwredsumu_vs'']
      else if x = 0x11 then
         [Stub ''vwredsum_vs'']
      else if x = 0x15 then
         [Stub ''vwsll_vv'']
      else [])"

definition decode_insn32_57_80001000_part1 :: "u32 \<Rightarrow> insn list" where
  "decode_insn32_57_80001000_part1 insn =
     (let x = drop_bit 26 insn AND 0x1f in
      if x = 0x1e then
         [Stub ''vfwmsac_vv'']
      else if x = 0x1f then
         [Stub ''vfwnmsac_vv'']
      else [])"

definition decode_insn32_57_80001000 :: "u32 \<Rightarrow> insn list" where
  "decode_insn32_57_80001000 insn =
     (let x = drop_bit 26 insn AND 0x1f in
      if x = 0x0 then
         [Stub ''vfdiv_vv'']
      else if x = 0x4 then
         [Stub ''vfmul_vv'']
      else if x = 0x8 then
         [Stub ''vfmadd_vv'']
      else if x = 0x9 then
         [Stub ''vfnmadd_vv'']
      else if x = 0xa then
         [Stub ''vfmsub_vv'']
      else if x = 0xb then
         [Stub ''vfnmsub_vv'']
      else if x = 0xc then
         [Stub ''vfmacc_vv'']
      else if x = 0xd then
         [Stub ''vfnmacc_vv'']
      else if x = 0xe then
         [Stub ''vfmsac_vv'']
      else if x = 0xf then
         [Stub ''vfnmsac_vv'']
      else if x = 0x10 then
         [Stub ''vfwadd_vv'']
      else if x = 0x11 then
         [Stub ''vfwredusum_vs'']
      else if x = 0x12 then
         [Stub ''vfwsub_vv'']
      else if x = 0x13 then
         [Stub ''vfwredosum_vs'']
      else if x = 0x14 then
         [Stub ''vfwadd_wv'']
      else if x = 0x16 then
         [Stub ''vfwsub_wv'']
      else if x = 0x18 then
         [Stub ''vfwmul_vv'']
      else if x = 0x1b then
         [Stub ''vfwmaccbf16_vv'']
      else if x = 0x1c then
         [Stub ''vfwmacc_vv'']
      else if x = 0x1d then
         [Stub ''vfwnmacc_vv'']
      else decode_insn32_57_80001000_part1 insn)"

definition decode_insn32_57_80002000_part1 :: "u32 \<Rightarrow> insn list" where
  "decode_insn32_57_80002000_part1 insn =
     (let x = drop_bit 26 insn AND 0x1f in
      if x = 0x18 then
         [Stub ''vwmulu_vv'']
      else if x = 0x1a then
         [Stub ''vwmulsu_vv'']
      else if x = 0x1b then
         [Stub ''vwmul_vv'']
      else if x = 0x1c then
         [Stub ''vwmaccu_vv'']
      else if x = 0x1d then
         [Stub ''vwmacc_vv'']
      else if x = 0x1f then
         [Stub ''vwmaccsu_vv'']
      else [])"

definition decode_insn32_57_80002000 :: "u32 \<Rightarrow> insn list" where
  "decode_insn32_57_80002000 insn =
     (let x = drop_bit 26 insn AND 0x1f in
      if x = 0x0 then
         [Stub ''vdivu_vv'']
      else if x = 0x1 then
         [Stub ''vdiv_vv'']
      else if x = 0x2 then
         [Stub ''vremu_vv'']
      else if x = 0x3 then
         [Stub ''vrem_vv'']
      else if x = 0x4 then
         [Stub ''vmulhu_vv'']
      else if x = 0x5 then
         [Stub ''vmul_vv'']
      else if x = 0x6 then
         [Stub ''vmulhsu_vv'']
      else if x = 0x7 then
         [Stub ''vmulh_vv'']
      else if x = 0x9 then
         [Stub ''vmadd_vv'']
      else if x = 0xb then
         [Stub ''vnmsub_vv'']
      else if x = 0xd then
         [Stub ''vmacc_vv'']
      else if x = 0xf then
         [Stub ''vnmsac_vv'']
      else if x = 0x10 then
         [Stub ''vwaddu_vv'']
      else if x = 0x11 then
         [Stub ''vwadd_vv'']
      else if x = 0x12 then
         [Stub ''vwsubu_vv'']
      else if x = 0x13 then
         [Stub ''vwsub_vv'']
      else if x = 0x14 then
         [Stub ''vwaddu_wv'']
      else if x = 0x15 then
         [Stub ''vwadd_wv'']
      else if x = 0x16 then
         [Stub ''vwsubu_wv'']
      else if x = 0x17 then
         [Stub ''vwsub_wv'']
      else decode_insn32_57_80002000_part1 insn)"

definition decode_insn32_57_80003000 :: "u32 \<Rightarrow> insn list" where
  "decode_insn32_57_80003000 insn =
     (let x = drop_bit 26 insn AND 0x1f in
      if x = 0x0 then
         [Stub ''vsaddu_vi'']
      else if x = 0x1 then
         [Stub ''vsadd_vi'']
      else if x = 0x5 then
         [Stub ''vsll_vi'']
      else if x = 0x7 then
         (let x = insn AND 0x020f8000 in
          if x = 0x02000000 then
             [Stub ''vmv1r_v'']
          else if x = 0x02008000 then
             [Stub ''vmv2r_v'']
          else if x = 0x02018000 then
             [Stub ''vmv4r_v'']
          else if x = 0x02038000 then
             [Stub ''vmv8r_v'']
          else [])
      else if x = 0x8 then
         [Stub ''vsrl_vi'']
      else if x = 0x9 then
         [Stub ''vsra_vi'']
      else if x = 0xa then
         [Stub ''vssrl_vi'']
      else if x = 0xb then
         [Stub ''vssra_vi'']
      else if x = 0xc then
         [Stub ''vnsrl_wi'']
      else if x = 0xd then
         [Stub ''vnsra_wi'']
      else if x = 0xe then
         [Stub ''vnclipu_wi'']
      else if x = 0xf then
         [Stub ''vnclip_wi'']
      else if x = 0x15 then
         [Stub ''vwsll_vi'']
      else [])"

definition decode_insn32_57_80004000 :: "u32 \<Rightarrow> insn list" where
  "decode_insn32_57_80004000 insn =
     (let x = drop_bit 26 insn AND 0x1f in
      if x = 0x0 then
         [Stub ''vsaddu_vx'']
      else if x = 0x1 then
         [Stub ''vsadd_vx'']
      else if x = 0x2 then
         [Stub ''vssubu_vx'']
      else if x = 0x3 then
         [Stub ''vssub_vx'']
      else if x = 0x5 then
         [Stub ''vsll_vx'']
      else if x = 0x7 then
         [Stub ''vsmul_vx'']
      else if x = 0x8 then
         [Stub ''vsrl_vx'']
      else if x = 0x9 then
         [Stub ''vsra_vx'']
      else if x = 0xa then
         [Stub ''vssrl_vx'']
      else if x = 0xb then
         [Stub ''vssra_vx'']
      else if x = 0xc then
         [Stub ''vnsrl_wx'']
      else if x = 0xd then
         [Stub ''vnsra_wx'']
      else if x = 0xe then
         [Stub ''vnclipu_wx'']
      else if x = 0xf then
         [Stub ''vnclip_wx'']
      else if x = 0x15 then
         [Stub ''vwsll_vx'']
      else [])"

definition decode_insn32_57_80005000_part1 :: "u32 \<Rightarrow> insn list" where
  "decode_insn32_57_80005000_part1 insn =
     (let x = drop_bit 26 insn AND 0x1f in
      if x = 0x1e then
         [Stub ''vfwmsac_vf'']
      else if x = 0x1f then
         [Stub ''vfwnmsac_vf'']
      else [])"

definition decode_insn32_57_80005000 :: "u32 \<Rightarrow> insn list" where
  "decode_insn32_57_80005000 insn =
     (let x = drop_bit 26 insn AND 0x1f in
      if x = 0x0 then
         [Stub ''vfdiv_vf'']
      else if x = 0x1 then
         [Stub ''vfrdiv_vf'']
      else if x = 0x4 then
         [Stub ''vfmul_vf'']
      else if x = 0x7 then
         [Stub ''vfrsub_vf'']
      else if x = 0x8 then
         [Stub ''vfmadd_vf'']
      else if x = 0x9 then
         [Stub ''vfnmadd_vf'']
      else if x = 0xa then
         [Stub ''vfmsub_vf'']
      else if x = 0xb then
         [Stub ''vfnmsub_vf'']
      else if x = 0xc then
         [Stub ''vfmacc_vf'']
      else if x = 0xd then
         [Stub ''vfnmacc_vf'']
      else if x = 0xe then
         [Stub ''vfmsac_vf'']
      else if x = 0xf then
         [Stub ''vfnmsac_vf'']
      else if x = 0x10 then
         [Stub ''vfwadd_vf'']
      else if x = 0x12 then
         [Stub ''vfwsub_vf'']
      else if x = 0x14 then
         [Stub ''vfwadd_wf'']
      else if x = 0x16 then
         [Stub ''vfwsub_wf'']
      else if x = 0x18 then
         [Stub ''vfwmul_vf'']
      else if x = 0x1b then
         [Stub ''vfwmaccbf16_vf'']
      else if x = 0x1c then
         [Stub ''vfwmacc_vf'']
      else if x = 0x1d then
         [Stub ''vfwnmacc_vf'']
      else decode_insn32_57_80005000_part1 insn)"

definition decode_insn32_57_80006000_part1 :: "u32 \<Rightarrow> insn list" where
  "decode_insn32_57_80006000_part1 insn =
     (let x = drop_bit 26 insn AND 0x1f in
      if x = 0x18 then
         [Stub ''vwmulu_vx'']
      else if x = 0x1a then
         [Stub ''vwmulsu_vx'']
      else if x = 0x1b then
         [Stub ''vwmul_vx'']
      else if x = 0x1c then
         [Stub ''vwmaccu_vx'']
      else if x = 0x1d then
         [Stub ''vwmacc_vx'']
      else if x = 0x1e then
         [Stub ''vwmaccus_vx'']
      else if x = 0x1f then
         [Stub ''vwmaccsu_vx'']
      else [])"

definition decode_insn32_57_80006000 :: "u32 \<Rightarrow> insn list" where
  "decode_insn32_57_80006000 insn =
     (let x = drop_bit 26 insn AND 0x1f in
      if x = 0x0 then
         [Stub ''vdivu_vx'']
      else if x = 0x1 then
         [Stub ''vdiv_vx'']
      else if x = 0x2 then
         [Stub ''vremu_vx'']
      else if x = 0x3 then
         [Stub ''vrem_vx'']
      else if x = 0x4 then
         [Stub ''vmulhu_vx'']
      else if x = 0x5 then
         [Stub ''vmul_vx'']
      else if x = 0x6 then
         [Stub ''vmulhsu_vx'']
      else if x = 0x7 then
         [Stub ''vmulh_vx'']
      else if x = 0x9 then
         [Stub ''vmadd_vx'']
      else if x = 0xb then
         [Stub ''vnmsub_vx'']
      else if x = 0xd then
         [Stub ''vmacc_vx'']
      else if x = 0xf then
         [Stub ''vnmsac_vx'']
      else if x = 0x10 then
         [Stub ''vwaddu_vx'']
      else if x = 0x11 then
         [Stub ''vwadd_vx'']
      else if x = 0x12 then
         [Stub ''vwsubu_vx'']
      else if x = 0x13 then
         [Stub ''vwsub_vx'']
      else if x = 0x14 then
         [Stub ''vwaddu_wx'']
      else if x = 0x15 then
         [Stub ''vwadd_wx'']
      else if x = 0x16 then
         [Stub ''vwsubu_wx'']
      else if x = 0x17 then
         [Stub ''vwsub_wx'']
      else decode_insn32_57_80006000_part1 insn)"

definition decode_insn32_57 :: "u32 \<Rightarrow> insn list" where
  "decode_insn32_57 insn =
     (let x = insn AND 0x80007000 in
      if x = 0x00000000 then
         decode_insn32_57_0 insn
      else if x = 0x00001000 then
         decode_insn32_57_1000 insn
      else if x = 0x00002000 then
         decode_insn32_57_2000 insn
      else if x = 0x00003000 then
         decode_insn32_57_3000 insn
      else if x = 0x00004000 then
         decode_insn32_57_4000 insn
      else if x = 0x00005000 then
         decode_insn32_57_5000 insn
      else if x = 0x00006000 then
         decode_insn32_57_6000 insn
      else if x = 0x00007000 then
         [Stub ''vsetvli'']
      else if x = 0x80000000 then
         decode_insn32_57_80000000 insn
      else if x = 0x80001000 then
         decode_insn32_57_80001000 insn
      else if x = 0x80002000 then
         decode_insn32_57_80002000 insn
      else if x = 0x80003000 then
         decode_insn32_57_80003000 insn
      else if x = 0x80004000 then
         decode_insn32_57_80004000 insn
      else if x = 0x80005000 then
         decode_insn32_57_80005000 insn
      else if x = 0x80006000 then
         decode_insn32_57_80006000 insn
      else if x = 0x80007000 then
         (let x = drop_bit 30 insn AND 0x1 in
          if x = 0x0 then
             (let x = drop_bit 25 insn AND 0x1f in
              if x = 0x0 then
                 [Stub ''vsetvl'']
              else [])
          else if x = 0x1 then
             [Stub ''vsetivli'']
          else [])
      else [])"

definition decode_insn32_77_part1 :: "u32 \<Rightarrow> insn list" where
  "decode_insn32_77_part1 insn =
     (let x = insn AND 0xfe007000 in
      if x = 0xb2002000 then
         [Stub ''vghsh_vv'']
      else if x = 0xb6002000 then
         [Stub ''vsha2ms_vv'']
      else if x = 0xba002000 then
         [Stub ''vsha2ch_vv'']
      else if x = 0xbe002000 then
         [Stub ''vsha2cl_vv'']
      else [])"

definition decode_insn32_77 :: "u32 \<Rightarrow> insn list" where
  "decode_insn32_77 insn =
     (let x = insn AND 0xfe007000 in
      if x = 0x82002000 then
         [Stub ''vsm3me_vv'']
      else if x = 0x86002000 then
         [Stub ''vsm4k_vi'']
      else if x = 0x8a002000 then
         [Stub ''vaeskf1_vi'']
      else if x = 0xa2002000 then
         (let x = drop_bit 15 insn AND 0x1f in
          if x = 0x0 then
             [Stub ''vaesdm_vv'']
          else if x = 0x1 then
             [Stub ''vaesdf_vv'']
          else if x = 0x2 then
             [Stub ''vaesem_vv'']
          else if x = 0x3 then
             [Stub ''vaesef_vv'']
          else if x = 0x10 then
             [Stub ''vsm4r_vv'']
          else if x = 0x11 then
             [Stub ''vgmul_vv'']
          else [])
      else if x = 0xa6002000 then
         (let x = drop_bit 15 insn AND 0x1f in
          if x = 0x0 then
             [Stub ''vaesdm_vs'']
          else if x = 0x1 then
             [Stub ''vaesdf_vs'']
          else if x = 0x2 then
             [Stub ''vaesem_vs'']
          else if x = 0x3 then
             [Stub ''vaesef_vs'']
          else if x = 0x7 then
             [Stub ''vaesz_vs'']
          else if x = 0x10 then
             [Stub ''vsm4r_vs'']
          else [])
      else if x = 0xaa002000 then
         [Stub ''vaeskf2_vi'']
      else if x = 0xae002000 then
         [Stub ''vsm3c_vi'']
      else decode_insn32_77_part1 insn)"

end
