(* ===== verification/Decode32.thy ===== *)
theory Decode32
  imports Decode32_Vector
begin

text \<open>
  The decoder decode_insn32 (src/inc/arch/riscv/trans_rv32.h): one definition per opcode or part of
  its switch, and the function itself at the end.
\<close>

definition decode_insn32_f :: "u32 \<Rightarrow> insn list" where
  "decode_insn32_f insn =
     (let x = drop_bit 12 insn AND 0x7 in
      if x = 0x0 then
         (if insn AND 0xffff8f80 = 0x01000000 then
           [E O_pause]
          else [])
         @
         [Fence (decode_insn32_extract_decode_insn32_Fmt_39 insn)]
      else if x = 0x1 then
         [E O_fence_i]
      else if x = 0x2 then
         (if insn AND 0xff800f80 = 0x00000000 then
           (let x = drop_bit 20 insn AND 0x7 in
            if x = 0x0 then
               [Stub ''cbo_inval'']
            else if x = 0x1 then
               [Stub ''cbo_clean'']
            else if x = 0x2 then
               [Stub ''cbo_flush'']
            else if x = 0x4 then
               [Stub ''cbo_zero'']
            else [])
          else [])
         @
         [I O_lq (decode_insn32_extract_i insn)]
      else [])"

definition decode_insn32_13_1_2 :: "u32 \<Rightarrow> insn list" where
  "decode_insn32_13_1_2 insn =
     (let x = drop_bit 20 insn AND 0x7f in
      if x = 0x0 then
         [Stub ''sha256sum0'']
      else if x = 0x1 then
         [Stub ''sha256sum1'']
      else if x = 0x2 then
         [Stub ''sha256sig0'']
      else if x = 0x3 then
         [Stub ''sha256sig1'']
      else if x = 0x4 then
         [Stub ''sha512sum0'']
      else if x = 0x5 then
         [Stub ''sha512sum1'']
      else if x = 0x6 then
         [Stub ''sha512sig0'']
      else if x = 0x7 then
         [Stub ''sha512sig1'']
      else if x = 0x8 then
         [Stub ''sm3p0'']
      else if x = 0x9 then
         [Stub ''sm3p1'']
      else [])"

definition decode_insn32_13_1 :: "u32 \<Rightarrow> insn list" where
  "decode_insn32_13_1 insn =
     (let x = drop_bit 27 insn AND 0x1f in
      if x = 0x0 then
         [Sh O_slli (decode_insn32_extract_sh insn)]
      else if x = 0x1 then
         (let x = drop_bit 20 insn AND 0x7f in
          if x = 0xf then
             [Stub ''zip'']
          else [])
      else if x = 0x2 then
         decode_insn32_13_1_2 insn
      else if x = 0x5 then
         [Sh O_bseti (decode_insn32_extract_sh insn)]
      else if x = 0x6 then
         (let x = drop_bit 24 insn AND 0x7 in
          if x = 0x0 then
             (let x = drop_bit 20 insn AND 0xf in
              if x = 0x0 then
                 [Stub ''aes64im'']
              else [])
          else if x = 0x1 then
             [Stub ''aes64ks1i'']
          else [])
      else if x = 0x9 then
         [Sh O_bclri (decode_insn32_extract_sh insn)]
      else if x = 0xc then
         (let x = drop_bit 20 insn AND 0x7f in
          if x = 0x0 then
             [R2 O_clz (decode_insn32_extract_r2 insn)]
          else if x = 0x1 then
             [R2 O_ctz (decode_insn32_extract_r2 insn)]
          else if x = 0x2 then
             [Stub ''cpop'']
          else if x = 0x4 then
             [R2 O_sext_b (decode_insn32_extract_r2 insn)]
          else if x = 0x5 then
             [R2 O_sext_h (decode_insn32_extract_r2 insn)]
          else [])
      else if x = 0xd then
         [Sh O_binvi (decode_insn32_extract_sh insn)]
      else [])"

definition decode_insn32_13_5 :: "u32 \<Rightarrow> insn list" where
  "decode_insn32_13_5 insn =
     (let x = drop_bit 27 insn AND 0x1f in
      if x = 0x0 then
         [Sh O_srli (decode_insn32_extract_sh insn)]
      else if x = 0x1 then
         (let x = drop_bit 20 insn AND 0x7f in
          if x = 0xf then
             [Stub ''unzip'']
          else [])
      else if x = 0x5 then
         (let x = drop_bit 20 insn AND 0x7f in
          if x = 0x7 then
             [R2 O_orc_b (decode_insn32_extract_r2 insn)]
          else [])
      else if x = 0x8 then
         [Sh O_srai (decode_insn32_extract_sh insn)]
      else if x = 0x9 then
         [Sh O_bexti (decode_insn32_extract_sh insn)]
      else if x = 0xc then
         [Sh O_rori (decode_insn32_extract_sh insn)]
      else if x = 0xd then
         (let x = drop_bit 20 insn AND 0x7f in
          if x = 0x7 then
             [R2 O_brev8 (decode_insn32_extract_r2 insn)]
          else if x = 0x18 then
             [R2 O_rev8_32 (decode_insn32_extract_r2 insn)]
          else if x = 0x38 then
             [R2 O_rev8_64 (decode_insn32_extract_r2 insn)]
          else [])
      else [])"

definition decode_insn32_13 :: "u32 \<Rightarrow> insn list" where
  "decode_insn32_13 insn =
     (let x = drop_bit 12 insn AND 0x7 in
      if x = 0x0 then
         [I O_addi (decode_insn32_extract_i insn)]
      else if x = 0x1 then
         decode_insn32_13_1 insn
      else if x = 0x2 then
         [I O_slti (decode_insn32_extract_i insn)]
      else if x = 0x3 then
         [I O_sltiu (decode_insn32_extract_i insn)]
      else if x = 0x4 then
         [I O_xori (decode_insn32_extract_i insn)]
      else if x = 0x5 then
         decode_insn32_13_5 insn
      else if x = 0x6 then
         [I O_ori (decode_insn32_extract_i insn)]
      else if x = 0x7 then
         [I O_andi (decode_insn32_extract_i insn)]
      else [])"

definition decode_insn32_1b :: "u32 \<Rightarrow> insn list" where
  "decode_insn32_1b insn =
     (let x = drop_bit 12 insn AND 0x7 in
      if x = 0x0 then
         [I O_addiw (decode_insn32_extract_i insn)]
      else if x = 0x1 then
         (let x = drop_bit 27 insn AND 0x1f in
          if x = 0x0 then
             (let x = drop_bit 25 insn AND 0x3 in
              if x = 0x0 then
                 [Sh O_slliw (decode_insn32_extract_sh5 insn)]
              else [])
          else if x = 0x1 then
             [Sh O_slli_uw (decode_insn32_extract_sh insn)]
          else if x = 0xc then
             (let x = drop_bit 20 insn AND 0x7f in
              if x = 0x0 then
                 [R2 O_clzw (decode_insn32_extract_r2 insn)]
              else if x = 0x1 then
                 [R2 O_ctzw (decode_insn32_extract_r2 insn)]
              else if x = 0x2 then
                 [Stub ''cpopw'']
              else [])
          else [])
      else if x = 0x5 then
         (let x = drop_bit 25 insn AND 0x7f in
          if x = 0x0 then
             [Sh O_srliw (decode_insn32_extract_sh5 insn)]
          else if x = 0x20 then
             [Sh O_sraiw (decode_insn32_extract_sh5 insn)]
          else if x = 0x30 then
             [Sh O_roriw (decode_insn32_extract_sh5 insn)]
          else [])
      else [])"

definition decode_insn32_2f_part2 :: "u32 \<Rightarrow> insn list" where
  "decode_insn32_2f_part2 insn =
     (let x = insn AND 0xf8007000 in
      if x = 0x80002000 then
         [A O_amomin_w (decode_insn32_extract_atom_st insn)]
      else if x = 0x80003000 then
         [A O_amomin_d (decode_insn32_extract_atom_st insn)]
      else if x = 0xa0000000 then
         [Stub ''amomax_b'']
      else if x = 0xa0001000 then
         [Stub ''amomax_h'']
      else if x = 0xa0002000 then
         [A O_amomax_w (decode_insn32_extract_atom_st insn)]
      else if x = 0xa0003000 then
         [A O_amomax_d (decode_insn32_extract_atom_st insn)]
      else if x = 0xc0000000 then
         [Stub ''amominu_b'']
      else if x = 0xc0001000 then
         [Stub ''amominu_h'']
      else if x = 0xc0002000 then
         [A O_amominu_w (decode_insn32_extract_atom_st insn)]
      else if x = 0xc0003000 then
         [A O_amominu_d (decode_insn32_extract_atom_st insn)]
      else if x = 0xe0000000 then
         [Stub ''amomaxu_b'']
      else if x = 0xe0001000 then
         [Stub ''amomaxu_h'']
      else if x = 0xe0002000 then
         [A O_amomaxu_w (decode_insn32_extract_atom_st insn)]
      else if x = 0xe0003000 then
         [A O_amomaxu_d (decode_insn32_extract_atom_st insn)]
      else [])"

definition decode_insn32_2f_part1 :: "u32 \<Rightarrow> insn list" where
  "decode_insn32_2f_part1 insn =
     (let x = insn AND 0xf8007000 in
      if x = 0x28000000 then
         [Stub ''amocas_b'']
      else if x = 0x28001000 then
         [Stub ''amocas_h'']
      else if x = 0x28002000 then
         [Stub ''amocas_w'']
      else if x = 0x28003000 then
         [Stub ''amocas_d'']
      else if x = 0x28004000 then
         [Stub ''amocas_q'']
      else if x = 0x40000000 then
         [Stub ''amoor_b'']
      else if x = 0x40001000 then
         [Stub ''amoor_h'']
      else if x = 0x40002000 then
         [A O_amoor_w (decode_insn32_extract_atom_st insn)]
      else if x = 0x40003000 then
         [A O_amoor_d (decode_insn32_extract_atom_st insn)]
      else if x = 0x48002000 then
         [Stub ''ssamoswap_w'']
      else if x = 0x48003000 then
         [Stub ''ssamoswap_d'']
      else if x = 0x60000000 then
         [Stub ''amoand_b'']
      else if x = 0x60001000 then
         [Stub ''amoand_h'']
      else if x = 0x60002000 then
         [A O_amoand_w (decode_insn32_extract_atom_st insn)]
      else if x = 0x60003000 then
         [A O_amoand_d (decode_insn32_extract_atom_st insn)]
      else if x = 0x80000000 then
         [Stub ''amomin_b'']
      else if x = 0x80001000 then
         [Stub ''amomin_h'']
      else decode_insn32_2f_part2 insn)"

definition decode_insn32_2f :: "u32 \<Rightarrow> insn list" where
  "decode_insn32_2f insn =
     (let x = insn AND 0xf8007000 in
      if x = 0x00000000 then
         [Stub ''amoadd_b'']
      else if x = 0x00001000 then
         [Stub ''amoadd_h'']
      else if x = 0x00002000 then
         [A O_amoadd_w (decode_insn32_extract_atom_st insn)]
      else if x = 0x00003000 then
         [A O_amoadd_d (decode_insn32_extract_atom_st insn)]
      else if x = 0x08000000 then
         [Stub ''amoswap_b'']
      else if x = 0x08001000 then
         [Stub ''amoswap_h'']
      else if x = 0x08002000 then
         [A O_amoswap_w (decode_insn32_extract_atom_st insn)]
      else if x = 0x08003000 then
         [A O_amoswap_d (decode_insn32_extract_atom_st insn)]
      else if x = 0x10002000 then
         (let x = drop_bit 20 insn AND 0x1f in
          if x = 0x0 then
             [A O_lr_w (decode_insn32_extract_atom_ld insn)]
          else [])
      else if x = 0x10003000 then
         (let x = drop_bit 20 insn AND 0x1f in
          if x = 0x0 then
             [A O_lr_d (decode_insn32_extract_atom_ld insn)]
          else [])
      else if x = 0x18002000 then
         [A O_sc_w (decode_insn32_extract_atom_st insn)]
      else if x = 0x18003000 then
         [A O_sc_d (decode_insn32_extract_atom_st insn)]
      else if x = 0x20000000 then
         [Stub ''amoxor_b'']
      else if x = 0x20001000 then
         [Stub ''amoxor_h'']
      else if x = 0x20002000 then
         [A O_amoxor_w (decode_insn32_extract_atom_st insn)]
      else if x = 0x20003000 then
         [A O_amoxor_d (decode_insn32_extract_atom_st insn)]
      else decode_insn32_2f_part1 insn)"

definition decode_insn32_33_part5 :: "u32 \<Rightarrow> insn list" where
  "decode_insn32_33_part5 insn =
     (let x = insn AND 0x3e007000 in
      if x = 0x2e000000 then
         [Stub ''aes32dsmi'']
      else if x = 0x30000000 then
         [Stub ''sm4ed'']
      else if x = 0x32000000 then
         (let x = drop_bit 30 insn AND 0x3 in
          if x = 0x0 then
             [Stub ''aes64es'']
          else [])
      else if x = 0x34000000 then
         [Stub ''sm4ks'']
      else if x = 0x36000000 then
         (let x = drop_bit 30 insn AND 0x3 in
          if x = 0x0 then
             [Stub ''aes64esm'']
          else [])
      else if x = 0x3a000000 then
         (let x = drop_bit 30 insn AND 0x3 in
          if x = 0x0 then
             [Stub ''aes64ds'']
          else [])
      else if x = 0x3e000000 then
         (let x = drop_bit 30 insn AND 0x3 in
          if x = 0x0 then
             [Stub ''aes64dsm'']
          else if x = 0x1 then
             [Stub ''aes64ks2'']
          else [])
      else [])"

definition decode_insn32_33_part4 :: "u32 \<Rightarrow> insn list" where
  "decode_insn32_33_part4 insn =
     (let x = insn AND 0x3e007000 in
      if x = 0x20001000 then
         (let x = drop_bit 30 insn AND 0x3 in
          if x = 0x1 then
             [Rb O_rol (decode_insn32_extract_r insn)]
          else [])
      else if x = 0x20002000 then
         (let x = drop_bit 30 insn AND 0x3 in
          if x = 0x0 then
             [Rb O_sh1add (decode_insn32_extract_r insn)]
          else [])
      else if x = 0x20004000 then
         (let x = drop_bit 30 insn AND 0x3 in
          if x = 0x0 then
             [Rb O_sh2add (decode_insn32_extract_r insn)]
          else [])
      else if x = 0x20005000 then
         (let x = drop_bit 30 insn AND 0x3 in
          if x = 0x1 then
             [Rb O_ror (decode_insn32_extract_r insn)]
          else [])
      else if x = 0x20006000 then
         (let x = drop_bit 30 insn AND 0x3 in
          if x = 0x0 then
             [Rb O_sh3add (decode_insn32_extract_r insn)]
          else [])
      else if x = 0x22000000 then
         [Stub ''aes32esi'']
      else if x = 0x26000000 then
         [Stub ''aes32esmi'']
      else if x = 0x28001000 then
         (let x = drop_bit 30 insn AND 0x3 in
          if x = 0x0 then
             [Rb O_bset (decode_insn32_extract_r insn)]
          else if x = 0x1 then
             [Rb O_binv (decode_insn32_extract_r insn)]
          else [])
      else if x = 0x28002000 then
         (let x = drop_bit 30 insn AND 0x3 in
          if x = 0x0 then
             [Stub ''xperm4'']
          else [])
      else if x = 0x28004000 then
         (let x = drop_bit 30 insn AND 0x3 in
          if x = 0x0 then
             [Stub ''xperm8'']
          else [])
      else if x = 0x2a000000 then
         [Stub ''aes32dsi'']
      else decode_insn32_33_part5 insn)"

definition decode_insn32_33_part3 :: "u32 \<Rightarrow> insn list" where
  "decode_insn32_33_part3 insn =
     (let x = insn AND 0x3e007000 in
      if x = 0x0a006000 then
         (let x = drop_bit 30 insn AND 0x3 in
          if x = 0x0 then
             [Rb O_max (decode_insn32_extract_r insn)]
          else [])
      else if x = 0x0a007000 then
         (let x = drop_bit 30 insn AND 0x3 in
          if x = 0x0 then
             [Rb O_maxu (decode_insn32_extract_r insn)]
          else [])
      else if x = 0x0e005000 then
         (let x = drop_bit 30 insn AND 0x3 in
          if x = 0x0 then
             [Stub ''czero_eqz'']
          else [])
      else if x = 0x0e007000 then
         (let x = drop_bit 30 insn AND 0x3 in
          if x = 0x0 then
             [Stub ''czero_nez'']
          else [])
      else if x = 0x10000000 then
         (let x = drop_bit 30 insn AND 0x3 in
          if x = 0x1 then
             [Stub ''sha512sum0r'']
          else [])
      else if x = 0x12000000 then
         (let x = drop_bit 30 insn AND 0x3 in
          if x = 0x1 then
             [Stub ''sha512sum1r'']
          else [])
      else if x = 0x14000000 then
         (let x = drop_bit 30 insn AND 0x3 in
          if x = 0x1 then
             [Stub ''sha512sig0l'']
          else [])
      else if x = 0x16000000 then
         (let x = drop_bit 30 insn AND 0x3 in
          if x = 0x1 then
             [Stub ''sha512sig1l'']
          else [])
      else if x = 0x1c000000 then
         (let x = drop_bit 30 insn AND 0x3 in
          if x = 0x1 then
             [Stub ''sha512sig0h'']
          else [])
      else if x = 0x1e000000 then
         (let x = drop_bit 30 insn AND 0x3 in
          if x = 0x1 then
             [Stub ''sha512sig1h'']
          else [])
      else decode_insn32_33_part4 insn)"

definition decode_insn32_33_part2 :: "u32 \<Rightarrow> insn list" where
  "decode_insn32_33_part2 insn =
     (let x = insn AND 0x3e007000 in
      if x = 0x08001000 then
         (let x = drop_bit 30 insn AND 0x3 in
          if x = 0x1 then
             [Rb O_bclr (decode_insn32_extract_r insn)]
          else [])
      else if x = 0x08004000 then
         (let x = drop_bit 30 insn AND 0x3 in
          if x = 0x0 then
             (if insn AND 0x01f00000 = 0x00000000 then
               [Stub ''zext_h_32'']
              else [])
             @
             [Rb O_pack (decode_insn32_extract_r insn)]
          else [])
      else if x = 0x08005000 then
         (let x = drop_bit 30 insn AND 0x3 in
          if x = 0x1 then
             [Rb O_bext (decode_insn32_extract_r insn)]
          else [])
      else if x = 0x08007000 then
         (let x = drop_bit 30 insn AND 0x3 in
          if x = 0x0 then
             [Rb O_packh (decode_insn32_extract_r insn)]
          else [])
      else if x = 0x0a001000 then
         (let x = drop_bit 30 insn AND 0x3 in
          if x = 0x0 then
             [Stub ''clmul'']
          else [])
      else if x = 0x0a002000 then
         (let x = drop_bit 30 insn AND 0x3 in
          if x = 0x0 then
             [Stub ''clmulr'']
          else [])
      else if x = 0x0a003000 then
         (let x = drop_bit 30 insn AND 0x3 in
          if x = 0x0 then
             [Stub ''clmulh'']
          else [])
      else if x = 0x0a004000 then
         (let x = drop_bit 30 insn AND 0x3 in
          if x = 0x0 then
             [Rb O_min (decode_insn32_extract_r insn)]
          else [])
      else if x = 0x0a005000 then
         (let x = drop_bit 30 insn AND 0x3 in
          if x = 0x0 then
             [Rb O_minu (decode_insn32_extract_r insn)]
          else [])
      else decode_insn32_33_part3 insn)"

definition decode_insn32_33_part1 :: "u32 \<Rightarrow> insn list" where
  "decode_insn32_33_part1 insn =
     (let x = insn AND 0x3e007000 in
      if x = 0x00007000 then
         (let x = drop_bit 30 insn AND 0x3 in
          if x = 0x0 then
             [R O_and (decode_insn32_extract_r insn)]
          else if x = 0x1 then
             [Rb O_andn (decode_insn32_extract_r insn)]
          else [])
      else if x = 0x02000000 then
         (let x = drop_bit 30 insn AND 0x3 in
          if x = 0x0 then
             [R O_mul (decode_insn32_extract_r insn)]
          else [])
      else if x = 0x02001000 then
         (let x = drop_bit 30 insn AND 0x3 in
          if x = 0x0 then
             [R O_mulh (decode_insn32_extract_r insn)]
          else [])
      else if x = 0x02002000 then
         (let x = drop_bit 30 insn AND 0x3 in
          if x = 0x0 then
             [Stub ''mulhsu'']
          else [])
      else if x = 0x02003000 then
         (let x = drop_bit 30 insn AND 0x3 in
          if x = 0x0 then
             [R O_mulhu (decode_insn32_extract_r insn)]
          else [])
      else if x = 0x02004000 then
         (let x = drop_bit 30 insn AND 0x3 in
          if x = 0x0 then
             [R O_div (decode_insn32_extract_r insn)]
          else [])
      else if x = 0x02005000 then
         (let x = drop_bit 30 insn AND 0x3 in
          if x = 0x0 then
             [R O_divu (decode_insn32_extract_r insn)]
          else [])
      else if x = 0x02006000 then
         (let x = drop_bit 30 insn AND 0x3 in
          if x = 0x0 then
             [R O_rem (decode_insn32_extract_r insn)]
          else [])
      else if x = 0x02007000 then
         (let x = drop_bit 30 insn AND 0x3 in
          if x = 0x0 then
             [R O_remu (decode_insn32_extract_r insn)]
          else [])
      else decode_insn32_33_part2 insn)"

definition decode_insn32_33 :: "u32 \<Rightarrow> insn list" where
  "decode_insn32_33 insn =
     (let x = insn AND 0x3e007000 in
      if x = 0x00000000 then
         (let x = drop_bit 30 insn AND 0x3 in
          if x = 0x0 then
             [R O_add (decode_insn32_extract_r insn)]
          else if x = 0x1 then
             [R O_sub (decode_insn32_extract_r insn)]
          else [])
      else if x = 0x00001000 then
         (let x = drop_bit 30 insn AND 0x3 in
          if x = 0x0 then
             [R O_sll (decode_insn32_extract_r insn)]
          else [])
      else if x = 0x00002000 then
         (let x = drop_bit 30 insn AND 0x3 in
          if x = 0x0 then
             [R O_slt (decode_insn32_extract_r insn)]
          else [])
      else if x = 0x00003000 then
         (let x = drop_bit 30 insn AND 0x3 in
          if x = 0x0 then
             [R O_sltu (decode_insn32_extract_r insn)]
          else [])
      else if x = 0x00004000 then
         (let x = drop_bit 30 insn AND 0x3 in
          if x = 0x0 then
             [R O_xor (decode_insn32_extract_r insn)]
          else if x = 0x1 then
             [Rb O_xnor (decode_insn32_extract_r insn)]
          else [])
      else if x = 0x00005000 then
         (let x = drop_bit 30 insn AND 0x3 in
          if x = 0x0 then
             [R O_srl (decode_insn32_extract_r insn)]
          else if x = 0x1 then
             [R O_sra (decode_insn32_extract_r insn)]
          else [])
      else if x = 0x00006000 then
         (let x = drop_bit 30 insn AND 0x3 in
          if x = 0x0 then
             [R O_or (decode_insn32_extract_r insn)]
          else if x = 0x1 then
             [Rb O_orn (decode_insn32_extract_r insn)]
          else [])
      else decode_insn32_33_part1 insn)"

definition decode_insn32_3b_part1 :: "u32 \<Rightarrow> insn list" where
  "decode_insn32_3b_part1 insn =
     (let x = insn AND 0xfe007000 in
      if x = 0x60005000 then
         [Rb O_rorw (decode_insn32_extract_r insn)]
      else [])"

definition decode_insn32_3b :: "u32 \<Rightarrow> insn list" where
  "decode_insn32_3b insn =
     (let x = insn AND 0xfe007000 in
      if x = 0x00000000 then
         [R O_addw (decode_insn32_extract_r insn)]
      else if x = 0x00001000 then
         [R O_sllw (decode_insn32_extract_r insn)]
      else if x = 0x00005000 then
         [R O_srlw (decode_insn32_extract_r insn)]
      else if x = 0x02000000 then
         [R O_mulw (decode_insn32_extract_r insn)]
      else if x = 0x02004000 then
         [R O_divw (decode_insn32_extract_r insn)]
      else if x = 0x02005000 then
         [R O_divuw (decode_insn32_extract_r insn)]
      else if x = 0x02006000 then
         [R O_remw (decode_insn32_extract_r insn)]
      else if x = 0x02007000 then
         [R O_remuw (decode_insn32_extract_r insn)]
      else if x = 0x08000000 then
         [Rb O_add_uw (decode_insn32_extract_r insn)]
      else if x = 0x08004000 then
         (if insn AND 0x01f00000 = 0x00000000 then
           [R2 O_zext_h_64 (decode_insn32_extract_r2 insn)]
          else [])
         @
         [Rb O_packw (decode_insn32_extract_r insn)]
      else if x = 0x20002000 then
         [Rb O_sh1add_uw (decode_insn32_extract_r insn)]
      else if x = 0x20004000 then
         [Rb O_sh2add_uw (decode_insn32_extract_r insn)]
      else if x = 0x20006000 then
         [Rb O_sh3add_uw (decode_insn32_extract_r insn)]
      else if x = 0x40000000 then
         [R O_subw (decode_insn32_extract_r insn)]
      else if x = 0x40005000 then
         [R O_sraw (decode_insn32_extract_r insn)]
      else if x = 0x60001000 then
         [Rb O_rolw (decode_insn32_extract_r insn)]
      else decode_insn32_3b_part1 insn)"

definition decode_insn32_53_part7 :: "u32 \<Rightarrow> insn list" where
  "decode_insn32_53_part7 insn =
     (let x = drop_bit 25 insn AND 0x7f in
      if x = 0x78 then
         (let x = insn AND 0x01f07000 in
          if x = 0x00000000 then
             [R2 O_fmv_w_x (decode_insn32_extract_r2 insn)]
          else if x = 0x00100000 then
             [Stub ''fli_s'']
          else [])
      else if x = 0x79 then
         (let x = insn AND 0x01f07000 in
          if x = 0x00000000 then
             [R2 O_fmv_d_x (decode_insn32_extract_r2 insn)]
          else if x = 0x00100000 then
             [Stub ''fli_d'']
          else [])
      else if x = 0x7a then
         (let x = insn AND 0x01f07000 in
          if x = 0x00000000 then
             [Stub ''fmv_h_x'']
          else if x = 0x00100000 then
             [Stub ''fli_h'']
          else [])
      else [])"

definition decode_insn32_53_part6 :: "u32 \<Rightarrow> insn list" where
  "decode_insn32_53_part6 insn =
     (let x = drop_bit 25 insn AND 0x7f in
      if x = 0x69 then
         (let x = drop_bit 20 insn AND 0x1f in
          if x = 0x0 then
             [F2 O_fcvt_d_w (decode_insn32_extract_r2_rm insn)]
          else if x = 0x1 then
             [F2 O_fcvt_d_wu (decode_insn32_extract_r2_rm insn)]
          else if x = 0x2 then
             [F2 O_fcvt_d_l (decode_insn32_extract_r2_rm insn)]
          else if x = 0x3 then
             [F2 O_fcvt_d_lu (decode_insn32_extract_r2_rm insn)]
          else [])
      else if x = 0x6a then
         (let x = drop_bit 20 insn AND 0x1f in
          if x = 0x0 then
             [Stub ''fcvt_h_w'']
          else if x = 0x1 then
             [Stub ''fcvt_h_wu'']
          else if x = 0x2 then
             [Stub ''fcvt_h_l'']
          else if x = 0x3 then
             [Stub ''fcvt_h_lu'']
          else [])
      else if x = 0x70 then
         (let x = insn AND 0x01f07000 in
          if x = 0x00000000 then
             [R2 O_fmv_x_w (decode_insn32_extract_r2 insn)]
          else if x = 0x00001000 then
             [Stub ''fclass_s'']
          else [])
      else if x = 0x71 then
         (let x = insn AND 0x01f07000 in
          if x = 0x00000000 then
             [R2 O_fmv_x_d (decode_insn32_extract_r2 insn)]
          else if x = 0x00001000 then
             [Stub ''fclass_d'']
          else if x = 0x00100000 then
             [Stub ''fmvh_x_d'']
          else [])
      else if x = 0x72 then
         (let x = insn AND 0x01f07000 in
          if x = 0x00000000 then
             [Stub ''fmv_x_h'']
          else if x = 0x00001000 then
             [Stub ''fclass_h'']
          else [])
      else decode_insn32_53_part7 insn)"

definition decode_insn32_53_part5 :: "u32 \<Rightarrow> insn list" where
  "decode_insn32_53_part5 insn =
     (let x = drop_bit 25 insn AND 0x7f in
      if x = 0x61 then
         (let x = drop_bit 20 insn AND 0x1f in
          if x = 0x0 then
             [F2 O_fcvt_w_d (decode_insn32_extract_r2_rm insn)]
          else if x = 0x1 then
             [F2 O_fcvt_wu_d (decode_insn32_extract_r2_rm insn)]
          else if x = 0x2 then
             [F2 O_fcvt_l_d (decode_insn32_extract_r2_rm insn)]
          else if x = 0x3 then
             [F2 O_fcvt_lu_d (decode_insn32_extract_r2_rm insn)]
          else if x = 0x8 then
             (let x = drop_bit 12 insn AND 0x7 in
              if x = 0x1 then
                 [Stub ''fcvtmod_w_d'']
              else [])
          else [])
      else if x = 0x62 then
         (let x = drop_bit 20 insn AND 0x1f in
          if x = 0x0 then
             [Stub ''fcvt_w_h'']
          else if x = 0x1 then
             [Stub ''fcvt_wu_h'']
          else if x = 0x2 then
             [Stub ''fcvt_l_h'']
          else if x = 0x3 then
             [Stub ''fcvt_lu_h'']
          else [])
      else if x = 0x68 then
         (let x = drop_bit 20 insn AND 0x1f in
          if x = 0x0 then
             [F2 O_fcvt_s_w (decode_insn32_extract_r2_rm insn)]
          else if x = 0x1 then
             [F2 O_fcvt_s_wu (decode_insn32_extract_r2_rm insn)]
          else if x = 0x2 then
             [F2 O_fcvt_s_l (decode_insn32_extract_r2_rm insn)]
          else if x = 0x3 then
             [F2 O_fcvt_s_lu (decode_insn32_extract_r2_rm insn)]
          else [])
      else decode_insn32_53_part6 insn)"

definition decode_insn32_53_part4 :: "u32 \<Rightarrow> insn list" where
  "decode_insn32_53_part4 insn =
     (let x = drop_bit 25 insn AND 0x7f in
      if x = 0x51 then
         (let x = drop_bit 12 insn AND 0x7 in
          if x = 0x0 then
             [Fr O_fle_d (decode_insn32_extract_r insn)]
          else if x = 0x1 then
             [Fr O_flt_d (decode_insn32_extract_r insn)]
          else if x = 0x2 then
             [Fr O_feq_d (decode_insn32_extract_r insn)]
          else if x = 0x4 then
             [Stub ''fleq_d'']
          else if x = 0x5 then
             [Stub ''fltq_d'']
          else [])
      else if x = 0x52 then
         (let x = drop_bit 12 insn AND 0x7 in
          if x = 0x0 then
             [Stub ''fle_h'']
          else if x = 0x1 then
             [Stub ''flt_h'']
          else if x = 0x2 then
             [Stub ''feq_h'']
          else if x = 0x4 then
             [Stub ''fleq_h'']
          else if x = 0x5 then
             [Stub ''fltq_h'']
          else [])
      else if x = 0x59 then
         (let x = drop_bit 12 insn AND 0x7 in
          if x = 0x0 then
             [Stub ''fmvp_d_x'']
          else [])
      else if x = 0x60 then
         (let x = drop_bit 20 insn AND 0x1f in
          if x = 0x0 then
             [F2 O_fcvt_w_s (decode_insn32_extract_r2_rm insn)]
          else if x = 0x1 then
             [Stub ''fcvt_wu_s'']
          else if x = 0x2 then
             [F2 O_fcvt_l_s (decode_insn32_extract_r2_rm insn)]
          else if x = 0x3 then
             [F2 O_fcvt_lu_s (decode_insn32_extract_r2_rm insn)]
          else [])
      else decode_insn32_53_part5 insn)"

definition decode_insn32_53_part3 :: "u32 \<Rightarrow> insn list" where
  "decode_insn32_53_part3 insn =
     (let x = drop_bit 25 insn AND 0x7f in
      if x = 0x22 then
         (let x = drop_bit 20 insn AND 0x1f in
          if x = 0x0 then
             [Stub ''fcvt_h_s'']
          else if x = 0x1 then
             [Stub ''fcvt_h_d'']
          else if x = 0x4 then
             [Stub ''fround_h'']
          else if x = 0x5 then
             [Stub ''froundnx_h'']
          else if x = 0x8 then
             [Stub ''fcvt_bf16_s'']
          else [])
      else if x = 0x2c then
         (let x = drop_bit 20 insn AND 0x1f in
          if x = 0x0 then
             [Stub ''fsqrt_s'']
          else [])
      else if x = 0x2d then
         (let x = drop_bit 20 insn AND 0x1f in
          if x = 0x0 then
             [Stub ''fsqrt_d'']
          else [])
      else if x = 0x2e then
         (let x = drop_bit 20 insn AND 0x1f in
          if x = 0x0 then
             [Stub ''fsqrt_h'']
          else [])
      else if x = 0x50 then
         (let x = drop_bit 12 insn AND 0x7 in
          if x = 0x0 then
             [Fr O_fle_s (decode_insn32_extract_r insn)]
          else if x = 0x1 then
             [Fr O_flt_s (decode_insn32_extract_r insn)]
          else if x = 0x2 then
             [Stub ''feq_s'']
          else if x = 0x4 then
             [Stub ''fleq_s'']
          else if x = 0x5 then
             [Stub ''fltq_s'']
          else [])
      else decode_insn32_53_part4 insn)"

definition decode_insn32_53_part2 :: "u32 \<Rightarrow> insn list" where
  "decode_insn32_53_part2 insn =
     (let x = drop_bit 25 insn AND 0x7f in
      if x = 0x16 then
         (let x = drop_bit 12 insn AND 0x7 in
          if x = 0x0 then
             [Stub ''fmin_h'']
          else if x = 0x1 then
             [Stub ''fmax_h'']
          else if x = 0x2 then
             [Stub ''fminm_h'']
          else if x = 0x3 then
             [Stub ''fmaxm_h'']
          else [])
      else if x = 0x20 then
         (let x = drop_bit 20 insn AND 0x1f in
          if x = 0x1 then
             [F2 O_fcvt_s_d (decode_insn32_extract_r2_rm insn)]
          else if x = 0x2 then
             [Stub ''fcvt_s_h'']
          else if x = 0x4 then
             [Stub ''fround_s'']
          else if x = 0x5 then
             [Stub ''froundnx_s'']
          else if x = 0x6 then
             [Stub ''fcvt_s_bf16'']
          else [])
      else if x = 0x21 then
         (let x = drop_bit 20 insn AND 0x1f in
          if x = 0x0 then
             [F2 O_fcvt_d_s (decode_insn32_extract_r2_rm insn)]
          else if x = 0x2 then
             [Stub ''fcvt_d_h'']
          else if x = 0x4 then
             [Stub ''fround_d'']
          else if x = 0x5 then
             [Stub ''froundnx_d'']
          else [])
      else decode_insn32_53_part3 insn)"

definition decode_insn32_53_part1 :: "u32 \<Rightarrow> insn list" where
  "decode_insn32_53_part1 insn =
     (let x = drop_bit 25 insn AND 0x7f in
      if x = 0x11 then
         (let x = drop_bit 12 insn AND 0x7 in
          if x = 0x0 then
             [Fr O_fsgnj_d (decode_insn32_extract_r insn)]
          else if x = 0x1 then
             [Fr O_fsgnjn_d (decode_insn32_extract_r insn)]
          else if x = 0x2 then
             [Fr O_fsgnjx_d (decode_insn32_extract_r insn)]
          else [])
      else if x = 0x12 then
         (let x = drop_bit 12 insn AND 0x7 in
          if x = 0x0 then
             [Stub ''fsgnj_h'']
          else if x = 0x1 then
             [Stub ''fsgnjn_h'']
          else if x = 0x2 then
             [Stub ''fsgnjx_h'']
          else [])
      else if x = 0x14 then
         (let x = drop_bit 12 insn AND 0x7 in
          if x = 0x0 then
             [Stub ''fmin_s'']
          else if x = 0x1 then
             [Stub ''fmax_s'']
          else if x = 0x2 then
             [Stub ''fminm_s'']
          else if x = 0x3 then
             [Stub ''fmaxm_s'']
          else [])
      else if x = 0x15 then
         (let x = drop_bit 12 insn AND 0x7 in
          if x = 0x0 then
             [Fr O_fmin_d (decode_insn32_extract_r insn)]
          else if x = 0x1 then
             [Stub ''fmax_d'']
          else if x = 0x2 then
             [Stub ''fminm_d'']
          else if x = 0x3 then
             [Stub ''fmaxm_d'']
          else [])
      else decode_insn32_53_part2 insn)"

definition decode_insn32_53 :: "u32 \<Rightarrow> insn list" where
  "decode_insn32_53 insn =
     (let x = drop_bit 25 insn AND 0x7f in
      if x = 0x0 then
         [F3 O_fadd_s (decode_insn32_extract_r_rm insn)]
      else if x = 0x1 then
         [F3 O_fadd_d (decode_insn32_extract_r_rm insn)]
      else if x = 0x2 then
         [Stub ''fadd_h'']
      else if x = 0x4 then
         [F3 O_fsub_s (decode_insn32_extract_r_rm insn)]
      else if x = 0x5 then
         [F3 O_fsub_d (decode_insn32_extract_r_rm insn)]
      else if x = 0x6 then
         [Stub ''fsub_h'']
      else if x = 0x8 then
         [F3 O_fmul_s (decode_insn32_extract_r_rm insn)]
      else if x = 0x9 then
         [F3 O_fmul_d (decode_insn32_extract_r_rm insn)]
      else if x = 0xa then
         [Stub ''fmul_h'']
      else if x = 0xc then
         [F3 O_fdiv_s (decode_insn32_extract_r_rm insn)]
      else if x = 0xd then
         [F3 O_fdiv_d (decode_insn32_extract_r_rm insn)]
      else if x = 0xe then
         [Stub ''fdiv_h'']
      else if x = 0x10 then
         (let x = drop_bit 12 insn AND 0x7 in
          if x = 0x0 then
             [Fr O_fsgnj_s (decode_insn32_extract_r insn)]
          else if x = 0x1 then
             [Fr O_fsgnjn_s (decode_insn32_extract_r insn)]
          else if x = 0x2 then
             [Fr O_fsgnjx_s (decode_insn32_extract_r insn)]
          else [])
      else decode_insn32_53_part1 insn)"

definition decode_insn32_73_0_part1 :: "u32 \<Rightarrow> insn list" where
  "decode_insn32_73_0_part1 insn =
     (let x = insn AND 0xfe000f80 in
      if x = 0x30000000 then
         (let x = drop_bit 15 insn AND 0x3ff in
          if x = 0x40 then
             [E O_mret]
          else [])
      else if x = 0x62000000 then
         [Stub ''hfence_gvma'']
      else if x = 0x66000000 then
         [Stub ''hinval_gvma'']
      else [])"

definition decode_insn32_73_0 :: "u32 \<Rightarrow> insn list" where
  "decode_insn32_73_0 insn =
     (let x = insn AND 0xfe000f80 in
      if x = 0x00000000 then
         (let x = drop_bit 15 insn AND 0x3ff in
          if x = 0x0 then
             [E O_ecall]
          else if x = 0x20 then
             [E O_ebreak]
          else if x = 0x40 then
             [Stub ''uret'']
          else if x = 0x1a0 then
             [Stub ''wrs_nto'']
          else if x = 0x3a0 then
             [Stub ''wrs_sto'']
          else [])
      else if x = 0x10000000 then
         (let x = drop_bit 20 insn AND 0x1f in
          if x = 0x2 then
             (let x = drop_bit 15 insn AND 0x1f in
              if x = 0x0 then
                 [E O_sret]
              else [])
          else if x = 0x4 then
             [Stub ''sfence_vm'']
          else if x = 0x5 then
             (let x = drop_bit 15 insn AND 0x1f in
              if x = 0x0 then
                 [E O_wfi]
              else [])
          else [])
      else if x = 0x12000000 then
         [Sfence_vma (decode_insn32_extract_sfence_vma insn)]
      else if x = 0x16000000 then
         [Stub ''sinval_vma'']
      else if x = 0x18000000 then
         (let x = drop_bit 15 insn AND 0x3ff in
          if x = 0x0 then
             [Stub ''sfence_w_inval'']
          else if x = 0x20 then
             [Stub ''sfence_inval_ir'']
          else [])
      else if x = 0x22000000 then
         [Stub ''hfence_vvma'']
      else if x = 0x26000000 then
         [Stub ''hinval_vvma'']
      else decode_insn32_73_0_part1 insn)"

definition decode_insn32_73_4_part1 :: "u32 \<Rightarrow> insn list" where
  "decode_insn32_73_4_part1 insn =
     (let x = insn AND 0xb2000000 in
      if x = 0x80000000 then
         (let x = drop_bit 22 insn AND 0x7 in
          if x = 0x7 then
             (if insn AND 0x4c3d0000 = 0x4c000000 then
               (let x = insn AND 0x00028000 in
                if x = 0x00000000 then
                   [Stub ''ssrdp'']
                else if x = 0x00008000 then
                   (let x = drop_bit 7 insn AND 0x1f in
                    if x = 0x0 then
                       [Stub ''sspopchk'']
                    else [])
                else if x = 0x00028000 then
                   (let x = drop_bit 7 insn AND 0x1f in
                    if x = 0x0 then
                       [Stub ''sspopchk'']
                    else [])
                else [])
              else [])
             @
             [Stub ''mop_r_n'']
          else [])
      else if x = 0x82000000 then
         (if insn AND 0x4dbf8f80 = 0x4c100000 then
           (let x = drop_bit 22 insn AND 0x1 in
            if x = 0x0 then
               [Stub ''sspush'']
            else if x = 0x1 then
               [Stub ''sspush'']
            else [])
          else [])
         @
         [Stub ''mop_rr_n'']
      else [])"

definition decode_insn32_73_4 :: "u32 \<Rightarrow> insn list" where
  "decode_insn32_73_4 insn =
     (let x = insn AND 0xb2000000 in
      if x = 0x20000000 then
         (let x = insn AND 0x4df00000 in
          if x = 0x40000000 then
             [Stub ''hlv_b'']
          else if x = 0x40100000 then
             [Stub ''hlv_bu'']
          else if x = 0x44000000 then
             [Stub ''hlv_h'']
          else if x = 0x44100000 then
             [Stub ''hlv_hu'']
          else if x = 0x44300000 then
             [Stub ''hlvx_hu'']
          else if x = 0x48000000 then
             [Stub ''hlv_w'']
          else if x = 0x48100000 then
             [Stub ''hlv_wu'']
          else if x = 0x48300000 then
             [Stub ''hlvx_wu'']
          else if x = 0x4c000000 then
             [Stub ''hlv_d'']
          else [])
      else if x = 0x22000000 then
         (let x = insn AND 0x4c000f80 in
          if x = 0x40000000 then
             [Stub ''hsv_b'']
          else if x = 0x44000000 then
             [Stub ''hsv_h'']
          else if x = 0x48000000 then
             [Stub ''hsv_w'']
          else if x = 0x4c000000 then
             [Stub ''hsv_d'']
          else [])
      else decode_insn32_73_4_part1 insn)"

definition decode_insn32_73 :: "u32 \<Rightarrow> insn list" where
  "decode_insn32_73 insn =
     (let x = drop_bit 12 insn AND 0x7 in
      if x = 0x0 then
         decode_insn32_73_0 insn
      else if x = 0x1 then
         [Csr O_csrrw (decode_insn32_extract_csr insn)]
      else if x = 0x2 then
         [Csr O_csrrs (decode_insn32_extract_csr insn)]
      else if x = 0x3 then
         [Csr O_csrrc (decode_insn32_extract_csr insn)]
      else if x = 0x4 then
         decode_insn32_73_4 insn
      else if x = 0x5 then
         [Csr O_csrrwi (decode_insn32_extract_csr insn)]
      else if x = 0x6 then
         [Csr O_csrrsi (decode_insn32_extract_csr insn)]
      else if x = 0x7 then
         [Csr O_csrrci (decode_insn32_extract_csr insn)]
      else [])"

definition decode_insn32_7b :: "u32 \<Rightarrow> insn list" where
  "decode_insn32_7b insn =
     (let x = insn AND 0xfe007000 in
      if x = 0x00000000 then
         [Stub ''addd'']
      else if x = 0x00001000 then
         [Stub ''slld'']
      else if x = 0x00005000 then
         [Stub ''srld'']
      else if x = 0x02000000 then
         [Stub ''muld'']
      else if x = 0x02004000 then
         [Stub ''divd'']
      else if x = 0x02005000 then
         [Stub ''divud'']
      else if x = 0x02006000 then
         [Stub ''remd'']
      else if x = 0x02007000 then
         [Stub ''remud'']
      else if x = 0x40000000 then
         [Stub ''subd'']
      else if x = 0x40005000 then
         [Stub ''srad'']
      else [])"

definition decode_insn32_part2 :: "u32 \<Rightarrow> insn list" where
  "decode_insn32_part2 insn =
     (let x = insn AND 0x0000007f in
      if x = 0x0000005b then
         (let x = drop_bit 12 insn AND 0x7 in
          if x = 0x0 then
             [Stub ''addid'']
          else if x = 0x1 then
             (let x = drop_bit 26 insn AND 0x3f in
              if x = 0x0 then
                 [Stub ''sllid'']
              else [])
          else if x = 0x5 then
             (let x = drop_bit 26 insn AND 0x3f in
              if x = 0x0 then
                 [Stub ''srlid'']
              else if x = 0x10 then
                 [Stub ''sraid'']
              else [])
          else [])
      else if x = 0x00000063 then
         (let x = drop_bit 12 insn AND 0x7 in
          if x = 0x0 then
             [B O_beq (decode_insn32_extract_b insn)]
          else if x = 0x1 then
             [B O_bne (decode_insn32_extract_b insn)]
          else if x = 0x4 then
             [B O_blt (decode_insn32_extract_b insn)]
          else if x = 0x5 then
             [B O_bge (decode_insn32_extract_b insn)]
          else if x = 0x6 then
             [B O_bltu (decode_insn32_extract_b insn)]
          else if x = 0x7 then
             [B O_bgeu (decode_insn32_extract_b insn)]
          else [])
      else if x = 0x00000067 then
         (let x = drop_bit 12 insn AND 0x7 in
          if x = 0x0 then
             [I O_jalr (decode_insn32_extract_i insn)]
          else [])
      else if x = 0x0000006f then
         [Jal (decode_insn32_extract_j insn)]
      else if x = 0x00000073 then
         decode_insn32_73 insn
      else if x = 0x00000077 then
         decode_insn32_77 insn
      else if x = 0x0000007b then
         decode_insn32_7b insn
      else [])"

definition decode_insn32_part1 :: "u32 \<Rightarrow> insn list" where
  "decode_insn32_part1 insn =
     (let x = insn AND 0x0000007f in
      if x = 0x00000043 then
         (let x = drop_bit 25 insn AND 0x3 in
          if x = 0x0 then
             [Stub ''fmadd_s'']
          else if x = 0x1 then
             [Fmadd_d (decode_insn32_extract_r4_rm insn)]
          else if x = 0x2 then
             [Stub ''fmadd_h'']
          else [])
      else if x = 0x00000047 then
         (let x = drop_bit 25 insn AND 0x3 in
          if x = 0x0 then
             [Stub ''fmsub_s'']
          else if x = 0x1 then
             [Stub ''fmsub_d'']
          else if x = 0x2 then
             [Stub ''fmsub_h'']
          else [])
      else if x = 0x0000004b then
         (let x = drop_bit 25 insn AND 0x3 in
          if x = 0x0 then
             [Stub ''fnmsub_s'']
          else if x = 0x1 then
             [Stub ''fnmsub_d'']
          else if x = 0x2 then
             [Stub ''fnmsub_h'']
          else [])
      else if x = 0x0000004f then
         (let x = drop_bit 25 insn AND 0x3 in
          if x = 0x0 then
             [Stub ''fnmadd_s'']
          else if x = 0x1 then
             [Stub ''fnmadd_d'']
          else if x = 0x2 then
             [Stub ''fnmadd_h'']
          else [])
      else if x = 0x00000053 then
         decode_insn32_53 insn
      else if x = 0x00000057 then
         decode_insn32_57 insn
      else decode_insn32_part2 insn)"

definition decode_insn32 :: "u32 \<Rightarrow> insn list" where
  "decode_insn32 insn =
     (let x = insn AND 0x0000007f in
      if x = 0x00000003 then
         (let x = drop_bit 12 insn AND 0x7 in
          if x = 0x0 then
             [I O_lb (decode_insn32_extract_i insn)]
          else if x = 0x1 then
             [I O_lh (decode_insn32_extract_i insn)]
          else if x = 0x2 then
             [I O_lw (decode_insn32_extract_i insn)]
          else if x = 0x3 then
             [I O_ld (decode_insn32_extract_i insn)]
          else if x = 0x4 then
             [I O_lbu (decode_insn32_extract_i insn)]
          else if x = 0x5 then
             [I O_lhu (decode_insn32_extract_i insn)]
          else if x = 0x6 then
             [I O_lwu (decode_insn32_extract_i insn)]
          else if x = 0x7 then
             [Stub ''ldu'']
          else [])
      else if x = 0x00000007 then
         decode_insn32_7 insn
      else if x = 0x0000000f then
         decode_insn32_f insn
      else if x = 0x00000013 then
         decode_insn32_13 insn
      else if x = 0x00000017 then
         (if insn AND 0x00000f80 = 0x00000000 then
           [Stub ''lpad'']
          else [])
         @
         [U O_auipc (decode_insn32_extract_u insn)]
      else if x = 0x0000001b then
         decode_insn32_1b insn
      else if x = 0x00000023 then
         (let x = drop_bit 12 insn AND 0x7 in
          if x = 0x0 then
             [S O_sb (decode_insn32_extract_s insn)]
          else if x = 0x1 then
             [S O_sh (decode_insn32_extract_s insn)]
          else if x = 0x2 then
             [S O_sw (decode_insn32_extract_s insn)]
          else if x = 0x3 then
             [S O_sd (decode_insn32_extract_s insn)]
          else if x = 0x4 then
             [S O_sq (decode_insn32_extract_s insn)]
          else [])
      else if x = 0x00000027 then
         decode_insn32_27 insn
      else if x = 0x0000002f then
         decode_insn32_2f insn
      else if x = 0x00000033 then
         decode_insn32_33 insn
      else if x = 0x00000037 then
         [U O_lui (decode_insn32_extract_u insn)]
      else if x = 0x0000003b then
         decode_insn32_3b insn
      else decode_insn32_part1 insn)"

end
