(* ===== verification/Exec.thy ===== *)
theory Exec
  imports Exec_Mem Exec_Sys Exec_Fp Decode16 Decode32
begin

text \<open>
  The call of the trans function a decoded instruction names, and the function interpreter of
  src/src/arch/riscv/interpreter.cpp: the decoder's candidates run in order until one returns true.
  A stub prints its name and ends the program.
\<close>

fun exec_r :: "'d plat \<Rightarrow> op_r \<Rightarrow> arg_r \<Rightarrow> 'd trans" where
"exec_r p O_add = trans_add"
| "exec_r p O_sub = trans_sub"
| "exec_r p O_addw = trans_addw"
| "exec_r p O_subw = trans_subw"
| "exec_r p O_and = trans_and"
| "exec_r p O_or = trans_or"
| "exec_r p O_xor = trans_xor"
| "exec_r p O_sll = trans_sll"
| "exec_r p O_srl = trans_srl"
| "exec_r p O_sra = trans_sra"
| "exec_r p O_sllw = trans_sllw"
| "exec_r p O_srlw = trans_srlw"
| "exec_r p O_sraw = trans_sraw"
| "exec_r p O_slt = trans_slt"
| "exec_r p O_sltu = trans_sltu"
| "exec_r p O_mul = trans_mul"
| "exec_r p O_mulh = trans_mulh"
| "exec_r p O_mulhu = trans_mulhu"
| "exec_r p O_mulw = trans_mulw"
| "exec_r p O_div = trans_div"
| "exec_r p O_divu = trans_divu"
| "exec_r p O_divw = trans_divw"
| "exec_r p O_divuw = trans_divuw"
| "exec_r p O_rem = trans_rem"
| "exec_r p O_remu = trans_remu"
| "exec_r p O_remw = trans_remw"
| "exec_r p O_remuw = trans_remuw"

fun exec_rb :: "'d plat \<Rightarrow> op_rb \<Rightarrow> arg_r \<Rightarrow> 'd trans" where
"exec_rb p O_add_uw = trans_add_uw"
| "exec_rb p O_andn = trans_andn"
| "exec_rb p O_orn = trans_orn"
| "exec_rb p O_xnor = trans_xnor"
| "exec_rb p O_bclr = trans_bclr"
| "exec_rb p O_bext = trans_bext"
| "exec_rb p O_binv = trans_binv"
| "exec_rb p O_bset = trans_bset"
| "exec_rb p O_max = trans_max"
| "exec_rb p O_maxu = trans_maxu"
| "exec_rb p O_min = trans_min"
| "exec_rb p O_minu = trans_minu"
| "exec_rb p O_pack = trans_pack"
| "exec_rb p O_packh = trans_packh"
| "exec_rb p O_packw = trans_packw"
| "exec_rb p O_rol = trans_rol"
| "exec_rb p O_rolw = trans_rolw"
| "exec_rb p O_ror = trans_ror"
| "exec_rb p O_rorw = trans_rorw"
| "exec_rb p O_sh1add = trans_sh1add"
| "exec_rb p O_sh1add_uw = trans_sh1add_uw"
| "exec_rb p O_sh2add = trans_sh2add"
| "exec_rb p O_sh2add_uw = trans_sh2add_uw"
| "exec_rb p O_sh3add = trans_sh3add"
| "exec_rb p O_sh3add_uw = trans_sh3add_uw"

fun exec_fr :: "'d plat \<Rightarrow> op_fr \<Rightarrow> arg_r \<Rightarrow> 'd trans" where
"exec_fr p O_feq_d = trans_feq_d p"
| "exec_fr p O_fle_d = trans_fle_d p"
| "exec_fr p O_fle_s = trans_fle_s p"
| "exec_fr p O_flt_d = trans_flt_d p"
| "exec_fr p O_flt_s = trans_flt_s p"
| "exec_fr p O_fmin_d = trans_fmin_d p"
| "exec_fr p O_fsgnj_d = trans_fsgnj_d"
| "exec_fr p O_fsgnj_s = trans_fsgnj_s"
| "exec_fr p O_fsgnjn_d = trans_fsgnjn_d"
| "exec_fr p O_fsgnjn_s = trans_fsgnjn_s"
| "exec_fr p O_fsgnjx_d = trans_fsgnjx_d"
| "exec_fr p O_fsgnjx_s = trans_fsgnjx_s"

fun exec_i :: "'d plat \<Rightarrow> op_i \<Rightarrow> arg_i \<Rightarrow> 'd trans" where
"exec_i p O_addi = trans_addi"
| "exec_i p O_addiw = trans_addiw"
| "exec_i p O_andi = trans_andi"
| "exec_i p O_ori = trans_ori"
| "exec_i p O_xori = trans_xori"
| "exec_i p O_slti = trans_slti"
| "exec_i p O_sltiu = trans_sltiu"
| "exec_i p O_jalr = trans_jalr"
| "exec_i p O_lb = trans_lb p"
| "exec_i p O_lbu = trans_lbu p"
| "exec_i p O_lh = trans_lh p"
| "exec_i p O_lhu = trans_lhu p"
| "exec_i p O_lw = trans_lw p"
| "exec_i p O_lwu = trans_lwu p"
| "exec_i p O_ld = trans_ld p"
| "exec_i p O_lq = trans_lq"
| "exec_i p O_flw = trans_flw p"
| "exec_i p O_fld = trans_fld p"
| "exec_i p O_c_fld = trans_c_fld p"

fun exec_atomic :: "'d plat \<Rightarrow> op_atomic \<Rightarrow> arg_atomic \<Rightarrow> 'd trans" where
"exec_atomic p O_lr_w = trans_lr_w p"
| "exec_atomic p O_lr_d = trans_lr_d p"
| "exec_atomic p O_sc_w = trans_sc_w p"
| "exec_atomic p O_sc_d = trans_sc_d p"
| "exec_atomic p O_amoadd_w = trans_amoadd_w p"
| "exec_atomic p O_amoadd_d = trans_amoadd_d p"
| "exec_atomic p O_amoand_w = trans_amoand_w p"
| "exec_atomic p O_amoand_d = trans_amoand_d p"
| "exec_atomic p O_amoor_w = trans_amoor_w p"
| "exec_atomic p O_amoor_d = trans_amoor_d p"
| "exec_atomic p O_amoxor_w = trans_amoxor_w p"
| "exec_atomic p O_amoxor_d = trans_amoxor_d p"
| "exec_atomic p O_amomax_w = trans_amomax_w p"
| "exec_atomic p O_amomax_d = trans_amomax_d p"
| "exec_atomic p O_amomaxu_w = trans_amomaxu_w p"
| "exec_atomic p O_amomaxu_d = trans_amomaxu_d p"
| "exec_atomic p O_amomin_w = trans_amomin_w p"
| "exec_atomic p O_amomin_d = trans_amomin_d p"
| "exec_atomic p O_amominu_w = trans_amominu_w p"
| "exec_atomic p O_amominu_d = trans_amominu_d p"
| "exec_atomic p O_amoswap_w = trans_amoswap_w p"
| "exec_atomic p O_amoswap_d = trans_amoswap_d p"

fun exec_u :: "'d plat \<Rightarrow> op_u \<Rightarrow> arg_u \<Rightarrow> 'd trans" where
"exec_u p O_lui = trans_lui"
| "exec_u p O_auipc = trans_auipc"

fun exec_shift :: "'d plat \<Rightarrow> op_shift \<Rightarrow> arg_shift \<Rightarrow> 'd trans" where
"exec_shift p O_slli = trans_slli"
| "exec_shift p O_srli = trans_srli"
| "exec_shift p O_srai = trans_srai"
| "exec_shift p O_slliw = trans_slliw"
| "exec_shift p O_srliw = trans_srliw"
| "exec_shift p O_sraiw = trans_sraiw"
| "exec_shift p O_slli_uw = trans_slli_uw"
| "exec_shift p O_bclri = trans_bclri"
| "exec_shift p O_bexti = trans_bexti"
| "exec_shift p O_binvi = trans_binvi"
| "exec_shift p O_bseti = trans_bseti"
| "exec_shift p O_rori = trans_rori"
| "exec_shift p O_roriw = trans_roriw"

fun exec_b :: "'d plat \<Rightarrow> op_b \<Rightarrow> arg_b \<Rightarrow> 'd trans" where
"exec_b p O_beq = trans_beq"
| "exec_b p O_bne = trans_bne"
| "exec_b p O_blt = trans_blt"
| "exec_b p O_bge = trans_bge"
| "exec_b p O_bltu = trans_bltu"
| "exec_b p O_bgeu = trans_bgeu"

fun exec_r2 :: "'d plat \<Rightarrow> op_r2 \<Rightarrow> arg_r2 \<Rightarrow> 'd trans" where
"exec_r2 p O_brev8 = trans_brev8"
| "exec_r2 p O_clz = trans_clz"
| "exec_r2 p O_clzw = trans_clzw"
| "exec_r2 p O_ctz = trans_ctz"
| "exec_r2 p O_ctzw = trans_ctzw"
| "exec_r2 p O_orc_b = trans_orc_b"
| "exec_r2 p O_rev8_32 = trans_rev8_32"
| "exec_r2 p O_rev8_64 = trans_rev8_64"
| "exec_r2 p O_sext_b = trans_sext_b"
| "exec_r2 p O_sext_h = trans_sext_h"
| "exec_r2 p O_zext_h_64 = trans_zext_h_64"
| "exec_r2 p O_fmv_d_x = trans_fmv_d_x"
| "exec_r2 p O_fmv_w_x = trans_fmv_w_x"
| "exec_r2 p O_fmv_x_d = trans_fmv_x_d"
| "exec_r2 p O_fmv_x_w = trans_fmv_x_w"

fun exec_s :: "'d plat \<Rightarrow> op_s \<Rightarrow> arg_s \<Rightarrow> 'd trans" where
"exec_s p O_sb = trans_sb p"
| "exec_s p O_sh = trans_sh p"
| "exec_s p O_sw = trans_sw p"
| "exec_s p O_sd = trans_sd p"
| "exec_s p O_sq = trans_sq"
| "exec_s p O_fsw = trans_fsw p"
| "exec_s p O_fsd = trans_fsd p"
| "exec_s p O_c_fsd = trans_c_fsd p"

fun exec_csr :: "'d plat \<Rightarrow> op_csr \<Rightarrow> arg_decode_insn3218 \<Rightarrow> 'd trans" where
"exec_csr p O_csrrc = trans_csrrc p"
| "exec_csr p O_csrrci = trans_csrrci p"
| "exec_csr p O_csrrs = trans_csrrs p"
| "exec_csr p O_csrrsi = trans_csrrsi p"
| "exec_csr p O_csrrw = trans_csrrw p"
| "exec_csr p O_csrrwi = trans_csrrwi p"

fun exec_empty :: "'d plat \<Rightarrow> op_empty \<Rightarrow> 'd trans" where
"exec_empty p O_ebreak = trans_ebreak"
| "exec_empty p O_ecall = trans_ecall"
| "exec_empty p O_fence_i = trans_fence_i"
| "exec_empty p O_mret = trans_mret"
| "exec_empty p O_pause = trans_pause"
| "exec_empty p O_sret = trans_sret"
| "exec_empty p O_wfi = trans_wfi"

fun exec_f3 :: "'d plat \<Rightarrow> op_f3 \<Rightarrow> arg_decode_insn3220 \<Rightarrow> 'd trans" where
"exec_f3 p O_fadd_d = trans_fadd_d p"
| "exec_f3 p O_fadd_s = trans_fadd_s p"
| "exec_f3 p O_fsub_d = trans_fsub_d p"
| "exec_f3 p O_fsub_s = trans_fsub_s p"
| "exec_f3 p O_fmul_d = trans_fmul_d p"
| "exec_f3 p O_fmul_s = trans_fmul_s p"
| "exec_f3 p O_fdiv_d = trans_fdiv_d p"
| "exec_f3 p O_fdiv_s = trans_fdiv_s p"

fun exec_f2 :: "'d plat \<Rightarrow> op_f2 \<Rightarrow> arg_decode_insn3221 \<Rightarrow> 'd trans" where
"exec_f2 p O_fcvt_d_l = trans_fcvt_d_l p"
| "exec_f2 p O_fcvt_d_lu = trans_fcvt_d_lu p"
| "exec_f2 p O_fcvt_d_s = trans_fcvt_d_s p"
| "exec_f2 p O_fcvt_d_w = trans_fcvt_d_w p"
| "exec_f2 p O_fcvt_d_wu = trans_fcvt_d_wu p"
| "exec_f2 p O_fcvt_l_d = trans_fcvt_l_d p"
| "exec_f2 p O_fcvt_l_s = trans_fcvt_l_s p"
| "exec_f2 p O_fcvt_lu_d = trans_fcvt_lu_d p"
| "exec_f2 p O_fcvt_lu_s = trans_fcvt_lu_s p"
| "exec_f2 p O_fcvt_s_d = trans_fcvt_s_d p"
| "exec_f2 p O_fcvt_s_l = trans_fcvt_s_l p"
| "exec_f2 p O_fcvt_s_lu = trans_fcvt_s_lu p"
| "exec_f2 p O_fcvt_s_w = trans_fcvt_s_w p"
| "exec_f2 p O_fcvt_s_wu = trans_fcvt_s_wu p"
| "exec_f2 p O_fcvt_w_d = trans_fcvt_w_d p"
| "exec_f2 p O_fcvt_w_s = trans_fcvt_w_s p"
| "exec_f2 p O_fcvt_wu_d = trans_fcvt_wu_d p"

fun exec_insn :: "'d plat \<Rightarrow> insn \<Rightarrow> 'd trans" where
  "exec_insn p (R oper a) = exec_r p oper a"
| "exec_insn p (Rb oper a) = exec_rb p oper a"
| "exec_insn p (Fr oper a) = exec_fr p oper a"
| "exec_insn p (I oper a) = exec_i p oper a"
| "exec_insn p (A oper a) = exec_atomic p oper a"
| "exec_insn p (U oper a) = exec_u p oper a"
| "exec_insn p (Sh oper a) = exec_shift p oper a"
| "exec_insn p (B oper a) = exec_b p oper a"
| "exec_insn p (R2 oper a) = exec_r2 p oper a"
| "exec_insn p (S oper a) = exec_s p oper a"
| "exec_insn p (Csr oper a) = exec_csr p oper a"
| "exec_insn p (E oper) = exec_empty p oper"
| "exec_insn p (F3 oper a) = exec_f3 p oper a"
| "exec_insn p (F2 oper a) = exec_f2 p oper a"
| "exec_insn p (Fence a) = trans_fence a"
| "exec_insn p (Fmadd_d a) = trans_fmadd_d p a"
| "exec_insn p (Jal a) = trans_jal a"
| "exec_insn p (Sfence_vma a) = trans_sfence_vma a"
| "exec_insn p (Stub name) = (\<lambda>c. Inl (ExitCalled name))"

fun try_insns :: "'d plat \<Rightarrow> insn list \<Rightarrow> 'd trans" where
  "try_insns p [] c = Inr (False, c)"
| "try_insns p (i # is) c =
     rbind (exec_insn p i c) (\<lambda>(ok, c'). if ok then Inr (True, c') else try_insns p is c')"

definition interpreter :: "'d plat \<Rightarrow> u32 \<Rightarrow> bool \<Rightarrow> 'd trans" where
  "interpreter p ins rvc =
     (if rvc then try_insns p (decode_insn16 (ucast ins)) else try_insns p (decode_insn32 ins))"

end
