(* ===== verification/Trap.thy ===== *)
theory Trap
  imports Exec
begin

text \<open>
  Fetch, decode and commit of one instruction: fetch, decode, handleException, updateEnv and needFlush
  of src/src/arch/riscv/riscvarch.cpp (built without DIFFTEST), and AtomicCPU::exec of
  src/src/cpu/atomiccpu.cpp, which composes them.
\<close>

section \<open>Fetch and decode\<close>

definition fetch :: "'d plat \<Rightarrow> u64 \<Rightarrow> u32 \<Rightarrow> 'd machine \<Rightarrow> (u32 \<times> bool \<times> u8 \<times> 'd machine) res" where
  "fetch p paddr buf c =
     rbind (mem_paddrRead p paddr 4 (ucast buf) c) (\<lambda>(v, mmio, c').
       let ins = (ucast v :: u32);
           rvc = (ins AND 3 \<noteq> 3);
           rvc_idx = (if rvc then 16 else 0)
       in Inr (drop_bit rvc_idx (push_bit rvc_idx ins), rvc, if rvc then 2 else 4, c'))"

text \<open>The memset of decode clears DecodeInfo up to its field inst.\<close>

definition clear_info :: "decode_info \<Rightarrow> decode_info" where
  "clear_info i = i\<lparr> dst_mask := (\<lambda>k. 0), src_reg := (\<lambda>k. 0), dst_reg := 0, exception := 0 \<rparr>"

definition bit_width :: "u32 \<Rightarrow> nat" where "bit_width w = 32 - countl_zero w"

definition irq_enabled :: "arch_state \<Rightarrow> bool" where
  "irq_enabled s \<longleftrightarrow> (priv s \<le> MODE_S \<and> mstatus s AND MSTATUS_SIE \<noteq> 0)
     \<or> (priv s = MODE_M \<and> mstatus s AND MSTATUS_MIE \<noteq> 0) \<or> priv s = MODE_U"

definition check_irq :: "'d machine \<Rightarrow> 'd machine" where
  "check_irq c =
    (let s = state c;
         irq_valids = (ucast (mip s AND mie s AND (if irq_enabled s then all1 else 0)) :: u32)
     in if irq_valids \<noteq> 0 then set_exception (IRQ_MASK OR of_nat (bit_width irq_valids - 1)) c else c)"

definition decode :: "'d plat \<Rightarrow> u64 \<Rightarrow> u64 \<Rightarrow> 'd machine \<Rightarrow> (u8 \<times> 'd machine) res" where
  "decode p vaddr paddr c =
     rbind (fetch p paddr (inst (info c)) c) (\<lambda>(ins, rvc, sz, c).
       let c = upd_info (\<lambda>i. i\<lparr> inst := ins, inst_size := sz \<rparr>) c;
           c = c\<lparr> env_pc := vaddr, env_paddr := paddr \<rparr>;
           c = set_exception EXC_NONE (upd_info clear_info c)
       in rbind (interpreter p ins rvc c) (\<lambda>(decode_valid, c).
            let c = check_irq c in Inr (inst_size (info c), c)))"

definition handleException :: "u64 \<Rightarrow> u64 \<Rightarrow> 'd machine \<Rightarrow> 'd machine" where
  "handleException exc paddr c =
    (if exc = EXC_IPF
     then set_exception exc (set_exc_data paddr (c\<lparr> env_pc := paddr \<rparr>)) else c)"

definition needFlush :: "decode_info \<Rightarrow> bool" where
  "needFlush i \<longleftrightarrow> itype i = T_CSRWR \<and> dst_idx i 1 = of_nat ARCH_SATP \<and> dst_mask i 1 \<noteq> 0"

section \<open>Traps\<close>

definition exception_mask :: "u64 \<Rightarrow> u64" where
  "exception_mask e = sx (push_bit (unat (e AND EXC_MASK)) 1)"

definition is_irq :: "u64 \<Rightarrow> bool" where "is_irq e \<longleftrightarrow> sint e < 0"

definition edeleg_valid :: "arch_state \<Rightarrow> u64 \<Rightarrow> bool" where
  "edeleg_valid s e \<longleftrightarrow>
     (if is_irq e then mideleg s else medeleg s) AND exception_mask e \<noteq> 0 \<and> priv s \<noteq> MODE_M"

text \<open>From the label xtval_end on: the trap is taken to S or to M mode.\<close>

definition take_trap :: "bool \<Rightarrow> u64 \<Rightarrow> u64 \<Rightarrow> arch_state \<Rightarrow> arch_state" where
  "take_trap deleg pc exc s =
    (if deleg then s\<lparr> sepc := pc, scause := exc,
         mstatus := (mstatus s AND NOT (MSTATUS_SPP OR MSTATUS_SPIE OR MSTATUS_SIE))
            OR push_bit 8 (priv s) OR (push_bit 4 (mstatus s) AND MSTATUS_SPIE),
         priv := MODE_S \<rparr>
     else s\<lparr> mepc := pc, mcause := exc,
         mstatus := (mstatus s AND NOT (MSTATUS_MPP OR MSTATUS_MPIE OR MSTATUS_MIE))
            OR push_bit 11 (priv s) OR (push_bit 4 (mstatus s) AND MSTATUS_MPIE),
         priv := MODE_M \<rparr>)"

definition set_xtval :: "bool \<Rightarrow> u64 \<Rightarrow> arch_state \<Rightarrow> arch_state" where
  "set_xtval deleg v s = (if deleg then s\<lparr> stval := v \<rparr> else s\<lparr> mtval := v \<rparr>)"

text \<open>The label mtvec_out: the address of the handler.\<close>

definition trap_vector :: "bool \<Rightarrow> bool \<Rightarrow> arch_state \<Rightarrow> u64" where
  "trap_vector irq deleg s =
    (let mtvec_mode = (irq \<and> mtvec s AND 3 \<noteq> 0);
         mtvec_base = mtvec s AND 0xfffffffffffffffc;
         mtvec_addr = (if mtvec_mode then mtvec_base + push_bit 2 (mcause s AND 0x1f) else mtvec_base);
         stvec_mode = (irq \<and> stvec s AND 3 \<noteq> 0);
         stvec_base = stvec s AND 0xfffffffffffffffc;
         stvec_addr = (if stvec_mode then stvec_base + push_bit 2 (scause s AND 0x1f) else stvec_base)
     in if deleg then stvec_addr else mtvec_addr)"

definition do_trap :: "u64 \<Rightarrow> u64 \<Rightarrow> 'd machine \<Rightarrow> u64 \<times> 'd machine" where
  "do_trap exc xtval c =
    (let deleg = edeleg_valid (state c) exc;
         c = upd_state (take_trap deleg (env_pc c) exc \<circ> set_xtval deleg xtval) c;
         c = updateMMUState c
     in (trap_vector (is_irq exc) deleg (state c), c))"

definition do_sret :: "'d machine \<Rightarrow> u64 \<times> 'd machine" where
  "do_sret c =
    (let c = upd_state (\<lambda>s. s\<lparr> priv := drop_bit 8 (mstatus s) AND 0x3,
           mstatus := (mstatus s AND NOT (MSTATUS_SPP OR MSTATUS_SIE OR MSTATUS_MPRV))
              OR (drop_bit 4 (mstatus s) AND MSTATUS_SIE) OR MSTATUS_SPIE \<rparr>) c;
         c = updateMMUState c
     in (sepc (state c), c))"

definition do_mret :: "'d machine \<Rightarrow> u64 \<times> 'd machine" where
  "do_mret c =
    (let c = upd_state (\<lambda>s. let pr = drop_bit 11 (mstatus s) AND 0x3 in s\<lparr> priv := pr,
           mstatus := (mstatus s AND NOT (MSTATUS_MPP OR MSTATUS_MIE OR push_bit 17 (of_bool (pr \<noteq> MODE_M))))
              OR (drop_bit 4 (mstatus s) AND MSTATUS_MIE) OR MSTATUS_MPIE \<rparr>) c;
         c = updateMMUState c
     in (mepc (state c), c))"

section \<open>Commit\<close>

definition rmw_slot :: "nat \<Rightarrow> 'd machine \<Rightarrow> 'd machine res" where
  "rmw_slot k c =
    (case arch_rmw (state c) (dst_idx (info c) k) (dst_mask (info c) k) (dst_data (info c) k) of
       None \<Rightarrow> Inl OutOfBounds | Some s \<Rightarrow> Inr (c\<lparr> state := s \<rparr>))"

definition commit_mem :: "'d plat \<Rightarrow> 'd machine \<Rightarrow> 'd machine res" where
  "commit_mem p c =
    (let i = info c; sz = (ucast (dst_idx i 2) :: u32) in
     case itype i of
       T_AMO \<Rightarrow> rbind (paddrWrite p (dst_data i 2) sz SFETCH (dst_data i 1) c) (\<lambda>(ok, c). Inr c)
     | T_STORE \<Rightarrow> rbind (paddrWrite p (dst_data i 2) sz SFETCH (dst_data i 1) c) (\<lambda>(ok, c). Inr c)
     | T_SC \<Rightarrow>
         if dst_data i 0 = 0
         then rbind (translateAddr p (exc_data i) SFETCH (uninit p) EXC_NONE c) (\<lambda>(ha, e, c).
                rbind (paddrWrite p ha sz SFETCH (dst_data i 2) c) (\<lambda>(ok, c). Inr c))
         else Inr c
     | _ \<Rightarrow> Inr c)"

definition next_pc :: "'d machine \<Rightarrow> u64" where
  "next_pc c =
    (let i = info c; seq = env_pc c + ucast (inst_size i) in
     case itype i of
       T_DIRECT \<Rightarrow> dst_data i 2 | T_INDIRECT \<Rightarrow> dst_data i 2 | T_IND_CALL \<Rightarrow> dst_data i 2
     | T_IND_PUSH \<Rightarrow> dst_data i 2 | T_PUSH \<Rightarrow> dst_data i 2 | T_POP \<Rightarrow> dst_data i 2
     | T_POP_PUSH \<Rightarrow> dst_data i 2
     | T_COND \<Rightarrow> (if dst_data i 1 \<noteq> 0 then dst_data i 2 else seq)
     | _ \<Rightarrow> seq)"

definition commit :: "'d plat \<Rightarrow> 'd machine \<Rightarrow> (u64 \<times> 'd machine) res" where
  "commit p c =
     rbind (rmw_slot 0 c) (\<lambda>c. rbind (rmw_slot 1 c) (\<lambda>c. rbind (rmw_slot 2 c) (\<lambda>c.
     rbind (commit_mem p c) (\<lambda>c.
       let c = upd_state (\<lambda>s. s\<lparr> gpr := (gpr s)(0 := 0) \<rparr>) c;
           c = updateMMUState c
       in Inr (next_pc c, c)))))"

text \<open>The exceptions whose trap value is exc_data and those whose trap value is 0.\<close>

definition exc_with_data :: "u64 \<Rightarrow> bool" where
  "exc_with_data e \<longleftrightarrow> e \<in> {EXC_II, EXC_LAM, EXC_LAF, EXC_SAM, EXC_SAF, EXC_IPF, EXC_LPF, EXC_SPF}"

definition exc_no_data :: "u64 \<Rightarrow> bool" where
  "exc_no_data e \<longleftrightarrow> e \<in> {EXC_ECU, EXC_ECS, EXC_ECM, EXC_BP}"

definition updateEnv :: "'d plat \<Rightarrow> 'd machine \<Rightarrow> (u64 \<times> 'd machine) res" where
  "updateEnv p c =
    (let e = exception (info c) in
     if 32 \<le> unat (e AND EXC_MASK) then Inl (Undefined ''shift count'')
     else if is_irq e then Inr (do_trap e 0 c)
     else if e = EXC_DT \<or> e = EXC_SC \<or> e = EXC_HE then Inl (ExitCalled ''exception'')
     else if exc_with_data e then Inr (do_trap e (exc_data (info c)) c)
     else if exc_no_data e then Inr (do_trap e 0 c)
     else if e = EXC_SRET then Inr (do_sret c)
     else if e = EXC_MRET then Inr (do_mret c)
     else if e = EXC_NONE then commit p c
     else Inl (ExitCalled ''unknown exception''))"

section \<open>AtomicCPU\<close>

text \<open>One call of exec: the argument is the cpu's pc, the result the new pc.\<close>

definition atomic_exec :: "'d plat \<Rightarrow> u64 \<Rightarrow> 'd machine \<Rightarrow> (u64 \<times> 'd machine) res" where
  "atomic_exec p pc c =
     rbind (translateAddr p pc IFETCH (uninit p) EXC_NONE c) (\<lambda>(paddr, exc, c).
       rbind (if exc \<noteq> 0 then Inr (handleException exc pc c)
              else rbind (decode p pc paddr c) (\<lambda>(sz, c). Inr c)) (\<lambda>c.
       rbind (updateEnv p c) (\<lambda>(pc', c).
         Inr (pc', c\<lparr> tick := tick c + 1, instret := instret c + 1 \<rparr>))))"

text \<open>The value-initialised DecodeInfo the cpu starts with.\<close>

definition zero_info :: decode_info where
  "zero_info = \<lparr> dst_mask = (\<lambda>k. 0), src_reg = (\<lambda>k. 0), dst_reg = 0, exception = 0, inst = 0, exc_data = 0,
     dst_data = (\<lambda>k. 0), dst_idx = (\<lambda>k. 0), inst_size = 0, itype = T_INT \<rparr>"

end
