(* ===== verification/Pipeline.thy ===== *)
theory Pipeline
  imports Trap ICache DCache LinkRing Predictor
begin

text \<open>
  The pipelined cpu, src/src/cpu/pipelinecpu.cpp and src/inc/cpu/pipelinecpu.h, as built without DB_INST
  and with a PipePredictor: the five stages of exec, preId, the three redirects, and the callbacks the
  two caches are given.  Instructions are objects the stages point to; they live in a map from numbers:
  the instruction of the fetch request w is number w, the extra instruction j is number retire_size + j.
  env_inst is the instruction whose DecodeInfo the env of RiscvArch points to: the DecodeInfo is loaded
  into the machine before a call of decode, handleException or updateEnv, and stored back after it.
  The members pred_error, id, id_exception and mem_paddr are never used.
\<close>

section \<open>State\<close>

datatype inst_result = R_NORMAL | R_EXCEPTION | R_INTERRUPT | R_PRED_FAIL | R_MEM_REDIRECT | R_CSR_REDIRECT

record pinst =
  i_taken :: bool
  i_size :: u8
  i_real_size :: u8
  i_mem_id :: u16
  i_bp_meta_idx :: nat
  i_pc :: u64
  i_next_pc :: u64
  i_real_pc :: u64
  i_real_target :: u64
  i_paddr :: u64
  i_result :: inst_result
  i_info :: decode_info

record 'd pipe =
  retire_size :: nat
  mult_delay :: u32
  div_delay :: u32
  fadd_delay :: u32
  fmul_delay :: u32
  fma_delay :: u32
  fdiv_delay :: u32
  fsqrt_delay :: u32
  fmisc_complex_delay :: u32
  cpu_arch :: "'d machine"
  env_inst :: nat
  cpu_pred :: predictor
  cpu_insts :: "nat \<Rightarrow> pinst"
  fetch_reqs :: "nat \<Rightarrow> cache_req"
  mem_reqs :: "nat \<Rightarrow> cache_req"
  pred_pc :: u64
  cpu_pc :: u64
  fetch_valid :: bool
  id_valid :: bool
  exe_valid :: bool
  mem_valid :: bool
  wb_valid :: bool
  cache_req_list :: link_list
  fetch_cache_req :: nat
  id_stall_valid :: bool
  id_stall_dec_more :: bool
  id_stall_inst_valid :: bool
  id_inst :: nat
  id_stall_inst :: nat
  id_extra_idx :: nat
  id_remain_size :: int
  id_wait_redirect :: bool
  wait_redirect_tick :: u64
  wait_redirect_inst :: nat
  exe_stall_cycle :: u64
  exe_end :: bool
  exe_inst :: nat
  mem_inst :: nat
  mem_req_list :: link_list
  mem_end_map :: "bool list"
  mem_req_valid :: bool
  wb_inst :: nat
  wb_tick :: u64

definition upd_inst :: "nat \<Rightarrow> (pinst \<Rightarrow> pinst) \<Rightarrow> 'd pipe \<Rightarrow> 'd pipe" where
  "upd_inst i f s = s\<lparr> cpu_insts := (cpu_insts s)(i := f (cpu_insts s i)) \<rparr>"

text \<open>The machine with the DecodeInfo of an instruction, and its results stored back.\<close>

definition info_machine :: "nat \<Rightarrow> 'd pipe \<Rightarrow> 'd machine" where
  "info_machine i s = (cpu_arch s)\<lparr> info := i_info (cpu_insts s i) \<rparr>"

definition set_machine :: "nat \<Rightarrow> 'd machine \<Rightarrow> 'd pipe \<Rightarrow> 'd pipe" where
  "set_machine i c s = upd_inst i (\<lambda>x. x\<lparr> i_info := info c \<rparr>) (s\<lparr> cpu_arch := c \<rparr>)"

definition inst_exception :: "nat \<Rightarrow> 'd pipe \<Rightarrow> u64" where
  "inst_exception i s = exception (i_info (cpu_insts s i))"

definition set_inst_exception :: "u64 \<Rightarrow> pinst \<Rightarrow> pinst" where
  "set_inst_exception e x = x\<lparr> i_info := (i_info x)\<lparr> exception := e \<rparr> \<rparr>"

text \<open>handleException for an instruction, at the pc: env points to its DecodeInfo afterwards if it is a page fault.\<close>

definition inst_fault :: "nat \<Rightarrow> u64 \<Rightarrow> 'd pipe \<Rightarrow> 'd pipe" where
  "inst_fault i e s =
    (let s' = set_machine i (handleException e (cpu_pc s) (info_machine i s)) s
     in if e = EXC_IPF then s'\<lparr> env_inst := i \<rparr> else s')"

text \<open>while (!list.empty()) list.pop();\<close>

definition drained :: "link_list \<Rightarrow> link_list res" where
  "drained l = (case ll_drain l of None \<Rightarrow> Inl (Undefined ''endless loop'') | Some r \<Rightarrow> r)"

section \<open>Types of instructions\<close>

definition is_mem :: "inst_type \<Rightarrow> bool" where
  "is_mem t \<longleftrightarrow> t \<in> {T_LOAD, T_STORE, T_LR, T_SC, T_AMO}"

definition is_jump :: "inst_type \<Rightarrow> bool" where
  "is_jump t \<longleftrightarrow> t \<in> {T_INDIRECT, T_IND_CALL, T_IND_PUSH, T_POP, T_POP_PUSH}"

definition stall_delay :: "'d pipe \<Rightarrow> inst_type \<Rightarrow> u32 option" where
  "stall_delay s t = (case t of
      T_MULT \<Rightarrow> Some (mult_delay s) | T_DIV \<Rightarrow> Some (div_delay s) | T_FADD \<Rightarrow> Some (fadd_delay s)
    | T_FMUL \<Rightarrow> Some (fmul_delay s) | T_FMA \<Rightarrow> Some (fma_delay s) | T_FDIV \<Rightarrow> Some (fdiv_delay s)
    | T_FSQRT \<Rightarrow> Some (fsqrt_delay s) | T_FMISC_COMPLEX \<Rightarrow> Some (fmisc_complex_delay s) | _ \<Rightarrow> None)"

section \<open>Redirects\<close>

text \<open>Their calls of redirect on the caches are made by the stages that call them.\<close>

definition frontRedirect :: "nat \<Rightarrow> 'd pipe \<Rightarrow> 'd pipe res" where
  "frontRedirect i s =
    (let x = cpu_insts s i in
     rbind (pred_redirect (i_taken x) (i_real_pc x) (unat (i_real_size x)) (itype (i_info x)) (i_bp_meta_idx x) (cpu_pred s)) (\<lambda>pr.
     rbind (drained (cache_req_list s)) (\<lambda>l.
       Inr (s\<lparr> id_stall_valid := False, id_stall_dec_more := False, id_stall_inst_valid := False, id_remain_size := 0,
               fetch_valid := False, cpu_pred := pr, cache_req_list := l, pred_pc := i_real_target x \<rparr>))))"

definition brRedirect :: "nat \<Rightarrow> 'd pipe \<Rightarrow> 'd pipe res" where
  "brRedirect i s =
    (let x = cpu_insts s i in
     rbind (pred_redirect (dst_data (i_info x) 1 \<noteq> 0) (i_real_pc x) (unat (i_real_size x)) (itype (i_info x)) (i_bp_meta_idx x)
       (cpu_pred s)) (\<lambda>pr.
     rbind (drained (cache_req_list s)) (\<lambda>l.
       Inr (s\<lparr> id_valid := False, id_stall_valid := False, id_stall_dec_more := False, id_stall_inst_valid := False,
               id_remain_size := 0, id_wait_redirect := False, fetch_valid := False, cpu_pred := pr, cache_req_list := l,
               pred_pc := i_real_target x \<rparr>))))"

definition excRedirect :: "nat \<Rightarrow> 'd pipe \<Rightarrow> 'd pipe res" where
  "excRedirect i s =
    (let x = cpu_insts s i in
     rbind (drained (mem_req_list s)) (\<lambda>ml.
     rbind (pred_redirect False (i_real_pc x) (unat (i_real_size x)) T_INT (i_bp_meta_idx x) (cpu_pred s)) (\<lambda>pr.
     rbind (drained (cache_req_list s)) (\<lambda>l.
       Inr (s\<lparr> mem_req_valid := False, mem_valid := False, mem_req_list := ml, exe_valid := False, exe_stall_cycle := 0,
               exe_end := False, id_valid := False, id_stall_valid := False, id_stall_dec_more := False,
               id_stall_inst_valid := False, id_remain_size := 0, id_wait_redirect := False, fetch_valid := False,
               cpu_pred := pr, cache_req_list := l, pred_pc := i_real_target x \<rparr>)))))"

section \<open>preId\<close>

text \<open>The instruction to decode next: the one just fetched, or a copy of the last one when the fetched bytes hold more.\<close>

definition next_inst :: "nat \<Rightarrow> 'd pipe \<Rightarrow> 'd pipe res" where
  "next_inst i s =
    (if id_remain_size s \<le> 0
     then Inr (s\<lparr> id_inst := i, id_remain_size := id_remain_size s + uint (i_size (cpu_insts s i)) \<rparr>)
     else if id_extra_idx s < retire_size s
     then let f = retire_size s + id_extra_idx s in
       Inr (s\<lparr> id_extra_idx := (id_extra_idx s + 1) mod retire_size s,
               cpu_insts := (cpu_insts s)(f := cpu_insts s (id_inst s)), id_inst := f \<rparr>)
     else Inl OutOfBounds)"

text \<open>The results: preId's own, and whether it called redirect on the instruction cache.\<close>

definition preId :: "'d plat \<Rightarrow> nat \<Rightarrow> 'd pipe \<Rightarrow> (bool \<times> bool \<times> 'd pipe) res" where
  "preId p i s =
    rbind (next_inst i s) (\<lambda>s. let i = id_inst s in
    rbind (translateAddr p (cpu_pc s) IFETCH (i_paddr (cpu_insts s i)) (inst_exception i s) (cpu_arch s)) (\<lambda>(pa, e, c).
      let s = upd_inst i (\<lambda>x. set_inst_exception e (x\<lparr> i_paddr := pa \<rparr>)) (s\<lparr> cpu_arch := c \<rparr>) in
      if exceptionValid e then Inr (True, False, inst_fault i e s)
      else rbind (decode p (cpu_pc s) pa (info_machine i s)) (\<lambda>(sz, c).
        let s = upd_inst i (\<lambda>x. x\<lparr> i_real_size := sz, i_real_pc := cpu_pc s \<rparr>) ((set_machine i c s)\<lparr> env_inst := i \<rparr>) in
        rbind (pipe_predict (cpu_pc s) (i_info (cpu_insts s i)) (cpu_pred s)) (\<lambda>((k, next_pc, sz', taken), pr).
          let s = upd_inst i (\<lambda>x. x\<lparr> i_bp_meta_idx := k, i_next_pc := next_pc, i_taken := taken \<rparr>) (s\<lparr> cpu_pred := pr \<rparr>) in
          rbind (if taken then frontRedirect i (upd_inst i (\<lambda>x. x\<lparr> i_real_target := next_pc \<rparr>) s)
                 else Inr (s\<lparr> id_remain_size := id_remain_size s - uint sz \<rparr>)) (\<lambda>s.
          Inr (id_remain_size s \<le> 0, taken, s))))))"

section \<open>The callbacks of the caches\<close>

definition icache_callback :: "'d plat \<Rightarrow> 'd pipe \<Rightarrow> (bool \<times> 'd pipe) res" where
  "icache_callback p s =
    rbind (ll_pop (cache_req_list s)) (\<lambda>(w, l).
      let s = s\<lparr> cache_req_list := l \<rparr> in
      if \<not> id_valid s
      then rbind (preId p w (s\<lparr> id_valid := True \<rparr>)) (\<lambda>(finish, redirected, s).
             Inr (redirected, s\<lparr> id_stall_valid := \<not> finish, id_stall_dec_more := \<not> finish \<rparr>))
      else Inr (False, s\<lparr> id_stall_valid := True, id_stall_inst := w, id_stall_inst_valid := True \<rparr>))"

definition dcache_callback :: "(nat \<Rightarrow> u16) \<Rightarrow> 'd pipe \<Rightarrow> 'd pipe res" where
  "dcache_callback ids s =
    rbind (ll_pop (mem_req_list s)) (\<lambda>(m, l).
      if unat (ids 0) < length (mem_end_map s)
      then Inr (s\<lparr> mem_req_list := l, mem_end_map := (mem_end_map s)[unat (ids 0) := True] \<rparr>)
      else Inl OutOfBounds)"

section \<open>The stages of exec\<close>

text \<open>The cpu and its two caches.\<close>

type_synonym 'd cpu_caches = "'d pipe \<times> icache \<times> dcache"

definition wb_stage :: "'d cpu_caches \<Rightarrow> 'd cpu_caches res" where
  "wb_stage w = (case w of (s, ic, dc) \<Rightarrow>
    if wb_valid s
    then
      let i = wb_inst s; e = inst_exception i s in
      rbind (if exceptionValid e
             then rbind (excRedirect i
                     (upd_inst i (\<lambda>x. x\<lparr> i_result := (if e AND IRQ_MASK \<noteq> 0 then R_INTERRUPT else R_EXCEPTION) \<rparr>) s)) (\<lambda>s.
                  Inr (s, icache_redirect ic, dcache_redirect dc))
             else Inr (s, ic, dc)) (\<lambda>(s, ic, dc).
        let s = upd_inst i (\<lambda>x. set_inst_exception EXC_NONE (x\<lparr> i_result := R_NORMAL \<rparr>)) (s\<lparr> wb_valid := False \<rparr>) in
        Inr (s\<lparr> cpu_arch := (cpu_arch s)\<lparr> instret := instret (cpu_arch s) + 1 \<rparr>, wb_tick := tick (cpu_arch s) \<rparr>, ic, dc))
    else Inr (s, ic, dc))"

definition mem_stage :: "'d pipe \<Rightarrow> 'd pipe res" where
  "mem_stage s =
    (if mem_valid s
     then
       let i = mem_inst s; m = unat (i_mem_id (cpu_insts s i));
           leave = (\<lambda>s. s\<lparr> mem_valid := False, wb_valid := True, wb_inst := mem_inst s \<rparr>)
       in if \<not> exceptionValid (inst_exception i s) \<and> is_mem (itype (i_info (cpu_insts s i)))
          then if m < length (mem_end_map s)
               then Inr (if mem_end_map s ! m then leave (s\<lparr> mem_end_map := (mem_end_map s)[m := False] \<rparr>) else s)
               else Inl OutOfBounds
          else Inr (leave s)
     else Inr s)"

text \<open>The cases of the switch of the execute stage.\<close>

definition exe_update :: "bool \<Rightarrow> 'd pipe \<Rightarrow> 'd pipe res" where
  "exe_update taken s =
    (let x = cpu_insts s (exe_inst s) in
     rbind (pred_update taken (i_real_pc x) (i_real_target x) (itype (i_info x)) (i_bp_meta_idx x) (cpu_pred s)) (\<lambda>pr.
       Inr (s\<lparr> cpu_pred := pr, exe_end := True \<rparr>)))"

definition exe_mispredict :: "'d pipe \<Rightarrow> icache \<Rightarrow> ('d pipe \<times> icache) res" where
  "exe_mispredict s ic =
    rbind (brRedirect (exe_inst s) (upd_inst (exe_inst s) (\<lambda>x. x\<lparr> i_result := R_PRED_FAIL \<rparr>) s)) (\<lambda>s. Inr (s, icache_redirect ic))"

definition exe_access :: "'d plat \<Rightarrow> fetch_type \<Rightarrow> snoop_req_t \<Rightarrow> nat \<Rightarrow> 'd pipe \<Rightarrow> dcache \<Rightarrow> ('d pipe \<times> dcache) res" where
  "exe_access p ty rq m s dc =
    (let x = i_info (cpu_insts s (exe_inst s)) in
     rbind (translateAddr p (exc_data x) ty (uninit p) (uninit p) (cpu_arch s)) (\<lambda>(pa, e, c).
       let q = (mem_reqs s m)\<lparr> addr := pa, req_size := ucast (dst_idx x 2), req := rq \<rparr>;
           s = s\<lparr> cpu_arch := c, mem_reqs := (mem_reqs s)(m := q) \<rparr>;
           (taken, dc) = dcache_lookup m dc in
       rbind (if taken then rbind (ll_take (mem_req_list s)) (\<lambda>(d, l). Inr (s\<lparr> mem_req_list := l, exe_end := True \<rparr>))
              else Inr s) (\<lambda>s.
         Inr (upd_inst (exe_inst s) (\<lambda>x. x\<lparr> i_mem_id := req_id q 0 \<rparr>) s, dc))))"

text \<open>A failed store-conditional accesses no memory: its entry is marked as finished at once.\<close>

definition exe_sc_fail :: "nat \<Rightarrow> 'd pipe \<Rightarrow> 'd pipe res" where
  "exe_sc_fail m s =
    (let k = req_id (mem_reqs s m) 0 in
     if unat k < length (mem_end_map s)
     then rbind (ll_take (mem_req_list s)) (\<lambda>(d, l).
       Inr (upd_inst (exe_inst s) (\<lambda>x. x\<lparr> i_mem_id := k \<rparr>)
         (s\<lparr> exe_end := True, mem_end_map := (mem_end_map s)[unat k := True], mem_req_list := l \<rparr>)))
     else Inl OutOfBounds)"

definition exe_issue :: "'d plat \<Rightarrow> 'd cpu_caches \<Rightarrow> 'd cpu_caches res" where
  "exe_issue p w = (case w of (s, ic, dc) \<Rightarrow>
    let x = cpu_insts s (exe_inst s); nf = i_info x; t = itype nf in
    if exceptionValid (exception nf) then Inr (s\<lparr> exe_end := True \<rparr>, ic, dc)
    else rbind (ll_back (mem_req_list s)) (\<lambda>m.
      case stall_delay s t of Some d \<Rightarrow> Inr (s\<lparr> exe_stall_cycle := ucast d \<rparr>, ic, dc)
      | None \<Rightarrow>
        if t = T_COND
        then rbind (if dst_data nf 1 \<noteq> of_bool (i_taken x) \<or> i_next_pc x \<noteq> i_real_target x then exe_mispredict s ic else Inr (s, ic))
               (\<lambda>(s, ic). rbind (exe_update (dst_data nf 1 \<noteq> 0) s) (\<lambda>s. Inr (s, ic, dc)))
        else if is_jump t
        then rbind (if i_next_pc x \<noteq> i_real_target x then exe_mispredict s ic else Inr (s, ic))
               (\<lambda>(s, ic). rbind (exe_update True s) (\<lambda>s. Inr (s, ic, dc)))
        else if t = T_DIRECT \<or> t = T_PUSH then rbind (exe_update True s) (\<lambda>s. Inr (s, ic, dc))
        else if t = T_LOAD \<or> t = T_LR then rbind (exe_access p LFETCH READ_SHARED m s dc) (\<lambda>(s, dc). Inr (s, ic, dc))
        else if t = T_SC \<and> dst_data nf 0 \<noteq> 0 then rbind (exe_sc_fail m s) (\<lambda>s. Inr (s, ic, dc))
        else if t = T_SC \<or> t = T_STORE \<or> t = T_AMO
        then rbind (exe_access p SFETCH WRITE_BACK m s dc) (\<lambda>(s, dc). Inr (s, ic, dc))
        else if t = T_FENCE \<or> t = T_SFENCE then Inr (s\<lparr> exe_end := True \<rparr>, ic, dcache_flush dc)
        else if t = T_IFENCE then Inr (s\<lparr> exe_end := True \<rparr>, icache_flush ic, dc)
        else Inr (s\<lparr> exe_end := True \<rparr>, ic, dc)))"

definition exe_stage :: "'d plat \<Rightarrow> 'd cpu_caches \<Rightarrow> 'd cpu_caches res" where
  "exe_stage p w = (case w of (s, ic, dc) \<Rightarrow>
    if \<not> exe_valid s then Inr (s, ic, dc)
    else rbind (if exe_stall_cycle s \<noteq> 0
                then let n = exe_stall_cycle s - 1 in Inr (s\<lparr> exe_stall_cycle := n, exe_end := exe_end s \<or> n = 0 \<rparr>, ic, dc)
                else if \<not> exe_end s then exe_issue p (s, ic, dc) else Inr (s, ic, dc)) (\<lambda>(s, ic, dc).
      Inr (if exe_end s \<and> \<not> mem_valid s
           then s\<lparr> exe_end := False, exe_valid := False, mem_valid := True, mem_inst := exe_inst s \<rparr> else s, ic, dc)))"

text \<open>The commit of the instruction in the decode stage, and whether the stage waits for a redirect after it.\<close>

definition id_commit :: "'d plat \<Rightarrow> 'd pipe \<Rightarrow> icache \<Rightarrow> ('d pipe \<times> icache) res" where
  "id_commit p s ic =
    (let i = id_inst s in
     rbind (updateEnv p (info_machine (env_inst s) s)) (\<lambda>(target, c).
       let s = (upd_inst i (\<lambda>x. x\<lparr> i_real_target := target \<rparr>) (set_machine (env_inst s) c s))\<lparr> cpu_pc := target \<rparr>;
           x = cpu_insts s i; nf = i_info x; t = itype nf; target_eq = (target = i_next_pc x);
           pred_error = (dst_data nf 1 \<noteq> of_bool (i_taken x))
       in rbind (if exceptionValid (exception nf) then Inr (s\<lparr> id_wait_redirect := True \<rparr>, ic)
                 else if is_jump t then Inr (s\<lparr> id_wait_redirect := \<not> target_eq \<rparr>, ic)
                 else if t = T_COND then Inr (s\<lparr> id_wait_redirect := pred_error \<or> \<not> target_eq \<rparr>, ic)
                 else if needFlush nf \<or> \<not> is_branch t \<and> i_taken x
                 then rbind (frontRedirect i s) (\<lambda>s.
                        Inr (if needFlush nf then upd_inst i (\<lambda>x. x\<lparr> i_result := R_CSR_REDIRECT \<rparr>) s else s, icache_redirect ic))
                 else if \<not> (i_pc x \<le> i_real_pc x \<and> i_real_pc x < i_pc x + ucast (i_size x))
                 then Inl (ExitCalled ''ID stage PC changed without redirect'')
                 else Inr (s, ic)) (\<lambda>(s, ic).
            Inr (if id_wait_redirect s then s\<lparr> wait_redirect_tick := tick (cpu_arch s), wait_redirect_inst := id_inst s \<rparr> else s, ic))))"

definition id_stage :: "'d plat \<Rightarrow> 'd pipe \<Rightarrow> icache \<Rightarrow> ('d pipe \<times> icache) res" where
  "id_stage p s ic =
    (if id_valid s \<and> \<not> exe_valid s
     then
       let e = inst_exception (id_inst s) s; s = (if exceptionValid e then inst_fault (id_inst s) e s else s) in
       rbind (if \<not> id_wait_redirect s then id_commit p s ic
              else if 5000 < tick (cpu_arch s) - wait_redirect_tick s then Inl (ExitCalled ''id wait redirect for 5000 cycle'')
              else Inr (s, ic)) (\<lambda>(s, ic).
         Inr (s\<lparr> exe_inst := id_inst s, id_valid := False, exe_valid := True \<rparr>, ic))
     else Inr (s, ic))"

text \<open>The bytes fetched while the decode stage was busy, or left over from the last fetch.\<close>

definition refill_stage :: "'d plat \<Rightarrow> 'd pipe \<Rightarrow> icache \<Rightarrow> ('d pipe \<times> icache) res" where
  "refill_stage p s ic =
    (if \<not> id_valid s \<and> id_stall_valid s
     then rbind (preId p (id_stall_inst s) s) (\<lambda>(finish, redirected, s).
       let s = s\<lparr> id_valid := True \<rparr>;
           s = (if id_stall_dec_more s
                then s\<lparr> id_stall_dec_more := \<not> finish, id_stall_valid := \<not> (finish \<and> \<not> id_stall_inst_valid s) \<rparr>
                else if id_stall_inst_valid s then s\<lparr> id_stall_inst_valid := \<not> finish, id_stall_valid := \<not> finish \<rparr>
                else s)
       in Inr (s, if redirected then icache_redirect ic else ic))
     else Inr (s, ic))"

definition fetch_translate :: "'d plat \<Rightarrow> nat \<Rightarrow> 'd pipe \<Rightarrow> 'd pipe res" where
  "fetch_translate p w s =
    (if exceptionValid (inst_exception w s) then Inr s
     else rbind (translateAddr p (i_pc (cpu_insts s w)) IFETCH (i_paddr (cpu_insts s w)) (inst_exception w s) (cpu_arch s))
       (\<lambda>(pa, e, c). Inr (upd_inst w (\<lambda>x. set_inst_exception e (x\<lparr> i_paddr := pa \<rparr>)) (s\<lparr> cpu_arch := c \<rparr>))))"

definition fetch_stage :: "'d plat \<Rightarrow> 'd pipe \<Rightarrow> icache \<Rightarrow> ('d pipe \<times> icache) res" where
  "fetch_stage p s ic =
    (if fetch_valid s \<and> \<not> id_valid s
     then let w = fetch_cache_req s in
       rbind (fetch_translate p w s) (\<lambda>s.
         if exceptionValid (inst_exception w s)
         then rbind (ll_one (cache_req_list s)) (\<lambda>one.
           if one \<and> \<not> id_stall_valid s
           then rbind (ll_pop (cache_req_list s)) (\<lambda>(d, l).
             Inr (s\<lparr> id_valid := True, id_inst := w, id_remain_size := id_remain_size s + uint (i_size (cpu_insts s w)),
                     cache_req_list := l, fetch_valid := False \<rparr>, ic))
           else Inr (s, ic))
         else
           let s = s\<lparr> fetch_reqs := (fetch_reqs s)(w := (fetch_reqs s w)\<lparr> addr := i_paddr (cpu_insts s w) \<rparr>) \<rparr>;
               (taken, ic) = icache_lookup w ic
           in Inr (if taken then s\<lparr> fetch_valid := False \<rparr> else s, ic))
     else Inr (s, ic))"

text \<open>The next request: a fetch of four bytes at pred_pc.\<close>

definition issue_stage :: "'d pipe \<Rightarrow> 'd pipe res" where
  "issue_stage s =
    (if \<not> fetch_valid s
     then rbind (ll_take (cache_req_list s)) (\<lambda>(w, l).
       let s = upd_inst w (\<lambda>x. set_inst_exception EXC_NONE (x\<lparr> i_pc := pred_pc s, i_size := 4 \<rparr>)) s in
       Inr (s\<lparr> pred_pc := pred_pc s + 4, fetch_cache_req := w, cache_req_list := l, fetch_valid := True \<rparr>))
     else Inr s)"

definition pipe_exec :: "'d plat \<Rightarrow> 'd cpu_caches \<Rightarrow> 'd cpu_caches res" where
  "pipe_exec p w = (case w of (s, ic, dc) \<Rightarrow>
    if 5000 < tick (cpu_arch s) - wb_tick s then Inl (ExitCalled ''WB stage stalled'')
    else rbind (wb_stage (s, ic, dc)) (\<lambda>(s, ic, dc).
      rbind (mem_stage s) (\<lambda>s.
      rbind (exe_stage p (s, ic, dc)) (\<lambda>(s, ic, dc).
      rbind (id_stage p s ic) (\<lambda>(s, ic).
      rbind (refill_stage p s ic) (\<lambda>(s, ic).
      rbind (fetch_stage p s ic) (\<lambda>(s, ic).
      rbind (issue_stage s) (\<lambda>s.
        Inr (s\<lparr> cpu_arch := (cpu_arch s)\<lparr> tick := tick (cpu_arch s) + 1 \<rparr> \<rparr>, ic, dc)))))))))"

section \<open>afterLoad\<close>

text \<open>
  The objects of the rings are numbered in the order they are pushed.  Members without an initialiser are
  taken from u; sizes, stack, delays and mem are those of the predictor's afterLoad.
\<close>

definition pipe_afterLoad :: "u64 \<Rightarrow> nat list \<Rightarrow> u64 list \<Rightarrow> nat list \<Rightarrow> meta_info list \<Rightarrow> 'd pipe \<Rightarrow> 'd pipe res" where
  "pipe_afterLoad start_pc sizes stack delays mem u =
    rbind (pred_afterLoad sizes stack delays mem (cpu_pred u)) (\<lambda>pr.
      Inr (u\<lparr> cpu_pc := start_pc, pred_pc := start_pc, cpu_arch := (cpu_arch u)\<lparr> instret := 0 \<rparr>,
        cpu_pred := pr, cache_req_list := ll_pushes [0..<retire_size u] ll_new,
        mem_req_list := ll_pushes [0..<retire_size u] ll_new, mem_end_map := replicate (retire_size u) False,
        cpu_insts := (\<lambda>i. (cpu_insts u i)\<lparr> i_result := R_NORMAL, i_info := zero_info\<lparr> exception := EXC_NONE \<rparr> \<rparr>),
        fetch_reqs := (\<lambda>w. \<lparr> req = READ_SHARED, req_size = 4, req_id = (\<lambda>k. 0), addr = 0 \<rparr>),
        mem_reqs := (\<lambda>i. \<lparr> req = SNOOP_NONE, req_size = 0, req_id = (\<lambda>k. 0)(0 := of_nat i), addr = 0 \<rparr>),
        fetch_valid := False, id_valid := False, exe_valid := False, mem_valid := False, wb_valid := False,
        id_stall_valid := False, id_stall_dec_more := False, id_stall_inst_valid := False, id_extra_idx := 0,
        id_remain_size := 0, id_wait_redirect := False, wait_redirect_tick := 0, exe_stall_cycle := 0, exe_end := False,
        mem_req_valid := False, wb_tick := 0 \<rparr>))"

end
