(* ===== verification/Emu.thy ===== *)
theory Emu
  imports Pipeline
begin

text \<open>
  The simulator around the pipelined cpu: EMU::run of src/src/emu.cpp, which in each cycle calls tick of
  the memory, of the caches in the order of their ids, and exec of the cpu.  What the memory does in its
  tick is a list of events: it answers a miss of one of the caches, the devices move on and may drive the
  interrupt word of the cpu (irqListener), or the parent itself changes its state.  The parent of the caches is a parameter with a state of its
  own; em_out_i and em_out_d count the misses it has accepted and not answered.
\<close>

record ('d, 'p) emu =
  em_cpu :: "'d pipe"
  em_ic :: icache
  em_dc :: dcache
  em_parent :: 'p
  em_out_i :: nat
  em_out_d :: nat

text \<open>lookup of the parent for the requests of the two caches.\<close>

record 'p parent =
  icache_parent :: "cache_req \<Rightarrow> 'p \<Rightarrow> bool \<times> cache_req \<times> 'p"
  dcache_parent :: "cache_req \<Rightarrow> 'p \<Rightarrow> bool \<times> cache_req \<times> 'p"

section \<open>The cpu as the client of its caches\<close>

definition icache_port :: "'d plat \<Rightarrow> 'p parent \<Rightarrow> ('d pipe res, 'p) port" where
  "icache_port p up = \<lparr> callback0 = (\<lambda>ids r. case rbind r (icache_callback p) of
       Inl e \<Rightarrow> (False, Inl e) | Inr (redirected, s) \<Rightarrow> (redirected, Inr s)), parent_lookup = icache_parent up \<rparr>"

definition dcache_port :: "'p parent \<Rightarrow> ('d pipe res, 'p) port" where
  "dcache_port up = \<lparr> callback0 = (\<lambda>ids r. (False, rbind r (dcache_callback ids))), parent_lookup = dcache_parent up \<rparr>"

definition icache_clock :: "'d plat \<Rightarrow> 'p parent \<Rightarrow> ('d, 'p) emu \<Rightarrow> ('d, 'p) emu res" where
  "icache_clock p up m =
    rbind (icache_tick (icache_port p up) (fetch_reqs (em_cpu m)) (em_ic m, Inr (em_cpu m), em_parent m)) (\<lambda>(ic, r, q).
    rbind r (\<lambda>s. Inr (m\<lparr> em_cpu := s, em_ic := ic, em_parent := q,
      em_out_i := (if cstate (em_ic m) \<noteq> MISS \<and> cstate ic = MISS then em_out_i m + 1 else em_out_i m) \<rparr>)))"

definition dcache_clock :: "'p parent \<Rightarrow> ('d, 'p) emu \<Rightarrow> ('d, 'p) emu res" where
  "dcache_clock up m =
    rbind (dcache_tick (dcache_port up) (mem_reqs (em_cpu m)) (em_dc m, Inr (em_cpu m), em_parent m)) (\<lambda>(dc, r, q).
    rbind r (\<lambda>s. Inr (m\<lparr> em_cpu := s, em_dc := dc, em_parent := q,
      em_out_d := (if dstate (em_dc m) \<noteq> D_MISS \<and> dstate dc = D_MISS then em_out_d m + 1 else em_out_d m) \<rparr>)))"

section \<open>The tick of the memory\<close>

datatype ('d, 'p) mem_action = Answer_I | Answer_D | Devices 'd "u64 option" | Parent 'p

fun mem_act :: "'d plat \<Rightarrow> 'p parent \<Rightarrow> ('d, 'p) mem_action \<Rightarrow> ('d, 'p) emu \<Rightarrow> ('d, 'p) emu res" where
  "mem_act p up Answer_I m =
    (if em_out_i m = 0 then Inl (Undefined ''answer without a request'')
     else rbind (icache_fill (icache_port p up) (em_ic m) (Inr (em_cpu m))) (\<lambda>(ic, r).
       rbind r (\<lambda>s. Inr (m\<lparr> em_cpu := s, em_ic := ic, em_out_i := em_out_i m - 1 \<rparr>))))"
| "mem_act p up Answer_D m =
    (if em_out_d m = 0 then Inl (Undefined ''answer without a request'')
     else rbind (dcache_fill (dcache_port up) (em_dc m) (Inr (em_cpu m))) (\<lambda>(dc, r).
       rbind r (\<lambda>s. Inr (m\<lparr> em_cpu := s, em_dc := dc, em_out_d := em_out_d m - 1 \<rparr>))))"
| "mem_act p up (Devices d irq) m =
    Inr (m\<lparr> em_cpu := (em_cpu m)\<lparr> cpu_arch := notify irq (set_devices d (cpu_arch (em_cpu m))) \<rparr> \<rparr>)"
| "mem_act p up (Parent q) m = Inr (m\<lparr> em_parent := q \<rparr>)"

fun mem_acts :: "'d plat \<Rightarrow> 'p parent \<Rightarrow> ('d, 'p) mem_action list \<Rightarrow> ('d, 'p) emu \<Rightarrow> ('d, 'p) emu res" where
  "mem_acts p up [] m = Inr m"
| "mem_acts p up (a # as) m = rbind (mem_act p up a m) (mem_acts p up as)"

section \<open>EMU::run\<close>

definition emu_clock :: "'d plat \<Rightarrow> 'p parent \<Rightarrow> ('d, 'p) emu \<Rightarrow> ('d, 'p) emu res" where
  "emu_clock p up m =
    rbind (icache_clock p up m) (\<lambda>m.
    rbind (dcache_clock up m) (\<lambda>m.
    rbind (pipe_exec p (em_cpu m, em_ic m, em_dc m)) (\<lambda>(s, ic, dc).
      Inr (m\<lparr> em_cpu := s, em_ic := ic, em_dc := dc \<rparr>))))"

definition emu_cycle :: "'d plat \<Rightarrow> 'p parent \<Rightarrow> ('d, 'p) mem_action list \<Rightarrow> ('d, 'p) emu \<Rightarrow> ('d, 'p) emu res" where
  "emu_cycle p up as m = rbind (mem_acts p up as m) (emu_clock p up)"

text \<open>The limits are those of the configuration; the list gives the memory's actions, cycle by cycle.\<close>

fun emu_run :: "'d plat \<Rightarrow> 'p parent \<Rightarrow> u64 \<Rightarrow> u64 \<Rightarrow> ('d, 'p) mem_action list list \<Rightarrow> ('d, 'p) emu \<Rightarrow> ('d, 'p) emu res" where
  "emu_run p up end_tick inst_count [] m = Inr m"
| "emu_run p up end_tick inst_count (as # ass) m =
    (if tick (cpu_arch (em_cpu m)) \<le> end_tick \<and> instret (cpu_arch (em_cpu m)) < inst_count
     then rbind (emu_cycle p up as m) (emu_run p up end_tick inst_count ass) else Inr m)"

end
