(* ===== verification/Simulator.thy ===== *)
theory Simulator
  imports Emu Bus
begin

text \<open>
  The whole simulator with the pipelined cpu: EMU::run (src/src/emu.cpp) over the cpu, its two caches and
  the memory of Memory_Port with the devices of Bus behind it, as CacheManager::afterLoad
  (src/src/cache/cachemanager.cpp) connects them.  The caches register their callbacks with the memory in
  the order of their ids, so callback 0 is that of the instruction cache and callback 1 that of the data
  cache; the request objects the memory points to are numbered in the same way.

  The members of a device that belong to its request handshake are kept in the list of the memory, those
  of its registers in the machine of the cpu; what its tick does to the latter is the parameter ft
  (bus_func for the devices of Bus).
\<close>

type_synonym ('d, 'r) sim = "('d, (device, 'r) mem_port res) emu"

section \<open>The memory as the parent of the caches\<close>

definition memory_lookup :: "'r dram_ops \<Rightarrow> u8 \<Rightarrow> cache_req \<Rightarrow> (device, 'r) mem_port res \<Rightarrow>
    bool \<times> cache_req \<times> (device, 'r) mem_port res" where
  "memory_lookup e cb q r = (case rbind r (mem_lookup dev_ops dev_inRange e cb (unat cb) (\<lambda>i. q)) of
      Inl x \<Rightarrow> (False, q, Inl x) | Inr (ok, h, m) \<Rightarrow> (ok, h (unat cb), Inr m))"

definition memory_parent :: "'r dram_ops \<Rightarrow> (device, 'r) mem_port res parent" where
  "memory_parent e = \<lparr> icache_parent = memory_lookup e 0, dcache_parent = memory_lookup e 1 \<rparr>"

definition lookup_reqs :: "('d, 'r) sim \<Rightarrow> req_heap" where
  "lookup_reqs m = (\<lambda>i. if i = 0 then lookup_req (em_ic m) else dlookup_req (em_dc m))"

section \<open>The tick of the memory\<close>

text \<open>callbacks[callback_id](id, result): neither cache looks at the ids it is given.\<close>

definition deliver :: "'d plat \<Rightarrow> 'p parent \<Rightarrow> u8 \<times> (nat \<Rightarrow> u16) \<Rightarrow> ('d, 'p) emu \<Rightarrow> ('d, 'p) emu res" where
  "deliver p up a m =
    (if fst a = 0
     then rbind (icache_fill (icache_port p up) (em_ic m) (Inr (em_cpu m))) (\<lambda>(ic, r).
       rbind r (\<lambda>s. Inr (m\<lparr> em_cpu := s, em_ic := ic, em_out_i := em_out_i m - 1 \<rparr>)))
     else if fst a = 1
     then rbind (dcache_fill (dcache_port up) (em_dc m) (Inr (em_cpu m))) (\<lambda>(dc, r).
       rbind r (\<lambda>s. Inr (m\<lparr> em_cpu := s, em_dc := dc, em_out_d := em_out_d m - 1 \<rparr>)))
     else Inl OutOfBounds)"

fun delivers :: "'d plat \<Rightarrow> 'p parent \<Rightarrow> (u8 \<times> (nat \<Rightarrow> u16)) list \<Rightarrow> ('d, 'p) emu \<Rightarrow> ('d, 'p) emu res" where
  "delivers p up [] m = Inr m"
| "delivers p up (a # as) m = rbind (deliver p up a m) (delivers p up as)"

text \<open>One device: its tick, and the answer it gives.\<close>

definition bus_func :: "nat \<Rightarrow> bus \<Rightarrow> (bus \<times> u64 option) res" where
  "bus_func i b = rbind (dev_tick (bus_devices b ! i) (bus_irq b)) (\<lambda>(d, irq, called).
     Inr (\<lparr> bus_devices = (bus_devices b)[i := d], bus_irq = irq \<rparr>, if called then Some irq else None))"

definition sim_device :: "'d plat \<Rightarrow> 'r dram_ops \<Rightarrow> (nat \<Rightarrow> 'd \<Rightarrow> ('d \<times> u64 option) res) \<Rightarrow> nat \<Rightarrow> ('d, 'r) sim \<Rightarrow> ('d, 'r) sim res" where
  "sim_device p e ft i m =
    (let c = cpu_arch (em_cpu m) in
     rbind (ft i (devices (memory c))) (\<lambda>(d, irq).
     rbind (em_parent m) (\<lambda>q.
       let q = device_tick dev_ops i q in
       delivers p (memory_parent e) (answers q)
         (m\<lparr> em_cpu := (em_cpu m)\<lparr> cpu_arch := notify irq (set_devices d c) \<rparr>, em_parent := Inr (q\<lparr> answers := [] \<rparr>) \<rparr>))))"

fun sim_devices :: "'d plat \<Rightarrow> 'r dram_ops \<Rightarrow> (nat \<Rightarrow> 'd \<Rightarrow> ('d \<times> u64 option) res) \<Rightarrow> nat list \<Rightarrow> ('d, 'r) sim \<Rightarrow> ('d, 'r) sim res" where
  "sim_devices p e ft [] m = Inr m"
| "sim_devices p e ft (i # is) m = rbind (sim_device p e ft i m) (sim_devices p e ft is)"

definition sim_tick :: "'d plat \<Rightarrow> 'r dram_ops \<Rightarrow> (nat \<Rightarrow> 'd \<Rightarrow> ('d \<times> u64 option) res) \<Rightarrow> ('d, 'r) sim \<Rightarrow> ('d, 'r) sim res" where
  "sim_tick p e ft m =
    rbind (em_parent m) (\<lambda>q.
    rbind (dram_clock e (lookup_reqs m) q) (\<lambda>q.
    rbind (delivers p (memory_parent e) (answers q) (m\<lparr> em_parent := Inr (q\<lparr> answers := [] \<rparr>) \<rparr>))
      (sim_devices p e ft [0..<length (mp_devices q)])))"

section \<open>EMU::run\<close>

definition sim_cycle :: "'d plat \<Rightarrow> 'r dram_ops \<Rightarrow> (nat \<Rightarrow> 'd \<Rightarrow> ('d \<times> u64 option) res) \<Rightarrow> ('d, 'r) sim \<Rightarrow> ('d, 'r) sim res" where
  "sim_cycle p e ft m =
    rbind (sim_tick p e ft m) (\<lambda>m.
    rbind (emu_clock p (memory_parent e) m) (\<lambda>m.
    rbind (em_parent m) (\<lambda>q. Inr m)))"

text \<open>At most n rounds of the loop.\<close>

fun sim_run :: "'d plat \<Rightarrow> 'r dram_ops \<Rightarrow> (nat \<Rightarrow> 'd \<Rightarrow> ('d \<times> u64 option) res) \<Rightarrow> u64 \<Rightarrow> u64 \<Rightarrow> nat \<Rightarrow> ('d, 'r) sim \<Rightarrow>
    ('d, 'r) sim res" where
  "sim_run p e ft end_tick inst_count 0 m = Inr m"
| "sim_run p e ft end_tick inst_count (Suc n) m =
    (if tick (cpu_arch (em_cpu m)) \<le> end_tick \<and> instret (cpu_arch (em_cpu m)) < inst_count
     then rbind (sim_cycle p e ft m) (sim_run p e ft end_tick inst_count n) else Inr m)"

section \<open>EMU::init\<close>

text \<open>Sizes of a cache: line, sets, ways.\<close>

type_synonym cache_params = "nat \<times> nat \<times> nat"

text \<open>The first interrupt handler among the devices.\<close>

fun find_irq_handler :: "device list \<Rightarrow> nat option" where
  "find_irq_handler [] = None"
| "find_irq_handler (D_Irq d # ds) = Some 0"
| "find_irq_handler (d # ds) = map_option Suc (find_irq_handler ds)"

definition cm_afterLoad :: "cache_params \<Rightarrow> cache_params \<Rightarrow> nat \<Rightarrow> ('d, 'r) sim \<Rightarrow> (nat option \<times> ('d, 'r) sim) res" where
  "cm_afterLoad ip dp queue_size m = (case ip of (il, is, iw) \<Rightarrow> case dp of (dl, ds, dw) \<Rightarrow>
     rbind (em_parent m) (\<lambda>q. Inr (find_irq_handler (mp_devices q),
       m\<lparr> em_ic := icache_afterLoad il is iw (em_ic m), em_dc := dcache_afterLoad dl ds dw (em_dc m),
          em_parent := Inr (mem_afterLoad queue_size q), em_out_i := 0, em_out_d := 0 \<rparr>)))"

text \<open>
  The second half of init, after the objects have been created.  The cpu listens to the interrupt handler;
  without one, the call is through a null pointer.
\<close>

definition sim_init :: "cache_params \<Rightarrow> cache_params \<Rightarrow> nat \<Rightarrow> u64 \<Rightarrow> nat list \<Rightarrow> u64 list \<Rightarrow> nat list \<Rightarrow> meta_info list \<Rightarrow>
    ('d, 'r) sim \<Rightarrow> ('d, 'r) sim res" where
  "sim_init ip dp queue_size start_pc sizes stack delays mem m =
    rbind (cm_afterLoad ip dp queue_size m) (\<lambda>(handler, m).
    rbind (pipe_afterLoad start_pc sizes stack delays mem (em_cpu m)) (\<lambda>s.
      case handler of None \<Rightarrow> Inl NullDeref | Some i \<Rightarrow> Inr (m\<lparr> em_cpu := s \<rparr>)))"

end
