(* ===== verification/Frame.thy ===== *)
theory Frame
  imports Exec
begin

text \<open>
  What executing an instruction leaves alone.  The trans functions record their results in DecodeInfo
  and the commit stage writes them: until then the registers, the CSRs, the privilege mode, the pc and
  the RAM keep their values.  The parts of the machine that decode and execute do change are DecodeInfo,
  but its inst_size, the devices (a load from a device is an access to it) and with them mip, the softfloat status, and the
  FS field of mstatus, which the floating-point instructions set to dirty.
\<close>

section \<open>The part of the machine that only commit writes\<close>

definition core :: "arch_state \<Rightarrow> arch_state" where
  "core s = s\<lparr> mip := 0, mstatus := mstatus s AND NOT MSTATUS_FS,
     fp_status := \<lparr> fs_flags = 0, fs_round = 0, fs_rest = [] \<rparr> \<rparr>"

definition view :: "'d machine \<Rightarrow> arch_state \<times> u64 \<times> u64 \<times> bool \<times> bool \<times> (u64 \<Rightarrow> u8) \<times> u64 \<times> u64 \<times> u64 \<times> u8" where
  "view c = (core (state c), env_pc c, env_paddr c, ifetch_mmu_state c, data_mmu_state c, ram (memory c),
     mem_size (memory c), tick c, instret c, inst_size (info c))"

named_theorems view_simps \<open>updates that the view does not see\<close>

lemma view_info: "(\<And>i. inst_size (f i) = inst_size i) \<Longrightarrow> view (upd_info f c) = view c"
  by (simp add: view_def upd_info_def)

lemma view_setters [view_simps]:
  "view (set_exception e c) = view c" "view (set_exc_data d c) = view c" "view (set_dst_idx k x c) = view c"
  "view (set_dst_mask k m c) = view c" "view (set_dst_data k d c) = view c" "view (set_dst k x m d c) = view c"
  "view (set_src k r c) = view c" "view (set_dst_reg r c) = view c" "view (set_type t c) = view c"
  by (simp_all add: set_exception_def set_exc_data_def set_dst_idx_def set_dst_mask_def set_dst_data_def
      set_dst_def set_src_def set_dst_reg_def set_type_def view_info)

lemma view_macros [view_simps]:
  "view (SET_GPR_64 rd d c) = view c" "view (SET_GPR_32 rd d c) = view c" "view (SET_FPR_64 rd d c) = view c"
  "view (SET_SRC2 r1 r2 c) = view c" "view (SET_SRC0_DST rd c) = view c" "view (SET_SRC1_DST r1 rd c) = view c"
  "view (SET_SRC2_DST r1 r2 rd c) = view c" "view (SET_SRC2_DST_ADDR r1 r2 rd c) = view c"
  "view (SET_SRC1_DSTF r1 rd c) = view c" "view (SET_SRC1F_DST r1 rd c) = view c"
  "view (SET_SRC1F_DSTF r1 rd c) = view c" "view (SET_SRC2F_DSTF r1 r2 rd c) = view c"
  "view (SET_SRC2F_DST r1 r2 rd c) = view c" "view (SET_SRC3F_DSTF r1 r2 r3 rd c) = view c"
  "view (SET_SRC1_DSTF_ADDR r1 rd c) = view c" "view (SET_SRC1_SRC2F_ADDR r1 r2 c) = view c"
  "view (SET_SRC1_DST_ADDR r1 rd c) = view c" "view (SET_SRC1_SRC2_ADDR r1 r2 c) = view c"
  by (simp_all add: macro_defs view_setters)

lemma core_fp: "core (s\<lparr> fp_status := st \<rparr>) = core s"
  by (simp add: core_def)

lemma core_mstatus_FS: "core (s\<lparr> mstatus := mstatus s OR MSTATUS_FS \<rparr>) = core s"
proof -
  have "(mstatus s OR MSTATUS_FS) AND NOT MSTATUS_FS = mstatus s AND NOT MSTATUS_FS"
    by (rule bit_word_eqI) (auto simp only: bit_simps)
  then show ?thesis by (simp only: core_def arch_state.simps) simp
qed

lemma view_setrm [view_simps]: "view (setrm rm c) = view c"
  by (simp add: view_def setrm_def upd_state_def core_def)

lemma view_mark_fs [view_simps]: "view (upd_state (\<lambda>s. s\<lparr> mstatus := mstatus s OR MSTATUS_FS \<rparr>) c) = view c"
  unfolding view_def upd_state_def using core_mstatus_FS [of "state c"] by simp

lemma view_sf_call: "sf_call p f xs c = (v, c') \<Longrightarrow> view c' = view c"
  by (auto simp: sf_call_def view_def upd_state_def core_def Let_def split: prod.splits)

lemma view_notify [view_simps]: "view (notify i (set_devices d c)) = view c"
  by (simp add: view_def notify_def irqListener_def set_devices_def core_def split: option.splits)

section \<open>Memory accesses\<close>

lemma view_paddrRead: "paddrRead p a n ty d c = Inr (v, ok, c') \<Longrightarrow> view c' = view c"
  by (auto simp: paddrRead_def mem_paddrRead_def rbind_eq_Inr view_simps split: option.splits if_splits)

lemma view_walk: "walk p va ty l base c = Inr (pa, r, c') \<Longrightarrow> view c' = view c"
proof (induction l arbitrary: base c)
  case 0
  then show ?case
    by (subst (asm) walk.simps) (auto simp: rbind_eq_Inr Let_def split: if_splits dest: view_paddrRead)
next
  case (Suc l)
  from Suc.prems obtain t ok c1 where rd: "paddrRead p (base + VPNi va (Suc l) * 8) 8 ty (uninit p) c = Inr (t, ok, c1)"
    by (subst (asm) walk.simps) (auto simp: rbind_eq_Inr)
  then have "view c1 = view c" by (rule view_paddrRead)
  then show ?case
    using Suc.prems Suc.IH [of "PGBASE (pte_ppn t)" c1]
    by (subst (asm) walk.simps) (auto simp: rd Let_def split: if_splits)
qed

lemma view_translateAddr: "translateAddr p va ty pa e c = Inr (pa', e', c') \<Longrightarrow> view c' = view c"
  by (auto simp: translateAddr_def rbind_eq_Inr split: if_splits option.splits dest: view_walk)

lemma view_ld_n: "ld_n p n va c = Inr (v, c') \<Longrightarrow> view c' = view c"
  by (auto simp: ld_n_def rbind_eq_Inr view_simps split: if_splits dest!: view_translateAddr view_paddrRead)

lemma view_ld:
  "ld_b p va c = Inr (v, c') \<Longrightarrow> view c' = view c" "ld_h p va c = Inr (v, c') \<Longrightarrow> view c' = view c"
  "ld_w p va c = Inr (v, c') \<Longrightarrow> view c' = view c" "ld_d p va c = Inr (v, c') \<Longrightarrow> view c' = view c"
  by (auto simp: ld_b_def ld_h_def ld_w_def ld_d_def rbind_eq_Inr view_simps split: if_splits dest!: view_ld_n)

lemma view_st_n: "st_n p n va c = Inr (v, c') \<Longrightarrow> view c' = view c"
  by (auto simp: st_n_def rbind_eq_Inr view_simps split: if_splits dest!: view_translateAddr)

lemma view_st:
  "st_b p va c = Inr (v, c') \<Longrightarrow> view c' = view c" "st_h p va c = Inr (v, c') \<Longrightarrow> view c' = view c"
  "st_w p va c = Inr (v, c') \<Longrightarrow> view c' = view c" "st_d p va c = Inr (v, c') \<Longrightarrow> view c' = view c"
  by (auto simp: st_b_def st_h_def st_w_def st_d_def view_simps split: if_splits dest!: view_st_n)

section \<open>The trans functions\<close>

lemmas trans_alu_defs =
  trans_slli_uw_def trans_addi_def trans_addiw_def trans_addw_def trans_subw_def trans_slliw_def
  trans_sllw_def trans_srliw_def trans_srlw_def trans_sraiw_def trans_sraw_def trans_add_def
  trans_sub_def trans_add_uw_def trans_orn_def trans_xnor_def trans_andn_def trans_bclr_def
  trans_bclri_def trans_bext_def trans_bexti_def trans_binv_def trans_binvi_def trans_brev8_def
  trans_bset_def trans_bseti_def trans_max_def trans_maxu_def trans_min_def trans_minu_def
  trans_orc_b_def trans_pack_def trans_packh_def trans_packw_def trans_rev8_32_def
  trans_rev8_64_def trans_rol_def trans_rolw_def trans_ror_def trans_rori_def trans_roriw_def
  trans_rorw_def trans_and_def trans_andi_def trans_or_def trans_ori_def trans_xor_def
  trans_xori_def trans_auipc_def trans_beq_def trans_bne_def trans_blt_def trans_bltu_def
  trans_bge_def trans_bgeu_def trans_clz_def trans_clzw_def trans_ctz_def trans_ctzw_def
  trans_jal_def trans_jalr_def trans_lui_def trans_mul_def trans_div_def trans_divu_def
  trans_rem_def trans_remu_def trans_mulh_def trans_mulhu_def trans_mulw_def trans_divw_def
  trans_divuw_def trans_remw_def trans_remuw_def trans_sext_b_def trans_sext_h_def
  trans_sh1add_def trans_sh1add_uw_def trans_sh2add_def trans_sh2add_uw_def trans_sh3add_def
  trans_sh3add_uw_def trans_sll_def trans_slli_def trans_sra_def trans_srai_def trans_srl_def
  trans_srli_def trans_slt_def trans_slti_def trans_sltu_def trans_sltiu_def trans_zext_h_64_def

lemmas trans_mem_defs =
  trans_lq_def trans_sq_def trans_amoadd_w_def trans_amoadd_d_def trans_amoand_w_def
  trans_amoand_d_def trans_amoor_w_def trans_amoor_d_def trans_amoxor_w_def trans_amoxor_d_def
  trans_amomax_w_def trans_amomax_d_def trans_amomaxu_w_def trans_amomaxu_d_def
  trans_amomin_w_def trans_amomin_d_def trans_amominu_w_def trans_amominu_d_def
  trans_amoswap_w_def trans_amoswap_d_def trans_lb_def trans_lbu_def trans_lh_def trans_lhu_def
  trans_lw_def trans_lwu_def trans_ld_def trans_lr_w_def trans_lr_d_def trans_sc_w_def
  trans_sc_d_def trans_sb_def trans_sh_def trans_sw_def trans_sd_def

lemmas trans_sys_defs =
  trans_csrrc_def trans_csrrci_def trans_csrrs_def trans_csrrsi_def trans_csrrw_def
  trans_csrrwi_def trans_fence_def trans_fence_i_def trans_pause_def trans_sret_def
  trans_mret_def trans_wfi_def trans_ebreak_def trans_ecall_def trans_sfence_vma_def

lemmas trans_fp_defs =
  trans_fcvt_d_l_def trans_fcvt_d_lu_def trans_fcvt_d_s_def trans_fcvt_d_w_def
  trans_fcvt_d_wu_def trans_fcvt_l_d_def trans_fcvt_l_s_def trans_fcvt_lu_d_def
  trans_fcvt_lu_s_def trans_fcvt_s_d_def trans_fcvt_s_l_def trans_fcvt_s_lu_def
  trans_fcvt_s_w_def trans_fcvt_s_wu_def trans_fcvt_w_d_def trans_fcvt_wu_d_def
  trans_fcvt_w_s_def trans_fadd_d_def trans_fadd_s_def trans_fsub_d_def trans_fsub_s_def
  trans_fmul_d_def trans_fmul_s_def trans_fdiv_d_def trans_fdiv_s_def trans_feq_d_def
  trans_fle_d_def trans_fle_s_def trans_flt_d_def trans_flt_s_def trans_fmadd_d_def
  trans_fmin_d_def trans_fmv_d_x_def trans_fmv_w_x_def trans_fmv_x_d_def trans_fmv_x_w_def
  trans_flw_def trans_fld_def trans_fsw_def trans_fsd_def trans_fsgnj_d_def trans_fsgnjn_d_def
  trans_fsgnjn_s_def trans_fsgnj_s_def trans_fsgnjx_s_def trans_fsgnjx_d_def trans_c_fld_def
  trans_c_fsd_def

definition keeps :: "'d trans \<Rightarrow> bool" where
  "keeps f \<longleftrightarrow> (\<forall>c ok c'. f c = Inr (ok, c') \<longrightarrow> view c' = view c)"

lemma keeps_r: "keeps (exec_r p oper a)"
  by (cases oper) (auto simp: keeps_def trans_alu_defs Let_def view_simps split: if_splits)

lemma keeps_rb: "keeps (exec_rb p oper a)"
  by (cases oper) (auto simp: keeps_def trans_alu_defs Let_def view_simps split: if_splits)

lemma keeps_b: "keeps (exec_b p oper a)"
  by (cases oper) (auto simp: keeps_def trans_alu_defs Let_def view_simps split: if_splits)

lemma keeps_shift: "keeps (exec_shift p oper a)"
  by (cases oper) (auto simp: keeps_def trans_alu_defs Let_def view_simps split: if_splits)

lemmas fp_simps = trans_fp_defs REQUIRE_FPU_def Let_def rbind_eq_Inr view_simps

lemma keeps_r2: "keeps (exec_r2 p oper a)"
  by (cases oper) (auto simp: keeps_def trans_alu_defs fp_simps split: if_splits)

lemma keeps_fr: "keeps (exec_fr p oper a)"
  by (cases oper) (auto simp: keeps_def fp_simps split: if_splits prod.splits dest!: view_sf_call)

lemma keeps_f3: "keeps (exec_f3 p oper a)"
  by (cases oper) (auto simp: keeps_def fp_simps split: if_splits prod.splits dest!: view_sf_call)

lemma keeps_f2: "keeps (exec_f2 p oper a)"
  by (cases oper) (auto simp: keeps_def fp_simps split: if_splits prod.splits dest!: view_sf_call)

lemma keeps_fmadd: "keeps (trans_fmadd_d p a)"
  by (auto simp: keeps_def fp_simps split: if_splits prod.splits dest!: view_sf_call)

lemma keeps_u: "keeps (exec_u p oper a)"
  by (cases oper) (auto simp: keeps_def trans_alu_defs Let_def view_simps split: if_splits)

lemma keeps_atomic: "keeps (exec_atomic p oper a)"
  by (cases oper) (auto simp: keeps_def trans_mem_defs Let_def rbind_eq_Inr view_simps split: if_splits
      dest!: view_ld view_st)

lemma keeps_s: "keeps (exec_s p oper a)"
  by (cases oper) (auto simp: keeps_def trans_mem_defs fp_simps split: if_splits dest!: view_st)

lemma keeps_i: "keeps (exec_i p oper a)"
  by (cases oper) (auto simp: keeps_def trans_alu_defs trans_mem_defs fp_simps split: if_splits dest!: view_ld)

lemma keeps_jal: "keeps (trans_jal a)"
  by (auto simp: keeps_def trans_alu_defs Let_def view_simps)

lemma keeps_empty: "keeps (exec_empty p oper)"
  by (cases oper) (auto simp: keeps_def trans_sys_defs Let_def view_simps)

lemma keeps_fences: "keeps (trans_fence a)" "keeps (trans_sfence_vma b)"
  by (auto simp: keeps_def trans_sys_defs Let_def view_simps)

section \<open>CSR instructions\<close>

lemmas csr_fn_defs =
  read_fflags_def read_frm_def read_fcsr_def read_time_def read_cycle_def read_noop_def
  read_instret_def read_mvendorid_def read_marchid_def read_mimpid_def read_mhartid_def
  read_misa_def read_medeleg_def read_mtvec_def read_mcounteren_def read_mscratch_def
  read_mepc_def read_mcause_def read_mtval_def read_menvcfg_def read_senvcfg_def read_stvec_def
  read_scounteren_def read_sscratch_def read_sepc_def read_scause_def read_stval_def
  read_satp_def read_mcountinhibit_def read_mstatus_def read_sstatus_def read_pmpcfg_def
  read_pmpaddr_def write_fflags_def write_frm_def write_fcsr_def write_mhpmcounter_def
  write_misa_def write_mstatus_def write_sstatus_def write_medeleg_def write_mtvec_def
  write_stvec_def write_mcounteren_def write_scounteren_def write_mscratch_def write_mepc_def
  write_mcause_def write_mtval_def write_sscratch_def write_sepc_def write_scause_def
  write_stval_def write_menvcfg_def write_senvcfg_def write_satp_def write_pmpcfg_def
  write_pmpaddr_def write_noop_def write_mcountinhibit_def rmw_mideleg_def rmw_mie_def
  rmw_mip_def rmw_sie_def rmw_sip_def

definition csr_keeps :: "'d riscv_csr_operations \<Rightarrow> bool" where
  "csr_keeps e \<longleftrightarrow>
     (\<forall>f \<in> set_option (csr_read e). \<forall>n v c r c'. f n v c = Inr (r, c') \<longrightarrow> view c' = view c) \<and>
     (\<forall>f \<in> set_option (csr_write e). \<forall>n v c c'. f n v c = Inr c' \<longrightarrow> view c' = view c) \<and>
     (\<forall>f \<in> set_option (csr_op e). \<forall>n v m c r c'. f n v m c = Inr (r, c') \<longrightarrow> view c' = view c)"

lemma table_keeps: "list_all (\<lambda>(n, e). csr_keeps e) csr_table"
  by (auto simp: csr_table_def csr_keeps_def mk_csr_def csr_fn_defs view_simps Let_def split: if_splits)

lemma csr_ops_keep: "csr_keeps (csr_ops n :: 'd riscv_csr_operations)"
proof -
  have "csr_keeps e" if "map_of csr_table n = Some e" for e :: "'d riscv_csr_operations"
    using table_keeps map_of_SomeD [OF that] by (auto simp: list_all_iff)
  moreover have "csr_keeps (mk_csr nm pr (Some read_noop) (Some write_noop) None :: 'd riscv_csr_operations)" for nm pr
    by (simp add: csr_keeps_def mk_csr_def csr_fn_defs)
  moreover have "csr_keeps (mk_csr nm pr None None None :: 'd riscv_csr_operations)" for nm pr
    by (simp add: csr_keeps_def mk_csr_def)
  ultimately show ?thesis
    unfolding csr_ops_def by (simp split: option.split)
qed

lemma view_csrrw: "riscv_csrrw n ret v m c = Inr (r, c') \<Longrightarrow> view c' = view (c :: 'd machine)"
  using csr_ops_keep [of n, where 'd = 'd]
  by (fastforce simp: riscv_csrrw_def csr_keeps_def rbind_eq_Inr split: option.splits if_splits)

lemma view_csrrw_check: "riscv_csrrw_check n w c = (b, c') \<Longrightarrow> view c' = view c"
  by (auto simp: riscv_csrrw_check_def Let_def view_simps split: if_splits)

lemma view_do_csr:
  "do_csrr p rd n c = Inr c' \<Longrightarrow> view c' = view c" "do_csrrw p rd n v m c = Inr c' \<Longrightarrow> view c' = view c"
  by (auto simp: do_csrr_def do_csrrw_def rbind_eq_Inr view_simps split: prod.splits if_splits
      dest!: view_csrrw view_csrrw_check)

lemma keeps_csr: "keeps (exec_csr p oper a)"
  by (cases oper) (auto simp: keeps_def trans_sys_defs rbind_eq_Inr view_simps Let_def split: if_splits
      dest!: view_do_csr)

section \<open>The whole interpreter\<close>

lemma keeps_insn: "keeps (exec_insn p i)"
  by (cases i) (simp_all add: keeps_r keeps_rb keeps_fr keeps_i keeps_atomic keeps_u keeps_shift keeps_b keeps_r2
      keeps_s keeps_csr keeps_empty keeps_f3 keeps_f2 keeps_fences keeps_fmadd keeps_jal, simp add: keeps_def)

lemma keeps_try: "keeps (try_insns p is)"
proof -
  have "try_insns p is c = Inr (ok, c') \<Longrightarrow> view c' = view c" for c ok c'
  proof (induction "is" arbitrary: c)
    case (Cons i "is")
    then obtain b c1 where "exec_insn p i c = Inr (b, c1)" and r: "b \<or> try_insns p is c1 = Inr (ok, c')" "b \<longrightarrow> c' = c1"
      by (auto simp: rbind_eq_Inr split: if_splits)
    then have "view c1 = view c" using keeps_insn [of p i] by (auto simp: keeps_def)
    then show ?case using r Cons.IH [of c1] by auto
  qed simp
  then show ?thesis by (simp add: keeps_def)
qed

lemma keeps_interpreter: "keeps (interpreter p w rvc)"
  by (simp add: interpreter_def keeps_try)

section \<open>Decode\<close>

lemma view_mem_paddrRead: "mem_paddrRead p a n d c = Inr (v, m, c') \<Longrightarrow> view c' = view c"
  by (auto simp: mem_paddrRead_def view_simps split: option.splits if_splits)

end
