(* ===== verification/Decode_Wf.thy ===== *)
theory Decode_Wf
  imports Decode16 Decode32
begin

text \<open>
  Well-formedness of decoded instructions: every register number a decoder hands to a trans function
  is below 32 and every CSR number below 4096, so the trans functions index the register files and
  the CSR table within their bounds.
\<close>

fun insn_wf :: "insn \<Rightarrow> bool" where
  "insn_wf (R oper a) \<longleftrightarrow> r_rd a < 32 \<and> r_rs1 a < 32 \<and> r_rs2 a < 32"
| "insn_wf (Rb oper a) \<longleftrightarrow> r_rd a < 32 \<and> r_rs1 a < 32 \<and> r_rs2 a < 32"
| "insn_wf (Fr oper a) \<longleftrightarrow> r_rd a < 32 \<and> r_rs1 a < 32 \<and> r_rs2 a < 32"
| "insn_wf (I oper a) \<longleftrightarrow> i_rs1 a < 32 \<and> i_rd a < 32"
| "insn_wf (A oper a) \<longleftrightarrow> at_rs2 a < 32 \<and> at_rs1 a < 32 \<and> at_rd a < 32"
| "insn_wf (U oper a) \<longleftrightarrow> u_rd a < 32"
| "insn_wf (Sh oper a) \<longleftrightarrow> sh_rs1 a < 32 \<and> sh_rd a < 32"
| "insn_wf (B oper a) \<longleftrightarrow> b_rs2 a < 32 \<and> b_rs1 a < 32"
| "insn_wf (R2 oper a) \<longleftrightarrow> r2_rd a < 32 \<and> r2_rs1 a < 32"
| "insn_wf (S oper a) \<longleftrightarrow> s_rs1 a < 32 \<and> s_rs2 a < 32"
| "insn_wf (Csr oper a) \<longleftrightarrow> cs_rs1 a < 32 \<and> cs_rd a < 32 \<and> cs_csr a < 4096"
| "insn_wf (F3 oper a) \<longleftrightarrow> f3_rs2 a < 32 \<and> f3_rs1 a < 32 \<and> f3_rd a < 32"
| "insn_wf (F2 oper a) \<longleftrightarrow> f2_rs1 a < 32 \<and> f2_rd a < 32"
| "insn_wf (Fmadd_d a) \<longleftrightarrow> f4_rs3 a < 32 \<and> f4_rs2 a < 32 \<and> f4_rs1 a < 32 \<and> f4_rd a < 32"
| "insn_wf (Jal a) \<longleftrightarrow> j_rd a < 32"
| "insn_wf (Sfence_vma a) \<longleftrightarrow> r2s_rs1 a < 32 \<and> r2s_rs2 a < 32"
| "insn_wf (E oper) \<longleftrightarrow> True"
| "insn_wf (Fence a) \<longleftrightarrow> True"
| "insn_wf (Stub name) \<longleftrightarrow> True"

lemmas extract_defs =
    decode_insn16_extract_c_addi16sp_def decode_insn16_extract_c_addi4spn_def
    decode_insn16_extract_c_andi_def decode_insn16_extract_c_jalr_def
    decode_insn16_extract_c_ldsp_def decode_insn16_extract_c_li_def
    decode_insn16_extract_c_lqsp_def decode_insn16_extract_c_lui_def
    decode_insn16_extract_c_lwsp_def decode_insn16_extract_c_mv_def
    decode_insn16_extract_c_sdsp_def decode_insn16_extract_c_shift_def
    decode_insn16_extract_c_shift2_def decode_insn16_extract_c_sqsp_def
    decode_insn16_extract_c_swsp_def decode_insn16_extract_cb_z_def
    decode_insn16_extract_ci_def decode_insn16_extract_cj_def
    decode_insn16_extract_cl_d_def decode_insn16_extract_cl_q_def
    decode_insn16_extract_cl_w_def decode_insn16_extract_cr_def
    decode_insn16_extract_cs_2_def decode_insn16_extract_cs_d_def
    decode_insn16_extract_cs_q_def decode_insn16_extract_cs_w_def
    decode_insn32_extract_atom_ld_def decode_insn32_extract_atom_st_def
    decode_insn32_extract_b_def decode_insn32_extract_csr_def
    decode_insn32_extract_decode_insn32_Fmt_39_def decode_insn32_extract_i_def
    decode_insn32_extract_j_def decode_insn32_extract_r_def
    decode_insn32_extract_r2_def decode_insn32_extract_r2_rm_def
    decode_insn32_extract_r4_rm_def decode_insn32_extract_r_rm_def
    decode_insn32_extract_s_def decode_insn32_extract_sfence_vma_def
    decode_insn32_extract_sh_def decode_insn32_extract_sh5_def
    decode_insn32_extract_u_def

lemma list_all_if: "list_all P (if b then xs else ys) \<longleftrightarrow> (if b then list_all P xs else list_all P ys)"
  by simp

lemma csr_lt [simp]: "extract32 v s 12 < 4096"
  using unat_extract32_less [of 12 v s] by (simp add: word_less_nat_alt)

lemma reg_rvc32 [simp]: "ex_rvc_register (extract32 v s 3) < 32"
  using reg3_rvc(1) [of v s] by (rule less_trans) simp

lemma sreg_lt [simp]: "ex_sreg_register (extract32 v s 3) < 32"
proof -
  have "unat (extract32 v s 3) < 8" using unat_extract32_less [of 3 v s] by simp
  then show ?thesis
    by (cases "sint (extract32 v s 3) < 2")
      (simp_all add: ex_sreg_register_def word_less_nat_alt unat_word_ariths)
qed

lemma wf_I_16_c_addi16sp: "insn_wf (I oper (decode_insn16_extract_c_addi16sp insn))"
  by (simp add: decode_insn16_extract_c_addi16sp_def)

lemma wf_I_16_c_addi4spn: "insn_wf (I oper (decode_insn16_extract_c_addi4spn insn))"
  by (simp add: decode_insn16_extract_c_addi4spn_def)

lemma wf_I_16_c_andi: "insn_wf (I oper (decode_insn16_extract_c_andi insn))"
  by (simp add: decode_insn16_extract_c_andi_def)

lemma wf_I_16_c_ldsp: "insn_wf (I oper (decode_insn16_extract_c_ldsp insn))"
  by (simp add: decode_insn16_extract_c_ldsp_def)

lemma wf_I_16_c_li: "insn_wf (I oper (decode_insn16_extract_c_li insn))"
  by (simp add: decode_insn16_extract_c_li_def)

lemma wf_I_16_c_lqsp: "insn_wf (I oper (decode_insn16_extract_c_lqsp insn))"
  by (simp add: decode_insn16_extract_c_lqsp_def)

lemma wf_U_16_c_lui: "insn_wf (U oper (decode_insn16_extract_c_lui insn))"
  by (simp add: decode_insn16_extract_c_lui_def)

lemma wf_I_16_c_lwsp: "insn_wf (I oper (decode_insn16_extract_c_lwsp insn))"
  by (simp add: decode_insn16_extract_c_lwsp_def)

lemma wf_I_16_c_mv: "insn_wf (I oper (decode_insn16_extract_c_mv insn))"
  by (simp add: decode_insn16_extract_c_mv_def)

lemma wf_S_16_c_sdsp: "insn_wf (S oper (decode_insn16_extract_c_sdsp insn))"
  by (simp add: decode_insn16_extract_c_sdsp_def)

lemma wf_Sh_16_c_shift: "insn_wf (Sh oper (decode_insn16_extract_c_shift insn))"
  by (simp add: decode_insn16_extract_c_shift_def)

lemma wf_Sh_16_c_shift2: "insn_wf (Sh oper (decode_insn16_extract_c_shift2 insn))"
  by (simp add: decode_insn16_extract_c_shift2_def)

lemma wf_S_16_c_sqsp: "insn_wf (S oper (decode_insn16_extract_c_sqsp insn))"
  by (simp add: decode_insn16_extract_c_sqsp_def)

lemma wf_S_16_c_swsp: "insn_wf (S oper (decode_insn16_extract_c_swsp insn))"
  by (simp add: decode_insn16_extract_c_swsp_def)

lemma wf_B_16_cb_z: "insn_wf (B oper (decode_insn16_extract_cb_z insn))"
  by (simp add: decode_insn16_extract_cb_z_def)

lemma wf_I_16_ci: "insn_wf (I oper (decode_insn16_extract_ci insn))"
  by (simp add: decode_insn16_extract_ci_def)

lemma wf_I_16_cl_d: "insn_wf (I oper (decode_insn16_extract_cl_d insn))"
  by (simp add: decode_insn16_extract_cl_d_def)

lemma wf_I_16_cl_q: "insn_wf (I oper (decode_insn16_extract_cl_q insn))"
  by (simp add: decode_insn16_extract_cl_q_def)

lemma wf_I_16_cl_w: "insn_wf (I oper (decode_insn16_extract_cl_w insn))"
  by (simp add: decode_insn16_extract_cl_w_def)

lemma wf_R_16_cr: "insn_wf (R oper (decode_insn16_extract_cr insn))"
  by (simp add: decode_insn16_extract_cr_def)

lemma wf_Rb_16_cr: "insn_wf (Rb oper (decode_insn16_extract_cr insn))"
  by (simp add: decode_insn16_extract_cr_def)

lemma wf_Fr_16_cr: "insn_wf (Fr oper (decode_insn16_extract_cr insn))"
  by (simp add: decode_insn16_extract_cr_def)

lemma wf_R_16_cs_2: "insn_wf (R oper (decode_insn16_extract_cs_2 insn))"
  by (simp add: decode_insn16_extract_cs_2_def)

lemma wf_Rb_16_cs_2: "insn_wf (Rb oper (decode_insn16_extract_cs_2 insn))"
  by (simp add: decode_insn16_extract_cs_2_def)

lemma wf_Fr_16_cs_2: "insn_wf (Fr oper (decode_insn16_extract_cs_2 insn))"
  by (simp add: decode_insn16_extract_cs_2_def)

lemma wf_S_16_cs_d: "insn_wf (S oper (decode_insn16_extract_cs_d insn))"
  by (simp add: decode_insn16_extract_cs_d_def)

lemma wf_S_16_cs_q: "insn_wf (S oper (decode_insn16_extract_cs_q insn))"
  by (simp add: decode_insn16_extract_cs_q_def)

lemma wf_S_16_cs_w: "insn_wf (S oper (decode_insn16_extract_cs_w insn))"
  by (simp add: decode_insn16_extract_cs_w_def)

lemma wf_A_32_atom_ld: "insn_wf (A oper (decode_insn32_extract_atom_ld insn))"
  by (simp add: decode_insn32_extract_atom_ld_def)

lemma wf_A_32_atom_st: "insn_wf (A oper (decode_insn32_extract_atom_st insn))"
  by (simp add: decode_insn32_extract_atom_st_def)

lemma wf_B_32_b: "insn_wf (B oper (decode_insn32_extract_b insn))"
  by (simp add: decode_insn32_extract_b_def)

lemma wf_Csr_32_csr: "insn_wf (Csr oper (decode_insn32_extract_csr insn))"
  by (simp add: decode_insn32_extract_csr_def)

lemma wf_I_32_i: "insn_wf (I oper (decode_insn32_extract_i insn))"
  by (simp add: decode_insn32_extract_i_def)

lemma wf_Jal_32_j: "insn_wf (Jal (decode_insn32_extract_j insn))"
  by (simp add: decode_insn32_extract_j_def)

lemma wf_R_32_r: "insn_wf (R oper (decode_insn32_extract_r insn))"
  by (simp add: decode_insn32_extract_r_def)

lemma wf_Rb_32_r: "insn_wf (Rb oper (decode_insn32_extract_r insn))"
  by (simp add: decode_insn32_extract_r_def)

lemma wf_Fr_32_r: "insn_wf (Fr oper (decode_insn32_extract_r insn))"
  by (simp add: decode_insn32_extract_r_def)

lemma wf_R2_32_r2: "insn_wf (R2 oper (decode_insn32_extract_r2 insn))"
  by (simp add: decode_insn32_extract_r2_def)

lemma wf_F2_32_r2_rm: "insn_wf (F2 oper (decode_insn32_extract_r2_rm insn))"
  by (simp add: decode_insn32_extract_r2_rm_def)

lemma wf_Fmadd_d_32_r4_rm: "insn_wf (Fmadd_d (decode_insn32_extract_r4_rm insn))"
  by (simp add: decode_insn32_extract_r4_rm_def)

lemma wf_F3_32_r_rm: "insn_wf (F3 oper (decode_insn32_extract_r_rm insn))"
  by (simp add: decode_insn32_extract_r_rm_def)

lemma wf_S_32_s: "insn_wf (S oper (decode_insn32_extract_s insn))"
  by (simp add: decode_insn32_extract_s_def)

lemma wf_Sfence_vma_32_sfence_vma: "insn_wf (Sfence_vma (decode_insn32_extract_sfence_vma insn))"
  by (simp add: decode_insn32_extract_sfence_vma_def)

lemma wf_Sh_32_sh: "insn_wf (Sh oper (decode_insn32_extract_sh insn))"
  by (simp add: decode_insn32_extract_sh_def)

lemma wf_Sh_32_sh5: "insn_wf (Sh oper (decode_insn32_extract_sh5 insn))"
  by (simp add: decode_insn32_extract_sh5_def)

lemma wf_U_32_u: "insn_wf (U oper (decode_insn32_extract_u insn))"
  by (simp add: decode_insn32_extract_u_def)

lemma wf_cj: "insn_wf (Jal ((decode_insn16_extract_cj a insn)\<lparr>j_rd := 0\<rparr>))"
  "insn_wf (Jal ((decode_insn16_extract_cj a insn)\<lparr>j_rd := 1\<rparr>))"
  by (simp_all add: decode_insn16_extract_cj_def)

lemma wf_c_jalr: "insn_wf (I oper ((decode_insn16_extract_c_jalr a insn)\<lparr>i_rd := 0\<rparr>))"
  "insn_wf (I oper ((decode_insn16_extract_c_jalr a insn)\<lparr>i_rd := 1\<rparr>))"
  by (simp_all add: decode_insn16_extract_c_jalr_def)

lemma wf_const: "insn_wf (E oper)" "insn_wf (Fence a)" "insn_wf (Stub name)"
  by simp_all

lemma list_all_ifI: "list_all P xs \<Longrightarrow> list_all P ys \<Longrightarrow> list_all P (if b then xs else ys)"
  by simp

lemma list_all_consI: "P x \<Longrightarrow> list_all P xs \<Longrightarrow> list_all P (x # xs)" "list_all P []"
  "list_all P xs \<Longrightarrow> list_all P ys \<Longrightarrow> list_all P (xs @ ys)"
  by simp_all

lemmas wf_intros = list_all_ifI list_all_consI wf_cj wf_c_jalr wf_const
  wf_I_16_c_addi16sp wf_I_16_c_addi4spn wf_I_16_c_andi wf_I_16_c_ldsp
  wf_I_16_c_li wf_I_16_c_lqsp wf_U_16_c_lui wf_I_16_c_lwsp
  wf_I_16_c_mv wf_S_16_c_sdsp wf_Sh_16_c_shift wf_Sh_16_c_shift2
  wf_S_16_c_sqsp wf_S_16_c_swsp wf_B_16_cb_z wf_I_16_ci
  wf_I_16_cl_d wf_I_16_cl_q wf_I_16_cl_w wf_R_16_cr
  wf_Rb_16_cr wf_Fr_16_cr wf_R_16_cs_2 wf_Rb_16_cs_2
  wf_Fr_16_cs_2 wf_S_16_cs_d wf_S_16_cs_q wf_S_16_cs_w
  wf_A_32_atom_ld wf_A_32_atom_st wf_B_32_b wf_Csr_32_csr
  wf_I_32_i wf_Jal_32_j wf_R_32_r wf_Rb_32_r
  wf_Fr_32_r wf_R2_32_r2 wf_F2_32_r2_rm wf_Fmadd_d_32_r4_rm
  wf_F3_32_r_rm wf_S_32_s wf_Sfence_vma_32_sfence_vma wf_Sh_32_sh
  wf_Sh_32_sh5 wf_U_32_u

lemma wf_decode_insn16_8001_3: "list_all insn_wf (decode_insn16_8001_3 insn)"
  unfolding decode_insn16_8001_3_def Let_def by (intro wf_intros)

lemma wf_decode_insn16_8001: "list_all insn_wf (decode_insn16_8001 insn)"
  unfolding decode_insn16_8001_def Let_def by (intro wf_intros wf_decode_insn16_8001_3)

lemma wf_decode_insn16_a002: "list_all insn_wf (decode_insn16_a002 insn)"
  unfolding decode_insn16_a002_def Let_def by (intro wf_intros)

lemma wf_decode_insn16_part2: "list_all insn_wf (decode_insn16_part2 insn)"
  unfolding decode_insn16_part2_def Let_def by (intro wf_intros wf_decode_insn16_a002)

lemma wf_decode_insn16_part1: "list_all insn_wf (decode_insn16_part1 insn)"
  unfolding decode_insn16_part1_def Let_def by (intro wf_intros wf_decode_insn16_8001 wf_decode_insn16_part2)

lemma wf_decode_insn16: "list_all insn_wf (decode_insn16 insn)"
  unfolding decode_insn16_def Let_def by (intro wf_intros wf_decode_insn16_part1)

lemma wf_decode_insn32_7_0_0_0: "list_all insn_wf (decode_insn32_7_0_0_0 insn)"
  unfolding decode_insn32_7_0_0_0_def Let_def by (intro wf_intros)

lemma wf_decode_insn32_7_0_0: "list_all insn_wf (decode_insn32_7_0_0 insn)"
  unfolding decode_insn32_7_0_0_def Let_def by (intro wf_intros wf_decode_insn32_7_0_0_0)

lemma wf_decode_insn32_7_0: "list_all insn_wf (decode_insn32_7_0 insn)"
  unfolding decode_insn32_7_0_def Let_def by (intro wf_intros wf_decode_insn32_7_0_0)

lemma wf_decode_insn32_7_5_0: "list_all insn_wf (decode_insn32_7_5_0 insn)"
  unfolding decode_insn32_7_5_0_def Let_def by (intro wf_intros)

lemma wf_decode_insn32_7_5: "list_all insn_wf (decode_insn32_7_5 insn)"
  unfolding decode_insn32_7_5_def Let_def by (intro wf_intros wf_decode_insn32_7_5_0)

lemma wf_decode_insn32_7_6_0: "list_all insn_wf (decode_insn32_7_6_0 insn)"
  unfolding decode_insn32_7_6_0_def Let_def by (intro wf_intros)

lemma wf_decode_insn32_7_6: "list_all insn_wf (decode_insn32_7_6 insn)"
  unfolding decode_insn32_7_6_def Let_def by (intro wf_intros wf_decode_insn32_7_6_0)

lemma wf_decode_insn32_7_7_0: "list_all insn_wf (decode_insn32_7_7_0 insn)"
  unfolding decode_insn32_7_7_0_def Let_def by (intro wf_intros)

lemma wf_decode_insn32_7_7: "list_all insn_wf (decode_insn32_7_7 insn)"
  unfolding decode_insn32_7_7_def Let_def by (intro wf_intros wf_decode_insn32_7_7_0)

lemma wf_decode_insn32_7: "list_all insn_wf (decode_insn32_7 insn)"
  unfolding decode_insn32_7_def Let_def by (intro wf_intros wf_decode_insn32_7_0 wf_decode_insn32_7_5 wf_decode_insn32_7_6 wf_decode_insn32_7_7)

lemma wf_decode_insn32_27_0_0: "list_all insn_wf (decode_insn32_27_0_0 insn)"
  unfolding decode_insn32_27_0_0_def Let_def by (intro wf_intros)

lemma wf_decode_insn32_27_0: "list_all insn_wf (decode_insn32_27_0 insn)"
  unfolding decode_insn32_27_0_def Let_def by (intro wf_intros wf_decode_insn32_27_0_0)

lemma wf_decode_insn32_27_part1: "list_all insn_wf (decode_insn32_27_part1 insn)"
  unfolding decode_insn32_27_part1_def Let_def by (intro wf_intros)

lemma wf_decode_insn32_27: "list_all insn_wf (decode_insn32_27 insn)"
  unfolding decode_insn32_27_def Let_def by (intro wf_intros wf_decode_insn32_27_0 wf_decode_insn32_27_part1)

lemma wf_decode_insn32_57_0_part1: "list_all insn_wf (decode_insn32_57_0_part1 insn)"
  unfolding decode_insn32_57_0_part1_def Let_def by (intro wf_intros)

lemma wf_decode_insn32_57_0: "list_all insn_wf (decode_insn32_57_0 insn)"
  unfolding decode_insn32_57_0_def Let_def by (intro wf_intros wf_decode_insn32_57_0_part1)

lemma wf_decode_insn32_57_1000_12_part1: "list_all insn_wf (decode_insn32_57_1000_12_part1 insn)"
  unfolding decode_insn32_57_1000_12_part1_def Let_def by (intro wf_intros)

lemma wf_decode_insn32_57_1000_12: "list_all insn_wf (decode_insn32_57_1000_12 insn)"
  unfolding decode_insn32_57_1000_12_def Let_def by (intro wf_intros wf_decode_insn32_57_1000_12_part1)

lemma wf_decode_insn32_57_1000_part1: "list_all insn_wf (decode_insn32_57_1000_part1 insn)"
  unfolding decode_insn32_57_1000_part1_def Let_def by (intro wf_intros)

lemma wf_decode_insn32_57_1000: "list_all insn_wf (decode_insn32_57_1000 insn)"
  unfolding decode_insn32_57_1000_def Let_def by (intro wf_intros wf_decode_insn32_57_1000_12 wf_decode_insn32_57_1000_part1)

lemma wf_decode_insn32_57_2000_12: "list_all insn_wf (decode_insn32_57_2000_12 insn)"
  unfolding decode_insn32_57_2000_12_def Let_def by (intro wf_intros)

lemma wf_decode_insn32_57_2000_part2: "list_all insn_wf (decode_insn32_57_2000_part2 insn)"
  unfolding decode_insn32_57_2000_part2_def Let_def by (intro wf_intros)

lemma wf_decode_insn32_57_2000_part1: "list_all insn_wf (decode_insn32_57_2000_part1 insn)"
  unfolding decode_insn32_57_2000_part1_def Let_def by (intro wf_intros wf_decode_insn32_57_2000_12 wf_decode_insn32_57_2000_part2)

lemma wf_decode_insn32_57_2000: "list_all insn_wf (decode_insn32_57_2000 insn)"
  unfolding decode_insn32_57_2000_def Let_def by (intro wf_intros wf_decode_insn32_57_2000_part1)

lemma wf_decode_insn32_57_3000_part1: "list_all insn_wf (decode_insn32_57_3000_part1 insn)"
  unfolding decode_insn32_57_3000_part1_def Let_def by (intro wf_intros)

lemma wf_decode_insn32_57_3000: "list_all insn_wf (decode_insn32_57_3000 insn)"
  unfolding decode_insn32_57_3000_def Let_def by (intro wf_intros wf_decode_insn32_57_3000_part1)

lemma wf_decode_insn32_57_4000_part1: "list_all insn_wf (decode_insn32_57_4000_part1 insn)"
  unfolding decode_insn32_57_4000_part1_def Let_def by (intro wf_intros)

lemma wf_decode_insn32_57_4000: "list_all insn_wf (decode_insn32_57_4000 insn)"
  unfolding decode_insn32_57_4000_def Let_def by (intro wf_intros wf_decode_insn32_57_4000_part1)

lemma wf_decode_insn32_57_5000_part1: "list_all insn_wf (decode_insn32_57_5000_part1 insn)"
  unfolding decode_insn32_57_5000_part1_def Let_def by (intro wf_intros)

lemma wf_decode_insn32_57_5000: "list_all insn_wf (decode_insn32_57_5000 insn)"
  unfolding decode_insn32_57_5000_def Let_def by (intro wf_intros wf_decode_insn32_57_5000_part1)

lemma wf_decode_insn32_57_6000: "list_all insn_wf (decode_insn32_57_6000 insn)"
  unfolding decode_insn32_57_6000_def Let_def by (intro wf_intros)

lemma wf_decode_insn32_57_80000000: "list_all insn_wf (decode_insn32_57_80000000 insn)"
  unfolding decode_insn32_57_80000000_def Let_def by (intro wf_intros)

lemma wf_decode_insn32_57_80001000_part1: "list_all insn_wf (decode_insn32_57_80001000_part1 insn)"
  unfolding decode_insn32_57_80001000_part1_def Let_def by (intro wf_intros)

lemma wf_decode_insn32_57_80001000: "list_all insn_wf (decode_insn32_57_80001000 insn)"
  unfolding decode_insn32_57_80001000_def Let_def by (intro wf_intros wf_decode_insn32_57_80001000_part1)

lemma wf_decode_insn32_57_80002000_part1: "list_all insn_wf (decode_insn32_57_80002000_part1 insn)"
  unfolding decode_insn32_57_80002000_part1_def Let_def by (intro wf_intros)

lemma wf_decode_insn32_57_80002000: "list_all insn_wf (decode_insn32_57_80002000 insn)"
  unfolding decode_insn32_57_80002000_def Let_def by (intro wf_intros wf_decode_insn32_57_80002000_part1)

lemma wf_decode_insn32_57_80003000: "list_all insn_wf (decode_insn32_57_80003000 insn)"
  unfolding decode_insn32_57_80003000_def Let_def by (intro wf_intros)

lemma wf_decode_insn32_57_80004000: "list_all insn_wf (decode_insn32_57_80004000 insn)"
  unfolding decode_insn32_57_80004000_def Let_def by (intro wf_intros)

lemma wf_decode_insn32_57_80005000_part1: "list_all insn_wf (decode_insn32_57_80005000_part1 insn)"
  unfolding decode_insn32_57_80005000_part1_def Let_def by (intro wf_intros)

lemma wf_decode_insn32_57_80005000: "list_all insn_wf (decode_insn32_57_80005000 insn)"
  unfolding decode_insn32_57_80005000_def Let_def by (intro wf_intros wf_decode_insn32_57_80005000_part1)

lemma wf_decode_insn32_57_80006000_part1: "list_all insn_wf (decode_insn32_57_80006000_part1 insn)"
  unfolding decode_insn32_57_80006000_part1_def Let_def by (intro wf_intros)

lemma wf_decode_insn32_57_80006000: "list_all insn_wf (decode_insn32_57_80006000 insn)"
  unfolding decode_insn32_57_80006000_def Let_def by (intro wf_intros wf_decode_insn32_57_80006000_part1)

lemma wf_decode_insn32_57: "list_all insn_wf (decode_insn32_57 insn)"
  unfolding decode_insn32_57_def Let_def by (intro wf_intros wf_decode_insn32_57_0 wf_decode_insn32_57_1000 wf_decode_insn32_57_2000 wf_decode_insn32_57_3000 wf_decode_insn32_57_4000 wf_decode_insn32_57_5000 wf_decode_insn32_57_6000 wf_decode_insn32_57_80000000 wf_decode_insn32_57_80001000 wf_decode_insn32_57_80002000 wf_decode_insn32_57_80003000 wf_decode_insn32_57_80004000 wf_decode_insn32_57_80005000 wf_decode_insn32_57_80006000)

lemma wf_decode_insn32_77_part1: "list_all insn_wf (decode_insn32_77_part1 insn)"
  unfolding decode_insn32_77_part1_def Let_def by (intro wf_intros)

lemma wf_decode_insn32_77: "list_all insn_wf (decode_insn32_77 insn)"
  unfolding decode_insn32_77_def Let_def by (intro wf_intros wf_decode_insn32_77_part1)

lemma wf_decode_insn32_f: "list_all insn_wf (decode_insn32_f insn)"
  unfolding decode_insn32_f_def Let_def by (intro wf_intros)

lemma wf_decode_insn32_13_1_2: "list_all insn_wf (decode_insn32_13_1_2 insn)"
  unfolding decode_insn32_13_1_2_def Let_def by (intro wf_intros)

lemma wf_decode_insn32_13_1: "list_all insn_wf (decode_insn32_13_1 insn)"
  unfolding decode_insn32_13_1_def Let_def by (intro wf_intros wf_decode_insn32_13_1_2)

lemma wf_decode_insn32_13_5: "list_all insn_wf (decode_insn32_13_5 insn)"
  unfolding decode_insn32_13_5_def Let_def by (intro wf_intros)

lemma wf_decode_insn32_13: "list_all insn_wf (decode_insn32_13 insn)"
  unfolding decode_insn32_13_def Let_def by (intro wf_intros wf_decode_insn32_13_1 wf_decode_insn32_13_5)

lemma wf_decode_insn32_1b: "list_all insn_wf (decode_insn32_1b insn)"
  unfolding decode_insn32_1b_def Let_def by (intro wf_intros)

lemma wf_decode_insn32_2f_part2: "list_all insn_wf (decode_insn32_2f_part2 insn)"
  unfolding decode_insn32_2f_part2_def Let_def by (intro wf_intros)

lemma wf_decode_insn32_2f_part1: "list_all insn_wf (decode_insn32_2f_part1 insn)"
  unfolding decode_insn32_2f_part1_def Let_def by (intro wf_intros wf_decode_insn32_2f_part2)

lemma wf_decode_insn32_2f: "list_all insn_wf (decode_insn32_2f insn)"
  unfolding decode_insn32_2f_def Let_def by (intro wf_intros wf_decode_insn32_2f_part1)

lemma wf_decode_insn32_33_part5: "list_all insn_wf (decode_insn32_33_part5 insn)"
  unfolding decode_insn32_33_part5_def Let_def by (intro wf_intros)

lemma wf_decode_insn32_33_part4: "list_all insn_wf (decode_insn32_33_part4 insn)"
  unfolding decode_insn32_33_part4_def Let_def by (intro wf_intros wf_decode_insn32_33_part5)

lemma wf_decode_insn32_33_part3: "list_all insn_wf (decode_insn32_33_part3 insn)"
  unfolding decode_insn32_33_part3_def Let_def by (intro wf_intros wf_decode_insn32_33_part4)

lemma wf_decode_insn32_33_part2: "list_all insn_wf (decode_insn32_33_part2 insn)"
  unfolding decode_insn32_33_part2_def Let_def by (intro wf_intros wf_decode_insn32_33_part3)

lemma wf_decode_insn32_33_part1: "list_all insn_wf (decode_insn32_33_part1 insn)"
  unfolding decode_insn32_33_part1_def Let_def by (intro wf_intros wf_decode_insn32_33_part2)

lemma wf_decode_insn32_33: "list_all insn_wf (decode_insn32_33 insn)"
  unfolding decode_insn32_33_def Let_def by (intro wf_intros wf_decode_insn32_33_part1)

lemma wf_decode_insn32_3b_part1: "list_all insn_wf (decode_insn32_3b_part1 insn)"
  unfolding decode_insn32_3b_part1_def Let_def by (intro wf_intros)

lemma wf_decode_insn32_3b: "list_all insn_wf (decode_insn32_3b insn)"
  unfolding decode_insn32_3b_def Let_def by (intro wf_intros wf_decode_insn32_3b_part1)

lemma wf_decode_insn32_53_part7: "list_all insn_wf (decode_insn32_53_part7 insn)"
  unfolding decode_insn32_53_part7_def Let_def by (intro wf_intros)

lemma wf_decode_insn32_53_part6: "list_all insn_wf (decode_insn32_53_part6 insn)"
  unfolding decode_insn32_53_part6_def Let_def by (intro wf_intros wf_decode_insn32_53_part7)

lemma wf_decode_insn32_53_part5: "list_all insn_wf (decode_insn32_53_part5 insn)"
  unfolding decode_insn32_53_part5_def Let_def by (intro wf_intros wf_decode_insn32_53_part6)

lemma wf_decode_insn32_53_part4: "list_all insn_wf (decode_insn32_53_part4 insn)"
  unfolding decode_insn32_53_part4_def Let_def by (intro wf_intros wf_decode_insn32_53_part5)

lemma wf_decode_insn32_53_part3: "list_all insn_wf (decode_insn32_53_part3 insn)"
  unfolding decode_insn32_53_part3_def Let_def by (intro wf_intros wf_decode_insn32_53_part4)

lemma wf_decode_insn32_53_part2: "list_all insn_wf (decode_insn32_53_part2 insn)"
  unfolding decode_insn32_53_part2_def Let_def by (intro wf_intros wf_decode_insn32_53_part3)

lemma wf_decode_insn32_53_part1: "list_all insn_wf (decode_insn32_53_part1 insn)"
  unfolding decode_insn32_53_part1_def Let_def by (intro wf_intros wf_decode_insn32_53_part2)

lemma wf_decode_insn32_53: "list_all insn_wf (decode_insn32_53 insn)"
  unfolding decode_insn32_53_def Let_def by (intro wf_intros wf_decode_insn32_53_part1)

lemma wf_decode_insn32_73_0_part1: "list_all insn_wf (decode_insn32_73_0_part1 insn)"
  unfolding decode_insn32_73_0_part1_def Let_def by (intro wf_intros)

lemma wf_decode_insn32_73_0: "list_all insn_wf (decode_insn32_73_0 insn)"
  unfolding decode_insn32_73_0_def Let_def by (intro wf_intros wf_decode_insn32_73_0_part1)

lemma wf_decode_insn32_73_4_part1: "list_all insn_wf (decode_insn32_73_4_part1 insn)"
  unfolding decode_insn32_73_4_part1_def Let_def by (intro wf_intros)

lemma wf_decode_insn32_73_4: "list_all insn_wf (decode_insn32_73_4 insn)"
  unfolding decode_insn32_73_4_def Let_def by (intro wf_intros wf_decode_insn32_73_4_part1)

lemma wf_decode_insn32_73: "list_all insn_wf (decode_insn32_73 insn)"
  unfolding decode_insn32_73_def Let_def by (intro wf_intros wf_decode_insn32_73_0 wf_decode_insn32_73_4)

lemma wf_decode_insn32_7b: "list_all insn_wf (decode_insn32_7b insn)"
  unfolding decode_insn32_7b_def Let_def by (intro wf_intros)

lemma wf_decode_insn32_part2: "list_all insn_wf (decode_insn32_part2 insn)"
  unfolding decode_insn32_part2_def Let_def by (intro wf_intros wf_decode_insn32_73 wf_decode_insn32_77 wf_decode_insn32_7b)

lemma wf_decode_insn32_part1: "list_all insn_wf (decode_insn32_part1 insn)"
  unfolding decode_insn32_part1_def Let_def by (intro wf_intros wf_decode_insn32_53 wf_decode_insn32_57 wf_decode_insn32_part2)

lemma wf_decode_insn32: "list_all insn_wf (decode_insn32 insn)"
  unfolding decode_insn32_def Let_def by (intro wf_intros wf_decode_insn32_13 wf_decode_insn32_1b wf_decode_insn32_27 wf_decode_insn32_2f wf_decode_insn32_33 wf_decode_insn32_3b wf_decode_insn32_7 wf_decode_insn32_f wf_decode_insn32_part1)

end
