(* ===== verification/Exec_Spec.thy ===== *)
theory Exec_Spec
  imports Trap Decode_Wf
begin

text \<open>
  The integer instructions against the RISC-V specification.  The functions alu_... say what an
  instruction computes, written from the instruction set manual; the lemmas show that the trans
  function leaves exactly that value for its destination register and that the commit stage writes
  it there, leaves all else alone and goes to the next instruction.
\<close>

section \<open>Reference semantics\<close>

definition sx32 :: "32 word \<Rightarrow> 64 word" where "sx32 v = word_of_int (sint v)"

fun alu_r :: "op_r \<Rightarrow> 64 word \<Rightarrow> 64 word \<Rightarrow> 64 word" where
  "alu_r O_add x y = x + y"
| "alu_r O_sub x y = x - y"
| "alu_r O_addw x y = sx32 (ucast (x + y))"
| "alu_r O_subw x y = sx32 (ucast (x - y))"
| "alu_r O_and x y = x AND y"
| "alu_r O_or x y = x OR y"
| "alu_r O_xor x y = x XOR y"
| "alu_r O_sll x y = push_bit (unat (take_bit 6 y)) x"
| "alu_r O_srl x y = drop_bit (unat (take_bit 6 y)) x"
| "alu_r O_sra x y = signed_drop_bit (unat (take_bit 6 y)) x"
| "alu_r O_sllw x y = sx32 (push_bit (unat (take_bit 5 y)) (ucast x))"
| "alu_r O_srlw x y = sx32 (drop_bit (unat (take_bit 5 y)) (ucast x))"
| "alu_r O_sraw x y = sx32 (signed_drop_bit (unat (take_bit 5 y)) (ucast x))"
| "alu_r O_slt x y = (if sint x < sint y then 1 else 0)"
| "alu_r O_sltu x y = (if uint x < uint y then 1 else 0)"
| "alu_r O_mul x y = word_of_int (sint x * sint y)"
| "alu_r O_mulh x y = word_of_int (sint x * sint y div 2 ^ 64)"
| "alu_r O_mulhu x y = word_of_int (uint x * uint y div 2 ^ 64)"
| "alu_r O_mulw x y = sx32 (ucast x * ucast y)"
| "alu_r O_div x y = (if y = 0 then - 1 else word_of_int (sint x sdiv sint y))"
| "alu_r O_divu x y = (if y = 0 then - 1 else word_of_int (uint x div uint y))"
| "alu_r O_divw x y = (if ucast y = (0 :: 32 word) then - 1
     else sx32 (word_of_int (sint (ucast x :: 32 word) sdiv sint (ucast y :: 32 word))))"
| "alu_r O_divuw x y = (if ucast y = (0 :: 32 word) then - 1
     else sx32 (word_of_int (uint (ucast x :: 32 word) div uint (ucast y :: 32 word))))"
| "alu_r O_rem x y = (if y = 0 then x else word_of_int (sint x smod sint y))"
| "alu_r O_remu x y = (if y = 0 then x else word_of_int (uint x mod uint y))"
| "alu_r O_remw x y = (if ucast y = (0 :: 32 word) then sx32 (ucast x)
     else sx32 (word_of_int (sint (ucast x :: 32 word) smod sint (ucast y :: 32 word))))"
| "alu_r O_remuw x y = (if ucast y = (0 :: 32 word) then sx32 (ucast x)
     else sx32 (word_of_int (uint (ucast x :: 32 word) mod uint (ucast y :: 32 word))))"

fun alu_i :: "op_i \<Rightarrow> 64 word \<Rightarrow> 64 word \<Rightarrow> 64 word option" where
  "alu_i O_addi x i = Some (x + i)"
| "alu_i O_addiw x i = Some (sx32 (ucast (x + i)))"
| "alu_i O_andi x i = Some (x AND i)"
| "alu_i O_ori x i = Some (x OR i)"
| "alu_i O_xori x i = Some (x XOR i)"
| "alu_i O_slti x i = Some (if sint x < sint i then 1 else 0)"
| "alu_i O_sltiu x i = Some (if uint x < uint i then 1 else 0)"
| "alu_i _ x i = None"

text \<open>The division instructions whose operands make the host processor trap.\<close>

fun host_traps :: "op_r \<Rightarrow> 64 word \<Rightarrow> 64 word \<Rightarrow> bool" where
  "host_traps O_divu x y \<longleftrightarrow> y = 0"
| "host_traps O_remu x y \<longleftrightarrow> y = 0"
| "host_traps O_rem x y \<longleftrightarrow> y = 0 \<or> div_overflow x y"
| "host_traps O_divw x y \<longleftrightarrow> ucast y = (0 :: u32) \<or> div_overflow (ucast x :: u32) (ucast y)"
| "host_traps O_remw x y \<longleftrightarrow> ucast y = (0 :: u32) \<or> div_overflow (ucast x :: u32) (ucast y)"
| "host_traps O_divuw x y \<longleftrightarrow> ucast y = (0 :: u32)"
| "host_traps O_remuw x y \<longleftrightarrow> ucast y = (0 :: u32)"
| "host_traps _ x y \<longleftrightarrow> False"

section \<open>Word facts\<close>

lemma sx_sx32: "sx v = sx32 v"
  by (simp only: sx_def sx32_def scast_eq)

lemma and_3f: "(v :: u64) AND 0x3f = take_bit 6 v"
  by (simp add: take_bit_eq_mask mask_eq_exp_minus_1)

lemma and_1f: "(v :: u64) AND 0x1f = take_bit 5 v"
  by (simp add: take_bit_eq_mask mask_eq_exp_minus_1)

lemma woi_take64: "(word_of_int (take_bit 64 k) :: u32) = word_of_int k"
  by (simp add: word_of_int_eq_iff min_def)

lemma ucast_add32: "ucast (x :: u64) + ucast y = (ucast (x + y) :: u32)"
  by (simp only: ucast_eq wi_hom_add uint_word_arith_bintrs woi_take64 len_num1 len_bit0 len_num0) (simp add: woi_take64)

lemma ucast_sub32: "ucast (x :: u64) - ucast y = (ucast (x - y) :: u32)"
  by (simp only: ucast_eq wi_hom_sub uint_word_arith_bintrs)  (simp add: woi_take64)

lemma woi_sint: "ucast (w :: 128 word) = (word_of_int (sint w) :: u64)"
  by (rule bit_word_eqI) (simp add: bit_simps bit_sint_iff)

lemma sint_bounds: "- (2 ^ 63) \<le> sint (x :: u64)" "sint (x :: u64) < 2 ^ 63"
  using sint_greater_eq [of x] sint_less [of x] by simp_all

lemma prod_bounds:
  assumes "- (2^63) \<le> a" "a < 2^63" "- (2^63) \<le> b" "b < (2^63::int)"
  shows "- (2^127) \<le> a*b" "a * b < 2^127"
proof -
  have "\<bar>a\<bar> \<le> 2^63" "\<bar>b\<bar> \<le> 2^63" using assms by auto
  then have "\<bar>a * b\<bar> \<le> 2^63 * 2^63" unfolding abs_mult by (intro mult_mono) auto
  then show "- (2^127) \<le> a*b" "a * b < 2^127" by auto
qed

lemma sint_product: "sint (scast (x::u64) * scast (y::u64) :: 128 word) = sint x * sint y"
proof -
  have "scast x * scast y = (word_of_int (sint x * sint y) :: 128 word)"
    by (simp only: scast_eq wi_hom_mult)
  moreover have "signed_take_bit 127 (sint x * sint y) = sint x * sint y"
    by (rule signed_take_bit_int_eq_self) (rule prod_bounds [OF sint_bounds sint_bounds])+
  ultimately show ?thesis by (simp only: sint_sbintrunc') simp
qed

lemma mulh_word: "(ucast (signed_drop_bit 64 (scast x * scast y :: 128 word)) :: u64) = word_of_int (sint (x :: u64) * sint (y :: u64) div 2 ^ 64)"
  by (simp only: woi_sint sint_signed_drop_bit_eq sint_product drop_bit_eq_div)

lemma uint_product: "uint (ucast (x::u64) * ucast (y::u64) :: 128 word) = uint x * uint y"
proof -
  have b: "0 \<le> uint x" "0 \<le> uint y" "uint x < 2^64" "uint y < 2^64" using uint_lt2p [of x] uint_lt2p [of y] by auto
  then have "uint x * uint y < 2^64*2^64" by (intro mult_strict_mono) auto
  then have "take_bit 128 (uint x * uint y) = uint x * uint y"
    by (intro take_bit_int_eq_self) auto
  moreover have "uint (ucast x :: 128 word) = uint x" "uint (ucast y :: 128 word) = uint y"
    using b by (simp_all add: unsigned_ucast_eq take_bit_int_eq_self)
  ultimately show ?thesis by (simp add: uint_word_arith_bintrs)
qed

lemma mulhu_word: "(ucast (drop_bit 64 (ucast x * ucast y :: 128 word)) :: u64) = word_of_int (uint (x :: u64) * uint (y :: u64) div 2 ^ 64)"
proof -
  have "uint (drop_bit 64 (ucast x * ucast y :: 128 word)) = uint x * uint y div 2 ^ 64"
    by (simp only: uint_div_distrib drop_bit_eq_div  uint_product) (simp add: uint_product)
  then show ?thesis by (simp only: ucast_eq)
qed

lemma mul_word: "word_of_int (sint (x :: u64) * sint y) = x * y"
  by simp

lemma of_bool_if: "of_bool b = (if b then 1 else 0)"
  by simp

lemma ucast_sx [simp]: "ucast (sx v) = v"
  by (rule bit_word_eqI) (simp add: sx_def bit_simps)

lemma ucast_up_down [simp]: "(ucast (ucast (v :: u32) :: u64) :: u32) = v"
  by (rule bit_word_eqI) (simp add: bit_simps)

lemma ucast_push_bit32: "(ucast (push_bit n (x :: u64)) :: u32) = push_bit n (ucast x)"
  by (rule bit_word_eqI) (auto simp: bit_simps)

lemma sdiv_overflow: "(word_of_int (sint (push_bit 63 1 :: u64) sdiv - 1) :: u64) = push_bit 63 1"
  by (simp add: signed_divide_int_def)

lemmas alu_words = sx_sx32 and_3f and_1f ucast_add32 ucast_sub32 mulh_word mulhu_word mul_word word_div_def
  word_mod_def word_less_def ucast_push_bit32

section \<open>Results for the destination register\<close>

definition simple_type :: "inst_type \<Rightarrow> bool" where
  "simple_type t \<longleftrightarrow> t \<notin> {T_COND, T_DIRECT, T_PUSH, T_INDIRECT, T_IND_CALL, T_IND_PUSH, T_POP, T_POP_PUSH,
     T_STORE, T_SC, T_AMO}"

text \<open>A trans function that only records a value for an integer register.\<close>

definition writes_gpr :: "u32 \<Rightarrow> u64 \<Rightarrow> 'd machine \<Rightarrow> 'd machine \<Rightarrow> bool" where
  "writes_gpr rd v c c1 \<longleftrightarrow>
     c1 = c\<lparr> info := info c1 \<rparr> \<and>
     dst_idx (info c1) = (dst_idx (info c))(0 := ucast (rd * 8)) \<and>
     dst_mask (info c1) = (dst_mask (info c))(0 := all1) \<and>
     dst_data (info c1) = (dst_data (info c))(0 := v) \<and>
     exception (info c1) = exception (info c) \<and> inst_size (info c1) = inst_size (info c) \<and>
     simple_type (itype (info c1))"

lemmas trans_r_defs =
  trans_add_def trans_sub_def trans_addw_def trans_subw_def trans_and_def trans_or_def
  trans_xor_def trans_sll_def trans_srl_def trans_sra_def trans_sllw_def trans_srlw_def
  trans_sraw_def trans_slt_def trans_sltu_def trans_mul_def trans_mulh_def trans_mulhu_def
  trans_mulw_def trans_div_def trans_divu_def trans_divw_def trans_divuw_def trans_rem_def
  trans_remu_def trans_remw_def trans_remuw_def

lemmas trans_i_defs =
  trans_addi_def trans_addiw_def trans_andi_def trans_ori_def trans_xori_def trans_slti_def
  trans_sltiu_def

lemma writes_gpr_result:
  "simple_type t \<Longrightarrow> writes_gpr rd v c (set_type t (SET_SRC2_DST rs1 rs2 rd' (SET_GPR_64 rd v c)))"
  "simple_type t \<Longrightarrow> writes_gpr rd (sx (ucast v)) c (set_type t (SET_SRC2_DST rs1 rs2 rd' (SET_GPR_32 rd v c)))"
  "simple_type t \<Longrightarrow> writes_gpr rd v c (set_type t (SET_SRC1_DST rs1 rd' (SET_GPR_64 rd v c)))"
  "simple_type t \<Longrightarrow> writes_gpr rd (sx (ucast v)) c (set_type t (SET_SRC1_DST rs1 rd' (SET_GPR_32 rd v c)))"
  "simple_type t \<Longrightarrow> writes_gpr rd v c (set_type t (SET_SRC0_DST rd' (SET_GPR_64 rd v c)))"
  by (simp_all add: writes_gpr_def macro_defs info_defs)

lemma simple_types [simp]: "simple_type T_INT" "simple_type T_MULT" "simple_type T_DIV"
  by (simp_all add: simple_type_def)

lemma exec_r_writes:
  assumes "\<not> host_traps oper (get_gpr_64 c (r_rs1 a)) (get_gpr_64 c (r_rs2 a))"
  shows "\<exists>c1. exec_r p oper a c = Inr (True, c1) \<and>
     writes_gpr (r_rd a) (alu_r oper (get_gpr_64 c (r_rs1 a)) (get_gpr_64 c (r_rs2 a))) c c1"
  using assms
  apply (cases oper)
  apply (simp_all add: trans_r_defs Let_def get_gpr_32_def writes_gpr_def macro_defs info_defs flip: get_gpr_64_def)
  apply (simp_all add: alu_words)
  done


lemma exec_r_traps:
  "host_traps oper (get_gpr_64 c (r_rs1 a)) (get_gpr_64 c (r_rs2 a)) \<Longrightarrow> exec_r p oper a c = Inl ArithTrap"
  by (cases oper) (simp_all add: trans_r_defs Let_def)

lemma exec_i_writes:
  assumes "alu_i oper (get_gpr_64 c (i_rs1 a)) (sx (i_imm a)) = Some v"
  shows "\<exists>c1. exec_i p oper a c = Inr (True, c1) \<and> writes_gpr (i_rd a) v c c1"
  using assms
  apply (cases oper)
  apply (simp_all add: trans_i_defs Let_def get_gpr_32_def writes_gpr_def macro_defs info_defs flip: get_gpr_64_def)
  apply (auto simp: alu_words)
  done

section \<open>Commit\<close>

text \<open>
  The state decode hands to a trans function: no exception, nothing to write, and offsets left from
  earlier instructions that stay inside ArchState.
\<close>

definition slots_ok :: "decode_info \<Rightarrow> bool" where
  "slots_ok i \<longleftrightarrow> (\<forall>k < 3. unat (dst_idx i k) + 8 \<le> ARCH_SIZE)"

definition fresh :: "'d machine \<Rightarrow> bool" where
  "fresh c \<longleftrightarrow> exception (info c) = EXC_NONE \<and> dst_mask (info c) = (\<lambda>k. 0) \<and> slots_ok (info c)"

lemma ucast_of_nat: "(ucast (w :: 'a::len word) :: 'b::len word) = of_nat (unat w)"
  by transfer simp

lemma rd_offset: "rd < 32 \<Longrightarrow> (ucast (rd * 8 :: u32) :: u16) = of_nat (unat rd * 8)"
  by (subst ucast_of_nat) (simp add: word_less_nat_alt unat_word_ariths)

text \<open>
  What the commit of a register result does to the machine: the register, then x0 forced to 0, and the
  translation flags recomputed.
\<close>

definition set_reg :: "u32 \<Rightarrow> u64 \<Rightarrow> 'd machine \<Rightarrow> 'd machine" where
  "set_reg rd v c = updateMMUState (upd_state (\<lambda>s. s\<lparr> gpr := (gpr s)(unat rd := v, 0 := 0) \<rparr>) c)"

lemma updateMMUState_frame [simp]:
  "info (updateMMUState c) = info c" "state (updateMMUState c) = state c"
  "env_pc (updateMMUState c) = env_pc c" "memory (updateMMUState c) = memory c"
  "tick (updateMMUState c) = tick c" "instret (updateMMUState c) = instret c"
  by (simp_all add: updateMMUState_def Let_def)

lemma rmw_slot_gpr:
  fixes rd :: u32
  assumes "dst_idx (info c) k = ucast (rd * 8)" "rd < 32" "dst_mask (info c) k = all1"
  shows "rmw_slot k c = Inr (upd_state (\<lambda>s. s\<lparr> gpr := (gpr s)(unat rd := dst_data (info c) k) \<rparr>) c)"
proof -
  have "unat rd < 32" using assms(2) by (simp add: word_less_nat_alt)
  then show ?thesis
    using arch_rmw_gpr [of "unat rd" all1 "state c" "dst_data (info c) k"]
    by (simp only: rmw_slot_def assms rd_offset) (simp add: upd_state_def)
qed

lemma rmw_slot_none:
  "dst_mask (info c) k = 0 \<Longrightarrow> unat (dst_idx (info c) k) + 8 \<le> ARCH_SIZE \<Longrightarrow> rmw_slot k c = Inr c"
  by (simp add: rmw_slot_def arch_rmw_no_mask)

lemma simple_commit_mem: "simple_type (itype (info c)) \<Longrightarrow> commit_mem p c = Inr c"
  by (auto simp: commit_mem_def simple_type_def Let_def split: inst_type.splits)

lemma simple_next_pc: "simple_type (itype (info c)) \<Longrightarrow> next_pc c = env_pc c + ucast (inst_size (info c))"
  by (auto simp: next_pc_def simple_type_def Let_def split: inst_type.splits)

lemma upd_state_frame [simp]:
  "info (upd_state f c) = info c" "state (upd_state f c) = f (state c)"
  "env_pc (upd_state f c) = env_pc c" "memory (upd_state f c) = memory c"
  "tick (upd_state f c) = tick c" "instret (upd_state f c) = instret c"
  by (simp_all add: upd_state_def)

lemma upd_state_comp: "upd_state f (upd_state g c) = upd_state (\<lambda>s. f (g s)) c"
  by (simp add: upd_state_def)

lemma updateEnv_none: "exception (info c) = EXC_NONE \<Longrightarrow> updateEnv p c = commit p c"
  by (simp add: updateEnv_def is_irq_def exc_with_data_def exc_no_data_def)

lemma commit_writes_gpr:
  assumes w: "writes_gpr rd v c c1" and f: "fresh c" and rd: "rd < 32"
  shows "updateEnv p c1 = Inr (env_pc c + ucast (inst_size (info c)), set_reg rd v c1)"
proof -
  let ?i = "info c1"
  have i: "dst_idx ?i 0 = ucast (rd * 8)" "dst_mask ?i 0 = all1" "dst_data ?i 0 = v"
    "dst_mask ?i 1 = 0" "dst_mask ?i 2 = 0" "exception ?i = EXC_NONE" "simple_type (itype ?i)"
    "inst_size ?i = inst_size (info c)"
    "unat (dst_idx ?i 1) + 8 \<le> ARCH_SIZE" "unat (dst_idx ?i 2) + 8 \<le> ARCH_SIZE"
    using w f by (auto simp: writes_gpr_def fresh_def slots_ok_def)
  have "env_pc c1 = env_pc (c\<lparr> info := ?i \<rparr>)" using w by (simp only: writes_gpr_def)
  then have pc: "env_pc c1 = env_pc c" by simp
  have "updateEnv p c1 = commit p c1" by (rule updateEnv_none) (rule i(6))
  also have "\<dots> = Inr (env_pc c + ucast (inst_size (info c)), set_reg rd v c1)"
    using i pc by (simp add: commit_def rmw_slot_gpr [OF i(1) rd i(2)] rmw_slot_none simple_commit_mem
        simple_next_pc set_reg_def upd_state_comp)
  finally show ?thesis .
qed

text \<open>Execution and commit of a register-register instruction.\<close>

lemma exec_r_commits:
  assumes "fresh c" "insn_wf (R oper a)" "\<not> host_traps oper (get_gpr_64 c (r_rs1 a)) (get_gpr_64 c (r_rs2 a))"
  shows "\<exists>c1. exec_insn p (R oper a) c = Inr (True, c1) \<and> c1 = c\<lparr> info := info c1 \<rparr> \<and>
    updateEnv p c1 = Inr (env_pc c + ucast (inst_size (info c)),
      set_reg (r_rd a) (alu_r oper (get_gpr_64 c (r_rs1 a)) (get_gpr_64 c (r_rs2 a))) c1)"
proof -
  obtain c1 where e: "exec_r p oper a c = Inr (True, c1)"
    and w: "writes_gpr (r_rd a) (alu_r oper (get_gpr_64 c (r_rs1 a)) (get_gpr_64 c (r_rs2 a))) c c1"
    using exec_r_writes [OF assms(3)] by blast
  moreover have "c1 = c\<lparr> info := info c1 \<rparr>" using w by (simp only: writes_gpr_def)
  ultimately show ?thesis
    using commit_writes_gpr [OF w assms(1)] assms(2) by auto
qed

lemma exec_i_commits:
  assumes "fresh c" "insn_wf (I oper a)" "alu_i oper (get_gpr_64 c (i_rs1 a)) (sx (i_imm a)) = Some v"
  shows "\<exists>c1. exec_insn p (I oper a) c = Inr (True, c1) \<and> c1 = c\<lparr> info := info c1 \<rparr> \<and>
    updateEnv p c1 = Inr (env_pc c + ucast (inst_size (info c)), set_reg (i_rd a) v c1)"
proof -
  obtain c1 where e: "exec_i p oper a c = Inr (True, c1)" and w: "writes_gpr (i_rd a) v c c1"
    using exec_i_writes [OF assms(3)] by blast
  moreover have "c1 = c\<lparr> info := info c1 \<rparr>" using w by (simp only: writes_gpr_def)
  ultimately show ?thesis
    using commit_writes_gpr [OF w assms(1)] assms(2) by auto
qed

end
