(* ===== verification/Slots.thy ===== *)
theory Slots
  imports Frame Decode_Wf Exec_Spec
begin

text \<open>
  The commit stage writes ArchState through byte offsets that the trans functions put into DecodeInfo.
  Here: whatever instruction is decoded, the offsets and masks it leaves are those of registers and CSR
  fields, so the three writes of the commit stay inside ArchState and hit whole fields.
\<close>

section \<open>Valid slots\<close>

definition csr_offsets :: "nat list" where
  "csr_offsets = [ARCH_LOAD_RES, ARCH_LOAD_VAL, ARCH_MENVCFG, ARCH_SENVCFG, ARCH_MSTATUS, ARCH_MIP, ARCH_MIE,
     ARCH_MIDELEG, ARCH_SATP, ARCH_STVAL, ARCH_MEDELEG, ARCH_STVEC, ARCH_SEPC, ARCH_SCAUSE, ARCH_MTVEC,
     ARCH_MEPC, ARCH_MCAUSE, ARCH_MTVAL, ARCH_SCOUNTEREN, ARCH_MCOUNTEREN, ARCH_SSCRATCH, ARCH_MSCRATCH]"

definition slot_valid :: "u16 \<Rightarrow> u64 \<Rightarrow> bool" where
  "slot_valid idx m \<longleftrightarrow> (let off = unat idx in off + 8 \<le> ARCH_SIZE \<and>
     (m = 0 \<or> off < 512 \<and> off mod 8 = 0
      \<or> off = ARCH_FRM \<and> m AND 0xffffffff00000000 = 0 \<or> off = ARCH_FFLAGS \<and> m AND 0xffffffffffff0000 = 0
      \<or> ARCH_PMPCFG \<le> off \<and> off < ARCH_PMPADDR + 128 \<and> off mod 8 = 0 \<or> off \<in> set csr_offsets))"

lemma arch_rmw_total: "slot_valid idx m \<Longrightarrow> \<exists>s'. arch_rmw s idx m d = Some s'"
proof -
  assume v: "slot_valid idx m"
  have csr: "\<exists>s'. csr_field_rmw s off f = Some s'" if "off \<in> set csr_offsets" for off f
    using that by (auto simp: csr_offsets_def csr_field_rmw_def)
  show ?thesis
  proof (cases "unat idx \<in> set csr_offsets")
    case True
    then show ?thesis using v csr [OF True] by (auto simp: arch_rmw_def slot_valid_def Let_def)
  next
    case False
    then show ?thesis using v by (auto simp: arch_rmw_def slot_valid_def Let_def)
  qed
qed

definition slots :: "'d machine \<Rightarrow> bool" where
  "slots c \<longleftrightarrow> (\<forall>k < 3. slot_valid (dst_idx (info c) k) (dst_mask (info c) k))"

definition ready :: "'d machine \<Rightarrow> bool" where
  "ready c \<longleftrightarrow> dst_mask (info c) = (\<lambda>k. 0) \<and> slots_ok (info c)"

lemma ready_slots: "ready c \<Longrightarrow> slots c"
  by (simp add: ready_def slots_def slots_ok_def slot_valid_def)

lemma fresh_ready: "fresh c \<Longrightarrow> ready c"
  by (simp add: fresh_def ready_def)

lemma slots_commit: "slots c \<Longrightarrow> k < 3 \<Longrightarrow> \<exists>c'. rmw_slot k c = Inr c'"
  using arch_rmw_total [of "dst_idx (info c) k" "dst_mask (info c) k" "state c" "dst_data (info c) k"]
  by (auto simp: slots_def rmw_slot_def)

section \<open>Updates\<close>

named_theorems slot_simps \<open>updates that do not touch the slots, and updates with a valid slot\<close>

lemma slots_same [slot_simps]:
  "slots (set_exception e c) = slots c" "slots (set_exc_data d c) = slots c" "slots (set_dst_data k d c) = slots c"
  "slots (set_src k r c) = slots c" "slots (set_dst_reg r c) = slots c" "slots (set_type t c) = slots c"
  "slots (upd_state f c) = slots c" "slots (setrm rm c) = slots c"
  "ready (set_exception e c) = ready c" "ready (set_exc_data d c) = ready c" "ready (set_dst_data k d c) = ready c"
  "ready (set_src k r c) = ready c" "ready (set_dst_reg r c) = ready c" "ready (set_type t c) = ready c"
  "ready (upd_state f c) = ready c" "ready (setrm rm c) = ready c"
  by (simp_all add: slots_def ready_def slots_ok_def info_defs setrm_def)

lemma slots_src [slot_simps]:
  "slots (SET_SRC2 r1 r2 c) = slots c" "slots (SET_SRC0_DST rd c) = slots c" "slots (SET_SRC1_DST r1 rd c) = slots c"
  "slots (SET_SRC2_DST r1 r2 rd c) = slots c" "slots (SET_SRC2_DST_ADDR r1 r2 rd c) = slots c"
  "slots (SET_SRC1_DSTF r1 rd c) = slots c" "slots (SET_SRC1F_DST r1 rd c) = slots c"
  "slots (SET_SRC1F_DSTF r1 rd c) = slots c" "slots (SET_SRC2F_DSTF r1 r2 rd c) = slots c"
  "slots (SET_SRC2F_DST r1 r2 rd c) = slots c" "slots (SET_SRC3F_DSTF r1 r2 r3 rd c) = slots c"
  "slots (SET_SRC1_DSTF_ADDR r1 rd c) = slots c" "slots (SET_SRC1_SRC2F_ADDR r1 r2 c) = slots c"
  "slots (SET_SRC1_DST_ADDR r1 rd c) = slots c" "slots (SET_SRC1_SRC2_ADDR r1 r2 c) = slots c"
  by (simp_all add: macro_defs slots_same)

lemma slots_set_dst [slot_simps]: "slot_valid idx m \<Longrightarrow> slots c \<Longrightarrow> slots (set_dst k idx m d c)"
  by (simp add: slots_def info_defs)

lemma slot_gpr [slot_simps]: "rd < 32 \<Longrightarrow> slot_valid (ucast (rd * 8 :: u32)) m"
proof -
  assume rd: "rd < 32"
  then have r: "unat rd < 32" by (simp add: word_less_nat_alt)
  then have "unat (of_nat (unat rd * 8) :: u16) = unat rd * 8" by (intro unat_of_nat16) simp
  then have u: "unat (ucast (rd * 8 :: u32) :: u16) = unat rd * 8" unfolding rd_offset [OF rd] .
  show ?thesis unfolding slot_valid_def Let_def u using r by simp
qed

lemma slot_const [slot_simps]: "slot_valid 0 m" "slot_valid 8 m" "slot_valid 40 m"
  by (simp_all add: slot_valid_def)

lemma slot_fpr [slot_simps]: "rd < 32 \<Longrightarrow> slot_valid (ucast (rd * 8 + 256 :: u32)) m"
proof -
  assume rd: "rd < 32"
  then have "unat rd < 32" by (simp add: word_less_nat_alt)
  moreover from this have "unat (rd * 8 + 256) = unat rd * 8 + 256" by (simp add: unat_word_ariths)
  ultimately have u: "unat (ucast (rd * 8 + 256 :: u32) :: u16) = unat rd * 8 + 256"
    by (simp only: ucast_of_nat) (rule unat_of_nat16, simp)
  show ?thesis unfolding slot_valid_def Let_def u using \<open>unat rd < 32\<close> by (simp add: mod_simps)
qed

lemma slots_gpr [slot_simps]:
  "rd < 32 \<Longrightarrow> slots c \<Longrightarrow> slots (SET_GPR_64 rd d c)" "rd < 32 \<Longrightarrow> slots c \<Longrightarrow> slots (SET_GPR_32 rd d c)"
  "rd < 32 \<Longrightarrow> slots c \<Longrightarrow> slots (SET_FPR_64 rd d c)"
  by (simp_all add: SET_GPR_64_def SET_GPR_32_def SET_FPR_64_def slot_simps)

lemma ready_sf_call: "sf_call p f xs c = (v, c') \<Longrightarrow> ready c' = ready c \<and> slots c' = slots c"
  by (auto simp: sf_call_def slot_simps Let_def split: prod.splits)

section \<open>Loads and stores\<close>

lemma info_notify: "info (notify i (set_devices d c)) = info c"
  by (simp add: notify_def irqListener_def set_devices_def split: option.splits)

lemma info_paddrRead: "paddrRead p a n ty d c = Inr (v, ok, c') \<Longrightarrow> info c' = info c"
  by (auto simp: paddrRead_def mem_paddrRead_def rbind_eq_Inr info_notify split: option.splits if_splits)

lemma info_walk: "walk p va ty l base c = Inr (pa, r, c') \<Longrightarrow> info c' = info c"
proof (induction l arbitrary: base c)
  case 0
  then show ?case
    by (subst (asm) walk.simps) (auto simp: rbind_eq_Inr Let_def split: if_splits dest: info_paddrRead)
next
  case (Suc l)
  from Suc.prems obtain t ok c1 where rd: "paddrRead p (base + VPNi va (Suc l) * 8) 8 ty (uninit p) c = Inr (t, ok, c1)"
    by (subst (asm) walk.simps) (auto simp: rbind_eq_Inr)
  then have "info c1 = info c" by (rule info_paddrRead)
  then show ?case
    using Suc.prems Suc.IH [of "PGBASE (pte_ppn t)" c1]
    by (subst (asm) walk.simps) (auto simp: rd Let_def split: if_splits)
qed

lemma info_translateAddr: "translateAddr p va ty pa e c = Inr (pa', e', c') \<Longrightarrow> info c' = info c"
  by (auto simp: translateAddr_def rbind_eq_Inr split: if_splits option.splits dest: info_walk)

lemma ready_size: "ready c \<Longrightarrow> n \<le> 8 \<Longrightarrow> ready (set_dst_idx k (of_nat n) c)"
proof -
  assume r: "ready c" and n: "n \<le> 8"
  have "unat (of_nat n :: u16) = n" using n by (intro unat_of_nat16) simp
  then show ?thesis using r n by (auto simp: ready_def slots_ok_def info_defs)
qed

lemma ready_cong: "info c' = info c \<Longrightarrow> ready c \<Longrightarrow> ready c'"
  by (simp add: ready_def)

lemma ready_ld_n: "ld_n p n va c = Inr (v, c') \<Longrightarrow> n \<le> 8 \<Longrightarrow> ready c \<Longrightarrow> ready c'"
  by (auto simp: ld_n_def rbind_eq_Inr slot_simps split: if_splits
      dest!: info_translateAddr info_paddrRead intro: ready_size ready_cong)

lemma ready_ld:
  "ld_b p va c = Inr (v, c') \<Longrightarrow> ready c \<Longrightarrow> ready c'" "ld_h p va c = Inr (v, c') \<Longrightarrow> ready c \<Longrightarrow> ready c'"
  "ld_w p va c = Inr (v, c') \<Longrightarrow> ready c \<Longrightarrow> ready c'" "ld_d p va c = Inr (v, c') \<Longrightarrow> ready c \<Longrightarrow> ready c'"
  by (auto simp: ld_b_def ld_h_def ld_w_def ld_d_def rbind_eq_Inr slot_simps split: if_splits dest!: ready_ld_n)

lemma ready_st_n: "st_n p n va c = Inr (v, c') \<Longrightarrow> n \<le> 8 \<Longrightarrow> ready c \<Longrightarrow> ready c'"
  by (auto simp: st_n_def rbind_eq_Inr slot_simps split: if_splits
      dest!: info_translateAddr intro: ready_size [OF ready_cong] ready_cong)

lemma ready_st:
  "st_b p va c = Inr (v, c') \<Longrightarrow> ready c \<Longrightarrow> ready c'" "st_h p va c = Inr (v, c') \<Longrightarrow> ready c \<Longrightarrow> ready c'"
  "st_w p va c = Inr (v, c') \<Longrightarrow> ready c \<Longrightarrow> ready c'" "st_d p va c = Inr (v, c') \<Longrightarrow> ready c \<Longrightarrow> ready c'"
  by (auto simp: st_b_def st_h_def st_w_def st_d_def slot_simps split: if_splits dest!: ready_st_n)

section \<open>The trans functions\<close>

definition fills :: "'d trans \<Rightarrow> bool" where
  "fills f \<longleftrightarrow> (\<forall>c ok c'. f c = Inr (ok, c') \<longrightarrow> ready c \<longrightarrow> slots c')"

lemmas fill_simps = fills_def Let_def rbind_eq_Inr slot_simps ready_slots

lemma fills_r: "insn_wf (R oper a) \<Longrightarrow> fills (exec_r p oper a)"
  by (cases oper) (auto simp: fill_simps trans_alu_defs split: if_splits)

lemma fills_rb: "insn_wf (Rb oper a) \<Longrightarrow> fills (exec_rb p oper a)"
  by (cases oper) (auto simp: fill_simps trans_alu_defs split: if_splits)

lemma fills_b: "insn_wf (B oper a) \<Longrightarrow> fills (exec_b p oper a)"
  by (cases oper) (auto simp: fill_simps trans_alu_defs split: if_splits)

lemma fills_shift: "insn_wf (Sh oper a) \<Longrightarrow> fills (exec_shift p oper a)"
  by (cases oper) (auto simp: fill_simps trans_alu_defs split: if_splits)

lemma fills_u: "insn_wf (U oper a) \<Longrightarrow> fills (exec_u p oper a)"
  by (cases oper) (auto simp: fill_simps trans_alu_defs split: if_splits)

lemma fills_jal: "insn_wf (Jal a) \<Longrightarrow> fills (trans_jal a)"
  by (auto simp: fill_simps trans_alu_defs split: if_splits)

lemma fills_r2: "insn_wf (R2 oper a) \<Longrightarrow> fills (exec_r2 p oper a)"
  by (cases oper) (auto simp: fill_simps trans_alu_defs trans_fp_defs REQUIRE_FPU_def split: if_splits)

lemma fills_fr: "insn_wf (Fr oper a) \<Longrightarrow> fills (exec_fr p oper a)"
  by (cases oper) (auto simp: fill_simps trans_fp_defs REQUIRE_FPU_def split: if_splits prod.splits dest!: ready_sf_call)

lemma fills_f3: "insn_wf (F3 oper a) \<Longrightarrow> fills (exec_f3 p oper a)"
  by (cases oper) (auto simp: fill_simps trans_fp_defs REQUIRE_FPU_def split: if_splits prod.splits dest!: ready_sf_call)

lemma fills_f2: "insn_wf (F2 oper a) \<Longrightarrow> fills (exec_f2 p oper a)"
  by (cases oper) (auto simp: fill_simps trans_fp_defs REQUIRE_FPU_def split: if_splits prod.splits dest!: ready_sf_call)

lemma fills_fmadd: "insn_wf (Fmadd_d a) \<Longrightarrow> fills (trans_fmadd_d p a)"
  by (auto simp: fill_simps trans_fp_defs REQUIRE_FPU_def split: if_splits prod.splits dest!: ready_sf_call)

lemma fills_s: "insn_wf (S oper a) \<Longrightarrow> fills (exec_s p oper a)"
  by (cases oper) (auto simp: fill_simps trans_mem_defs trans_fp_defs REQUIRE_FPU_def split: if_splits dest!: ready_st)

lemma fills_i: "insn_wf (I oper a) \<Longrightarrow> fills (exec_i p oper a)"
  by (cases oper) (auto simp: fill_simps trans_alu_defs trans_mem_defs trans_fp_defs REQUIRE_FPU_def split: if_splits
      dest!: ready_ld)

lemma fills_empty: "fills (exec_empty p oper)"
  by (cases oper) (auto simp: fill_simps trans_sys_defs split: if_splits)

lemma fills_fences: "fills (trans_fence a)" "fills (trans_sfence_vma b)"
  by (auto simp: fill_simps trans_sys_defs)

lemma slots_pair [slot_simps]:
  "slot_valid idx m \<Longrightarrow> slots c \<Longrightarrow> slots (set_dst_mask k m (set_dst_idx k idx c))"
  by (simp add: slots_def info_defs)

lemma slot_reservation [slot_simps]: "slot_valid 536 m" "slot_valid 544 m"
  by (simp_all add: slot_valid_def csr_offsets_def)

lemma fills_atomic: "insn_wf (A oper a) \<Longrightarrow> fills (exec_atomic p oper a)"
  by (cases oper) (auto simp: fill_simps slot_simps trans_mem_defs split: if_splits dest!: ready_ld ready_st)

section \<open>CSR instructions\<close>

definition csr_fills :: "u32 \<Rightarrow> 'd riscv_csr_operations \<Rightarrow> bool" where
  "csr_fills n e \<longleftrightarrow>
     (\<forall>f \<in> set_option (csr_read e). \<forall>v c r c'. f n v c = Inr (r, c') \<longrightarrow> ready c \<longrightarrow> ready c') \<and>
     (\<forall>f \<in> set_option (csr_write e). \<forall>v c c'. f n v c = Inr c' \<longrightarrow> ready c \<longrightarrow> slots c') \<and>
     (\<forall>f \<in> set_option (csr_op e). \<forall>v m c r c'. f n v m c = Inr (r, c') \<longrightarrow> ready c \<longrightarrow> slots c')"

lemma slot_field: "off \<in> set csr_offsets \<Longrightarrow> slot_valid (of_nat off) m"
proof -
  assume a: "off \<in> set csr_offsets"
  then have "off + 8 \<le> ARCH_SIZE" by (auto simp: csr_offsets_def)
  then have "unat (of_nat off :: u16) = off" by (intro unat_of_nat16) simp
  then show ?thesis unfolding slot_valid_def Let_def using a \<open>off + 8 \<le> ARCH_SIZE\<close> by simp
qed

lemma slot_word: "off < ARCH_PMPADDR + 128 \<Longrightarrow> ARCH_PMPCFG \<le> off \<Longrightarrow> off mod 8 = 0 \<Longrightarrow> slot_valid (of_nat off) m"
proof -
  assume a: "off < ARCH_PMPADDR + 128" "ARCH_PMPCFG \<le> off" "off mod 8 = 0"
  then have "unat (of_nat off :: u16) = off" by (intro unat_of_nat16) simp
  then show ?thesis unfolding slot_valid_def Let_def using a by auto
qed

lemma slot_csr [slot_simps]:
  "slot_valid 584 m" "slot_valid 592 m" "slot_valid 632 m" "slot_valid 640 m"
  "slot_valid 656 m" "slot_valid 664 m" "slot_valid 680 m" "slot_valid 688 m"
  "slot_valid 696 m" "slot_valid 704 m" "slot_valid 712 m" "slot_valid 720 m"
  "slot_valid 728 m" "slot_valid 736 m" "slot_valid 744 m" "slot_valid 752 m"
  "slot_valid 760 m" "slot_valid 768 m" "slot_valid 784 m" "slot_valid 792 m"
  using slot_field [of 584 m] slot_field [of 592 m] slot_field [of 632 m] slot_field [of 640 m]
    slot_field [of 656 m] slot_field [of 664 m] slot_field [of 680 m] slot_field [of 688 m]
    slot_field [of 696 m] slot_field [of 704 m] slot_field [of 712 m] slot_field [of 720 m]
    slot_field [of 728 m] slot_field [of 736 m] slot_field [of 744 m] slot_field [of 752 m]
    slot_field [of 760 m] slot_field [of 768 m] slot_field [of 784 m] slot_field [of 792 m]
  by (simp_all add: csr_offsets_def)

lemma slot_pmp [slot_simps]:
  "slot_valid 808 m" "slot_valid 816 m" "slot_valid 824 m" "slot_valid 832 m"
  "slot_valid 840 m" "slot_valid 848 m" "slot_valid 856 m" "slot_valid 864 m"
  "slot_valid 872 m" "slot_valid 880 m" "slot_valid 888 m" "slot_valid 896 m"
  "slot_valid 904 m" "slot_valid 912 m" "slot_valid 920 m" "slot_valid 928 m"
  "slot_valid 936 m" "slot_valid 944 m"
  using slot_word [of 808 m] slot_word [of 816 m] slot_word [of 824 m] slot_word [of 832 m]
    slot_word [of 840 m] slot_word [of 848 m] slot_word [of 856 m] slot_word [of 864 m]
    slot_word [of 872 m] slot_word [of 880 m] slot_word [of 888 m] slot_word [of 896 m]
    slot_word [of 904 m] slot_word [of 912 m] slot_word [of 920 m] slot_word [of 928 m]
    slot_word [of 936 m] slot_word [of 944 m]
  by simp_all

lemma slot_fp [slot_simps]:
  "slot_valid 514 FSR_AEXC" "slot_valid 512 FSR_RD" "slot_valid 512 (push_bit 8 FSR_AEXC OR FSR_RD)"
  by (simp_all add: slot_valid_def FSR_AEXC_def FSR_RD_def)

lemma table_fills: "list_all (\<lambda>(n, e). csr_fills n e) csr_table"
  unfolding csr_table_def list.pred_inject prod.case
  by (intro conjI list.pred_inject(1);
      auto simp: csr_fills_def mk_csr_def csr_fn_defs fill_simps slot_simps split: if_splits)

lemma csr_ops_fill: "csr_fills n (csr_ops n :: 'd riscv_csr_operations)"
proof -
  have "csr_fills n e" if "map_of csr_table n = Some e" for e :: "'d riscv_csr_operations"
    using table_fills map_of_SomeD [OF that] by (auto simp: list_all_iff)
  moreover have "csr_fills n (mk_csr nm pr (Some read_noop) (Some write_noop) None :: 'd riscv_csr_operations)" for nm pr
    by (simp add: csr_fills_def mk_csr_def csr_fn_defs ready_slots)
  moreover have "csr_fills n (mk_csr nm pr None None None :: 'd riscv_csr_operations)" for nm pr
    by (simp add: csr_fills_def mk_csr_def)
  ultimately show ?thesis
    unfolding csr_ops_def by (simp split: option.split)
qed

lemma fill_csrrw: "riscv_csrrw n ret v m c = Inr (r, c') \<Longrightarrow> ready (c :: 'd machine) \<Longrightarrow> slots c'"
  using csr_ops_fill [of n, where 'd = 'd]
  by (fastforce simp: riscv_csrrw_def csr_fills_def rbind_eq_Inr intro: ready_slots split: option.splits if_splits)

lemma fill_csrrw_check: "riscv_csrrw_check n w c = (b, c') \<Longrightarrow> ready c \<Longrightarrow> ready c'"
  by (auto simp: riscv_csrrw_check_def Let_def slot_simps split: if_splits)

lemma fill_do_csr:
  "do_csrr p rd n c = Inr c' \<Longrightarrow> rd < 32 \<Longrightarrow> ready c \<Longrightarrow> slots c'"
  "do_csrrw p rd n v m c = Inr c' \<Longrightarrow> rd < 32 \<Longrightarrow> ready c \<Longrightarrow> slots c'"
  by (auto simp: do_csrr_def do_csrrw_def rbind_eq_Inr slot_simps ready_slots split: prod.splits if_splits
      dest!: fill_csrrw fill_csrrw_check)

lemma fills_csr: "insn_wf (Csr oper a) \<Longrightarrow> fills (exec_csr p oper a)"
  by (cases oper) (auto simp: fill_simps trans_sys_defs split: if_splits dest!: fill_do_csr)

section \<open>The whole interpreter\<close>

lemma fills_insn: "insn_wf i \<Longrightarrow> fills (exec_insn p i)"
  by (cases i) (simp_all only: exec_insn.simps fills_r fills_rb fills_fr fills_i fills_atomic fills_u fills_shift
      fills_b fills_r2 fills_s fills_csr fills_empty fills_f3 fills_f2 fills_fences fills_fmadd fills_jal,
      simp add: fills_def)

lemma exec_False_same: "exec_insn p i c = Inr (False, c') \<Longrightarrow> c' = c"
proof -
  assume e: "exec_insn p i c = Inr (False, c')"
  show ?thesis
  proof (cases i)
    case (R oper a) then show ?thesis using e by (cases oper) (auto simp: trans_alu_defs Let_def split: if_splits)
  next
    case (Rb oper a) then show ?thesis using e by (cases oper) (auto simp: trans_alu_defs Let_def split: if_splits)
  next
    case (Fr oper a) then show ?thesis using e
      by (cases oper) (auto simp: trans_fp_defs REQUIRE_FPU_def Let_def split: if_splits prod.splits)
  next
    case (I oper a) then show ?thesis using e
      by (cases oper) (auto simp: trans_alu_defs trans_mem_defs trans_fp_defs REQUIRE_FPU_def Let_def rbind_eq_Inr split: if_splits)
  next
    case (A oper a) then show ?thesis using e
      by (cases oper) (auto simp: trans_mem_defs Let_def rbind_eq_Inr split: if_splits)
  next
    case (U oper a) then show ?thesis using e by (cases oper) (auto simp: trans_alu_defs Let_def)
  next
    case (Sh oper a) then show ?thesis using e by (cases oper) (auto simp: trans_alu_defs Let_def split: if_splits)
  next
    case (B oper a) then show ?thesis using e by (cases oper) (auto simp: trans_alu_defs Let_def)
  next
    case (R2 oper a) then show ?thesis using e
      by (cases oper) (auto simp: trans_alu_defs trans_fp_defs REQUIRE_FPU_def Let_def split: if_splits)
  next
    case (S oper a) then show ?thesis using e
      by (cases oper) (auto simp: trans_mem_defs trans_fp_defs REQUIRE_FPU_def Let_def rbind_eq_Inr split: if_splits)
  next
    case (Csr oper a) then show ?thesis using e
      by (cases oper) (auto simp: trans_sys_defs Let_def rbind_eq_Inr split: if_splits)
  next
    case (E oper) then show ?thesis using e by (cases oper) (auto simp: trans_sys_defs Let_def)
  next
    case (F3 oper a) then show ?thesis using e
      by (cases oper) (auto simp: trans_fp_defs REQUIRE_FPU_def Let_def split: if_splits prod.splits)
  next
    case (F2 oper a) then show ?thesis using e
      by (cases oper) (auto simp: trans_fp_defs REQUIRE_FPU_def Let_def split: if_splits prod.splits)
  qed (use e in \<open>auto simp: trans_sys_defs trans_alu_defs trans_fp_defs REQUIRE_FPU_def Let_def split: if_splits prod.splits\<close>)
qed

lemma fills_try: "list_all insn_wf is \<Longrightarrow> fills (try_insns p is)"
proof -
  assume wf: "list_all insn_wf is"
  have "try_insns p is c = Inr (ok, c') \<Longrightarrow> ready c \<Longrightarrow> slots c'" for c ok c'
    using wf
  proof (induction "is" arbitrary: c)
    case (Cons i "is")
    then obtain b c1 where e: "exec_insn p i c = Inr (b, c1)" and r: "b \<and> c' = c1 \<or> \<not> b \<and> try_insns p is c1 = Inr (ok, c')"
      by (auto simp: rbind_eq_Inr split: if_splits)
    then show ?case
      using Cons fills_insn [of i p] exec_False_same [of p i c c1] by (auto simp: fills_def)
  qed (simp add: ready_slots)
  then show ?thesis by (simp add: fills_def)
qed

lemma fills_interpreter: "fills (interpreter p w rvc)"
  by (simp add: interpreter_def fills_try wf_decode_insn16 wf_decode_insn32)

end
