(* ===== verification/Trap_Props.thy ===== *)
theory Trap_Props
  imports Exec_Spec
begin

text \<open>
  Traps, returns and interrupts: what take_trap, do_sret, do_mret and check_irq do to the
  machine's privilege state, and the behaviour of AtomicCPU.
\<close>

section \<open>Masks as single bits\<close>

lemma mask_bits:
  "MSTATUS_MPP = push_bit 11 1 OR push_bit 12 1" "MSTATUS_MPIE = push_bit 7 1"
  "MSTATUS_MIE = push_bit 3 1" "MSTATUS_SPP = push_bit 8 1" "MSTATUS_SPIE = push_bit 5 1"
  "MSTATUS_SIE = push_bit 1 1" "MSTATUS_MPRV = push_bit 17 1"
  by simp_all

lemma small_bits: "unat (v :: u64) < 2 ^ m \<Longrightarrow> bit v n \<Longrightarrow> n < m"
proof (rule ccontr)
  assume a: "unat v < 2 ^ m" "bit v n" "\<not> n < m"
  have "(2::nat) ^ m \<le> 2 ^ n" using a(3) by (intro power_increasing) auto
  with a(1) have "unat v < 2 ^ n" by (rule less_le_trans)
  then have "unat v div 2 ^ n = 0" by simp
  moreover have "bit (unat v) n" using a(2) by (simp add: bit_unsigned_iff)
  ultimately show False by (simp add: bit_iff_odd)
qed

lemma mode_bits: "(pr :: u64) \<le> 3 \<Longrightarrow> bit pr n \<Longrightarrow> n < 2"
  by (rule small_bits) (simp_all add: word_le_nat_alt)

lemma mode_bits_S: "(pr :: u64) \<le> 1 \<Longrightarrow> bit pr n \<Longrightarrow> n < 1"
  by (rule small_bits) (simp_all add: word_le_nat_alt)

section \<open>The status word after a trap and after a return\<close>

text \<open>Each bit of mstatus after a trap to M mode.\<close>

lemma trap_mstatus_M:
  assumes "pr \<le> (3 :: u64)"
  shows "bit ((m AND NOT (MSTATUS_MPP OR MSTATUS_MPIE OR MSTATUS_MIE))
            OR push_bit 11 pr OR (push_bit 4 m AND MSTATUS_MPIE)) n \<longleftrightarrow>
    (if n = 3 then False else if n = 7 then bit m 3 else if n = 11 then bit pr 0
     else if n = 12 then bit pr 1 else bit m n)"
  unfolding mask_bits using mode_bits [OF assms, of "n - 11"]
  by (simp only: bit_simps) (auto simp: bit_simps dest: bit_imp_le_length)

lemma trap_mstatus_S:
  assumes "pr \<le> (1 :: u64)"
  shows "bit ((m AND NOT (MSTATUS_SPP OR MSTATUS_SPIE OR MSTATUS_SIE))
            OR push_bit 8 pr OR (push_bit 4 m AND MSTATUS_SPIE)) n \<longleftrightarrow>
    (if n = 1 then False else if n = 5 then bit m 1 else if n = 8 then bit pr 0 else bit m n)"
  unfolding mask_bits using mode_bits_S [OF assms, of "n - 8"]
  by (simp only: bit_simps) (auto simp: bit_simps dest: bit_imp_le_length)

lemma mret_mstatus:
  "bit ((m AND NOT (MSTATUS_MPP OR MSTATUS_MIE OR push_bit 17 (of_bool b)))
      OR (drop_bit 4 m AND MSTATUS_MIE) OR MSTATUS_MPIE) n \<longleftrightarrow>
    (if n = 3 then bit m 7 else if n = 7 then True else if n = 11 \<or> n = 12 then False
     else if n = 17 then bit m 17 \<and> \<not> b else bit (m :: u64) n)"
  unfolding mask_bits by (simp only: bit_simps) (auto simp: bit_simps dest: bit_imp_le_length)

lemma sret_mstatus:
  "bit ((m AND NOT (MSTATUS_SPP OR MSTATUS_SIE OR MSTATUS_MPRV))
      OR (drop_bit 4 m AND MSTATUS_SIE) OR MSTATUS_SPIE) n \<longleftrightarrow>
    (if n = 1 then bit m 5 else if n = 5 then True else if n = 8 \<or> n = 17 then False else bit (m :: u64) n)"
  unfolding mask_bits by (simp only: bit_simps) (auto simp: bit_simps dest: bit_imp_le_length)

section \<open>Delegation\<close>

lemma no_delegation_from_M: "priv s = MODE_M \<Longrightarrow> \<not> edeleg_valid s e"
  by (simp add: edeleg_valid_def)

lemma do_trap_priv:
  "priv (state (snd (do_trap e v c))) = (if edeleg_valid (state c) e then MODE_S else MODE_M)"
  by (simp add: do_trap_def take_trap_def Let_def)

lemma do_trap_regs:
  "edeleg_valid (state c) e \<Longrightarrow>
     sepc (state (snd (do_trap e v c))) = env_pc c \<and> scause (state (snd (do_trap e v c))) = e
     \<and> stval (state (snd (do_trap e v c))) = v \<and> mepc (state (snd (do_trap e v c))) = mepc (state c)
     \<and> mcause (state (snd (do_trap e v c))) = mcause (state c)"
  "\<not> edeleg_valid (state c) e \<Longrightarrow>
     mepc (state (snd (do_trap e v c))) = env_pc c \<and> mcause (state (snd (do_trap e v c))) = e
     \<and> mtval (state (snd (do_trap e v c))) = v \<and> sepc (state (snd (do_trap e v c))) = sepc (state c)
     \<and> scause (state (snd (do_trap e v c))) = scause (state c)"
  by (simp_all add: do_trap_def take_trap_def set_xtval_def Let_def)

lemma do_trap_frame:
  "gpr (state (snd (do_trap e v c))) = gpr (state c)" "memory (snd (do_trap e v c)) = memory c"
  "info (snd (do_trap e v c)) = info c"
  by (simp_all add: do_trap_def take_trap_def set_xtval_def Let_def)

lemma do_trap_mstatus_M:
  assumes "\<not> edeleg_valid (state c) e" "priv (state c) \<le> 3"
  shows "bit (mstatus (state (snd (do_trap e v c)))) n \<longleftrightarrow>
    (if n = 3 then False else if n = 7 then bit (mstatus (state c)) 3
     else if n = 11 then bit (priv (state c)) 0 else if n = 12 then bit (priv (state c)) 1
     else bit (mstatus (state c)) n)"
  using trap_mstatus_M [OF assms(2), of "mstatus (state c)" n] assms(1)
  by (simp add: do_trap_def take_trap_def set_xtval_def Let_def)

lemma do_trap_mstatus_S:
  assumes "edeleg_valid (state c) e" "priv (state c) \<le> 1"
  shows "bit (mstatus (state (snd (do_trap e v c)))) n \<longleftrightarrow>
    (if n = 1 then False else if n = 5 then bit (mstatus (state c)) 1
     else if n = 8 then bit (priv (state c)) 0 else bit (mstatus (state c)) n)"
  using trap_mstatus_S [OF assms(2), of "mstatus (state c)" n] assms(1)
  by (simp add: do_trap_def take_trap_def set_xtval_def Let_def)

section \<open>Returns\<close>

lemma do_mret_result:
  "fst (do_mret c) = mepc (state c)"
  "priv (state (snd (do_mret c))) = drop_bit 11 (mstatus (state c)) AND 3"
  "bit (mstatus (state (snd (do_mret c)))) n \<longleftrightarrow>
    (let m = mstatus (state c) in
     if n = 3 then bit m 7 else if n = 7 then True else if n = 11 \<or> n = 12 then False
     else if n = 17 then bit m 17 \<and> drop_bit 11 m AND 3 = MODE_M else bit m n)"
  using mret_mstatus [of "mstatus (state c)" "drop_bit 11 (mstatus (state c)) AND 3 \<noteq> MODE_M" n]
  by (simp_all add: do_mret_def Let_def)

lemma do_sret_result:
  "fst (do_sret c) = sepc (state c)"
  "priv (state (snd (do_sret c))) = drop_bit 8 (mstatus (state c)) AND 3"
  "bit (mstatus (state (snd (do_sret c)))) n \<longleftrightarrow>
    (let m = mstatus (state c) in
     if n = 1 then bit m 5 else if n = 5 then True else if n = 8 \<or> n = 17 then False else bit m n)"
  using sret_mstatus [of "mstatus (state c)" n]
  by (simp_all add: do_sret_def Let_def)

lemma two_bits: "(v AND 3 :: u64) = w \<longleftrightarrow> w \<le> 3 \<and> (bit v 0 \<longleftrightarrow> bit w 0) \<and> (bit v 1 \<longleftrightarrow> bit w 1)"
proof -
  have m: "v AND 3 = take_bit 2 v" by (simp add: take_bit_eq_mask mask_eq_exp_minus_1)
  have le: "take_bit 2 v \<le> (3 :: u64)"
    using take_bit_nat_less_exp [of 2 "unat v"] by (simp add: word_le_nat_alt unsigned_take_bit_eq)
  show ?thesis
  proof
    assume "w \<le> 3 \<and> (bit v 0 \<longleftrightarrow> bit w 0) \<and> (bit v 1 \<longleftrightarrow> bit w 1)"
    then show "v AND 3 = w"
      unfolding m using mode_bits [of w]
      by (intro bit_word_eqI) (auto simp: bit_simps less_2_cases_iff)
  qed (use le in \<open>auto simp: m bit_simps\<close>)
qed

section \<open>Interrupts\<close>

lemma countl_zero_spec:
  assumes "w \<noteq> (0 :: 'a::len word)"
  shows "countl_zero w < LENGTH('a) \<and> bit w (LENGTH('a) - 1 - countl_zero w)
    \<and> (\<forall>n. LENGTH('a) - 1 - countl_zero w < n \<longrightarrow> \<not> bit w n)"
proof -
  let ?l = "rev [0..<LENGTH('a)]" and ?P = "\<lambda>i. \<not> bit w i"
  obtain k where k: "bit w k" using assms by (metis bit_eqI bit_0_eq bot_apply bot_bool_def)
  then have kl: "k < LENGTH('a)" by (rule bit_imp_le_length)
  have ne: "takeWhile ?P ?l \<noteq> ?l"
    using k kl by (metis atLeastLessThan_iff le0 set_rev set_takeWhileD set_upt)
  let ?z = "countl_zero w"
  have z: "?z < LENGTH('a)"
    using ne length_takeWhile_le [of ?P ?l] unfolding countl_zero_def
    by (metis length_rev length_upt diff_zero le_neq_implies_less takeWhile_eq_take take_all le_refl)
  have nth: "?l ! j = LENGTH('a) - 1 - j" if "j < LENGTH('a)" for j
    using that by (simp add: rev_nth)
  have "\<not> ?P (?l ! ?z)"
    using nth_length_takeWhile [of ?P ?l] z unfolding countl_zero_def by simp
  moreover have "\<not> bit w n" if n: "LENGTH('a) - 1 - ?z < n" for n
  proof (cases "n < LENGTH('a)")
    case True
    define j where "j = LENGTH('a) - 1 - n"
    have "j < ?z" "j < LENGTH('a)" "?l ! j = n" using n True z nth [of j] by (auto simp: j_def)
    then show ?thesis
      using takeWhile_nth [of j ?P ?l] nth_mem [of j "takeWhile ?P ?l"] set_takeWhileD [of "takeWhile ?P ?l ! j" ?P ?l]
      unfolding countl_zero_def by auto
  qed (auto dest: bit_imp_le_length)
  ultimately show ?thesis using z nth by simp
qed

text \<open>The interrupt decode reports is the pending and enabled one with the highest number.\<close>

definition pending :: "arch_state \<Rightarrow> nat \<Rightarrow> bool" where
  "pending s n \<longleftrightarrow> n < 32 \<and> bit (mip s) n \<and> bit (mie s) n"

lemma check_irq_none:
  assumes "\<not> irq_enabled (state c) \<or> (\<forall>n. \<not> pending (state c) n)"
  shows "check_irq c = c"
proof -
  have "(ucast (mip (state c) AND mie (state c) AND (if irq_enabled (state c) then all1 else 0)) :: u32) = 0"
    using assms by (auto intro!: bit_word_eqI simp: bit_simps pending_def)
  then show ?thesis by (simp add: check_irq_def Let_def)
qed

lemma check_irq_some:
  assumes en: "irq_enabled (state c)" and p: "pending (state c) n"
    and top: "\<forall>k. pending (state c) k \<longrightarrow> k \<le> n"
  shows "check_irq c = set_exception (IRQ_MASK OR of_nat n) c"
proof -
  let ?w = "ucast (mip (state c) AND mie (state c) AND all1) :: u32"
  have "(all1 :: u64) = mask 64" by (simp add: mask_eq_exp_minus_1)
  then have all: "bit (all1 :: u64) k" if "k < 64" for k
    using that by (simp only: bit_mask_iff) simp
  have w: "bit ?w k \<longleftrightarrow> pending (state c) k" for k
    using all [of k] by (auto simp: bit_simps pending_def)
  then have nz: "?w \<noteq> 0" using p by (metis bit_0_eq bot_apply bot_bool_def)
  note z = countl_zero_spec [OF nz, simplified]
  have "31 - countl_zero ?w = n"
  proof (rule antisym)
    show "31 - countl_zero ?w \<le> n" using z w top by simp
    show "n \<le> 31 - countl_zero ?w" using z w p by (metis not_le)
  qed
  then have "bit_width ?w - 1 = n" using z by (simp add: bit_width_def)
  then show ?thesis using nz en by (simp add: check_irq_def Let_def)
qed

section \<open>Dispatch of updateEnv\<close>

lemma updateEnv_data:
  "exception (info c) = e \<Longrightarrow> exc_with_data e \<Longrightarrow> updateEnv p c = Inr (do_trap e (exc_data (info c)) c)"
  by (auto simp: updateEnv_def exc_with_data_def is_irq_def)

lemma updateEnv_plain:
  "exception (info c) = e \<Longrightarrow> exc_no_data e \<Longrightarrow> updateEnv p c = Inr (do_trap e 0 c)"
  by (auto simp: updateEnv_def exc_with_data_def exc_no_data_def is_irq_def)

lemma irq_code:
  assumes "n < 32"
  shows "is_irq (IRQ_MASK OR of_nat n)" "(IRQ_MASK OR of_nat n) AND EXC_MASK = (of_nat n :: u64)"
    "(IRQ_MASK OR of_nat n) AND 0x1f = (of_nat n :: u64)"
proof -
  have "n \<in> {0..<32}" using assms by simp
  then have "n \<in> set [0..<32]" by (simp only: set_upt)
  then have "is_irq (IRQ_MASK OR of_nat n) \<and> (IRQ_MASK OR of_nat n) AND EXC_MASK = (of_nat n :: u64)
      \<and> (IRQ_MASK OR of_nat n) AND 0x1f = (of_nat n :: u64)"
    by (simp only: upt_conv_Cons list.set) (elim insertE emptyE; simp add: is_irq_def)
  then show "is_irq (IRQ_MASK OR of_nat n)" "(IRQ_MASK OR of_nat n) AND EXC_MASK = (of_nat n :: u64)"
    "(IRQ_MASK OR of_nat n) AND 0x1f = (of_nat n :: u64)" by simp_all
qed

lemma updateEnv_irq:
  assumes "n < 32" "exception (info c) = IRQ_MASK OR of_nat n"
  shows "updateEnv p c = Inr (do_trap (IRQ_MASK OR of_nat n) 0 c)"
proof -
  have "unat (of_nat n :: u64) = n" using assms(1) by (simp add: unat_of_nat)
  then show ?thesis using irq_code [OF assms(1)] assms by (simp add: updateEnv_def Let_def)
qed

section \<open>The handler address\<close>

lemma do_trap_pc:
  "\<not> edeleg_valid (state c) e \<Longrightarrow> \<not> is_irq e \<Longrightarrow> fst (do_trap e v c) = mtvec (state c) AND 0xfffffffffffffffc"
  "edeleg_valid (state c) e \<Longrightarrow> \<not> is_irq e \<Longrightarrow> fst (do_trap e v c) = stvec (state c) AND 0xfffffffffffffffc"
  "\<not> edeleg_valid (state c) e \<Longrightarrow> is_irq e \<Longrightarrow> fst (do_trap e v c) =
     (mtvec (state c) AND 0xfffffffffffffffc) + (if mtvec (state c) AND 3 \<noteq> 0 then push_bit 2 (e AND 0x1f) else 0)"
  "edeleg_valid (state c) e \<Longrightarrow> is_irq e \<Longrightarrow> fst (do_trap e v c) =
     (stvec (state c) AND 0xfffffffffffffffc) + (if stvec (state c) AND 3 \<noteq> 0 then push_bit 2 (e AND 0x1f) else 0)"
  by (simp_all add: do_trap_def trap_vector_def take_trap_def set_xtval_def Let_def)

section \<open>AtomicCPU\<close>

text \<open>
  exec tests the exception with if (exception), and the value for no exception is 31: the instruction
  at the pc is never decoded.  With the MMU off the info of the machine is what it was, so the first
  call of exec ends the program.
\<close>

lemma atomic_exec_no_decode:
  assumes "\<not> ifetch_mmu_state c"
  shows "atomic_exec p pc c = rbind (updateEnv p c) (\<lambda>(pc', c).
     Inr (pc', c\<lparr> tick := tick c + 1, instret := instret c + 1 \<rparr>))"
  using assms by (simp add: atomic_exec_def translate_off handleException_def)

lemma atomic_exec_exits:
  "\<not> ifetch_mmu_state c \<Longrightarrow> info c = zero_info \<Longrightarrow>
   atomic_exec p pc c = Inl (ExitCalled ''unknown exception'')"
  by (simp add: atomic_exec_no_decode updateEnv_def zero_info_def is_irq_def exc_with_data_def exc_no_data_def)

end
