(* ===== verification/Core_Props.thy ===== *)
theory Core_Props
  imports Slots Trap_Props
begin

text \<open>
  The invariant of the architectural state over whatever sequence of calls the CPU models make to the
  Arch interface, and precise exceptions: an instruction that does not end normally leaves the registers
  and the RAM as they were.
\<close>

section \<open>The invariant\<close>

text \<open>The two translation flags as a function of the architectural state.\<close>

definition mmu_flags :: "arch_state \<Rightarrow> bool \<times> bool" where
  "mmu_flags s = (let sv39 = (drop_bit 60 (satp s) = 8);
       dpriv = (if mstatus s AND MSTATUS_MPRV \<noteq> 0 then drop_bit 11 (mstatus s AND MSTATUS_MPP) else priv s)
     in (sv39 \<and> priv s \<noteq> MODE_M, sv39 \<and> dpriv \<noteq> MODE_M))"

definition machine_ok :: "'d machine \<Rightarrow> bool" where
  "machine_ok c \<longleftrightarrow> gpr (state c) 0 = 0 \<and> priv (state c) \<le> 3 \<and>
     (ifetch_mmu_state c, data_mmu_state c) = mmu_flags (state c) \<and> slots c"

lemma updateMMUState_flags [simp]:
  "(ifetch_mmu_state (updateMMUState c), data_mmu_state (updateMMUState c)) = mmu_flags (state c)"
  by (simp add: updateMMUState_def mmu_flags_def Let_def)

lemma mask_FS: "x AND m = (x AND NOT y) AND m" if "m AND y = 0" for x y m :: u64
proof (rule bit_word_eqI)
  fix n assume "n < LENGTH(64)"
  have "\<not> (bit m n \<and> bit y n)" using that by (metis bit_0_eq bit_and_iff bot_apply bot_bool_def)
  then show "bit (x AND m) n \<longleftrightarrow> bit ((x AND NOT y) AND m) n"
    using \<open>n < LENGTH(64)\<close> by (auto simp: bit_and_iff bit_not_iff)
qed

lemma mmu_flags_core: "mmu_flags (core s) = mmu_flags s"
  using mask_FS [of MSTATUS_MPRV MSTATUS_FS "mstatus s"] mask_FS [of MSTATUS_MPP MSTATUS_FS "mstatus s"]
  by (simp add: mmu_flags_def core_def Let_def)

lemma core_eq:
  assumes "core s = core t"
  shows "gpr s = gpr t" "fpr s = fpr t" "priv s = priv t" "satp s = satp t" "mmu_flags s = mmu_flags t"
    "load_res s = load_res t" "load_val s = load_val t" "medeleg s = medeleg t" "mideleg s = mideleg t"
  using arg_cong [OF assms, of gpr] arg_cong [OF assms, of fpr] arg_cong [OF assms, of priv]
    arg_cong [OF assms, of satp] arg_cong [OF assms, of mmu_flags] arg_cong [OF assms, of load_res]
    arg_cong [OF assms, of load_val] arg_cong [OF assms, of medeleg] arg_cong [OF assms, of mideleg]
  by (simp_all add: mmu_flags_core) (simp_all add: core_def)

section \<open>Decode\<close>

lemma info_mem_paddrRead: "mem_paddrRead p a n d c = Inr (v, m, c') \<Longrightarrow> info c' = info c"
  by (auto simp: mem_paddrRead_def info_notify split: option.splits if_splits)

lemma fetch_frame:
  assumes "fetch p pa b c = Inr (w, rvc, sz, c')"
  shows "view c' = view c" "info c' = info c"
  using assms by (auto simp: fetch_def rbind_eq_Inr Let_def dest: view_mem_paddrRead info_mem_paddrRead)

lemma check_irq_frame [view_simps, slot_simps]:
  "view (check_irq c) = view c" "slots (check_irq c) = slots c"
  by (simp_all add: check_irq_def Let_def view_simps slot_simps)

lemma decodeE:
  fixes c :: "'d machine"
  assumes "decode p va pa c = Inr (sz, c1)"
  obtains w rvc s ok and c0 c' :: "'d machine" where "fetch p pa (inst (info c)) c = Inr (w, rvc, s, c0)"
    "interpreter p w rvc (c0\<lparr> env_pc := va, env_paddr := pa,
       info := (clear_info ((info c0)\<lparr> inst := w, inst_size := s \<rparr>))\<lparr> exception := EXC_NONE \<rparr> \<rparr>) = Inr (ok, c')"
    "c1 = check_irq c'"
  using assms by (auto simp: decode_def rbind_eq_Inr Let_def upd_info_def set_exception_def)

lemma decode_frame:
  fixes c :: "'d machine"
  assumes "decode p va pa c = Inr (sz, c1)"
  shows "core (state c1) = core (state c)" "ram (memory c1) = ram (memory c)"
    "mem_size (memory c1) = mem_size (memory c)" "env_pc c1 = va"
    "ifetch_mmu_state c1 = ifetch_mmu_state c" "data_mmu_state c1 = data_mmu_state c"
proof (atomize (full), rule decodeE [OF assms], goal_cases)
  case (1 w rvc s ok c0 c')
  have "view c1 = view (c0\<lparr> env_pc := va, env_paddr := pa,
       info := (clear_info ((info c0)\<lparr> inst := w, inst_size := s \<rparr>))\<lparr> exception := EXC_NONE \<rparr> \<rparr>)"
    using 1(2,3) keeps_interpreter [of p w rvc] by (simp add: keeps_def view_simps)
  then show ?case using fetch_frame(1) [OF 1(1)] by (simp add: view_def)
qed

lemma decode_size:
  fixes c :: "'d machine"
  assumes "decode p va pa c = Inr (sz, c1)"
  shows "sz = 2 \<or> sz = 4"
proof (rule decodeE [OF assms])
  fix w rvc s ok and c0 c' :: "'d machine"
  assume f: "fetch p pa (inst (info c)) c = Inr (w, rvc, s, c0)"
    and i: "interpreter p w rvc (c0\<lparr> env_pc := va, env_paddr := pa,
       info := (clear_info ((info c0)\<lparr> inst := w, inst_size := s \<rparr>))\<lparr> exception := EXC_NONE \<rparr> \<rparr>) = Inr (ok, c')" "c1 = check_irq c'"
  have "view c1 = view (c0\<lparr> env_pc := va, env_paddr := pa,
       info := (clear_info ((info c0)\<lparr> inst := w, inst_size := s \<rparr>))\<lparr> exception := EXC_NONE \<rparr> \<rparr>)"
    using i keeps_interpreter [of p w rvc] by (simp add: keeps_def view_simps)
  then have "inst_size (info c1) = s" by (simp add: view_def clear_info_def)
  moreover have "sz = inst_size (info c1)" using assms by (auto simp: decode_def rbind_eq_Inr Let_def)
  moreover have "s = 2 \<or> s = 4" using f by (auto simp: fetch_def rbind_eq_Inr Let_def)
  ultimately show ?thesis by simp
qed

lemma decode_slots:
  fixes c :: "'d machine"
  assumes "decode p va pa c = Inr (sz, c1)" "slots c"
  shows "slots c1"
proof (rule decodeE [OF assms(1)])
  fix w rvc s ok and c0 c' :: "'d machine"
  let ?c = "c0\<lparr> env_pc := va, env_paddr := pa,
       info := (clear_info ((info c0)\<lparr> inst := w, inst_size := s \<rparr>))\<lparr> exception := EXC_NONE \<rparr> \<rparr>"
  assume f: "fetch p pa (inst (info c)) c = Inr (w, rvc, s, c0)"
    and i: "interpreter p w rvc ?c = Inr (ok, c')" and c1: "c1 = check_irq c'"
  have "ready ?c"
    using assms(2) fetch_frame(2) [OF f]
    by (simp add: ready_def slots_ok_def clear_info_def slots_def slot_valid_def Let_def)
  then show "slots c1" using i c1 fills_interpreter [of p w rvc] by (auto simp: fills_def slot_simps)
qed

lemma decode_ok: "decode p va pa c = Inr (sz, c1) \<Longrightarrow> machine_ok c \<Longrightarrow> machine_ok c1"
  using decode_frame [of p va pa c sz c1] decode_slots [of p va pa c sz c1] core_eq [of "state c1" "state c"]
  by (simp add: machine_ok_def)

lemma handleException_ok: "machine_ok c \<Longrightarrow> machine_ok (handleException e va c)"
  by (simp add: handleException_def machine_ok_def slots_def info_defs)

lemma translate_ok:
  assumes "translateAddr p va ty pa e c = Inr (pa', e', c')" "machine_ok c"
  shows "machine_ok c'"
  using assms(2) view_translateAddr [OF assms(1)] info_translateAddr [OF assms(1)] core_eq [of "state c'" "state c"]
  by (simp add: machine_ok_def view_def slots_def)

section \<open>Commit\<close>

text \<open>What the three writes through offsets can change: everything but the privilege mode.\<close>

lemma csr_field_priv: "csr_field_rmw s off f = Some s' \<Longrightarrow> priv s' = priv s"
  by (auto simp: csr_field_rmw_def split: if_splits)

lemma arch_rmw_priv: "arch_rmw s idx m d = Some s' \<Longrightarrow> priv s' = priv s"
  by (auto simp: arch_rmw_def Let_def split: if_splits dest: csr_field_priv)

lemma rmw_slot_frame:
  "rmw_slot k c = Inr c' \<Longrightarrow> priv (state c') = priv (state c) \<and> info c' = info c \<and> memory c' = memory c"
  by (auto simp: rmw_slot_def split: option.splits dest: arch_rmw_priv)

lemma paddrWrite_frame:
  "paddrWrite p a n ty v c = Inr (ok, c') \<Longrightarrow> core (state c') = core (state c) \<and> info c' = info c"
  by (auto simp: paddrWrite_def mem_paddrWrite_def rbind_eq_Inr notify_def irqListener_def set_devices_def
      core_def split: option.splits if_splits)

lemma commit_mem_frame:
  "commit_mem p c = Inr c' \<Longrightarrow> core (state c') = core (state c) \<and> info c' = info c"
  using view_translateAddr info_translateAddr
  by (fastforce simp: commit_mem_def Let_def rbind_eq_Inr view_def split: inst_type.splits if_splits
      dest: paddrWrite_frame)

lemma updateMMUState_slots [slot_simps]: "slots (updateMMUState c) = slots c"
  by (simp add: slots_def)

lemma commit_ok:
  assumes "commit p c = Inr (pc, c')" "machine_ok c"
  shows "machine_ok c'"
proof -
  obtain c0 c1 c2 c3 where r: "rmw_slot 0 c = Inr c0" "rmw_slot 1 c0 = Inr c1" "rmw_slot 2 c1 = Inr c2"
      "commit_mem p c2 = Inr c3" and c': "c' = updateMMUState (upd_state (\<lambda>s. s\<lparr> gpr := (gpr s)(0 := 0) \<rparr>) c3)"
    using assms(1) by (auto simp: commit_def rbind_eq_Inr Let_def)
  have "info c3 = info c" "priv (state c3) = priv (state c)"
    using rmw_slot_frame [OF r(1)] rmw_slot_frame [OF r(2)] rmw_slot_frame [OF r(3)] commit_mem_frame [OF r(4)]
      core_eq(3) [of "state c3" "state c2"] by simp_all
  then show ?thesis
    using assms(2) by (simp add: machine_ok_def c' slots_def)
qed

lemma do_trap_ok:
  assumes "machine_ok c"
  shows "machine_ok (snd (do_trap e v c))"
  using assms
  by (auto simp: machine_ok_def do_trap_def Let_def slot_simps take_trap_def set_xtval_def)

lemma do_trap_snd: "do_trap e v c = (pc, c') \<Longrightarrow> machine_ok c \<Longrightarrow> machine_ok c'"
  using do_trap_ok [of c e v] by simp

lemma and_3_le: "(v :: u64) AND 3 \<le> 3"
  by (rule word_and_le1)

lemma do_ret_ok:
  assumes "machine_ok c"
  shows "machine_ok (snd (do_sret c))" "machine_ok (snd (do_mret c))"
  using assms and_3_le
  by (auto simp: machine_ok_def do_sret_def do_mret_def Let_def slot_simps)

lemma updateEnvE:
  assumes "updateEnv p c = Inr (pc, c')"
  obtains (trap) v where "do_trap (exception (info c)) v c = (pc, c')"
  | (sret) "do_sret c = (pc, c')" | (mret) "do_mret c = (pc, c')"
  | (commit) "exception (info c) = EXC_NONE" "commit p c = Inr (pc, c')"
  using assms unfolding updateEnv_def Let_def by (auto split: if_splits)

lemma updateEnv_ok: "updateEnv p c = Inr (pc, c') \<Longrightarrow> machine_ok c \<Longrightarrow> machine_ok c'"
  using do_ret_ok [of c] commit_ok [of p c pc c'] by (auto elim!: updateEnvE dest: do_trap_snd)

section \<open>Runs\<close>

text \<open>The calls of a cpu model to the Arch interface, in any order.\<close>

inductive arch_call :: "'d plat \<Rightarrow> 'd machine \<Rightarrow> 'd machine \<Rightarrow> bool" for p where
  translate: "translateAddr p va ty pa e c = Inr (pa', e', c') \<Longrightarrow> arch_call p c c'"
| decode: "decode p va pa c = Inr (sz, c') \<Longrightarrow> arch_call p c c'"
| fault: "arch_call p c (handleException e va c)"
| update: "updateEnv p c = Inr (pc, c') \<Longrightarrow> arch_call p c c'"
| count: "arch_call p c (c\<lparr> tick := t, instret := n \<rparr>)"

inductive arch_calls :: "'d plat \<Rightarrow> 'd machine \<Rightarrow> 'd machine \<Rightarrow> bool" for p where
  stop: "arch_calls p c c"
| more: "arch_call p c c1 \<Longrightarrow> arch_calls p c1 c2 \<Longrightarrow> arch_calls p c c2"

lemma arch_call_ok: "arch_call p c c' \<Longrightarrow> machine_ok c \<Longrightarrow> machine_ok c'"
proof (induction rule: arch_call.induct)
  case (count c t n)
  then show ?case by (simp add: machine_ok_def slots_def)
qed (auto intro: translate_ok decode_ok handleException_ok updateEnv_ok)

lemma arch_calls_ok: "arch_calls p c c' \<Longrightarrow> machine_ok c \<Longrightarrow> machine_ok c'"
  by (induction rule: arch_calls.induct) (auto intro: arch_call_ok)

lemma arch_calls_trans: "arch_calls p a b \<Longrightarrow> arch_calls p b c \<Longrightarrow> arch_calls p a c"
  by (induction rule: arch_calls.induct) (auto intro: arch_calls.more)

lemma arch_calls_one: "arch_call p a b \<Longrightarrow> arch_calls p a b"
  by (rule arch_calls.more [OF _ arch_calls.stop])

text \<open>AtomicCPU::exec is such a sequence.\<close>

lemma atomic_exec_calls:
  assumes "atomic_exec p pc c = Inr (pc', c')"
  shows "arch_calls p c c'"
proof -
  obtain pa e c1 where t: "translateAddr p pc IFETCH (uninit p) EXC_NONE c = Inr (pa, e, c1)"
    using assms by (auto simp: atomic_exec_def rbind_eq_Inr)
  then have r: "rbind (if e \<noteq> 0 then Inr (handleException e pc c1) else rbind (decode p pc pa c1) (\<lambda>(sz, c). Inr c))
      (\<lambda>c. rbind (updateEnv p c) (\<lambda>(pc', c). Inr (pc', c\<lparr> tick := tick c + 1, instret := instret c + 1 \<rparr>)))
      = Inr (pc', c')"
    using assms by (simp add: atomic_exec_def)
  obtain c2 where "(if e \<noteq> 0 then Inr (handleException e pc c1) else rbind (decode p pc pa c1) (\<lambda>(sz, c). Inr c)) = Inr c2"
    and r: "rbind (updateEnv p c2) (\<lambda>(pc', c). Inr (pc', c\<lparr> tick := tick c + 1, instret := instret c + 1 \<rparr>)) = Inr (pc', c')"
    using r unfolding rbind_eq_Inr by blast
  then have d: "c2 = handleException e pc c1 \<or> (\<exists>sz. decode p pc pa c1 = Inr (sz, c2))"
    by (auto simp: rbind_eq_Inr split: if_splits)
  obtain c3 where u: "updateEnv p c2 = Inr (pc', c3)" and c': "c' = c3\<lparr> tick := tick c3 + 1, instret := instret c3 + 1 \<rparr>"
    using r unfolding rbind_eq_Inr by auto
  have "arch_call p c c1" "arch_call p c2 c3" "arch_call p c3 c'"
    unfolding c' by (rule arch_call.intros t u)+
  moreover have "arch_call p c1 c2" using d by (auto intro: arch_call.intros)
  ultimately show ?thesis by (blast intro: arch_calls.intros)
qed

section \<open>Precise exceptions\<close>

text \<open>Whatever updateEnv does for an instruction that carries an exception, an interrupt or a return.\<close>

lemma updateEnv_exception_frame:
  assumes "updateEnv p c = Inr (pc, c')" "exception (info c) \<noteq> EXC_NONE"
  shows "gpr (state c') = gpr (state c)" "fpr (state c') = fpr (state c)" "memory c' = memory c"
    "satp (state c') = satp (state c)" "load_res (state c') = load_res (state c)"
proof (atomize (full), goal_cases)
  case 1
  show ?case
    using assms(2) by (rule_tac updateEnvE [OF assms(1)])
      (auto simp: do_trap_def do_sret_def do_mret_def Let_def take_trap_def set_xtval_def)
qed

lemma step_exception_frame:
  assumes "decode p va pa c = Inr (sz, c1)" "exception (info c1) \<noteq> EXC_NONE" "updateEnv p c1 = Inr (pc, c2)"
  shows "gpr (state c2) = gpr (state c)" "fpr (state c2) = fpr (state c)" "ram (memory c2) = ram (memory c)"
    "satp (state c2) = satp (state c)" "load_res (state c2) = load_res (state c)"
  using updateEnv_exception_frame [OF assms(3,2)] decode_frame(1,2) [OF assms(1)] core_eq [of "state c1" "state c"]
  by simp_all

text \<open>After decode the register part of the commit cannot leave ArchState.\<close>

lemma commit_registers:
  assumes "slots c"
  shows "\<exists>c3. rbind (rmw_slot 0 c) (\<lambda>c. rbind (rmw_slot 1 c) (rmw_slot 2)) = Inr c3"
proof -
  obtain c1 where 1: "rmw_slot 0 c = Inr c1" using slots_commit [OF assms, of 0] by auto
  then have "slots c1" using assms rmw_slot_frame [OF 1] by (simp add: slots_def)
  then obtain c2 where 2: "rmw_slot 1 c1 = Inr c2" using slots_commit [of c1 1] by auto
  then have "slots c2" using \<open>slots c1\<close> rmw_slot_frame [OF 2] by (simp add: slots_def)
  then obtain c3 where "rmw_slot 2 c2 = Inr c3" using slots_commit [of c2 2] by auto
  then show ?thesis using 1 2 by (intro exI [of _ c3]) (simp add: numeral_2_eq_2)
qed

end
