(* ===== verification/Pipeline_Inv.thy ===== *)
theory Pipeline_Inv
  imports Emu Core_Props
begin

text \<open>
  The pipelined cpu executes one instruction after the other: whatever the caches, the predictor and the
  devices do, every instruction it commits is the one at the address the previous commit left, decoded in
  the state the previous commit left.  The sequential machine is stated first, then the invariant of the
  front of the pipeline (the ring of fetch requests against the state of the instruction cache, and what
  the decode stage holds), then its preservation, stage by stage.
\<close>

section \<open>The sequential machine\<close>

text \<open>What only a commit changes.\<close>

definition arch :: "'d machine \<Rightarrow> arch_state \<times> (u64 \<Rightarrow> u8) \<times> u64 \<times> bool \<times> bool" where
  "arch c = (core (state c), ram (memory c), mem_size (memory c), ifetch_mmu_state c, data_mmu_state c)"

text \<open>The DecodeInfo of the instruction at pc in the state of c.\<close>

definition decoded :: "'d plat \<Rightarrow> u64 \<Rightarrow> 'd machine \<Rightarrow> decode_info \<Rightarrow> bool" where
  "decoded p pc c i \<longleftrightarrow> (\<exists>pa0 c0 pa c1 j sz c2. arch c0 = arch c \<and>
     translateAddr p pc IFETCH pa0 EXC_NONE c0 = Inr (pa, EXC_NONE, c1) \<and>
     decode p pc pa (c1\<lparr> info := j \<rparr>) = Inr (sz, c2) \<and> info c2 = i)"

text \<open>The machine c1 is c with the instruction at pc in its DecodeInfo, or with the page fault of its fetch.\<close>

definition fetched :: "'d plat \<Rightarrow> u64 \<Rightarrow> 'd machine \<Rightarrow> 'd machine \<Rightarrow> bool" where
  "fetched p pc c c1 \<longleftrightarrow> arch c1 = arch c \<and> env_pc c1 = pc \<and>
     (decoded p pc c (info c1) \<or> exception (info c1) = EXC_IPF \<and> exc_data (info c1) = pc)"

inductive seq_step :: "'d plat \<Rightarrow> u64 \<times> 'd machine \<Rightarrow> u64 \<times> 'd machine \<Rightarrow> bool" for p where
  quiet: "arch c' = arch c \<Longrightarrow> seq_step p (pc, c) (pc, c')"
| commit: "fetched p pc c c1 \<Longrightarrow> updateEnv p c1 = Inr (pc', c') \<Longrightarrow> seq_step p (pc, c) (pc', c')"

definition steps :: "'d plat \<Rightarrow> 'd pipe \<Rightarrow> 'd pipe \<Rightarrow> bool" where
  "steps p s s' \<longleftrightarrow> (seq_step p)\<^sup>*\<^sup>* (cpu_pc s, cpu_arch s) (cpu_pc s', cpu_arch s')"

lemma steps_refl [simp]: "steps p s s"
  by (simp add: steps_def)

lemma steps_trans [trans]: "steps p s s' \<Longrightarrow> steps p s' s'' \<Longrightarrow> steps p s s''"
  by (simp add: steps_def)

lemma steps_quiet: "cpu_pc s' = cpu_pc s \<Longrightarrow> arch (cpu_arch s') = arch (cpu_arch s) \<Longrightarrow> steps p s s'"
  by (auto simp: steps_def intro: quiet r_into_rtranclp)

lemma steps_commit:
  "fetched p (cpu_pc s) (cpu_arch s) c1 \<Longrightarrow> updateEnv p c1 = Inr (cpu_pc s', cpu_arch s') \<Longrightarrow> steps p s s'"
  unfolding steps_def by (rule r_into_rtranclp) (rule seq_step.commit)

section \<open>The machine under the calls of the stages\<close>

lemma arch_view: "view c' = view c \<Longrightarrow> arch c' = arch c \<and> env_pc c' = env_pc c"
  by (simp add: view_def arch_def)

lemma arch_info [simp]: "arch (c\<lparr> info := i \<rparr>) = arch c" "arch (c\<lparr> tick := t \<rparr>) = arch c"
  "arch (c\<lparr> instret := t \<rparr>) = arch c" "arch (c\<lparr> env_pc := t \<rparr>) = arch c"
  by (simp_all add: arch_def)

lemma translate_frame:
  assumes "translateAddr p va ty pa e c = Inr (pa', e', c')"
  shows "arch c' = arch c" "env_pc c' = env_pc c" "info c' = info c" "e' = e \<or> e' = exc_pf ty"
  using arch_view [OF view_translateAddr [OF assms]] info_translateAddr [OF assms] assms
  by (auto simp: translateAddr_def rbind_eq_Inr split: if_splits option.splits)

lemma info_updateMMUState [simp]: "info (updateMMUState c) = info c"
  by (simp add: updateMMUState_def Let_def)

lemma updateEnv_info:
  assumes "updateEnv p c = Inr (pc, c')"
  shows "info c' = info c"
  using assms
proof (cases rule: updateEnvE)
  case commit
  obtain c0 c1 c2 c3 where r: "rmw_slot 0 c = Inr c0" "rmw_slot 1 c0 = Inr c1" "rmw_slot 2 c1 = Inr c2"
      "commit_mem p c2 = Inr c3" and c': "c' = updateMMUState (upd_state (\<lambda>s. s\<lparr> gpr := (gpr s)(0 := 0) \<rparr>) c3)"
    using commit(2) by (auto simp: commit_def rbind_eq_Inr Let_def)
  then show ?thesis
    using rmw_slot_frame [OF r(1)] rmw_slot_frame [OF r(2)] rmw_slot_frame [OF r(3)] commit_mem_frame [OF r(4)]
    by (simp add: upd_state_def)
qed (auto simp: do_trap_def do_sret_def do_mret_def Let_def upd_state_def)

lemma decoded_cong: "arch c' = arch c \<Longrightarrow> decoded p pc c' i = decoded p pc c i"
  by (simp add: decoded_def)

lemma handle_frame:
  shows [simp]: "arch (handleException e pc c) = arch c"
    and "e = EXC_IPF \<Longrightarrow> env_pc (handleException e pc c) = pc \<and> exception (info (handleException e pc c)) = EXC_IPF \<and>
     exc_data (info (handleException e pc c)) = pc"
  by (simp_all add: handleException_def set_exception_def set_exc_data_def upd_info_def arch_def)

section \<open>The invariant\<close>

text \<open>The instruction cache has accepted a request for which it will call the cpu.\<close>

definition owes :: "icache \<Rightarrow> bool" where
  "owes ic \<longleftrightarrow> idle_req_valid ic \<or> cstate ic = LOOKUP \<and> \<not> matched ic \<or> cstate ic = MISS"

definition idle_ok :: "icache \<Rightarrow> bool" where
  "idle_ok ic \<longleftrightarrow> (idle_req_valid ic \<longrightarrow> \<not> flush_valid ic \<and> (cstate ic = IDLE \<or> cstate ic = LOOKUP \<and> matched ic))"

text \<open>Nothing but a fetch page fault is recorded for the instruction yet.\<close>

definition clean :: "nat \<Rightarrow> 'd pipe \<Rightarrow> bool" where
  "clean i s \<longleftrightarrow> inst_exception i s = EXC_NONE \<or> inst_exception i s = EXC_IPF"

text \<open>
  The requests in the ring of n entries from h to t: the one the fetch stage holds is the last, and
  before it is the one the cache owes an answer for.
\<close>

definition fetch_queue :: "'d pipe \<Rightarrow> bool \<Rightarrow> nat \<Rightarrow> nat \<Rightarrow> bool" where
  "fetch_queue s ow h t \<longleftrightarrow> (let n = retire_size s; w = fetch_cache_req s in
     3 \<le> n \<and> ring [0..<n] h t (cache_req_list s) \<and>
     (if fetch_valid s then w < n \<and> clean w s \<and> t = (w + 1) mod n \<and> (if ow then w = (h + 1) mod n \<and> clean h s else w = h)
      else h = t \<and> \<not> ow))"

text \<open>What the decode stage holds: the instruction at the pc, decoded in the present state, or a fetch page fault.\<close>

definition id_ready :: "'d plat \<Rightarrow> 'd pipe \<Rightarrow> bool" where
  "id_ready p s \<longleftrightarrow> inst_exception (id_inst s) s = EXC_IPF \<or>
     env_inst s = id_inst s \<and> env_pc (cpu_arch s) = cpu_pc s \<and>
     decoded p (cpu_pc s) (cpu_arch s) (i_info (cpu_insts s (id_inst s)))"

text \<open>Nothing is left over in the decode stage from another fetch: the branch of the callback for that is never taken.\<close>

definition id_inv :: "'d plat \<Rightarrow> 'd pipe \<Rightarrow> bool \<Rightarrow> bool" where
  "id_inv p s ow \<longleftrightarrow> (ow \<longrightarrow> \<not> id_valid s \<and> \<not> id_stall_valid s) \<and>
     \<not> id_stall_inst_valid s \<and> id_stall_dec_more s = id_stall_valid s \<and> (id_stall_valid s \<longrightarrow> 0 < id_remain_size s) \<and>
     (\<not> id_valid s \<and> 0 < id_remain_size s \<and> \<not> id_wait_redirect s \<longrightarrow> clean (id_inst s) s) \<and>
     (id_valid s \<and> \<not> id_wait_redirect s \<longrightarrow> id_ready p s)"

definition front_inv :: "'d plat \<Rightarrow> 'd pipe \<Rightarrow> bool \<Rightarrow> bool" where
  "front_inv p s ow \<longleftrightarrow> id_inv p s ow \<and> (\<exists>h t. fetch_queue s ow h t \<and> (id_valid s \<and> \<not> fetch_valid s \<longrightarrow> id_inst s \<noteq> t))"

text \<open>The parts of the pipeline it speaks of.\<close>

definition front :: "'d pipe \<Rightarrow> _" where
  "front s = ((retire_size s, cache_req_list s, fetch_valid s, fetch_cache_req s),
     (id_valid s, id_stall_valid s, id_stall_dec_more s, id_stall_inst_valid s, id_inst s, id_remain_size s, id_wait_redirect s),
     (env_inst s, cpu_pc s, \<lambda>i. i_info (cpu_insts s i)), arch (cpu_arch s), env_pc (cpu_arch s))"

lemma front_frame:
  assumes "front s' = front s" "front_inv p s ow"
  shows "front_inv p s' ow \<and> steps p s s'"
proof -
  have e: "retire_size s' = retire_size s" "cache_req_list s' = cache_req_list s" "fetch_valid s' = fetch_valid s"
    "fetch_cache_req s' = fetch_cache_req s" "id_valid s' = id_valid s" "id_stall_valid s' = id_stall_valid s"
    "id_stall_dec_more s' = id_stall_dec_more s" "id_stall_inst_valid s' = id_stall_inst_valid s"
    "id_inst s' = id_inst s" "id_remain_size s' = id_remain_size s" "id_wait_redirect s' = id_wait_redirect s"
    "env_inst s' = env_inst s" "cpu_pc s' = cpu_pc s" "i_info (cpu_insts s' i) = i_info (cpu_insts s i)"
    "arch (cpu_arch s') = arch (cpu_arch s)" "env_pc (cpu_arch s') = env_pc (cpu_arch s)" for i
    using assms(1) by (simp_all add: front_def fun_eq_iff)
  have c: "inst_exception i s' = inst_exception i s" "clean i s' = clean i s" for i
    by (simp_all add: inst_exception_def clean_def e)
  have "id_ready p s' = id_ready p s" using decoded_cong [OF e(15)] by (simp add: id_ready_def c e)
  then have "id_inv p s' ow = id_inv p s ow" by (simp add: id_inv_def c e)
  moreover have "fetch_queue s' ow h t = fetch_queue s ow h t" for h t
    unfolding fetch_queue_def Let_def c e ..
  ultimately show ?thesis
    using assms(2) by (simp add: front_inv_def e steps_quiet)
qed

section \<open>The instruction cache calls the cpu once for each request\<close>

lemma redirect_owes [simp]:
  "cstate (icache_redirect c) = IDLE" "\<not> idle_req_valid (icache_redirect c)" "\<not> owes (icache_redirect c)"
  "matched (icache_redirect c) = matched c"
  by (auto simp: icache_redirect_def owes_def Let_def)

lemma call_client_cases:
  "call_client e c cl = (c', cl') \<Longrightarrow> (c' = c \<or> c' = icache_redirect c) \<and> (\<exists>ids. cl' = snd (callback0 e ids cl))"
  by (auto simp: call_client_def split: prod.splits if_splits) (metis snd_conv)+

lemma handleIdleReq_owes:
  assumes "handleIdleReq e h c cl = Inr (c', cl')" "cstate c = IDLE \<or> cstate c = LOOKUP"
  shows "\<not> idle_req_valid c' \<and> cstate c' \<noteq> MISS \<and> cstate c' \<noteq> REFILL \<and>
    (cl' = cl \<and> \<not> matched c' \<and> cstate c' = cstate c \<or> matched c' \<and> (\<exists>ids. cl' = snd (callback0 e ids cl)))"
proof -
  obtain t s off where sp: "splitAddr (geom c) (addr (h (idle_req c))) = (t, s, off)" by (metis prod.exhaust)
  let ?c = "c\<lparr> lookup_req := (lookup_req c)\<lparr> addr := addr (h (idle_req c)),
      req_id := (req_id (lookup_req c))(0 := req_id (h (idle_req c)) 0) \<rparr>, idle_req_valid := False,
      lookup_tag := t, lookup_set := s, matched := match (tagvs c) t (unat s) \<noteq> None \<rparr>"
  have "(if matched ?c then call_client e ?c cl else (?c, cl)) = (c', cl')"
    using assms(1) sp by (simp add: handleIdleReq_def Let_def split: if_splits)
  then obtain c1 where c1: "\<not> idle_req_valid c1" "cstate c1 = cstate c"
      "(if matched c1 then call_client e c1 cl else (c1, cl)) = (c', cl')"
    by (rule_tac that [of ?c]) simp_all
  show ?thesis
  proof (cases "matched c1")
    case True
    then have "call_client e c1 cl = (c', cl')" using c1(3) by simp
    from call_client_cases [OF this] c1 assms(2) True show ?thesis by auto
  qed (use c1 assms(2) in auto)
qed

lemma icache_tick_owes:
  assumes "icache_tick e h (c, cl, q) = Inr (c', cl', q')" "idle_ok c"
  shows "\<not> idle_req_valid c' \<and>
    (cl' = cl \<and> owes c' = owes c \<or> owes c \<and> \<not> owes c' \<and> (\<exists>ids. cl' = snd (callback0 e ids cl)))"
proof (cases "flush_valid c")
  case True
  then show ?thesis
    using assms by (auto simp: icache_tick_def rbind_eq_Inr flush_step_def Let_def idle_ok_def owes_def split: if_splits)
next
  case False
  show ?thesis
  proof (cases "cstate c")
    case IDLE
    then show ?thesis
      using assms False by (auto simp: icache_tick_def rbind_eq_Inr owes_def split: if_splits dest!: handleIdleReq_owes)
  next
    case LOOKUP
    then show ?thesis
      using assms False
      by (auto simp: icache_tick_def rbind_eq_Inr owes_def idle_ok_def send_miss_def Let_def
          split: if_splits prod.splits dest!: handleIdleReq_owes)
  qed (use assms False in \<open>auto simp: icache_tick_def owes_def idle_ok_def\<close>)
qed

lemma call_client_owes:
  assumes "call_client e c cl = (c', cl')" "\<not> idle_req_valid c" "cstate c = REFILL"
  shows "\<not> owes c' \<and> \<not> idle_req_valid c' \<and> (\<exists>ids. cl' = snd (callback0 e ids cl))"
  using call_client_cases [OF assms(1)] assms(2,3) by (auto simp: owes_def)

lemma icache_fill_owes:
  assumes "icache_fill e c cl = Inr (c', cl')" "icache_inv 1 c" "idle_ok c"
  shows "idle_ok c' \<and>
    (cl' = cl \<and> owes c' = owes c \<or> owes c \<and> \<not> owes c' \<and> (\<exists>ids. cl' = snd (callback0 e ids cl)))"
proof (cases "req_clear_wait c")
  case True
  then show ?thesis
    using assms by (auto simp: icache_fill_def Let_def idle_ok_def owes_def split: if_splits)
next
  case False
  then have m: "cstate c = MISS" using assms(2) by (auto simp: icache_inv_def)
  obtain c1 c2 where c: "call_client e c1 cl = (c2, cl')" "c' = c2\<lparr> in_callback := False \<rparr>" "cstate c1 = REFILL"
      "idle_req_valid c1 = idle_req_valid c"
    using assms(1) False by (auto simp: icache_fill_def Let_def split: if_splits prod.splits)
  have "\<not> idle_req_valid c" using m assms(3) by (auto simp: idle_ok_def)
  from call_client_owes [OF c(1)] this c(2-4) m show ?thesis by (auto simp: owes_def idle_ok_def)
qed

lemma flush_owes [simp]: "owes (icache_flush c) = owes c" "idle_req_valid (icache_flush c) = idle_req_valid c"
  by (auto simp: icache_flush_def owes_def)

lemma lookup_owes:
  "icache_lookup r c = (True, c') \<Longrightarrow> \<not> idle_req_valid c \<Longrightarrow> \<not> owes c \<and> owes c' \<and> idle_ok c'"
  "icache_lookup r c = (False, c') \<Longrightarrow> c' = c"
  by (auto simp: icache_lookup_def owes_def idle_ok_def split: if_splits)

end
