(* ===== verification/Pipeline_Props.thy ===== *)
theory Pipeline_Props
  imports Pipeline_Inv
begin

text \<open>
  Every stage of the pipeline, the callbacks of its caches and the actions of the memory keep the invariant
  of Pipeline_Inv and take no step that the sequential machine cannot take.
\<close>

section \<open>What a stage keeps\<close>

text \<open>The invariant holds again, and the sequential machine can follow.\<close>

definition front_ok :: "'d plat \<Rightarrow> 'd pipe \<Rightarrow> icache \<Rightarrow> 'd pipe \<Rightarrow> icache \<Rightarrow> bool" where
  "front_ok p s ic s' ic' \<longleftrightarrow> front_inv p s' (owes ic') \<and> steps p s s' \<and> \<not> idle_req_valid ic'"

lemma front_okI:
  "front s' = front s \<Longrightarrow> owes ic' = owes ic \<Longrightarrow> \<not> idle_req_valid ic' \<Longrightarrow> front_inv p s (owes ic) \<Longrightarrow> front_ok p s ic s' ic'"
  using front_frame [of s' s] by (simp add: front_ok_def)

lemma front_ok_trans: "front_ok p s ic s' ic' \<Longrightarrow> front_ok p s' ic' s'' ic'' \<Longrightarrow> front_ok p s ic s'' ic''"
  by (auto simp: front_ok_def intro: steps_trans)

lemma front_ok_same: "front_ok p s ic s1 ic1 \<Longrightarrow> front s' = front s1 \<Longrightarrow> front_ok p s ic s' ic1"
  using front_frame [of s' s1 p "owes ic1"] by (auto simp: front_ok_def intro: steps_trans)

section \<open>Redirects\<close>

lemma drained_ring: "ring ds h t l \<Longrightarrow> drained l = Inr l' \<Longrightarrow> ring ds t t l'"
  using ring_drain [of ds h t l] by (auto simp: drained_def)

lemma front_ringE:
  assumes "front_inv p s ow"
  obtains h t where "3 \<le> retire_size s" "ring [0..<retire_size s] h t (cache_req_list s)"
  using assms by (auto simp: front_inv_def fetch_queue_def Let_def)

lemma front_flushed:
  "3 \<le> retire_size s \<Longrightarrow> ring [0..<retire_size s] t t (cache_req_list s) \<Longrightarrow> \<not> fetch_valid s \<Longrightarrow> \<not> id_valid s \<Longrightarrow>
   \<not> id_stall_valid s \<Longrightarrow> \<not> id_stall_dec_more s \<Longrightarrow> \<not> id_stall_inst_valid s \<Longrightarrow> id_remain_size s = 0 \<Longrightarrow> front_inv p s False"
  by (auto simp: front_inv_def id_inv_def fetch_queue_def Let_def)

lemma upd_front: "(\<And>x. i_info (f x) = i_info x) \<Longrightarrow> front (upd_inst i f s) = front s"
  by (auto simp: front_def upd_inst_def)

lemma brRedirect_front:
  assumes "brRedirect i s = Inr s'" "front_inv p s ow"
  shows "front_inv p s' False \<and> steps p s s'"
proof -
  obtain h t where r: "3 \<le> retire_size s" "ring [0..<retire_size s] h t (cache_req_list s)"
    using assms(2) by (rule front_ringE)
  show ?thesis
    using assms(1) r drained_ring [OF r(2)]
    by (auto simp: brRedirect_def Let_def rbind_eq_Inr intro!: front_flushed steps_quiet)
qed

lemma excRedirect_front:
  assumes "excRedirect i s = Inr s'" "front_inv p s ow"
  shows "steps p s s' \<and> (\<forall>f. front_inv p (s'\<lparr> cpu_insts := f \<rparr>) False)"
proof -
  obtain h t where r: "3 \<le> retire_size s" "ring [0..<retire_size s] h t (cache_req_list s)"
    using assms(2) by (rule front_ringE)
  show ?thesis
    using assms(1) r drained_ring [OF r(2)]
    by (auto simp: excRedirect_def Let_def rbind_eq_Inr intro!: front_flushed steps_quiet)
qed

lemma frontRedirectE:
  assumes "frontRedirect i s = Inr s'" "ring [0..<retire_size s] h t (cache_req_list s)"
  obtains pr l where "ring [0..<retire_size s] t t l"
    "s' = s\<lparr> id_stall_valid := False, id_stall_dec_more := False, id_stall_inst_valid := False, id_remain_size := 0,
             fetch_valid := False, cpu_pred := pr, cache_req_list := l, pred_pc := i_real_target (cpu_insts s i) \<rparr>"
  using assms drained_ring [OF assms(2)] by (auto simp: frontRedirect_def Let_def rbind_eq_Inr)

section \<open>The stages behind decode\<close>

lemma set_same_exception: "inst_exception i s = e \<Longrightarrow> (i_info (cpu_insts s i))\<lparr> exception := e \<rparr> = i_info (cpu_insts s i)"
  by (simp add: inst_exception_def)

lemma wb_front:
  assumes "wb_stage (s, ic, dc) = Inr (s', ic', dc')" "front_inv p s (owes ic)" "\<not> idle_req_valid ic"
  shows "front_ok p s ic s' ic'"
proof (cases "wb_valid s")
  case True
  let ?i = "wb_inst s"
  show ?thesis
  proof (cases "exceptionValid (inst_exception ?i s)")
    case e: True
    let ?s = "upd_inst ?i (\<lambda>x. x\<lparr> i_result := (if inst_exception ?i s AND IRQ_MASK \<noteq> 0 then R_INTERRUPT else R_EXCEPTION) \<rparr>) s"
    obtain s1 where s1: "excRedirect ?i ?s = Inr s1" and ic: "ic' = icache_redirect ic"
      and s': "s' = (let s = upd_inst ?i (\<lambda>x. set_inst_exception EXC_NONE (x\<lparr> i_result := R_NORMAL \<rparr>)) (s1\<lparr> wb_valid := False \<rparr>)
         in s\<lparr> cpu_arch := (cpu_arch s)\<lparr> instret := instret (cpu_arch s) + 1 \<rparr>, wb_tick := tick (cpu_arch s) \<rparr>)"
      using assms(1) True e by (auto simp: wb_stage_def Let_def rbind_eq_Inr)
    have f: "front_inv p ?s (owes ic)" "steps p s ?s"
      using front_frame [OF upd_front assms(2)] by simp_all
    from excRedirect_front [OF s1 f(1)]
    have x: "steps p ?s s1" "front_inv p (s1\<lparr> cpu_insts := cpu_insts s' \<rparr>) False" by auto
    have "front s' = front (s1\<lparr> cpu_insts := cpu_insts s' \<rparr>)"
      by (simp add: s' front_def upd_inst_def Let_def)
    moreover have "steps p s1 (s1\<lparr> cpu_insts := cpu_insts s' \<rparr>)" by (rule steps_quiet) simp_all
    ultimately show ?thesis
      using front_frame [OF _ x(2), of s'] f(2) x(1) by (auto simp: ic front_ok_def intro: steps_trans)
  next
    case e: False
    then have "front s' = front s" "ic' = ic"
      using assms(1) True set_same_exception [of ?i s EXC_NONE]
      by (auto simp: wb_stage_def Let_def front_def upd_inst_def set_inst_exception_def exceptionValid_def inst_exception_def)
    then show ?thesis using assms(2,3) by (auto intro: front_okI)
  qed
qed (use assms in \<open>simp add: wb_stage_def front_ok_def\<close>)

lemma mem_front: "mem_stage s = Inr s' \<Longrightarrow> front s' = front s"
  by (auto simp: mem_stage_def Let_def front_def split: if_splits)

lemma dcache_callback_front: "dcache_callback ids s = Inr s' \<Longrightarrow> front s' = front s"
  by (auto simp: dcache_callback_def rbind_eq_Inr front_def split: if_splits)

lemma exe_update_front: "exe_update b s = Inr s' \<Longrightarrow> front s' = front s"
  by (auto simp: exe_update_def Let_def rbind_eq_Inr front_def)

lemma exe_sc_fail_front: "exe_sc_fail m s = Inr s' \<Longrightarrow> front s' = front s"
  by (auto simp: exe_sc_fail_def Let_def rbind_eq_Inr front_def upd_inst_def split: if_splits)

lemma exe_access_front:
  assumes "exe_access p ty rq m s dc = Inr (s', dc')"
  shows "front s' = front s"
proof -
  obtain pa e c where t: "translateAddr p (exc_data (i_info (cpu_insts s (exe_inst s)))) ty (uninit p) (uninit p) (cpu_arch s) = Inr (pa, e, c)"
    using assms by (auto simp: exe_access_def Let_def rbind_eq_Inr)
  then show ?thesis
    using assms translate_frame(1,2) [OF t]
    by (auto simp: exe_access_def Let_def rbind_eq_Inr front_def upd_inst_def split: prod.splits if_splits)
qed

lemma exe_mispredict_front:
  assumes "exe_mispredict s ic = Inr (s', ic')" "front_inv p s (owes ic)"
  shows "front_ok p s ic s' ic'"
proof -
  let ?s = "upd_inst (exe_inst s) (\<lambda>x. x\<lparr> i_result := R_PRED_FAIL \<rparr>) s"
  have f: "front_inv p ?s (owes ic)" "steps p s ?s"
    using front_frame [OF upd_front assms(2)] by simp_all
  then show ?thesis
    using assms(1) brRedirect_front [OF _ f(1)]
    by (auto simp: exe_mispredict_def rbind_eq_Inr front_ok_def intro: steps_trans)
qed

lemma exe_issue_front:
  assumes "exe_issue p (s, ic, dc) = Inr (s', ic', dc')" "front_inv p s (owes ic)" "\<not> idle_req_valid ic"
  shows "front_ok p s ic s' ic'"
proof -
  have same: "front_ok p s ic s' ic'" if "front s' = front s" "ic' = ic \<or> ic' = icache_flush ic"
    using that assms(2,3) by (auto intro!: front_okI)
  have upd: "front_ok p s ic s' ic'"
    if "exe_update b s1 = Inr s'" "ic' = ic1" "exe_mispredict s ic = Inr (s1, ic1) \<or> (s1, ic1) = (s, ic)" for b s1 ic1
  proof -
    have "front_ok p s ic s1 ic1"
      using that(3) exe_mispredict_front [OF _ assms(2)] assms(2,3) by (auto intro: front_okI)
    then show ?thesis using exe_update_front [OF that(1)] that(2) by (auto intro: front_ok_same)
  qed
  have fr: "front (s\<lparr> exe_end := b \<rparr>) = front s" "front (s\<lparr> exe_stall_cycle := n \<rparr>) = front s" for b n
    by (simp_all add: front_def)
  let ?nf = "i_info (cpu_insts s (exe_inst s))"
  let ?t = "itype ?nf"
  show ?thesis
  proof (cases "exceptionValid (exception ?nf)")
    case True
    then show ?thesis using assms(1) by (intro same) (auto simp: exe_issue_def Let_def fr)
  next
    case False
    then obtain m where m: "ll_back (mem_req_list s) = Inr m"
      using assms(1) by (auto simp: exe_issue_def Let_def rbind_eq_Inr)
    show ?thesis
    proof (cases "stall_delay s ?t")
      case (Some d)
      then show ?thesis using assms(1) False m by (intro same) (auto simp: exe_issue_def Let_def fr)
    next
      case None
      note u = assms(1) [unfolded exe_issue_def Let_def prod.case m rbind_Inr None option.case if_not_P [OF False]]
      consider (jump) "?t = T_COND \<or> is_jump ?t \<or> ?t = T_DIRECT \<or> ?t = T_PUSH"
        | (other) "\<not> (?t = T_COND \<or> is_jump ?t \<or> ?t = T_DIRECT \<or> ?t = T_PUSH)" by blast
      then show ?thesis
      proof cases
        case jump
        then obtain b s1 ic1 where "exe_update b s1 = Inr s'" "ic' = ic1"
            "exe_mispredict s ic = Inr (s1, ic1) \<or> (s1, ic1) = (s, ic)"
          using u by (auto simp: rbind_eq_Inr split: if_splits)
        then show ?thesis by (rule upd)
      next
        case other
        then show ?thesis
          using u
          by (intro same) (auto simp: rbind_eq_Inr fr split: if_splits dest: exe_access_front exe_sc_fail_front)
      qed
    qed
  qed
qed

lemma exe_front:
  assumes "exe_stage p (s, ic, dc) = Inr (s', ic', dc')" "front_inv p s (owes ic)" "\<not> idle_req_valid ic"
  shows "front_ok p s ic s' ic'"
proof (cases "exe_valid s")
  case True
  then obtain s1 ic1 dc1 where
    a: "(if exe_stall_cycle s \<noteq> 0
         then let n = exe_stall_cycle s - 1 in Inr (s\<lparr> exe_stall_cycle := n, exe_end := exe_end s \<or> n = 0 \<rparr>, ic, dc)
         else if \<not> exe_end s then exe_issue p (s, ic, dc) else Inr (s, ic, dc)) = Inr (s1, ic1, dc1)"
    and b: "s' = (if exe_end s1 \<and> \<not> mem_valid s1
           then s1\<lparr> exe_end := False, exe_valid := False, mem_valid := True, mem_inst := exe_inst s1 \<rparr> else s1)" "ic' = ic1"
    using assms(1) by (auto simp: exe_stage_def rbind_eq_Inr)
  have 1: "front_ok p s ic s1 ic1"
    using a assms(2,3) exe_issue_front [of p s ic dc s1 ic1 dc1]
    by (auto simp: Let_def front_def split: if_splits intro!: front_okI)
  have "front s' = front s1" by (simp add: b front_def)
  then show ?thesis using front_ok_same [OF 1] b(2) by simp
qed (use assms in \<open>auto simp: exe_stage_def intro: front_okI\<close>)

section \<open>preId\<close>

text \<open>preId writes the instruction of the decode stage and what it asks the core and the predictor, nothing else.\<close>

definition decode_only :: "'d pipe \<Rightarrow> 'd pipe \<Rightarrow> bool" where
  "decode_only s s' \<longleftrightarrow> s' = s\<lparr> id_inst := id_inst s', id_remain_size := id_remain_size s', id_extra_idx := id_extra_idx s',
       cpu_insts := cpu_insts s', cpu_arch := cpu_arch s', env_inst := env_inst s', cpu_pred := cpu_pred s' \<rparr> \<and>
     (\<forall>k. k \<noteq> id_inst s' \<longrightarrow> i_info (cpu_insts s' k) = i_info (cpu_insts s k)) \<and> arch (cpu_arch s') = arch (cpu_arch s)"

lemma decode_onlyD:
  assumes "decode_only s s'"
  shows "retire_size s' = retire_size s" "cache_req_list s' = cache_req_list s" "fetch_valid s' = fetch_valid s"
    "fetch_cache_req s' = fetch_cache_req s" "id_valid s' = id_valid s" "id_stall_valid s' = id_stall_valid s"
    "id_stall_dec_more s' = id_stall_dec_more s" "id_stall_inst_valid s' = id_stall_inst_valid s"
    "id_wait_redirect s' = id_wait_redirect s" "cpu_pc s' = cpu_pc s" "arch (cpu_arch s') = arch (cpu_arch s)"
    "k \<noteq> id_inst s' \<Longrightarrow> i_info (cpu_insts s' k) = i_info (cpu_insts s k)"
  using assms
  by (auto simp: decode_only_def dest: arg_cong [where f = retire_size] arg_cong [where f = cache_req_list]
      arg_cong [where f = fetch_valid] arg_cong [where f = fetch_cache_req] arg_cong [where f = id_valid]
      arg_cong [where f = id_stall_valid] arg_cong [where f = id_stall_dec_more] arg_cong [where f = id_stall_inst_valid]
      arg_cong [where f = id_wait_redirect] arg_cong [where f = cpu_pc])

lemma decode_only_trans:
  assumes "decode_only s s1" "decode_only s1 s2" "id_inst s2 = id_inst s1"
  shows "decode_only s s2"
proof -
  let ?u = "\<lambda>z. z\<lparr> id_inst := id_inst s2, id_remain_size := id_remain_size s2, id_extra_idx := id_extra_idx s2,
       cpu_insts := cpu_insts s2, cpu_arch := cpu_arch s2, env_inst := env_inst s2, cpu_pred := cpu_pred s2 \<rparr>"
  note a = assms(1) [unfolded decode_only_def, THEN conjunct1] and b = assms(2) [unfolded decode_only_def, THEN conjunct1]
  have "?u s1 = ?u s" using arg_cong [OF a, of ?u] by simp
  then have "s2 = ?u s" using b by metis
  then show ?thesis using assms by (simp add: decode_only_def)
qed

text \<open>The instruction preId starts from: the fetched one, or the last one when it has bytes left.\<close>

definition id_source :: "nat \<Rightarrow> 'd pipe \<Rightarrow> nat" where
  "id_source w s = (if 0 < id_remain_size s then id_inst s else w)"

lemma next_inst_only:
  assumes "next_inst w s = Inr s1"
  shows "decode_only s s1" "cpu_insts s1 (id_inst s1) = cpu_insts s (id_source w s)"
    "if 0 < id_remain_size s then retire_size s \<le> id_inst s1 else id_inst s1 = w"
    "cpu_pc s1 = cpu_pc s" "cpu_arch s1 = cpu_arch s"
  using assms by (auto simp: next_inst_def decode_only_def id_source_def Let_def split: if_splits)

lemma preId_fault:
  assumes "translateAddr p (cpu_pc s) IFETCH pa0 (inst_exception i s) (cpu_arch s) = Inr (pa, e, c)" "exceptionValid e"
    and "s' = inst_fault i e (upd_inst i (\<lambda>x. set_inst_exception e (x\<lparr> i_paddr := pa \<rparr>)) (s\<lparr> cpu_arch := c \<rparr>))" "i = id_inst s"
  shows "decode_only s s'" "id_inst s' = i" "clean i s \<Longrightarrow> id_ready p s'"
proof -
  note t = translate_frame [OF assms(1)]
  show "decode_only s s'" "id_inst s' = i"
    using t
    by (auto simp: decode_only_def assms(3,4) inst_fault_def set_machine_def upd_inst_def info_machine_def Let_def)
  assume "clean i s"
  then have "e = EXC_IPF" using t(4) assms(2) by (auto simp: clean_def exceptionValid_def exc_pf_def)
  then show "id_ready p s'"
    by (simp add: id_ready_def assms(3,4) inst_fault_def set_machine_def upd_inst_def info_machine_def inst_exception_def
        handle_frame Let_def)
qed

lemma preId_decode:
  assumes "translateAddr p (cpu_pc s) IFETCH pa0 (inst_exception i s) (cpu_arch s) = Inr (pa, e, c)" "\<not> exceptionValid e"
    and "decode p (cpu_pc s) pa ((c)\<lparr> info := (i_info (cpu_insts s i))\<lparr> exception := e \<rparr> \<rparr>) = Inr (sz, c2)"
    and "i = id_inst s" "env_inst s' = i" "id_inst s' = i" "cpu_pc s' = cpu_pc s" "cpu_arch s' = c2"
    "i_info (cpu_insts s' i) = info c2"
  shows "id_ready p s'" "arch c2 = arch (cpu_arch s)"
proof -
  note t = translate_frame [OF assms(1)] and d = decode_frame [OF assms(3)]
  have a: "arch c2 = arch c" using d by (simp add: arch_def)
  then show "arch c2 = arch (cpu_arch s)" using t(1) by simp
  have e: "e = EXC_NONE" "inst_exception i s = EXC_NONE"
    using t(4) assms(2) by (auto simp: exceptionValid_def exc_pf_def)
  have "decoded p (cpu_pc s) (cpu_arch s) (info c2)"
    using assms(1,3) unfolding decoded_def e by (intro exI conjI) (rule refl | assumption)+
  then have "decoded p (cpu_pc s) c2 (info c2)" using decoded_cong [of c2 "cpu_arch s"] a t(1) by simp
  then show "id_ready p s'" using d(4) assms(4-9) by (simp add: id_ready_def)
qed

text \<open>preId up to its call of frontRedirect.\<close>

lemma preIdE:
  assumes "preId p w s = Inr (fin, red, s')"
  obtains sA where "decode_only s sA" "if 0 < id_remain_size s then retire_size s \<le> id_inst sA else id_inst sA = w"
    "clean (id_source w s) s \<Longrightarrow> id_ready p sA"
    "s' = sA \<and> (fin \<or> 0 < id_remain_size s') \<or> frontRedirect (id_inst sA) sA = Inr s' \<and> fin = (id_remain_size s' \<le> 0)"
proof -
  obtain s1 where n: "next_inst w s = Inr s1" using assms by (auto simp: preId_def rbind_eq_Inr)
  note n1 = next_inst_only [OF n]
  let ?i = "id_inst s1"
  have cl: "clean (id_source w s) s \<Longrightarrow> clean ?i s1" using n1(2) by (simp add: clean_def inst_exception_def)
  obtain pa e c where tr: "translateAddr p (cpu_pc s1) IFETCH (i_paddr (cpu_insts s1 ?i)) (inst_exception ?i s1) (cpu_arch s1) = Inr (pa, e, c)"
    using assms n by (auto simp: preId_def rbind_eq_Inr Let_def)
  let ?s2 = "upd_inst ?i (\<lambda>x. set_inst_exception e (x\<lparr> i_paddr := pa \<rparr>)) (s1\<lparr> cpu_arch := c \<rparr>)"
  note trans = decode_only_trans [OF n1(1)]
  show ?thesis
  proof (cases "exceptionValid e")
    case True
    then have s': "s' = inst_fault ?i e ?s2" and fin
      using assms n tr by (auto simp: preId_def Let_def)
    note f = preId_fault [OF tr True s' refl]
    show ?thesis using that [OF trans [OF f(1,2)]] n1(3) f cl \<open>fin\<close> by simp
  next
    case False
    obtain sz c2 where d: "decode p (cpu_pc s1) pa (info_machine ?i ?s2) = Inr (sz, c2)"
      using assms n tr False by (auto simp: preId_def rbind_eq_Inr Let_def upd_inst_def)
    let ?s3 = "upd_inst ?i (\<lambda>x. x\<lparr> i_real_size := sz, i_real_pc := cpu_pc s1 \<rparr>) ((set_machine ?i c2 ?s2)\<lparr> env_inst := ?i \<rparr>)"
    obtain k np sz' taken pr where pp: "pipe_predict (cpu_pc s1) (info c2) (cpu_pred s1) = Inr ((k, np, sz', taken), pr)"
      using assms n tr False d by (auto simp: preId_def rbind_eq_Inr Let_def upd_inst_def set_machine_def)
    let ?s4 = "upd_inst ?i (\<lambda>x. x\<lparr> i_bp_meta_idx := k, i_next_pc := np, i_taken := taken \<rparr>) (?s3\<lparr> cpu_pred := pr \<rparr>)"
    let ?sA = "if taken then upd_inst ?i (\<lambda>x. x\<lparr> i_real_target := np \<rparr>) ?s4
       else ?s4\<lparr> id_remain_size := id_remain_size s1 - uint sz \<rparr>"
    have e: "\<not> taken \<and> s' = ?sA \<and> fin = (id_remain_size s' \<le> 0) \<or>
        taken \<and> frontRedirect ?i ?sA = Inr s' \<and> fin = (id_remain_size s' \<le> 0)"
      using assms n tr False d pp
      by (auto simp: preId_def rbind_eq_Inr Let_def upd_inst_def set_machine_def split: if_splits)
    have i: "id_inst ?sA = ?i" "env_inst ?sA = ?i" "cpu_pc ?sA = cpu_pc s1" "cpu_arch ?sA = c2"
      "i_info (cpu_insts ?sA ?i) = info c2"
      by (simp_all add: upd_inst_def set_machine_def)
    have m: "info_machine ?i ?s2 = c\<lparr> info := (i_info (cpu_insts s1 ?i))\<lparr> exception := e \<rparr> \<rparr>"
      by (simp add: info_machine_def upd_inst_def set_inst_exception_def)
    note f = preId_decode [OF tr False d [unfolded m] refl i(2,1,3-5)]
    have o: "decode_only s1 ?sA" using f(2)
      by (simp add: decode_only_def upd_inst_def set_machine_def)
    show ?thesis
      by (rule that [OF trans [OF o i(1)]]) (use n1(3) i(1) f(1) e in auto)
  qed
qed

end
