(* ===== verification/Pipeline_Order.thy ===== *)
theory Pipeline_Order
  imports Pipeline_Props
begin

text \<open>
  The front of the pipeline: decode, refill, fetch and issue keep the invariant, and so does a cycle of the
  simulator, so that whole runs are runs of the sequential machine.
\<close>

section \<open>preId in the ring of requests\<close>

text \<open>
  What preId makes of a state: the instruction in the decode stage is ready unless the stage waits for a
  redirect, and the requests are as before or all gone.
\<close>

definition preId_post :: "'d plat \<Rightarrow> 'd pipe \<Rightarrow> nat \<Rightarrow> bool \<Rightarrow> 'd pipe \<Rightarrow> bool" where
  "preId_post p s t fin s' \<longleftrightarrow> (\<exists>h. fetch_queue s' False h t) \<and> id_inst s' \<noteq> t \<and>
     (\<not> id_wait_redirect s \<longrightarrow> id_ready p s') \<and> id_wait_redirect s' = id_wait_redirect s \<and> id_valid s' = id_valid s \<and>
     cpu_pc s' = cpu_pc s \<and> arch (cpu_arch s') = arch (cpu_arch s) \<and> (fin \<or> 0 < id_remain_size s') \<and>
     (id_stall_inst_valid s' \<longrightarrow> id_stall_inst_valid s) \<and>
     (id_stall_dec_more s' = id_stall_dec_more s \<and> id_stall_valid s' = id_stall_valid s \<or>
      \<not> id_stall_dec_more s' \<and> \<not> id_stall_valid s' \<and> fin)"

lemma preId_front:
  assumes "preId p w s = Inr (fin, red, s')" "fetch_queue s False h t"
    and clean_id: "0 < id_remain_size s \<Longrightarrow> \<not> id_wait_redirect s \<Longrightarrow> clean (id_inst s) s"
    and clean_w: "\<not> 0 < id_remain_size s \<Longrightarrow> clean w s \<and> w \<noteq> t \<and> (fetch_valid s \<longrightarrow> w \<noteq> fetch_cache_req s)"
  shows "preId_post p s t fin s'"
proof -
  have q: "ring [0..<retire_size s] h t (cache_req_list s)" "fetch_valid s \<Longrightarrow> clean (fetch_cache_req s) s"
      "t < retire_size s" "fetch_valid s \<Longrightarrow> fetch_cache_req s < retire_size s" "3 \<le> retire_size s"
    using assms(2) by (auto simp: fetch_queue_def Let_def ring_def split: if_splits)
  obtain sA where a: "decode_only s sA" "if 0 < id_remain_size s then retire_size s \<le> id_inst sA else id_inst sA = w"
      "clean (id_source w s) s \<Longrightarrow> id_ready p sA"
      "s' = sA \<and> (fin \<or> 0 < id_remain_size s') \<or> frontRedirect (id_inst sA) sA = Inr s' \<and> fin = (id_remain_size s' \<le> 0)"
    using preIdE [OF assms(1)] by blast
  note o = decode_onlyD [OF a(1)]
  have ne: "id_inst sA \<noteq> t" "fetch_valid s \<Longrightarrow> id_inst sA \<noteq> fetch_cache_req s"
    using a(2) clean_w q(3,4) by (auto split: if_splits)
  have rdy: "\<not> id_wait_redirect s \<Longrightarrow> id_ready p sA"
    using a(3) clean_id clean_w by (auto simp: id_source_def split: if_splits)
  have "fetch_valid s \<Longrightarrow> clean (fetch_cache_req s) sA"
    using q(2) ne(2) o(12) [of "fetch_cache_req s"] by (auto simp: clean_def inst_exception_def)
  then have fq: "fetch_queue sA False h t"
    using assms(2) by (auto simp: fetch_queue_def Let_def o split: if_splits)
  show ?thesis
  proof (cases "s' = sA \<and> (fin \<or> 0 < id_remain_size s')")
    case True
    then show ?thesis using fq ne(1) rdy by (auto simp: preId_post_def o)
  next
    case False
    then have f: "frontRedirect (id_inst sA) sA = Inr s'" "fin = (id_remain_size s' \<le> 0)" using a(4) by auto
    from q(1) have "ring [0..<retire_size sA] h t (cache_req_list sA)" by (simp add: o)
    from frontRedirectE [OF f(1) this] obtain pr l where l: "ring [0..<retire_size sA] t t l" and
      s': "s' = sA\<lparr> id_stall_valid := False, id_stall_dec_more := False, id_stall_inst_valid := False, id_remain_size := 0,
             fetch_valid := False, cpu_pred := pr, cache_req_list := l, pred_pc := i_real_target (cpu_insts sA (id_inst sA)) \<rparr>"
      by blast
    have "fetch_queue s' False t t" using l q(5) by (simp add: s' fetch_queue_def o Let_def)
    moreover have "id_ready p s' = id_ready p sA" by (simp add: s' id_ready_def inst_exception_def)
    ultimately show ?thesis
      using ne(1) rdy f(2) by (auto simp: preId_post_def s' o)
  qed
qed

section \<open>The callback of the instruction cache\<close>

lemma front_invI:
  assumes "fetch_queue s ow h t" "id_inv p s ow" "id_valid s \<Longrightarrow> \<not> fetch_valid s \<Longrightarrow> id_inst s \<noteq> t"
  shows "front_inv p s ow"
  using assms by (auto simp: front_inv_def)

lemma next_ne: "n \<ge> 2 \<Longrightarrow> h < n \<Longrightarrow> (h + 1) mod n \<noteq> h" for h n :: nat
  by (auto simp: mod_Suc)

lemma next_next_ne: "n \<ge> 3 \<Longrightarrow> h < n \<Longrightarrow> ((h + 1) mod n + 1) mod n \<noteq> h" for h n :: nat
  by (auto simp: mod_Suc)

lemma fetch_queue_same:
  assumes "retire_size s' = retire_size s" "cache_req_list s' = cache_req_list s" "fetch_valid s' = fetch_valid s"
    "fetch_cache_req s' = fetch_cache_req s" "\<And>k. clean k s' = clean k s"
  shows "fetch_queue s' ow h t = fetch_queue s ow h t"
  unfolding fetch_queue_def Let_def assms ..

text \<open>The branch of the callback for a busy decode stage is never taken.\<close>

lemma icache_callback_front:
  assumes "icache_callback p s = Inr (red, s')" "front_inv p s True"
  shows "front_inv p s' False \<and> steps p s s'"
proof -
  obtain h t where q: "fetch_queue s True h t" using assms(2) by (auto simp: front_inv_def)
  have iv: "\<not> id_valid s" "\<not> id_stall_valid s" "\<not> id_stall_inst_valid s" "\<not> id_stall_dec_more s"
      "0 < id_remain_size s \<Longrightarrow> \<not> id_wait_redirect s \<Longrightarrow> clean (id_inst s) s"
    using assms(2) by (auto simp: front_inv_def id_inv_def)
  let ?n = "retire_size s" and ?w = "fetch_cache_req s"
  have f: "fetch_valid s" "3 \<le> ?n" "ring [0..<?n] h t (cache_req_list s)" "?w < ?n" "clean ?w s" "t = (?w + 1) mod ?n"
      "?w = (h + 1) mod ?n" "clean h s" "h < ?n"
    using q by (auto simp: fetch_queue_def Let_def ring_def split: if_splits)
  obtain l where l: "ll_pop (cache_req_list s) = Inr (h, l)" "ring [0..<?n] ?w t l"
    using ring_pop [OF f(3)] f(7,9) by (auto simp: nth_upt)
  let ?s = "s\<lparr> cache_req_list := l, id_valid := True \<rparr>"
  obtain fin s1 where pre: "preId p h ?s = Inr (fin, red, s1)" and
    s': "s' = s1\<lparr> id_stall_valid := \<not> fin, id_stall_dec_more := \<not> fin \<rparr>"
    using assms(1) iv(1) l(1) by (auto simp: icache_callback_def rbind_eq_Inr Let_def)
  have c: "clean k ?s = clean k s" for k by (simp add: clean_def inst_exception_def)
  have "fetch_queue ?s False ?w t"
    using f(1,2,4-6) l(2) by (simp add: fetch_queue_def c Let_def)
  moreover have "h \<noteq> t" "h \<noteq> ?w" using f(2,6,7,9) next_ne [of ?n h] next_next_ne [of ?n h] by auto
  ultimately have "preId_post p ?s t fin s1"
    using preId_front [OF pre, of ?w t] iv(5) f(8) by (simp add: c)
  then obtain h' where post: "fetch_queue s1 False h' t" "id_inst s1 \<noteq> t" "\<not> id_wait_redirect s \<longrightarrow> id_ready p s1"
      "id_wait_redirect s1 = id_wait_redirect s" "id_valid s1" "cpu_pc s1 = cpu_pc s"
      "arch (cpu_arch s1) = arch (cpu_arch s)" "fin \<or> 0 < id_remain_size s1" "\<not> id_stall_inst_valid s1"
    using iv(3) by (auto simp: preId_post_def)
  have "fetch_queue s' False h' t" using post(1)
    by (rule fetch_queue_same [THEN iffD2, rotated -1]) (simp_all add: s' clean_def inst_exception_def)
  moreover have "id_inv p s' False"
    using post(3-9) by (auto simp: s' id_inv_def id_ready_def inst_exception_def)
  moreover have "id_inst s' \<noteq> t" using post(2) by (simp add: s')
  ultimately have "front_inv p s' False" by (auto intro: front_invI)
  moreover have "steps p s s'" by (rule steps_quiet) (simp_all add: s' post(6,7))
  ultimately show ?thesis by simp
qed

section \<open>The decode stage\<close>

lemma inst_fault_frame:
  fixes s :: "'d pipe"
  assumes "s0 = (if exceptionValid e then inst_fault i e s else s)" "e = inst_exception i s" "i = id_inst s"
  shows "decode_only s s0" "id_inst s0 = i" "id_remain_size s0 = id_remain_size s" "clean k s0 = clean k s"
    "inst_exception i s0 = inst_exception i s"
    "id_ready p s \<Longrightarrow> env_inst s0 = i \<and> fetched p (cpu_pc s) (cpu_arch s) (info_machine i s0)"
proof -
  show "decode_only s s0" "id_inst s0 = i" "id_remain_size s0 = id_remain_size s"
    by (auto simp: decode_only_def assms inst_fault_def set_machine_def upd_inst_def info_machine_def Let_def)
  have x: "inst_exception k s0 = inst_exception k s" for k
    by (auto simp: assms inst_fault_def set_machine_def upd_inst_def info_machine_def inst_exception_def handleException_def
        set_exception_def set_exc_data_def upd_info_def Let_def)
  then show "inst_exception i s0 = inst_exception i s" "clean k s0 = clean k s" by (simp_all add: clean_def)
  assume r: "id_ready p s"
  show "env_inst s0 = i \<and> fetched p (cpu_pc s) (cpu_arch s) (info_machine i s0)"
  proof (cases "e = EXC_IPF")
    case True
    then show ?thesis
      by (simp add: assms exceptionValid_def inst_fault_def set_machine_def upd_inst_def info_machine_def Let_def
          fetched_def handle_frame)
  next
    case False
    then have d: "env_inst s = i" "env_pc (cpu_arch s) = cpu_pc s" "decoded p (cpu_pc s) (cpu_arch s) (i_info (cpu_insts s i))"
      using r assms by (auto simp: id_ready_def)
    have "handleException e (cpu_pc s) c = c" for c :: "'d machine" using False by (simp add: handleException_def)
    then have "env_inst s0 = i" "cpu_arch s0 = cpu_arch s \<or> cpu_arch s0 = info_machine i s"
      "i_info (cpu_insts s0 i) = i_info (cpu_insts s i)"
      using False d(1) by (auto simp: assms(1) inst_fault_def set_machine_def upd_inst_def info_machine_def Let_def)
    then show ?thesis using d(2,3) by (auto simp: fetched_def info_machine_def)
  qed
qed

text \<open>The commit, up to what follows the switch.\<close>

definition committed :: "'d plat \<Rightarrow> 'd pipe \<Rightarrow> 'd pipe \<Rightarrow> bool" where
  "committed p s sB \<longleftrightarrow> (\<exists>c x. updateEnv p (info_machine (id_inst s) s) = Inr (cpu_pc sB, c) \<and>
     sB = s\<lparr> cpu_arch := c, cpu_insts := x, cpu_pc := cpu_pc sB \<rparr> \<and> (\<forall>k. i_info (x k) = i_info (cpu_insts s k)))"

lemma frontRedirect_wait: "frontRedirect i s = Inr s' \<Longrightarrow> id_wait_redirect s' = id_wait_redirect s"
  by (auto simp: frontRedirect_def rbind_eq_Inr Let_def)

lemma upd_inst_wait: "id_wait_redirect (upd_inst i f s) = id_wait_redirect s"
  by (simp add: upd_inst_def)

lemma id_commitE:
  assumes "id_commit p s ic = Inr (s1, ic1)" "env_inst s = id_inst s" "\<not> id_wait_redirect s"
  obtains (wait) sB b t1 t2 where "committed p s sB" "ic1 = ic" "b \<or> inst_exception (id_inst s) s = EXC_NONE"
    "s1 = sB\<lparr> id_wait_redirect := b, wait_redirect_tick := t1, wait_redirect_inst := t2 \<rparr>"
  | (redirect) sB sC x where "committed p s sB" "ic1 = icache_redirect ic" "inst_exception (id_inst s) s = EXC_NONE"
    "frontRedirect (id_inst s) sB = Inr sC" "s1 = sC\<lparr> cpu_insts := x \<rparr>" "\<forall>k. i_info (x k) = i_info (cpu_insts sC k)"
proof -
  let ?i = "id_inst s"
  obtain target c where u: "updateEnv p (info_machine ?i s) = Inr (target, c)"
    using assms(1,2) by (auto simp: id_commit_def rbind_eq_Inr Let_def)
  have ic: "info c = i_info (cpu_insts s ?i)" using updateEnv_info [OF u] by (simp add: info_machine_def)
  obtain sB where sB: "sB = (upd_inst ?i (\<lambda>x. x\<lparr> i_real_target := target \<rparr>) (set_machine ?i c s))\<lparr> cpu_pc := target \<rparr>"
    by blast
  have cm: "committed p s sB"
    unfolding committed_def using u ic
    by (intro exI [of _ c] exI [of _ "cpu_insts sB"]) (auto simp: sB upd_inst_def set_machine_def)
  have B: "id_inst sB = ?i" "id_wait_redirect sB = id_wait_redirect s" "i_info (cpu_insts sB ?i) = i_info (cpu_insts s ?i)"
    using ic by (auto simp: sB upd_inst_def set_machine_def)
  let ?x = "cpu_insts sB ?i"
  let ?t = "itype (i_info ?x)"
  have r: "rbind (if exceptionValid (exception (i_info ?x)) then Inr (sB\<lparr> id_wait_redirect := True \<rparr>, ic)
        else if is_jump ?t then Inr (sB\<lparr> id_wait_redirect := \<not> target = i_next_pc ?x \<rparr>, ic)
        else if ?t = T_COND
        then Inr (sB\<lparr> id_wait_redirect := dst_data (i_info ?x) 1 \<noteq> of_bool (i_taken ?x) \<or> \<not> target = i_next_pc ?x \<rparr>, ic)
        else if needFlush (i_info ?x) \<or> \<not> is_branch ?t \<and> i_taken ?x
        then rbind (frontRedirect ?i sB) (\<lambda>s. Inr (if needFlush (i_info ?x) then upd_inst ?i (\<lambda>x. x\<lparr> i_result := R_CSR_REDIRECT \<rparr>) s
               else s, icache_redirect ic))
        else if \<not> (i_pc ?x \<le> i_real_pc ?x \<and> i_real_pc ?x < i_pc ?x + ucast (i_size ?x))
        then Inl (ExitCalled ''ID stage PC changed without redirect'')
        else Inr (sB, ic)) (\<lambda>(s, ic).
          Inr (if id_wait_redirect s then s\<lparr> wait_redirect_tick := tick (cpu_arch s), wait_redirect_inst := id_inst s \<rparr> else s, ic))
      = Inr (s1, ic1)"
    using assms(1) unfolding id_commit_def Let_def assms(2) u rbind_Inr prod.case sB [symmetric] .
  let ?e = "exceptionValid (exception (i_info ?x))"
  have e: "\<not> ?e \<Longrightarrow> inst_exception ?i s = EXC_NONE" using B(3) by (simp add: exceptionValid_def inst_exception_def)
  have w: thesis if "rbind (Inr (sB\<lparr> id_wait_redirect := b \<rparr>, ic)) (\<lambda>(s, ic).
          Inr (if id_wait_redirect s then s\<lparr> wait_redirect_tick := tick (cpu_arch s), wait_redirect_inst := id_inst s \<rparr> else s, ic))
      = Inr (s1, ic1)" "?e \<longrightarrow> b" for b
    using that(1) e that(2)
    by (intro wait [OF cm, of b "wait_redirect_inst s1" "wait_redirect_tick s1"]) (auto split: if_splits)
  have same: "sB = sB\<lparr> id_wait_redirect := False \<rparr>" using B(2) assms(3) by simp
  consider (exc) ?e | (jump) "\<not> ?e" "is_jump ?t" | (cond) "\<not> ?e" "\<not> is_jump ?t" "?t = T_COND"
    | (flush) "\<not> ?e" "\<not> is_jump ?t" "?t \<noteq> T_COND" "needFlush (i_info ?x) \<or> \<not> is_branch ?t \<and> i_taken ?x"
    | (none) "\<not> ?e" "\<not> is_jump ?t" "?t \<noteq> T_COND" "\<not> (needFlush (i_info ?x) \<or> \<not> is_branch ?t \<and> i_taken ?x)" by blast
  then show thesis
  proof cases
    case flush
    note r = r [unfolded if_not_P [OF flush(1)] if_not_P [OF flush(2)] if_not_P [OF flush(3)] if_P [OF flush(4)]]
    obtain sC where C1: "frontRedirect ?i sB = Inr sC" using r unfolding rbind_eq_Inr by blast
    have "\<not> id_wait_redirect (if needFlush (i_info ?x) then upd_inst ?i (\<lambda>x. x\<lparr> i_result := R_CSR_REDIRECT \<rparr>) sC else sC)"
      using frontRedirect_wait [OF C1] B(2) assms(3) by (simp add: upd_inst_wait)
    then have C: "frontRedirect ?i sB = Inr sC" "ic1 = icache_redirect ic"
        "s1 = (if needFlush (i_info ?x) then upd_inst ?i (\<lambda>x. x\<lparr> i_result := R_CSR_REDIRECT \<rparr>) sC else sC)"
      using r C1 unfolding C1 rbind_Inr prod.case by (simp_all only: if_False sum.inject prod.inject)
    have "s1 = sC\<lparr> cpu_insts := cpu_insts s1 \<rparr>" "\<forall>k. i_info (cpu_insts s1 k) = i_info (cpu_insts sC k)"
      by (auto simp: C(3) upd_inst_def)
    then show ?thesis by (rule redirect [OF cm C(2) e [OF flush(1)] C(1)])
  next
    case none
    have "rbind (Inr (sB, ic)) (\<lambda>(s, ic).
          Inr (if id_wait_redirect s then s\<lparr> wait_redirect_tick := tick (cpu_arch s), wait_redirect_inst := id_inst s \<rparr> else s, ic))
      = Inr (s1, ic1)"
      using r unfolding if_not_P [OF none(1)] if_not_P [OF none(2)] if_not_P [OF none(3)] if_not_P [OF none(4)]
      by (cases "i_pc ?x \<le> i_real_pc ?x \<and> i_real_pc ?x < i_pc ?x + ucast (i_size ?x)") (simp_all only: simp_thms
          if_True if_False rbind_Inl sum.distinct)
    from w [of False, folded same, OF this] none(1) show ?thesis by blast
  next
    case exc
    show ?thesis by (rule w [of True]) (use r exc in simp_all)
  next
    case jump
    show ?thesis by (rule w [OF r [unfolded if_not_P [OF jump(1)] if_P [OF jump(2)]]]) (use jump in simp)
  next
    case cond
    show ?thesis
      by (rule w [OF r [unfolded if_not_P [OF cond(1)] if_not_P [OF cond(2)] if_P [OF cond(3)]]]) (use cond in simp)
  qed
qed

text \<open>What the commit does to the front: one step of the sequential machine, and a redirect or none.\<close>

lemma committedD:
  assumes "committed p s sB"
  shows "retire_size sB = retire_size s" "cache_req_list sB = cache_req_list s" "fetch_valid sB = fetch_valid s"
    "fetch_cache_req sB = fetch_cache_req s" "id_stall_valid sB = id_stall_valid s"
    "id_stall_dec_more sB = id_stall_dec_more s" "id_stall_inst_valid sB = id_stall_inst_valid s"
    "id_remain_size sB = id_remain_size s" "id_inst sB = id_inst s"
    "clean k sB = clean k s"
    "\<exists>c. updateEnv p (info_machine (id_inst s) s) = Inr (cpu_pc sB, c) \<and> cpu_arch sB = c"
proof -
  obtain c x where c: "updateEnv p (info_machine (id_inst s) s) = Inr (cpu_pc sB, c)"
    "sB = s\<lparr> cpu_arch := c, cpu_insts := x, cpu_pc := cpu_pc sB \<rparr>" "\<forall>k. i_info (x k) = i_info (cpu_insts s k)"
    using assms by (auto simp: committed_def)
  obtain v where v: "sB = s\<lparr> cpu_arch := c, cpu_insts := x, cpu_pc := v \<rparr>" using c(2) by blast
  show "retire_size sB = retire_size s" "cache_req_list sB = cache_req_list s" "fetch_valid sB = fetch_valid s"
    "fetch_cache_req sB = fetch_cache_req s" "id_stall_valid sB = id_stall_valid s"
    "id_stall_dec_more sB = id_stall_dec_more s" "id_stall_inst_valid sB = id_stall_inst_valid s"
    "id_remain_size sB = id_remain_size s" "id_inst sB = id_inst s" "clean k sB = clean k s"
    by (simp_all add: v clean_def inst_exception_def c(3))
  show "\<exists>c. updateEnv p (info_machine (id_inst s) s) = Inr (cpu_pc sB, c) \<and> cpu_arch sB = c"
    using c(1) by (simp add: v)
qed

lemma id_stage_front:
  assumes "id_stage p s ic = Inr (s', ic')" "front_inv p s (owes ic)" "\<not> idle_req_valid ic"
  shows "front_ok p s ic s' ic'"
proof (cases "id_valid s \<and> \<not> exe_valid s")
  case True
  let ?i = "id_inst s"
  obtain s0 where s0: "s0 = (if exceptionValid (inst_exception ?i s) then inst_fault ?i (inst_exception ?i s) s else s)" by blast
  note f = inst_fault_frame [OF s0 refl refl] and o = decode_onlyD [OF inst_fault_frame(1) [OF s0 refl refl]]
  obtain h t where q: "fetch_queue s False h t" and ow: "\<not> owes ic"
    using assms(2) True by (auto simp: front_inv_def id_inv_def)
  have q0: "fetch_queue s0 False h t" using fetch_queue_same [OF o(1-4) f(4)] q by simp
  have st: "\<not> id_stall_inst_valid s0" "id_stall_dec_more s0 = id_stall_valid s0" "id_stall_valid s0 \<longrightarrow> 0 < id_remain_size s0"
    "\<not> id_wait_redirect s \<Longrightarrow> id_ready p s"
    using assms(2) True by (auto simp: front_inv_def id_inv_def o f(3))
  obtain s1 where
    s1: "(if \<not> id_wait_redirect s0 then id_commit p s0 ic
          else if 5000 < tick (cpu_arch s0) - wait_redirect_tick s0 then Inl (ExitCalled ''id wait redirect for 5000 cycle'')
          else Inr (s0, ic)) = Inr (s1, ic')"
    and s': "s' = s1\<lparr> exe_inst := id_inst s1, id_valid := False, exe_valid := True \<rparr>"
    using assms(1) True unfolding id_stage_def Let_def s0 [symmetric] by (auto simp: rbind_eq_Inr)
  have steps': "steps p s1 s'" by (rule steps_quiet) (simp_all add: s')
  have fin: "front_inv p s' False"
    if "fetch_queue s1 False h' t'" "\<not> id_stall_inst_valid s1" "id_stall_dec_more s1 = id_stall_valid s1"
      "id_stall_valid s1 \<longrightarrow> 0 < id_remain_size s1" "0 < id_remain_size s1 \<longrightarrow> \<not> id_wait_redirect s1 \<longrightarrow> clean (id_inst s1) s1" for h' t'
  proof (rule front_invI)
    show "fetch_queue s' False h' t'"
      using that(1) by (rule fetch_queue_same [THEN iffD2, rotated -1]) (simp_all add: s' clean_def inst_exception_def)
    show "id_inv p s' False" using that(2-5) by (simp add: s' id_inv_def clean_def inst_exception_def)
  qed (simp add: s')
  show ?thesis
  proof (cases "id_wait_redirect s")
    case w: True
    then have e: "s1 = s0" "ic' = ic" using s1 o(9) by (auto split: if_splits)
    have "front_inv p s' False" by (rule fin) (use q0 st w e o(9) in auto)
    moreover have "steps p s s0" using o(10,11) by (rule steps_quiet)
    ultimately show ?thesis using steps' e ow assms(3) by (auto simp: front_ok_def intro: steps_trans)
  next
    case w: False
    then have c: "id_commit p s0 ic = Inr (s1, ic')" using s1 o(9) by simp
    have r: "env_inst s0 = ?i" "fetched p (cpu_pc s) (cpu_arch s) (info_machine ?i s0)" using f(6) st(4) w by auto
    have sB: "steps p s sB" if "committed p s0 sB" for sB
      using committedD(11) [OF that] r(2) steps_commit [of p s _ sB] by (auto simp: f(2))
    from c show ?thesis
    proof (rule id_commitE)
      show "env_inst s0 = id_inst s0" using r(1) f(2) by simp
      show "\<not> id_wait_redirect s0" using w o(9) by simp
    next
      fix sB b t1 t2
      assume B: "committed p s0 sB" "ic' = ic" "b \<or> inst_exception (id_inst s0) s0 = EXC_NONE"
        and e: "s1 = sB\<lparr> id_wait_redirect := b, wait_redirect_tick := t1, wait_redirect_inst := t2 \<rparr>"
      note b = committedD [OF B(1)]
      have cl: "clean k s1 = clean k s0" for k using b(10) [of k] by (simp add: e clean_def inst_exception_def)
      have "fetch_queue s1 False h t"
        using q0 by (rule fetch_queue_same [THEN iffD2, rotated -1]) (simp_all add: cl, simp_all add: e b)
      moreover have "clean (id_inst s1) s1" if "\<not> id_wait_redirect s1"
        using that B(3) by (simp add: cl) (simp add: e clean_def b)
      ultimately have "front_inv p s' False" by (intro fin [of h t]) (use st in \<open>auto simp: e b\<close>)
      moreover have "steps p sB s1" by (rule steps_quiet) (simp_all add: e)
      ultimately show ?thesis
        using sB [OF B(1)] steps' B(2) ow assms(3) by (auto simp: front_ok_def intro: steps_trans)
    next
      fix sB sC x
      assume B: "committed p s0 sB" "ic' = icache_redirect ic" "inst_exception (id_inst s0) s0 = EXC_NONE"
        and C: "frontRedirect (id_inst s0) sB = Inr sC" "s1 = sC\<lparr> cpu_insts := x \<rparr>" "\<forall>k. i_info (x k) = i_info (cpu_insts sC k)"
      note b = committedD [OF B(1)]
      have "ring [0..<retire_size sB] h t (cache_req_list sB)" "3 \<le> retire_size sB"
        using q0 by (auto simp: b fetch_queue_def Let_def)
      from frontRedirectE [OF C(1) this(1)] this(2) obtain pr l where l: "ring [0..<retire_size sB] t t l" "3 \<le> retire_size sB" and
        sC: "sC = sB\<lparr> id_stall_valid := False, id_stall_dec_more := False, id_stall_inst_valid := False, id_remain_size := 0,
               fetch_valid := False, cpu_pred := pr, cache_req_list := l, pred_pc := i_real_target (cpu_insts sB (id_inst s0)) \<rparr>"
        by blast
      have "fetch_queue s1 False t t" using l by (simp add: C(2) sC fetch_queue_def Let_def)
      then have "front_inv p s' False" by (rule fin) (simp_all add: C(2) sC)
      moreover have "steps p sB s1" by (rule steps_quiet) (simp_all add: C(2) sC)
      ultimately show ?thesis
        using sB [OF B(1)] steps' B(2) by (auto simp: front_ok_def intro: steps_trans)
    qed
  qed
qed (use assms in \<open>auto simp: id_stage_def intro: front_okI\<close>)

section \<open>Refill, fetch and issue\<close>

lemma refill_front:
  assumes "refill_stage p s ic = Inr (s', ic')" "front_inv p s (owes ic)" "\<not> idle_req_valid ic"
  shows "front_ok p s ic s' ic' \<and> (id_valid s' \<or> \<not> id_stall_valid s')"
proof (cases "\<not> id_valid s \<and> id_stall_valid s")
  case True
  then have i: "\<not> owes ic" "\<not> id_stall_inst_valid s" "id_stall_dec_more s" "0 < id_remain_size s"
      "\<not> id_wait_redirect s \<Longrightarrow> clean (id_inst s) s"
    using assms(2) by (auto simp: front_inv_def id_inv_def)
  then obtain h t where q: "fetch_queue s False h t" using assms(2) by (auto simp: front_inv_def)
  obtain fin red s1 where pre: "preId p (id_stall_inst s) s = Inr (fin, red, s1)"
    and s': "s' = (let s = s1\<lparr> id_valid := True \<rparr> in
        if id_stall_dec_more s
        then s\<lparr> id_stall_dec_more := \<not> fin, id_stall_valid := \<not> (fin \<and> \<not> id_stall_inst_valid s) \<rparr>
        else if id_stall_inst_valid s then s\<lparr> id_stall_inst_valid := \<not> fin, id_stall_valid := \<not> fin \<rparr> else s)"
    and ic': "ic' = (if red then icache_redirect ic else ic)"
    using assms(1) True by (auto simp: refill_stage_def rbind_eq_Inr Let_def)
  have "preId_post p s t fin s1" by (rule preId_front [OF pre q]) (use i in auto)
  then obtain h' where post: "fetch_queue s1 False h' t" "id_inst s1 \<noteq> t" "\<not> id_wait_redirect s \<longrightarrow> id_ready p s1"
      "id_wait_redirect s1 = id_wait_redirect s" "cpu_pc s1 = cpu_pc s" "arch (cpu_arch s1) = arch (cpu_arch s)"
      "fin \<or> 0 < id_remain_size s1" "\<not> id_stall_inst_valid s1"
      "id_stall_dec_more s1 \<and> id_stall_valid s1 \<or> \<not> id_stall_dec_more s1 \<and> \<not> id_stall_valid s1 \<and> fin"
    using i True by (auto simp: preId_post_def)
  have e: "s' = s1\<lparr> id_valid := True, id_stall_valid := \<not> fin, id_stall_dec_more := \<not> fin \<rparr>"
    using post(8,9) by (auto simp: s' Let_def)
  have "fetch_queue s' False h' t"
    using post(1) by (rule fetch_queue_same [THEN iffD2, rotated -1]) (simp_all add: e clean_def inst_exception_def)
  moreover have "id_inv p s' False"
    using post(3,4,7,8) by (auto simp: e id_inv_def id_ready_def inst_exception_def)
  ultimately have "front_inv p s' False" by (rule front_invI) (simp add: e post(2))
  moreover have "steps p s s'" by (rule steps_quiet) (simp_all add: e post(5,6))
  ultimately show ?thesis using i(1) assms(3) by (simp add: front_ok_def ic' e)
qed (use assms in \<open>auto simp: refill_stage_def intro: front_okI\<close>)

lemma fetch_translate_front:
  assumes "fetch_translate p w s = Inr s1" "front_inv p s ow" "fetch_valid s" "\<not> id_valid s" "w = fetch_cache_req s"
  shows "front_inv p s1 ow \<and> steps p s s1 \<and> fetch_valid s1 \<and> \<not> id_valid s1 \<and> fetch_cache_req s1 = w \<and> clean w s1 \<and>
    id_stall_valid s1 = id_stall_valid s \<and> id_wait_redirect s1 = id_wait_redirect s"
proof (cases "exceptionValid (inst_exception w s)")
  case True
  then show ?thesis using assms by (auto simp: fetch_translate_def front_inv_def fetch_queue_def Let_def)
next
  case False
  obtain pa e c where t: "translateAddr p (i_pc (cpu_insts s w)) IFETCH (i_paddr (cpu_insts s w)) (inst_exception w s) (cpu_arch s) = Inr (pa, e, c)"
    and s1: "s1 = upd_inst w (\<lambda>x. set_inst_exception e (x\<lparr> i_paddr := pa \<rparr>)) (s\<lparr> cpu_arch := c \<rparr>)"
    using assms(1) False by (auto simp: fetch_translate_def rbind_eq_Inr)
  note tf = translate_frame [OF t]
  have x: "inst_exception k s1 = (if k = w then e else inst_exception k s)" for k
    by (simp add: s1 inst_exception_def upd_inst_def set_inst_exception_def)
  have e: "e = EXC_NONE \<or> e = EXC_IPF" using tf(4) False by (auto simp: exceptionValid_def exc_pf_def)
  then have cl: "clean k s \<Longrightarrow> clean k s1" and cw: "clean w s1" for k by (auto simp: clean_def x)
  obtain h t where "fetch_queue s ow h t" and i: "id_inv p s ow" using assms(2) by (auto simp: front_inv_def)
  then have "fetch_queue s1 ow h t" using assms(3,5) cw cl
    by (auto simp: fetch_queue_def Let_def s1 upd_inst_def split: if_splits)
  moreover have "id_inv p s1 ow" using i assms(4) cl by (simp add: id_inv_def) (simp add: s1 upd_inst_def)
  ultimately have "front_inv p s1 ow" by (rule front_invI) (use assms(4) in \<open>simp add: s1 upd_inst_def\<close>)
  moreover have "steps p s s1" by (rule steps_quiet) (simp_all add: s1 upd_inst_def tf(1))
  ultimately show ?thesis using assms(3-5) cw by (simp add: s1 upd_inst_def)
qed

text \<open>A request has just been handed to the cache: the next one is still to be issued.\<close>

definition handed_over :: "'d plat \<Rightarrow> 'd pipe \<Rightarrow> icache \<Rightarrow> bool" where
  "handed_over p s ic \<longleftrightarrow> owes ic \<and> \<not> fetch_valid s \<and> \<not> id_valid s \<and> \<not> id_stall_valid s \<and>
     front_inv p (s\<lparr> fetch_valid := True \<rparr>) False"

lemma fetch_front:
  assumes "fetch_stage p s ic = Inr (s', ic')" "front_inv p s (owes ic)" "\<not> idle_req_valid ic"
    and stall: "id_valid s \<or> \<not> id_stall_valid s"
  shows "steps p s s' \<and> idle_ok ic' \<and> (front_inv p s' (owes ic') \<or> handed_over p s' ic')"
proof (cases "fetch_valid s \<and> \<not> id_valid s")
  case True
  let ?w = "fetch_cache_req s"
  have ok: "idle_ok ic" using assms(3) by (simp add: idle_ok_def)
  obtain s1 where t: "fetch_translate p ?w s = Inr s1" using assms(1) True by (auto simp: fetch_stage_def rbind_eq_Inr Let_def)
  have f: "front_inv p s1 (owes ic)" "steps p s s1" "fetch_valid s1" "\<not> id_valid s1" "fetch_cache_req s1 = ?w" "clean ?w s1"
    "\<not> id_stall_valid s1"
    using fetch_translate_front [OF t assms(2)] True stall by auto
  obtain h t where q: "fetch_queue s1 (owes ic) h t" and i: "id_inv p s1 (owes ic)" using f(1) by (auto simp: front_inv_def)
  then have r: "3 \<le> retire_size s1" "ring [0..<retire_size s1] h t (cache_req_list s1)" "?w < retire_size s1"
    "t = (?w + 1) mod retire_size s1" "owes ic \<Longrightarrow> ?w = (h + 1) mod retire_size s1" "\<not> owes ic \<Longrightarrow> ?w = h" "h < retire_size s1"
    using f(3,5) by (auto simp: fetch_queue_def Let_def ring_def split: if_splits)
  show ?thesis
  proof (cases "exceptionValid (inst_exception ?w s1)")
    case e: True
    obtain one where one: "ll_one (cache_req_list s1) = Inr one"
      and k: "(if one \<and> \<not> id_stall_valid s1
           then rbind (ll_pop (cache_req_list s1)) (\<lambda>(d, l).
             Inr (s1\<lparr> id_valid := True, id_inst := ?w, id_remain_size := id_remain_size s1 + uint (i_size (cpu_insts s1 ?w)),
                     cache_req_list := l, fetch_valid := False \<rparr>, ic))
           else Inr (s1, ic)) = Inr (s', ic')"
      using assms(1) True t e by (auto simp: fetch_stage_def rbind_eq_Inr Let_def)
    show ?thesis
    proof (cases one)
      case True
      have "(h + 1) mod retire_size s1 = t"
        using one True ring_node [OF r(2)] ring_unique [OF r(2)] r(7) by (auto simp: ll_one_def)
      then have ow: "\<not> owes ic" using r(4,5,1,3) next_ne [of "retire_size s1" ?w] by auto
      then have h: "?w = h" by (rule r(6))
      obtain l where l: "ll_pop (cache_req_list s1) = Inr (h, l)" "ring [0..<retire_size s1] t t l"
        using ring_pop [OF r(2)] r(7) \<open>(h + 1) mod retire_size s1 = t\<close> by (auto simp: nth_upt)
      have s': "s' = s1\<lparr> id_valid := True, id_inst := h, id_remain_size := id_remain_size s1 + uint (i_size (cpu_insts s1 h)),
                     cache_req_list := l, fetch_valid := False \<rparr>" "ic' = ic"
        using k True f(7) l(1) h by auto
      have "inst_exception h s' = EXC_IPF"
        using f(6) e h by (auto simp: s' clean_def exceptionValid_def inst_exception_def)
      then have "id_inv p s' False"
        using i ow f(7) by (auto simp: s' id_inv_def id_ready_def inst_exception_def)
      moreover have "fetch_queue s' False t t" using l(2) r(1) by (simp add: s' fetch_queue_def Let_def)
      moreover have "h \<noteq> t" using r(1,4,7) h next_ne [of "retire_size s1" h] by simp
      ultimately have "front_inv p s' False" using front_invI [of s' False t t p] by (simp add: s')
      moreover have "steps p s1 s'" by (rule steps_quiet) (simp_all add: s')
      ultimately show ?thesis using ow ok f(2) s'(2) by (auto intro: steps_trans)
    next
      case False
      then show ?thesis using k f ok by auto
    qed
  next
    case e: False
    obtain taken ic1 where lk: "icache_lookup ?w ic = (taken, ic1)" by fastforce
    let ?s2 = "s1\<lparr> fetch_reqs := (fetch_reqs s1)(?w := (fetch_reqs s1 ?w)\<lparr> addr := i_paddr (cpu_insts s1 ?w) \<rparr>) \<rparr>"
    have s': "s' = (if taken then ?s2\<lparr> fetch_valid := False \<rparr> else ?s2)" "ic' = ic1"
      using assms(1) True t e lk by (auto simp: fetch_stage_def rbind_eq_Inr Let_def)
    have s2: "front_inv p ?s2 (owes ic)" "steps p s1 ?s2"
      using front_frame [of ?s2 s1, OF _ f(1)] by (simp_all add: front_def)
    show ?thesis
    proof (cases taken)
      case True
      have ow: "\<not> owes ic" "owes ic'" "idle_ok ic'" using lookup_owes(1) lk True assms(3) s'(2) by auto
      have "s'\<lparr> fetch_valid := True \<rparr> = ?s2" using True f(3) by (simp add: s')
      then have "handed_over p s' ic'" using ow(1,2) s2(1) f(4,7) True by (simp add: handed_over_def) (simp add: s')
      moreover have "steps p ?s2 s'" by (rule steps_quiet) (simp_all add: s')
      ultimately show ?thesis using f(2) s2(2) ow(3) by (auto intro: steps_trans)
    next
      case False
      then have "ic' = ic" using lookup_owes(2) lk s'(2) by simp
      then show ?thesis using False s2 f(2) ok by (auto simp: s' intro: steps_trans)
    qed
  qed
next
  case False
  then have "s' = s" "ic' = ic" using assms(1) unfolding fetch_stage_def by (simp_all only: if_False sum.inject prod.inject)
  then show ?thesis using assms(2,3) by (simp add: idle_ok_def)
qed

lemma issue_front:
  assumes "issue_stage s = Inr s'" "front_inv p s (owes ic) \<or> handed_over p s ic"
  shows "front_inv p s' (owes ic) \<and> steps p s s'"
proof (cases "fetch_valid s")
  case True
  then show ?thesis using assms by (auto simp: issue_stage_def handed_over_def)
next
  case False
  let ?n = "retire_size s"
  let ?h = "\<lambda>h t. if owes ic then t = (h + 1) mod ?n \<and> clean h s else h = t"
  obtain h t where r: "3 \<le> ?n" "ring [0..<?n] h t (cache_req_list s)" "?h h t"
    and i: "id_inv p s (owes ic)" "id_valid s \<Longrightarrow> id_inst s \<noteq> t"
  proof (cases "handed_over p s ic")
    case True
    then obtain h t where q: "fetch_queue (s\<lparr> fetch_valid := True \<rparr>) False h t" and i: "id_inv p (s\<lparr> fetch_valid := True \<rparr>) False"
      by (auto simp: handed_over_def front_inv_def)
    have "id_inv p s (owes ic)"
      using i True by (auto simp: handed_over_def id_inv_def clean_def inst_exception_def)
    then show ?thesis
      using q True by (intro that [of h t]) (auto simp: handed_over_def fetch_queue_def Let_def clean_def inst_exception_def)
  next
    case f: False
    then obtain h t where "fetch_queue s (owes ic) h t" "id_inv p s (owes ic)" "id_valid s \<Longrightarrow> id_inst s \<noteq> t"
      using assms(2) False by (auto simp: front_inv_def)
    then show ?thesis using False by (intro that [of h t]) (auto simp: fetch_queue_def Let_def)
  qed
  have t: "t < ?n" "h < ?n" using r(2) by (auto simp: ring_def)
  obtain l where l: "ll_take (cache_req_list s) = Inr (t, l)" "ring [0..<?n] h ((t + 1) mod ?n) l"
    using ring_take [OF r(2)] t(1) by (auto simp: nth_upt)
  let ?f = "\<lambda>x. set_inst_exception EXC_NONE (x\<lparr> i_pc := pred_pc s, i_size := 4 \<rparr>)"
  have s': "s' = (upd_inst t ?f s)\<lparr> pred_pc := pred_pc s + 4, fetch_cache_req := t, cache_req_list := l, fetch_valid := True \<rparr>"
    using assms(1) False l(1) by (auto simp: issue_stage_def Let_def upd_inst_def)
  have x: "inst_exception k s' = (if k = t then EXC_NONE else inst_exception k s)" for k
    by (simp add: s' inst_exception_def upd_inst_def set_inst_exception_def)
  have cl: "clean k s \<Longrightarrow> clean k s'" "clean t s'" for k by (auto simp: clean_def x)
  have "fetch_queue s' (owes ic) h ((t + 1) mod ?n)"
  proof -
    have e: "retire_size s' = ?n" "cache_req_list s' = l" "fetch_valid s'" "fetch_cache_req s' = t"
      by (simp_all add: s' upd_inst_def)
    show ?thesis
      unfolding fetch_queue_def Let_def e(1,2,4) using r(1,3) l(2) t(1) cl e(3)
      by (simp only: if_True HOL.simp_thms split: if_split) (cases "owes ic"; simp only: HOL.simp_thms if_True if_False)
  qed
  moreover have "id_inv p s' (owes ic)"
  proof -
    have e: "id_inst s' = id_inst s" "env_inst s' = env_inst s" "cpu_arch s' = cpu_arch s" "cpu_pc s' = cpu_pc s"
      "id_valid s' = id_valid s" "id_stall_valid s' = id_stall_valid s" "id_stall_dec_more s' = id_stall_dec_more s"
      "id_stall_inst_valid s' = id_stall_inst_valid s" "id_remain_size s' = id_remain_size s"
      "id_wait_redirect s' = id_wait_redirect s" "k \<noteq> t \<Longrightarrow> cpu_insts s' k = cpu_insts s k" for k
      by (simp_all add: s' upd_inst_def)
    have "id_ready p s' = id_ready p s" if "id_valid s"
      unfolding id_ready_def e(1-4) e(11) [OF i(2) [OF that]] x if_not_P [OF i(2) [OF that]] ..
    then show ?thesis using i(1) cl(1) [of "id_inst s"] unfolding id_inv_def e by blast
  qed
  ultimately have "front_inv p s' (owes ic)" by (rule front_invI) (simp add: s')
  moreover have "steps p s s'" by (rule steps_quiet) (simp_all add: s' upd_inst_def)
  ultimately show ?thesis by simp
qed

section \<open>A cycle of the cpu\<close>

lemma steps_tick: "front (s\<lparr> cpu_arch := (cpu_arch s)\<lparr> tick := n \<rparr> \<rparr>) = front s"
  by (simp add: front_def)

lemma pipe_exec_front:
  assumes "pipe_exec p (s, ic, dc) = Inr (s', ic', dc')" "front_inv p s (owes ic)" "\<not> idle_req_valid ic"
  shows "front_inv p s' (owes ic') \<and> idle_ok ic' \<and> steps p s s'"
proof -
  obtain s1 ic1 dc1 where 1: "wb_stage (s, ic, dc) = Inr (s1, ic1, dc1)"
    using assms(1) by (auto simp: pipe_exec_def rbind_eq_Inr split: if_splits)
  obtain s2 where 2: "mem_stage s1 = Inr s2"
    using assms(1) 1 by (auto simp: pipe_exec_def rbind_eq_Inr split: if_splits)
  obtain s3 ic3 dc3 where 3: "exe_stage p (s2, ic1, dc1) = Inr (s3, ic3, dc3)"
    using assms(1) 1 2 by (auto simp: pipe_exec_def rbind_eq_Inr split: if_splits)
  obtain s4 ic4 where 4: "id_stage p s3 ic3 = Inr (s4, ic4)"
    using assms(1) 1 2 3 by (auto simp: pipe_exec_def rbind_eq_Inr split: if_splits)
  obtain s5 ic5 where 5: "refill_stage p s4 ic4 = Inr (s5, ic5)"
    using assms(1) 1 2 3 4 by (auto simp: pipe_exec_def rbind_eq_Inr split: if_splits)
  obtain s6 where 6: "fetch_stage p s5 ic5 = Inr (s6, ic')"
    using assms(1) 1 2 3 4 5 by (auto simp: pipe_exec_def rbind_eq_Inr split: if_splits)
  obtain s7 where 7: "issue_stage s6 = Inr s7" and s': "s' = s7\<lparr> cpu_arch := (cpu_arch s7)\<lparr> tick := tick (cpu_arch s7) + 1 \<rparr> \<rparr>"
    using assms(1) 1 2 3 4 5 6 by (auto simp: pipe_exec_def rbind_eq_Inr split: if_splits)
  have f2: "front_ok p s ic s2 ic1" using front_ok_same [OF wb_front [OF 1 assms(2,3)] mem_front [OF 2]] .
  have f3: "front_ok p s ic s3 ic3" using f2 exe_front [OF 3] front_ok_trans [OF f2] by (simp add: front_ok_def)
  have f4: "front_ok p s ic s4 ic4" using f3 id_stage_front [OF 4] front_ok_trans [OF f3] by (simp add: front_ok_def)
  have "front_ok p s4 ic4 s5 ic5 \<and> (id_valid s5 \<or> \<not> id_stall_valid s5)"
    using f4 refill_front [OF 5] by (simp add: front_ok_def)
  then have f5: "front_ok p s ic s5 ic5" "id_valid s5 \<or> \<not> id_stall_valid s5"
    using front_ok_trans [OF f4] by blast+
  have f6: "steps p s s6" "idle_ok ic'" "front_inv p s6 (owes ic') \<or> handed_over p s6 ic'"
    using f5(1) fetch_front [OF 6 _ _ f5(2)] by (auto simp: front_ok_def intro: steps_trans)
  have f7: "front_inv p s7 (owes ic')" "steps p s s7"
    using issue_front [OF 7 f6(3)] f6(1) by (auto intro: steps_trans)
  show ?thesis
    using front_frame [OF steps_tick f7(1)] f6(2) f7(2) by (auto simp: s' intro: steps_trans)
qed

text \<open>The cpu calls nothing on its caches but lookup, flush and redirect: what these keep, every stage keeps.\<close>

lemma stage_icache:
  assumes P: "\<And>c. P c \<Longrightarrow> P (icache_redirect c)" "\<And>c. P c \<Longrightarrow> P (icache_flush c)" "\<And>r c. P c \<Longrightarrow> P (snd (icache_lookup r c))"
    and "P ic"
  shows "wb_stage (s, ic, dc) = Inr (s', ic', dc') \<Longrightarrow> P ic'"
    and "exe_stage p (s, ic, dc) = Inr (s', ic', dc') \<Longrightarrow> P ic'"
    and "id_stage p s ic = Inr (s', ic') \<Longrightarrow> P ic'"
    and "refill_stage p s ic = Inr (s', ic') \<Longrightarrow> P ic'"
    and "fetch_stage p s ic = Inr (s', ic') \<Longrightarrow> P ic'"
proof -
  note i = assms(4) P(1,2) [OF assms(4)]
  have l: "icache_lookup r ic = (b, c) \<Longrightarrow> P c" for r b c using P(3) [OF assms(4), of r] by simp
  show "wb_stage (s, ic, dc) = Inr (s', ic', dc') \<Longrightarrow> P ic'"
    using i by (auto simp: wb_stage_def Let_def rbind_eq_Inr split: if_splits)
  have "exe_issue p (s, ic, dc) = Inr (s', ic', dc') \<Longrightarrow> P ic'" for s s' dc dc'
    using i by (auto simp: exe_issue_def exe_mispredict_def Let_def rbind_eq_Inr split: if_splits option.splits)
  then show "exe_stage p (s, ic, dc) = Inr (s', ic', dc') \<Longrightarrow> P ic'"
    using i by (auto simp: exe_stage_def Let_def rbind_eq_Inr split: if_splits)
  have "id_commit p s ic = Inr (s', ic') \<Longrightarrow> P ic'" for s s'
    using i by (auto simp: id_commit_def Let_def rbind_eq_Inr split: if_splits)
  then show "id_stage p s ic = Inr (s', ic') \<Longrightarrow> P ic'"
    using i by (auto simp: id_stage_def Let_def rbind_eq_Inr split: if_splits)
  show "refill_stage p s ic = Inr (s', ic') \<Longrightarrow> P ic'"
    using i by (auto simp: refill_stage_def Let_def rbind_eq_Inr split: if_splits)
  show "fetch_stage p s ic = Inr (s', ic') \<Longrightarrow> P ic'"
    using assms(4)
    by (auto simp: fetch_stage_def Let_def rbind_eq_Inr split: if_splits prod.splits dest: l)
qed

lemma stage_dcache:
  assumes P: "\<And>c. P c \<Longrightarrow> P (dcache_redirect c)" "\<And>c. P c \<Longrightarrow> P (dcache_flush c)" "\<And>r c. P c \<Longrightarrow> P (snd (dcache_lookup r c))"
    and "P dc"
  shows "wb_stage (s, ic, dc) = Inr (s', ic', dc') \<Longrightarrow> P dc'"
    and "exe_stage p (s, ic, dc) = Inr (s', ic', dc') \<Longrightarrow> P dc'"
proof -
  note i = assms(4) P(1,2) [OF assms(4)]
  show "wb_stage (s, ic, dc) = Inr (s', ic', dc') \<Longrightarrow> P dc'"
    using i by (auto simp: wb_stage_def Let_def rbind_eq_Inr split: if_splits)
  have l: "dcache_lookup r dc = (b, c) \<Longrightarrow> P c" for r b c using P(3) [OF assms(4), of r] by simp
  have acc: "exe_access p ty rq k s dc = Inr (s', dc') \<Longrightarrow> P dc'" for ty rq k s s' dc'
    using l [of k "fst (dcache_lookup k dc)" "snd (dcache_lookup k dc)"]
    by (auto simp: exe_access_def Let_def case_prod_unfold rbind_eq_Inr)
  have "exe_issue p (s, ic, dc) = Inr (s', ic', dc') \<Longrightarrow> P dc'" for s s' ic ic'
    using i by (auto simp: exe_issue_def Let_def rbind_eq_Inr split: if_splits option.splits dest: acc)
  then show "exe_stage p (s, ic, dc) = Inr (s', ic', dc') \<Longrightarrow> P dc'"
    using i by (auto simp: exe_stage_def Let_def rbind_eq_Inr split: if_splits)
qed

lemma pipe_exec_stages:
  assumes "pipe_exec p (s, ic, dc) = Inr (s', ic', dc')"
  obtains s1 ic1 dc1 s2 s3 ic3 s4 ic4 s5 ic5 s6 where "wb_stage (s, ic, dc) = Inr (s1, ic1, dc1)"
    "exe_stage p (s2, ic1, dc1) = Inr (s3, ic3, dc')" "id_stage p s3 ic3 = Inr (s4, ic4)"
    "refill_stage p s4 ic4 = Inr (s5, ic5)" "fetch_stage p s5 ic5 = Inr (s6, ic')"
  using assms by (auto simp: pipe_exec_def rbind_eq_Inr split: if_splits)

lemma pipe_exec_icache:
  assumes "pipe_exec p (s, ic, dc) = Inr (s', ic', dc')"
    and P: "\<And>c. P c \<Longrightarrow> P (icache_redirect c)" "\<And>c. P c \<Longrightarrow> P (icache_flush c)" "\<And>r c. P c \<Longrightarrow> P (snd (icache_lookup r c))"
    and "P ic"
  shows "P ic'"
  using assms(1)
proof (rule pipe_exec_stages)
  fix s1 ic1 dc1 s2 s3 ic3 s4 ic4 s5 ic5 s6
  assume r: "wb_stage (s, ic, dc) = Inr (s1, ic1, dc1)" "exe_stage p (s2, ic1, dc1) = Inr (s3, ic3, dc')"
    "id_stage p s3 ic3 = Inr (s4, ic4)" "refill_stage p s4 ic4 = Inr (s5, ic5)" "fetch_stage p s5 ic5 = Inr (s6, ic')"
  have "P ic1" by (rule stage_icache(1) [OF P assms(5) r(1)])
  have "P ic3" by (rule stage_icache(2) [OF P \<open>P ic1\<close> r(2)])
  have "P ic4" by (rule stage_icache(3) [OF P \<open>P ic3\<close> r(3)])
  have "P ic5" by (rule stage_icache(4) [OF P \<open>P ic4\<close> r(4)])
  show "P ic'" by (rule stage_icache(5) [OF P \<open>P ic5\<close> r(5)])
qed

lemma pipe_exec_dcache:
  assumes "pipe_exec p (s, ic, dc) = Inr (s', ic', dc')"
    and P: "\<And>c. P c \<Longrightarrow> P (dcache_redirect c)" "\<And>c. P c \<Longrightarrow> P (dcache_flush c)" "\<And>r c. P c \<Longrightarrow> P (snd (dcache_lookup r c))"
    and "P dc"
  shows "P dc'"
  using assms(1)
proof (rule pipe_exec_stages)
  fix s1 ic1 dc1 s2 s3 ic3 s4 ic4 s5 ic5 s6
  assume r: "wb_stage (s, ic, dc) = Inr (s1, ic1, dc1)" "exe_stage p (s2, ic1, dc1) = Inr (s3, ic3, dc')"
  have "P dc1" by (rule stage_dcache(1) [OF P assms(5) r(1)])
  show "P dc'" by (rule stage_dcache(2) [OF P \<open>P dc1\<close> r(2)])
qed

lemma pipe_exec_icache_inv:
  "pipe_exec p (s, ic, dc) = Inr (s', ic', dc') \<Longrightarrow> icache_inv out ic \<Longrightarrow> icache_inv out ic'"
  by (erule pipe_exec_icache [where P = "icache_inv out"])
    (auto intro: icache_redirect_inv icache_flush_inv icache_lookup_inv [OF _ prod.collapse [symmetric]])

lemma pipe_exec_dcache_inv:
  "pipe_exec p (s, ic, dc) = Inr (s', ic', dc') \<Longrightarrow> dcache_inv out dc \<Longrightarrow> dcache_inv out dc'"
  by (erule pipe_exec_dcache [where P = "dcache_inv out"])
    (auto intro: dcache_redirect_inv dcache_flush_inv dcache_lookup_inv [OF _ prod.collapse [symmetric]])

section \<open>The simulator\<close>

definition emu_inv :: "'d plat \<Rightarrow> ('d, 'p) emu \<Rightarrow> bool" where
  "emu_inv p m \<longleftrightarrow> front_inv p (em_cpu m) (owes (em_ic m)) \<and> idle_ok (em_ic m) \<and> icache_inv (em_out_i m) (em_ic m)"

lemma icache_callback0:
  "snd (callback0 (icache_port p up) ids (Inr s)) = Inr s' \<Longrightarrow> \<exists>red. icache_callback p s = Inr (red, s')"
  by (cases "icache_callback p s") (simp_all add: icache_port_def split: prod.splits)

lemma client_front:
  assumes "Inr s' = Inr s \<and> ow' = ow \<or> ow \<and> \<not> ow' \<and> (\<exists>ids. Inr s' = snd (callback0 (icache_port p up) ids (Inr s)))"
    and "front_inv p s ow"
  shows "front_inv p s' ow' \<and> steps p s s'"
proof (cases "s' = s \<and> ow' = ow")
  case False
  then obtain ids where o: "ow" "\<not> ow'" "snd (callback0 (icache_port p up) ids (Inr s)) = Inr s'" using assms(1) by force
  from icache_callback0 [OF o(3)] icache_callback_front [of p s _ s'] assms(2) o(1,2) show ?thesis by auto
qed (use assms(2) in simp)

lemma dcall_client_client: "dcall_client e c cl = (c', cl') \<Longrightarrow> \<exists>ids. cl' = snd (callback0 e ids cl)"
  by (auto simp: dcall_client_def split: prod.splits) (metis snd_conv)

lemma dcache_client:
  "dhandleIdleReq e h c cl = Inr (c', cl') \<Longrightarrow> cl' = cl \<or> (\<exists>ids. cl' = snd (callback0 e ids cl))"
  "dcache_fill e c cl = Inr (c', cl') \<Longrightarrow> cl' = cl \<or> (\<exists>ids. cl' = snd (callback0 e ids cl))"
  by (auto simp: dhandleIdleReq_def dcache_fill_def Let_def split: prod.splits if_splits dest: dcall_client_client)

lemma dcache_tick_client:
  "dcache_tick e h (c, cl, q) = Inr (c', cl', q') \<Longrightarrow> cl' = cl \<or> (\<exists>ids. cl' = snd (callback0 e ids cl))"
  by (auto simp: dcache_tick_def rbind_eq_Inr split: if_splits dstate_t.splits dest: dcache_client)

lemma dclient_front:
  assumes "Inr s' = Inr s \<or> (\<exists>ids. Inr s' = snd (callback0 (dcache_port up) ids (Inr s)))"
  shows "front s' = front s"
  using assms dcache_callback_front [of _ s s'] by (auto simp: dcache_port_def dest: sym)

lemma mem_act_front:
  assumes "mem_act p up a m = Inr m'" "emu_inv p m"
  shows "emu_inv p m' \<and> steps p (em_cpu m) (em_cpu m')"
proof (cases a)
  case Answer_I
  then obtain ic s where f: "icache_fill (icache_port p up) (em_ic m) (Inr (em_cpu m)) = Inr (ic, Inr s)" "0 < em_out_i m"
    and m': "m' = m\<lparr> em_cpu := s, em_ic := ic, em_out_i := em_out_i m - 1 \<rparr>"
    using assms(1) by (auto simp: rbind_eq_Inr split: if_splits)
  have i: "front_inv p (em_cpu m) (owes (em_ic m))" "idle_ok (em_ic m)" "icache_inv 1 (em_ic m)" "em_out_i m = 1"
    using assms(2) f(2) by (auto simp: emu_inv_def icache_inv_def)
  have o: "idle_ok ic"
    "Inr s = Inr (em_cpu m) \<and> owes ic = owes (em_ic m) \<or>
     owes (em_ic m) \<and> \<not> owes ic \<and> (\<exists>ids. Inr s = snd (callback0 (icache_port p up) ids (Inr (em_cpu m))))"
    using icache_fill_owes [OF f(1) i(3,2)] by blast+
  have "icache_inv 0 ic" using icache_fill_inv [OF i(3), of "icache_port p up" "Inr (em_cpu m)"] f(1) by auto
  then show ?thesis using client_front [OF o(2) i(1)] o(1) i(4) by (simp add: m' emu_inv_def)
next
  case Answer_D
  then obtain dc s where f: "dcache_fill (dcache_port up) (em_dc m) (Inr (em_cpu m)) = Inr (dc, Inr s)"
    and m': "m' = m\<lparr> em_cpu := s, em_dc := dc, em_out_d := em_out_d m - 1 \<rparr>"
    using assms(1) by (auto simp: rbind_eq_Inr split: if_splits)
  then show ?thesis
    using front_frame [OF dclient_front [OF dcache_client(2) [OF f]], of p "owes (em_ic m)"] assms(2)
    by (simp add: emu_inv_def)
next
  case (Devices d irq)
  have "core (s\<lparr> mip := i \<rparr>) = core s" for s i by (simp add: core_def)
  then have "front (em_cpu m') = front (em_cpu m)" "em_ic m' = em_ic m" "em_out_i m' = em_out_i m"
    using assms(1) Devices by (auto simp: front_def notify_def irqListener_def set_devices_def arch_def split: option.splits)
  then show ?thesis using front_frame [of "em_cpu m'" "em_cpu m" p "owes (em_ic m)"] assms(2) by (simp add: emu_inv_def)
next
  case (Parent q)
  then show ?thesis using assms by (auto simp: emu_inv_def)
qed

lemma mem_acts_front: "mem_acts p up as m = Inr m' \<Longrightarrow> emu_inv p m \<Longrightarrow> emu_inv p m' \<and> steps p (em_cpu m) (em_cpu m')"
proof (induction "as" arbitrary: m)
  case (Cons a "as")
  then obtain m1 where "mem_act p up a m = Inr m1" "mem_acts p up as m1 = Inr m'" by (auto simp: rbind_eq_Inr)
  then show ?case using Cons.IH mem_act_front Cons.prems(2) steps_trans by blast
qed simp

lemma icache_clock_front:
  assumes "icache_clock p up m = Inr m'" "emu_inv p m"
  shows "emu_inv p m' \<and> steps p (em_cpu m) (em_cpu m') \<and> \<not> idle_req_valid (em_ic m')"
proof -
  obtain ic s q where t: "icache_tick (icache_port p up) (fetch_reqs (em_cpu m)) (em_ic m, Inr (em_cpu m), em_parent m) = Inr (ic, Inr s, q)"
    and m': "m' = m\<lparr> em_cpu := s, em_ic := ic, em_parent := q,
      em_out_i := (if cstate (em_ic m) \<noteq> MISS \<and> cstate ic = MISS then em_out_i m + 1 else em_out_i m) \<rparr>"
    using assms(1) by (auto simp: icache_clock_def rbind_eq_Inr)
  have i: "front_inv p (em_cpu m) (owes (em_ic m))" "idle_ok (em_ic m)" "icache_inv (em_out_i m) (em_ic m)"
    using assms(2) by (auto simp: emu_inv_def)
  note o = icache_tick_owes [OF t i(2)]
  have "icache_inv (em_out_i m') ic"
    using icache_tick_inv [OF i(3), of "icache_port p up" "fetch_reqs (em_cpu m)" "Inr (em_cpu m)" "em_parent m"] t
    by (auto simp: m' icache_inv_def)
  then show ?thesis
    using client_front [OF o [THEN conjunct2] i(1)] o by (auto simp: m' emu_inv_def idle_ok_def)
qed

lemma dcache_clock_front:
  assumes "dcache_clock up m = Inr m'" "emu_inv p m"
  shows "emu_inv p m' \<and> steps p (em_cpu m) (em_cpu m') \<and> em_ic m' = em_ic m"
proof -
  obtain dc s q where t: "dcache_tick (dcache_port up) (mem_reqs (em_cpu m)) (em_dc m, Inr (em_cpu m), em_parent m) = Inr (dc, Inr s, q)"
    and m': "m' = m\<lparr> em_cpu := s, em_dc := dc, em_parent := q,
      em_out_d := (if dstate (em_dc m) \<noteq> D_MISS \<and> dstate dc = D_MISS then em_out_d m + 1 else em_out_d m) \<rparr>"
    using assms(1) by (auto simp: dcache_clock_def rbind_eq_Inr)
  then show ?thesis
    using front_frame [OF dclient_front [OF dcache_tick_client [OF t]], of p "owes (em_ic m)"] assms(2)
    by (simp add: emu_inv_def)
qed

lemma emu_cycle_front:
  assumes "emu_cycle p up as m = Inr m'" "emu_inv p m"
  shows "emu_inv p m' \<and> steps p (em_cpu m) (em_cpu m')"
proof -
  obtain m1 m2 m3 s ic dc where r: "mem_acts p up as m = Inr m1" "icache_clock p up m1 = Inr m2"
      "dcache_clock up m2 = Inr m3" "pipe_exec p (em_cpu m3, em_ic m3, em_dc m3) = Inr (s, ic, dc)"
    and m': "m' = m3\<lparr> em_cpu := s, em_ic := ic, em_dc := dc \<rparr>"
    using assms(1) by (auto simp: emu_cycle_def emu_clock_def rbind_eq_Inr)
  have 1: "emu_inv p m1" "steps p (em_cpu m) (em_cpu m1)" using mem_acts_front [OF r(1) assms(2)] by auto
  have 2: "emu_inv p m2" "steps p (em_cpu m1) (em_cpu m2)" "\<not> idle_req_valid (em_ic m2)"
    using icache_clock_front [OF r(2) 1(1)] by auto
  have 3: "emu_inv p m3" "steps p (em_cpu m2) (em_cpu m3)" "\<not> idle_req_valid (em_ic m3)"
    using dcache_clock_front [OF r(3) 2(1)] 2(3) by auto
  have "front_inv p s (owes ic) \<and> idle_ok ic \<and> steps p (em_cpu m3) s"
    using pipe_exec_front [OF r(4)] 3(1,3) by (simp add: emu_inv_def)
  moreover have "icache_inv (em_out_i m3) ic" using pipe_exec_icache_inv [OF r(4)] 3(1) by (simp add: emu_inv_def)
  ultimately show ?thesis using 1(2) 2(2) 3(2) by (auto simp: m' emu_inv_def intro: steps_trans)
qed

lemma emu_run_front:
  "emu_run p up end_tick inst_count ass m = Inr m' \<Longrightarrow> emu_inv p m \<Longrightarrow> emu_inv p m' \<and> steps p (em_cpu m) (em_cpu m')"
proof (induction ass arbitrary: m)
  case (Cons "as" ass)
  show ?case
  proof (cases "tick (cpu_arch (em_cpu m)) \<le> end_tick \<and> instret (cpu_arch (em_cpu m)) < inst_count")
    case True
    then obtain m1 where "emu_cycle p up as m = Inr m1" "emu_run p up end_tick inst_count ass m1 = Inr m'"
      using Cons.prems(1) by (auto simp: rbind_eq_Inr)
    then show ?thesis using Cons.IH emu_cycle_front Cons.prems(2) steps_trans by blast
  next
    case False
    then show ?thesis using Cons.prems by (simp only: emu_run.simps if_False) simp
  qed
qed simp

text \<open>The state after afterLoad of the cpu and of the instruction cache.\<close>

lemma afterLoad_front:
  assumes "pipe_afterLoad start_pc sizes stack delays mem u = Inr s" "3 \<le> retire_size u"
  shows "front_inv p s False" "cpu_pc s = start_pc"
proof -
  have r: "ring [0..<retire_size u] 0 0 (ll_pushes [0..<retire_size u] ll_new)"
    using assms(2) by (intro pushes_ring [THEN conjunct1]) simp
  show "front_inv p s False" "cpu_pc s = start_pc"
    using assms r by (auto simp: pipe_afterLoad_def rbind_eq_Inr intro!: front_flushed)
qed

lemma emu_start:
  assumes "pipe_afterLoad start_pc sizes stack delays mem u = Inr s" "3 \<le> retire_size u"
    "0 < sets" "sets < 2 ^ 31" "0 < ways" "\<not> idle_req_valid ic0"
  shows "emu_inv p \<lparr> em_cpu = s, em_ic = icache_afterLoad line sets ways ic0, em_dc = dc, em_parent = q, em_out_i = 0, em_out_d = 0 \<rparr>"
proof -
  have "\<not> owes (icache_afterLoad line sets ways ic0)" "idle_ok (icache_afterLoad line sets ways ic0)"
    using assms(6) by (simp_all add: owes_def idle_ok_def icache_afterLoad_def)
  then show ?thesis
    using afterLoad_front(1) [OF assms(1,2)] icache_afterLoad_inv [OF assms(3-5)] by (simp add: emu_inv_def)
qed

end
