(* ===== verification/Simulator_Props.thy ===== *)
theory Simulator_Props
  imports Simulator Pipeline_Order
begin

text \<open>
  The whole simulator is an instance of the simulator of Emu: its memory answers each miss of a cache once,
  to the cache that asked, so what it does in a cycle is a list of actions of Emu.
\<close>

section \<open>The contract of the DRAM simulator\<close>

text \<open>out counts the reads it has taken; in a tick it calls back at most these, each once.\<close>

definition dram_keeps :: "'r dram_ops \<Rightarrow> ('r \<Rightarrow> nat) \<Rightarrow> bool" where
  "dram_keeps e out \<longleftrightarrow>
     (\<forall>w a r ok r'. dram_send e w a r = (ok, r') \<longrightarrow> out r' = out r + (if ok \<and> \<not> w then 1 else 0)) \<and>
     (\<forall>r n r'. dram_tick e r = (n, r') \<longrightarrow> n \<le> out r \<and> out r' = out r - n)"

lemma dram_keepsD:
  "dram_keeps e out \<Longrightarrow> dram_send e w a r = (ok, r') \<Longrightarrow> out r' = out r + (if ok \<and> \<not> w then 1 else 0)"
  "dram_keeps e out \<Longrightarrow> dram_tick e r = (n, r') \<Longrightarrow> n \<le> out r \<and> out r' = out r - n"
  by (simp_all add: dram_keeps_def)

section \<open>What the memory owes to the caches\<close>

text \<open>The callbacks of the requests it has taken: reads in the DRAM, a write, requests in the devices.\<close>

definition mem_owed :: "(device, 'r) mem_port \<Rightarrow> u8 list" where
  "mem_owed q = map dm_callback (rq_abs (mp_queue q)) @ (if mp_write_valid q then [mp_write_callback q] else []) @
     map fst (dv.owed q)"

definition mem_inv :: "('r \<Rightarrow> nat) \<Rightarrow> (device, 'r) mem_port \<Rightarrow> bool" where
  "mem_inv out q \<longleftrightarrow> rq_inv (mp_queue q) \<and> 2 \<le> rq_cap (mp_queue q) \<and> dv.pool q \<and> answers q = [] \<and>
     out (mp_dram q) = length (rq_abs (mp_queue q)) \<and> (mp_write_valid q \<longrightarrow> mp_write_callback q = 1)"

text \<open>The state of the simulator while the answers xs are still to be delivered.\<close>

definition sim_inv :: "('r \<Rightarrow> nat) \<Rightarrow> (u8 \<times> (nat \<Rightarrow> u16)) list \<Rightarrow> ('d, 'r) sim \<Rightarrow> bool" where
  "sim_inv out xs m \<longleftrightarrow>
     (\<exists>q. em_parent m = Inr q \<and> mem_inv out q \<and>
       mset (mem_owed q) + mset (map fst xs) = replicate_mset (em_out_i m) 0 + replicate_mset (em_out_d m) 1) \<and>
     icache_inv (em_out_i m) (em_ic m) \<and> dcache_inv (em_out_d m) (em_dc m) \<and> req (lookup_req (em_ic m)) = READ_SHARED"

lemma owed_answers [simp]: "dv.owed (q\<lparr> answers := xs \<rparr>) = dv.owed q" "dv.pool (q\<lparr> answers := xs \<rparr>) = dv.pool q"
  "dv.owed (q\<lparr> mp_dram := d \<rparr>) = dv.owed q" "dv.pool (q\<lparr> mp_dram := d \<rparr>) = dv.pool q"
  "dv.owed (q\<lparr> mp_queue := r \<rparr>) = dv.owed q" "dv.pool (q\<lparr> mp_queue := r \<rparr>) = dv.pool q"
  by (simp_all add: dv.owed_def dv.pool_def)

lemma owed_write [simp]: "dv.owed (q\<lparr> mp_write_valid := b \<rparr>) = dv.owed q" "dv.pool (q\<lparr> mp_write_valid := b \<rparr>) = dv.pool q"
  "dv.owed (q\<lparr> mp_write_ids := i \<rparr>) = dv.owed q" "dv.pool (q\<lparr> mp_write_ids := i \<rparr>) = dv.pool q"
  "dv.owed (q\<lparr> mp_write_callback := cb \<rparr>) = dv.owed q" "dv.pool (q\<lparr> mp_write_callback := cb \<rparr>) = dv.pool q"
  by (simp_all add: dv.owed_def dv.pool_def)

section \<open>Delivering an answer\<close>

lemma icache_fill_req: "icache_fill e c cl = Inr (c', cl') \<Longrightarrow> lookup_req c' = lookup_req c"
  by (auto simp: icache_fill_def call_client_def icache_redirect_def Let_def split: prod.splits if_splits)

lemma deliver_inv:
  assumes "deliver p up a m = Inr m'" "sim_inv out (a # xs) m"
  shows "\<exists>x. mem_act p up x m = Inr m' \<and> sim_inv out xs m'"
proof -
  obtain q where q: "em_parent m = Inr q" "mem_inv out q"
      "mset (mem_owed q) + mset (map fst xs) + {#fst a#} = replicate_mset (em_out_i m) 0 + replicate_mset (em_out_d m) 1"
    and i: "icache_inv (em_out_i m) (em_ic m)" "dcache_inv (em_out_d m) (em_dc m)" "req (lookup_req (em_ic m)) = READ_SHARED"
    using assms(2) by (auto simp: sim_inv_def)
  have "fst a \<in># replicate_mset (em_out_i m) 0 + replicate_mset (em_out_d m) 1"
    unfolding q(3) [symmetric] by simp
  then consider "fst a = 0" "0 < em_out_i m" | "fst a = 1" "0 < em_out_d m"
    by (auto split: if_splits)
  then show ?thesis
  proof cases
    case 1
    then have o: "em_out_i m = 1" using i(1) by (simp add: icache_inv_def)
    obtain ic s where f: "icache_fill (icache_port p up) (em_ic m) (Inr (em_cpu m)) = Inr (ic, Inr s)"
      and m': "m' = m\<lparr> em_cpu := s, em_ic := ic, em_out_i := 0 \<rparr>"
      using assms(1) 1(1) o by (auto simp: deliver_def rbind_eq_Inr)
    have "icache_inv 0 ic" using icache_fill_inv [of "em_ic m" "icache_port p up" "Inr (em_cpu m)"] f i(1) o by auto
    moreover have "mset (mem_owed q) + mset (map fst xs) = replicate_mset (em_out_d m) 1" using q(3) 1(1) o by simp
    ultimately have "sim_inv out xs m'" using q(1,2) i icache_fill_req [OF f] by (auto simp: sim_inv_def m')
    then show ?thesis using f o by (intro exI [of _ Answer_I]) (simp add: m')
  next
    case 2
    then have o: "em_out_d m = 1" using i(2) by (simp add: dcache_inv_def)
    obtain dc s where f: "dcache_fill (dcache_port up) (em_dc m) (Inr (em_cpu m)) = Inr (dc, Inr s)"
      and m': "m' = m\<lparr> em_cpu := s, em_dc := dc, em_out_d := 0 \<rparr>"
      using assms(1) 2(1) o by (auto simp: deliver_def rbind_eq_Inr)
    have "dcache_inv 0 dc" using dcache_fill_inv [of "em_dc m" "dcache_port up" "Inr (em_cpu m)"] f i(2) o by auto
    moreover have "mset (mem_owed q) + mset (map fst xs) = replicate_mset (em_out_i m) 0" using q(3) 2(1) o by simp
    ultimately have "sim_inv out xs m'" using q(1,2) i by (auto simp: sim_inv_def m')
    then show ?thesis using f o by (intro exI [of _ Answer_D]) (simp add: m')
  qed
qed

lemma mem_acts_append: "mem_acts p up (as @ bs) m = rbind (mem_acts p up as m) (mem_acts p up bs)"
proof (induction "as" arbitrary: m)
  case (Cons a "as")
  then show ?case by (cases "mem_act p up a m") simp_all
qed simp

lemma delivers_inv:
  "delivers p up ys m = Inr m' \<Longrightarrow> sim_inv out (ys @ xs) m \<Longrightarrow> \<exists>as. mem_acts p up as m = Inr m' \<and> sim_inv out xs m'"
proof (induction ys arbitrary: m)
  case Nil
  then show ?case by (intro exI [of _ "[]"]) simp
next
  case (Cons y ys)
  then obtain m1 where m1: "deliver p up y m = Inr m1" "delivers p up ys m1 = Inr m'" by (auto simp: rbind_eq_Inr)
  obtain x where x: "mem_act p up x m = Inr m1" "sim_inv out (ys @ xs) m1" using deliver_inv [OF m1(1)] Cons.prems(2) by auto
  obtain as where "mem_acts p up as m1 = Inr m'" "sim_inv out xs m'" using Cons.IH [OF m1(2) x(2)] by blast
  then show ?case using x(1) by (intro exI [of _ "x # as"]) simp
qed

text \<open>The actions of the devices and of the memory itself, before the answers are delivered.\<close>

lemma act_then_deliver:
  assumes "delivers p up ys (m\<lparr> em_cpu := (em_cpu m)\<lparr> cpu_arch := notify irq (set_devices d (cpu_arch (em_cpu m))) \<rparr>, em_parent := Inr q \<rparr>) = Inr m'"
    and "sim_inv out [] m" "em_parent m = Inr q0" "mem_inv out q" "mset (mem_owed q) + mset (map fst ys) = mset (mem_owed q0)"
  shows "\<exists>as. mem_acts p up as m = Inr m' \<and> sim_inv out [] m'"
proof -
  let ?m = "m\<lparr> em_cpu := (em_cpu m)\<lparr> cpu_arch := notify irq (set_devices d (cpu_arch (em_cpu m))) \<rparr>, em_parent := Inr q \<rparr>"
  have "sim_inv out (ys @ []) ?m" using assms(2-5) by (auto simp: sim_inv_def)
  then obtain as where "mem_acts p up as ?m = Inr m'" "sim_inv out [] m'" using delivers_inv [OF assms(1)] by blast
  then show ?thesis by (intro exI [of _ "Devices d irq # Parent (Inr q) # as"]) simp
qed

section \<open>The tick of the memory\<close>

lemma device_tick_frame:
  "mp_queue (device_tick k i q) = mp_queue q" "mp_dram (device_tick k i q) = mp_dram q"
  "mp_write_valid (device_tick k i q) = mp_write_valid q" "mp_write_callback (device_tick k i q) = mp_write_callback q"
  by (auto simp: device_tick_def answer_def Let_def split: prod.splits option.splits)

lemma device_tick_inv:
  assumes "mem_inv out q" "i < length (mp_devices q)"
  shows "mem_inv out ((device_tick dev_ops i q)\<lparr> answers := [] \<rparr>)"
    "mset (mem_owed ((device_tick dev_ops i q)\<lparr> answers := [] \<rparr>)) + mset (map fst (answers (device_tick dev_ops i q))) =
       mset (mem_owed q)"
    "length (mp_devices (device_tick dev_ops i q)) = length (mp_devices q)"
proof -
  have t: "dv.pool (device_tick dev_ops i q)" "length (mp_devices (device_tick dev_ops i q)) = length (mp_devices q)"
    "mset (answers (device_tick dev_ops i q)) + mset (dv.owed (device_tick dev_ops i q)) = mset (dv.owed q)"
    using dv.tick_ok [of q i] assms by (auto simp: mem_inv_def)
  then show "mem_inv out ((device_tick dev_ops i q)\<lparr> answers := [] \<rparr>)"
    "length (mp_devices (device_tick dev_ops i q)) = length (mp_devices q)"
    using assms(1) by (auto simp: mem_inv_def device_tick_frame)
  have "image_mset fst (mset (answers (device_tick dev_ops i q))) + image_mset fst (mset (dv.owed (device_tick dev_ops i q))) =
      image_mset fst (mset (dv.owed q))"
    unfolding image_mset_union [symmetric] t(3) ..
  then show "mset (mem_owed ((device_tick dev_ops i q)\<lparr> answers := [] \<rparr>)) + mset (map fst (answers (device_tick dev_ops i q))) =
      mset (mem_owed q)"
    by (simp add: mem_owed_def device_tick_frame ac_simps)
qed

lemma delivers_parent: "delivers p up ys m = Inr m' \<Longrightarrow> em_parent m' = em_parent m"
  by (induction ys arbitrary: m) (fastforce simp: deliver_def rbind_eq_Inr split: if_splits)+

lemma sim_device_inv:
  assumes "sim_device p e ft i m = Inr m'" "sim_inv out [] m" "em_parent m = Inr q" "i < length (mp_devices q)"
  shows "(\<exists>as. mem_acts p (memory_parent e) as m = Inr m' \<and> sim_inv out [] m') \<and>
    (\<exists>q'. em_parent m' = Inr q' \<and> length (mp_devices q') = length (mp_devices q))"
proof -
  let ?q = "device_tick dev_ops i q"
  obtain d irq where dl: "delivers p (memory_parent e) (answers ?q) (m\<lparr> em_cpu := (em_cpu m)\<lparr> cpu_arch :=
      notify irq (set_devices d (cpu_arch (em_cpu m))) \<rparr>, em_parent := Inr (?q\<lparr> answers := [] \<rparr>) \<rparr>) = Inr m'"
    using assms(1,3) by (auto simp: sim_device_def Let_def rbind_eq_Inr)
  have q: "mem_inv out q" using assms(2,3) by (auto simp: sim_inv_def)
  note t = device_tick_inv [OF q assms(4)]
  show ?thesis
    using act_then_deliver [OF dl assms(2,3) t(1,2)] delivers_parent [OF dl] t(3) by simp
qed

lemma sim_devices_inv:
  "sim_devices p e ft is m = Inr m' \<Longrightarrow> sim_inv out [] m \<Longrightarrow> em_parent m = Inr q \<Longrightarrow> \<forall>i \<in> set is. i < length (mp_devices q) \<Longrightarrow>
   \<exists>as. mem_acts p (memory_parent e) as m = Inr m' \<and> sim_inv out [] m'"
proof (induction "is" arbitrary: m q)
  case Nil
  then show ?case by (intro exI [of _ "[]"]) simp
next
  case (Cons i "is")
  then obtain m1 where m1: "sim_device p e ft i m = Inr m1" "sim_devices p e ft is m1 = Inr m'" by (auto simp: rbind_eq_Inr)
  obtain as q' where 1: "mem_acts p (memory_parent e) as m = Inr m1" "sim_inv out [] m1" "em_parent m1 = Inr q'"
      "length (mp_devices q') = length (mp_devices q)"
    using sim_device_inv [OF m1(1) Cons.prems(2,3)] Cons.prems(4) by auto
  obtain bs where "mem_acts p (memory_parent e) bs m1 = Inr m'" "sim_inv out [] m'"
    using Cons.IH [OF m1(2) 1(2,3)] Cons.prems(4) 1(4) by auto
  then show ?case using 1(1) by (intro exI [of _ "as @ bs"]) (simp add: mem_acts_append)
qed

lemma dram_answers_frame:
  "dram_answers n q = Inr q' \<Longrightarrow> mp_devices q' = mp_devices q \<and> mp_dram q' = mp_dram q \<and> mp_write_valid q' = mp_write_valid q \<and>
     mp_write_callback q' = mp_write_callback q \<and> dv.owed q' = dv.owed q \<and> dv.pool q' = dv.pool q"
  by (induction n arbitrary: q) (fastforce simp: rbind_eq_Inr answer_def)+

lemma dram_clock_inv:
  assumes "dram_keeps e out" "mem_inv out q"
  shows "\<exists>q'. dram_clock e h q = Inr q' \<and> mem_inv out (q'\<lparr> answers := [] \<rparr>) \<and>
    mset (mem_owed (q'\<lparr> answers := [] \<rparr>)) + mset (map fst (answers q')) = mset (mem_owed q) \<and>
    mp_devices q' = mp_devices q"
proof -
  obtain n d where d: "dram_tick e (mp_dram q) = (n, d)" by fastforce
  have n: "n \<le> length (rq_abs (mp_queue q))" "out d = length (rq_abs (mp_queue q)) - n"
    using dram_keepsD(2) [OF assms(1) d] assms(2) by (simp_all add: mem_inv_def)
  obtain q1 where q1: "dram_answers n (q\<lparr> mp_dram := d \<rparr>) = Inr q1" "rq_inv (mp_queue q1)"
      "rq_abs (mp_queue q1) = drop n (rq_abs (mp_queue q))" "rq_cap (mp_queue q1) = rq_cap (mp_queue q)"
      "answers q1 = map (\<lambda>x. (dm_callback x, dm_id x)) (take n (rq_abs (mp_queue q)))"
    using dram_answers_ok [of "q\<lparr> mp_dram := d \<rparr>" n] n(1) assms(2) by (auto simp: mem_inv_def)
  note f = dram_answers_frame [OF q1(1)]
  let ?q = "write_answer h q1"
  have w: "mp_devices ?q = mp_devices q1" "mp_queue ?q = mp_queue q1" "mp_dram ?q = mp_dram q1" "dv.pool ?q = dv.pool q1"
    "dv.owed ?q = dv.owed q1" "\<not> mp_write_valid ?q"
    "map fst (answers ?q) = map fst (answers q1) @ (if mp_write_valid q1 then [mp_write_callback q1] else [])"
    by (auto simp: write_answer_def answer_def)
  have "mset (map dm_callback (rq_abs (mp_queue q))) =
      mset (map dm_callback (take n (rq_abs (mp_queue q)) @ drop n (rq_abs (mp_queue q))))"
    by simp
  then have o: "mset (map dm_callback (rq_abs (mp_queue q))) =
      mset (map fst (answers q1)) + mset (map dm_callback (rq_abs (mp_queue q1)))"
    unfolding map_append mset_append q1(3,5) by (simp add: comp_def)
  have "mset (mem_owed (?q\<lparr> answers := [] \<rparr>)) + mset (map fst (answers ?q)) = mset (mem_owed q)"
    using w o f by (simp add: mem_owed_def)
  moreover have "mem_inv out (?q\<lparr> answers := [] \<rparr>)" using w q1 f n(2) assms(2) by (simp add: mem_inv_def)
  ultimately show ?thesis using d q1(1) w(1) f by (simp add: dram_clock_def)
qed

lemma sim_tick_inv:
  assumes "sim_tick p e ft m = Inr m'" "sim_inv out [] m" "dram_keeps e out"
  shows "\<exists>as. mem_acts p (memory_parent e) as m = Inr m' \<and> sim_inv out [] m'"
proof -
  obtain q where q: "em_parent m = Inr q" "mem_inv out q" using assms(2) by (auto simp: sim_inv_def)
  obtain q1 where q1: "dram_clock e (lookup_reqs m) q = Inr q1" "mem_inv out (q1\<lparr> answers := [] \<rparr>)"
      "mset (mem_owed (q1\<lparr> answers := [] \<rparr>)) + mset (map fst (answers q1)) = mset (mem_owed q)"
    using dram_clock_inv [OF assms(3) q(2)] by blast
  let ?m = "m\<lparr> em_parent := Inr (q1\<lparr> answers := [] \<rparr>) \<rparr>"
  obtain m1 where m1: "delivers p (memory_parent e) (answers q1) ?m = Inr m1"
      "sim_devices p e ft [0..<length (mp_devices q1)] m1 = Inr m'"
    using assms(1) q(1) q1(1) by (auto simp: sim_tick_def rbind_eq_Inr)
  have "sim_inv out (answers q1 @ []) ?m" using assms(2) q1(2,3) q(1) by (auto simp: sim_inv_def)
  then obtain as where 1: "mem_acts p (memory_parent e) as ?m = Inr m1" "sim_inv out [] m1" using delivers_inv [OF m1(1)] by blast
  obtain bs where 2: "mem_acts p (memory_parent e) bs m1 = Inr m'" "sim_inv out [] m'"
    using sim_devices_inv [OF m1(2) 1(2)] delivers_parent [OF m1(1)] by auto
  show ?thesis using 1(1) 2 by (intro exI [of _ "Parent (Inr (q1\<lparr> answers := [] \<rparr>)) # as @ bs"]) (simp add: mem_acts_append)
qed

section \<open>A miss is sent to the memory\<close>

text \<open>In a tick a cache asks its parent at most once, and waits for the answer if it was taken.\<close>

lemma handleIdleReq_req: "handleIdleReq e h c cl = Inr (c', cl') \<Longrightarrow> req (lookup_req c') = req (lookup_req c)"
  by (auto simp: handleIdleReq_def call_client_def icache_redirect_def Let_def split: prod.splits if_splits)

lemma handleIdleReq_miss: "handleIdleReq e h c cl = Inr (c', cl') \<Longrightarrow> cstate c' = MISS \<Longrightarrow> cstate c = MISS"
  by (auto simp: handleIdleReq_def call_client_def icache_redirect_def Let_def split: prod.splits if_splits)

lemma icache_tick_parent:
  assumes "icache_tick e h (c, cl, q) = Inr (c', cl', q')"
  shows "q' = q \<and> (cstate c' = MISS \<longrightarrow> cstate c = MISS) \<and> req (lookup_req c') = req (lookup_req c) \<or>
    (\<exists>r r' b. parent_lookup e r q = (b, r', q') \<and> cstate c = LOOKUP \<and> \<not> req_clear_wait c \<and> (cstate c' = MISS \<longleftrightarrow> b) \<and>
      req r = req (lookup_req c) \<and> lookup_req c' = r')"
proof (cases "\<not> flush_valid c \<and> cstate c = LOOKUP \<and> \<not> matched c")
  case True
  then have s: "send_miss e c q = Inr (c', q')" using assms by (auto simp: icache_tick_def rbind_eq_Inr)
  let ?r = "(lookup_req c)\<lparr> req_id := (req_id (lookup_req c))(1 := current_id c) \<rparr>"
  show ?thesis
  proof (cases "req_clear_wait c")
    case False
    obtain b r' q1 where l: "parent_lookup e ?r q = (b, r', q1)" by (metis prod.exhaust)
    then have "q1 = q' \<and> (cstate c' = MISS \<longleftrightarrow> b) \<and> lookup_req c' = r'"
      using s False True by (auto simp: send_miss_def Let_def rbind_eq_Inr split: if_splits)
    then show ?thesis using l False True by (intro disjI2 exI [of _ ?r] exI [of _ r'] exI [of _ b]) simp
  qed (use s True in \<open>auto simp: send_miss_def Let_def\<close>)
next
  case False
  have f: "flush_step c = Inr c1 \<Longrightarrow> cstate c1 = cstate c \<and> lookup_req c1 = lookup_req c" for c1
    by (auto simp: flush_step_def Let_def split: if_splits)
  have "q' = q \<and> (cstate c' = MISS \<longrightarrow> cstate c = MISS) \<and> req (lookup_req c') = req (lookup_req c)"
  proof (cases "flush_valid c")
    case True
    then show ?thesis using assms by (auto simp: icache_tick_def rbind_eq_Inr dest: f)
  next
    case noflush: False
    show ?thesis
      using assms False noflush
      by (cases "cstate c")
        (auto simp: icache_tick_def rbind_eq_Inr split: if_splits dest: handleIdleReq_req handleIdleReq_miss)
  qed
  then show ?thesis ..
qed

lemma dhandleIdleReq_miss: "dhandleIdleReq e h c cl = Inr (c', cl') \<Longrightarrow> dstate c' = D_MISS \<Longrightarrow> dstate c = D_MISS"
  by (auto simp: dhandleIdleReq_def dcall_client_def dcache_redirect_def Let_def split: prod.splits if_splits)

lemma dcache_tick_parent:
  assumes "dcache_tick e h (c, cl, q) = Inr (c', cl', q')"
  shows "q' = q \<and> (dstate c' = D_MISS \<longrightarrow> dstate c = D_MISS) \<or>
    (\<exists>r r' b. parent_lookup e r q = (b, r', q') \<and> dstate c = D_LOOKUP \<and> \<not> dreq_clear_wait c \<and> (dstate c' = D_MISS \<longleftrightarrow> b))"
proof (cases "\<not> dflush_valid c \<and> dstate c = D_LOOKUP \<and> \<not> dmatched c")
  case True
  then have s: "dsend_miss e c q = Inr (c', q')" using assms by (auto simp: dcache_tick_def rbind_eq_Inr)
  show ?thesis
  proof (cases "dreq_clear_wait c")
    case False
    obtain b r' q1 where l: "parent_lookup e (dlookup_req c) q = (b, r', q1)" by (metis prod.exhaust)
    then have "q1 = q' \<and> (dstate c' = D_MISS \<longleftrightarrow> b)"
      using s False True by (auto simp: dsend_miss_def Let_def rbind_eq_Inr split: if_splits)
    then show ?thesis using l False True by (intro disjI2 exI [of _ "dlookup_req c"] exI [of _ r'] exI [of _ b]) simp
  qed (use s True in \<open>auto simp: dsend_miss_def Let_def\<close>)
next
  case False
  have f: "dflush_step c = Inr c1 \<Longrightarrow> dstate c1 = dstate c" for c1
    by (auto simp: dflush_step_def Let_def split: if_splits)
  have w: "mark_dirty (c\<lparr> dstate := D_WRITE \<rparr>) = Inr c1 \<Longrightarrow> dstate c1 = D_WRITE" for c1
    by (auto simp: mark_dirty_def split: option.splits)
  have "q' = q \<and> (dstate c' = D_MISS \<longrightarrow> dstate c = D_MISS)"
  proof (cases "dflush_valid c")
    case True
    then show ?thesis using assms by (auto simp: dcache_tick_def rbind_eq_Inr dest: f)
  next
    case noflush: False
    show ?thesis
      using assms False noflush
      by (cases "dstate c") (auto simp: dcache_tick_def rbind_eq_Inr split: if_splits dest: dhandleIdleReq_miss w)
  qed
  then show ?thesis ..
qed

text \<open>What the memory does with the request.\<close>

lemma device_access_frame:
  "device_access k w i cb ids a sz q = (ok, q') \<Longrightarrow> mp_queue q' = mp_queue q \<and> mp_dram q' = mp_dram q \<and>
     mp_write_valid q' = mp_write_valid q \<and> mp_write_callback q' = mp_write_callback q"
  by (auto simp: device_access_def Let_def split: list.splits prod.splits if_splits)

lemma memory_lookup_inv:
  assumes "memory_lookup e cb r (Inr q) = (b, r', Q)" "dram_keeps e out" "mem_inv out q" "length (mem_owed q) \<le> 1"
    and "cb = 0 \<and> req r = READ_SHARED \<or> cb = 1 \<and> 1 \<notin> set (mem_owed q)"
  shows "\<exists>q'. Q = Inr q' \<and> mem_inv out q' \<and> mset (mem_owed q') = mset (mem_owed q) + (if b then {#cb#} else {#}) \<and>
    req r' = req r"
proof -
  let ?r = "r\<lparr> addr := addr r AND 0xffffffffff \<rparr>"
  have room: "length (rq_abs (mp_queue q)) < rq_cap (mp_queue q)"
    using assms(3,4) by (auto simp: mem_inv_def mem_owed_def)
  show ?thesis
  proof (cases "find_device dev_inRange (addr ?r) (mp_devices q)")
    case (Some i)
    then have i: "i < length (mp_devices q)" using dv.find_device_lt by blast
    have pool: "dv.pool q" using assms(3) by (simp add: mem_inv_def)
    obtain ok q1 where a: "device_access dev_ops (req r \<noteq> READ_SHARED) i cb (req_id r) (addr ?r) (req_size r) q = (ok, q1)"
        "dv.pool q1" "mset (dv.owed q1) = mset (dv.owed q) + (if ok then {#(cb, req_id r)#} else {#})" "answers q1 = answers q"
      using dv.access_ok [OF pool i, of "req r \<noteq> READ_SHARED" cb "req_id r" "addr ?r" "req_size r"] by blast
    note f = device_access_frame [OF a(1)]
    have "image_mset fst (mset (dv.owed q1)) = image_mset fst (mset (dv.owed q)) + (if ok then {#cb#} else {#})"
      unfolding a(3) by simp
    moreover have "b = ok" "Q = Inr q1" "req r' = req r"
      using assms(1) Some a(1) by (auto simp: memory_lookup_def mem_lookup_def Let_def memoryRead_def memoryWrite_def split: if_splits)
    ultimately show ?thesis using f a(2,4) assms(3) by (auto simp: mem_inv_def mem_owed_def)
  next
    case None
    obtain ok d where d: "dram_send e (req r \<noteq> READ_SHARED) (addr ?r) (mp_dram q) = (ok, d)" by fastforce
    have o: "out d = out (mp_dram q) + (if ok \<and> req r = READ_SHARED then 1 else 0)"
      using dram_keepsD(1) [OF assms(2) d] by simp
    show ?thesis
    proof (cases "req r = READ_SHARED")
      case True
      obtain Q1 where Q1: "rq_push (mp_queue q) \<lparr> dm_callback = cb, dm_id = req_id r \<rparr> = Inr Q1" "rq_inv Q1"
          "rq_abs Q1 = rq_abs (mp_queue q) @ [\<lparr> dm_callback = cb, dm_id = req_id r \<rparr>]" "rq_cap Q1 = rq_cap (mp_queue q)"
        using rq.push_room [of "mp_queue q" "\<lparr> dm_callback = cb, dm_id = req_id r \<rparr>"] room assms(3) by (auto simp: mem_inv_def)
      have "b = ok" "req r' = req r" "Q = Inr (if ok then q\<lparr> mp_dram := d, mp_queue := Q1 \<rparr> else q\<lparr> mp_dram := d \<rparr>)"
        using assms(1) None d Q1(1) True by (auto simp: memory_lookup_def mem_lookup_def Let_def memoryRead_def split: if_splits)
      then show ?thesis using o True Q1 assms(3) by (auto simp: mem_inv_def mem_owed_def)
    next
      case False
      then have c: "cb = 1" "\<not> mp_write_valid q" using assms(3,5) by (auto simp: mem_owed_def mem_inv_def)
      have "b = ok" "req r' = req r" "Q = Inr (if ok then q\<lparr> mp_dram := d, mp_write_ids := 1, mp_write_valid := True, mp_write_callback := 1 \<rparr>
          else q\<lparr> mp_dram := d \<rparr>)"
        using assms(1) None d False c(1) by (auto simp: memory_lookup_def mem_lookup_def Let_def memoryWrite_def split: if_splits)
      then show ?thesis using o False c assms(3) by (auto simp: mem_inv_def mem_owed_def)
    qed
  qed
qed

section \<open>A cycle of the clock\<close>

lemma owed_size: "sim_inv out [] m \<Longrightarrow> em_parent m = Inr q \<Longrightarrow> length (mem_owed q) = em_out_i m + em_out_d m"
  by (auto simp: sim_inv_def dest: arg_cong [where f = size])

lemma icache_clock_inv:
  assumes "icache_clock p (memory_parent e) m = Inr m'" "sim_inv out [] m" "dram_keeps e out"
  shows "sim_inv out [] m'"
proof -
  obtain ic s Q where t: "icache_tick (icache_port p (memory_parent e)) (fetch_reqs (em_cpu m)) (em_ic m, Inr (em_cpu m), em_parent m) =
      Inr (ic, Inr s, Q)"
    and m': "m' = m\<lparr> em_cpu := s, em_ic := ic, em_parent := Q,
      em_out_i := (if cstate (em_ic m) \<noteq> MISS \<and> cstate ic = MISS then em_out_i m + 1 else em_out_i m) \<rparr>"
    using assms(1) by (auto simp: icache_clock_def rbind_eq_Inr)
  obtain q where q: "em_parent m = Inr q" "mem_inv out q"
      "mset (mem_owed q) = replicate_mset (em_out_i m) 0 + replicate_mset (em_out_d m) 1"
    and i: "icache_inv (em_out_i m) (em_ic m)" "dcache_inv (em_out_d m) (em_dc m)" "req (lookup_req (em_ic m)) = READ_SHARED"
    using assms(2) by (auto simp: sim_inv_def)
  have inv: "icache_inv (em_out_i m') ic"
    using icache_tick_inv [OF i(1), of "icache_port p (memory_parent e)" "fetch_reqs (em_cpu m)" "Inr (em_cpu m)" "em_parent m"] t
    by (auto simp: m' icache_inv_def)
  from icache_tick_parent [OF t] show ?thesis
  proof (elim disjE exE conjE)
    assume "Q = em_parent m" "cstate ic = MISS \<longrightarrow> cstate (em_ic m) = MISS" "req (lookup_req ic) = req (lookup_req (em_ic m))"
    then show ?thesis using inv q i by (auto simp: sim_inv_def m')
  next
    fix r r' b
    assume l: "parent_lookup (icache_port p (memory_parent e)) r (em_parent m) = (b, r', Q)" "cstate (em_ic m) = LOOKUP"
      "\<not> req_clear_wait (em_ic m)" "(cstate ic = MISS) = b" "req r = req (lookup_req (em_ic m))" "lookup_req ic = r'"
    have o: "em_out_i m = 0" using i(1) l(2,3) by (auto simp: icache_inv_def)
    have "length (mem_owed q) \<le> 1" using owed_size [OF assms(2) q(1)] o i(2) by (simp add: dcache_inv_def)
    then obtain q' where "Q = Inr q'" "mem_inv out q'" "mset (mem_owed q') = mset (mem_owed q) + (if b then {#0#} else {#})" "req r' = req r"
      using memory_lookup_inv [of e 0 r q b r' Q out] l(1,5) q(1,2) i(3) assms(3) by (auto simp: icache_port_def memory_parent_def)
    then show ?thesis using inv q(3) i l o by (auto simp: sim_inv_def m')
  qed
qed

lemma dcache_clock_inv:
  assumes "dcache_clock (memory_parent e) m = Inr m'" "sim_inv out [] m" "dram_keeps e out"
  shows "sim_inv out [] m'"
proof -
  obtain dc s Q where t: "dcache_tick (dcache_port (memory_parent e)) (mem_reqs (em_cpu m)) (em_dc m, Inr (em_cpu m), em_parent m) =
      Inr (dc, Inr s, Q)"
    and m': "m' = m\<lparr> em_cpu := s, em_dc := dc, em_parent := Q,
      em_out_d := (if dstate (em_dc m) \<noteq> D_MISS \<and> dstate dc = D_MISS then em_out_d m + 1 else em_out_d m) \<rparr>"
    using assms(1) by (auto simp: dcache_clock_def rbind_eq_Inr)
  obtain q where q: "em_parent m = Inr q" "mem_inv out q"
      "mset (mem_owed q) = replicate_mset (em_out_i m) 0 + replicate_mset (em_out_d m) 1"
    and i: "icache_inv (em_out_i m) (em_ic m)" "dcache_inv (em_out_d m) (em_dc m)" "req (lookup_req (em_ic m)) = READ_SHARED"
    using assms(2) by (auto simp: sim_inv_def)
  have inv: "dcache_inv (em_out_d m') dc"
    using dcache_tick_inv [OF i(2), of "dcache_port (memory_parent e)" "mem_reqs (em_cpu m)" "Inr (em_cpu m)" "em_parent m"] t
    by (auto simp: m' dcache_inv_def)
  from dcache_tick_parent [OF t] show ?thesis
  proof (elim disjE exE conjE)
    assume "Q = em_parent m" "dstate dc = D_MISS \<longrightarrow> dstate (em_dc m) = D_MISS"
    then show ?thesis using inv q i by (auto simp: sim_inv_def m')
  next
    fix r r' b
    assume l: "parent_lookup (dcache_port (memory_parent e)) r (em_parent m) = (b, r', Q)" "dstate (em_dc m) = D_LOOKUP"
      "\<not> dreq_clear_wait (em_dc m)" "(dstate dc = D_MISS) = b"
    have o: "em_out_d m = 0" using i(2) l(2,3) by (auto simp: dcache_inv_def)
    have "set_mset (mset (mem_owed q)) \<subseteq> {0}" unfolding q(3) using o by auto
    then have "1 \<notin> set (mem_owed q)" by auto
    moreover have "length (mem_owed q) \<le> 1" using owed_size [OF assms(2) q(1)] o i(1) by (simp add: icache_inv_def)
    ultimately obtain q' where "Q = Inr q'" "mem_inv out q'" "mset (mem_owed q') = mset (mem_owed q) + (if b then {#1#} else {#})"
      using memory_lookup_inv [of e 1 r q b r' Q out] l(1) q(1,2) assms(3) by (auto simp: dcache_port_def memory_parent_def)
    then show ?thesis using inv q(3) i l o by (auto simp: sim_inv_def m')
  qed
qed

lemma emu_clock_inv:
  assumes "emu_clock p (memory_parent e) m = Inr m'" "sim_inv out [] m" "dram_keeps e out"
  shows "sim_inv out [] m'"
proof -
  obtain m1 m2 s ic dc where r: "icache_clock p (memory_parent e) m = Inr m1" "dcache_clock (memory_parent e) m1 = Inr m2"
      "pipe_exec p (em_cpu m2, em_ic m2, em_dc m2) = Inr (s, ic, dc)"
    and m': "m' = m2\<lparr> em_cpu := s, em_ic := ic, em_dc := dc \<rparr>"
    using assms(1) by (auto simp: emu_clock_def rbind_eq_Inr)
  have i: "sim_inv out [] m2"
    using dcache_clock_inv [OF r(2) icache_clock_inv [OF r(1) assms(2,3)] assms(3)] .
  have "req (lookup_req (em_ic m2)) = READ_SHARED" using i by (simp add: sim_inv_def)
  then have "req (lookup_req ic) = READ_SHARED"
    by (rule pipe_exec_icache [OF r(3), where P = "\<lambda>c. req (lookup_req c) = READ_SHARED", rotated -1])
      (simp_all add: icache_redirect_def icache_flush_def icache_lookup_def Let_def)
  then show ?thesis
    using i pipe_exec_icache_inv [OF r(3)] pipe_exec_dcache_inv [OF r(3)] by (auto simp: sim_inv_def m')
qed

text \<open>Every cycle of the simulator is a cycle of the simulator of Emu.\<close>

lemma sim_cycle_emu:
  assumes "sim_cycle p e ft m = Inr m'" "sim_inv out [] m" "dram_keeps e out"
  shows "\<exists>as. emu_cycle p (memory_parent e) as m = Inr m' \<and> sim_inv out [] m'"
proof -
  obtain m1 where m1: "sim_tick p e ft m = Inr m1" "emu_clock p (memory_parent e) m1 = Inr m'"
    using assms(1) by (auto simp: sim_cycle_def rbind_eq_Inr)
  obtain as where "mem_acts p (memory_parent e) as m = Inr m1" "sim_inv out [] m1" using sim_tick_inv [OF m1(1) assms(2,3)] by blast
  then show ?thesis using m1(2) emu_clock_inv [OF m1(2) _ assms(3)] by (intro exI [of _ as]) (simp add: emu_cycle_def)
qed

lemma sim_run_emu:
  "sim_run p e ft end_tick inst_count n m = Inr m' \<Longrightarrow> sim_inv out [] m \<Longrightarrow> dram_keeps e out \<Longrightarrow>
   \<exists>acts. emu_run p (memory_parent e) end_tick inst_count acts m = Inr m' \<and> sim_inv out [] m'"
proof (induction n arbitrary: m)
  case 0
  then show ?case by (intro exI [of _ "[]"]) simp
next
  case (Suc n)
  show ?case
  proof (cases "tick (cpu_arch (em_cpu m)) \<le> end_tick \<and> instret (cpu_arch (em_cpu m)) < inst_count")
    case True
    then obtain m1 where m1: "sim_cycle p e ft m = Inr m1" "sim_run p e ft end_tick inst_count n m1 = Inr m'"
      using Suc.prems(1) by (auto simp: rbind_eq_Inr)
    obtain as where 1: "emu_cycle p (memory_parent e) as m = Inr m1" "sim_inv out [] m1"
      using sim_cycle_emu [OF m1(1) Suc.prems(2,3)] by blast
    obtain acts where "emu_run p (memory_parent e) end_tick inst_count acts m1 = Inr m'" "sim_inv out [] m'"
      using Suc.IH [OF m1(2) 1(2) Suc.prems(3)] by blast
    then show ?thesis using 1(1) True by (intro exI [of _ "as # acts"]) simp
  next
    case False
    then have "m' = m" using Suc.prems(1) by (simp only: sim_run.simps if_False) simp
    then show ?thesis using Suc.prems(2) by (intro exI [of _ "[]"]) simp
  qed
qed

section \<open>The start\<close>

lemma sim_start:
  assumes "sim_init (il, is, iw) (dl, ds, dw) n start_pc sizes stack delays mem u = Inr s" "em_parent u = Inr q"
    and "3 \<le> retire_size (em_cpu u)" "3 \<le> n" "0 < is" "is < 2 ^ 31" "0 < iw" "0 < ds" "ds < 2 ^ 31" "0 < dw"
    and "\<not> idle_req_valid (em_ic u)" "out (mp_dram q) = 0" "answers q = []"
    and "\<forall>d \<in> set (mp_devices q). dev_inv d \<and> dev_pending d = None"
  shows "sim_inv out [] s" "emu_inv p s" "cpu_pc (em_cpu s) = start_pc"
proof -
  obtain c where c: "pipe_afterLoad start_pc sizes stack delays mem (em_cpu u) = Inr c"
    and s: "s = u\<lparr> em_cpu := c, em_ic := icache_afterLoad il is iw (em_ic u), em_dc := dcache_afterLoad dl ds dw (em_dc u),
      em_parent := Inr (mem_afterLoad n q), em_out_i := 0, em_out_d := 0 \<rparr>"
    using assms(1,2) by (auto simp: sim_init_def cm_afterLoad_def rbind_eq_Inr split: option.splits)
  have s': "s = \<lparr> em_cpu = c, em_ic = icache_afterLoad il is iw (em_ic u), em_dc = dcache_afterLoad dl ds dw (em_dc u),
      em_parent = Inr (mem_afterLoad n q), em_out_i = 0, em_out_d = 0 \<rparr>"
    by (simp add: s)
  show "emu_inv p s" unfolding s' by (rule emu_start [OF c assms(3,5-7,11)])
  show "cpu_pc (em_cpu s) = start_pc" using afterLoad_front(2) [OF c assms(3)] by (simp add: s)
  have r: "rq_inv (mp_queue (mem_afterLoad n q)) \<and> rq_abs (mp_queue (mem_afterLoad n q)) = [] \<and>
      rq_cap (mp_queue (mem_afterLoad n q)) = n - 1"
    by (rule afterLoad_ring) (use assms(4) in simp)
  have "dv.pool (mem_afterLoad n q) \<and> dv.owed (mem_afterLoad n q) = []"
    by (rule dv.afterLoad_pool) (use assms(14) in \<open>simp_all add: list_all_iff\<close>)
  then have m: "mem_inv out (mem_afterLoad n q)" "mem_owed (mem_afterLoad n q) = []"
    using r assms(4,12,13) by (auto simp: mem_inv_def mem_owed_def mem_afterLoad_def)
  then show "sim_inv out [] s"
    using icache_afterLoad_inv [OF assms(5-7)] dcache_afterLoad_inv [OF assms(8-10)]
    by (simp add: sim_inv_def s) (simp add: icache_afterLoad_def)
qed

lemma sim_run_commits:
  assumes "sim_run p e ft end_tick inst_count n s = Inr m" "sim_inv out [] s" "emu_inv p s" "dram_keeps e out"
  shows "(seq_step p)\<^sup>*\<^sup>* (cpu_pc (em_cpu s), cpu_arch (em_cpu s)) (cpu_pc (em_cpu m), cpu_arch (em_cpu m))"
    and "\<exists>q. em_parent m = Inr q \<and> mset (mem_owed q) = replicate_mset (em_out_i m) 0 + replicate_mset (em_out_d m) 1"
proof -
  obtain acts where r: "emu_run p (memory_parent e) end_tick inst_count acts s = Inr m" "sim_inv out [] m"
    using sim_run_emu [OF assms(1,2,4)] by blast
  show "(seq_step p)\<^sup>*\<^sup>* (cpu_pc (em_cpu s), cpu_arch (em_cpu s)) (cpu_pc (em_cpu m), cpu_arch (em_cpu m))"
    using emu_run_front [OF r(1) assms(3)] by (simp add: steps_def)
  show "\<exists>q. em_parent m = Inr q \<and> mset (mem_owed q) = replicate_mset (em_out_i m) 0 + replicate_mset (em_out_d m) 1"
    using r(2) by (auto simp: sim_inv_def)
qed

end
