(* ===== verification/Pipeline_Stops.thy ===== *)
theory Pipeline_Stops
  imports Pipeline_Order
begin

text \<open>
  When the simulator with the pipelined cpu stops (an assertion, an exit, a trap of the host), the program
  it runs stops the sequential machine too, or one of the watchdogs of the pipeline has run out.  The
  bookkeeping of the pipeline itself (rings, ids, tables of the predictor, caches) never does.
\<close>

section \<open>Runs that stop\<close>

text \<open>The result of r satisfies post, or the way it stops satisfies err.\<close>

definition runs :: "'a res \<Rightarrow> ('a \<Rightarrow> bool) \<Rightarrow> (crash \<Rightarrow> bool) \<Rightarrow> bool" where
  "runs r post err \<longleftrightarrow> (case r of Inl e \<Rightarrow> err e | Inr x \<Rightarrow> post x)"

lemma runs_simps [simp]: "runs (Inr x) post err = post x" "runs (Inl e) post err = err e"
  by (simp_all add: runs_def)

lemma runs_bind: "runs r mid err \<Longrightarrow> (\<And>x. r = Inr x \<Longrightarrow> mid x \<Longrightarrow> runs (f x) post err) \<Longrightarrow> runs (rbind r f) post err"
  by (cases r) simp_all

lemma runs_mono: "runs r mid err0 \<Longrightarrow> (\<And>x. r = Inr x \<Longrightarrow> mid x \<Longrightarrow> post x) \<Longrightarrow> (\<And>e. err0 e \<Longrightarrow> err e) \<Longrightarrow> runs r post err"
  by (cases r) simp_all

lemma runs_if: "(b \<Longrightarrow> runs r post err) \<Longrightarrow> (\<not> b \<Longrightarrow> runs r' post err) \<Longrightarrow> runs (if b then r else r') post err"
  by simp

text \<open>The ways the sequential machine can stop at a pc: in the page walk, in decode, in the commit.\<close>

definition stops :: "'d plat \<Rightarrow> u64 \<Rightarrow> 'd machine \<Rightarrow> crash \<Rightarrow> bool" where
  "stops p pc c e \<longleftrightarrow>
     (\<exists>c0 va ty pa x. arch c0 = arch c \<and> translateAddr p va ty pa x c0 = Inl e) \<or>
     (\<exists>c0 pa0 pa c1 j. arch c0 = arch c \<and> translateAddr p pc IFETCH pa0 EXC_NONE c0 = Inr (pa, EXC_NONE, c1) \<and>
        decode p pc pa (c1\<lparr> info := j \<rparr>) = Inl e) \<or>
     (\<exists>c1. fetched p pc c c1 \<and> updateEnv p c1 = Inl e)"

definition watchdogs :: "crash set" where
  "watchdogs = {ExitCalled ''WB stage stalled'', ExitCalled ''id wait redirect for 5000 cycle'',
     ExitCalled ''ID stage PC changed without redirect''}"

definition halts :: "'d plat \<Rightarrow> 'd pipe \<Rightarrow> crash \<Rightarrow> bool" where
  "halts p s e \<longleftrightarrow> e \<in> watchdogs \<or>
     (\<exists>pc c. (seq_step p)\<^sup>*\<^sup>* (cpu_pc s, cpu_arch s) (pc, c) \<and> stops p pc c e)"

lemma halts_steps: "steps p s s' \<Longrightarrow> halts p s' e \<Longrightarrow> halts p s e"
  by (auto simp: halts_def steps_def intro: rtranclp_trans)

lemma halts_here: "stops p (cpu_pc s) (cpu_arch s) e \<Longrightarrow> halts p s e"
  by (auto simp: halts_def)

lemma stops_translate: "translateAddr p va ty pa x c0 = Inl e \<Longrightarrow> arch c0 = arch c \<Longrightarrow> stops p pc c e"
  by (auto simp: stops_def)

lemma stops_decode:
  "translateAddr p pc IFETCH pa0 EXC_NONE c0 = Inr (pa, EXC_NONE, c1) \<Longrightarrow> decode p pc pa (c1\<lparr> info := j \<rparr>) = Inl e \<Longrightarrow>
   arch c0 = arch c \<Longrightarrow> stops p pc c e"
  unfolding stops_def by (rule disjI2, rule disjI1) (intro exI conjI)

section \<open>The invariant of the bookkeeping\<close>

text \<open>The types for which the return stack looks at the size of the instruction.\<close>

definition sized :: "inst_type \<Rightarrow> bool" where
  "sized t \<longleftrightarrow> t \<in> {T_PUSH, T_IND_PUSH, T_POP, T_POP_PUSH}"

definition inst_ok :: "nat \<Rightarrow> nat \<Rightarrow> pinst \<Rightarrow> bool" where
  "inst_ok n k x \<longleftrightarrow> unat (i_mem_id x) < n \<and> i_bp_meta_idx x < k \<and>
     (sized (itype (i_info x)) \<longrightarrow> i_real_size x = 2 \<or> i_real_size x = 4)"

definition pred_all :: "predictor \<Rightarrow> bool" where
  "pred_all p \<longleftrightarrow> pred_inv {..<p_retire_size p} p"

definition back_inv :: "'d pipe \<Rightarrow> bool" where
  "back_inv s \<longleftrightarrow> (let n = retire_size s in
     (\<exists>h t. ring [0..<n] h t (mem_req_list s)) \<and> (\<exists>h t. ring [0..<n] h t (cache_req_list s)) \<and>
     length (mem_end_map s) = n \<and> (\<forall>m < n. unat (req_id (mem_reqs s m) 0) < n) \<and> id_extra_idx s < n \<and>
     pred_all (cpu_pred s) \<and> (\<forall>i. inst_ok n (p_retire_size (cpu_pred s)) (cpu_insts s i)))"

lemma back_inv_cong:
  "retire_size s' = retire_size s \<Longrightarrow> mem_req_list s' = mem_req_list s \<Longrightarrow> cache_req_list s' = cache_req_list s \<Longrightarrow>
   mem_end_map s' = mem_end_map s \<Longrightarrow> mem_reqs s' = mem_reqs s \<Longrightarrow> id_extra_idx s' = id_extra_idx s \<Longrightarrow>
   cpu_pred s' = cpu_pred s \<Longrightarrow> cpu_insts s' = cpu_insts s \<Longrightarrow> back_inv s' = back_inv s"
  by (simp add: back_inv_def)

lemma back_inv_upd:
  assumes "back_inv s" "inst_ok (retire_size s) (p_retire_size (cpu_pred s)) (f (cpu_insts s i))"
  shows "back_inv (upd_inst i f s)"
  using assms by (simp add: back_inv_def upd_inst_def Let_def)

lemma back_inst: "back_inv s \<Longrightarrow> inst_ok (retire_size s) (p_retire_size (cpu_pred s)) (cpu_insts s i)"
  by (simp add: back_inv_def Let_def)

lemma inst_ok_other [simp]:
  "inst_ok n k (x\<lparr> i_result := v0 \<rparr>) = inst_ok n k x" "inst_ok n k (x\<lparr> i_pc := v1 \<rparr>) = inst_ok n k x"
  "inst_ok n k (x\<lparr> i_size := v2 \<rparr>) = inst_ok n k x" "inst_ok n k (x\<lparr> i_taken := v3 \<rparr>) = inst_ok n k x"
  "inst_ok n k (x\<lparr> i_next_pc := v4 \<rparr>) = inst_ok n k x" "inst_ok n k (x\<lparr> i_real_pc := v5 \<rparr>) = inst_ok n k x"
  "inst_ok n k (x\<lparr> i_real_target := v6 \<rparr>) = inst_ok n k x" "inst_ok n k (x\<lparr> i_paddr := v7 \<rparr>) = inst_ok n k x"
  "inst_ok n k (set_inst_exception e x) = inst_ok n k x"
  by (simp_all add: inst_ok_def set_inst_exception_def)

lemma back_inv_other [simp]:
  "back_inv (s\<lparr> cpu_arch := v0 \<rparr>) = back_inv s" "back_inv (s\<lparr> env_inst := v1 \<rparr>) = back_inv s"
  "back_inv (s\<lparr> pred_pc := v2 \<rparr>) = back_inv s" "back_inv (s\<lparr> cpu_pc := v3 \<rparr>) = back_inv s"
  "back_inv (s\<lparr> fetch_valid := v4 \<rparr>) = back_inv s" "back_inv (s\<lparr> id_valid := v5 \<rparr>) = back_inv s"
  "back_inv (s\<lparr> exe_valid := v6 \<rparr>) = back_inv s" "back_inv (s\<lparr> mem_valid := v7 \<rparr>) = back_inv s"
  "back_inv (s\<lparr> wb_valid := v8 \<rparr>) = back_inv s" "back_inv (s\<lparr> fetch_cache_req := v9 \<rparr>) = back_inv s"
  "back_inv (s\<lparr> id_stall_valid := v10 \<rparr>) = back_inv s" "back_inv (s\<lparr> id_stall_dec_more := v11 \<rparr>) = back_inv s"
  "back_inv (s\<lparr> id_stall_inst_valid := v12 \<rparr>) = back_inv s" "back_inv (s\<lparr> id_inst := v13 \<rparr>) = back_inv s"
  "back_inv (s\<lparr> id_stall_inst := v14 \<rparr>) = back_inv s" "back_inv (s\<lparr> id_remain_size := v15 \<rparr>) = back_inv s"
  "back_inv (s\<lparr> id_wait_redirect := v16 \<rparr>) = back_inv s" "back_inv (s\<lparr> wait_redirect_tick := v17 \<rparr>) = back_inv s"
  "back_inv (s\<lparr> wait_redirect_inst := v18 \<rparr>) = back_inv s" "back_inv (s\<lparr> exe_stall_cycle := v19 \<rparr>) = back_inv s"
  "back_inv (s\<lparr> exe_end := v20 \<rparr>) = back_inv s" "back_inv (s\<lparr> exe_inst := v21 \<rparr>) = back_inv s"
  "back_inv (s\<lparr> mem_inst := v22 \<rparr>) = back_inv s" "back_inv (s\<lparr> mem_req_valid := v23 \<rparr>) = back_inv s"
  "back_inv (s\<lparr> wb_inst := v24 \<rparr>) = back_inv s" "back_inv (s\<lparr> wb_tick := v25 \<rparr>) = back_inv s"
  "back_inv (s\<lparr> fetch_reqs := v26 \<rparr>) = back_inv s"
  by (simp_all add: back_inv_def)

lemma back_upd [simp]:
  "(\<And>x. inst_ok (retire_size s) (p_retire_size (cpu_pred s)) (f x) = inst_ok (retire_size s) (p_retire_size (cpu_pred s)) x) \<Longrightarrow>
   back_inv s \<Longrightarrow> back_inv (upd_inst i f s)"
  using back_inst [of s i] by (intro back_inv_upd) auto

lemma upd_sel [simp]: "retire_size (upd_inst i f s) = retire_size s" "cpu_pred (upd_inst i f s) = cpu_pred s"
  "mem_end_map (upd_inst i f s) = mem_end_map s" "mem_req_list (upd_inst i f s) = mem_req_list s"
  "cache_req_list (upd_inst i f s) = cache_req_list s" "exe_inst (upd_inst i f s) = exe_inst s"
  "cpu_pc (upd_inst i f s) = cpu_pc s"
  by (simp_all add: upd_inst_def)

section \<open>The predictor\<close>

lemma redirect_unsized: "\<not> sized t \<Longrightarrow> pred_redirect taken pc sz t k p = pred_redirect taken pc 4 t k p"
proof -
  assume t: "\<not> sized t"
  have "bp_redirect pc sz t m b = bp_redirect pc 4 t m b" for m b
    using t by (cases b) (auto simp: ras_redirect_def sized_def Let_def)
  then have "bp_redirect pc sz t = bp_redirect pc 4 t" by (intro ext)
  then show ?thesis by (simp add: pred_redirect_def)
qed

lemma redirect_all:
  assumes "pred_all p" "k < p_retire_size p" "sized t \<Longrightarrow> sz = 2 \<or> sz = 4"
  shows "\<exists>p'. pred_redirect taken pc sz t k p = Inr p' \<and> pred_all p' \<and> p_retire_size p' = p_retire_size p"
proof -
  let ?z = "if sized t then sz else 4"
  have z: "?z = 2 \<or> ?z = 4" and k: "k \<in> {..<p_retire_size p}" using assms(2,3) by auto
  obtain p' where p': "pred_redirect taken pc ?z t k p = Inr p'" "pred_inv {..<p_retire_size p} p'" "p_metas p' = p_metas p"
    using pred_redirect_ok [OF assms(1) [unfolded pred_all_def] k z, of taken pc t] by blast
  have "p_retire_size p' = p_retire_size p"
    using p'(2,3) assms(1) by (simp add: pred_all_def pred_inv_def)
  moreover have "pred_redirect taken pc sz t k p = Inr p'"
    using p'(1) redirect_unsized [of t taken pc sz] by (cases "sized t") simp_all
  ultimately show ?thesis using p'(2) by (simp add: pred_all_def)
qed

lemma count_pred_size: "p_retire_size (count_pred taken target t mi p) = p_retire_size p"
  by (simp add: count_pred_def Let_def)

lemma update_all:
  assumes "pred_all p" "k < p_retire_size p"
  shows "\<exists>p'. pred_update taken pc target t k p = Inr p' \<and> pred_all p' \<and> p_retire_size p' = p_retire_size p"
proof -
  have k: "k \<in> {..<p_retire_size p}" using assms(2) by simp
  obtain p' where p': "pred_update taken pc target t k p = Inr p'" "pred_inv {..<p_retire_size p} p'"
    using pred_update_ok [OF assms(1) [unfolded pred_all_def] k, of taken pc target t] by blast
  moreover have "p_retire_size p' = p_retire_size p"
    using p'(1) by (auto simp: pred_update_def rbind_eq_Inr count_pred_size split: if_splits)
  ultimately show ?thesis by (simp add: pred_all_def)
qed

lemma predict_all_metas:
  assumes "pred_all p"
  shows "\<exists>k a sz tk p'. pipe_predict pc i p = Inr ((k, a, sz, tk), p') \<and> pred_all p' \<and>
    p_retire_size p' = p_retire_size p \<and> k < p_retire_size p"
proof -
  obtain k a sz tk p' where r: "pipe_predict pc i p = Inr ((k, a, sz, tk), p')" "pred_inv (insert k {..<p_retire_size p}) p'"
      "k = p_meta_idx p" "p_retire_size p' = p_retire_size p"
    using pipe_predict_ok [OF assms [unfolded pred_all_def], of pc i] by blast
  moreover have "k < p_retire_size p" using assms r(3) by (simp add: pred_all_def pred_inv_def)
  moreover from this have "insert k {..<p_retire_size p} = {..<p_retire_size p}" by auto
  ultimately show ?thesis by (simp add: pred_all_def)
qed

section \<open>Redirects\<close>

lemma drained_ok:
  assumes "ring ds h t l"
  obtains l' where "drained l = Inr l'" "ring ds t t l'"
  using ring_drain [OF assms] that by (auto simp: drained_def)

lemma inst_redirect:
  assumes "back_inv s" "sized t \<Longrightarrow> itype (i_info (cpu_insts s i)) = t"
  shows "\<exists>pr. pred_redirect taken pc (unat (i_real_size (cpu_insts s i))) t (i_bp_meta_idx (cpu_insts s i)) (cpu_pred s) = Inr pr \<and>
    pred_all pr \<and> p_retire_size pr = p_retire_size (cpu_pred s)"
proof (rule redirect_all)
  note x = back_inst [OF assms(1), of i]
  show "pred_all (cpu_pred s)" using assms(1) by (simp add: back_inv_def Let_def)
  show "i_bp_meta_idx (cpu_insts s i) < p_retire_size (cpu_pred s)" using x by (simp add: inst_ok_def)
  show "unat (i_real_size (cpu_insts s i)) = 2 \<or> unat (i_real_size (cpu_insts s i)) = 4" if "sized t"
    using x assms(2) [OF that] that by (auto simp: inst_ok_def)
qed

text \<open>Both lists of requests after they have been emptied.\<close>

lemma drained_rings:
  assumes "back_inv s"
  obtains l l' t t' where "drained (mem_req_list s) = Inr l" "ring [0..<retire_size s] t t l"
    "drained (cache_req_list s) = Inr l'" "ring [0..<retire_size s] t' t' l'"
  using assms drained_ok unfolding back_inv_def Let_def by metis

lemma frontRedirect_back:
  assumes "back_inv s"
  shows "\<exists>s'. frontRedirect i s = Inr s' \<and> back_inv s' \<and> retire_size s' = retire_size s"
proof -
  let ?x = "cpu_insts s i"
  obtain pr where pr: "pred_redirect (i_taken ?x) (i_real_pc ?x) (unat (i_real_size ?x)) (itype (i_info ?x)) (i_bp_meta_idx ?x)
      (cpu_pred s) = Inr pr" "pred_all pr" "p_retire_size pr = p_retire_size (cpu_pred s)"
    using inst_redirect [OF assms, of "itype (i_info ?x)" i "i_taken ?x" "i_real_pc ?x"] by blast
  obtain l l' t t' where l: "drained (mem_req_list s) = Inr l" "ring [0..<retire_size s] t t l"
    "drained (cache_req_list s) = Inr l'" "ring [0..<retire_size s] t' t' l'" by (rule drained_rings [OF assms])
  show ?thesis using pr l assms by (auto simp: frontRedirect_def Let_def back_inv_def)
qed

lemma brRedirect_back:
  assumes "back_inv s"
  shows "\<exists>s'. brRedirect i s = Inr s' \<and> back_inv s' \<and> retire_size s' = retire_size s \<and> exe_inst s' = exe_inst s"
proof -
  let ?x = "cpu_insts s i"
  obtain pr where pr: "pred_redirect (dst_data (i_info ?x) 1 \<noteq> 0) (i_real_pc ?x) (unat (i_real_size ?x)) (itype (i_info ?x))
      (i_bp_meta_idx ?x) (cpu_pred s) = Inr pr" "pred_all pr" "p_retire_size pr = p_retire_size (cpu_pred s)"
    using inst_redirect [OF assms, of "itype (i_info ?x)" i "dst_data (i_info ?x) 1 \<noteq> 0" "i_real_pc ?x"] by blast
  obtain l l' t t' where l: "drained (mem_req_list s) = Inr l" "ring [0..<retire_size s] t t l"
    "drained (cache_req_list s) = Inr l'" "ring [0..<retire_size s] t' t' l'" by (rule drained_rings [OF assms])
  show ?thesis using pr l assms by (auto simp: brRedirect_def Let_def back_inv_def)
qed

lemma excRedirect_back:
  assumes "back_inv s"
  shows "\<exists>s'. excRedirect i s = Inr s' \<and> back_inv s' \<and> retire_size s' = retire_size s"
proof -
  let ?x = "cpu_insts s i"
  obtain pr where pr: "pred_redirect False (i_real_pc ?x) (unat (i_real_size ?x)) T_INT (i_bp_meta_idx ?x) (cpu_pred s) = Inr pr"
      "pred_all pr" "p_retire_size pr = p_retire_size (cpu_pred s)"
    using inst_redirect [OF assms, of T_INT i False "i_real_pc ?x"] by (auto simp: sized_def)
  obtain l l' t t' where l: "drained (mem_req_list s) = Inr l" "ring [0..<retire_size s] t t l"
    "drained (cache_req_list s) = Inr l'" "ring [0..<retire_size s] t' t' l'" by (rule drained_rings [OF assms])
  show ?thesis using pr l assms by (auto simp: excRedirect_def Let_def back_inv_def)
qed

section \<open>The stages behind decode\<close>

text \<open>The ids the data cache has been given, and those it will give back.\<close>

definition dreq_ok :: "nat \<Rightarrow> dcache \<Rightarrow> bool" where
  "dreq_ok n c \<longleftrightarrow> (didle_req_valid c \<longrightarrow> didle_req c < n) \<and>
     (dstate c = D_LOOKUP \<or> dstate c = D_MISS \<longrightarrow> unat (req_id (dlookup_req c) 0) < n)"

lemma dreq_calls:
  "dreq_ok n c \<Longrightarrow> dreq_ok n (dcache_redirect c)" "dreq_ok n c \<Longrightarrow> dreq_ok n (dcache_flush c)"
  "dreq_ok n c \<Longrightarrow> m < n \<Longrightarrow> dcache_lookup m c = (b, c') \<Longrightarrow> dreq_ok n c'"
  by (auto simp: dreq_ok_def dcache_redirect_def dcache_flush_def dcache_lookup_def Let_def split: if_splits)

lemma wb_back:
  assumes "back_inv s" "dreq_ok (retire_size s) dc"
  shows "\<exists>s' ic' dc'. wb_stage (s, ic, dc) = Inr (s', ic', dc') \<and> back_inv s' \<and> dreq_ok (retire_size s') dc'"
proof (cases "wb_valid s \<and> exceptionValid (inst_exception (wb_inst s) s)")
  case True
  let ?s = "upd_inst (wb_inst s) (\<lambda>x. x\<lparr> i_result := (if inst_exception (wb_inst s) s AND IRQ_MASK \<noteq> 0 then R_INTERRUPT else R_EXCEPTION) \<rparr>) s"
  have "back_inv ?s" using assms(1) by simp
  then obtain s1 where "excRedirect (wb_inst s) ?s = Inr s1" "back_inv s1" "retire_size s1 = retire_size s"
    using excRedirect_back [of ?s "wb_inst s"] by auto
  then show ?thesis using True dreq_calls(1) [OF assms(2)] by (simp add: wb_stage_def Let_def)
next
  case False
  then show ?thesis using assms by (auto simp: wb_stage_def Let_def)
qed

lemma mem_back:
  assumes "back_inv s"
  shows "\<exists>s'. mem_stage s = Inr s' \<and> back_inv s' \<and> retire_size s' = retire_size s"
proof -
  have "unat (i_mem_id (cpu_insts s (mem_inst s))) < length (mem_end_map s)"
    using back_inst [OF assms, of "mem_inst s"] assms by (simp add: inst_ok_def back_inv_def Let_def)
  moreover have "back_inv (s\<lparr> mem_end_map := (mem_end_map s)[m := b] \<rparr>)" for m b
    using assms by (simp add: back_inv_def Let_def)
  ultimately show ?thesis using assms by (auto simp: mem_stage_def Let_def)
qed

lemma exe_update_back:
  assumes "back_inv s"
  shows "\<exists>s'. exe_update b s = Inr s' \<and> back_inv s' \<and> retire_size s' = retire_size s"
proof -
  let ?x = "cpu_insts s (exe_inst s)"
  have "pred_all (cpu_pred s)" "i_bp_meta_idx ?x < p_retire_size (cpu_pred s)"
    using assms back_inst [OF assms, of "exe_inst s"] by (simp_all add: back_inv_def inst_ok_def Let_def)
  from update_all [OF this] obtain pr where "pred_update b (i_real_pc ?x) (i_real_target ?x) (itype (i_info ?x)) (i_bp_meta_idx ?x)
      (cpu_pred s) = Inr pr" "pred_all pr" "p_retire_size pr = p_retire_size (cpu_pred s)" by blast
  then show ?thesis using assms by (simp add: exe_update_def Let_def) (simp add: back_inv_def Let_def)
qed

lemma exe_mispredict_back:
  assumes "back_inv s"
  shows "\<exists>s' ic'. exe_mispredict s ic = Inr (s', ic') \<and> back_inv s' \<and> retire_size s' = retire_size s"
  using brRedirect_back [of "upd_inst (exe_inst s) (\<lambda>x. x\<lparr> i_result := R_PRED_FAIL \<rparr>) s" "exe_inst s"] assms
  by (auto simp: exe_mispredict_def)

lemma back_take:
  assumes "back_inv s"
  shows "\<exists>d l. ll_back (mem_req_list s) = Inr d \<and> d < retire_size s \<and> ll_take (mem_req_list s) = Inr (d, l) \<and>
    (\<exists>h t. ring [0..<retire_size s] h t l)"
proof -
  obtain h t where r: "ring [0..<retire_size s] h t (mem_req_list s)" using assms by (auto simp: back_inv_def Let_def)
  then have t: "t < retire_size s" "ll_tail (mem_req_list s) = Some t" by (auto simp: ring_def)
  then show ?thesis using ring_take [OF r] ring_node [OF r, of t] by (auto simp: ll_back_def nth_upt)
qed

lemma exe_access_back:
  assumes "back_inv s" "dreq_ok (retire_size s) dc" "m < retire_size s"
  shows "runs (exe_access p ty rq m s dc) (\<lambda>(s', dc'). back_inv s' \<and> dreq_ok (retire_size s') dc') (halts p s)"
proof (cases "translateAddr p (exc_data (i_info (cpu_insts s (exe_inst s)))) ty (uninit p) (uninit p) (cpu_arch s)")
  case (Inl e)
  then show ?thesis using stops_translate [OF Inl refl] by (simp add: exe_access_def Let_def halts_here)
next
  case (Inr r)
  obtain pa e c where r: "r = (pa, e, c)" by (cases r)
  obtain taken dc1 where lk: "dcache_lookup m dc = (taken, dc1)" by fastforce
  obtain d l where t: "ll_take (mem_req_list s) = Inr (d, l)" "\<exists>h t. ring [0..<retire_size s] h t l"
    using back_take [OF assms(1)] by blast
  have id: "unat (req_id (mem_reqs s m) 0) < retire_size s" using assms(1,3) by (simp add: back_inv_def Let_def)
  let ?q = "(mem_reqs s m)\<lparr> addr := pa, req_size := ucast (dst_idx (i_info (cpu_insts s (exe_inst s))) 2), req := rq \<rparr>"
  have b: "back_inv (s\<lparr> cpu_arch := c, mem_reqs := (mem_reqs s)(m := ?q) \<rparr>)"
    "back_inv (s\<lparr> cpu_arch := c, mem_reqs := (mem_reqs s)(m := ?q), mem_req_list := l, exe_end := True \<rparr>)"
    using assms(1) t(2) id by (auto simp: back_inv_def Let_def)
  have "dreq_ok (retire_size s) dc1" using dreq_calls(3) [OF assms(2,3) lk] .
  then show ?thesis
    using Inr r lk t(1) id b back_inst [OF b(1), of "exe_inst s"] back_inst [OF b(2), of "exe_inst s"]
    by (cases taken) (auto simp: exe_access_def Let_def inst_ok_def intro!: back_inv_upd)
qed

lemma exe_sc_fail_back:
  assumes "back_inv s" "m < retire_size s"
  shows "\<exists>s'. exe_sc_fail m s = Inr s' \<and> back_inv s' \<and> retire_size s' = retire_size s"
proof -
  let ?k = "req_id (mem_reqs s m) 0"
  have id: "unat ?k < retire_size s" "length (mem_end_map s) = retire_size s" using assms by (simp_all add: back_inv_def Let_def)
  obtain d l where t: "ll_take (mem_req_list s) = Inr (d, l)" "\<exists>h t. ring [0..<retire_size s] h t l"
    using back_take [OF assms(1)] by blast
  have b: "back_inv (s\<lparr> exe_end := True, mem_end_map := (mem_end_map s)[unat ?k := True], mem_req_list := l \<rparr>)"
    using assms(1) t(2) by (simp add: back_inv_def Let_def)
  have "back_inv (upd_inst (exe_inst s) (\<lambda>x. x\<lparr> i_mem_id := ?k \<rparr>)
      (s\<lparr> exe_end := True, mem_end_map := (mem_end_map s)[unat ?k := True], mem_req_list := l \<rparr>))"
    by (rule back_inv_upd [OF b]) (use back_inst [OF b, of "exe_inst s"] id in \<open>simp add: inst_ok_def\<close>)
  then show ?thesis using id t(1) by (simp add: exe_sc_fail_def Let_def)
qed

lemma exe_issue_back:
  assumes "back_inv s" "dreq_ok (retire_size s) dc"
  shows "runs (exe_issue p (s, ic, dc)) (\<lambda>(s', ic', dc'). back_inv s' \<and> dreq_ok (retire_size s') dc') (halts p s)"
    (is "runs _ ?post ?err")
proof -
  obtain m where m: "ll_back (mem_req_list s) = Inr m" "m < retire_size s" using back_take [OF assms(1)] by blast
  have upd: "runs (rbind (exe_update b s1) (\<lambda>s. Inr (s, ic1, dc))) ?post ?err"
    if "back_inv s1" "retire_size s1 = retire_size s" for b s1 ic1
    using exe_update_back [OF that(1), of b] that(2) assms(2) by auto
  have mis: "runs (rbind (if c then exe_mispredict s ic else Inr (s, ic)) (\<lambda>(s, ic). rbind (exe_update b s) (\<lambda>s. Inr (s, ic, dc)))) ?post ?err"
    for c b
    using exe_mispredict_back [OF assms(1), of ic] upd assms(1) by (cases c) auto
  have acc: "runs (rbind (exe_access p ty rq m s dc) (\<lambda>(s, dc). Inr (s, ic, dc))) ?post ?err" for ty rq
    by (rule runs_bind [OF exe_access_back [OF assms m(2)]]) auto
  have sc: "runs (rbind (exe_sc_fail m s) (\<lambda>s. Inr (s, ic, dc))) ?post ?err"
    using exe_sc_fail_back [OF assms(1) m(2)] assms(2) by auto
  have other: "runs (Inr (s\<lparr> exe_end := True \<rparr>, ic1, dc)) ?post ?err" "runs (Inr (s\<lparr> exe_end := True \<rparr>, ic1, dcache_flush dc)) ?post ?err"
    "runs (Inr (s\<lparr> exe_stall_cycle := n \<rparr>, ic1, dc)) ?post ?err" for ic1 n
    using assms dreq_calls(2) [OF assms(2)] by auto
  note rules = upd [OF assms(1) refl] mis acc sc other
  show ?thesis
  proof (cases "stall_delay s (itype (i_info (cpu_insts s (exe_inst s))))")
    case None
    show ?thesis
      unfolding exe_issue_def Let_def prod.case m(1) rbind_Inr None option.case by (intro runs_if rules)
  next
    case (Some d)
    show ?thesis
      unfolding exe_issue_def Let_def prod.case m(1) rbind_Inr Some option.case by (intro runs_if rules)
  qed
qed

lemma exe_back:
  assumes "back_inv s" "dreq_ok (retire_size s) dc"
  shows "runs (exe_stage p (s, ic, dc)) (\<lambda>(s', ic', dc'). back_inv s' \<and> dreq_ok (retire_size s') dc') (halts p s)"
  unfolding exe_stage_def prod.case
proof (intro runs_if)
  show "runs (rbind (if exe_stall_cycle s \<noteq> 0
                then let n = exe_stall_cycle s - 1 in Inr (s\<lparr> exe_stall_cycle := n, exe_end := exe_end s \<or> n = 0 \<rparr>, ic, dc)
                else if \<not> exe_end s then exe_issue p (s, ic, dc) else Inr (s, ic, dc)) (\<lambda>(s, ic, dc).
      Inr (if exe_end s \<and> \<not> mem_valid s
           then s\<lparr> exe_end := False, exe_valid := False, mem_valid := True, mem_inst := exe_inst s \<rparr> else s, ic, dc)))
      (\<lambda>(s', ic', dc'). back_inv s' \<and> dreq_ok (retire_size s') dc') (halts p s)"
    by (rule runs_bind [where mid = "\<lambda>(s', ic', dc'). back_inv s' \<and> dreq_ok (retire_size s') dc'"])
      (use exe_issue_back [OF assms, of p ic] assms in \<open>auto simp: Let_def\<close>)
qed (use assms in simp)

section \<open>The decode stage\<close>

lemma set_machine_back:
  "back_inv s \<Longrightarrow> itype (info c) = itype (i_info (cpu_insts s i)) \<Longrightarrow> back_inv (set_machine i c s)"
  unfolding set_machine_def by (rule back_inv_upd) (use back_inst [of s i] in \<open>auto simp: inst_ok_def\<close>)

lemma inst_fault_back: "back_inv s \<Longrightarrow> back_inv (inst_fault i e s)"
  by (auto simp: inst_fault_def Let_def handleException_def info_machine_def set_exception_def set_exc_data_def upd_info_def
      intro!: set_machine_back)

lemma stops_cong: "arch c' = arch c \<Longrightarrow> stops p pc c' e = stops p pc c e"
  by (simp add: stops_def fetched_def decoded_def)

lemma id_commit_back:
  assumes "back_inv s" "env_inst s = id_inst s" "fetched p pc c (info_machine (id_inst s) s)"
  shows "runs (id_commit p s ic) (\<lambda>(s', ic'). back_inv s' \<and> retire_size s' = retire_size s) (\<lambda>e. stops p pc c e \<or> e \<in> watchdogs)"
proof (cases "updateEnv p (info_machine (id_inst s) s)")
  case (Inl e)
  then show ?thesis using assms(2,3) by (auto simp: id_commit_def Let_def stops_def)
next
  case (Inr r)
  obtain target c1 where r: "r = (target, c1)" by (cases r)
  let ?i = "id_inst s"
  let ?s = "(upd_inst ?i (\<lambda>x. x\<lparr> i_real_target := target \<rparr>) (set_machine ?i c1 s))\<lparr> cpu_pc := target \<rparr>"
  have "info c1 = i_info (cpu_insts s ?i)" using updateEnv_info [OF Inr [unfolded r]] by (simp add: info_machine_def)
  then have b: "back_inv ?s" using set_machine_back [OF assms(1), of c1 ?i] by simp
  obtain s2 where f: "frontRedirect ?i ?s = Inr s2" "back_inv s2" "retire_size s2 = retire_size s"
    using frontRedirect_back [OF b, of ?i] by (auto simp: set_machine_def)
  have R: "retire_size ?s = retire_size s" by (simp add: set_machine_def)
  show ?thesis
    unfolding id_commit_def Let_def assms(2) Inr r rbind_Inr prod.case
    by (rule runs_bind [where mid = "\<lambda>(s', ic'). back_inv s' \<and> retire_size s' = retire_size s"])
      (use b f R in \<open>auto simp: watchdogs_def\<close>)
qed

lemma id_back:
  assumes "back_inv s" "front_inv p s ow"
  shows "runs (id_stage p s ic) (\<lambda>(s', ic'). back_inv s' \<and> retire_size s' = retire_size s) (halts p s)"
proof (cases "id_valid s \<and> \<not> exe_valid s")
  case True
  let ?i = "id_inst s"
  obtain s0 where s0: "s0 = (if exceptionValid (inst_exception ?i s) then inst_fault ?i (inst_exception ?i s) s else s)" by blast
  note f = inst_fault_frame [OF s0 refl refl] and o = decode_onlyD [OF inst_fault_frame(1) [OF s0 refl refl]]
  have b: "back_inv s0" using assms(1) by (simp add: s0 inst_fault_back)
  have c: "runs (id_commit p s0 ic) (\<lambda>(s', ic'). back_inv s' \<and> retire_size s' = retire_size s) (halts p s)" if "\<not> id_wait_redirect s"
  proof -
    have "id_ready p s" using assms(2) that True by (auto simp: front_inv_def id_inv_def)
    then show ?thesis
      using id_commit_back [OF b _ _, where pc = "cpu_pc s" and c = "cpu_arch s" and ic = ic and p = p] f(2,6) o(1)
      by (intro runs_mono [OF id_commit_back [OF b, where pc = "cpu_pc s" and c = "cpu_arch s" and p = p]])
        (auto simp: halts_def)
  qed
  show ?thesis
    unfolding id_stage_def if_P [OF True] Let_def s0 [symmetric]
    by (rule runs_bind [where mid = "\<lambda>(s', ic'). back_inv s' \<and> retire_size s' = retire_size s"])
      (use b c o(1,9) in \<open>auto simp: watchdogs_def halts_def\<close>)
qed (use assms in \<open>auto simp: id_stage_def\<close>)

section \<open>preId\<close>

lemma next_inst_back:
  assumes "back_inv s"
  shows "\<exists>s1. next_inst i s = Inr s1 \<and> back_inv s1 \<and> retire_size s1 = retire_size s \<and> cpu_pc s1 = cpu_pc s \<and> cpu_arch s1 = cpu_arch s"
proof (cases "id_remain_size s \<le> 0")
  case False
  have "id_extra_idx s < retire_size s" using assms by (simp add: back_inv_def Let_def)
  then show ?thesis using False assms by (simp add: next_inst_def Let_def) (simp add: back_inv_def Let_def)
qed (use assms in \<open>simp add: next_inst_def\<close>)

lemma decoded_back:
  assumes "back_inv s" "sz = 2 \<or> sz = 4"
  shows "back_inv (upd_inst i (\<lambda>x. x\<lparr> i_real_size := sz, i_real_pc := pc \<rparr>) ((set_machine i c s)\<lparr> env_inst := i \<rparr>))"
  using assms by (auto simp: back_inv_def Let_def upd_inst_def set_machine_def inst_ok_def)

lemma predicted_back:
  assumes "back_inv s" "pred_all pr" "p_retire_size pr = p_retire_size (cpu_pred s)" "k < p_retire_size pr"
  shows "back_inv (upd_inst i (\<lambda>x. x\<lparr> i_bp_meta_idx := k, i_next_pc := a, i_taken := tk \<rparr>) (s\<lparr> cpu_pred := pr \<rparr>))"
  using assms by (auto simp: back_inv_def Let_def upd_inst_def inst_ok_def)

lemma preId_back:
  assumes "back_inv s"
  shows "runs (preId p i s) (\<lambda>(fin, red, s'). back_inv s' \<and> retire_size s' = retire_size s) (halts p s)"
proof -
  obtain s1 where n: "next_inst i s = Inr s1" "back_inv s1" "retire_size s1 = retire_size s" "cpu_pc s1 = cpu_pc s" "cpu_arch s1 = cpu_arch s"
    using next_inst_back [OF assms] by blast
  let ?i = "id_inst s1"
  show ?thesis
  proof (cases "translateAddr p (cpu_pc s1) IFETCH (i_paddr (cpu_insts s1 ?i)) (inst_exception ?i s1) (cpu_arch s1)")
    case (Inl x)
    then have "halts p s x" using stops_translate [OF Inl, of "cpu_arch s"] n(5) by (intro halts_here) simp
    then show ?thesis using n(1) Inl by (simp add: preId_def Let_def)
  next
    case (Inr r)
    obtain pa e c where r: "r = (pa, e, c)" by (cases r)
    note tr = Inr [unfolded r]
    note tf = translate_frame [OF tr]
    let ?s2 = "upd_inst ?i (\<lambda>x. set_inst_exception e (x\<lparr> i_paddr := pa \<rparr>)) (s1\<lparr> cpu_arch := c \<rparr>)"
    have b2: "back_inv ?s2" using n(2) by simp
    show ?thesis
    proof (cases "exceptionValid e")
      case True
      have "retire_size (inst_fault ?i e ?s2) = retire_size s" by (simp add: inst_fault_def set_machine_def Let_def n(3))
      then show ?thesis using n(1) tr True inst_fault_back [OF b2, of ?i e] by (simp add: preId_def Let_def)
    next
      case False
      have e: "e = EXC_NONE" "inst_exception ?i s1 = EXC_NONE" using tf(4) False by (auto simp: exceptionValid_def exc_pf_def)
      have m: "info_machine ?i ?s2 = c\<lparr> info := (i_info (cpu_insts s1 ?i))\<lparr> exception := e \<rparr> \<rparr>"
        by (simp add: info_machine_def upd_inst_def set_inst_exception_def)
      show ?thesis
      proof (cases "decode p (cpu_pc s1) pa (info_machine ?i ?s2)")
        case (Inl x)
        have "stops p (cpu_pc s) (cpu_arch s) x"
          using stops_decode [OF tr [unfolded e] Inl [unfolded m, unfolded e(1)]] n(4,5) by simp
        then show ?thesis using n(1) tr False Inl by (simp add: preId_def Let_def halts_here)
      next
        case (Inr q)
        obtain sz c2 where q: "q = (sz, c2)" by (cases q)
        note d = Inr [unfolded q]
        let ?s3 = "upd_inst ?i (\<lambda>x. x\<lparr> i_real_size := sz, i_real_pc := cpu_pc s1 \<rparr>) ((set_machine ?i c2 ?s2)\<lparr> env_inst := ?i \<rparr>)"
        have b3: "back_inv ?s3" by (rule decoded_back [OF b2 decode_size [OF d]])
        then have "pred_all (cpu_pred ?s3)" by (simp add: back_inv_def Let_def)
        from predict_all_metas [OF this] obtain k a z tk pr where
          pp: "pipe_predict (cpu_pc s1) (i_info (cpu_insts ?s3 ?i)) (cpu_pred ?s3) = Inr ((k, a, z, tk), pr)" "pred_all pr"
          "p_retire_size pr = p_retire_size (cpu_pred ?s3)" "k < p_retire_size (cpu_pred ?s3)" by metis
        let ?s4 = "upd_inst ?i (\<lambda>x. x\<lparr> i_bp_meta_idx := k, i_next_pc := a, i_taken := tk \<rparr>) (?s3\<lparr> cpu_pred := pr \<rparr>)"
        have b4: "back_inv ?s4" by (rule predicted_back [OF b3 pp(2,3)]) (use pp(3,4) in simp)
        have b5: "back_inv (upd_inst ?i (\<lambda>x. x\<lparr> i_real_target := a \<rparr>) ?s4)" using b4 by simp
        obtain s6 where f: "frontRedirect ?i (upd_inst ?i (\<lambda>x. x\<lparr> i_real_target := a \<rparr>) ?s4) = Inr s6" "back_inv s6"
            "retire_size s6 = retire_size s"
          using frontRedirect_back [OF b5, of ?i] n(3) by (auto simp: set_machine_def)
        have R: "retire_size ?s4 = retire_size s" "cpu_pc ?s2 = cpu_pc s1" "cpu_pc ?s3 = cpu_pc s1"
          by (simp_all add: set_machine_def n(3))
        have "preId p i s = rbind (if tk then frontRedirect ?i (upd_inst ?i (\<lambda>x. x\<lparr> i_real_target := a \<rparr>) ?s4)
            else Inr (?s4\<lparr> id_remain_size := id_remain_size ?s4 - uint sz \<rparr>)) (\<lambda>s. Inr (id_remain_size s \<le> 0, tk, s))"
          unfolding preId_def n(1) rbind_Inr Let_def tr prod.case if_not_P [OF False] R(2) d R(3) pp(1) ..
        then show ?thesis using f b4 R(1) by (cases tk) simp_all
      qed
    qed
  qed
qed

section \<open>Refill, fetch, issue, and the cycle of the cpu\<close>

lemma refill_back:
  assumes "back_inv s"
  shows "runs (refill_stage p s ic) (\<lambda>(s', ic'). back_inv s' \<and> retire_size s' = retire_size s) (halts p s)"
  unfolding refill_stage_def
  by (intro runs_if runs_bind [OF preId_back [OF assms]]) (use assms in \<open>auto simp: Let_def\<close>)

lemma fetch_translate_back:
  assumes "back_inv s"
  shows "runs (fetch_translate p w s) (\<lambda>s'. back_inv s' \<and> retire_size s' = retire_size s) (halts p s)"
proof (cases "translateAddr p (i_pc (cpu_insts s w)) IFETCH (i_paddr (cpu_insts s w)) (inst_exception w s) (cpu_arch s)")
  case (Inl e)
  then have "halts p s e" by (intro halts_here stops_translate [OF Inl]) simp
  then show ?thesis using Inl assms by (simp add: fetch_translate_def)
next
  case (Inr r)
  then show ?thesis using assms by (cases r) (simp add: fetch_translate_def)
qed

lemma cache_ring_ops:
  assumes "back_inv s"
  shows "\<exists>d l. ll_pop (cache_req_list s) = Inr (d, l) \<and> (\<exists>h t. ring [0..<retire_size s] h t l)"
    and "\<exists>d l. ll_take (cache_req_list s) = Inr (d, l) \<and> (\<exists>h t. ring [0..<retire_size s] h t l)"
    and "\<exists>b. ll_one (cache_req_list s) = Inr b"
proof -
  obtain h t where r: "ring [0..<retire_size s] h t (cache_req_list s)" using assms by (auto simp: back_inv_def Let_def)
  then have t: "h < retire_size s" "ll_head (cache_req_list s) = Some h" by (auto simp: ring_def)
  show "\<exists>d l. ll_pop (cache_req_list s) = Inr (d, l) \<and> (\<exists>h t. ring [0..<retire_size s] h t l)" using ring_pop [OF r] by blast
  show "\<exists>d l. ll_take (cache_req_list s) = Inr (d, l) \<and> (\<exists>h t. ring [0..<retire_size s] h t l)" using ring_take [OF r] by blast
  show "\<exists>b. ll_one (cache_req_list s) = Inr b" using ring_node [OF r, of h] t by (simp add: ll_one_def)
qed

lemma back_cache_list: "back_inv s \<Longrightarrow> ring [0..<n] h t l \<Longrightarrow> n = retire_size s \<Longrightarrow> back_inv (s\<lparr> cache_req_list := l \<rparr>)"
  by (auto simp: back_inv_def Let_def)

lemma fetch_back:
  fixes s :: "'d pipe"
  assumes "back_inv s"
  shows "runs (fetch_stage p s ic) (\<lambda>(s', ic'). back_inv s' \<and> retire_size s' = retire_size s) (halts p s)"
  unfolding fetch_stage_def Let_def
proof (intro runs_if runs_bind [OF fetch_translate_back [OF assms]])
  fix s1 :: "'d pipe" assume b: "back_inv s1 \<and> retire_size s1 = retire_size s"
  obtain one d l h t where c: "ll_one (cache_req_list s1) = Inr one" "ll_pop (cache_req_list s1) = Inr (d, l)"
    "ring [0..<retire_size s1] h t l" using cache_ring_ops [of s1] b by blast
  show "runs (rbind (ll_one (cache_req_list s1)) (\<lambda>one.
           if one \<and> \<not> id_stall_valid s1
           then rbind (ll_pop (cache_req_list s1)) (\<lambda>(d, l).
             Inr (s1\<lparr> id_valid := True, id_inst := fetch_cache_req s, id_remain_size := id_remain_size s1 + uint (i_size (cpu_insts s1 (fetch_cache_req s))),
                     cache_req_list := l, fetch_valid := False \<rparr>, ic))
           else Inr (s1, ic))) (\<lambda>(s', ic'). back_inv s' \<and> retire_size s' = retire_size s) (halts p s)"
    using b c(1,2) by (auto intro: back_cache_list [OF _ c(3)])
qed (use assms in \<open>auto split: prod.split\<close>)

lemma issue_back:
  assumes "back_inv s"
  shows "\<exists>s'. issue_stage s = Inr s' \<and> back_inv s' \<and> retire_size s' = retire_size s"
proof -
  obtain d l h t where c: "ll_take (cache_req_list s) = Inr (d, l)" "ring [0..<retire_size s] h t l"
    using cache_ring_ops(2) [OF assms] by blast
  have "inst_ok n k (set_inst_exception EXC_NONE (x\<lparr> i_pc := pred_pc s, i_size := 4 \<rparr>)) = inst_ok n k x" for n k x by simp
  then have b: "back_inv (upd_inst d (\<lambda>x. set_inst_exception EXC_NONE (x\<lparr> i_pc := pred_pc s, i_size := 4 \<rparr>)) s)"
    using assms by simp
  show ?thesis using assms b c(1)
    by (auto simp: issue_stage_def Let_def upd_inst_def intro!: back_cache_list [OF _ c(2)])
qed

lemma pipe_exec_back:
  assumes "back_inv s" "dreq_ok (retire_size s) dc" "front_inv p s (owes ic)" "\<not> idle_req_valid ic"
  shows "runs (pipe_exec p (s, ic, dc)) (\<lambda>(s', ic', dc'). back_inv s' \<and> dreq_ok (retire_size s') dc') (halts p s)"
proof -
  obtain s1 ic1 dc1 where 1: "wb_stage (s, ic, dc) = Inr (s1, ic1, dc1)" "back_inv s1" "dreq_ok (retire_size s1) dc1"
    using wb_back [OF assms(1,2)] by metis
  obtain s2 where 2: "mem_stage s1 = Inr s2" "back_inv s2" "retire_size s2 = retire_size s1" using mem_back [OF 1(2)] by blast
  have f2: "front_ok p s ic s2 ic1" using front_ok_same [OF wb_front [OF 1(1) assms(3,4)] mem_front [OF 2(1)]] .
  have d2: "dreq_ok (retire_size s2) dc1" using 1(3) 2(3) by simp
  have E: "runs r Q (halts p s0) \<Longrightarrow> front_ok p s ic s0 ic0 \<Longrightarrow> runs r Q (halts p s)" for r :: "'c res" and Q s0 ic0
    by (erule runs_mono) (auto simp: front_ok_def intro: halts_steps)
  show ?thesis
    unfolding pipe_exec_def prod.case 1(1) rbind_Inr 2(1)
  proof (intro runs_if, simp add: halts_def watchdogs_def)
    show "runs (rbind (exe_stage p (s2, ic1, dc1)) (\<lambda>(s, ic, dc).
      rbind (id_stage p s ic) (\<lambda>(s, ic).
      rbind (refill_stage p s ic) (\<lambda>(s, ic).
      rbind (fetch_stage p s ic) (\<lambda>(s, ic).
      rbind (issue_stage s) (\<lambda>s.
        Inr (s\<lparr> cpu_arch := (cpu_arch s)\<lparr> tick := tick (cpu_arch s) + 1 \<rparr> \<rparr>, ic, dc))))))) (\<lambda>(s', ic', dc'). back_inv s' \<and> dreq_ok (retire_size s') dc') (halts p s)"
    proof (rule runs_bind [OF E [OF exe_back [OF 2(2) d2] f2]], clarify)
      fix s3 ic3 dc3 assume 3: "exe_stage p (s2, ic1, dc1) = Inr (s3, ic3, dc3)" "back_inv s3" "dreq_ok (retire_size s3) dc3"
      have f3: "front_ok p s ic s3 ic3" using f2 exe_front [OF 3(1)] front_ok_trans [OF f2] by (simp add: front_ok_def)
      then have i3: "front_inv p s3 (owes ic3)" by (simp add: front_ok_def)
      show "runs (rbind (id_stage p s3 ic3) (\<lambda>(s, ic).
        rbind (refill_stage p s ic) (\<lambda>(s, ic).
        rbind (fetch_stage p s ic) (\<lambda>(s, ic).
        rbind (issue_stage s) (\<lambda>s.
          Inr (s\<lparr> cpu_arch := (cpu_arch s)\<lparr> tick := tick (cpu_arch s) + 1 \<rparr> \<rparr>, ic, dc3)))))) (\<lambda>(s', ic', dc'). back_inv s' \<and> dreq_ok (retire_size s') dc') (halts p s)"
      proof (rule runs_bind [OF E [OF id_back [OF 3(2) i3] f3]], clarify)
        fix s4 ic4 assume 4: "id_stage p s3 ic3 = Inr (s4, ic4)" "back_inv s4" "retire_size s4 = retire_size s3"
        have f4: "front_ok p s ic s4 ic4" using f3 id_stage_front [OF 4(1)] front_ok_trans [OF f3] by (simp add: front_ok_def)
        show "runs (rbind (refill_stage p s4 ic4) (\<lambda>(s, ic).
          rbind (fetch_stage p s ic) (\<lambda>(s, ic).
          rbind (issue_stage s) (\<lambda>s.
            Inr (s\<lparr> cpu_arch := (cpu_arch s)\<lparr> tick := tick (cpu_arch s) + 1 \<rparr> \<rparr>, ic, dc3))))) (\<lambda>(s', ic', dc'). back_inv s' \<and> dreq_ok (retire_size s') dc') (halts p s)"
        proof (rule runs_bind [OF E [OF refill_back [OF 4(2)] f4]], clarify)
          fix s5 ic5 assume 5: "refill_stage p s4 ic4 = Inr (s5, ic5)" "back_inv s5" "retire_size s5 = retire_size s4"
          have f5: "front_ok p s ic s5 ic5" using f4 refill_front [OF 5(1)] by (auto simp: front_ok_def intro: steps_trans)
          show "runs (rbind (fetch_stage p s5 ic5) (\<lambda>(s, ic).
            rbind (issue_stage s) (\<lambda>s.
              Inr (s\<lparr> cpu_arch := (cpu_arch s)\<lparr> tick := tick (cpu_arch s) + 1 \<rparr> \<rparr>, ic, dc3)))) (\<lambda>(s', ic', dc'). back_inv s' \<and> dreq_ok (retire_size s') dc') (halts p s)"
          proof (rule runs_bind [OF E [OF fetch_back [OF 5(2)] f5]], clarify)
            fix s6 ic6 assume 6: "back_inv s6" "retire_size s6 = retire_size s5"
            obtain s7 where "issue_stage s6 = Inr s7" "back_inv s7" "retire_size s7 = retire_size s6" using issue_back [OF 6(1)] by blast
            then show "runs (rbind (issue_stage s6) (\<lambda>s.
              Inr (s\<lparr> cpu_arch := (cpu_arch s)\<lparr> tick := tick (cpu_arch s) + 1 \<rparr> \<rparr>, ic6, dc3))) (\<lambda>(s', ic', dc'). back_inv s' \<and> dreq_ok (retire_size s') dc') (halts p s)"
              using 3(3) 4(3) 5(3) 6(2) by simp
          qed
        qed
      qed
    qed
  qed
qed

section \<open>The callbacks and the ticks of the caches\<close>

lemma halts_cong: "cpu_pc s' = cpu_pc s \<Longrightarrow> cpu_arch s' = cpu_arch s \<Longrightarrow> halts p s' e = halts p s e"
  by (simp add: halts_def)

lemma icache_callback_back:
  assumes "back_inv s"
  shows "runs (icache_callback p s) (\<lambda>(red, s'). back_inv s' \<and> retire_size s' = retire_size s) (halts p s)"
proof -
  obtain w l h t where c: "ll_pop (cache_req_list s) = Inr (w, l)" "ring [0..<retire_size s] h t l"
    using cache_ring_ops(1) [OF assms] by blast
  have b: "back_inv (s\<lparr> cache_req_list := l \<rparr>)" by (rule back_cache_list [OF assms c(2) refl])
  have b1: "back_inv (s\<lparr> cache_req_list := l, id_valid := True \<rparr>)"
    using assms by (auto intro: back_cache_list [OF _ c(2)])
  have b2: "back_inv (s\<lparr> cache_req_list := l, id_stall_valid := True, id_stall_inst := w, id_stall_inst_valid := True \<rparr>)"
    using assms by (auto intro: back_cache_list [OF _ c(2)])
  have h: "halts p (s\<lparr> cache_req_list := l, id_valid := True \<rparr>) e = halts p s e" for e by (rule halts_cong) simp_all
  show ?thesis
    unfolding icache_callback_def c(1) rbind_Inr prod.case Let_def
    using runs_mono [OF preId_back [OF b1, of p w], where err = "halts p s"] h b2
    by (auto intro!: runs_if runs_bind [where mid = "\<lambda>(fin, red, s'). back_inv s' \<and> retire_size s' = retire_size s"])
qed

lemma dcache_callback_back:
  assumes "back_inv s" "unat (ids 0) < retire_size s"
  shows "\<exists>s'. dcache_callback ids s = Inr s' \<and> back_inv s' \<and> retire_size s' = retire_size s"
proof -
  obtain h t where r: "ring [0..<retire_size s] h t (mem_req_list s)" and n: "length (mem_end_map s) = retire_size s"
    using assms(1) by (auto simp: back_inv_def Let_def)
  from ring_pop [OF r] obtain d l h' where l: "ll_pop (mem_req_list s) = Inr (d, l)" "ring [0..<retire_size s] h' t l" by blast
  then show ?thesis using assms n by (auto simp: dcache_callback_def back_inv_def Let_def)
qed

lemma iclient_back:
  assumes "r = Inr s \<or> (\<exists>ids. r = snd (callback0 (icache_port p up) ids (Inr s)))" "back_inv s"
  shows "runs r (\<lambda>s'. back_inv s' \<and> retire_size s' = retire_size s) (halts p s)"
  using assms icache_callback_back [OF assms(2), of p]
  by (cases "icache_callback p s") (auto simp: icache_port_def)

lemma dclient_back:
  assumes "r = Inr s \<or> (\<exists>ids. unat (ids 0) < retire_size s \<and> r = snd (callback0 (dcache_port up) ids (Inr s)))" "back_inv s"
  shows "\<exists>s'. r = Inr s' \<and> back_inv s' \<and> retire_size s' = retire_size s"
  using assms dcache_callback_back [OF assms(2)] by (fastforce simp: dcache_port_def)

text \<open>The ids the data cache gives back to the cpu.\<close>

lemma dcall_ids:
  "dcall_client e c cl = (c', cl') \<Longrightarrow> (c' = c \<or> c' = dcache_redirect c) \<and> cl' = snd (callback0 e (req_id (dlookup_req c)) cl)"
  by (auto simp: dcall_client_def split: prod.splits)

lemma dhandle_ids:
  assumes "dhandleIdleReq e h c cl = Inr (c', cl')" "didle_req c < n" "\<forall>m < n. unat (req_id (h m) 0) < n"
  shows "dreq_ok n c' \<and> (cl' = cl \<or> (\<exists>ids. unat (ids 0) < n \<and> cl' = snd (callback0 e ids cl)))"
proof -
  obtain c1 where c1: "unat (req_id (dlookup_req c1) 0) < n" "\<not> didle_req_valid c1"
    "(if dmatched c1 then dcall_client e c1 cl else (c1, cl)) = (c', cl')"
  proof -
    let ?q = "h (didle_req c)"
    obtain t s off where sp: "splitAddr (dgeom c) (addr ?q) = (t, s, off)" by (metis prod.exhaust)
    let ?v = "map_option (Pair (unat s)) (match (dtagvs c) t (unat s))"
    let ?c = "c\<lparr> dlookup_req := (dlookup_req c)\<lparr> addr := addr ?q, req_id := (req_id (dlookup_req c))(0 := req_id ?q 0), req := req ?q \<rparr>,
      didle_req_valid := False, dlookup_tag := t, dlookup_set := s, dlookup_tagv := ?v, dmatched := ?v \<noteq> None \<rparr>"
    have "(if dmatched ?c then dcall_client e ?c cl else (?c, cl)) = (c', cl')"
      using assms(1) sp by (simp add: dhandleIdleReq_def Let_def split: if_splits)
    then show ?thesis using assms(2,3) by (intro that [of ?c]) simp_all
  qed
  have "dreq_ok n c1" using c1(1,2) by (simp add: dreq_ok_def)
  then show ?thesis using c1 dcall_ids [of e c1 cl c' cl'] dreq_calls(1) [of n c1] by (auto split: if_splits)
qed

lemma dcache_fill_ids:
  assumes "dcache_fill e c cl = Inr (c', cl')" "dcache_inv 1 c" "dreq_ok n c"
  shows "dreq_ok n c' \<and> (cl' = cl \<or> (\<exists>ids. unat (ids 0) < n \<and> cl' = snd (callback0 e ids cl)))"
proof (cases "dreq_clear_wait c")
  case True
  then show ?thesis using assms by (auto simp: dcache_fill_def dreq_ok_def Let_def split: if_splits)
next
  case False
  then have m: "dstate c = D_MISS" using assms(2) by (auto simp: dcache_inv_def)
  obtain c1 c2 where c: "dcall_client e c1 cl = (c2, cl')" "c' = c2\<lparr> dstate := D_REFILL \<rparr>" "dlookup_req c1 = dlookup_req c"
      "didle_req_valid c1 = didle_req_valid c" "didle_req c1 = didle_req c"
    using assms(1) False by (auto simp: dcache_fill_def Let_def split: if_splits prod.splits)
  have "unat (req_id (dlookup_req c1) 0) < n" using assms(3) m c(3) by (simp add: dreq_ok_def)
  then show ?thesis using dcall_ids [OF c(1)] c(2-5) assms(3) by (auto simp: dreq_ok_def dcache_redirect_def Let_def)
qed

text \<open>The parent leaves the id of a request alone.\<close>

definition keeps_ids :: "'p parent \<Rightarrow> bool" where
  "keeps_ids up \<longleftrightarrow> (\<forall>r q. req_id (fst (snd (dcache_parent up r q))) 0 = req_id r 0)"

lemma dsend_ids:
  assumes "dsend_miss (dcache_port up) c q = Inr (c', q')" "keeps_ids up" "dreq_ok n c" "dstate c = D_LOOKUP"
  shows "dreq_ok n c'"
proof (cases "dreq_clear_wait c")
  case True
  then show ?thesis using assms by (simp add: dsend_miss_def)
next
  case False
  obtain b r q1 where l: "dcache_parent up (dlookup_req c) q = (b, r, q1)" by (metis prod.exhaust)
  have "req_id r 0 = req_id (dlookup_req c) 0" using assms(2) l by (metis keeps_ids_def fst_conv snd_conv)
  then show ?thesis
    using assms(1,3,4) False l by (auto simp: dsend_miss_def dcache_port_def dreq_ok_def Let_def rbind_eq_Inr split: if_splits)
qed

lemma dcache_tick_ids:
  fixes cl :: "'d pipe res"
  assumes "dcache_tick (dcache_port up) h (c, cl, q) = Inr (c', cl', q')" "keeps_ids up" "dreq_ok n c" "\<forall>m < n. unat (req_id (h m) 0) < n"
  shows "dreq_ok n c' \<and> (cl' = cl \<or> (\<exists>ids. unat (ids 0) < n \<and> cl' = snd (callback0 (dcache_port up) ids cl)))"
proof (cases "dflush_valid c")
  case True
  then show ?thesis using assms(1,3) by (auto simp: dcache_tick_def rbind_eq_Inr dflush_step_def dreq_ok_def Let_def split: if_splits)
next
  case False
  note T = assms(1) [unfolded dcache_tick_def prod.case if_not_P [OF False]]
  have i: "didle_req_valid c \<Longrightarrow> didle_req c < n" using assms(3) by (simp add: dreq_ok_def)
  show ?thesis
  proof (cases "dstate c")
    case D_IDLE
    show ?thesis
    proof (cases "didle_req_valid c")
      case True
      then have "dhandleIdleReq (dcache_port up) h (c\<lparr> dstate := D_LOOKUP \<rparr>) cl = Inr (c', cl')"
        using T D_IDLE by (auto simp: rbind_eq_Inr)
      from dhandle_ids [OF this _ assms(4)] show ?thesis using i [OF True] by simp
    next
      case False
      then show ?thesis using T D_IDLE assms(3) by simp
    qed
  next
    case D_LOOKUP
    note D = T [unfolded D_LOOKUP dstate_t.case]
    consider "\<not> dmatched c" | "dmatched c" "req (dlookup_req c) = WRITE_BACK"
      | "dmatched c" "req (dlookup_req c) \<noteq> WRITE_BACK" "didle_req_valid c"
      | "dmatched c" "req (dlookup_req c) \<noteq> WRITE_BACK" "\<not> didle_req_valid c" by blast
    then show ?thesis
    proof cases
      case 1
      then have "dsend_miss (dcache_port up :: ('d pipe res, _) port) c q = Inr (c', q')" "cl' = cl" using D by (auto simp: rbind_eq_Inr)
      then show ?thesis using dsend_ids [OF _ assms(2,3) D_LOOKUP] by blast
    next
      case 2
      then have "mark_dirty (c\<lparr> dstate := D_WRITE \<rparr>) = Inr c'" "cl' = cl" using D by (auto simp: rbind_eq_Inr)
      then show ?thesis using assms(3) by (auto simp: mark_dirty_def dreq_ok_def split: option.splits if_splits)
    next
      case 3
      then have "dhandleIdleReq (dcache_port up) h c cl = Inr (c', cl')" using D by (auto simp: rbind_eq_Inr)
      from dhandle_ids [OF this _ assms(4)] show ?thesis using i [OF 3(3)] by simp
    next
      case 4
      then show ?thesis using D assms(3) by (auto simp: dreq_ok_def)
    qed
  qed (use T assms(3) in \<open>auto simp: dreq_ok_def\<close>)
qed

section \<open>The simulator\<close>

definition emu_back :: "'d plat \<Rightarrow> ('d, 'p) emu \<Rightarrow> bool" where
  "emu_back p m \<longleftrightarrow> emu_inv p m \<and> dcache_inv (em_out_d m) (em_dc m) \<and> back_inv (em_cpu m) \<and>
     dreq_ok (retire_size (em_cpu m)) (em_dc m)"

lemma emu_backD:
  assumes "emu_back p m"
  shows "emu_inv p m" "icache_inv (em_out_i m) (em_ic m)" "idle_ok (em_ic m)" "dcache_inv (em_out_d m) (em_dc m)"
    "back_inv (em_cpu m)" "dreq_ok (retire_size (em_cpu m)) (em_dc m)" "front_inv p (em_cpu m) (owes (em_ic m))"
  using assms by (auto simp: emu_back_def emu_inv_def)

lemma answer_i_back:
  assumes "emu_back p m" "0 < em_out_i m"
  shows "runs (mem_act p up Answer_I m) (emu_back p) (halts p (em_cpu m))"
proof -
  note i = emu_backD [OF assms(1)]
  have 1: "icache_inv 1 (em_ic m)" using i(2) assms(2) by (auto simp: icache_inv_def)
  obtain ic r where f: "icache_fill (icache_port p up) (em_ic m) (Inr (em_cpu m)) = Inr (ic, r)"
    using icache_fill_inv [OF 1, of "icache_port p up" "Inr (em_cpu m)"] by blast
  have "r = Inr (em_cpu m) \<or> (\<exists>ids. r = snd (callback0 (icache_port p up) ids (Inr (em_cpu m))))"
    using icache_fill_owes [OF f 1 i(3)] by auto
  note r = iclient_back [OF this i(5)]
  let ?m = "\<lambda>s. m\<lparr> em_cpu := s, em_ic := ic, em_out_i := em_out_i m - 1 \<rparr>"
  have a: "mem_act p up Answer_I m = rbind r (\<lambda>s. Inr (?m s))" using assms(2) f by simp
  show ?thesis
    unfolding a
  proof (rule runs_bind [OF r])
    fix s assume s: "r = Inr s" "back_inv s \<and> retire_size s = retire_size (em_cpu m)"
    have "emu_inv p (?m s)" using mem_act_front [of p up Answer_I m "?m s"] i(1) a s(1) by simp
    then show "runs (Inr (?m s)) (emu_back p) (halts p (em_cpu m))" using s(2) i(4,6) by (simp add: emu_back_def)
  qed
qed

lemma answer_d_back:
  assumes "emu_back p m" "0 < em_out_d m"
  shows "runs (mem_act p up Answer_D m) (emu_back p) (halts p (em_cpu m))"
proof -
  note i = emu_backD [OF assms(1)]
  have 1: "dcache_inv 1 (em_dc m)" "em_out_d m = 1" using i(4) assms(2) by (auto simp: dcache_inv_def)
  obtain dc r where f: "dcache_fill (dcache_port up) (em_dc m) (Inr (em_cpu m)) = Inr (dc, r)" "dcache_inv 0 dc"
    using dcache_fill_inv [OF 1(1), of "dcache_port up" "Inr (em_cpu m)"] by blast
  have c: "dreq_ok (retire_size (em_cpu m)) dc"
    "r = Inr (em_cpu m) \<or> (\<exists>ids. unat (ids 0) < retire_size (em_cpu m) \<and> r = snd (callback0 (dcache_port up) ids (Inr (em_cpu m))))"
    using dcache_fill_ids [OF f(1) 1(1) i(6)] by auto
  obtain s where s: "r = Inr s" "back_inv s" "retire_size s = retire_size (em_cpu m)" using dclient_back [OF c(2) i(5)] by blast
  let ?m = "m\<lparr> em_cpu := s, em_dc := dc, em_out_d := em_out_d m - 1 \<rparr>"
  have a: "mem_act p up Answer_D m = Inr ?m" using assms(2) f s by simp
  then have "emu_inv p ?m" using mem_act_front [OF a i(1)] by simp
  then show ?thesis using a s c(1) f(2) 1(2) by (simp add: emu_back_def)
qed

lemma icache_clock_back:
  assumes "emu_back p m"
  shows "runs (icache_clock p up m) (emu_back p) (halts p (em_cpu m))"
proof -
  note i = emu_backD [OF assms]
  obtain ic r q where t: "icache_tick (icache_port p up) (fetch_reqs (em_cpu m)) (em_ic m, Inr (em_cpu m), em_parent m) = Inr (ic, r, q)"
    using icache_tick_inv [OF i(2), of "icache_port p up" "fetch_reqs (em_cpu m)" "Inr (em_cpu m)" "em_parent m"] by blast
  have "r = Inr (em_cpu m) \<or> (\<exists>ids. r = snd (callback0 (icache_port p up) ids (Inr (em_cpu m))))"
    using icache_tick_owes [OF t i(3)] by auto
  note r = iclient_back [OF this i(5)]
  let ?m = "\<lambda>s. m\<lparr> em_cpu := s, em_ic := ic, em_parent := q,
      em_out_i := (if cstate (em_ic m) \<noteq> MISS \<and> cstate ic = MISS then em_out_i m + 1 else em_out_i m) \<rparr>"
  have a: "icache_clock p up m = rbind r (\<lambda>s. Inr (?m s))" by (simp add: icache_clock_def t)
  show ?thesis
    unfolding a
  proof (rule runs_bind [OF r])
    fix s assume s: "r = Inr s" "back_inv s \<and> retire_size s = retire_size (em_cpu m)"
    have "emu_inv p (?m s)" using icache_clock_front [of p up m "?m s"] i(1) a s(1) by simp
    then show "runs (Inr (?m s)) (emu_back p) (halts p (em_cpu m))" using s(2) i(4,6) by (simp add: emu_back_def)
  qed
qed

lemma dcache_clock_back:
  assumes "emu_back p m" "keeps_ids up"
  shows "\<exists>m'. dcache_clock up m = Inr m' \<and> emu_back p m'"
proof -
  note i = emu_backD [OF assms(1)]
  obtain dc r q where t: "dcache_tick (dcache_port up) (mem_reqs (em_cpu m)) (em_dc m, Inr (em_cpu m), em_parent m) = Inr (dc, r, q)"
    and d: "dcache_inv (em_out_d m) dc \<and> (dstate dc = D_MISS \<longrightarrow> dstate (em_dc m) = D_MISS) \<or>
     em_out_d m = 0 \<and> dstate (em_dc m) = D_LOOKUP \<and> dstate dc = D_MISS \<and> dcache_inv 1 dc"
    using dcache_tick_inv [OF i(4), of "dcache_port up" "mem_reqs (em_cpu m)" "Inr (em_cpu m)" "em_parent m"] by blast
  have h: "\<forall>k < retire_size (em_cpu m). unat (req_id (mem_reqs (em_cpu m) k) 0) < retire_size (em_cpu m)"
    using i(5) by (simp add: back_inv_def Let_def)
  have c: "dreq_ok (retire_size (em_cpu m)) dc"
    "r = Inr (em_cpu m) \<or> (\<exists>ids. unat (ids 0) < retire_size (em_cpu m) \<and> r = snd (callback0 (dcache_port up) ids (Inr (em_cpu m))))"
    using dcache_tick_ids [OF t assms(2) i(6) h] by auto
  obtain s where s: "r = Inr s" "back_inv s" "retire_size s = retire_size (em_cpu m)" using dclient_back [OF c(2) i(5)] by blast
  let ?m = "m\<lparr> em_cpu := s, em_dc := dc, em_parent := q,
      em_out_d := (if dstate (em_dc m) \<noteq> D_MISS \<and> dstate dc = D_MISS then em_out_d m + 1 else em_out_d m) \<rparr>"
  have a: "dcache_clock up m = Inr ?m" by (simp add: dcache_clock_def t s(1))
  then have e: "emu_inv p ?m" using dcache_clock_front [OF a i(1)] by simp
  have "dcache_inv (em_out_d ?m) dc" using d by (elim disjE conjE) auto
  then show ?thesis using a s c(1) e by (simp add: emu_back_def)
qed

lemma emu_clock_back:
  assumes "emu_back p m" "keeps_ids up"
  shows "runs (emu_clock p up m) (emu_back p) (halts p (em_cpu m))"
  unfolding emu_clock_def
proof (rule runs_bind [OF icache_clock_back [OF assms(1)]])
  fix m1 assume 1: "icache_clock p up m = Inr m1" "emu_back p m1"
  then have f1: "steps p (em_cpu m) (em_cpu m1)" "\<not> idle_req_valid (em_ic m1)"
    using icache_clock_front [OF 1(1)] emu_backD(1) [OF assms(1)] by auto
  obtain m2 where 2: "dcache_clock up m1 = Inr m2" "emu_back p m2" using dcache_clock_back [OF 1(2) assms(2)] by blast
  have f2: "steps p (em_cpu m1) (em_cpu m2)" "\<not> idle_req_valid (em_ic m2)"
    using dcache_clock_front [OF 2(1)] emu_backD(1) [OF 1(2)] f1(2) by auto
  note i = emu_backD [OF 2(2)]
  have s: "steps p (em_cpu m) (em_cpu m2)" using f1(1) f2(1) by (rule steps_trans)
  have "runs (pipe_exec p (em_cpu m2, em_ic m2, em_dc m2)) (\<lambda>(s', ic', dc'). back_inv s' \<and> dreq_ok (retire_size s') dc') (halts p (em_cpu m))"
    using pipe_exec_back [OF i(5,6,7) f2(2)] by (rule runs_mono) (auto intro: halts_steps [OF s])
  then show "runs (rbind (dcache_clock up m1) (\<lambda>m. rbind (pipe_exec p (em_cpu m, em_ic m, em_dc m)) (\<lambda>(s, ic, dc).
      Inr (m\<lparr> em_cpu := s, em_ic := ic, em_dc := dc \<rparr>)))) (emu_back p) (halts p (em_cpu m))"
    unfolding 2(1) rbind_Inr
  proof (rule runs_bind, clarify)
    fix s ic dc assume r: "pipe_exec p (em_cpu m2, em_ic m2, em_dc m2) = Inr (s, ic, dc)" "back_inv s" "dreq_ok (retire_size s) dc"
    have "front_inv p s (owes ic) \<and> idle_ok ic" using pipe_exec_front [OF r(1) i(7) f2(2)] by simp
    then show "runs (Inr (m2\<lparr> em_cpu := s, em_ic := ic, em_dc := dc \<rparr>)) (emu_back p) (halts p (em_cpu m))"
      using r(2,3) pipe_exec_icache_inv [OF r(1) i(2)] pipe_exec_dcache_inv [OF r(1) i(4)]
      by (simp add: emu_back_def emu_inv_def)
  qed
qed

end
