(* ===== verification/Simulator_Stops.thy ===== *)
theory Simulator_Stops
  imports Simulator_Props Pipeline_Stops
begin

text \<open>
  The whole simulator never stops by a fault of its own bookkeeping: it stops where the sequential machine
  stops on the same program, or because a watchdog of the pipeline or the tick of a device ends it.
\<close>

section \<open>The memory\<close>

lemma memory_keeps_ids: "keeps_ids (memory_parent e)"
  by (auto simp: keeps_ids_def memory_parent_def memory_lookup_def mem_lookup_def Let_def rbind_def
      split: sum.splits prod.splits if_splits)

section \<open>The tick of the memory\<close>

lemma deliver_act:
  assumes "sim_inv out (a # xs) m"
  shows "(deliver p up a m = mem_act p up Answer_I m \<and> 0 < em_out_i m) \<or> (deliver p up a m = mem_act p up Answer_D m \<and> 0 < em_out_d m)"
proof -
  obtain q where q: "em_parent m = Inr q"
      "mset (mem_owed q) + mset (map fst xs) + {#fst a#} = replicate_mset (em_out_i m) 0 + replicate_mset (em_out_d m) 1"
    using assms by (auto simp: sim_inv_def)
  have "fst a \<in># replicate_mset (em_out_i m) 0 + replicate_mset (em_out_d m) 1"
    unfolding q(2) [symmetric] by simp
  then show ?thesis by (auto simp: deliver_def split: if_splits)
qed

text \<open>The state the simulator is in, m0 being where it has started; and the ways it stops.\<close>

definition sim_at :: "'d plat \<Rightarrow> ('r \<Rightarrow> nat) \<Rightarrow> (u8 \<times> (nat \<Rightarrow> u16)) list \<Rightarrow> ('d, 'r) sim \<Rightarrow> ('d, 'r) sim \<Rightarrow> bool" where
  "sim_at p out xs m0 m \<longleftrightarrow> sim_inv out xs m \<and> emu_back p m \<and> steps p (em_cpu m0) (em_cpu m)"

definition sim_halts :: "'d plat \<Rightarrow> (nat \<Rightarrow> 'd \<Rightarrow> ('d \<times> u64 option) res) \<Rightarrow> ('d, 'r) sim \<Rightarrow> crash \<Rightarrow> bool" where
  "sim_halts p ft m0 e \<longleftrightarrow> halts p (em_cpu m0) e \<or> (\<exists>i d. ft i d = Inl e)"

lemma sim_halts_at: "sim_at p out xs m0 m \<Longrightarrow> halts p (em_cpu m) e \<Longrightarrow> sim_halts p ft m0 e"
  by (auto simp: sim_at_def sim_halts_def intro: halts_steps)

lemma deliver_at:
  assumes "sim_at p out (a # xs) m0 m"
  shows "runs (deliver p up a m) (sim_at p out xs m0) (sim_halts p ft m0)"
proof -
  have i: "sim_inv out (a # xs) m" "emu_back p m" "steps p (em_cpu m0) (em_cpu m)" using assms by (auto simp: sim_at_def)
  have e: "emu_inv p m" using i(2) by (simp add: emu_back_def)
  from deliver_act [OF i(1), of p up]
  have "runs (deliver p up a m) (\<lambda>m'. emu_back p m' \<and> steps p (em_cpu m) (em_cpu m')) (halts p (em_cpu m))"
  proof (elim disjE conjE)
    assume a: "deliver p up a m = mem_act p up Answer_I m" "0 < em_out_i m"
    show ?thesis unfolding a(1) by (rule runs_mono [OF answer_i_back [OF i(2) a(2)]]) (use mem_act_front [OF _ e] in blast)+
  next
    assume a: "deliver p up a m = mem_act p up Answer_D m" "0 < em_out_d m"
    show ?thesis unfolding a(1) by (rule runs_mono [OF answer_d_back [OF i(2) a(2)]]) (use mem_act_front [OF _ e] in blast)+
  qed
  then show ?thesis
  proof (rule runs_mono)
    fix m' assume "deliver p up a m = Inr m'" "emu_back p m' \<and> steps p (em_cpu m) (em_cpu m')"
    then show "sim_at p out xs m0 m'" using deliver_inv [OF _ i(1)] i(3) steps_trans by (fastforce simp: sim_at_def)
  qed (use sim_halts_at [OF assms] in blast)
qed

lemma delivers_at: "sim_at p out (ys @ xs) m0 m \<Longrightarrow> runs (delivers p up ys m) (sim_at p out xs m0) (sim_halts p ft m0)"
proof (induction ys arbitrary: m)
  case (Cons y ys)
  then show ?case by (auto intro!: runs_bind deliver_at)
qed simp

lemma parent_back: "emu_back p m \<Longrightarrow> emu_back p (m\<lparr> em_parent := q \<rparr>)"
  by (simp add: emu_back_def emu_inv_def)

lemma devices_back:
  assumes "emu_back p m"
  shows "emu_back p (m\<lparr> em_cpu := (em_cpu m)\<lparr> cpu_arch := notify irq (set_devices d (cpu_arch (em_cpu m))) \<rparr> \<rparr>)"
    "steps p (em_cpu m) ((em_cpu m)\<lparr> cpu_arch := notify irq (set_devices d (cpu_arch (em_cpu m))) \<rparr>)"
  using mem_act_front [of p up "Devices d irq" m] assms by (simp_all add: emu_back_def)

lemma sim_device_at:
  assumes "sim_at p out [] m0 m" "em_parent m = Inr q" "i < length (mp_devices q)"
  shows "runs (sim_device p e ft i m)
    (\<lambda>m'. sim_at p out [] m0 m' \<and> (\<exists>q'. em_parent m' = Inr q' \<and> length (mp_devices q') = length (mp_devices q))) (sim_halts p ft m0)"
proof (cases "ft i (devices (memory (cpu_arch (em_cpu m))))")
  case (Inl x)
  then show ?thesis by (auto simp: sim_device_def Let_def sim_halts_def)
next
  case (Inr z)
  obtain d irq where z: "z = (d, irq)" by (cases z)
  let ?q = "device_tick dev_ops i q"
  let ?m = "m\<lparr> em_cpu := (em_cpu m)\<lparr> cpu_arch := notify irq (set_devices d (cpu_arch (em_cpu m))) \<rparr>, em_parent := Inr (?q\<lparr> answers := [] \<rparr>) \<rparr>"
  have q: "mem_inv out q" using assms(1,2) by (auto simp: sim_at_def sim_inv_def)
  note t = device_tick_inv [OF q assms(3)]
  have "sim_inv out (answers ?q @ []) ?m" using assms(1,2) t(1,2) by (auto simp: sim_at_def sim_inv_def)
  moreover have "emu_back p ?m" "steps p (em_cpu m0) (em_cpu ?m)"
    using devices_back [of p m irq d] parent_back assms(1) steps_trans by (auto simp: sim_at_def)
  ultimately have a: "sim_at p out (answers ?q @ []) m0 ?m" by (simp add: sim_at_def)
  have "runs (delivers p (memory_parent e) (answers ?q) ?m)
    (\<lambda>m'. sim_at p out [] m0 m' \<and> (\<exists>q'. em_parent m' = Inr q' \<and> length (mp_devices q') = length (mp_devices q))) (sim_halts p ft m0)"
    by (rule runs_mono [OF delivers_at [OF a]]) (use delivers_parent t(3) in fastforce)+
  then show ?thesis using Inr z assms(2) by (simp add: sim_device_def Let_def)
qed

lemma sim_devices_at:
  "sim_at p out [] m0 m \<Longrightarrow> em_parent m = Inr q \<Longrightarrow> \<forall>i \<in> set is. i < length (mp_devices q) \<Longrightarrow>
   runs (sim_devices p e ft is m) (sim_at p out [] m0) (sim_halts p ft m0)"
proof (induction "is" arbitrary: m q)
  case (Cons i "is")
  then show ?case by (auto intro!: runs_bind [OF sim_device_at [OF Cons.prems(1,2)]])
qed simp

lemma sim_tick_at:
  assumes "sim_at p out [] m0 m" "dram_keeps e out"
  shows "runs (sim_tick p e ft m) (sim_at p out [] m0) (sim_halts p ft m0)"
proof -
  obtain q where q: "em_parent m = Inr q" "mem_inv out q" using assms(1) by (auto simp: sim_at_def sim_inv_def)
  obtain q1 where q1: "dram_clock e (lookup_reqs m) q = Inr q1" "mem_inv out (q1\<lparr> answers := [] \<rparr>)"
      "mset (mem_owed (q1\<lparr> answers := [] \<rparr>)) + mset (map fst (answers q1)) = mset (mem_owed q)"
    using dram_clock_inv [OF assms(2) q(2)] by blast
  let ?m = "m\<lparr> em_parent := Inr (q1\<lparr> answers := [] \<rparr>) \<rparr>"
  have "sim_at p out (answers q1 @ []) m0 ?m"
    using assms(1) q q1(2,3) parent_back by (auto simp: sim_at_def sim_inv_def)
  then have "runs (rbind (delivers p (memory_parent e) (answers q1) ?m) (sim_devices p e ft [0..<length (mp_devices q1)]))
      (sim_at p out [] m0) (sim_halts p ft m0)"
    by (rule runs_bind [OF delivers_at]) (auto dest!: delivers_parent intro!: sim_devices_at)
  then show ?thesis using q(1) q1(1) by (simp add: sim_tick_def)
qed

section \<open>A cycle, and a run\<close>

lemma sim_cycle_at:
  assumes "sim_at p out [] m0 m" "dram_keeps e out"
  shows "runs (sim_cycle p e ft m) (sim_at p out [] m0) (sim_halts p ft m0)"
  unfolding sim_cycle_def
proof (rule runs_bind [OF sim_tick_at [OF assms]])
  fix m1 assume 1: "sim_at p out [] m0 m1"
  then have b: "emu_back p m1" "emu_inv p m1" "sim_inv out [] m1" by (auto simp: sim_at_def emu_back_def)
  have "runs (emu_clock p (memory_parent e) m1) (sim_at p out [] m0) (sim_halts p ft m0)"
  proof (rule runs_mono [OF emu_clock_back [OF b(1) memory_keeps_ids]])
    fix m2 assume 2: "emu_clock p (memory_parent e) m1 = Inr m2" "emu_back p m2"
    have "emu_cycle p (memory_parent e) [] m1 = Inr m2" using 2(1) by (simp add: emu_cycle_def)
    then have "steps p (em_cpu m1) (em_cpu m2)" using emu_cycle_front b(2) by blast
    then show "sim_at p out [] m0 m2"
      using 1 2(2) emu_clock_inv [OF 2(1) b(3) assms(2)] steps_trans by (auto simp: sim_at_def)
  qed (use sim_halts_at [OF 1] in blast)
  then show "runs (rbind (emu_clock p (memory_parent e) m1) (\<lambda>m. rbind (em_parent m) (\<lambda>q. Inr m))) (sim_at p out [] m0) (sim_halts p ft m0)"
    by (rule runs_bind) (auto simp: sim_at_def sim_inv_def)
qed

lemma sim_run_at:
  "sim_at p out [] m0 m \<Longrightarrow> dram_keeps e out \<Longrightarrow>
   runs (sim_run p e ft end_tick inst_count n m) (sim_at p out [] m0) (sim_halts p ft m0)"
proof (induction n arbitrary: m)
  case (Suc n)
  have "runs (rbind (sim_cycle p e ft m) (sim_run p e ft end_tick inst_count n)) (sim_at p out [] m0) (sim_halts p ft m0)"
    by (rule runs_bind [OF sim_cycle_at [OF Suc.prems]]) (rule Suc.IH [OF _ Suc.prems(2)])
  then show ?case using Suc.prems(1) by simp
qed simp

section \<open>The start\<close>

lemma afterLoad_back:
  assumes "pipe_afterLoad start_pc sizes stack delays mem u = Inr s" "3 \<le> retire_size u" "pred_all (cpu_pred s)"
    and "\<forall>i. unat (i_mem_id (cpu_insts u i)) < retire_size u \<and> i_bp_meta_idx (cpu_insts u i) < p_retire_size (cpu_pred u)"
  shows "back_inv s" "retire_size s = retire_size u"
proof -
  have r: "ring [0..<retire_size u] 0 0 (ll_pushes [0..<retire_size u] ll_new)"
    using assms(2) by (intro pushes_ring [THEN conjunct1]) simp
  have of_nat: "unat (of_nat m :: u16) \<le> m" for m by (simp add: unat_of_nat)
  then have id: "m < n \<Longrightarrow> unat (of_nat m :: u16) < n" for m n by (rule le_less_trans)
  have pr: "p_retire_size (cpu_pred s) = p_retire_size (cpu_pred u)" and n: "retire_size s = retire_size u"
    using assms(1) by (auto simp: pipe_afterLoad_def rbind_eq_Inr pred_afterLoad_def assert_c_def split: if_splits)
  show "retire_size s = retire_size u" by (rule n)
  have rings: "ring [0..<retire_size s] 0 0 (mem_req_list s)" "ring [0..<retire_size s] 0 0 (cache_req_list s)"
    and sizes: "length (mem_end_map s) = retire_size s" "id_extra_idx s = 0" "mem_reqs s m = \<lparr> req = SNOOP_NONE, req_size = 0,
      req_id = (\<lambda>k. 0)(0 := of_nat m), addr = 0 \<rparr>" for m
    using assms(1) r by (auto simp: pipe_afterLoad_def rbind_eq_Inr)
  have "inst_ok (retire_size s) (p_retire_size (cpu_pred s)) (cpu_insts s i)" for i
    using assms(1,4) unfolding pr n by (auto simp: pipe_afterLoad_def rbind_eq_Inr inst_ok_def sized_def zero_info_def)
  then show "back_inv s"
    using rings sizes id assms(2,3) n by (auto simp: back_inv_def Let_def)
qed

lemma sim_start_back:
  assumes "sim_init (il, is, iw) (dl, ds, dw) n start_pc sizes stack delays mem u = Inr s" "emu_inv p s" "sim_inv out [] s"
    and "3 \<le> retire_size (em_cpu u)" "pred_all (cpu_pred (em_cpu s))"
    and "\<forall>i. unat (i_mem_id (cpu_insts (em_cpu u) i)) < retire_size (em_cpu u) \<and>
      i_bp_meta_idx (cpu_insts (em_cpu u) i) < p_retire_size (cpu_pred (em_cpu u))"
    and "em_parent u = Inr q"
  shows "sim_at p out [] s s"
proof -
  obtain c where c: "pipe_afterLoad start_pc sizes stack delays mem (em_cpu u) = Inr c"
    and s: "s = u\<lparr> em_cpu := c, em_ic := icache_afterLoad il is iw (em_ic u), em_dc := dcache_afterLoad dl ds dw (em_dc u),
      em_parent := Inr (mem_afterLoad n q), em_out_i := 0, em_out_d := 0 \<rparr>"
    using assms(1,7) by (auto simp: sim_init_def cm_afterLoad_def rbind_eq_Inr split: option.splits)
  have "pred_all (cpu_pred c)" using assms(5) by (simp add: s)
  from afterLoad_back [OF c assms(4) this assms(6)] have "back_inv (em_cpu s)" by (simp add: s)
  moreover have "dreq_ok (retire_size (em_cpu s)) (em_dc s)" by (simp add: s dreq_ok_def dcache_afterLoad_def)
  ultimately show ?thesis using assms(2,3) by (simp add: sim_at_def emu_back_def sim_inv_def)
qed

end
