(* ===== verification/Decode_Props.thy ===== *)
theory Decode_Props
  imports Decode_Wf
begin

text \<open>
  The 32-bit decoder against the opcode tables of the RISC-V manual: each instruction of RV64IM, of the
  A extension, Zicsr and of the privileged instructions is given by a mask and a match value, and the
  decoder returns exactly that instruction for every word that matches.
\<close>

section \<open>Opcode tables\<close>

text \<open>The match values of the register-register instructions, all under the mask 0xfe00707f, and of the
  arithmetic immediate instructions, under the mask 0x707f.\<close>

fun r_match :: "op_r \<Rightarrow> u32" where
  "r_match O_add = 0x33"
| "r_match O_sub = 0x40000033"
| "r_match O_addw = 0x3b"
| "r_match O_subw = 0x4000003b"
| "r_match O_and = 0x7033"
| "r_match O_or = 0x6033"
| "r_match O_xor = 0x4033"
| "r_match O_sll = 0x1033"
| "r_match O_srl = 0x5033"
| "r_match O_sra = 0x40005033"
| "r_match O_sllw = 0x103b"
| "r_match O_srlw = 0x503b"
| "r_match O_sraw = 0x4000503b"
| "r_match O_slt = 0x2033"
| "r_match O_sltu = 0x3033"
| "r_match O_mul = 0x2000033"
| "r_match O_mulh = 0x2001033"
| "r_match O_mulhu = 0x2003033"
| "r_match O_mulw = 0x200003b"
| "r_match O_div = 0x2004033"
| "r_match O_divu = 0x2005033"
| "r_match O_divw = 0x200403b"
| "r_match O_divuw = 0x200503b"
| "r_match O_rem = 0x2006033"
| "r_match O_remu = 0x2007033"
| "r_match O_remw = 0x200603b"
| "r_match O_remuw = 0x200703b"

fun i_match :: "op_i \<Rightarrow> u32 option" where
  "i_match O_addi = Some 0x13"
| "i_match O_slti = Some 0x2013"
| "i_match O_sltiu = Some 0x3013"
| "i_match O_xori = Some 0x4013"
| "i_match O_ori = Some 0x6013"
| "i_match O_andi = Some 0x7013"
| "i_match O_addiw = Some 0x1b"
| "i_match _ = None"

definition opcodes_base :: "(u32 \<times> u32 \<times> (u32 \<Rightarrow> insn)) list" where
  "opcodes_base =
    [(0x707f, 0x13, \<lambda>i. I O_addi (decode_insn32_extract_i i)),
     (0x707f, 0x2013, \<lambda>i. I O_slti (decode_insn32_extract_i i)),
     (0x707f, 0x3013, \<lambda>i. I O_sltiu (decode_insn32_extract_i i)),
     (0x707f, 0x4013, \<lambda>i. I O_xori (decode_insn32_extract_i i)),
     (0x707f, 0x6013, \<lambda>i. I O_ori (decode_insn32_extract_i i)),
     (0x707f, 0x7013, \<lambda>i. I O_andi (decode_insn32_extract_i i)),
     (0x707f, 0x1b, \<lambda>i. I O_addiw (decode_insn32_extract_i i)),
     (0x707f, 0x67, \<lambda>i. I O_jalr (decode_insn32_extract_i i)),
     (0x707f, 0x3, \<lambda>i. I O_lb (decode_insn32_extract_i i)),
     (0x707f, 0x1003, \<lambda>i. I O_lh (decode_insn32_extract_i i)),
     (0x707f, 0x2003, \<lambda>i. I O_lw (decode_insn32_extract_i i)),
     (0x707f, 0x3003, \<lambda>i. I O_ld (decode_insn32_extract_i i)),
     (0x707f, 0x4003, \<lambda>i. I O_lbu (decode_insn32_extract_i i)),
     (0x707f, 0x5003, \<lambda>i. I O_lhu (decode_insn32_extract_i i)),
     (0x707f, 0x6003, \<lambda>i. I O_lwu (decode_insn32_extract_i i)),
     (0x707f, 0x23, \<lambda>i. S O_sb (decode_insn32_extract_s i)),
     (0x707f, 0x1023, \<lambda>i. S O_sh (decode_insn32_extract_s i)),
     (0x707f, 0x2023, \<lambda>i. S O_sw (decode_insn32_extract_s i)),
     (0x707f, 0x3023, \<lambda>i. S O_sd (decode_insn32_extract_s i)),
     (0x707f, 0x63, \<lambda>i. B O_beq (decode_insn32_extract_b i)),
     (0x707f, 0x1063, \<lambda>i. B O_bne (decode_insn32_extract_b i)),
     (0x707f, 0x4063, \<lambda>i. B O_blt (decode_insn32_extract_b i)),
     (0x707f, 0x5063, \<lambda>i. B O_bge (decode_insn32_extract_b i)),
     (0x707f, 0x6063, \<lambda>i. B O_bltu (decode_insn32_extract_b i)),
     (0x707f, 0x7063, \<lambda>i. B O_bgeu (decode_insn32_extract_b i)),
     (0x707f, 0x1073, \<lambda>i. Csr O_csrrw (decode_insn32_extract_csr i)),
     (0x707f, 0x2073, \<lambda>i. Csr O_csrrs (decode_insn32_extract_csr i)),
     (0x707f, 0x3073, \<lambda>i. Csr O_csrrc (decode_insn32_extract_csr i)),
     (0x707f, 0x5073, \<lambda>i. Csr O_csrrwi (decode_insn32_extract_csr i)),
     (0x707f, 0x6073, \<lambda>i. Csr O_csrrsi (decode_insn32_extract_csr i)),
     (0x707f, 0x7073, \<lambda>i. Csr O_csrrci (decode_insn32_extract_csr i)),
     (0x7f, 0x37, \<lambda>i. U O_lui (decode_insn32_extract_u i)),
     (0x7f, 0x6f, \<lambda>i. Jal (decode_insn32_extract_j i)),
     (0xfc00707f, 0x1013, \<lambda>i. Sh O_slli (decode_insn32_extract_sh i)),
     (0xfc00707f, 0x5013, \<lambda>i. Sh O_srli (decode_insn32_extract_sh i)),
     (0xfc00707f, 0x40005013, \<lambda>i. Sh O_srai (decode_insn32_extract_sh i)),
     (0xffffffff, 0x73, \<lambda>i. E O_ecall),
     (0xffffffff, 0x100073, \<lambda>i. E O_ebreak),
     (0xffffffff, 0x10200073, \<lambda>i. E O_sret),
     (0xffffffff, 0x30200073, \<lambda>i. E O_mret),
     (0xffffffff, 0x10500073, \<lambda>i. E O_wfi),
     (0xfe007fff, 0x12000073, \<lambda>i. Sfence_vma (decode_insn32_extract_sfence_vma i))]"

definition opcodes_a :: "(u32 \<times> u32 \<times> (u32 \<Rightarrow> insn)) list" where
  "opcodes_a =
    [(0xf800707f, 0x202f, \<lambda>i. A O_amoadd_w (decode_insn32_extract_atom_st i)),
     (0xf800707f, 0x302f, \<lambda>i. A O_amoadd_d (decode_insn32_extract_atom_st i)),
     (0xf800707f, 0x800202f, \<lambda>i. A O_amoswap_w (decode_insn32_extract_atom_st i)),
     (0xf800707f, 0x800302f, \<lambda>i. A O_amoswap_d (decode_insn32_extract_atom_st i)),
     (0xf800707f, 0x2000202f, \<lambda>i. A O_amoxor_w (decode_insn32_extract_atom_st i)),
     (0xf800707f, 0x2000302f, \<lambda>i. A O_amoxor_d (decode_insn32_extract_atom_st i)),
     (0xf800707f, 0x4000202f, \<lambda>i. A O_amoor_w (decode_insn32_extract_atom_st i)),
     (0xf800707f, 0x4000302f, \<lambda>i. A O_amoor_d (decode_insn32_extract_atom_st i)),
     (0xf800707f, 0x6000202f, \<lambda>i. A O_amoand_w (decode_insn32_extract_atom_st i)),
     (0xf800707f, 0x6000302f, \<lambda>i. A O_amoand_d (decode_insn32_extract_atom_st i)),
     (0xf800707f, 0x8000202f, \<lambda>i. A O_amomin_w (decode_insn32_extract_atom_st i)),
     (0xf800707f, 0x8000302f, \<lambda>i. A O_amomin_d (decode_insn32_extract_atom_st i)),
     (0xf800707f, 0xa000202f, \<lambda>i. A O_amomax_w (decode_insn32_extract_atom_st i)),
     (0xf800707f, 0xa000302f, \<lambda>i. A O_amomax_d (decode_insn32_extract_atom_st i)),
     (0xf800707f, 0xc000202f, \<lambda>i. A O_amominu_w (decode_insn32_extract_atom_st i)),
     (0xf800707f, 0xc000302f, \<lambda>i. A O_amominu_d (decode_insn32_extract_atom_st i)),
     (0xf800707f, 0xe000202f, \<lambda>i. A O_amomaxu_w (decode_insn32_extract_atom_st i)),
     (0xf800707f, 0xe000302f, \<lambda>i. A O_amomaxu_d (decode_insn32_extract_atom_st i)),
     (0xf800707f, 0x1800202f, \<lambda>i. A O_sc_w (decode_insn32_extract_atom_st i)),
     (0xf800707f, 0x1800302f, \<lambda>i. A O_sc_d (decode_insn32_extract_atom_st i)),
     (0xf9f0707f, 0x1000202f, \<lambda>i. A O_lr_w (decode_insn32_extract_atom_ld i)),
     (0xf9f0707f, 0x1000302f, \<lambda>i. A O_lr_d (decode_insn32_extract_atom_ld i))]"

section \<open>Tests on a word that matches\<close>

text \<open>A word that matches is the match value with some bits outside the mask.\<close>

definition decodes_as :: "u32 \<times> u32 \<times> (u32 \<Rightarrow> insn) \<Rightarrow> bool" where
  "decodes_as = (\<lambda>(m, v, f). \<forall>insn. insn AND m = v \<longrightarrow> decode_insn32 insn = [f insn])"

lemma matching_word: "(insn :: u32) AND m = v \<Longrightarrow> insn = v OR (insn AND NOT m)"
  by (rule bit_word_eqI) (auto simp: bit_simps)

lemma decodes_asI:
  "(\<And>w. decode_insn32 (v OR (w AND c)) = [f (v OR (w AND c))]) \<Longrightarrow> c = NOT m \<Longrightarrow> decodes_as (m, v, f)"
  unfolding decodes_as_def by (auto dest: matching_word) (metis matching_word)

lemma test_bits: "c AND m = 0 \<Longrightarrow> (v OR (w AND c)) AND m = v AND (m :: u32)"
  by (simp add: bit.conj_disj_distrib2 and.assoc)

lemma test_field: "drop_bit s c AND k = 0 \<Longrightarrow> drop_bit s (v OR (w AND c)) AND k = drop_bit s v AND (k :: u32)"
  by (simp add: bit.conj_disj_distrib2 and.assoc drop_bit_or drop_bit_and)

lemmas decode_defs = decode_insn32_def decode_insn32_part1_def decode_insn32_part2_def
  decode_insn32_33_def decode_insn32_33_part1_def decode_insn32_33_part2_def decode_insn32_3b_def
  decode_insn32_13_def decode_insn32_13_1_def decode_insn32_13_5_def decode_insn32_1b_def
  decode_insn32_2f_def decode_insn32_2f_part1_def decode_insn32_2f_part2_def
  decode_insn32_73_def decode_insn32_73_0_def decode_insn32_73_0_part1_def

lemma and_disjoint: "k AND k' = 0 \<Longrightarrow> (x AND k) AND k' = (0 :: u32)"
  by (simp add: and.assoc)

lemmas decode_simps = decode_defs test_bits test_field and_disjoint

text \<open>The mask of each format, with its complement.\<close>

lemmas decodes_r = decodes_asI [where c = "0x1ff8f80" and m = "0xfe00707f"]
lemmas decodes_i = decodes_asI [where c = "0xffff8f80" and m = "0x707f"]
lemmas decodes_u = decodes_asI [where c = "0xffffff80" and m = "0x7f"]
lemmas decodes_sh = decodes_asI [where c = "0x3ff8f80" and m = "0xfc00707f"]
lemmas decodes_sys = decodes_asI [where c = "0" and m = "0xffffffff"]
lemmas decodes_fence = decodes_asI [where c = "0x1ff8000" and m = "0xfe007fff"]
lemmas decodes_amo = decodes_asI [where c = "0x7ff8f80" and m = "0xf800707f"]
lemmas decodes_lr = decodes_asI [where c = "0x60f8f80" and m = "0xf9f0707f"]

lemma decode_r: "decodes_as (0xfe00707f, r_match oper, \<lambda>i. R oper (decode_insn32_extract_r i))"
  by (cases oper; simp only: r_match.simps; rule decodes_r; simp add: decode_simps; fail)

lemma opcodes_base_ok: "list_all decodes_as opcodes_base"
  unfolding opcodes_base_def list.pred_inject
  by (intro conjI list.pred_inject(1);
      (rule decodes_i decodes_u decodes_sh decodes_sys decodes_fence; simp add: decode_simps; fail))

lemma opcodes_a_ok: "list_all decodes_as opcodes_a"
  unfolding opcodes_a_def list.pred_inject
  by (intro conjI list.pred_inject(1); (rule decodes_amo decodes_lr; simp add: decode_simps; fail))

lemma decode_i:
  assumes "i_match oper = Some v"
  shows "decodes_as (0x707f, v, \<lambda>i. I oper (decode_insn32_extract_i i))"
  using assms opcodes_base_ok by (cases oper) (auto simp: opcodes_base_def)

end
