(* ===== verification/Step_Props.thy ===== *)
theory Step_Props
  imports Exec_Spec Trap_Props Decode_Props
begin

text \<open>
  One whole instruction: fetch, decode, execute and commit composed.  A word in memory that is one of
  the manual's encodings takes the machine to the state the manual gives.
\<close>

section \<open>What decode hands to the interpreter\<close>

definition prepared :: "u64 \<Rightarrow> u64 \<Rightarrow> u32 \<Rightarrow> u8 \<Rightarrow> 'd machine \<Rightarrow> 'd machine" where
  "prepared vaddr paddr ins sz c =
     c\<lparr> env_pc := vaddr, env_paddr := paddr,
        info := (clear_info ((info c)\<lparr> inst := ins, inst_size := sz \<rparr>))\<lparr> exception := EXC_NONE \<rparr> \<rparr>"

lemma prepared_simps [simp]:
  "state (prepared va pa ins sz c) = state c" "memory (prepared va pa ins sz c) = memory c"
  "env_pc (prepared va pa ins sz c) = va" "inst_size (info (prepared va pa ins sz c)) = sz"
  "ifetch_mmu_state (prepared va pa ins sz c) = ifetch_mmu_state c"
  "data_mmu_state (prepared va pa ins sz c) = data_mmu_state c"
  "dst_idx (info (prepared va pa ins sz c)) = dst_idx (info c)"
  by (simp_all add: prepared_def clear_info_def)

lemma prepared_fresh: "slots_ok (info c) \<Longrightarrow> fresh (prepared va pa ins sz c)"
  by (simp add: fresh_def slots_ok_def prepared_def clear_info_def)

text \<open>The word at a physical address of the RAM.\<close>

definition ram_word :: "'d plat \<Rightarrow> 'd machine \<Rightarrow> u64 \<Rightarrow> u32 \<Rightarrow> bool" where
  "ram_word p c pa w \<longleftrightarrow> mem_paddrRead p pa 4 (ucast (inst (info c))) c = Inr (ucast w, False, c)"

lemma fetch_32:
  assumes "ram_word p c pa w" "w AND 3 = 3"
  shows "fetch p pa (inst (info c)) c = Inr (w, False, 4, c)"
  using assms by (simp add: fetch_def ram_word_def Let_def)

lemma decode_32:
  assumes "ram_word p c pa w" "w AND 3 = 3"
  shows "decode p va pa c = rbind (interpreter p w False (prepared va pa w 4 c))
     (\<lambda>(ok, c). Inr (inst_size (info (check_irq c)), check_irq c))"
  by (simp add: decode_def fetch_32 [OF assms] prepared_def upd_info_def set_exception_def Let_def)

text \<open>No interrupt is taken.\<close>

definition quiet :: "arch_state \<Rightarrow> bool" where
  "quiet s \<longleftrightarrow> \<not> irq_enabled s \<or> (\<forall>n. \<not> pending s n)"

definition step :: "'d plat \<Rightarrow> u64 \<Rightarrow> u64 \<Rightarrow> 'd machine \<Rightarrow> (u64 \<times> 'd machine) res" where
  "step p va pa c = rbind (decode p va pa c) (\<lambda>(sz, c). updateEnv p c)"

definition reg_field :: "u32 \<Rightarrow> nat \<Rightarrow> u32" where
  "reg_field w s = take_bit 5 (drop_bit s w)"

lemma extract_r_fields:
  "r_rd (decode_insn32_extract_r w) = reg_field w 7" "r_rs1 (decode_insn32_extract_r w) = reg_field w 15"
  "r_rs2 (decode_insn32_extract_r w) = reg_field w 20"
  by (simp_all add: decode_insn32_extract_r_def extract32_eq reg_field_def)

lemma step_reg:
  assumes ram: "ram_word p c pa w" "w AND 3 = 3" and irq: "quiet (state c)" and slots: "slots_ok (info c)"
    and ex: "exec_insn p i (prepared va pa w 4 c) = Inr (True, c1)" "c1 = (prepared va pa w 4 c)\<lparr> info := info c1 \<rparr>"
    and dec: "decode_insn32 w = [i]"
    and up: "updateEnv p c1 = Inr (va + 4, set_reg rd v c1)"
  obtains c2 where "step p va pa c = Inr (va + 4, c2)"
    "state c2 = (state c)\<lparr> gpr := (gpr (state c))(unat rd := v, 0 := 0) \<rparr>" "memory c2 = memory c"
proof -
  have st: "state c1 = state c" "memory c1 = memory c"
    using arg_cong [OF ex(2), of state] arg_cong [OF ex(2), of memory] by simp_all
  then have "check_irq c1 = c1" using irq by (intro check_irq_none) (simp add: quiet_def)
  then have "decode p va pa c = Inr (inst_size (info c1), c1)"
    using ex(1) by (simp add: decode_32 [OF ram] interpreter_def dec)
  then have "step p va pa c = Inr (va + 4, set_reg rd v c1)" using up by (simp add: step_def)
  moreover have "state (set_reg rd v c1) = (state c)\<lparr> gpr := (gpr (state c))(unat rd := v, 0 := 0) \<rparr>"
    "memory (set_reg rd v c1) = memory c"
    by (simp_all add: set_reg_def st)
  ultimately show ?thesis using that by blast
qed

lemma low_bits: "w AND m = v \<Longrightarrow> m AND 3 = 3 \<Longrightarrow> w AND 3 = v AND (3 :: u32)"
  by (metis and.assoc)

lemma r_match_low: "r_match oper AND 3 = 3"
  by (cases oper) simp_all

lemma step_r:
  assumes ram: "ram_word p c pa w" and irq: "quiet (state c)" and slots: "slots_ok (info c)"
    and m: "w AND 0xfe00707f = r_match oper"
    and x: "x = gpr (state c) (unat (reg_field w 15))" and y: "y = gpr (state c) (unat (reg_field w 20))"
    and t: "\<not> host_traps oper x y"
  obtains c2 where "step p va pa c = Inr (va + 4, c2)"
    "state c2 = (state c)\<lparr> gpr := (gpr (state c))(unat (reg_field w 7) := alu_r oper x y, 0 := 0) \<rparr>"
    "memory c2 = memory c"
proof -
  let ?c = "prepared va pa w 4 c" and ?a = "decode_insn32_extract_r w"
  have low: "w AND 3 = 3" using low_bits [OF m] r_match_low by simp
  have dec: "decode_insn32 w = [R oper ?a]" using decode_r [of oper] m by (simp add: decodes_as_def)
  have wf: "insn_wf (R oper ?a)" using wf_decode_insn32 [of w] by (simp add: dec)
  have xy: "get_gpr_64 ?c (r_rs1 ?a) = x" "get_gpr_64 ?c (r_rs2 ?a) = y"
    by (simp_all add: get_gpr_64_def x y extract_r_fields)
  have "\<not> host_traps oper (get_gpr_64 ?c (r_rs1 ?a)) (get_gpr_64 ?c (r_rs2 ?a))" unfolding xy by (rule t)
  from exec_r_commits [OF prepared_fresh [OF slots] wf this, of p, unfolded xy]
  obtain c1 where "exec_insn p (R oper ?a) ?c = Inr (True, c1)" "c1 = ?c\<lparr> info := info c1 \<rparr>"
    "updateEnv p c1 = Inr (va + 4, set_reg (reg_field w 7) (alu_r oper x y) c1)"
    by (auto simp: extract_r_fields)
  from step_reg [OF ram low irq slots this(1,2) dec this(3)] that show ?thesis by blast
qed

lemma extract_i_fields:
  "i_rd (decode_insn32_extract_i w) = reg_field w 7" "i_rs1 (decode_insn32_extract_i w) = reg_field w 15"
  by (simp_all add: decode_insn32_extract_i_def extract32_eq reg_field_def)

definition imm_i :: "u32 \<Rightarrow> u64" where
  "imm_i w = signed_take_bit 11 (ucast (drop_bit 20 w))"

lemma bit_sx: "bit (sx v) n \<longleftrightarrow> n < 64 \<and> bit v (min n 31)"
  by (auto simp: sx_def bit_simps min_def)

lemma imm_i_field: "sx (i_imm (decode_insn32_extract_i w)) = imm_i w"
  by (rule bit_word_eqI)
    (auto simp: imm_i_def decode_insn32_extract_i_def bit_sx bit_sextract32 bit_simps min_def dest: bit_imp_le_length)

lemma i_match_low: "i_match oper = Some v \<Longrightarrow> v AND 3 = 3"
  by (cases oper) auto

lemma step_i:
  assumes ram: "ram_word p c pa w" and irq: "quiet (state c)" and slots: "slots_ok (info c)"
    and m: "i_match oper = Some (w AND 0x707f)"
    and v: "alu_i oper (gpr (state c) (unat (reg_field w 15))) (imm_i w) = Some v"
  obtains c2 where "step p va pa c = Inr (va + 4, c2)"
    "state c2 = (state c)\<lparr> gpr := (gpr (state c))(unat (reg_field w 7) := v, 0 := 0) \<rparr>"
    "memory c2 = memory c"
proof -
  let ?c = "prepared va pa w 4 c" and ?a = "decode_insn32_extract_i w"
  have low: "w AND 3 = 3" using low_bits [of w "0x707f" "w AND 0x707f"] i_match_low [OF m] by simp
  have dec: "decode_insn32 w = [I oper ?a]" using decode_i [OF m] by (simp add: decodes_as_def)
  have wf: "insn_wf (I oper ?a)" using wf_decode_insn32 [of w] by (simp add: dec)
  have "alu_i oper (get_gpr_64 ?c (i_rs1 ?a)) (sx (i_imm ?a)) = Some v"
    using v by (simp add: get_gpr_64_def extract_i_fields imm_i_field)
  from exec_i_commits [OF prepared_fresh [OF slots] wf this, of p]
  obtain c1 where "exec_insn p (I oper ?a) ?c = Inr (True, c1)" "c1 = ?c\<lparr> info := info c1 \<rparr>"
    "updateEnv p c1 = Inr (va + 4, set_reg (reg_field w 7) v c1)"
    by (auto simp: extract_i_fields)
  from step_reg [OF ram low irq slots this(1,2) dec this(3)] that show ?thesis by blast
qed

end
