(* ===== verification/Samples.thy ===== *)
theory Samples
  imports Step_Props
begin

text \<open>
  A concrete machine for the witnesses of the theories that state properties: no devices, four kilobytes
  of RAM, machine mode, no translation.
\<close>

text \<open>No devices, a softfloat library that returns 0, and locals that start as 0.\<close>

definition plat0 :: "unit plat" where
  "plat0 = \<lparr> io_read = (\<lambda>a n v d. None), io_write = (\<lambda>a n v d. None),
     softfloat = (\<lambda>f xs st. (0, st)), uninit = 0 \<rparr>"

definition state0 :: arch_state where
  "state0 = \<lparr> gpr = (\<lambda>r. 0), fpr = (\<lambda>r. 0), frm = 0, frm_pad = 0,
     fp_status = \<lparr> fs_flags = 0, fs_round = 0, fs_rest = [] \<rparr>, load_res = 0, load_val = 0, badaddr = 0,
     priv_ver = 0, misa = 0, priv = 3, menvcfg = 0, senvcfg = 0, mhartid = 0, mvendorid = 0, marchid = 0,
     mimpid = 0, mstatus = 0, mip = 0, miclaim = 0, mie = 0, mideleg = 0, sie = 0, satp = 0, stval = 0,
     medeleg = 0, stvec = 0, sepc = 0, scause = 0, mtvec = 0, mepc = 0, mcause = 0, mtval = 0,
     scounteren = 0, mcounteren = 0, mcountinhibit = 0, sscratch = 0, mscratch = 0, stimecmp = 0,
     pmpcfg = (\<lambda>k. 0), pmpaddr = (\<lambda>k. 0), num_rules = 0 \<rparr>"

definition machine0 :: "unit machine" where
  "machine0 = \<lparr> state = state0, info = zero_info, env_pc = 0, env_paddr = 0, ifetch_mmu_state = False,
     data_mmu_state = False, memory = \<lparr> ram = (\<lambda>a. 0), mem_size = 4096, devices = () \<rparr>, tick = 0, instret = 0 \<rparr>"

text \<open>A machine with an instruction word at the start of the RAM and two registers set.\<close>

definition machine1 :: "u32 \<Rightarrow> u64 \<Rightarrow> u64 \<Rightarrow> unit machine" where
  "machine1 w x y = machine0\<lparr>
     memory := (memory machine0)\<lparr> ram := store_le (\<lambda>a. 0) 0 4 (ucast w) \<rparr>,
     state := state0\<lparr> gpr := (\<lambda>r. 0)(1 := x, 2 := y) \<rparr> \<rparr>"

lemma machine1_ram: "ram_word plat0 (machine1 w x y) 0x80000000 w"
proof -
  have "take_bit 32 (ucast w) = (ucast w :: u64)"
    by (rule bit_word_eqI) (use bit_imp_le_length [of w] in \<open>auto simp: bit_simps\<close>)
  then have "load_le (store_le (\<lambda>a. 0) 0 4 (ucast w)) 0 4 = (ucast w :: u64)"
    by (subst load_store_le) simp_all
  then show ?thesis
    by (simp add: ram_word_def mem_paddrRead_def plat0_def machine1_def machine0_def in_ram_def)
qed

lemma machine1_ready: "quiet (state (machine1 w x y))" "slots_ok (info (machine1 w x y))"
  by (simp_all add: quiet_def irq_enabled_def machine1_def machine0_def state0_def slots_ok_def zero_info_def)

lemma machine1_gpr: "gpr (state (machine1 w x y)) = (\<lambda>r. 0)(1 := x, 2 := y)"
  by (simp add: machine1_def state0_def)

end
