(* ===== verification/Pipelines.thy ===== *)
theory Pipelines
  imports Pipeline_Order Samples Caches
begin

text \<open>The properties of the pipelined cpu, with a concrete simulator for the witnesses.\<close>

section \<open>A concrete simulator\<close>

text \<open>
  A ring of three requests, no predictors, caches of two sets and two ways; the word w is at the reset
  address, and the parent of the caches takes every request.
\<close>

definition pinst0 :: pinst where
  "pinst0 = \<lparr> i_taken = False, i_size = 0, i_real_size = 0, i_mem_id = 0, i_bp_meta_idx = 0, i_pc = 0, i_next_pc = 0,
     i_real_pc = 0, i_real_target = 0, i_paddr = 0, i_result = R_NORMAL, i_info = zero_info \<rparr>"

definition bare_meta :: meta_info where
  "bare_meta = \<lparr> mi_meta = [], mi_history = [0], mi_stream = \<lparr> st_type = T_INT, st_taken = False, st_indv = False, st_rasv = False,
     st_size = 4, st_pc = 0, st_target = 0, st_ind_target = 0, st_ras_target = 0 \<rparr>, mi_pred_addr = 0, mi_taken = False \<rparr>"

definition bare_predictor :: predictor where
  "bare_predictor = \<lparr> p_retire_size = 1, p_histories = [\<lparr> ghr_bits = [], ghr_idx = 0 \<rparr>], p_bps = [], p_layers = [], p_metas = [],
     p_meta_idx = 0, p_bubble = 0, p_pred_valid = False, condPredTimes = 0, indirectPredTimes = 0, callPredTimes = 0,
     condErrorTimes = 0, indirectErrorTimes = 0, callErrorTimes = 0, predTimes = 0 \<rparr>"

definition pipe0 :: "u32 \<Rightarrow> unit pipe" where
  "pipe0 w = \<lparr> retire_size = 3, mult_delay = 1, div_delay = 1, fadd_delay = 1, fmul_delay = 1, fma_delay = 1, fdiv_delay = 1,
     fsqrt_delay = 1, fmisc_complex_delay = 1, cpu_arch = machine1 w 7 5, env_inst = 0,
     cpu_pred = bare_predictor, cpu_insts = (\<lambda>i. pinst0), fetch_reqs = (\<lambda>i. req0), mem_reqs = (\<lambda>i. req0), pred_pc = 0, cpu_pc = 0,
     fetch_valid = False, id_valid = False, exe_valid = False, mem_valid = False, wb_valid = False, cache_req_list = ll_new,
     fetch_cache_req = 0, id_stall_valid = False, id_stall_dec_more = False, id_stall_inst_valid = False, id_inst = 0,
     id_stall_inst = 0, id_extra_idx = 0, id_remain_size = 0, id_wait_redirect = False, wait_redirect_tick = 0,
     wait_redirect_inst = 0, exe_stall_cycle = 0, exe_end = False, exe_inst = 0, mem_inst = 0, mem_req_list = ll_new,
     mem_end_map = [], mem_req_valid = False, wb_inst = 0, wb_tick = 0 \<rparr>"

definition pipe1 :: "u32 \<Rightarrow> unit pipe" where
  "pipe1 w = (case pipe_afterLoad 0x80000000 [8] [] [] [bare_meta] (pipe0 w) of Inr s \<Rightarrow> s | Inl e \<Rightarrow> pipe0 w)"

definition parent0 :: "unit parent" where
  "parent0 = \<lparr> icache_parent = (\<lambda>r q. (True, r, q)), dcache_parent = (\<lambda>r q. (True, r, q)) \<rparr>"

definition emu0 :: "u32 \<Rightarrow> (unit, unit) emu" where
  "emu0 w = \<lparr> em_cpu = pipe1 w, em_ic = icache_afterLoad 64 2 2 icache0, em_dc = dcache0, em_parent = (), em_out_i = 0,
     em_out_d = 0 \<rparr>"

lemma ilog2_sizes: "ilog2 64 = 6" "ilog2 128 = 7"
  using floorlog_power [of 1 2 6] floorlog_power [of 1 2 7] by (simp_all add: ilog2_def floorlog_def)

lemma machine1_sel [simp]:
  "tick (machine1 w x y) = 0" "instret (machine1 w x y) = 0" "ifetch_mmu_state (machine1 w x y) = False"
  "data_mmu_state (machine1 w x y) = False"
  by (simp_all add: machine1_def machine0_def)

lemma pipe1_ok: "pipe_afterLoad 0x80000000 [8] [] [] [bare_meta] (pipe0 w) = Inr (pipe1 w)"
  by (simp add: pipe1_def pipe_afterLoad_def pipe0_def bare_predictor_def pred_afterLoad_def)

lemma rep2: "replicate 2 x = [x, x]" "replicate 3 x = [x, x, x]"
  by (simp_all add: numeral_2_eq_2 numeral_3_eq_3)

lemma upto3: "[0..<3] = [0, 1, 2]" "[0..<2] = [0, 1]"
  by (simp_all add: upt_rec)

lemmas stage_defs = wb_stage_def mem_stage_def exe_stage_def id_stage_def refill_stage_def fetch_stage_def issue_stage_def
  fetch_translate_def Let_def

lemmas state_defs = emu0_def icache_afterLoad_def icache0_def pipe1_def pipe_afterLoad_def
    pipe0_def bare_predictor_def pred_afterLoad_def dcache0_def dcache_afterLoad_def 
    ll_pushes_def ll_push_def ll_new_def upto3 rep2 cache_geometry_def fresh_tagvs_def lru_setParams_def ilog2_sizes parent0_def

lemmas run_defs = emu_cycle_def emu_clock_def icache_clock_def icache_tick_def 
    dcache_clock_def dcache_tick_def pipe_exec_def stage_defs ll_take_def ll_node_def upd_inst_def set_inst_exception_def
    inst_exception_def exceptionValid_def icache_lookup_def handleIdleReq_def splitAddr_def match_def send_miss_def
    icache_port_def translateAddr_def lru_get_def

text \<open>The word is sub x3, x1, x2: what decode makes of it.\<close>

definition after_sub :: "unit machine \<Rightarrow> unit machine" where
  "after_sub c = set_type T_INT (SET_SRC2_DST 1 2 3 (SET_GPR_64 3 2 (prepared 0x80000000 0x80000000 0x402081b3 4 c)))"

lemma decode_sub:
  assumes "state c = state (machine1 0x402081b3 7 5)" "memory c = memory (machine1 0x402081b3 7 5)" "slots_ok (info c)"
  shows "decode plat0 0x80000000 0x80000000 c = Inr (4, after_sub c)"
    "updateEnv plat0 (after_sub c) = Inr (0x80000004, set_reg 3 2 (after_sub c))"
    "itype (info (after_sub c)) = T_INT" "exception (info (after_sub c)) = 31"
    "inst_size (info (after_sub c)) = 4"
proof -
  let ?w = "0x402081b3 :: u32" and ?c = "prepared 0x80000000 0x80000000 0x402081b3 4 c"
  have ram: "ram_word plat0 c 0x80000000 ?w"
    using machine1_ram [of ?w 7 5] assms(2) by (simp add: ram_word_def mem_paddrRead_def plat0_def split: if_splits)
  have dec: "decode_insn32 ?w = [R O_sub (decode_insn32_extract_r ?w)]"
    using decode_r [of O_sub] by (simp add: decodes_as_def)
  have f: "r_rd (decode_insn32_extract_r ?w) = 3" "r_rs1 (decode_insn32_extract_r ?w) = 1" "r_rs2 (decode_insn32_extract_r ?w) = 2"
    by (simp_all add: extract_r_fields reg_field_def)
  have g: "get_gpr_64 ?c 1 = 7" "get_gpr_64 ?c 2 = 5" by (simp_all add: get_gpr_64_def assms(1) machine1_gpr)
  have ex: "trans_sub (decode_insn32_extract_r ?w) ?c = Inr (True, after_sub c)"
    by (simp add: trans_sub_def f g after_sub_def Let_def)
  have st: "state (after_sub c) = state c"
    by (simp add: after_sub_def set_type_def SET_SRC2_DST_def SET_GPR_64_def set_dst_def set_dst_idx_def set_dst_mask_def
        set_dst_data_def set_src_def set_dst_reg_def upd_info_def)
  then have "check_irq (after_sub c) = after_sub c"
    using machine1_ready(1) [of ?w 7 5] assms(1) by (intro check_irq_none) (simp add: quiet_def)
  moreover have i: "inst_size (info (after_sub c)) = 4"
    by (simp add: after_sub_def set_type_def SET_SRC2_DST_def SET_GPR_64_def set_dst_def set_dst_idx_def set_dst_mask_def
        set_dst_data_def set_src_def set_dst_reg_def upd_info_def)
  ultimately show "decode plat0 0x80000000 0x80000000 c = Inr (4, after_sub c)" "inst_size (info (after_sub c)) = 4"
    by (simp_all add: decode_32 [OF ram] interpreter_def dec ex)
  show "itype (info (after_sub c)) = T_INT" "exception (info (after_sub c)) = 31"
    by (simp_all add: after_sub_def set_type_def SET_SRC2_DST_def SET_GPR_64_def set_dst_def set_dst_idx_def set_dst_mask_def
        set_dst_data_def set_src_def set_dst_reg_def upd_info_def prepared_def)
  have "insn_wf (R O_sub (decode_insn32_extract_r ?w))" using wf_decode_insn32 [of ?w] by (simp add: dec)
  from exec_r_commits [OF prepared_fresh [OF assms(3), of "0x80000000" "0x80000000" ?w 4] this, where p = plat0]
  show "updateEnv plat0 (after_sub c) = Inr (0x80000004, set_reg 3 2 (after_sub c))"
    by (auto simp: f g ex)
qed

lemma slots_zero: "slots_ok (zero_info\<lparr> exception := e \<rparr>)"
  by (simp add: slots_ok_def zero_info_def)

lemmas answer_defs = icache_fill_def call_client_def upd_tagv_def icache_callback_def preId_def next_inst_def ll_pop_def
  set_machine_def info_machine_def pipe_predict_def bare_meta_def fresh_stream_def pipe_target_def hm_getMeta_def id_commit_def
  needFlush_def pinst0_def zero_tagv_def is_jump_def

definition emu4w :: "u32 \<Rightarrow> (unit, unit) emu" where
  "emu4w w = (emu0 w)\<lparr>
     em_cpu := (pipe1 w)\<lparr> cpu_arch := (machine1 w 7 5)\<lparr> instret := 0, tick := 4 \<rparr>,
       cpu_insts := (cpu_insts (pipe1 w))
         (0 := pinst0\<lparr> i_size := 4, i_pc := 0x80000000, i_paddr := 0x80000000, i_info := zero_info\<lparr> exception := EXC_NONE \<rparr> \<rparr>,
          1 := pinst0\<lparr> i_size := 4, i_pc := 0x80000004, i_paddr := 0x80000004, i_info := zero_info\<lparr> exception := EXC_NONE \<rparr> \<rparr>),
       fetch_reqs := (fetch_reqs (pipe1 w))
         (0 := \<lparr> req = READ_SHARED, req_size = 4, req_id = \<lambda>k. 0, addr = 0x80000000 \<rparr>,
          1 := \<lparr> req = READ_SHARED, req_size = 4, req_id = \<lambda>k. 0, addr = 0x80000004 \<rparr>),
       pred_pc := 0x80000008, fetch_valid := True, fetch_cache_req := 1,
       cache_req_list := (cache_req_list (pipe1 w))\<lparr> ll_tail := Some 2 \<rparr> \<rparr>,
     em_ic := (em_ic (emu0 w))\<lparr> replace := [[1, 0], [0, 1]], cstate := MISS, lookup_tag := 0x1000000, current_id := 1,
       lookup_req := \<lparr> req = READ_SHARED, req_size = 64, req_id = (\<lambda>k. 7)(0 := 0, 1 := 0), addr = 0x80000000 \<rparr> \<rparr>,
     em_out_i := 1 \<rparr>"

abbreviation emu4 :: "(unit, unit) emu" where "emu4 \<equiv> emu4w 0x402081b3"

lemma run_4: "emu_run plat0 parent0 100 100 [[],[],[],[]] (emu0 w) = Inr (emu4w w)"
  by (simp add: run_defs state_defs pinst0_def zero_tagv_def req0_def emu4w_def)

definition sub_machine :: "unit machine" where
  "sub_machine = after_sub ((machine1 0x402081b3 7 5)\<lparr> instret := 0, tick := 4, info := zero_info\<lparr> exception := EXC_NONE \<rparr> \<rparr>)"

lemma sub_machine_ok:
  "updateEnv plat0 sub_machine = Inr (0x80000004, set_reg 3 2 sub_machine)"
  "itype (info sub_machine) = T_INT" "exception (info sub_machine) = 31" "inst_size (info sub_machine) = 4"
  unfolding sub_machine_def by (rule decode_sub; simp add: slots_zero)+

definition emu4a :: "(unit, unit) emu" where
  "emu4a = emu4\<lparr>
     em_cpu := (em_cpu emu4)\<lparr> cpu_arch := sub_machine,
       cpu_pred := (cpu_pred (em_cpu emu4))\<lparr>
         p_histories := hm_update True False T_INT [ghr_getMeta (ghr_afterLoad 8 \<lparr> ghr_bits = [], ghr_idx = 0 \<rparr>)]
           [ghr_afterLoad 8 \<lparr> ghr_bits = [], ghr_idx = 0 \<rparr>],
         p_metas := [bare_meta\<lparr> mi_history := [ghr_getMeta (ghr_afterLoad 8 \<lparr> ghr_bits = [], ghr_idx = 0 \<rparr>)],
           mi_stream := (mi_stream bare_meta)\<lparr> st_pc := 0x80000000 \<rparr>, mi_pred_addr := 0x80000004 \<rparr>] \<rparr>,
       cpu_insts := (cpu_insts (em_cpu emu4))
         (0 := pinst0\<lparr> i_size := 4, i_real_size := 4, i_pc := 0x80000000, i_next_pc := 0x80000004, i_real_pc := 0x80000000,
             i_paddr := 0x80000000, i_info := info sub_machine \<rparr>),
       id_valid := True, cache_req_list := (cache_req_list (em_cpu emu4))\<lparr> ll_head := Some 1 \<rparr> \<rparr>,
     em_ic := (em_ic emu4)\<lparr> cstate := REFILL,
       tagvs := [[zero_tagv\<lparr> tag := 0x1000000, valid := True \<rparr>, zero_tagv], [zero_tagv, zero_tagv]] \<rparr>,
     em_out_i := 0 \<rparr>"

lemma answer_4: "mem_acts plat0 parent0 [Answer_I] emu4 = Inr emu4a"
  by (simp add: run_defs state_defs answer_defs decode_sub slots_zero req0_def emu4w_def sub_machine_def emu4a_def)

lemma sub_machine_sel:
  "tick sub_machine = 4" "instret sub_machine = 0" "ifetch_mmu_state sub_machine = False"
  by (simp_all add: sub_machine_def after_sub_def set_type_def SET_SRC2_DST_def SET_GPR_64_def set_dst_def set_dst_idx_def
      set_dst_mask_def set_dst_data_def set_src_def set_dst_reg_def upd_info_def prepared_def)

lemma set_reg_sel:
  "info (set_reg r v c) = info c" "tick (set_reg r v c) = tick c" "instret (set_reg r v c) = instret c"
  "ifetch_mmu_state (set_reg 3 2 sub_machine) = False"
proof -
  have "satp (state sub_machine) = 0"
    by (simp add: sub_machine_def after_sub_def set_type_def SET_SRC2_DST_def SET_GPR_64_def set_dst_def set_dst_idx_def
        set_dst_mask_def set_dst_data_def set_src_def set_dst_reg_def upd_info_def machine1_def machine0_def state0_def)
  then show "info (set_reg r v c) = info c" "tick (set_reg r v c) = tick c" "instret (set_reg r v c) = instret c"
    "ifetch_mmu_state (set_reg 3 2 sub_machine) = False"
    by (simp_all add: set_reg_def updateMMUState_def Let_def upd_state_def)
qed

lemma cycle_5:
  "\<exists>m. emu_cycle plat0 parent0 [Answer_I] emu4 = Inr m \<and> cpu_pc (em_cpu m) = 0x80000004 \<and>
     cpu_arch (em_cpu m) = (set_reg 3 2 sub_machine)\<lparr> tick := 5 \<rparr>"
  unfolding emu_cycle_def answer_4
  by (simp add: run_defs state_defs answer_defs sub_machine_ok sub_machine_sel set_reg_sel req0_def emu4w_def emu4a_def is_branch_def)

lemma emu_run_append:
  "emu_run p up n k (as @ bs) m = rbind (emu_run p up n k as m) (emu_run p up n k bs)"
proof (induction "as" arbitrary: m)
  case (Cons a "as")
  then show ?case by (cases bs; cases "emu_cycle p up a m") simp_all
qed simp

lemma run_5:
  "\<exists>m. emu_run plat0 parent0 100 100 [[], [], [], [], [Answer_I]] (emu0 0x402081b3) = Inr m \<and> cpu_pc (em_cpu m) = 0x80000004 \<and>
     gpr (state (cpu_arch (em_cpu m))) 3 = 2"
proof -
  obtain m where m: "emu_cycle plat0 parent0 [Answer_I] emu4 = Inr m" "cpu_pc (em_cpu m) = 0x80000004"
     "cpu_arch (em_cpu m) = (set_reg 3 2 sub_machine)\<lparr> tick := 5 \<rparr>"
    using cycle_5 by blast
  have "tick (cpu_arch (em_cpu emu4)) = 4" "instret (cpu_arch (em_cpu emu4)) = 0" by (simp_all add: emu4w_def)
  then have "emu_run plat0 parent0 100 100 [[Answer_I]] emu4 = Inr m" using m(1) by simp
  then have "emu_run plat0 parent0 100 100 ([[], [], [], []] @ [[Answer_I]]) (emu0 0x402081b3) = Inr m"
    unfolding emu_run_append run_4 by simp
  then show ?thesis using m(2,3) by (simp add: set_reg_def)
qed

section \<open>Properties\<close>

text \<open>
  C4: The pipelined cpu executes the program sequentially.  Start the cpu and the instruction cache, and run
  the simulator with any data cache, any answers of the memory and any behaviour of the devices.  Then
  the program counter and the architectural state (registers, CSRs, privilege, RAM) are those of a run
  of the sequential machine: each commit is that of the instruction at the address the last commit
  left, translated and decoded in the state the last commit left, or of a fetch page fault at that
  address; nothing else changes the state.  In particular no instruction fetched along a wrong
  prediction ever commits.
\<close>

theorem pipeline_commits_in_order:
  assumes "pipe_afterLoad start_pc sizes stack delays mem u = Inr s" "3 \<le> retire_size u"
    and "0 < sets" "sets < 2 ^ 31" "0 < ways" "\<not> idle_req_valid ic0"
    and "emu_run p up end_tick inst_count acts
      \<lparr> em_cpu = s, em_ic = icache_afterLoad line sets ways ic0, em_dc = dc, em_parent = q, em_out_i = 0, em_out_d = 0 \<rparr> = Inr m"
  shows "(seq_step p)\<^sup>*\<^sup>* (start_pc, cpu_arch s) (cpu_pc (em_cpu m), cpu_arch (em_cpu m))"
  using emu_run_front [OF assms(7) emu_start [OF assms(1-6)]] afterLoad_front(2) [OF assms(1,2)]
  by (simp add: steps_def)


theorem pipeline_commits_in_order_witness:
  "\<exists>m. emu_run plat0 parent0 100 100 [[], [], [], [], [Answer_I]] (emu0 0x402081b3) = Inr m \<and>
     (seq_step plat0)\<^sup>*\<^sup>* (0x80000000, cpu_arch (pipe1 0x402081b3)) (0x80000004, cpu_arch (em_cpu m)) \<and>
     gpr (state (cpu_arch (em_cpu m))) 3 = 2"
proof -
  obtain m where m: "emu_run plat0 parent0 100 100 [[], [], [], [], [Answer_I]] (emu0 0x402081b3) = Inr m"
    "cpu_pc (em_cpu m) = 0x80000004" "gpr (state (cpu_arch (em_cpu m))) 3 = 2"
    using run_5 by blast
  have "\<not> idle_req_valid icache0" by (simp add: icache0_def icache_afterLoad_def)
  then show ?thesis
    using pipeline_commits_in_order [OF pipe1_ok _ _ _ _ _ m(1) [unfolded emu0_def]] m by (simp add: pipe0_def)
qed

end
