(* ===== verification/Simulators.thy ===== *)
theory Simulators
  imports Simulator_Stops Pipelines
begin

text \<open>The properties of the whole simulator, with a concrete one for the witness.\<close>

section \<open>A concrete simulator\<close>

text \<open>A DRAM that takes everything and answers in the next cycle; an interrupt controller is the only device.\<close>

definition dram0 :: "nat dram_ops" where
  "dram0 = \<lparr> dram_send = (\<lambda>w a r. (True, if w then r else r + 1)), dram_tick = (\<lambda>r. (r, 0)) \<rparr>"

definition func0 :: "nat \<Rightarrow> unit \<Rightarrow> (unit \<times> u64 option) res" where
  "func0 i d = Inr ((), None)"

definition irq0 :: device where
  "irq0 = D_Irq \<lparr> bi_base = 0xc000000, bi_end = 0xc004000, bi_ram = (\<lambda>a. 0), bi_req = None \<rparr>"

definition mem0 :: "(device, nat) mem_port" where
  "mem0 = \<lparr> mp_devices = [irq0], mp_idle = [], mp_reqs = (\<lambda>r. undefined),
     mp_queue = (ll_new, \<lambda>k. \<lparr> dm_callback = 0, dm_id = (\<lambda>k. 0) \<rparr>), mp_dram = 0, mp_write_valid = False, mp_write_ids = 0,
     mp_write_callback = 0, answers = [] \<rparr>"

definition with_parent :: "'q \<Rightarrow> ('d, 'p) emu \<Rightarrow> ('d, 'q) emu" where
  "with_parent q m = \<lparr> em_cpu = em_cpu m, em_ic = em_ic m, em_dc = em_dc m, em_parent = q, em_out_i = em_out_i m,
     em_out_d = em_out_d m \<rparr>"

lemma with_parent_sel [simp]: "em_parent (with_parent q m) = q" "em_cpu (with_parent q m) = em_cpu m"
  "(with_parent q m)\<lparr> em_parent := r \<rparr> = with_parent r m"
  by (simp_all add: with_parent_def)

definition sim0 :: "u32 \<Rightarrow> (unit, nat) sim" where
  "sim0 w = \<lparr> em_cpu = pipe0 w, em_ic = icache0, em_dc = dcache0, em_parent = Inr mem0, em_out_i = 0, em_out_d = 0 \<rparr>"

definition sim1 :: "u32 \<Rightarrow> (unit, nat) sim" where
  "sim1 w = with_parent (Inr (mem_afterLoad 4 mem0)) (emu0 w)"

lemma dram0_keeps: "dram_keeps dram0 id"
  by (simp add: dram_keeps_def dram0_def)

lemma sim0_init: "sim_init (64, 2, 2) (64, 2, 2) 4 0x80000000 [8] [] [] [bare_meta] (sim0 w) = Inr (sim1 w)"
proof -
  have "dcache_afterLoad 64 2 2 dcache0 = dcache0" by (simp add: dcache0_def dcache_afterLoad_def)
  then show ?thesis
    by (simp add: sim_init_def cm_afterLoad_def sim0_def sim1_def with_parent_def emu0_def mem0_def irq0_def pipe1_ok)
qed

lemma unit_devices [simp]: "set_devices () (c :: unit machine) = c"
  by (simp add: set_devices_def)

lemma unit_tick: "em_parent m = Inr q \<Longrightarrow> mp_dram q = 0 \<Longrightarrow> \<not> mp_write_valid q \<Longrightarrow> answers q = [] \<Longrightarrow> mp_devices q = [irq0] \<Longrightarrow>
    sim_tick plat0 dram0 func0 m = Inr m"
  by (simp add: sim_tick_def dram_clock_def dram0_def write_answer_def sim_device_def func0_def device_tick_def dev_ops_def irq0_def
      bi_checkResponse_def notify_def)

definition mem4 :: "(device, nat) mem_port" where
  "mem4 = (mem_afterLoad 4 mem0)\<lparr> mp_dram := 1,
     mp_queue := ((fst (mp_queue (mem_afterLoad 4 mem0)))\<lparr> ll_tail := Some 1 \<rparr>,
       (snd (mp_queue mem0))(0 := \<lparr> dm_callback = 0, dm_id = (\<lambda>k. 7)(0 := 0, 1 := 0) \<rparr>)) \<rparr>"

lemma lookup_4: "addr r = 0x80000000 \<Longrightarrow> req r = READ_SHARED \<Longrightarrow> req_id r = (\<lambda>k. 7)(0 := 0, 1 := 0) \<Longrightarrow>
    memory_lookup dram0 0 r (Inr (mem_afterLoad 4 mem0)) = (True, r, Inr mem4)"
proof -
  have "[0..<4] = [0, 1, 2, 3]" by (simp add: upt_rec)
  then show "addr r = 0x80000000 \<Longrightarrow> req r = READ_SHARED \<Longrightarrow> req_id r = (\<lambda>k. 7)(0 := 0, 1 := 0) \<Longrightarrow> ?thesis"
    by (cases r) (simp add: memory_lookup_def mem_lookup_def memoryRead_def mem_afterLoad_def mem0_def irq0_def dram0_def
      bi_inRange_def ll_pushes_def ll_push_def ll_new_def rq_push_def ll_take_def ll_node_def mem4_def Let_def)
qed

lemma unit_run: "em_parent m = Inr q \<Longrightarrow> mp_dram q = 0 \<Longrightarrow> \<not> mp_write_valid q \<Longrightarrow> answers q = [] \<Longrightarrow> mp_devices q = [irq0] \<Longrightarrow>
    sim_cycle plat0 dram0 func0 m = rbind (emu_clock plat0 (memory_parent dram0) m) (\<lambda>m. rbind (em_parent m) (\<lambda>q. Inr m))"
  by (simp add: sim_cycle_def unit_tick)

lemma mem1_idle: "mp_dram (mem_afterLoad 4 mem0) = 0" "\<not> mp_write_valid (mem_afterLoad 4 mem0)"
  "answers (mem_afterLoad 4 mem0) = []" "mp_devices (mem_afterLoad 4 mem0) = [irq0]"
  by (simp_all add: mem_afterLoad_def mem0_def)

lemma sim_4: "sim_run plat0 dram0 func0 100 100 (Suc (Suc (Suc (Suc 0)))) (sim1 w) = Inr (with_parent (Inr mem4) (emu4w w))"
  by (simp add: unit_run mem1_idle run_defs state_defs pinst0_def zero_tagv_def req0_def emu4w_def sim1_def with_parent_def memory_parent_def lookup_4)

definition mem5 :: "(device, nat) mem_port" where
  "mem5 = mem4\<lparr> mp_dram := 0,
     mp_queue := ((fst (mp_queue mem4))\<lparr> ll_head := Some 1 \<rparr>, snd (mp_queue mem4)) \<rparr>"

lemma mem4_sel: "mp_dram mem4 = 1" "\<not> mp_write_valid mem4" "answers mem4 = []" "mp_devices mem4 = [irq0]"
  "rq_pop (mp_queue mem4) = Inr (\<lparr> dm_callback = 0, dm_id = (\<lambda>k. 7)(0 := 0, 1 := 0) \<rparr>, mp_queue mem5)"
proof -
  have "[0..<4] = [0, 1, 2, 3]" by (simp add: upt_rec)
  then show "rq_pop (mp_queue mem4) = Inr (\<lparr> dm_callback = 0, dm_id = (\<lambda>k. 7)(0 := 0, 1 := 0) \<rparr>, mp_queue mem5)"
    by (simp add: rq_pop_def mem4_def mem5_def mem_afterLoad_def mem0_def ll_pushes_def ll_push_def ll_new_def ll_pop_def ll_node_def)
qed (simp_all add: mem4_def mem_afterLoad_def mem0_def)

lemma dram_5: "dram_clock dram0 h mem4 = Inr (mem5\<lparr> answers := [(0, (\<lambda>k. 7)(0 := 0, 1 := 0))] \<rparr>)"
  by (simp add: dram_clock_def dram0_def mem4_sel write_answer_def answer_def) (simp add: mem5_def mem4_sel)

lemma deliver_5: "deliver plat0 up (0, ids) (with_parent q emu4) = Inr (with_parent q emu4a)"
  by (simp add: deliver_def with_parent_def run_defs state_defs answer_defs decode_sub slots_zero req0_def emu4w_def sub_machine_def emu4a_def)

lemma tick_5: "sim_tick plat0 dram0 func0 (with_parent (Inr mem4) emu4) = Inr (with_parent (Inr mem5) emu4a)"
proof -
  have "sim_device plat0 dram0 func0 0 (with_parent (Inr mem5) emu4a) = Inr (with_parent (Inr mem5) emu4a)"
    by (simp add: sim_device_def func0_def device_tick_def dev_ops_def irq0_def bi_checkResponse_def notify_def with_parent_def
        mem5_def mem4_sel)
  moreover have "mem5\<lparr> answers := [] \<rparr> = mem5" by (simp add: mem5_def mem4_sel)
  moreover have "mp_devices mem5 = [irq0]" by (simp add: mem5_def mem4_sel)
  ultimately show ?thesis by (simp add: sim_tick_def dram_5 deliver_5)
qed

lemma clock_5:
  "\<exists>m. emu_clock plat0 up (with_parent q emu4a) = Inr m \<and> em_parent m = q \<and> cpu_pc (em_cpu m) = 0x80000004 \<and>
     cpu_arch (em_cpu m) = (set_reg 3 2 sub_machine)\<lparr> tick := 5 \<rparr>"
  by (simp add: with_parent_def run_defs state_defs answer_defs sub_machine_ok sub_machine_sel set_reg_sel req0_def emu4w_def emu4a_def is_branch_def)

lemma sim_run_append:
  "sim_run p e ft k j (n1 + n2) m = rbind (sim_run p e ft k j n1 m) (sim_run p e ft k j n2)"
proof (induction n1 arbitrary: m)
  case (Suc n1)
  then show ?case by (cases n2; cases "sim_cycle p e ft m") simp_all
qed simp

lemma sim_one: "tick (cpu_arch (em_cpu m)) \<le> k \<Longrightarrow> instret (cpu_arch (em_cpu m)) < j \<Longrightarrow> sim_cycle p e ft m = Inr m' \<Longrightarrow>
    sim_run p e ft k j (Suc 0) m = Inr m'"
  by simp

lemma sim_5:
  "\<exists>m. sim_run plat0 dram0 func0 100 100 (Suc (Suc (Suc (Suc 0))) + Suc 0) (sim1 0x402081b3) = Inr m \<and>
     cpu_pc (em_cpu m) = 0x80000004 \<and> gpr (state (cpu_arch (em_cpu m))) 3 = 2"
proof -
  obtain m where m: "emu_clock plat0 (memory_parent dram0) (with_parent (Inr mem5) emu4a) = Inr m" "em_parent m = Inr mem5"
     "cpu_pc (em_cpu m) = 0x80000004" "cpu_arch (em_cpu m) = (set_reg 3 2 sub_machine)\<lparr> tick := 5 \<rparr>"
    using clock_5 [of "memory_parent dram0" "Inr mem5"] by blast
  have "sim_cycle plat0 dram0 func0 (with_parent (Inr mem4) emu4) = Inr m"
    unfolding sim_cycle_def tick_5 by (simp add: m(1,2))
  then have "sim_run plat0 dram0 func0 100 100 (Suc 0) (with_parent (Inr mem4) emu4) = Inr m"
    by (rule sim_one [rotated 2]) (simp_all add: emu4w_def)
  then show ?thesis unfolding sim_run_append sim_4 rbind_Inr using m(3,4) by (simp add: set_reg_def)
qed




section \<open>Properties\<close>

text \<open>
  C2: The whole simulator (pipelined cpu, both caches, memory with its DRAM queue and devices, connected and
  started as EMU::init does) executes the program sequentially: the program counter and the architectural
  state after any number of cycles are those of a run of the sequential machine.  And the memory loses no
  miss and answers none twice: at any time the callbacks of the requests it holds are, for each cache, as
  many as the misses it has accepted from that cache and not answered.  The DRAM simulator is assumed to
  call back once for each read it has taken.
\<close>

theorem simulator_commits_in_order:
  assumes "sim_init (il, is, iw) (dl, ds, dw) queue_size start_pc sizes stack delays mem u = Inr s" "em_parent u = Inr q"
    and "3 \<le> retire_size (em_cpu u)" "3 \<le> queue_size" "0 < is" "is < 2 ^ 31" "0 < iw" "0 < ds" "ds < 2 ^ 31" "0 < dw"
    and "\<not> idle_req_valid (em_ic u)" "\<forall>d \<in> set (mp_devices q). dev_inv d \<and> dev_pending d = None"
    and "dram_keeps e out" "out (mp_dram q) = 0" "answers q = []"
    and "sim_run p e ft end_tick inst_count n s = Inr m"
  shows "(seq_step p)\<^sup>*\<^sup>* (start_pc, cpu_arch (em_cpu s)) (cpu_pc (em_cpu m), cpu_arch (em_cpu m)) \<and>
    (\<exists>q. em_parent m = Inr q \<and> mset (mem_owed q) = replicate_mset (em_out_i m) 0 + replicate_mset (em_out_d m) 1)"
proof -
  note s = sim_start [where out = out, OF assms(1-11,14,15,12)]
  show ?thesis using sim_run_commits [OF assms(16) s(1,2) assms(13)] s(3) by simp
qed

theorem simulator_commits_in_order_witness:
  "\<exists>m. sim_run plat0 dram0 func0 100 100 (Suc (Suc (Suc (Suc 0))) + Suc 0) (sim1 0x402081b3) = Inr m \<and>
     (seq_step plat0)\<^sup>*\<^sup>* (0x80000000, cpu_arch (em_cpu (sim1 0x402081b3))) (0x80000004, cpu_arch (em_cpu m)) \<and>
     gpr (state (cpu_arch (em_cpu m))) 3 = 2"
proof -
  obtain m where m: "sim_run plat0 dram0 func0 100 100 (Suc (Suc (Suc (Suc 0))) + Suc 0) (sim1 0x402081b3) = Inr m"
     "cpu_pc (em_cpu m) = 0x80000004" "gpr (state (cpu_arch (em_cpu m))) 3 = 2"
    using sim_5 by blast
  have "em_parent (sim0 w) = Inr mem0" "\<not> idle_req_valid (em_ic (sim0 w))" "retire_size (em_cpu (sim0 w)) = 3" for w
    by (simp_all add: sim0_def icache0_def icache_afterLoad_def pipe0_def)
  moreover have "\<forall>d \<in> set (mp_devices mem0). dev_inv d \<and> dev_pending d = None" "id (mp_dram mem0) = 0" "answers mem0 = []"
    by (simp_all add: mem0_def irq0_def)
  ultimately show ?thesis
    using simulator_commits_in_order [OF sim0_init, of "0x402081b3" mem0 dram0 id plat0 func0 100 100 "Suc (Suc (Suc (Suc 0))) + Suc 0" m]
      m dram0_keeps by simp
qed



end
