(* ===== verification/CacheCPU.thy ===== *)
theory CacheCPU
  imports Trap ICache
begin

text \<open>
  The cpu with an instruction cache, src/src/cpu/cachecpu.cpp and src/inc/cpu/cachecpu.h: afterLoad, exec
  and the callback it gives to the cache.  Its single request object is the request 0 of the heap the
  cache reads.  The members pc, paddr and info have no initialiser; before afterLoad they are taken
  from the argument.
\<close>

record 'd cache_cpu =
  cc_arch :: "'d machine"
  cc_pc :: u64
  cc_inst_valid :: bool
  cc_paddr :: u64
  cc_req :: cache_req

definition cc_heap :: "'d cache_cpu \<Rightarrow> req_heap" where
  "cc_heap s = (\<lambda>i. cc_req s)"

definition cc_afterLoad :: "u64 \<Rightarrow> 'd cache_cpu \<Rightarrow> 'd cache_cpu" where
  "cc_afterLoad start_pc s =
     s\<lparr> cc_arch := (cc_arch s)\<lparr> info := zero_info, instret := 0 \<rparr>, cc_pc := start_pc, cc_inst_valid := False,
        cc_req := \<lparr> req = READ_SHARED, req_size = 4, req_id = (\<lambda>k. 0), addr = 0 \<rparr> \<rparr>"

definition icacheCallback :: "'d cache_cpu \<Rightarrow> 'd cache_cpu" where
  "icacheCallback s = s\<lparr> cc_inst_valid := True \<rparr>"

text \<open>The first half of exec: the instruction the cache has delivered.\<close>

definition cc_execute :: "'d plat \<Rightarrow> 'd cache_cpu \<times> icache \<Rightarrow> ('d cache_cpu \<times> icache) res" where
  "cc_execute p w = (case w of (s, ic) \<Rightarrow>
    if cc_inst_valid s
    then rbind (decode p (cc_pc s) (cc_paddr s) (cc_arch s)) (\<lambda>(sz, c).
         rbind (updateEnv p c) (\<lambda>(pc, c).
           Inr (s\<lparr> cc_arch := c\<lparr> instret := instret c + 1 \<rparr>, cc_pc := pc, cc_inst_valid := False \<rparr>,
                if itype (info c) = T_IFENCE then icache_flush ic else ic)))
    else Inr (s, ic))"

text \<open>The second half: the fetch.  The variable exception has no initialiser.\<close>

definition cc_fetch :: "'d plat \<Rightarrow> 'd cache_cpu \<times> icache \<Rightarrow> ('d cache_cpu \<times> icache) res" where
  "cc_fetch p w = (case w of (s, ic) \<Rightarrow>
    rbind (translateAddr p (cc_pc s) IFETCH (cc_paddr s) (uninit p) (cc_arch s)) (\<lambda>(pa, exc, c).
      let s = s\<lparr> cc_arch := c, cc_paddr := pa \<rparr> in
      if exc \<noteq> 0
      then Inr (s\<lparr> cc_inst_valid := True, cc_arch := handleException exc (cc_pc s) c \<rparr>, ic)
      else Inr (s\<lparr> cc_req := (cc_req s)\<lparr> addr := pa \<rparr> \<rparr>, snd (icache_lookup 0 ic))))"

definition cc_exec :: "'d plat \<Rightarrow> 'd cache_cpu \<times> icache \<Rightarrow> ('d cache_cpu \<times> icache) res" where
  "cc_exec p w = rbind (cc_execute p w) (\<lambda>w. rbind (cc_fetch p w) (\<lambda>(s, ic).
     Inr (s\<lparr> cc_arch := (cc_arch s)\<lparr> tick := tick (cc_arch s) + 1 \<rparr> \<rparr>, ic)))"

text \<open>The cpu as the client of its cache: the callback does not call redirect.\<close>

definition cc_port :: "(cache_req \<Rightarrow> 'p \<Rightarrow> bool \<times> cache_req \<times> 'p) \<Rightarrow> ('d cache_cpu, 'p) port" where
  "cc_port up = \<lparr> callback0 = (\<lambda>ids s. (False, icacheCallback s)), parent_lookup = up \<rparr>"

section \<open>The exception of the fetch is lost\<close>

text \<open>decode forgets the exception recorded before it.\<close>

lemma fetch_exception:
  "fetch p pa b (set_exception e c) = rbind (fetch p pa b c) (\<lambda>(w, rvc, sz, c'). Inr (w, rvc, sz, set_exception e c'))"
  by (auto simp: fetch_def mem_paddrRead_def notify_def set_devices_def irqListener_def set_exception_def upd_info_def Let_def
      split: option.splits)

lemma decode_exception: "decode p va pa (set_exception e c) = decode p va pa c"
proof -
  have "inst (info (set_exception e c)) = inst (info c)" by (simp add: set_exception_def upd_info_def)
  then show ?thesis
    unfolding decode_def fetch_exception
    by (simp add: rbind_assoc set_exception_def upd_info_def clear_info_def Let_def case_prod_unfold)
qed

lemma cc_execute_exception:
  "cc_execute p (s\<lparr> cc_arch := set_exception e (cc_arch s) \<rparr>, ic) =
    (if cc_inst_valid s then cc_execute p (s, ic) else Inr (s\<lparr> cc_arch := set_exception e (cc_arch s) \<rparr>, ic))"
  by (simp add: cc_execute_def decode_exception)

lemma cc_fault:
  assumes "\<not> cc_inst_valid s"
    and "translateAddr p (cc_pc s) IFETCH (cc_paddr s) (uninit p) (cc_arch s) = Inr (pa, EXC_IPF, c)"
  shows "\<exists>s'. cc_exec p (s, ic) = Inr (s', ic) \<and> cc_inst_valid s' \<and> exception (info (cc_arch s')) = EXC_IPF \<and>
    cc_pc s' = cc_pc s \<and> cc_paddr s' = pa \<and>
    (\<forall>e ic'. cc_execute p (s', ic') = cc_execute p (s'\<lparr> cc_arch := set_exception e (cc_arch s') \<rparr>, ic'))"
  using assms
  by (auto simp: cc_exec_def cc_execute_exception cc_fetch_def handleException_def)
    (simp_all add: cc_execute_def handleException_def set_exception_def set_exc_data_def upd_info_def)

end
