(* ===== verification/Csr_Props.thy ===== *)
theory Csr_Props
  imports Exec_Spec
begin

text \<open>
  The CSR access path: it never follows a null function pointer, the only write that stops the
  program is one to mcycle or minstret, read-only registers reject writes, and what a committed CSR
  instruction changes.
\<close>

section \<open>The table is closed\<close>

definition reads_ok :: "'d csr_read_fn \<Rightarrow> bool" where
  "reads_ok f \<longleftrightarrow> (\<forall>n v c. \<exists>r. f n v c = Inr r)"

definition writes_ok :: "'d csr_write_fn \<Rightarrow> bool" where
  "writes_ok f \<longleftrightarrow> (\<forall>n v c. \<exists>r. f n v c = Inr r)"

definition op_ok :: "'d csr_op_fn \<Rightarrow> bool" where
  "op_ok f \<longleftrightarrow> (\<forall>n v m c. \<exists>r. f n v m c = Inr r)"

named_theorems csr_fn_ok \<open>the accessors that always return\<close>

lemma read_fflags_ok [csr_fn_ok]: "reads_ok read_fflags"
  by (simp add: reads_ok_def read_fflags_def Let_def)

lemma read_frm_ok [csr_fn_ok]: "reads_ok read_frm"
  by (simp add: reads_ok_def read_frm_def Let_def)

lemma read_fcsr_ok [csr_fn_ok]: "reads_ok read_fcsr"
  by (simp add: reads_ok_def read_fcsr_def Let_def)

lemma read_time_ok [csr_fn_ok]: "reads_ok read_time"
  by (simp add: reads_ok_def read_time_def Let_def)

lemma read_cycle_ok [csr_fn_ok]: "reads_ok read_cycle"
  by (simp add: reads_ok_def read_cycle_def Let_def)

lemma read_noop_ok [csr_fn_ok]: "reads_ok read_noop"
  by (simp add: reads_ok_def read_noop_def Let_def)

lemma read_instret_ok [csr_fn_ok]: "reads_ok read_instret"
  by (simp add: reads_ok_def read_instret_def Let_def)

lemma read_mvendorid_ok [csr_fn_ok]: "reads_ok read_mvendorid"
  by (simp add: reads_ok_def read_mvendorid_def Let_def)

lemma read_marchid_ok [csr_fn_ok]: "reads_ok read_marchid"
  by (simp add: reads_ok_def read_marchid_def Let_def)

lemma read_mimpid_ok [csr_fn_ok]: "reads_ok read_mimpid"
  by (simp add: reads_ok_def read_mimpid_def Let_def)

lemma read_mhartid_ok [csr_fn_ok]: "reads_ok read_mhartid"
  by (simp add: reads_ok_def read_mhartid_def Let_def)

lemma read_misa_ok [csr_fn_ok]: "reads_ok read_misa"
  by (simp add: reads_ok_def read_misa_def Let_def)

lemma read_medeleg_ok [csr_fn_ok]: "reads_ok read_medeleg"
  by (simp add: reads_ok_def read_medeleg_def Let_def)

lemma read_mtvec_ok [csr_fn_ok]: "reads_ok read_mtvec"
  by (simp add: reads_ok_def read_mtvec_def Let_def)

lemma read_mcounteren_ok [csr_fn_ok]: "reads_ok read_mcounteren"
  by (simp add: reads_ok_def read_mcounteren_def Let_def)

lemma read_mscratch_ok [csr_fn_ok]: "reads_ok read_mscratch"
  by (simp add: reads_ok_def read_mscratch_def Let_def)

lemma read_mepc_ok [csr_fn_ok]: "reads_ok read_mepc"
  by (simp add: reads_ok_def read_mepc_def Let_def)

lemma read_mcause_ok [csr_fn_ok]: "reads_ok read_mcause"
  by (simp add: reads_ok_def read_mcause_def Let_def)

lemma read_mtval_ok [csr_fn_ok]: "reads_ok read_mtval"
  by (simp add: reads_ok_def read_mtval_def Let_def)

lemma read_menvcfg_ok [csr_fn_ok]: "reads_ok read_menvcfg"
  by (simp add: reads_ok_def read_menvcfg_def Let_def)

lemma read_senvcfg_ok [csr_fn_ok]: "reads_ok read_senvcfg"
  by (simp add: reads_ok_def read_senvcfg_def Let_def)

lemma read_stvec_ok [csr_fn_ok]: "reads_ok read_stvec"
  by (simp add: reads_ok_def read_stvec_def Let_def)

lemma read_scounteren_ok [csr_fn_ok]: "reads_ok read_scounteren"
  by (simp add: reads_ok_def read_scounteren_def Let_def)

lemma read_sscratch_ok [csr_fn_ok]: "reads_ok read_sscratch"
  by (simp add: reads_ok_def read_sscratch_def Let_def)

lemma read_sepc_ok [csr_fn_ok]: "reads_ok read_sepc"
  by (simp add: reads_ok_def read_sepc_def Let_def)

lemma read_scause_ok [csr_fn_ok]: "reads_ok read_scause"
  by (simp add: reads_ok_def read_scause_def Let_def)

lemma read_stval_ok [csr_fn_ok]: "reads_ok read_stval"
  by (simp add: reads_ok_def read_stval_def Let_def)

lemma read_satp_ok [csr_fn_ok]: "reads_ok read_satp"
  by (simp add: reads_ok_def read_satp_def Let_def)

lemma read_mcountinhibit_ok [csr_fn_ok]: "reads_ok read_mcountinhibit"
  by (simp add: reads_ok_def read_mcountinhibit_def Let_def)

lemma read_mstatus_ok [csr_fn_ok]: "reads_ok read_mstatus"
  by (simp add: reads_ok_def read_mstatus_def Let_def)

lemma read_sstatus_ok [csr_fn_ok]: "reads_ok read_sstatus"
  by (simp add: reads_ok_def read_sstatus_def Let_def)

lemma read_pmpcfg_ok [csr_fn_ok]: "reads_ok read_pmpcfg"
  by (simp add: reads_ok_def read_pmpcfg_def Let_def)

lemma read_pmpaddr_ok [csr_fn_ok]: "reads_ok read_pmpaddr"
  by (simp add: reads_ok_def read_pmpaddr_def Let_def)

lemma write_fflags_ok [csr_fn_ok]: "writes_ok write_fflags"
  by (simp add: writes_ok_def write_fflags_def Let_def)

lemma write_frm_ok [csr_fn_ok]: "writes_ok write_frm"
  by (simp add: writes_ok_def write_frm_def Let_def)

lemma write_fcsr_ok [csr_fn_ok]: "writes_ok write_fcsr"
  by (simp add: writes_ok_def write_fcsr_def Let_def)

lemma write_misa_ok [csr_fn_ok]: "writes_ok write_misa"
  by (simp add: writes_ok_def write_misa_def Let_def)

lemma write_mstatus_ok [csr_fn_ok]: "writes_ok write_mstatus"
  by (simp add: writes_ok_def write_mstatus_def Let_def)

lemma write_sstatus_ok [csr_fn_ok]: "writes_ok write_sstatus"
  by (simp add: writes_ok_def write_sstatus_def Let_def)

lemma write_medeleg_ok [csr_fn_ok]: "writes_ok write_medeleg"
  by (simp add: writes_ok_def write_medeleg_def Let_def)

lemma write_mtvec_ok [csr_fn_ok]: "writes_ok write_mtvec"
  by (simp add: writes_ok_def write_mtvec_def Let_def)

lemma write_stvec_ok [csr_fn_ok]: "writes_ok write_stvec"
  by (simp add: writes_ok_def write_stvec_def Let_def)

lemma write_mcounteren_ok [csr_fn_ok]: "writes_ok write_mcounteren"
  by (simp add: writes_ok_def write_mcounteren_def Let_def)

lemma write_scounteren_ok [csr_fn_ok]: "writes_ok write_scounteren"
  by (simp add: writes_ok_def write_scounteren_def Let_def)

lemma write_mscratch_ok [csr_fn_ok]: "writes_ok write_mscratch"
  by (simp add: writes_ok_def write_mscratch_def Let_def)

lemma write_mepc_ok [csr_fn_ok]: "writes_ok write_mepc"
  by (simp add: writes_ok_def write_mepc_def Let_def)

lemma write_mcause_ok [csr_fn_ok]: "writes_ok write_mcause"
  by (simp add: writes_ok_def write_mcause_def Let_def)

lemma write_mtval_ok [csr_fn_ok]: "writes_ok write_mtval"
  by (simp add: writes_ok_def write_mtval_def Let_def)

lemma write_sscratch_ok [csr_fn_ok]: "writes_ok write_sscratch"
  by (simp add: writes_ok_def write_sscratch_def Let_def)

lemma write_sepc_ok [csr_fn_ok]: "writes_ok write_sepc"
  by (simp add: writes_ok_def write_sepc_def Let_def)

lemma write_scause_ok [csr_fn_ok]: "writes_ok write_scause"
  by (simp add: writes_ok_def write_scause_def Let_def)

lemma write_stval_ok [csr_fn_ok]: "writes_ok write_stval"
  by (simp add: writes_ok_def write_stval_def Let_def)

lemma write_menvcfg_ok [csr_fn_ok]: "writes_ok write_menvcfg"
  by (simp add: writes_ok_def write_menvcfg_def Let_def)

lemma write_senvcfg_ok [csr_fn_ok]: "writes_ok write_senvcfg"
  by (simp add: writes_ok_def write_senvcfg_def Let_def)

lemma write_satp_ok [csr_fn_ok]: "writes_ok write_satp"
  by (simp add: writes_ok_def write_satp_def Let_def)

lemma write_pmpcfg_ok [csr_fn_ok]: "writes_ok write_pmpcfg"
  by (simp add: writes_ok_def write_pmpcfg_def Let_def)

lemma write_pmpaddr_ok [csr_fn_ok]: "writes_ok write_pmpaddr"
  by (simp add: writes_ok_def write_pmpaddr_def Let_def)

lemma write_noop_ok [csr_fn_ok]: "writes_ok write_noop"
  by (simp add: writes_ok_def write_noop_def Let_def)

lemma write_mcountinhibit_ok [csr_fn_ok]: "writes_ok write_mcountinhibit"
  by (simp add: writes_ok_def write_mcountinhibit_def Let_def)

lemma rmw_mideleg_ok [csr_fn_ok]: "op_ok rmw_mideleg"
  by (simp add: op_ok_def rmw_mideleg_def)

lemma rmw_mie_ok [csr_fn_ok]: "op_ok rmw_mie"
  by (simp add: op_ok_def rmw_mie_def)

lemma rmw_mip_ok [csr_fn_ok]: "op_ok rmw_mip"
  by (simp add: op_ok_def rmw_mip_def)

lemma rmw_sie_ok [csr_fn_ok]: "op_ok rmw_sie"
  by (simp add: op_ok_def rmw_sie_def rmw_mie_def rmw_mip_def)

lemma rmw_sip_ok [csr_fn_ok]: "op_ok rmw_sip"
  by (simp add: op_ok_def rmw_sip_def rmw_mie_def rmw_mip_def)

definition readonly :: "u32 \<Rightarrow> bool" where "readonly n \<longleftrightarrow> signed_drop_bit 10 n = 3"

text \<open>
  An entry is safe when it has an operation, or a read function and, unless its number is read-only, a
  write function; all of them return except the write function of mcycle and minstret.
\<close>

definition entry_ok :: "u32 \<Rightarrow> 'd riscv_csr_operations \<Rightarrow> bool" where
  "entry_ok n e \<longleftrightarrow>
     (case csr_op e of Some f \<Rightarrow> op_ok f
      | None \<Rightarrow> (case csr_read e of None \<Rightarrow> False | Some f \<Rightarrow> reads_ok f) \<and>
          (case csr_write e of None \<Rightarrow> readonly n
           | Some f \<Rightarrow> writes_ok f \<or> (n = 0xb00 \<or> n = 0xb02) \<and> f = write_mhpmcounter))"

lemma table_ok: "list_all (\<lambda>(n, e). entry_ok n e) csr_table"
  by (simp add: csr_table_def entry_ok_def mk_csr_def csr_fn_ok readonly_def)


lemma csr_ops_ok: "csr_pred (csr_ops n :: 'd riscv_csr_operations) \<Longrightarrow> entry_ok n (csr_ops n :: 'd riscv_csr_operations)"
proof -
  assume pr: "csr_pred (csr_ops n :: 'd riscv_csr_operations)"
  show ?thesis
  proof (cases "map_of (csr_table :: (u32 \<times> 'd riscv_csr_operations) list) n")
    case None
    then show ?thesis
      using pr by (auto simp: csr_ops_def mk_csr_def entry_ok_def csr_fn_ok split: if_splits)
  next
    case (Some e)
    then have "(n, e) \<in> set csr_table" by (rule map_of_SomeD)
    then have "entry_ok n e" using table_ok by (auto simp: list_all_iff)
    moreover have "entry_ok n (mk_csr name True (Some read_noop) (Some write_noop) None :: 'd riscv_csr_operations)" for name
      by (simp add: entry_ok_def mk_csr_def csr_fn_ok)
    moreover have "(csr_ops n :: 'd riscv_csr_operations) = (if 0xc03 \<le> n \<and> n < 0xc03 + 29
       then mk_csr ''hpmcounter'' True (Some read_noop) (Some write_noop) None
     else if 0xb03 \<le> n \<and> n < 0xb03 + 29
       then mk_csr ''mhpmcounter'' True (Some read_noop) (Some write_noop) None else e)"
      unfolding csr_ops_def Some by simp
    ultimately show ?thesis by (simp only: split: if_split) simp
  qed
qed

lemma rbind_Inl_iff: "rbind r f = Inl e \<longleftrightarrow> r = Inl e \<or> (\<exists>a. r = Inr a \<and> f a = Inl e)"
  by (cases r) auto

section \<open>Accesses\<close>

text \<open>
  An access that passed the check ends the program only when it writes mcycle or minstret, whose write
  function is an assert(0).
\<close>

lemma riscv_csrrw_returns:
  assumes ok: "entry_ok n (csr_ops n :: 'd riscv_csr_operations)"
    and w: "m \<noteq> 0 \<longrightarrow> \<not> readonly n"
    and e: "riscv_csrrw n ret v m (c :: 'd machine) = Inl e"
  shows "e = AssertFail ''0'' \<and> m \<noteq> 0 \<and> (n = 0xb00 \<or> n = 0xb02)"
  using assms
  by (auto simp: riscv_csrrw_def entry_ok_def rbind_Inl_iff reads_ok_def writes_ok_def op_ok_def
      write_mhpmcounter_def split: option.splits if_splits)
    (metis Inl_Inr_False)+

lemma do_csrr_returns: "\<exists>c'. do_csrr p rd n c = Inr c'"
proof (cases "do_csrr p rd n c")
  case (Inl e)
  let ?o = "csr_ops n :: 'a riscv_csr_operations"
  have pr: "csr_pred ?o" and "riscv_csrrw n (uninit p) 0 0 c = Inl e"
    using Inl by (auto simp: do_csrr_def riscv_csrrw_check_def Let_def rbind_Inl_iff split: if_splits)
  then show ?thesis using riscv_csrrw_returns [OF csr_ops_ok [OF pr], of 0 "uninit p" 0 c e] by simp
qed simp

lemma do_csrrw_crash:
  assumes "do_csrrw p rd n v m c = Inl e"
  shows "e = AssertFail ''0'' \<and> (n = 0xb00 \<or> n = 0xb02)"
proof -
  let ?o = "csr_ops n :: 'a riscv_csr_operations"
  have pr: "csr_pred ?o" and "\<not> readonly n" and "riscv_csrrw n (uninit p) v m c = Inl e"
    using assms by (auto simp: do_csrrw_def riscv_csrrw_check_def readonly_def Let_def rbind_Inl_iff split: if_splits)
  then show ?thesis using riscv_csrrw_returns [OF csr_ops_ok [OF pr], of m "uninit p" v c e] by simp
qed

lemma do_csrrw_readonly:
  "readonly n \<Longrightarrow> do_csrrw p rd n v m c =
     Inr (set_exc_data (ucast (inst (info c))) (set_exception EXC_II c))"
  by (simp add: do_csrrw_def riscv_csrrw_check_def readonly_def Let_def)

section \<open>Committed writes\<close>

lemma unat_off [simp]: "n < 65536 \<Longrightarrow> unat (of_nat n :: u16) = n"
  by (rule unat_of_nat16)

text \<open>csrrw of mstatus through to the state: only the bits of MSTATUS_MASK change.\<close>

lemma arch_rmw_mstatus:
  "m \<noteq> 0 \<Longrightarrow> arch_rmw s (of_nat ARCH_MSTATUS) m d = Some (s\<lparr> mstatus := mask_merge (mstatus s) m d \<rparr>)"
  by (simp add: arch_rmw_def csr_field_rmw_def Let_def del: of_nat_numeral)

lemma arch_rmw_satp:
  "m \<noteq> 0 \<Longrightarrow> arch_rmw s (of_nat ARCH_SATP) m d = Some (s\<lparr> satp := mask_merge (satp s) m d \<rparr>)"
  by (simp add: arch_rmw_def csr_field_rmw_def Let_def del: of_nat_numeral)

text \<open>
  The byte layout of frm: the mask of write_frm and the data it stores have no bit in common, so the
  write clears the top three bits of the byte and stores nothing.
\<close>

lemma frm_bits: "FSR_RD = push_bit 5 (mask 3)" "FSR_AEXC = mask 5" "(0x1f :: u8) = mask 5"
  by (simp_all add: FSR_RD_def FSR_AEXC_def mask_eq_exp_minus_1)

lemma frm_high_clear: "FSR_RD AND 0xffffffff00000000 = 0" "FSR_RD \<noteq> 0"
  "(push_bit 8 FSR_AEXC OR FSR_RD) AND 0xffffffff00000000 = 0" "push_bit 8 FSR_AEXC OR FSR_RD \<noteq> 0"
  by (simp_all add: FSR_RD_def FSR_AEXC_def)

lemma frm_write_lost:
  assumes "arch_rmw s (of_nat ARCH_FRM) FSR_RD (drop_bit 5 (v AND FSR_RD)) = Some s'"
  shows "frm s' = frm s AND 0x1f" and "fp_status s' = fp_status s"
proof -
  define w where "w = mask_merge (ucast (frm s) OR push_bit 8 (ucast (frm_pad s))
      OR push_bit 16 (ucast (fs_flags (fp_status s)))) FSR_RD (drop_bit 5 (v AND FSR_RD))"
  have s': "s' = s\<lparr> frm := ucast w, frm_pad := ucast (drop_bit 8 w),
      fp_status := (fp_status s)\<lparr> fs_flags := ucast (drop_bit 16 w) \<rparr> \<rparr>"
    using assms by (simp add: arch_rmw_def Let_def frm_high_clear w_def)
  have "ucast w = frm s AND 0x1f"
    unfolding w_def mask_merge_def frm_bits by (rule bit_word_eqI) (auto simp: bit_simps)
  moreover have "ucast (drop_bit 16 w) = fs_flags (fp_status s)"
    unfolding w_def mask_merge_def frm_bits by (rule bit_word_eqI) (auto simp: bit_simps dest: bit_imp_le_length)
  ultimately show "frm s' = frm s AND 0x1f" "fp_status s' = fp_status s"
    using s' by simp_all
qed

text \<open>
  write_fcsr assumes that fp_status starts right after frm; the flags land in the padding byte and the
  accrued exceptions keep their value.
\<close>

lemma fcsr_write_misses_flags:
  assumes "arch_rmw s (of_nat ARCH_FRM) (push_bit 8 FSR_AEXC OR FSR_RD)
      (push_bit 8 (v AND FSR_AEXC) OR drop_bit 5 (v AND FSR_RD)) = Some s'"
  shows "fp_status s' = fp_status s" and "frm_pad s' = (frm_pad s AND 0xe0) OR (ucast v AND 0x1f)"
proof -
  define w where "w = mask_merge (ucast (frm s) OR push_bit 8 (ucast (frm_pad s))
      OR push_bit 16 (ucast (fs_flags (fp_status s)))) (push_bit 8 FSR_AEXC OR FSR_RD)
      (push_bit 8 (v AND FSR_AEXC) OR drop_bit 5 (v AND FSR_RD))"
  have s': "s' = s\<lparr> frm := ucast w, frm_pad := ucast (drop_bit 8 w),
      fp_status := (fp_status s)\<lparr> fs_flags := ucast (drop_bit 16 w) \<rparr> \<rparr>"
    using assms by (simp add: arch_rmw_def Let_def frm_high_clear w_def)
  have e0: "(0xe0 :: u8) = push_bit 5 (mask 3)" by (simp add: mask_eq_exp_minus_1)
  have "ucast (drop_bit 8 w) = (frm_pad s AND 0xe0) OR (ucast v AND 0x1f)"
    unfolding w_def mask_merge_def frm_bits e0 by (rule bit_word_eqI) (auto simp: bit_simps dest: bit_imp_le_length)
  moreover have "ucast (drop_bit 16 w) = fs_flags (fp_status s)"
    unfolding w_def mask_merge_def frm_bits by (rule bit_word_eqI) (auto simp: bit_simps dest: bit_imp_le_length)
  ultimately show "fp_status s' = fp_status s" "frm_pad s' = (frm_pad s AND 0xe0) OR (ucast v AND 0x1f)"
    using s' by simp_all
qed

text \<open>What write_frm and write_fcsr leave in slot 1, and its commit.\<close>

lemma fp_slot:
  assumes "mstatus (state c) AND MSTATUS_FS \<noteq> 0"
  shows "\<exists>c1. write_frm n v c = Inr c1 \<and> dst_idx (info c1) 1 = of_nat ARCH_FRM \<and> dst_mask (info c1) 1 = FSR_RD
      \<and> dst_data (info c1) 1 = drop_bit 5 (v AND FSR_RD) \<and> frm (state c1) = frm (state c)
      \<and> frm_pad (state c1) = frm_pad (state c) \<and> fp_status (state c1) = fp_status (state c)"
    and "\<exists>c1. write_fcsr n v c = Inr c1 \<and> dst_idx (info c1) 1 = of_nat ARCH_FRM
      \<and> dst_mask (info c1) 1 = push_bit 8 FSR_AEXC OR FSR_RD
      \<and> dst_data (info c1) 1 = push_bit 8 (v AND FSR_AEXC) OR drop_bit 5 (v AND FSR_RD)
      \<and> frm (state c1) = frm (state c)
      \<and> frm_pad (state c1) = frm_pad (state c) \<and> fp_status (state c1) = fp_status (state c)"
  using assms by (simp_all add: write_frm_def write_fcsr_def info_defs Let_def)

lemma frm_rmw_some:
  "\<exists>s'. arch_rmw s (of_nat ARCH_FRM) FSR_RD d = Some s'"
  "\<exists>s'. arch_rmw s (of_nat ARCH_FRM) (push_bit 8 FSR_AEXC OR FSR_RD) d = Some s'"
  by (simp_all add: arch_rmw_def Let_def frm_high_clear)

lemma write_frm_committed:
  assumes "mstatus (state c) AND MSTATUS_FS \<noteq> 0"
  shows "\<exists>c1 c2. write_frm n v c = Inr c1 \<and> rmw_slot 1 c1 = Inr c2 \<and>
    frm (state c2) = frm (state c) AND 0x1f \<and> fp_status (state c2) = fp_status (state c)"
proof -
  obtain c1 where c1: "write_frm n v c = Inr c1" "dst_idx (info c1) 1 = of_nat ARCH_FRM"
      "dst_mask (info c1) 1 = FSR_RD" "dst_data (info c1) 1 = drop_bit 5 (v AND FSR_RD)"
    and same: "frm (state c1) = frm (state c)" "fp_status (state c1) = fp_status (state c)"
    using fp_slot(1) [OF assms] by blast
  obtain s' where s': "arch_rmw (state c1) (of_nat ARCH_FRM) FSR_RD (drop_bit 5 (v AND FSR_RD)) = Some s'"
    using frm_rmw_some(1) by blast
  then have "rmw_slot 1 c1 = Inr (c1\<lparr> state := s' \<rparr>)"
    unfolding rmw_slot_def c1(2-4) by simp
  then show ?thesis using c1(1) frm_write_lost [OF s'] same by auto
qed

lemma write_fcsr_committed:
  assumes "mstatus (state c) AND MSTATUS_FS \<noteq> 0"
  shows "\<exists>c1 c2. write_fcsr n v c = Inr c1 \<and> rmw_slot 1 c1 = Inr c2 \<and>
    fp_status (state c2) = fp_status (state c) \<and>
    frm_pad (state c2) = (frm_pad (state c) AND 0xe0) OR (ucast v AND 0x1f)"
proof -
  let ?m = "push_bit 8 FSR_AEXC OR FSR_RD" and ?d = "push_bit 8 (v AND FSR_AEXC) OR drop_bit 5 (v AND FSR_RD)"
  obtain c1 where c1: "write_fcsr n v c = Inr c1" "dst_idx (info c1) 1 = of_nat ARCH_FRM"
      "dst_mask (info c1) 1 = ?m" "dst_data (info c1) 1 = ?d"
    and same: "frm_pad (state c1) = frm_pad (state c)" "fp_status (state c1) = fp_status (state c)"
    using fp_slot(2) [OF assms] by blast
  obtain s' where s': "arch_rmw (state c1) (of_nat ARCH_FRM) ?m ?d = Some s'"
    using frm_rmw_some(2) by blast
  then have "rmw_slot 1 c1 = Inr (c1\<lparr> state := s' \<rparr>)"
    unfolding rmw_slot_def c1(2-4) by simp
  then show ?thesis using c1(1) fcsr_write_misses_flags [OF s'] same by auto
qed

end
