(* ===== verification/Sv39.thy ===== *)
theory Sv39
  imports Mmu
begin

text \<open>
  Sv39 as the privileged specification states it, as an inductive relation on page tables, and the proof
  that translateAddr computes it: a translation succeeds exactly when the tables have a leaf for the
  address that allows the access, and the physical address is the leaf's page with the page offset.
\<close>

section \<open>The specification\<close>

text \<open>
  The entry at a physical address: None outside the RAM.  A table entry on a device is a fault in the
  code, hence None too.
\<close>

definition pt_read :: "'d plat \<Rightarrow> 'd machine \<Rightarrow> u64 \<Rightarrow> pte option" where
  "pt_read p c a =
    (case io_read p a 8 (uninit p) (devices (memory c)) of
       Some r \<Rightarrow> None
     | None \<Rightarrow> if in_ram (memory c) a 8 then Some (load_le (ram (memory c)) (a - 0x80000000) 8) else None)"

definition pte_valid :: "pte \<Rightarrow> bool" where
  "pte_valid e \<longleftrightarrow> pte_v e \<and> (pte_w e \<longrightarrow> pte_r e) \<and> pte_pad e = 0"

definition pte_leaf :: "pte \<Rightarrow> bool" where "pte_leaf e \<longleftrightarrow> pte_r e \<or> pte_x e"

definition pte_pointer :: "pte \<Rightarrow> bool" where
  "pte_pointer e \<longleftrightarrow> \<not> pte_leaf e \<and> \<not> pte_a e \<and> \<not> pte_d e \<and> \<not> pte_u e \<and> pte_pbmt e = 0 \<and> \<not> pte_n e"

inductive leaf_at :: "(u64 \<Rightarrow> pte option) \<Rightarrow> u64 \<Rightarrow> nat \<Rightarrow> u64 \<Rightarrow> nat \<Rightarrow> pte \<Rightarrow> bool"
  for rd :: "u64 \<Rightarrow> pte option" and va :: u64
where
  leaf: "rd (base + VPNi va l * 8) = Some e \<Longrightarrow> pte_valid e \<Longrightarrow> pte_leaf e \<Longrightarrow> leaf_at rd va l base l e"
| table: "rd (base + VPNi va (Suc l) * 8) = Some t \<Longrightarrow> pte_valid t \<Longrightarrow> pte_pointer t \<Longrightarrow>
    leaf_at rd va l (PGBASE (pte_ppn t)) k e \<Longrightarrow> leaf_at rd va (Suc l) base k e"

code_pred (modes: i \<Rightarrow> i \<Rightarrow> i \<Rightarrow> i \<Rightarrow> o \<Rightarrow> o \<Rightarrow> bool as find_leaf) leaf_at .

inductive_cases leaf_atE: "leaf_at rd va l base k e"

text \<open>The tables give at most one leaf for an address, at the level of the root or below.\<close>

lemma leaf_at_unique:
  "leaf_at rd va l base k e \<Longrightarrow> leaf_at rd va l base k' e' \<Longrightarrow> k' = k \<and> e' = e"
proof (induction arbitrary: k' e' rule: leaf_at.induct)
  case (leaf base l e)
  then show ?case by (auto simp: pte_pointer_def elim: leaf_atE)
next
  case (table base l t k e)
  from table.prems show ?case
    using table.IH table.hyps(1-3) by (auto simp: pte_pointer_def elim: leaf_atE)
qed

lemma leaf_at_level: "leaf_at rd va l base k e \<Longrightarrow> k \<le> l \<and> pte_valid e \<and> pte_leaf e"
  by (induction rule: leaf_at.induct) auto

definition sv39 :: "(u64 \<Rightarrow> pte option) \<Rightarrow> arch_state \<Rightarrow> u64 \<Rightarrow> fetch_type \<Rightarrow> u64 \<Rightarrow> bool" where
  "sv39 rd s va ty pa \<longleftrightarrow> (\<exists>l e. leaf_at rd va 2 (push_bit 12 (take_bit 44 (satp s))) l e
     \<and> access_allowed s e ty
     \<and> take_bit (9 * l) (pte_ppn e) = 0
     \<and> pa = (push_bit 12 (pte_ppn e)) OR take_bit (12 + 9 * l) va)"

section \<open>The walk computes the leaf\<close>

lemma paddrRead_cases:
  "paddrRead p a 8 ty (uninit p) c = Inr (v, True, c') \<longleftrightarrow> pt_read p c a = Some v \<and> c' = c"
  by (auto simp: paddrRead_def mem_paddrRead_def pt_read_def rbind_eq_Inr split: option.splits)

text \<open>One round of the loop, in the terms of the specification.\<close>

lemma walk_round:
  assumes "pt_read p c (base + VPNi va l * 8) = Some t"
  shows "walk p va ty l base c =
    (if pte_valid t \<and> pte_leaf t then Inr (PGBASE (pte_ppn t), Some (l, t), c)
     else if pte_valid t \<and> pte_pointer t
       then (case l of 0 \<Rightarrow> Inr (PGBASE (pte_ppn t), None, c)
             | Suc k \<Rightarrow> walk p va ty k (PGBASE (pte_ppn t)) c)
     else Inr (PGBASE (pte_ppn t), None, c))"
proof -
  have "paddrRead p (base + VPNi va l * 8) 8 ty (uninit p) c = Inr (t, True, c)"
    using assms by (simp add: paddrRead_cases)
  then show ?thesis
    by (subst walk.simps) (auto simp: Let_def pte_valid_def pte_leaf_def pte_pointer_def)
qed

lemma walk_reads:
  "walk p va ty l base c = Inr (pa, Some r, c') \<Longrightarrow> \<exists>t. pt_read p c (base + VPNi va l * 8) = Some t"
  by (subst (asm) walk.simps) (auto simp: rbind_eq_Inr paddrRead_cases split: if_splits)

lemma walk_sound:
  "walk p va ty l base c = Inr (pa, Some (k, e), c') \<Longrightarrow>
   leaf_at (pt_read p c) va l base k e \<and> pa = PGBASE (pte_ppn e) \<and> c' = c"
proof (induction l arbitrary: base)
  case 0
  then obtain t where "pt_read p c (base + VPNi va 0 * 8) = Some t" using walk_reads by blast
  then show ?case using 0 walk_round [of p c base va 0 t ty] by (auto split: if_splits intro: leaf_at.leaf)
next
  case (Suc l)
  then obtain t where "pt_read p c (base + VPNi va (Suc l) * 8) = Some t" using walk_reads by blast
  then show ?case
    using Suc walk_round [of p c base va "Suc l" t ty]
    by (auto split: if_splits intro: leaf_at.leaf leaf_at.table)
qed

lemma walk_complete:
  "leaf_at (pt_read p c) va l base k e \<Longrightarrow> walk p va ty l base c = Inr (PGBASE (pte_ppn e), Some (k, e), c)"
proof (induction rule: leaf_at.induct)
  case (leaf base l e)
  then show ?case using walk_round [of p c base va l e ty] by simp
next
  case (table base l t k e)
  then show ?case using walk_round [of p c base va "Suc l" t ty] by (auto simp: pte_pointer_def)
qed

section \<open>The translation computes the specification\<close>

lemma clear_low:
  assumes "take_bit n v = 0"
  shows "v AND NOT (mask n) = (v :: u64)"
proof (rule bit_word_eqI)
  fix k
  have "\<not> bit (take_bit n v) k" using assms by simp
  then show "bit (v AND NOT (mask n)) k \<longleftrightarrow> bit v k" by (auto simp: bit_simps dest: bit_imp_le_length)
qed

lemma leaf_addr_spec:
  assumes "l \<le> 2"
  shows "leaf_addr s va ty l e (PGBASE (pte_ppn e)) = Some pa \<longleftrightarrow>
     access_allowed s e ty \<and> take_bit (9 * l) (pte_ppn e) = 0 \<and> pa = push_bit 12 (pte_ppn e) OR take_bit (12 + 9 * l) va"
proof -
  let ?n = "12 + 9 * l" and ?pg = "push_bit 12 (pte_ppn e)"
  have n: "?n \<le> 30" using assms by simp
  have low: "take_bit ?n ?pg = push_bit 12 (take_bit (9 * l) (pte_ppn e))"
    by (simp add: take_bit_push_bit)
  have zero: "push_bit 12 (take_bit (9 * l) (pte_ppn e)) = 0 \<longleftrightarrow> take_bit (9 * l) (pte_ppn e) = 0"
  proof
    assume a: "push_bit 12 (take_bit (9 * l) (pte_ppn e)) = 0"
    have "drop_bit 12 (push_bit 12 (take_bit (9 * l) (pte_ppn e))) = take_bit (9 * l) (pte_ppn e)"
      using n by (intro bit_word_eqI) (auto simp: bit_simps)
    then show "take_bit (9 * l) (pte_ppn e) = 0" using a by simp
  qed simp
  show ?thesis
    unfolding leaf_addr_def checkPermission_allowed VPNiSHFT_def PGBASE_def Let_def push_bit_of_1 low_mask
    using low zero clear_low [of ?n ?pg] by (auto simp flip: take_bit_eq_mask)
qed

text \<open>Translation with the MMU on: a success is a translation of the specification and conversely.\<close>

lemma translateAddr_sv39:
  assumes "if ty = IFETCH then ifetch_mmu_state c else data_mmu_state c"
  shows "translateAddr p va ty pa0 EXC_NONE c = Inr (pa, EXC_NONE, c') \<longleftrightarrow>
    c' = c \<and> sv39 (pt_read p c) (state c) va ty pa"
proof -
  let ?root = "push_bit 12 (satp (state c) AND 0xfffffffffff)"
  have root: "satp (state c) AND 0xfffffffffff = take_bit 44 (satp (state c))"
    by (simp add: take_bit_eq_mask mask_eq_exp_minus_1)
  have tr: "translateAddr p va ty pa0 EXC_NONE c = rbind (walk p va ty 2 ?root c) (\<lambda>(paddr', r, c').
         case r of None \<Rightarrow> Inr (paddr', exc_pf ty, c')
         | Some (level, pte) \<Rightarrow> (case leaf_addr (state c') va ty level pte paddr' of
                None \<Rightarrow> Inr (paddr', exc_pf ty, c') | Some pa \<Rightarrow> Inr (pa, EXC_NONE, c')))"
    using assms by (auto simp: translateAddr_def split: if_splits)
  have pf: "exc_pf ty \<noteq> EXC_NONE" by (cases ty) (simp_all add: exc_pf_def)
  show ?thesis
  proof
    assume "translateAddr p va ty pa0 EXC_NONE c = Inr (pa, EXC_NONE, c')"
    then obtain q r c1 where w: "walk p va ty 2 ?root c = Inr (q, r, c1)"
      and k: "(case r of None \<Rightarrow> Inr (q, exc_pf ty, c1)
         | Some (level, pte) \<Rightarrow> (case leaf_addr (state c1) va ty level pte q of
                None \<Rightarrow> Inr (q, exc_pf ty, c1) | Some pa \<Rightarrow> Inr (pa, EXC_NONE, c1))) = (Inr (pa, EXC_NONE, c') :: _ res)"
      unfolding tr by (auto simp: rbind_eq_Inr simp del: push_bit_and)
    obtain l e where r: "r = Some (l, e)" using k pf by (cases r) auto
    then have la: "leaf_addr (state c') va ty l e q = Some pa" "c1 = c'"
      using k pf by (auto split: option.splits)
    note w = w [unfolded r la(2)]
    then show "c' = c \<and> sv39 (pt_read p c) (state c) va ty pa"
      using walk_sound [OF w] leaf_at_level [of "pt_read p c" va 2 ?root l e] leaf_addr_spec [of l "state c" va ty e pa] la(1)
      unfolding sv39_def root by auto
  next
    assume a: "c' = c \<and> sv39 (pt_read p c) (state c) va ty pa"
    then obtain l e where l: "leaf_at (pt_read p c) va 2 ?root l e"
      and r: "access_allowed (state c) e ty" "take_bit (9 * l) (pte_ppn e) = 0"
        "pa = push_bit 12 (pte_ppn e) OR take_bit (12 + 9 * l) va"
      unfolding sv39_def root by blast
    have "leaf_addr (state c) va ty l e (PGBASE (pte_ppn e)) = Some pa"
      using leaf_at_level [OF l] r by (simp add: leaf_addr_spec)
    then show "translateAddr p va ty pa0 EXC_NONE c = Inr (pa, EXC_NONE, c')"
      using a unfolding tr walk_complete [OF l] by simp
  qed
qed

lemma translateAddr_exc:
  "translateAddr p va ty pa0 e c = Inr (pa, e', c') \<Longrightarrow> e' = e \<or> e' = exc_pf ty"
  by (auto simp: translateAddr_def rbind_eq_Inr split: if_splits option.splits)

end
