(* ===== verification/ArchConfig.thy ===== *)
theory ArchConfig
  imports Core_Props Samples
begin

text \<open>
  The state of the architecture at the start: RiscvArch::afterLoad and initConfig
  (src/src/arch/riscv/riscvarch.cpp) and the parser of the file of initial values, Arch::initConfig
  (src/inc/arch/arch.h), with the functions of the C++ library it calls: isspace in the C locale, getline,
  find, substr, stoi, and stoull with base 0.
\<close>

section \<open>Strings\<close>

definition is_space :: "char \<Rightarrow> bool" where
  "is_space c \<longleftrightarrow> c = CHR '' '' \<or> 9 \<le> (of_char c :: nat) \<and> (of_char c :: nat) \<le> 13"

abbreviation (input) newline :: char where "newline \<equiv> CHR 0x0A"

fun getlines :: "string \<Rightarrow> string list" where
  "getlines [] = []"
| "getlines (c # s) = (if c = newline then [] # getlines s else case getlines s of [] \<Rightarrow> [[c]] | l # ls \<Rightarrow> (c # l) # ls)"

definition trim :: "string \<Rightarrow> string" where
  "trim s = rev (dropWhile is_space (rev (dropWhile is_space s)))"

text \<open>s.find(c).\<close>

fun find_char :: "char \<Rightarrow> string \<Rightarrow> nat option" where
  "find_char c [] = None"
| "find_char c (d # s) = (if c = d then Some 0 else map_option Suc (find_char c s))"

section \<open>Numbers\<close>

definition digit_val :: "char \<Rightarrow> nat option" where
  "digit_val c = (let k = of_char c :: nat in
     if 48 \<le> k \<and> k \<le> 57 then Some (k - 48)
     else if 65 \<le> k \<and> k \<le> 90 then Some (k - 55) else if 97 \<le> k \<and> k \<le> 122 then Some (k - 87) else None)"

definition is_digit :: "nat \<Rightarrow> char \<Rightarrow> bool" where
  "is_digit b c = (case digit_val c of None \<Rightarrow> False | Some d \<Rightarrow> d < b)"

text \<open>The value of the longest prefix of digits in base b, None if there is none.\<close>

fun digits_val :: "nat \<Rightarrow> nat \<Rightarrow> string \<Rightarrow> nat" where
  "digits_val b a [] = a"
| "digits_val b a (c # s) = (if is_digit b c then digits_val b (b * a + the (digit_val c)) s else a)"

definition read_digits :: "nat \<Rightarrow> string \<Rightarrow> nat option" where
  "read_digits b s = (case s of [] \<Rightarrow> None | c # s' \<Rightarrow> if is_digit b c then Some (digits_val b 0 s) else None)"

text \<open>The sign of a number, and what follows it.\<close>

definition sign :: "string \<Rightarrow> bool \<times> string" where
  "sign s = (case dropWhile is_space s of [] \<Rightarrow> (False, [])
     | c # s' \<Rightarrow> if c = CHR ''-'' then (True, s') else if c = CHR ''+'' then (False, s') else (False, c # s'))"

text \<open>Base 0: a prefix 0x that is followed by a hexadecimal digit, a prefix 0, or decimal.\<close>

definition read_auto :: "string \<Rightarrow> nat option" where
  "read_auto s = (case s of
      z # x # d # s' \<Rightarrow> if z = CHR ''0'' \<and> (x = CHR ''x'' \<or> x = CHR ''X'') \<and> is_digit 16 d then read_digits 16 (d # s')
        else read_digits (if z = CHR ''0'' then 8 else 10) s
    | z # s' \<Rightarrow> read_digits (if z = CHR ''0'' then 8 else 10) s
    | [] \<Rightarrow> None)"

definition stoi :: "string \<Rightarrow> int res" where
  "stoi s = (case sign s of (neg, s') \<Rightarrow>
     case read_digits 10 s' of None \<Rightarrow> Inl (Thrown ''std::invalid_argument'')
     | Some n \<Rightarrow> let v = (if neg then - int n else int n)
         in if - (2 ^ 31) \<le> v \<and> v < 2 ^ 31 then Inr v else Inl (Thrown ''std::out_of_range''))"

definition stoull :: "string \<Rightarrow> u64 res" where
  "stoull s = (case sign s of (neg, s') \<Rightarrow>
     case read_auto s' of None \<Rightarrow> Inl (Thrown ''std::invalid_argument'')
     | Some n \<Rightarrow> if n < 2 ^ 64 then Inr (if neg then - of_nat n else of_nat n) else Inl (Thrown ''std::out_of_range''))"

section \<open>Arch::initConfig\<close>

record arch_config =
  cfg_offset :: u32
  cfg_name :: string
  cfg_value :: u64

text \<open>
  The index in brackets.  The name before the bracket is computed too, and not used: the setting is filed
  under all of the left-hand side.
\<close>

definition parse_index :: "string \<Rightarrow> int res" where
  "parse_index left = (case (find_char CHR ''['' left, find_char CHR '']'' left) of
      (Some a, Some b) \<Rightarrow> if a < b then stoi (take (b - a - 1) (drop (a + 1) left)) else Inr 0
    | _ \<Rightarrow> Inr 0)"

definition parse_line :: "string \<Rightarrow> arch_config option res" where
  "parse_line line = (let line = trim line in
     case find_char CHR ''='' line of None \<Rightarrow> Inr None
     | Some k \<Rightarrow> let left = trim (take k line); right = trim (drop (k + 1) line) in
         rbind (parse_index left) (\<lambda>i. rbind (stoull right) (\<lambda>v.
           Inr (Some \<lparr> cfg_offset = word_of_int (i * 8), cfg_name = left, cfg_value = v \<rparr>))))"

fun parse_lines :: "string list \<Rightarrow> arch_config list res" where
  "parse_lines [] = Inr []"
| "parse_lines (l # ls) = rbind (parse_line l) (\<lambda>c. rbind (parse_lines ls) (\<lambda>cs.
     Inr (case c of None \<Rightarrow> cs | Some c \<Rightarrow> c # cs)))"

text \<open>The contents of the file, None if it cannot be opened.\<close>

definition arch_initConfig :: "string option \<Rightarrow> arch_config list res" where
  "arch_initConfig file = (case file of None \<Rightarrow> Inr [] | Some text \<Rightarrow> parse_lines (getlines text))"

section \<open>RiscvArch::afterLoad and initConfig\<close>

text \<open>memset(state, 0, sizeof(ArchState)).\<close>

definition cleared :: "arch_state \<Rightarrow> arch_state" where
  "cleared s = \<lparr> gpr = (\<lambda>r. 0), fpr = (\<lambda>r. 0), frm = 0, frm_pad = 0,
     fp_status = \<lparr> fs_flags = 0, fs_round = 0, fs_rest = map (\<lambda>b. 0) (fs_rest (fp_status s)) \<rparr>,
     load_res = 0, load_val = 0, badaddr = 0, priv_ver = 0, misa = 0, priv = 0, menvcfg = 0, senvcfg = 0, mhartid = 0,
     mvendorid = 0, marchid = 0, mimpid = 0, mstatus = 0, mip = 0, miclaim = 0, mie = 0, mideleg = 0, sie = 0, satp = 0,
     stval = 0, medeleg = 0, stvec = 0, sepc = 0, scause = 0, mtvec = 0, mepc = 0, mcause = 0, mtval = 0,
     scounteren = 0, mcounteren = 0, mcountinhibit = 0, sscratch = 0, mscratch = 0, stimecmp = 0,
     pmpcfg = (\<lambda>k. 0), pmpaddr = (\<lambda>k. 0), num_rules = 0 \<rparr>"

definition riscv_afterLoad :: "'d machine \<Rightarrow> 'd machine" where
  "riscv_afterLoad c = c\<lparr> state := cleared (state c) \<rparr>"

abbreviation (input) ARCH_MISA :: nat where "ARCH_MISA \<equiv> 568"
abbreviation (input) ARCH_PRIV :: nat where "ARCH_PRIV \<equiv> 576"

definition name_offset_map :: "string \<Rightarrow> nat option" where
  "name_offset_map n =
    (if n = ''misa'' then Some ARCH_MISA else if n = ''priv'' then Some ARCH_PRIV
     else if n = ''mstatus'' then Some ARCH_MSTATUS else if n = ''pmpcfg'' then Some ARCH_PMPCFG
     else if n = ''pmpaddr'' then Some ARCH_PMPADDR else if n = ''mideleg'' then Some ARCH_MIDELEG
     else if n = ''medeleg'' then Some ARCH_MEDELEG else None)"

text \<open>The store of eight bytes at an offset; None where no 64-bit field starts.\<close>

definition state_write :: "arch_state \<Rightarrow> nat \<Rightarrow> u64 \<Rightarrow> arch_state option" where
  "state_write s off v =
    (if off = ARCH_MISA then Some (s\<lparr> misa := v \<rparr>) else if off = ARCH_PRIV then Some (s\<lparr> priv := v \<rparr>)
     else if off < ARCH_SIZE then arch_rmw s (of_nat off) all1 v else None)"

definition apply_config :: "arch_config \<Rightarrow> arch_state \<Rightarrow> arch_state res" where
  "apply_config cfg s = (case name_offset_map (cfg_name cfg) of None \<Rightarrow> Inr s
     | Some off \<Rightarrow> (case state_write s (unat (of_nat off + cfg_offset cfg)) (cfg_value cfg) of
         None \<Rightarrow> Inl OutOfBounds | Some s \<Rightarrow> Inr s))"

fun apply_configs :: "arch_config list \<Rightarrow> arch_state \<Rightarrow> arch_state res" where
  "apply_configs [] s = Inr s"
| "apply_configs (c # cs) s = rbind (apply_config c s) (apply_configs cs)"

definition riscv_initConfig :: "string option \<Rightarrow> 'd machine \<Rightarrow> 'd machine res" where
  "riscv_initConfig file c =
    rbind (arch_initConfig file) (\<lambda>cs. rbind (apply_configs cs (state c)) (\<lambda>s. Inr (c\<lparr> state := s \<rparr>)))"

section \<open>Printing settings and reading them back\<close>

fun dec :: "nat \<Rightarrow> string" where
  "dec n = (if n < 10 then [char_of (48 + n)] else dec (n div 10) @ [char_of (48 + n mod 10)])"

declare dec.simps [simp del]

definition print_config :: "arch_config \<Rightarrow> string" where
  "print_config c = cfg_name c @ '' = '' @ dec (unat (cfg_value c)) @ [newline]"

definition tight :: "string \<Rightarrow> bool" where
  "tight s \<longleftrightarrow> s \<noteq> [] \<and> \<not> is_space (hd s) \<and> \<not> is_space (last s)"

text \<open>A name without brackets, as it can stand on the left of a setting.\<close>

definition plain_name :: "string \<Rightarrow> bool" where
  "plain_name n \<longleftrightarrow> tight n \<and> CHR ''='' \<notin> set n \<and> CHR ''['' \<notin> set n \<and> newline \<notin> set n"

lemma trim_tight:
  assumes "tight s"
  shows "trim s = s" "trim (s @ '' '') = s" "trim ('' '' @ s) = s"
proof -
  have "dropWhile is_space s = s" "dropWhile is_space (rev s) = rev s" "s \<noteq> []"
    using assms by (auto simp: tight_def dropWhile_eq_self_iff hd_rev)
  moreover have "\<exists>x \<in> set s. \<not> is_space x" using assms by (auto simp: tight_def intro!: bexI [of _ "hd s"])
  moreover have "is_space CHR '' ''" by (simp add: is_space_def)
  ultimately show "trim s = s" "trim (s @ '' '') = s" "trim ('' '' @ s) = s"
    by (simp_all add: trim_def dropWhile_append)
qed

lemma tight_append: "s \<noteq> [] \<Longrightarrow> t \<noteq> [] \<Longrightarrow> tight (s @ t) \<longleftrightarrow> \<not> is_space (hd s) \<and> \<not> is_space (last t)"
  by (simp add: tight_def)

lemma getlines_line: "newline \<notin> set l \<Longrightarrow> getlines (l @ newline # s) = l # getlines s"
  by (induction l) auto

lemma find_char_append: "c \<notin> set s \<Longrightarrow> find_char c (s @ c # t) = Some (length s)"
  by (induction s) auto

lemma find_char_None: "find_char c s = None \<longleftrightarrow> c \<notin> set s"
  by (induction s) auto

lemma parse_index_plain: "CHR ''['' \<notin> set n \<Longrightarrow> parse_index n = Inr 0"
  by (simp add: parse_index_def find_char_None [THEN iffD2])

lemma char_0: "(char_of (48 :: nat) :: char) = CHR ''0''"
  by code_simp

lemma digit_char:
  fixes d :: nat
  assumes "d < 10"
  shows "digit_val (char_of (48 + d)) = Some d" "\<not> is_space (char_of (48 + d))"
    "char_of (48 + d) \<noteq> newline" "char_of (48 + d) \<noteq> CHR ''-''" "char_of (48 + d) \<noteq> CHR ''+''"
    "char_of (48 + d) = CHR ''0'' \<longleftrightarrow> d = 0"
proof -
  have o: "of_char (char_of (48 + d) :: char) = 48 + d" using assms by simp
  have ne: "char_of (48 + d) \<noteq> c" if "of_char c \<noteq> 48 + d" for c :: char using o that by metis
  show "digit_val (char_of (48 + d)) = Some d" unfolding digit_val_def o using assms by simp
  show "char_of (48 + d) \<noteq> newline" "char_of (48 + d) \<noteq> CHR ''-''" "char_of (48 + d) \<noteq> CHR ''+''"
    by (rule ne; simp)+
  show "char_of (48 + d) = CHR ''0'' \<longleftrightarrow> d = 0"
    using ne [of "CHR ''0''"] by (cases "d = 0") (auto simp: char_0)
  have "char_of (48 + d) \<noteq> CHR '' ''" by (rule ne) simp
  then show "\<not> is_space (char_of (48 + d))" unfolding is_space_def o by simp
qed

lemma dec_digits: "c \<in> set (dec n) \<Longrightarrow> \<exists>d < (10 :: nat). c = char_of (48 + d)"
proof (induction n rule: dec.induct)
  case (1 n)
  consider "n < 10" "c = char_of (48 + n)" | "\<not> n < 10" "c \<in> set (dec (n div 10))" | "c = char_of (48 + n mod 10)"
    using "1.prems" by (subst (asm) dec.simps) (auto simp del: char_of_eq_iff split: if_splits)
  then show ?case
  proof cases
    case 3
    then show ?thesis by (intro exI [of _ "n mod 10"]) simp
  qed (use "1.IH" in auto)
qed

lemma dec_ne [simp]: "dec n \<noteq> []"
  by (subst dec.simps) simp

lemma dec_hd: "hd (dec n) = CHR ''0'' \<longleftrightarrow> n = 0"
proof (induction n rule: dec.induct)
  case (1 n)
  then show ?case by (subst dec.simps) (auto simp: digit_char(6) hd_append char_0)
qed

lemma dec_0 [simp]: "dec 0 = ''0''"
  by (subst dec.simps) (simp add: char_0)

lemma digits_val_append:
  "\<forall>c \<in> set s. is_digit b c \<Longrightarrow> digits_val b a (s @ t) = digits_val b (digits_val b a s) t"
  by (induction s arbitrary: a) auto

lemma dec_is_digit: "c \<in> set (dec n) \<Longrightarrow> is_digit 10 c"
  using dec_digits [of c n] digit_char(1) by (auto simp: is_digit_def)

lemma digits_val_dec: "digits_val 10 0 (dec n) = n"
proof (induction n rule: dec.induct)
  case (1 n)
  show ?case
  proof (cases "n < 10")
    case True
    then show ?thesis using digit_char(1) [of n] by (subst dec.simps) (simp add: is_digit_def)
  next
    case False
    then have "digits_val 10 0 (dec n) = digits_val 10 (n div 10) [char_of (48 + n mod 10)]"
      using 1 dec_is_digit by (subst dec.simps) (simp add: digits_val_append)
    then show ?thesis using digit_char(1) [of "n mod 10"] by (simp add: is_digit_def)
  qed
qed

lemma read_dec: "read_digits 10 (dec n) = Some n"
  using digits_val_dec [of n] dec_is_digit [of "hd (dec n)" n]
  by (cases "dec n") (auto simp: read_digits_def)

lemma read_auto_dec: "read_auto (dec n) = Some n"
proof (cases "n = 0")
  case True
  then show ?thesis by (simp add: read_auto_def read_digits_def is_digit_def digit_val_def)
next
  case False
  then show ?thesis
    using dec_hd [of n] read_dec [of n] by (auto simp: read_auto_def split: list.split)
qed

lemma sign_dec: "sign (dec n) = (False, dec n)"
  using dec_digits [of "hd (dec n)" n] digit_char(2,4,5) by (cases "dec n") (auto simp: sign_def)

lemma stoull_dec: "stoull (dec (unat v)) = Inr v"
proof -
  have "unat v < 2 ^ LENGTH(64)" by (rule unsigned_less)
  then show ?thesis by (simp add: stoull_def sign_dec read_auto_dec)
qed

lemma tight_dec: "tight (dec n)"
  using dec_digits [of "hd (dec n)" n] dec_digits [of "last (dec n)" n] digit_char(2) by (auto simp: tight_def)

lemma parse_print:
  assumes "plain_name (cfg_name c)" "cfg_offset c = 0"
  shows "parse_line (cfg_name c @ '' = '' @ dec (unat (cfg_value c))) = Inr (Some c)"
proof -
  let ?n = "cfg_name c" and ?d = "dec (unat (cfg_value c))"
  have n: "tight ?n" "CHR ''='' \<notin> set (?n @ '' '')" "CHR ''['' \<notin> set ?n" using assms(1) by (auto simp: plain_name_def)
  have "tight (?n @ '' = '' @ ?d)" using n(1) tight_dec [of "unat (cfg_value c)"] by (simp add: tight_def)
  moreover have "find_char CHR ''='' (?n @ '' = '' @ ?d) = Some (length (?n @ '' ''))"
    using find_char_append [OF n(2), of "'' '' @ ?d"] by simp
  ultimately show ?thesis
    using trim_tight(2) [OF n(1)] trim_tight(3) [OF tight_dec] parse_index_plain [OF n(3)] assms(2)
    by (simp add: parse_line_def trim_tight(1) stoull_dec)
qed

lemma parse_print_lines:
  assumes "\<forall>c \<in> set cs. plain_name (cfg_name c) \<and> cfg_offset c = 0"
  shows "parse_lines (getlines (concat (map print_config cs))) = Inr cs"
  using assms
proof (induction cs)
  case (Cons c cs)
  have nl: "newline \<notin> set (cfg_name c @ '' = '' @ dec (unat (cfg_value c)))"
    using Cons.prems dec_digits [of newline "unat (cfg_value c)"] digit_char(3) by (auto simp: plain_name_def) metis
  have "getlines (concat (map print_config (c # cs))) =
      (cfg_name c @ '' = '' @ dec (unat (cfg_value c))) # getlines (concat (map print_config cs))"
    using getlines_line [OF nl] by (simp add: print_config_def)
  then show ?case using Cons parse_print [of c] by simp
qed simp

section \<open>What the settings can reach\<close>

lemma name_offset_cases:
  assumes "name_offset_map n = Some off"
  shows "CHR ''['' \<notin> set n" "off \<in> {ARCH_MISA, ARCH_PRIV, ARCH_MSTATUS, ARCH_PMPCFG, ARCH_PMPADDR, ARCH_MIDELEG, ARCH_MEDELEG}"
  using assms by (auto simp: name_offset_map_def split: if_splits)

text \<open>A setting with an index is looked up with its index, and not found.\<close>

lemma bracket_ignored: "CHR ''['' \<in> set (cfg_name c) \<Longrightarrow> apply_config c s = Inr s"
  using name_offset_cases(1) [of "cfg_name c"] by (auto simp: apply_config_def split: option.split)

lemma parse_line_offset: "parse_line l = Inr (Some c) \<Longrightarrow> cfg_offset c = 0 \<or> CHR ''['' \<in> set (cfg_name c)"
  using parse_index_plain by (auto simp: parse_line_def Let_def rbind_eq_Inr split: option.splits)

lemma parse_lines_offset: "parse_lines ls = Inr cs \<Longrightarrow> c \<in> set cs \<Longrightarrow> cfg_offset c = 0 \<or> CHR ''['' \<in> set (cfg_name c)"
  by (induction ls arbitrary: cs) (auto simp: rbind_eq_Inr split: option.splits dest: parse_line_offset)

text \<open>The registers no setting reaches.\<close>

definition unset :: "arch_state \<Rightarrow> (nat \<Rightarrow> u64) \<times> (nat \<Rightarrow> u64) \<times> u64 \<times> u64 \<times> u64" where
  "unset s = (gpr s, fpr s, satp s, mie s, mip s)"

lemma state_write_simps:
  "state_write s ARCH_MISA v = Some (s\<lparr> misa := v \<rparr>)" "state_write s ARCH_PRIV v = Some (s\<lparr> priv := v \<rparr>)"
  "state_write s ARCH_MSTATUS v = Some (s\<lparr> mstatus := v \<rparr>)"
  "state_write s ARCH_PMPCFG v = Some (s\<lparr> pmpcfg := (pmpcfg s)(0 := v) \<rparr>)"
  "state_write s ARCH_PMPADDR v = Some (s\<lparr> pmpaddr := (pmpaddr s)(0 := v) \<rparr>)"
  "state_write s ARCH_MIDELEG v = Some (s\<lparr> mideleg := v \<rparr>)"
  "state_write s ARCH_MEDELEG v = Some (s\<lparr> medeleg := v \<rparr>)"
  by (simp_all add: state_write_def arch_rmw_def csr_field_rmw_def Let_def)

lemma apply_config_total:
  assumes "cfg_offset c = 0 \<or> CHR ''['' \<in> set (cfg_name c)"
  obtains s' where "apply_config c s = Inr s'" "unset s' = unset s"
proof (cases "name_offset_map (cfg_name c)")
  case None
  then show ?thesis using that [of s] by (simp add: apply_config_def)
next
  case (Some off)
  note o = name_offset_cases [OF Some]
  have "cfg_offset c = 0" using assms o(1) by simp
  moreover obtain s' where "state_write s off (cfg_value c) = Some s'" "unset s' = unset s"
    using o(2) by (auto simp: state_write_simps unset_def)
  moreover have "unat (of_nat off :: u32) = off" using o(2) by auto
  ultimately show ?thesis using that Some by (simp add: apply_config_def)
qed

lemma apply_configs_total:
  assumes "\<forall>c \<in> set cs. cfg_offset c = 0 \<or> CHR ''['' \<in> set (cfg_name c)"
  shows "\<exists>s'. apply_configs cs s = Inr s' \<and> unset s' = unset s"
  using assms
proof (induction cs arbitrary: s)
  case (Cons c cs)
  obtain s1 where 1: "apply_config c s = Inr s1" "unset s1 = unset s" using apply_config_total [of c s] Cons.prems by auto
  then show ?case using Cons.IH [of s1] Cons.prems by simp
qed simp

text \<open>Only the parser can stop the start of the architecture.\<close>

lemma initConfig_total:
  assumes "arch_initConfig file = Inr cs"
  obtains s' where "apply_configs cs (state c) = Inr s'" "riscv_initConfig file c = Inr (c\<lparr> state := s' \<rparr>)"
    "unset s' = unset (state c)"
proof -
  have "\<forall>c \<in> set cs. cfg_offset c = 0 \<or> CHR ''['' \<in> set (cfg_name c)"
    using assms parse_lines_offset by (auto simp: arch_initConfig_def split: option.splits)
  then obtain s' where "apply_configs cs (state c) = Inr s'" "unset s' = unset (state c)" using apply_configs_total by blast
  then show ?thesis using that assms by (simp add: riscv_initConfig_def)
qed

lemma start_state:
  assumes "riscv_initConfig file (riscv_afterLoad c) = Inr c'"
  obtains s' where "c' = c\<lparr> state := s' \<rparr>" "unset s' = unset (cleared (state c))"
proof -
  obtain cs where cs: "arch_initConfig file = Inr cs" using assms by (auto simp: riscv_initConfig_def rbind_eq_Inr)
  obtain s' where "riscv_initConfig file (riscv_afterLoad c) = Inr ((riscv_afterLoad c)\<lparr> state := s' \<rparr>)"
      "unset s' = unset (state (riscv_afterLoad c))"
    by (rule initConfig_total [OF cs, of "riscv_afterLoad c"])
  then show ?thesis using assms that [of s'] by (simp add: riscv_afterLoad_def)
qed

lemma start_unset: "riscv_initConfig file (riscv_afterLoad c) = Inr c' \<Longrightarrow> unset (state c') = unset (cleared (state c))"
  by (erule start_state) simp

lemma start_ok:
  assumes "riscv_initConfig file (riscv_afterLoad c) = Inr c'" "\<not> ifetch_mmu_state c" "\<not> data_mmu_state c" "slots c"
  shows "machine_ok c' \<longleftrightarrow> priv (state c') \<le> 3"
proof -
  obtain s' where "c' = c\<lparr> state := s' \<rparr>" "unset s' = unset (cleared (state c))" by (rule start_state [OF assms(1)])
  then show ?thesis
    using assms(2-4) by (simp add: machine_ok_def mmu_flags_def unset_def cleared_def slots_def Let_def)
qed

section \<open>Properties\<close>

text \<open>
  C11: settings written to the file, one on a line as name = value in decimal, are read back as they were,
  for any names without brackets and any 64-bit values.
\<close>

theorem settings_round_trip:
  assumes "\<forall>c \<in> set cs. plain_name (cfg_name c) \<and> cfg_offset c = 0"
  shows "arch_initConfig (Some (concat (map print_config cs))) = Inr cs"
  using parse_print_lines [OF assms] by (simp add: arch_initConfig_def)

theorem settings_round_trip_witness:
  "arch_initConfig (Some (print_config \<lparr> cfg_offset = 0, cfg_name = ''misa'', cfg_value = 0x8000000000141105 \<rparr> @
     print_config \<lparr> cfg_offset = 0, cfg_name = ''priv'', cfg_value = 3 \<rparr>)) =
   Inr [\<lparr> cfg_offset = 0, cfg_name = ''misa'', cfg_value = 0x8000000000141105 \<rparr>,
     \<lparr> cfg_offset = 0, cfg_name = ''priv'', cfg_value = 3 \<rparr>]"
  using settings_round_trip [of "[\<lparr> cfg_offset = 0, cfg_name = ''misa'', cfg_value = 0x8000000000141105 \<rparr>,
     \<lparr> cfg_offset = 0, cfg_name = ''priv'', cfg_value = 3 \<rparr>]"]
  by (simp add: plain_name_def tight_def is_space_def)

text \<open>
  C26: the machine the simulator starts with satisfies the invariant of the architecture exactly if the
  privilege the file sets is one of the two-bit values; every general and floating-point register and satp
  are 0.  The other fields of the RiscvArch object are those new gives it.
\<close>

theorem start_machine_ok:
  assumes "riscv_initConfig file (riscv_afterLoad c) = Inr c'" and "\<not> ifetch_mmu_state c" and "\<not> data_mmu_state c"
    and "slots c"
  shows "(machine_ok c' \<longleftrightarrow> priv (state c') \<le> 3) \<and> gpr (state c') = (\<lambda>r. 0) \<and> fpr (state c') = (\<lambda>r. 0) \<and> satp (state c') = 0"
  using start_ok [OF assms] start_unset [OF assms(1)] by (simp add: unset_def cleared_def)

text \<open>The file src/configs/pipeline/arch.cfg.\<close>

definition arch_cfg :: string where
  "arch_cfg = ''misa=9223372036856090927'' @ [newline] @ ''mstatus=42949672960'' @ [newline] @ ''priv=3''"

lemmas parse_eval = trim_def is_space_def parse_index_def stoi_def stoull_def sign_def read_auto_def read_digits_def
  is_digit_def digit_val_def

lemma arch_cfg_parse: "arch_initConfig (Some arch_cfg) =
  Inr [\<lparr> cfg_offset = 0, cfg_name = ''misa'', cfg_value = 0x800000000014112f \<rparr>,
    \<lparr> cfg_offset = 0, cfg_name = ''mstatus'', cfg_value = 0xa00000000 \<rparr>, \<lparr> cfg_offset = 0, cfg_name = ''priv'', cfg_value = 3 \<rparr>]"
  by (simp add: arch_cfg_def arch_initConfig_def parse_line_def parse_eval)

theorem start_machine_ok_witness:
  "\<exists>c. riscv_initConfig (Some arch_cfg) (riscv_afterLoad machine0) = Inr c \<and> priv (state c) = 3 \<and> machine_ok c"
proof -
  obtain c where c: "riscv_initConfig (Some arch_cfg) (riscv_afterLoad machine0) = Inr c" "priv (state c) = 3"
    by (simp add: riscv_initConfig_def arch_cfg_parse apply_config_def name_offset_map_def state_write_simps)
  have "slots machine0" "\<not> ifetch_mmu_state machine0" "\<not> data_mmu_state machine0"
    by (simp_all add: slots_def slot_valid_def machine0_def zero_info_def)
  then show ?thesis using start_machine_ok [OF c(1)] c by simp
qed

text \<open>A setting of an indexed register is read with its index, and then has no effect.\<close>

theorem indexed_setting_ignored:
  "parse_line ''pmpaddr[3]=0x1f'' = Inr (Some \<lparr> cfg_offset = 24, cfg_name = ''pmpaddr[3]'', cfg_value = 0x1f \<rparr>)"
  "CHR ''['' \<in> set (cfg_name c) \<Longrightarrow> apply_config c s = Inr s"
  by (simp add: parse_line_def parse_eval) (rule bracket_ignored)

end
