(* ===== verification/LogDB.thy ===== *)
theory LogDB
  imports Prelude
begin

text \<open>
  LogDB, src/src/common/dbhandler.cpp: the records of a log go through four slices, which the tasks of
  a thread pool compress and write to the file.  The compressor (zstd) and the text of the meta data
  (nlohmann json) are parameters.
\<close>

section \<open>State\<close>

definition BUFFER_SLICE :: nat where "BUFFER_SLICE = 4"

definition SLICE_BUFFER_SIZE :: nat where "SLICE_BUFFER_SIZE = 8389632"

datatype slice_state = FREE | PROCESS_READY | PROCESSING | PROCESS_DONE | DONE

text \<open>One slice: its two buffers and its part of buffer\_slice\_info; out\_buffer is cut at out\_buffer\_size.\<close>

record log_slice =
  sl_state :: slice_state
  inp_buffer :: "nat \<Rightarrow> u8"
  inp_buffer_idx :: nat
  out_buffer :: "u8 list"

text \<open>
  A task of the pool, by the point it has reached: Compress k n and Write k have not started; Compressed k
  has filled the out buffer; Written k has written it; Cleared k has reset the slice; Released k has cleared
  is\_writing.  The last step of a task takes the mutex, frees the slice and notifies the caller.
\<close>

datatype db_task = Compress nat nat | Compressed nat | Write nat | Written nat | Cleared nat | Released nat

text \<open>
  The thread that calls addData, by the point it has reached: Test is the loop's test with the mutex held,
  Sleep is in cv.wait, Woken has been notified.
\<close>

datatype db_caller = Ready | Test "u8 list" | Sleep "u8 list" | Woken "u8 list" | Closed | Failed crash

record logdb =
  slices :: "nat \<Rightarrow> log_slice"
  process_slice :: nat
  compress_slice :: nat
  writeback_slice :: nat
  is_writing :: bool
  origin_size :: u64
  db_file :: "u8 list"
  tasks :: "db_task list"
  db_call :: db_caller

definition upd_slice :: "nat \<Rightarrow> (log_slice \<Rightarrow> log_slice) \<Rightarrow> logdb \<Rightarrow> logdb" where
  "upd_slice k f d = d\<lparr> slices := (slices d)(k := f (slices d k)) \<rparr>"

text \<open>The bytes a slice holds.\<close>

definition chunk :: "log_slice \<Rightarrow> u8 list" where
  "chunk s = map (inp_buffer s) [0..<inp_buffer_idx s]"

section \<open>checkCompress and checkWriteback\<close>

definition checkCompress :: "logdb \<Rightarrow> logdb" where
  "checkCompress d = (let k = compress_slice d in
     if sl_state (slices d k) = PROCESS_READY
     then (upd_slice k (\<lambda>s. s\<lparr> sl_state := PROCESSING \<rparr>) d)
       \<lparr> tasks := tasks d @ [Compress k (inp_buffer_idx (slices d k))], compress_slice := (k + 1) mod BUFFER_SLICE \<rparr>
     else d)"

definition checkWriteback :: "logdb \<Rightarrow> logdb" where
  "checkWriteback d = (let k = writeback_slice d in
     if sl_state (slices d k) = PROCESS_DONE \<and> \<not> is_writing d
     then (upd_slice k (\<lambda>s. s\<lparr> sl_state := DONE \<rparr>) d)
       \<lparr> is_writing := True, tasks := tasks d @ [Write k], writeback_slice := (k + 1) mod BUFFER_SLICE \<rparr>
     else d)"

section \<open>addData\<close>

text \<open>memcpy to the place behind the bytes the slice holds.\<close>

definition copy_in :: "u8 list \<Rightarrow> log_slice \<Rightarrow> log_slice" where
  "copy_in b s = s\<lparr> inp_buffer := (\<lambda>i. if inp_buffer_idx s \<le> i \<and> i < inp_buffer_idx s + length b
       then b ! (i - inp_buffer_idx s) else inp_buffer s i),
     inp_buffer_idx := inp_buffer_idx s + length b \<rparr>"

text \<open>What follows the wait.\<close>

definition addData :: "u8 list \<Rightarrow> logdb \<Rightarrow> logdb res" where
  "addData b d = (let k = process_slice d; n = inp_buffer_idx (slices d k) + length b in
     if SLICE_BUFFER_SIZE < n then Inl OutOfBounds
     else
       let d = (upd_slice k (copy_in b) d)\<lparr> origin_size := origin_size d + of_nat (length b) \<rparr>;
           d = (if SLICE_BUFFER_SIZE \<le> n
             then (upd_slice k (\<lambda>s. s\<lparr> sl_state := PROCESS_READY \<rparr>) d)\<lparr> process_slice := (k + 1) mod BUFFER_SLICE \<rparr> else d)
       in Inr (checkWriteback (checkCompress d)))"

section \<open>The tasks of the pool\<close>

fun task_slice :: "db_task \<Rightarrow> nat" where
  "task_slice (Compress k n) = k"
| "task_slice (Compressed k) = k"
| "task_slice (Write k) = k"
| "task_slice (Written k) = k"
| "task_slice (Cleared k) = k"
| "task_slice (Released k) = k"

definition swap_task :: "db_task \<Rightarrow> db_task list \<Rightarrow> logdb \<Rightarrow> logdb" where
  "swap_task t ts d = d\<lparr> tasks := remove1 t (tasks d) @ ts \<rparr>"

text \<open>cv.notify\_one wakes the caller if it waits.\<close>

definition notify_one :: "logdb \<Rightarrow> logdb" where
  "notify_one d = (case db_call d of Sleep b \<Rightarrow> d\<lparr> db_call := Woken b \<rparr> | _ \<Rightarrow> d)"

text \<open>One step of a task.  zstd is None when the compressor reports an error, which the code does not look at.\<close>

fun work :: "(u8 list \<Rightarrow> u8 list option) \<Rightarrow> db_task \<Rightarrow> logdb \<Rightarrow> logdb" where
  "work zstd (Compress k n) d = (case zstd (map (inp_buffer (slices d k)) [0..<n]) of
      None \<Rightarrow> d\<lparr> db_call := Failed (Undefined ''negative size'') \<rparr>
    | Some z \<Rightarrow> swap_task (Compress k n) [Compressed k] (upd_slice k (\<lambda>s. s\<lparr> out_buffer := z \<rparr>) d))"
| "work zstd (Compressed k) d =
     notify_one (swap_task (Compressed k) [] (upd_slice k (\<lambda>s. s\<lparr> sl_state := PROCESS_DONE \<rparr>) d))"
| "work zstd (Write k) d = swap_task (Write k) [Written k] (d\<lparr> db_file := db_file d @ out_buffer (slices d k) \<rparr>)"
| "work zstd (Written k) d =
     swap_task (Written k) [Cleared k] (upd_slice k (\<lambda>s. s\<lparr> inp_buffer_idx := 0, out_buffer := [] \<rparr>) d)"
| "work zstd (Cleared k) d = swap_task (Cleared k) [Released k] (d\<lparr> is_writing := False \<rparr>)"
| "work zstd (Released k) d =
     notify_one (swap_task (Released k) [] (upd_slice k (\<lambda>s. s\<lparr> sl_state := FREE \<rparr>) d))"

section \<open>init and close\<close>

definition le4 :: "u32 \<Rightarrow> u8 list" where
  "le4 w = map (\<lambda>i. ucast (drop_bit (8 * i) w)) [0..<4]"

text \<open>seekp and write.\<close>

definition overwrite :: "nat \<Rightarrow> u8 list \<Rightarrow> u8 list \<Rightarrow> u8 list" where
  "overwrite pos bs f = take pos f @ bs @ drop (pos + length bs) f"

definition fresh_slice :: log_slice where
  "fresh_slice = \<lparr> sl_state = FREE, inp_buffer = (\<lambda>i. 0), inp_buffer_idx = 0, out_buffer = [] \<rparr>"

text \<open>The size of the meta data, and room for them; dump gives their text with a value of origin\_size.\<close>

definition db_init :: "(u64 \<Rightarrow> u8 list) \<Rightarrow> logdb" where
  "db_init dump = (let n = length (dump 0xffffffffffffffff) in
     \<lparr> slices = (\<lambda>k. fresh_slice), process_slice = 0, compress_slice = 0, writeback_slice = 0, is_writing = False,
       origin_size = 0, db_file = le4 (of_nat n) @ replicate n 0, tasks = [], db_call = Ready \<rparr>)"

definition ready_slices :: "logdb \<Rightarrow> nat set" where
  "ready_slices d = {k \<in> insert (compress_slice d) {..<BUFFER_SLICE}. sl_state (slices d k) = PROCESS_READY}"

definition done_slices :: "logdb \<Rightarrow> nat set" where
  "done_slices d = {k \<in> insert (writeback_slice d) {..<BUFFER_SLICE}. sl_state (slices d k) = PROCESS_DONE}"

text \<open>The two loops of close: each takes one slice out of the set it looks for.\<close>

function close_compress :: "(u8 list \<Rightarrow> u8 list option) \<Rightarrow> logdb \<Rightarrow> logdb res" where
  "close_compress zstd d = (let k = compress_slice d in
     if sl_state (slices d k) = PROCESS_READY
     then case zstd (chunk (slices d k)) of
         None \<Rightarrow> Inl (Undefined ''negative size'')
       | Some z \<Rightarrow> close_compress zstd ((upd_slice k (\<lambda>s. s\<lparr> out_buffer := z, sl_state := PROCESS_DONE \<rparr>) d)
           \<lparr> compress_slice := (k + 1) mod BUFFER_SLICE \<rparr>)
     else Inr d)"
  by pat_completeness auto
termination
proof (relation "measure (\<lambda>(zstd, d). card (ready_slices d))")
  fix zstd :: "u8 list \<Rightarrow> u8 list option" and d :: logdb and k z
  assume k: "k = compress_slice d" and r: "sl_state (slices d k) = PROCESS_READY"
  let ?d = "(upd_slice k (\<lambda>s. s\<lparr> out_buffer := z, sl_state := PROCESS_DONE \<rparr>) d)\<lparr> compress_slice := (k + 1) mod BUFFER_SLICE \<rparr>"
  have "ready_slices ?d \<subseteq> ready_slices d - {k}"
    by (auto simp: ready_slices_def upd_slice_def BUFFER_SLICE_def)
  moreover have "k \<in> ready_slices d" "finite (ready_slices d)" using k r by (auto simp: ready_slices_def)
  ultimately have "card (ready_slices ?d) < card (ready_slices d)"
    by (intro psubset_card_mono) auto
  then show "((zstd, ?d), (zstd, d)) \<in> measure (\<lambda>(zstd, d). card (ready_slices d))" by simp
qed simp

function close_write :: "logdb \<Rightarrow> logdb" where
  "close_write d = (let k = writeback_slice d in
     if sl_state (slices d k) = PROCESS_DONE
     then close_write ((upd_slice k (\<lambda>s. s\<lparr> sl_state := FREE \<rparr>) d)
         \<lparr> db_file := db_file d @ out_buffer (slices d k), writeback_slice := (k + 1) mod BUFFER_SLICE \<rparr>)
     else d)"
  by pat_completeness auto
termination
proof (relation "measure (\<lambda>d. card (done_slices d))")
  fix d :: logdb and k
  assume k: "k = writeback_slice d" and r: "sl_state (slices d k) = PROCESS_DONE"
  let ?d = "(upd_slice k (\<lambda>s. s\<lparr> sl_state := FREE \<rparr>) d)
         \<lparr> db_file := db_file d @ out_buffer (slices d k), writeback_slice := (k + 1) mod BUFFER_SLICE \<rparr>"
  have "done_slices ?d \<subseteq> done_slices d - {k}"
    by (auto simp: done_slices_def upd_slice_def BUFFER_SLICE_def)
  moreover have "k \<in> done_slices d" "finite (done_slices d)" using k r by (auto simp: done_slices_def)
  ultimately have "card (done_slices ?d) < card (done_slices d)"
    by (intro psubset_card_mono) auto
  then show "(?d, d) \<in> measure (\<lambda>d. card (done_slices d))" by simp
qed simp

declare close_compress.simps [simp del] close_write.simps [simp del]

definition db_close :: "(u8 list \<Rightarrow> u8 list option) \<Rightarrow> (u64 \<Rightarrow> u8 list) \<Rightarrow> logdb \<Rightarrow> logdb res" where
  "db_close zstd dump d =
    (let p = process_slice d;
         d = d\<lparr> db_file := overwrite 4 (dump (origin_size d)) (db_file d) \<rparr>;
         d = (if inp_buffer_idx (slices d p) \<noteq> 0 then upd_slice p (\<lambda>s. s\<lparr> sl_state := PROCESS_READY \<rparr>) d else d)
     in rbind (close_compress zstd d) (\<lambda>d. Inr (close_write d)))"

section \<open>Runs\<close>

text \<open>
  The caller and the tasks take turns.  A step of the caller is atomic: with the mutex held no task
  changes a state, and without it checkCompress and checkWriteback each read one state that only the caller
  can change back.  Spurious is a wake-up cv.wait allows itself; Close is closeDB, which waits for the pool.
\<close>

datatype db_action = Add "u8 list" | Step | Work db_task | Spurious | Close

fun db_act :: "(u8 list \<Rightarrow> u8 list option) \<Rightarrow> (u64 \<Rightarrow> u8 list) \<Rightarrow> db_action \<Rightarrow> logdb \<Rightarrow> logdb option" where
  "db_act zstd dump (Add b) d = (if db_call d = Ready then Some (d\<lparr> db_call := Test b \<rparr>) else None)"
| "db_act zstd dump Step d = (case db_call d of
      Test b \<Rightarrow> Some (if sl_state (slices d (process_slice d)) = FREE
        then case addData b d of Inl e \<Rightarrow> d\<lparr> db_call := Failed e \<rparr> | Inr d' \<Rightarrow> d'\<lparr> db_call := Ready \<rparr>
        else d\<lparr> db_call := Sleep b \<rparr>)
    | Woken b \<Rightarrow> Some ((checkWriteback (checkCompress d))\<lparr> db_call := Test b \<rparr>)
    | _ \<Rightarrow> None)"
| "db_act zstd dump (Work t) d = (if t \<in> set (tasks d) \<and> (\<forall>e. db_call d \<noteq> Failed e) then Some (work zstd t d) else None)"
| "db_act zstd dump Spurious d = (case db_call d of Sleep b \<Rightarrow> Some (d\<lparr> db_call := Woken b \<rparr>) | _ \<Rightarrow> None)"
| "db_act zstd dump Close d = (if db_call d = Ready \<and> tasks d = []
     then Some (case db_close zstd dump d of Inl e \<Rightarrow> d\<lparr> db_call := Failed e \<rparr> | Inr d' \<Rightarrow> d'\<lparr> db_call := Closed \<rparr>) else None)"

fun db_acts :: "(u8 list \<Rightarrow> u8 list option) \<Rightarrow> (u64 \<Rightarrow> u8 list) \<Rightarrow> db_action list \<Rightarrow> logdb \<Rightarrow> logdb option" where
  "db_acts zstd dump [] d = Some d"
| "db_acts zstd dump (a # as) d = (case db_act zstd dump a d of None \<Rightarrow> None | Some d \<Rightarrow> db_acts zstd dump as d)"

text \<open>The bytes of the records given to the log in a run.\<close>

fun given :: "db_action list \<Rightarrow> u8 list" where
  "given [] = []"
| "given (Add b # as) = b @ given as"
| "given (a # as) = given as"

end
