(* ===== verification/LogDB_Props.thy ===== *)
theory LogDB_Props
  imports LogDB
begin

text \<open>
  The log loses nothing: the slices in the order of the ring, each with the task that works on it, are a list
  of slices given back or being written, followed by a list of full ones; together with the file they hold
  the bytes of all records, in order.  Each step of the caller or of a task keeps this.
\<close>

section \<open>The ring of slices\<close>

text \<open>A slice with its tasks, without their slice numbers; the four slices from process\_slice on.\<close>

fun unslice :: "db_task \<Rightarrow> db_task" where
  "unslice (Compress k n) = Compress 0 n"
| "unslice (Compressed k) = Compressed 0"
| "unslice (Write k) = Write 0"
| "unslice (Written k) = Written 0"
| "unslice (Cleared k) = Cleared 0"
| "unslice (Released k) = Released 0"

definition vw :: "logdb \<Rightarrow> nat \<Rightarrow> log_slice \<times> db_task list" where
  "vw d k = (slices d k, map unslice (filter (\<lambda>t. task_slice t = k) (tasks d)))"

definition view4 :: "logdb \<Rightarrow> (log_slice \<times> db_task list) list" where
  "view4 d = (let p = process_slice d in [vw d p, vw d ((p + 1) mod 4), vw d ((p + 2) mod 4), vw d ((p + 3) mod 4)])"

lemma below4: "(k::nat) < 4 \<longleftrightarrow> k = 0 \<or> k = 1 \<or> k = 2 \<or> k = 3"
  by auto

lemma view4_split:
  assumes "process_slice d < 4" "k < 4"
  obtains us vs where "view4 d = us @ vw d k # vs" "k = (process_slice d + length us) mod 4"
    "\<And>d'. process_slice d' = process_slice d \<Longrightarrow> (\<And>i. i \<noteq> k \<Longrightarrow> vw d' i = vw d i) \<Longrightarrow> view4 d' = us @ vw d' k # vs"
proof -
  let ?p = "process_slice d" and ?v = "\<lambda>i. vw d ((process_slice d + i) mod 4)"
  consider "k = ?p" | "k = (?p + 1) mod 4" | "k = (?p + 2) mod 4" | "k = (?p + 3) mod 4"
    using assms by (auto simp: below4)
  then show thesis
  proof cases
    case 1
    then show thesis using assms by (intro that [of "[]" "[?v 1, ?v 2, ?v 3]"]) (auto simp: view4_def Let_def below4)
  next
    case 2
    then show thesis using assms by (intro that [of "[?v 0]" "[?v 2, ?v 3]"]) (auto simp: view4_def Let_def below4)
  next
    case 3
    then show thesis using assms by (intro that [of "[?v 0, ?v 1]" "[?v 3]"]) (auto simp: view4_def Let_def below4)
  next
    case 4
    then show thesis using assms by (intro that [of "[?v 0, ?v 1, ?v 2]" "[]"]) (auto simp: view4_def Let_def below4)
  qed
qed

lemma view4_rotate:
  assumes "process_slice d < 4" "process_slice d' = (process_slice d + 1) mod 4"
    "\<And>i. i \<noteq> process_slice d \<Longrightarrow> vw d' i = vw d i" "view4 d = x # xs"
  shows "view4 d' = xs @ [vw d' (process_slice d)]" "x = vw d (process_slice d)"
  using assms by (auto simp: view4_def Let_def below4 simp flip: numeral_2_eq_2)

lemma split_cases:
  assumes "us @ e # vs = xs @ ys"
  obtains q where "us = xs @ q" "ys = q @ e # vs" | q where "xs = us @ e # q" "vs = q @ ys"
  using assms by (auto simp: append_eq_append_conv2 Cons_eq_append_conv)

section \<open>The invariant\<close>

definition full :: "(u8 list \<Rightarrow> u8 list option) \<Rightarrow> log_slice \<times> db_task list \<Rightarrow> bool" where
  "full z e \<longleftrightarrow> (case e of (s, ts) \<Rightarrow> inp_buffer_idx s = SLICE_BUFFER_SIZE \<and>
     (sl_state s = PROCESSING \<and>
        (ts = [Compress 0 SLICE_BUFFER_SIZE] \<or> ts = [Compressed 0] \<and> z (chunk s) = Some (out_buffer s)) \<or>
      sl_state s = PROCESS_DONE \<and> ts = [] \<and> z (chunk s) = Some (out_buffer s)))"

definition resting :: "log_slice \<times> db_task list \<Rightarrow> bool" where
  "resting e \<longleftrightarrow> (case e of (s, ts) \<Rightarrow> sl_state s = FREE \<and> ts = [] \<and> inp_buffer_idx s < SLICE_BUFFER_SIZE \<or>
     sl_state s = DONE \<and> ts = [Released 0] \<and> inp_buffer_idx s = 0)"

definition writer :: "(u8 list \<Rightarrow> u8 list option) \<Rightarrow> log_slice \<times> db_task list \<Rightarrow> bool" where
  "writer z e \<longleftrightarrow> (case e of (s, ts) \<Rightarrow> sl_state s = DONE \<and>
     (ts = [Write 0] \<and> z (chunk s) = Some (out_buffer s) \<or> ts = [Written 0] \<or> ts = [Cleared 0] \<and> inp_buffer_idx s = 0))"

definition shape :: "(u8 list \<Rightarrow> u8 list option) \<Rightarrow> bool \<Rightarrow> (log_slice \<times> db_task list) list \<Rightarrow> bool" where
  "shape z w xs \<longleftrightarrow> (if w then xs \<noteq> [] \<and> writer z (last xs) \<and> list_all resting (butlast xs) else list_all resting xs) \<and>
     list_all (\<lambda>e. sl_state (fst e) = FREE \<longrightarrow> inp_buffer_idx (fst e) = 0) (tl xs)"

text \<open>The bytes that have not been written yet: those being written, those in full slices, those in the first slice.\<close>

definition wpart :: "log_slice \<times> db_task list \<Rightarrow> u8 list" where
  "wpart e = (if snd e = [Write 0] then chunk (fst e) else [])"

definition unwritten :: "(log_slice \<times> db_task list) list \<Rightarrow> (log_slice \<times> db_task list) list \<Rightarrow> u8 list" where
  "unwritten xs ys = (if xs = [] then [] else wpart (last xs)) @ concat (map (chunk \<circ> fst) ys) @
     (if xs \<noteq> [] \<and> sl_state (fst (hd xs)) = FREE then chunk (fst (hd xs)) else [])"

definition ring_inv :: "(u8 list \<Rightarrow> u8 list option) \<Rightarrow> u8 list \<Rightarrow> u8 list \<Rightarrow> logdb \<Rightarrow> bool" where
  "ring_inv z hdr bs d \<longleftrightarrow> (\<exists>xs ys ws. view4 d = xs @ ys \<and> process_slice d < 4 \<and> compress_slice d = process_slice d \<and>
     writeback_slice d = (process_slice d + length xs) mod 4 \<and> (\<forall>t \<in> set (tasks d). task_slice t < 4) \<and>
     list_all (full z) ys \<and> shape z (is_writing d) xs \<and>
     db_file d = hdr @ concat (map (the \<circ> z) ws) \<and> (\<forall>w \<in> set ws. z w \<noteq> None) \<and>
     bs = concat ws @ unwritten xs ys \<and> origin_size d = of_nat (length bs))"

lemma ring_inv_call [simp]: "ring_inv z hdr bs (d\<lparr> db_call := c \<rparr>) = ring_inv z hdr bs d"
  by (simp add: ring_inv_def view4_def vw_def)

lemma chunk_empty [simp]: "inp_buffer_idx s = 0 \<Longrightarrow> chunk s = []"
  by (simp add: chunk_def)

lemma chunk_upd [simp]: "chunk (s\<lparr> sl_state := x \<rparr>) = chunk s" "chunk (s\<lparr> out_buffer := y \<rparr>) = chunk s"
  by (simp_all add: chunk_def)

lemma size_pos [simp]: "0 < SLICE_BUFFER_SIZE" "SLICE_BUFFER_SIZE \<noteq> 0"
  by (simp_all add: SLICE_BUFFER_SIZE_def)

section \<open>One slice changes\<close>

text \<open>The places where a slice that has a task can be.\<close>

lemma full_replace:
  "list_all (full z) (q @ e # vs) \<Longrightarrow> full z e' \<Longrightarrow> chunk (fst e') = chunk (fst e) \<Longrightarrow>
   list_all (full z) (q @ e' # vs) \<and> unwritten xs (q @ e' # vs) = unwritten xs (q @ e # vs)"
  by (simp add: unwritten_def)

lemma shape_mid: "shape z w (us @ e # q) \<Longrightarrow> q \<noteq> [] \<or> \<not> w \<Longrightarrow> resting e"
  by (auto simp: shape_def butlast_append split: if_splits)

lemma shape_end: "shape z True (us @ [e]) \<Longrightarrow> writer z e \<and> list_all resting us"
  by (simp add: shape_def)

lemma shape_elem: "shape z w (us @ e # q) \<Longrightarrow> resting e \<or> writer z e"
  using shape_mid shape_end by (cases "q = [] \<and> w") fastforce+

lemma tl_mid: "list_all P (tl (us @ e # q)) \<longleftrightarrow> list_all P (tl us) \<and> (us \<noteq> [] \<longrightarrow> P e) \<and> list_all P q"
  by (cases us) auto

lemma released_replace:
  assumes "shape z w (us @ e # q)" "snd e = [Released 0]" "sl_state (fst e') = FREE" "snd e' = []" "inp_buffer_idx (fst e') = 0"
  shows "shape z w (us @ e' # q) \<and> unwritten (us @ e' # q) ys = unwritten (us @ e # q) ys"
proof -
  have e: "\<not> writer z e" "resting e'" "wpart e = []" "wpart e' = []"
    using assms(2-5) by (auto simp: writer_def resting_def wpart_def split: prod.splits)
  then have q: "resting e" using shape_elem [OF assms(1)] by blast
  then have f: "sl_state (fst e) \<noteq> FREE" using assms(2) by (auto simp: resting_def split: prod.splits)
  have w: "\<not> (w \<and> q = [])" using assms(1) e(1) by (auto simp: shape_def)
  have "shape z w (us @ e' # q)"
    using assms(1,5) e(2) w unfolding shape_def tl_mid by (auto simp: butlast_append split: if_splits)
  moreover have "unwritten (us @ e' # q) ys = unwritten (us @ e # q) ys"
    using assms(3,5) e(3,4) f by (cases us) (auto simp: unwritten_def)
  ultimately show ?thesis ..
qed

lemma writer_last:
  assumes "shape z w (us @ e # q)" "snd e = [Write 0] \<or> snd e = [Written 0] \<or> snd e = [Cleared 0]"
  shows "w" "q = []" "writer z e"
proof -
  have n: "\<not> resting e" using assms(2) by (auto simp: resting_def split: prod.splits)
  then show "w" "q = []" "writer z e" using shape_mid [OF assms(1)] shape_elem [OF assms(1)] by auto
qed

lemma last_replace:
  assumes "shape z True (us @ [e])" "writer z e'"
  shows "shape z True (us @ [e'])"
  using assms by (cases us) (auto simp: shape_def writer_def)

lemma last_resting:
  assumes "shape z True (us @ [e])" "resting e'" "inp_buffer_idx (fst e') = 0"
  shows "shape z False (us @ [e'])"
  using assms by (cases us) (auto simp: shape_def)

section \<open>The steps\<close>

lemma vw_upd: "vw (upd_slice k f d) i = (if i = k then (f (slices d k), snd (vw d k)) else vw d i)"
  by (simp add: vw_def upd_slice_def)

lemma vw_swap:
  assumes "\<forall>u \<in> set us. task_slice u = task_slice t"
  shows "vw (swap_task t us d) i = (if i = task_slice t
    then (slices d i, map unslice (remove1 t (filter (\<lambda>t. task_slice t = i) (tasks d))) @ map unslice us) else vw d i)"
proof -
  have "filter (\<lambda>t. task_slice t = i) us = (if i = task_slice t then us else [])" using assms by (induction us) auto
  then show ?thesis by (auto simp: vw_def swap_task_def filter_remove1 remove1_idem)
qed

text \<open>A slice has at most one task, so the one that takes a step is its only one.\<close>

lemma only_task:
  assumes "t \<in> set (tasks d)" "snd (vw d (task_slice t)) = [u]"
  shows "u = unslice t" "remove1 t (filter (\<lambda>u. task_slice u = task_slice t) (tasks d)) = []"
proof -
  have t: "t \<in> set (filter (\<lambda>u. task_slice u = task_slice t) (tasks d))" using assms(1) by simp
  obtain v where "filter (\<lambda>u. task_slice u = task_slice t) (tasks d) = [v]" "unslice v = u" using assms(2) by (auto simp: vw_def)
  then show "u = unslice t" "remove1 t (filter (\<lambda>u. task_slice u = task_slice t) (tasks d)) = []" using t by auto
qed

lemma has_task: "t \<in> set (tasks d) \<Longrightarrow> snd (vw d (task_slice t)) \<noteq> []"
  by (force simp: vw_def filter_empty_conv)

lemma elem_tasks: "full z e \<or> resting e \<or> writer z e \<Longrightarrow> snd e \<noteq> [] \<Longrightarrow> \<exists>u. snd e = [u]"
  by (auto simp: full_def resting_def writer_def split: prod.splits)

text \<open>The two places the slice of a task can be in, and the ring after the slice has changed.\<close>

lemma task_place:
  assumes "ring_inv z hdr bs d" "t \<in> set (tasks d)"
  obtains (busy) xs q vs ws where "view4 d = xs @ q @ vw d (task_slice t) # vs" "snd (vw d (task_slice t)) = [unslice t]"
      "full z (vw d (task_slice t))"
    and "process_slice d < 4" "compress_slice d = process_slice d" "writeback_slice d = (process_slice d + length xs) mod 4"
      "list_all (full z) (q @ vw d (task_slice t) # vs)" "shape z (is_writing d) xs"
      "db_file d = hdr @ concat (map (the \<circ> z) ws)" "\<forall>w \<in> set ws. z w \<noteq> None"
      "bs = concat ws @ unwritten xs (q @ vw d (task_slice t) # vs)" "origin_size d = of_nat (length bs)"
      "\<And>d'. process_slice d' = process_slice d \<Longrightarrow> (\<And>i. i \<noteq> task_slice t \<Longrightarrow> vw d' i = vw d i) \<Longrightarrow>
         view4 d' = xs @ q @ vw d' (task_slice t) # vs"
  | (given_back) us q ys ws where "view4 d = (us @ vw d (task_slice t) # q) @ ys" "snd (vw d (task_slice t)) = [unslice t]"
      "resting (vw d (task_slice t)) \<or> writer z (vw d (task_slice t))"
    and "process_slice d < 4" "compress_slice d = process_slice d"
      "writeback_slice d = (process_slice d + length (us @ vw d (task_slice t) # q)) mod 4"
      "list_all (full z) ys" "shape z (is_writing d) (us @ vw d (task_slice t) # q)"
      "db_file d = hdr @ concat (map (the \<circ> z) ws)" "\<forall>w \<in> set ws. z w \<noteq> None"
      "bs = concat ws @ unwritten (us @ vw d (task_slice t) # q) ys" "origin_size d = of_nat (length bs)"
      "\<And>d'. process_slice d' = process_slice d \<Longrightarrow> (\<And>i. i \<noteq> task_slice t \<Longrightarrow> vw d' i = vw d i) \<Longrightarrow>
         view4 d' = (us @ vw d' (task_slice t) # q) @ ys"
proof -
  let ?k = "task_slice t"
  obtain xs ys ws where i: "view4 d = xs @ ys" "process_slice d < 4" "compress_slice d = process_slice d"
     "writeback_slice d = (process_slice d + length xs) mod 4" "\<forall>t \<in> set (tasks d). task_slice t < 4"
     "list_all (full z) ys" "shape z (is_writing d) xs" "db_file d = hdr @ concat (map (the \<circ> z) ws)" "\<forall>w \<in> set ws. z w \<noteq> None"
     "bs = concat ws @ unwritten xs ys" "origin_size d = of_nat (length bs)"
    using assms(1) by (auto simp: ring_inv_def)
  have k: "?k < 4" using i(5) assms(2) by blast
  obtain us vs where v: "view4 d = us @ vw d ?k # vs"
    "\<And>d'. process_slice d' = process_slice d \<Longrightarrow> (\<And>i. i \<noteq> ?k \<Longrightarrow> vw d' i = vw d i) \<Longrightarrow> view4 d' = us @ vw d' ?k # vs"
    by (rule view4_split [OF i(2) k]) blast
  note ne = has_task [OF assms(2)]
  from v(1) [unfolded i(1), symmetric] show thesis
  proof (cases rule: split_cases)
    case (1 q)
    then have f: "full z (vw d ?k)" using i(6) by simp
    then obtain u where "snd (vw d ?k) = [u]" using elem_tasks ne by blast
    then have "snd (vw d ?k) = [unslice t]" using only_task(1) [OF assms(2)] by simp
    then show thesis using 1 f i v by (intro busy [of xs q vs ws]) auto
  next
    case (2 q)
    then have f: "resting (vw d ?k) \<or> writer z (vw d ?k)" using i(7) shape_elem by blast
    then obtain u where "snd (vw d ?k) = [u]" using elem_tasks ne by blast
    then have "snd (vw d ?k) = [unslice t]" using only_task(1) [OF assms(2)] by simp
    then show thesis using 2 f i v by (intro given_back [of us q ys ws]) auto
  qed
qed

lemma ring_invI:
  assumes "view4 d = xs @ ys" "process_slice d < 4" "compress_slice d = process_slice d"
    "writeback_slice d = (process_slice d + length xs) mod 4" "\<forall>t \<in> set (tasks d). task_slice t < 4"
    "list_all (full z) ys" "shape z (is_writing d) xs" "db_file d = hdr @ concat (map (the \<circ> z) ws)" "\<forall>w \<in> set ws. z w \<noteq> None"
    "bs = concat ws @ unwritten xs ys" "origin_size d = of_nat (length bs)"
  shows "ring_inv z hdr bs d"
  unfolding ring_inv_def using assms by blast

lemma ring_inv_tasks: "ring_inv z hdr bs d \<Longrightarrow> t \<in> set (tasks d) \<Longrightarrow> task_slice t < 4"
  by (auto simp: ring_inv_def)

lemma ring_inv_notify [simp]: "ring_inv z hdr bs (notify_one d) = ring_inv z hdr bs d"
  by (simp add: notify_one_def split: db_caller.split)

text \<open>A task takes a step: what is seen of the slices.\<close>

lemma vw_step:
  assumes "t \<in> set (tasks d)" "snd (vw d (task_slice t)) = [unslice t]" "\<forall>u \<in> set us. task_slice u = task_slice t"
    and "tasks d0 = tasks d" "slices d0 = (slices d)(task_slice t := s)"
  shows "vw (swap_task t us d0) i = (if i = task_slice t then (s, map unslice us) else vw d i)"
proof -
  have "remove1 t (filter (\<lambda>u. task_slice u = task_slice t) (tasks d)) = []" using only_task [OF assms(1,2)] by simp
  then show ?thesis unfolding vw_swap [OF assms(3)] using assms(4,5) by (auto simp: vw_def)
qed

lemma swap_below:
  assumes "ring_inv z hdr bs d" "tasks d0 = tasks d" "t \<in> set (tasks d)" "\<forall>u \<in> set us. task_slice u = task_slice t"
  shows "\<forall>u \<in> set (tasks (swap_task t us d0)). task_slice u < 4"
proof -
  have "set (remove1 t (tasks d)) \<subseteq> set (tasks d)" by (rule set_remove1_subset)
  then show ?thesis using ring_inv_tasks [OF assms(1)] assms(2-4) by (auto simp: swap_task_def)
qed

lemma swap_other [simp]: "process_slice (swap_task t us d) = process_slice d" "compress_slice (swap_task t us d) = compress_slice d"
  "writeback_slice (swap_task t us d) = writeback_slice d" "is_writing (swap_task t us d) = is_writing d"
  "db_file (swap_task t us d) = db_file d" "origin_size (swap_task t us d) = origin_size d"
  "db_call (swap_task t us d) = db_call d" "slices (swap_task t us d) = slices d"
  by (simp_all add: swap_task_def)

lemma upd_other [simp]: "process_slice (upd_slice k f d) = process_slice d" "compress_slice (upd_slice k f d) = compress_slice d"
  "writeback_slice (upd_slice k f d) = writeback_slice d" "is_writing (upd_slice k f d) = is_writing d"
  "db_file (upd_slice k f d) = db_file d" "origin_size (upd_slice k f d) = origin_size d" "tasks (upd_slice k f d) = tasks d"
  "db_call (upd_slice k f d) = db_call d" "slices (upd_slice k f d) = (slices d)(k := f (slices d k))"
  by (simp_all add: upd_slice_def)

lemma busy_step:
  assumes "ring_inv z hdr bs d" "t \<in> set (tasks d)" "\<forall>u \<in> set us. task_slice u = task_slice t"
    and "snd (vw d (task_slice t)) = [unslice t]" "full z (vw d (task_slice t))"
    and "full z (f (slices d (task_slice t)), map unslice us)" "chunk (f (slices d (task_slice t))) = chunk (slices d (task_slice t))"
  shows "ring_inv z hdr bs (swap_task t us (upd_slice (task_slice t) f d))"
proof (cases rule: task_place [OF assms(1,2)])
  case (1 xs q vs ws)
  let ?d = "swap_task t us (upd_slice (task_slice t) f d)"
  have v: "vw ?d i = (if i = task_slice t then (f (slices d (task_slice t)), map unslice us) else vw d i)" for i
    by (rule vw_step [OF assms(2,4,3)]) simp_all
  have "view4 ?d = xs @ q @ (f (slices d (task_slice t)), map unslice us) # vs" using 1(13) [of ?d] v by simp
  moreover have "\<forall>u \<in> set (tasks ?d). task_slice u < 4"
    by (rule swap_below [OF assms(1) _ assms(2,3)]) simp
  moreover have "chunk (fst (f (slices d (task_slice t)), map unslice us)) = chunk (fst (vw d (task_slice t)))"
    using assms(7) by (simp add: vw_def)
  note full_replace [OF 1(7) assms(6) this, of xs]
  ultimately show ?thesis using 1(4-12) by (intro ring_invI [where xs = xs and ws = ws and ys = "q @ (f (slices d (task_slice t)), map unslice us) # vs"]) auto
next
  case 2
  then show ?thesis using assms(5) by (auto simp: full_def resting_def writer_def split: prod.splits)
qed

lemma released_step:
  assumes "ring_inv z hdr bs d" "t \<in> set (tasks d)" "t = Released k"
  shows "ring_inv z hdr bs (swap_task t [] (upd_slice k (\<lambda>s. s\<lparr> sl_state := FREE \<rparr>) d))"
proof (cases rule: task_place [OF assms(1,2)])
  case (2 us q ys ws)
  let ?d = "swap_task t [] (upd_slice k (\<lambda>s. s\<lparr> sl_state := FREE \<rparr>) d)"
  let ?e = "((slices d k)\<lparr> sl_state := FREE \<rparr>, [])"
  have k: "task_slice t = k" "unslice t = Released 0" using assms(3) by simp_all
  have e: "snd (vw d k) = [Released 0]" "inp_buffer_idx (slices d k) = 0"
    using 2(2,3) by (auto simp: k vw_def resting_def writer_def)
  have v: "vw ?d i = (if i = k then ?e else vw d i)" for i
    by (subst vw_step [OF assms(2) 2(2), where s = "fst ?e"]) (use k in simp_all)
  have "view4 ?d = (us @ ?e # q) @ ys" using 2(13) [of ?d] v k by simp
  moreover have "\<forall>u \<in> set (tasks ?d). task_slice u < 4"
    by (rule swap_below [OF assms(1) _ assms(2)]) simp_all
  moreover have "shape z (is_writing d) (us @ ?e # q) \<and> unwritten (us @ ?e # q) ys = unwritten (us @ vw d k # q) ys"
    using released_replace [OF 2(8) [unfolded k] e(1), of ?e] e(2) by simp
  ultimately show ?thesis using 2(4-12) k by (intro ring_invI [where xs = "us @ ?e # q" and ws = ws and ys = ys]) auto
next
  case 1
  then show ?thesis using assms(3) by (auto simp: full_def split: prod.splits)
qed

text \<open>The slice that is being written is the last one given back.\<close>

lemma writing_place:
  assumes "ring_inv z hdr bs d" "t \<in> set (tasks d)" "t = Write k \<or> t = Written k \<or> t = Cleared k"
  obtains us ys ws where "snd (vw d k) = [unslice t]" "writer z (vw d k)" "is_writing d"
    "process_slice d < 4" "compress_slice d = process_slice d" "writeback_slice d = (process_slice d + length (us @ [vw d k])) mod 4"
    "list_all (full z) ys" "shape z True (us @ [vw d k])" "db_file d = hdr @ concat (map (the \<circ> z) ws)" "\<forall>w \<in> set ws. z w \<noteq> None"
    "bs = concat ws @ unwritten (us @ [vw d k]) ys" "origin_size d = of_nat (length bs)"
    "\<And>d'. process_slice d' = process_slice d \<Longrightarrow> (\<And>i. i \<noteq> k \<Longrightarrow> vw d' i = vw d i) \<Longrightarrow> view4 d' = (us @ [vw d' k]) @ ys"
proof -
  have k: "task_slice t = k" "unslice t = Write 0 \<or> unslice t = Written 0 \<or> unslice t = Cleared 0" using assms(3) by auto
  show thesis
  proof (cases rule: task_place [OF assms(1,2)])
    case (2 us q ys ws)
    have "is_writing d" "q = []" "writer z (vw d k)" using writer_last [OF 2(8)] 2(2) k by auto
    then show ?thesis using 2 k by (intro that [of us ys ws]) auto
  next
    case 1
    then show ?thesis using k(2) by (auto simp: full_def split: prod.splits)
  qed
qed

lemma write_step:
  assumes "ring_inv z hdr bs d" "t \<in> set (tasks d)" "t = Write k"
  shows "ring_inv z hdr bs (swap_task t [Written k] (d\<lparr> db_file := db_file d @ out_buffer (slices d k) \<rparr>))"
proof -
  have "t = Write k \<or> t = Written k \<or> t = Cleared k" using assms(3) by simp
  then obtain us ys ws where w: "snd (vw d k) = [unslice t]" "writer z (vw d k)" "is_writing d"
    "process_slice d < 4" "compress_slice d = process_slice d" "writeback_slice d = (process_slice d + length (us @ [vw d k])) mod 4"
    "list_all (full z) ys" "shape z True (us @ [vw d k])" "db_file d = hdr @ concat (map (the \<circ> z) ws)" "\<forall>w \<in> set ws. z w \<noteq> None"
    "bs = concat ws @ unwritten (us @ [vw d k]) ys" "origin_size d = of_nat (length bs)"
    "\<And>d'. process_slice d' = process_slice d \<Longrightarrow> (\<And>i. i \<noteq> k \<Longrightarrow> vw d' i = vw d i) \<Longrightarrow> view4 d' = (us @ [vw d' k]) @ ys"
    by (rule writing_place [OF assms(1,2)]) blast
  let ?d = "swap_task t [Written k] (d\<lparr> db_file := db_file d @ out_buffer (slices d k) \<rparr>)"
  let ?e = "(slices d k, [Written 0])" and ?c = "chunk (slices d k)"
  have s: "sl_state (slices d k) = DONE" "z ?c = Some (out_buffer (slices d k))" "snd (vw d k) = [Write 0]"
    using w(1,2) assms(3) by (auto simp: vw_def writer_def)
  have v: "vw ?d i = (if i = k then ?e else vw d i)" for i
    using vw_step [OF assms(2), of "[Written k]" "d\<lparr> db_file := db_file d @ out_buffer (slices d k) \<rparr>" "slices d k" i] w(1) assms(3) by simp
  have "view4 ?d = (us @ [?e]) @ ys" using w(13) [of ?d] v by simp
  moreover have "\<forall>u \<in> set (tasks ?d). task_slice u < 4"
    by (rule swap_below [OF assms(1) _ assms(2)]) (use assms(3) in simp_all)
  moreover have "shape z True (us @ [?e])" by (rule last_replace [OF w(8)]) (use s(1) in \<open>auto simp: writer_def\<close>)
  moreover have "bs = concat (ws @ [?c]) @ unwritten (us @ [?e]) ys"
    using w(11) s by (cases us) (auto simp: unwritten_def wpart_def vw_def)
  ultimately show ?thesis using w(3-10,12) s(2) by (intro ring_invI [where xs = "us @ [?e]" and ws = "ws @ [?c]" and ys = ys]) auto
qed

lemma written_step:
  assumes "ring_inv z hdr bs d" "t \<in> set (tasks d)" "t = Written k"
  shows "ring_inv z hdr bs (swap_task t [Cleared k] (upd_slice k (\<lambda>s. s\<lparr> inp_buffer_idx := 0, out_buffer := [] \<rparr>) d))"
proof -
  have "t = Write k \<or> t = Written k \<or> t = Cleared k" using assms(3) by simp
  then obtain us ys ws where w: "snd (vw d k) = [unslice t]" "writer z (vw d k)" "is_writing d"
    "process_slice d < 4" "compress_slice d = process_slice d" "writeback_slice d = (process_slice d + length (us @ [vw d k])) mod 4"
    "list_all (full z) ys" "shape z True (us @ [vw d k])" "db_file d = hdr @ concat (map (the \<circ> z) ws)" "\<forall>w \<in> set ws. z w \<noteq> None"
    "bs = concat ws @ unwritten (us @ [vw d k]) ys" "origin_size d = of_nat (length bs)"
    "\<And>d'. process_slice d' = process_slice d \<Longrightarrow> (\<And>i. i \<noteq> k \<Longrightarrow> vw d' i = vw d i) \<Longrightarrow> view4 d' = (us @ [vw d' k]) @ ys"
    by (rule writing_place [OF assms(1,2)]) blast
  let ?u = "upd_slice k (\<lambda>s. s\<lparr> inp_buffer_idx := 0, out_buffer := [] \<rparr>) d"
  let ?d = "swap_task t [Cleared k] ?u"
  let ?e = "((slices d k)\<lparr> inp_buffer_idx := 0, out_buffer := [] \<rparr>, [Cleared 0])"
  have s: "sl_state (slices d k) = DONE" "snd (vw d k) = [Written 0]" using w(1,2) assms(3) by (auto simp: vw_def writer_def)
  have v: "vw ?d i = (if i = k then ?e else vw d i)" for i
    using vw_step [OF assms(2), of "[Cleared k]" ?u "fst ?e" i] w(1) assms(3) by simp
  have "view4 ?d = (us @ [?e]) @ ys" using w(13) [of ?d] v by simp
  moreover have "\<forall>u \<in> set (tasks ?d). task_slice u < 4"
    by (rule swap_below [OF assms(1) _ assms(2)]) (use assms(3) in simp_all)
  moreover have "shape z True (us @ [?e])" by (rule last_replace [OF w(8)]) (use s(1) in \<open>auto simp: writer_def\<close>)
  moreover have "bs = concat ws @ unwritten (us @ [?e]) ys"
    using w(11) s by (cases us) (auto simp: unwritten_def wpart_def vw_def)
  ultimately show ?thesis using w(3-10,12) by (intro ring_invI [where xs = "us @ [?e]" and ws = ws and ys = ys]) auto
qed

lemma cleared_step:
  assumes "ring_inv z hdr bs d" "t \<in> set (tasks d)" "t = Cleared k"
  shows "ring_inv z hdr bs (swap_task t [Released k] (d\<lparr> is_writing := False \<rparr>))"
proof -
  have "t = Write k \<or> t = Written k \<or> t = Cleared k" using assms(3) by simp
  then obtain us ys ws where w: "snd (vw d k) = [unslice t]" "writer z (vw d k)" "is_writing d"
    "process_slice d < 4" "compress_slice d = process_slice d" "writeback_slice d = (process_slice d + length (us @ [vw d k])) mod 4"
    "list_all (full z) ys" "shape z True (us @ [vw d k])" "db_file d = hdr @ concat (map (the \<circ> z) ws)" "\<forall>w \<in> set ws. z w \<noteq> None"
    "bs = concat ws @ unwritten (us @ [vw d k]) ys" "origin_size d = of_nat (length bs)"
    "\<And>d'. process_slice d' = process_slice d \<Longrightarrow> (\<And>i. i \<noteq> k \<Longrightarrow> vw d' i = vw d i) \<Longrightarrow> view4 d' = (us @ [vw d' k]) @ ys"
    by (rule writing_place [OF assms(1,2)]) blast
  let ?u = "d\<lparr> is_writing := False \<rparr>"
  let ?d = "swap_task t [Released k] ?u"
  let ?e = "(slices d k, [Released 0])"
  have s: "sl_state (slices d k) = DONE" "snd (vw d k) = [Cleared 0]" "inp_buffer_idx (slices d k) = 0"
    using w(1,2) assms(3) by (auto simp: vw_def writer_def)
  have v: "vw ?d i = (if i = k then ?e else vw d i)" for i
    using vw_step [OF assms(2), of "[Released k]" ?u "slices d k" i] w(1) assms(3) by simp
  have "view4 ?d = (us @ [?e]) @ ys" using w(13) [of ?d] v by simp
  moreover have "\<forall>u \<in> set (tasks ?d). task_slice u < 4"
    by (rule swap_below [OF assms(1) _ assms(2)]) (use assms(3) in simp_all)
  moreover have "shape z False (us @ [?e])" by (rule last_resting [OF w(8)]) (use s in \<open>auto simp: resting_def\<close>)
  moreover have "bs = concat ws @ unwritten (us @ [?e]) ys"
    using w(11) s by (cases us) (auto simp: unwritten_def wpart_def vw_def)
  ultimately show ?thesis using w(4-10,12) by (intro ring_invI [where xs = "us @ [?e]" and ws = ws and ys = ys]) auto
qed

lemma work_ring:
  assumes "ring_inv z hdr bs d" "t \<in> set (tasks d)"
  shows "ring_inv z hdr bs (work z t d) \<or> (\<exists>e. db_call (work z t d) = Failed e)"
proof (cases t)
  case t: (Compress k n)
  have f: "full z (vw d k)" "snd (vw d k) = [Compress 0 n]"
    using assms(2) t by (cases rule: task_place [OF assms]; auto simp: resting_def writer_def split: prod.splits)+
  then have s: "sl_state (slices d k) = PROCESSING" "n = SLICE_BUFFER_SIZE" "inp_buffer_idx (slices d k) = n"
    by (auto simp: full_def vw_def)
  show ?thesis
  proof (cases "z (chunk (slices d k))")
    case None
    then show ?thesis using t s(3) by (simp add: chunk_def)
  next
    case (Some y)
    have "ring_inv z hdr bs (swap_task t [Compressed k] (upd_slice (task_slice t) (\<lambda>s. s\<lparr> out_buffer := y \<rparr>) d))"
      by (rule busy_step [OF assms]) (use t f s Some in \<open>simp_all add: full_def\<close>)
    then show ?thesis using t s(3) Some by (simp add: chunk_def)
  qed
next
  case t: (Compressed k)
  have f: "full z (vw d k)" "snd (vw d k) = [Compressed 0]"
    using assms(2) t by (cases rule: task_place [OF assms]; auto simp: resting_def writer_def split: prod.splits)+
  then have s: "inp_buffer_idx (slices d k) = SLICE_BUFFER_SIZE" "z (chunk (slices d k)) = Some (out_buffer (slices d k))"
    by (auto simp: full_def vw_def)
  have "ring_inv z hdr bs (swap_task t [] (upd_slice (task_slice t) (\<lambda>s. s\<lparr> sl_state := PROCESS_DONE \<rparr>) d))"
    by (rule busy_step [OF assms]) (use t f s in \<open>simp_all add: full_def\<close>)
  then show ?thesis using t by simp
qed (use write_step [OF assms] written_step [OF assms] cleared_step [OF assms] released_step [OF assms] in simp_all)

section \<open>The steps of the caller\<close>

lemma view4_head:
  assumes "process_slice d < 4"
  obtains r where "view4 d = vw d (process_slice d) # r" "length r = 3"
    "\<And>d'. process_slice d' = process_slice d \<Longrightarrow> (\<And>i. i \<noteq> process_slice d \<Longrightarrow> vw d' i = vw d i) \<Longrightarrow>
       view4 d' = vw d' (process_slice d) # r"
proof -
  let ?p = "process_slice d"
  have "(?p + 1) mod 4 \<noteq> ?p" "(?p + 2) mod 4 \<noteq> ?p" "(?p + 3) mod 4 \<noteq> ?p" using assms by (auto simp: below4)
  then show thesis
    by (intro that [of "[vw d ((?p + 1) mod 4), vw d ((?p + 2) mod 4), vw d ((?p + 3) mod 4)]"]) (simp_all add: view4_def Let_def)
qed

lemma mod4_cancel: "(p + a) mod 4 = (p + b) mod 4 \<Longrightarrow> a < 4 \<Longrightarrow> b < 4 \<Longrightarrow> a = (b :: nat)"
  by presburger

lemma length_view4: "length (view4 d) = 4"
  by (simp add: view4_def Let_def)

lemma shape_elems: "shape z w xs \<Longrightarrow> e \<in> set xs \<Longrightarrow> resting e \<or> writer z e"
  using shape_elem by (metis split_list)

lemma ring_elems: "ring_inv z hdr bs d \<Longrightarrow> e \<in> set (view4 d) \<Longrightarrow> full z e \<or> resting e \<or> writer z e"
  by (auto simp: ring_inv_def list_all_iff dest: shape_elems)

lemma not_ready: "full z e \<or> resting e \<or> writer z e \<Longrightarrow> sl_state (fst e) \<noteq> PROCESS_READY"
  by (auto simp: full_def resting_def writer_def)

lemma checkCompress_idle:
  assumes "ring_inv z hdr bs d"
  shows "checkCompress d = d"
proof -
  have p: "process_slice d < 4" "compress_slice d = process_slice d" using assms by (auto simp: ring_inv_def)
  have "vw d (process_slice d) \<in> set (view4 d)" by (simp add: view4_def Let_def)
  then have "sl_state (fst (vw d (process_slice d))) \<noteq> PROCESS_READY" using ring_elems [OF assms] not_ready by blast
  then show ?thesis using p(2) by (simp add: checkCompress_def Let_def vw_def)
qed

lemma append_task: "vw (d\<lparr> tasks := tasks d @ [t] \<rparr>) i = (slices d i, snd (vw d i) @ (if task_slice t = i then [unslice t] else []))"
  by (simp add: vw_def)

lemma checkWriteback_ring:
  assumes "ring_inv z hdr bs d"
  shows "ring_inv z hdr bs (checkWriteback d)"
proof -
  let ?w = "writeback_slice d" and ?p = "process_slice d"
  obtain xs ys ws where i: "view4 d = xs @ ys" "?p < 4" "compress_slice d = ?p"
     "?w = (?p + length xs) mod 4" "\<forall>t \<in> set (tasks d). task_slice t < 4"
     "list_all (full z) ys" "shape z (is_writing d) xs" "db_file d = hdr @ concat (map (the \<circ> z) ws)" "\<forall>w \<in> set ws. z w \<noteq> None"
     "bs = concat ws @ unwritten xs ys" "origin_size d = of_nat (length bs)"
    using assms by (auto simp: ring_inv_def)
  show ?thesis
  proof (cases "sl_state (slices d ?w) = PROCESS_DONE \<and> \<not> is_writing d")
    case False
    then have "checkWriteback d = d" by (auto simp: checkWriteback_def Let_def)
    then show ?thesis using assms by simp
  next
    case True
    have w4: "?w < 4" using i(4) by simp
    obtain us vs where v: "view4 d = us @ vw d ?w # vs" "?w = (?p + length us) mod 4"
      "\<And>d'. process_slice d' = ?p \<Longrightarrow> (\<And>i. i \<noteq> ?w \<Longrightarrow> vw d' i = vw d i) \<Longrightarrow> view4 d' = us @ vw d' ?w # vs"
      by (rule view4_split [OF i(2) w4]) blast
    have l: "length us < 4" "length xs \<le> 4" using arg_cong [OF v(1), of length] arg_cong [OF i(1), of length] by (simp_all add: length_view4)
    have "length xs \<noteq> 4"
    proof
      assume "length xs = 4"
      then have "vw d ?w \<in> set xs" using i(1,2,4) length_view4 [of d] by (cases ys) (auto simp: view4_def Let_def)
      then show False using shape_elems [OF i(7)] True by (fastforce simp: resting_def writer_def vw_def)
    qed
    then have "length us = length xs" using l by (intro mod4_cancel [OF trans [OF v(2) [symmetric] i(4)]]) simp_all
    then have us: "us = xs" "ys = vw d ?w # vs" using i(1) v(1) by simp_all
    let ?d = "checkWriteback d"
    let ?e = "((slices d ?w)\<lparr> sl_state := DONE \<rparr>, [Write 0])"
    have d: "?d = (upd_slice ?w (\<lambda>s. s\<lparr> sl_state := DONE \<rparr>) d)
       \<lparr> is_writing := True, tasks := tasks d @ [Write ?w], writeback_slice := (?w + 1) mod 4 \<rparr>"
      using True by (simp add: checkWriteback_def Let_def BUFFER_SLICE_def)
    have f: "full z (vw d ?w)" using i(6) us by simp
    then have s: "snd (vw d ?w) = []" "z (chunk (slices d ?w)) = Some (out_buffer (slices d ?w))"
      using True by (auto simp: full_def vw_def)
    have "vw ?d i = (if i = ?w then ?e else vw d i)" for i
      unfolding d using s(1) by (auto simp: vw_def)
    then have view: "view4 ?d = (xs @ [?e]) @ vs" using v(3) [of ?d] us d by simp
    have q: "list_all resting xs" "list_all (\<lambda>e. sl_state (fst e) = FREE \<longrightarrow> inp_buffer_idx (fst e) = 0) (tl xs)"
      using i(7) True by (simp_all add: shape_def)
    have "shape z True (xs @ [?e])" using q s(2) by (cases xs) (auto simp: shape_def writer_def)
    moreover have "wpart (last xs) = []" if "xs \<noteq> []"
    proof -
      have "resting (last xs)" using q(1) that by (simp add: list_all_iff)
      then show ?thesis by (auto simp: resting_def wpart_def split: prod.splits)
    qed
    then have "unwritten xs ys = unwritten (xs @ [?e]) vs"
      using us True by (cases xs) (auto simp: unwritten_def wpart_def vw_def)
    moreover have "(?w + 1) mod 4 = (?p + length (xs @ [?e])) mod 4" using i(4) by simp presburger
    ultimately show ?thesis
      using i us view by (intro ring_invI [where xs = "xs @ [?e]" and ys = vs and ws = ws]) (simp_all add: d)
  qed
qed

lemma chunk_copy [simp]: "chunk (copy_in b s) = chunk s @ b"
proof -
  let ?n = "inp_buffer_idx s" and ?f = "inp_buffer (copy_in b s)"
  have "map ?f [?n..<?n + length b] = b" by (rule nth_equalityI) (simp_all add: copy_in_def)
  moreover have "map ?f [0..<?n] = chunk s" by (simp add: chunk_def copy_in_def)
  moreover have "[0..<?n + length b] = [0..<?n] @ [?n..<?n + length b]" by (rule upt_add_eq_append) simp
  moreover have "chunk (copy_in b s) = map ?f [0..<?n + length b]" by (simp add: chunk_def copy_in_def)
  ultimately show ?thesis by (simp only: map_append)
qed

end
