(* ===== verification/LogDB_Runs.thy ===== *)
theory LogDB_Runs
  imports LogDB_Props
begin

text \<open>The runs of the log: addData, close, and the properties of whole runs.\<close>

section \<open>addData\<close>

lemma copy_sel [simp]: "sl_state (copy_in b s) = sl_state s" "inp_buffer_idx (copy_in b s) = inp_buffer_idx s + length b"
  "out_buffer (copy_in b s) = out_buffer s"
  by (simp_all add: copy_in_def)

lemma free_head:
  assumes "ring_inv z hdr bs d" "sl_state (slices d (process_slice d)) = FREE"
  obtains xs ys ws where "view4 d = (vw d (process_slice d) # xs) @ ys" "process_slice d < 4" "compress_slice d = process_slice d"
     "writeback_slice d = (process_slice d + length (vw d (process_slice d) # xs)) mod 4" "\<forall>t \<in> set (tasks d). task_slice t < 4"
     "list_all (full z) ys" "shape z (is_writing d) (vw d (process_slice d) # xs)" "db_file d = hdr @ concat (map (the \<circ> z) ws)"
     "\<forall>w \<in> set ws. z w \<noteq> None" "bs = concat ws @ unwritten (vw d (process_slice d) # xs) ys" "origin_size d = of_nat (length bs)"
     "snd (vw d (process_slice d)) = []"
proof -
  let ?p = "process_slice d"
  obtain xs ys ws where i: "view4 d = xs @ ys" "?p < 4" "compress_slice d = ?p"
     "writeback_slice d = (?p + length xs) mod 4" "\<forall>t \<in> set (tasks d). task_slice t < 4"
     "list_all (full z) ys" "shape z (is_writing d) xs" "db_file d = hdr @ concat (map (the \<circ> z) ws)" "\<forall>w \<in> set ws. z w \<noteq> None"
     "bs = concat ws @ unwritten xs ys" "origin_size d = of_nat (length bs)"
    using assms(1) by (auto simp: ring_inv_def)
  obtain r where r: "view4 d = vw d ?p # r" by (rule view4_head [OF i(2)])
  have "\<not> full z (vw d ?p)" using assms(2) by (auto simp: full_def vw_def)
  then obtain xs' where x: "xs = vw d ?p # xs'" using i(1,6) r by (cases xs) auto
  have "resting (vw d ?p) \<or> writer z (vw d ?p)" using shape_elems [OF i(7)] x by simp
  then have "snd (vw d ?p) = []" using assms(2) by (auto simp: resting_def writer_def vw_def)
  then show thesis using i x by (intro that [of xs' ys ws]) auto
qed

lemma addData_ring:
  assumes "ring_inv z hdr bs d" "sl_state (slices d (process_slice d)) = FREE" "addData b d = Inr d'"
  shows "ring_inv z hdr (bs @ b) d'"
proof -
  let ?p = "process_slice d"
  let ?s = "slices d ?p"
  let ?n = "inp_buffer_idx ?s + length b"
  from assms(1,2) obtain xs ys ws where i: "view4 d = (vw d ?p # xs) @ ys" "?p < 4" "compress_slice d = ?p"
     "writeback_slice d = (?p + length (vw d ?p # xs)) mod 4" "\<forall>t \<in> set (tasks d). task_slice t < 4"
     "list_all (full z) ys" "shape z (is_writing d) (vw d ?p # xs)" "db_file d = hdr @ concat (map (the \<circ> z) ws)"
     "\<forall>w \<in> set ws. z w \<noteq> None" "bs = concat ws @ unwritten (vw d ?p # xs) ys" "origin_size d = of_nat (length bs)"
     "snd (vw d ?p) = []"
    by (rule free_head)
  let ?d1 = "(upd_slice ?p (copy_in b) d)\<lparr> origin_size := origin_size d + of_nat (length b) \<rparr>"
  have n: "?n \<le> SLICE_BUFFER_SIZE" using assms(3) by (auto simp: addData_def Let_def split: if_splits)
  have v1: "vw ?d1 i = (if i = ?p then (copy_in b ?s, []) else vw d i)" for i
    using i(12) by (auto simp: vw_def)
  have w: "wpart (vw d ?p) = []" using i(12) by (simp add: wpart_def)
  have fst_vw: "fst (vw d ?p) = ?s" by (simp add: vw_def)
  have head: "\<not> writer z (vw d ?p)" using assms(2) by (auto simp: writer_def vw_def)
  have o: "origin_size d + of_nat (length b) = of_nat (length (bs @ b))" using i(11) by simp
  show ?thesis
  proof (cases "?n = SLICE_BUFFER_SIZE")
    case False
    obtain r where r: "view4 d = vw d ?p # r" "\<And>d'. process_slice d' = ?p \<Longrightarrow> (\<And>i. i \<noteq> ?p \<Longrightarrow> vw d' i = vw d i) \<Longrightarrow>
       view4 d' = vw d' ?p # r" by (rule view4_head [OF i(2)]) blast
    let ?e = "(copy_in b ?s, [] :: db_task list)"
    have view: "view4 ?d1 = (?e # xs) @ ys" using r i(1) v1 by simp
    have q: "resting ?e" using False n assms(2) by (simp add: resting_def)
    have "shape z (is_writing d) (?e # xs)" using i(7) q head by (cases xs) (auto simp: shape_def)
    moreover have "bs @ b = concat ws @ unwritten (?e # xs) ys"
      using i(10) assms(2) w fst_vw by (cases xs) (auto simp: unwritten_def wpart_def)
    ultimately have d1: "ring_inv z hdr (bs @ b) ?d1"
      using view i(2-6,8,9) o by (intro ring_invI [where xs = "?e # xs" and ys = ys and ws = ws]) simp_all
    have "d' = checkWriteback (checkCompress ?d1)" using assms(3) False n by (simp add: addData_def Let_def)
    then show ?thesis using checkCompress_idle [OF d1] checkWriteback_ring [OF d1] by simp
  next
    case True
    let ?e = "((copy_in b ?s)\<lparr> sl_state := PROCESSING \<rparr>, [Compress 0 SLICE_BUFFER_SIZE])"
    let ?d2 = "(upd_slice ?p (\<lambda>s. s\<lparr> sl_state := PROCESS_READY \<rparr>) ?d1)\<lparr> process_slice := (?p + 1) mod 4 \<rparr>"
    define d3 where "d3 = checkCompress ?d2"
    have d3: "d3 = (upd_slice ?p (\<lambda>s. s\<lparr> sl_state := PROCESSING \<rparr>) ?d2)
       \<lparr> tasks := tasks d @ [Compress ?p SLICE_BUFFER_SIZE], compress_slice := (?p + 1) mod 4 \<rparr>"
      using i(3) True by (simp add: d3_def checkCompress_def Let_def BUFFER_SLICE_def)
    have v3: "vw d3 i = (if i = ?p then ?e else vw d i)" for i
      unfolding d3 using i(12) by (auto simp: vw_def)
    have "view4 d3 = (xs @ ys) @ [vw d3 ?p]"
    proof (rule view4_rotate(1) [OF i(2)])
      show "process_slice d3 = (?p + 1) mod 4" by (simp add: d3)
      show "vw d3 i = vw d i" if "i \<noteq> ?p" for i using v3 that by simp
      show "view4 d = vw d ?p # (xs @ ys)" using i(1) by simp
    qed
    then have view: "view4 d3 = xs @ (ys @ [?e])" using v3 by simp
    have "shape z (is_writing d) xs"
      using i(7) head by (cases xs) (auto simp: shape_def list_all_iff dest: in_set_butlastD list.set_sel(2))
    moreover have "bs @ b = concat ws @ unwritten xs (ys @ [?e])"
    proof (cases xs)
      case Nil
      then show ?thesis using i(10) assms(2) w fst_vw by (simp add: unwritten_def)
    next
      case (Cons x xs')
      have "sl_state (fst x) = FREE \<longrightarrow> chunk (fst x) = []" using i(7) Cons by (auto simp: shape_def)
      then show ?thesis using Cons i(10) assms(2) w fst_vw by (auto simp: unwritten_def)
    qed
    moreover have "(?p + length (vw d ?p # xs)) mod 4 = ((?p + 1) mod 4 + length xs) mod 4" by (simp add: mod_simps)
    ultimately have i3: "ring_inv z hdr (bs @ b) d3"
      using view i(2-6,8,9) o True
      by (intro ring_invI [where xs = xs and ys = "ys @ [?e]" and ws = ws]) (simp_all add: d3 full_def)
    have "d' = checkWriteback d3" using assms(3) True by (simp add: d3_def addData_def Let_def BUFFER_SLICE_def)
    then show ?thesis using checkWriteback_ring [OF i3] by simp
  qed
qed

section \<open>close\<close>

lemma close_write_run:
  assumes "\<forall>j < m. sl_state (slices d ((w + j) mod 4)) = PROCESS_DONE" "m \<le> 4" "writeback_slice d = w mod 4"
    "m < 4 \<longrightarrow> sl_state (slices d ((w + m) mod 4)) \<noteq> PROCESS_DONE"
  shows "db_file (close_write d) = db_file d @ concat (map (\<lambda>j. out_buffer (slices d ((w + j) mod 4))) [0..<m])"
  using assms
proof (induction m arbitrary: d w)
  case 0
  then show ?case by (subst close_write.simps) (simp_all add: Let_def close_write.simps)
next
  case (Suc m)
  let ?k = "w mod 4"
  define e where "e = (upd_slice ?k (\<lambda>s. s\<lparr> sl_state := FREE \<rparr>) d)
         \<lparr> db_file := db_file d @ out_buffer (slices d ?k), writeback_slice := (?k + 1) mod 4 \<rparr>"
  have e: "slices e = (slices d)(?k := (slices d ?k)\<lparr> sl_state := FREE \<rparr>)" "db_file e = db_file d @ out_buffer (slices d ?k)"
    "writeback_slice e = Suc w mod 4" "tasks e = tasks d"
    by (simp_all add: e_def mod_simps)
  have "sl_state (slices d ?k) = PROCESS_DONE" using Suc.prems(1) by force
  then have c: "close_write d = close_write e"
    using Suc.prems(3) by (subst close_write.simps) (simp add: e_def Let_def BUFFER_SLICE_def)
  have ne: "(Suc w + j) mod 4 \<noteq> ?k" if "j < 3" for j using that by presburger
  have sl: "slices e ((Suc w + j) mod 4) = slices d ((w + Suc j) mod 4)" if "j < 3" for j
    using ne [OF that] by (simp add: e(1))
  have m: "m < 4" using Suc.prems(2) by simp
  have "db_file (close_write e) = db_file e @ concat (map (\<lambda>j. out_buffer (slices e ((Suc w + j) mod 4))) [0..<m])"
  proof (rule Suc.IH)
    show "\<forall>j < m. sl_state (slices e ((Suc w + j) mod 4)) = PROCESS_DONE"
    proof (intro allI impI)
      fix j assume "j < m"
      then show "sl_state (slices e ((Suc w + j) mod 4)) = PROCESS_DONE" using sl [of j] Suc.prems(1) [rule_format, of "Suc j"] m by simp
    qed
    show "m < 4 \<longrightarrow> sl_state (slices e ((Suc w + m) mod 4)) \<noteq> PROCESS_DONE"
    proof (cases "m < 3")
      case True
      then show ?thesis using Suc.prems(4) sl [of m] by simp
    next
      case False
      then have "(Suc w + m) mod 4 = ?k" using m by presburger
      then show ?thesis by (simp add: e(1))
    qed
  qed (use m e(3) in simp_all)
  moreover have "map (\<lambda>j. out_buffer (slices e ((Suc w + j) mod 4))) [0..<m] = map (\<lambda>j. out_buffer (slices d ((w + Suc j) mod 4))) [0..<m]"
    using sl m by (intro map_cong) auto
  moreover have "map (\<lambda>j. out_buffer (slices d ((w + j) mod 4))) [0..<Suc m] =
      out_buffer (slices d ?k) # map (\<lambda>j. out_buffer (slices d ((w + Suc j) mod 4))) [0..<m]"
    unfolding upt_conv_Cons [OF zero_less_Suc] map_Suc_upt [symmetric] by (simp add: comp_def)
  ultimately show ?case unfolding c e(2) by (simp only: concat.simps append_assoc)
qed

text \<open>The slices when the pool is idle: the first n are free, only the very first may hold bytes; the rest are compressed.\<close>

definition slot :: "logdb \<Rightarrow> nat \<Rightarrow> log_slice" where
  "slot d j = slices d ((process_slice d + j) mod 4)"

lemma view4_slots: "process_slice d < 4 \<Longrightarrow> map fst (view4 d) = map (slot d) [0, 1, 2, 3]"
  by (simp add: view4_def slot_def vw_def Let_def)

lemma idle_slots:
  assumes "ring_inv z hdr bs d" "tasks d = []"
  obtains n ws where "n \<le> 4" "process_slice d < 4" "compress_slice d = process_slice d" "writeback_slice d = (process_slice d + n) mod 4"
    "\<forall>j. j < n \<longrightarrow> sl_state (slot d j) = FREE \<and> (0 < j \<longrightarrow> inp_buffer_idx (slot d j) = 0)"
    "\<forall>j. n \<le> j \<longrightarrow> j < 4 \<longrightarrow> sl_state (slot d j) = PROCESS_DONE \<and> z (chunk (slot d j)) = Some (out_buffer (slot d j)) \<and>
       inp_buffer_idx (slot d j) = SLICE_BUFFER_SIZE"
    "db_file d = hdr @ concat (map (the \<circ> z) ws)" "\<forall>w \<in> set ws. z w \<noteq> None"
    "bs = concat ws @ concat (map (\<lambda>j. chunk (slot d j)) [n..<4]) @ (if n = 0 then [] else chunk (slot d 0))"
    "origin_size d = of_nat (length bs)"
proof -
  obtain xs ys ws where i: "view4 d = xs @ ys" "process_slice d < 4" "compress_slice d = process_slice d"
     "writeback_slice d = (process_slice d + length xs) mod 4"
     "list_all (full z) ys" "shape z (is_writing d) xs" "db_file d = hdr @ concat (map (the \<circ> z) ws)" "\<forall>w \<in> set ws. z w \<noteq> None"
     "bs = concat ws @ unwritten xs ys" "origin_size d = of_nat (length bs)"
    using assms(1) by (auto simp: ring_inv_def)
  have none: "snd e = []" if "e \<in> set (view4 d)" for e using that assms(2) by (auto simp: view4_def Let_def vw_def)
  let ?n = "length xs"
  have n: "?n + length ys = 4" using length_view4 [of d] i(1) by simp
  have nth: "fst ((xs @ ys) ! j) = slot d j" if "j < 4" for j
  proof -
    have "map fst (xs @ ys) ! j = slot d j" using view4_slots [OF i(2)] that by (auto simp: i(1) below4 numeral_2_eq_2 numeral_3_eq_3)
    moreover have "map fst (xs @ ys) ! j = fst ((xs @ ys) ! j)" by (rule nth_map) (use that n in simp)
    ultimately show ?thesis by simp
  qed
  have x: "slot d j = fst (xs ! j)" "snd (xs ! j) = []" "resting (xs ! j)" if "j < ?n" for j
  proof -
    show "slot d j = fst (xs ! j)" using nth [of j] that n by (simp add: nth_append)
    show s: "snd (xs ! j) = []" using that none i(1) by simp
    have "\<not> writer z (xs ! j)" using s by (auto simp: writer_def)
    then show "resting (xs ! j)" using shape_elems [OF i(6)] that by (meson nth_mem)
  qed
  have y: "slot d j = fst (ys ! (j - ?n))" "full z (ys ! (j - ?n))" "snd (ys ! (j - ?n)) = []" if "?n \<le> j" "j < 4" for j
    using nth [of j] that n none i(1,5) by (auto simp: nth_append list_all_length)
  have "sl_state (slot d j) = FREE \<and> (0 < j \<longrightarrow> inp_buffer_idx (slot d j) = 0)" if "j < ?n" for j
  proof -
    have f: "sl_state (slot d j) = FREE" using x [OF that] by (auto simp: resting_def split: prod.splits)
    have "list_all (\<lambda>e. sl_state (fst e) = FREE \<longrightarrow> inp_buffer_idx (fst e) = 0) (tl xs)" using i(6) by (simp add: shape_def)
    then have "0 < j \<longrightarrow> inp_buffer_idx (slot d j) = 0"
      using f x(1) [OF that] that by (cases j) (auto simp: list_all_length nth_tl)
    then show ?thesis using f by blast
  qed
  moreover have "sl_state (slot d j) = PROCESS_DONE \<and> z (chunk (slot d j)) = Some (out_buffer (slot d j)) \<and>
       inp_buffer_idx (slot d j) = SLICE_BUFFER_SIZE" if "?n \<le> j" "j < 4" for j
    using y [OF that] by (auto simp: full_def split: prod.splits)
  moreover have "bs = concat ws @ concat (map (\<lambda>j. chunk (slot d j)) [?n..<4]) @ (if ?n = 0 then [] else chunk (slot d 0))"
  proof -
    have "map (chunk \<circ> fst) ys = map (\<lambda>j. chunk (slot d j)) [?n..<4]"
      using n y(1) by (intro nth_equalityI) auto
    moreover have "wpart (last xs) = []" if "xs \<noteq> []"
      using x(2) [of "length xs - 1"] that by (simp add: wpart_def last_conv_nth)
    moreover have "sl_state (fst (hd xs)) = FREE" "fst (hd xs) = slot d 0" if "xs \<noteq> []"
      using x [of 0] that by (auto simp: hd_conv_nth resting_def split: prod.splits)
    ultimately show ?thesis unfolding i(9) unwritten_def by (cases xs) simp_all
  qed
  ultimately show thesis using i n by (intro that [of ?n ws]) simp_all
qed

lemma close_compress_stop: "sl_state (slices d (compress_slice d)) \<noteq> PROCESS_READY \<Longrightarrow> close_compress z d = Inr d"
  by (subst close_compress.simps) (simp add: Let_def)

lemma close_file:
  assumes "ring_inv z hdr bs d" "tasks d = []" "db_close z dump d = Inr d'" "4 + length (dump (of_nat (length bs))) \<le> length hdr"
  shows "\<exists>ws. db_file d' = overwrite 4 (dump (of_nat (length bs))) hdr @ concat (map (the \<circ> z) ws) \<and>
    concat ws = bs \<and> (\<forall>w \<in> set ws. z w \<noteq> None)"
proof -
  let ?p = "process_slice d"
  obtain n ws where i0: "n \<le> 4" "?p < 4" "compress_slice d = ?p" "writeback_slice d = (?p + n) mod 4"
    "\<forall>j. j < n \<longrightarrow> sl_state (slot d j) = FREE \<and> (0 < j \<longrightarrow> inp_buffer_idx (slot d j) = 0)"
    "\<forall>j. n \<le> j \<longrightarrow> j < 4 \<longrightarrow> sl_state (slot d j) = PROCESS_DONE \<and> z (chunk (slot d j)) = Some (out_buffer (slot d j)) \<and>
       inp_buffer_idx (slot d j) = SLICE_BUFFER_SIZE"
    "db_file d = hdr @ concat (map (the \<circ> z) ws)" "\<forall>w \<in> set ws. z w \<noteq> None"
    "bs = concat ws @ concat (map (\<lambda>j. chunk (slot d j)) [n..<4]) @ (if n = 0 then [] else chunk (slot d 0))"
    "origin_size d = of_nat (length bs)"
    by (rule idle_slots [OF assms(1,2)])
  note i = i0(1-4) i0(5,6) [rule_format] i0(7-10)
  let ?t = "dump (of_nat (length bs))"
  let ?h = "overwrite 4 ?t hdr @ concat (map (the \<circ> z) ws)"
  define d1 where "d1 = d\<lparr> db_file := overwrite 4 (dump (origin_size d)) (db_file d) \<rparr>"
  have d1: "slices d1 = slices d" "process_slice d1 = ?p" "compress_slice d1 = ?p" "writeback_slice d1 = (?p + n) mod 4" "db_file d1 = ?h"
    using i(3,4,7,10) assms(4) by (simp_all add: d1_def overwrite_def)
  have s0: "slot d 0 = slices d ?p" using i(2) by (simp add: slot_def)
  have sj: "slices d ((?p + n + j) mod 4) = slot d (n + j)" for j by (simp add: slot_def add.assoc)
  have outs: "concat (map (\<lambda>j. out_buffer (slot d j)) [n..<4]) = concat (map (the \<circ> z) (map (\<lambda>j. chunk (slot d j)) [n..<4]))"
    using i(6) by (intro arg_cong [of _ _ concat]) auto
  have shift: "map (\<lambda>j. f (n + j)) [0..<4 - n] = map f [n..<4]" for f :: "nat \<Rightarrow> u8 list"
    using i(1) by (intro nth_equalityI) auto
  show ?thesis
  proof (cases "inp_buffer_idx (slices d ?p) = 0")
    case True
    then have n0: "0 < n" using i(6) [of 0] s0 by (cases n) auto
    have "sl_state (slices d1 (compress_slice d1)) \<noteq> PROCESS_READY" using i(5) [OF n0] s0 d1 by simp
    then have c: "d' = close_write d1"
      using assms(3) True close_compress_stop [of d1 z] by (simp add: db_close_def Let_def d1_def)
    have "db_file (close_write d1) = db_file d1 @ concat (map (\<lambda>j. out_buffer (slices d1 ((?p + n + j) mod 4))) [0..<4 - n])"
    proof (rule close_write_run)
      show "\<forall>j < 4 - n. sl_state (slices d1 ((?p + n + j) mod 4)) = PROCESS_DONE" using i(6) d1(1) sj by simp
      have "(?p + n + (4 - n)) mod 4 = ?p" using i(1,2) by simp
      then show "4 - n < 4 \<longrightarrow> sl_state (slices d1 ((?p + n + (4 - n)) mod 4)) \<noteq> PROCESS_DONE"
        using i(5) [OF n0] s0 d1(1) by simp
    qed (simp_all add: d1(4))
    then have "db_file d' = ?h @ concat (map (\<lambda>j. out_buffer (slot d j)) [n..<4])"
      using c d1(1,5) sj shift [of "\<lambda>j. out_buffer (slot d j)"] by simp
    moreover have "bs = concat (ws @ map (\<lambda>j. chunk (slot d j)) [n..<4])" using i(9) True s0 by simp
    ultimately show ?thesis using outs i(6,8) by (intro exI [of _ "ws @ map (\<lambda>j. chunk (slot d j)) [n..<4]"]) (auto simp: comp_def)
  next
    case False
    define d2 where "d2 = upd_slice ?p (\<lambda>s. s\<lparr> sl_state := PROCESS_READY \<rparr>) d1"
    have cl: "rbind (close_compress z d2) (\<lambda>d. Inr (close_write d)) = Inr d'"
      using assms(3) False by (simp add: db_close_def Let_def d1_def d2_def)
    have c2: "chunk (slices d2 ?p) = chunk (slot d 0)" using d1(1) s0 by (simp add: d2_def)
    obtain y where y: "z (chunk (slot d 0)) = Some y"
      using cl c2 d1(3) by (subst (asm) close_compress.simps) (auto simp: d2_def Let_def split: option.splits)
    define d3 where "d3 = (upd_slice ?p (\<lambda>s. s\<lparr> out_buffer := y, sl_state := PROCESS_DONE \<rparr>) d2)\<lparr> compress_slice := (?p + 1) mod 4 \<rparr>"
    have ne: "(?p + j) mod 4 \<noteq> ?p" if "0 < j" "j < 4" for j using that i(2) by presburger
    have d3: "slices d3 ((?p + j) mod 4) = slot d j" if "0 < j" "j < 4" for j
      using ne [OF that] d1(1) by (simp add: d3_def d2_def slot_def)
    have p3: "sl_state (slices d3 ?p) = PROCESS_DONE" "out_buffer (slices d3 ?p) = y" "db_file d3 = ?h" "writeback_slice d3 = (?p + n) mod 4"
      using d1 by (simp_all add: d3_def d2_def)
    have "sl_state (slot d 1) \<noteq> PROCESS_READY" using i(5,6) [of 1] by (cases "1 < n") auto
    then have "close_compress z d3 = Inr d3"
      using d3 [of 1] by (intro close_compress_stop) (simp add: d3_def)
    moreover have "close_compress z d2 = close_compress z d3"
      using y c2 d1(3) by (subst close_compress.simps) (simp add: d2_def d3_def Let_def BUFFER_SLICE_def)
    ultimately have c: "d' = close_write d3" using cl by simp
    let ?m = "if n = 0 then 4 else 5 - n"
    have sl: "slices d3 ((?p + n + j) mod 4) = slot d (n + j)" if "0 < n + j" "n + j < 4" for j
      using d3 [of "n + j"] that by (simp add: add.assoc)
    have w: "db_file (close_write d3) = db_file d3 @ concat (map (\<lambda>j. out_buffer (slices d3 ((?p + n + j) mod 4))) [0..<?m])"
    proof (rule close_write_run)
      show "\<forall>j < ?m. sl_state (slices d3 ((?p + n + j) mod 4)) = PROCESS_DONE"
      proof (intro allI impI)
        fix j assume "j < ?m"
        then have "n + j \<le> 4" using i(1) by (cases "n = 0") simp_all
        then consider "n + j = 0 \<or> n + j = 4" | "0 < n + j" "n + j < 4" by linarith
        then show "sl_state (slices d3 ((?p + n + j) mod 4)) = PROCESS_DONE"
        proof cases
          case 1
          then have "?p + n + j = ?p \<or> ?p + n + j = ?p + 4" by auto
          then have "(?p + n + j) mod 4 = ?p" using i(2) by (metis mod_add_self2 mod_less)
          then show ?thesis using p3(1) by simp
        next
          case 2
          then show ?thesis using sl [OF 2] i(6) [of "n + j"] by simp
        qed
      qed
      show "?m < 4 \<longrightarrow> sl_state (slices d3 ((?p + n + ?m) mod 4)) \<noteq> PROCESS_DONE"
      proof (intro impI)
        assume "?m < 4"
        then have n1: "1 < n" by (auto split: if_splits)
        then have "?p + n + ?m = ?p + 1 + 4" using i(1) by simp
        then have "(?p + n + ?m) mod 4 = (?p + 1) mod 4" by (simp only: mod_add_self2)
        then show "sl_state (slices d3 ((?p + n + ?m) mod 4)) \<noteq> PROCESS_DONE"
          using d3 [of 1] i(5) [OF n1] by simp
      qed
    qed (use i(1) p3(4) in auto)
    show ?thesis
    proof (cases "n = 0")
      case True
      have y0: "y = out_buffer (slot d 0)" using y i(6) [of 0] True by simp
      have "out_buffer (slices d3 ((?p + n + j) mod 4)) = out_buffer (slot d j)" if "j < 4" for j
        using sl [of j] that True y0 p3(2) i(2) by (cases j) simp_all
      then have "map (\<lambda>j. out_buffer (slices d3 ((?p + n + j) mod 4))) [0..<?m] = map (\<lambda>j. out_buffer (slot d j)) [n..<4]"
        using True by simp
      then have "db_file d' = ?h @ concat (map (\<lambda>j. out_buffer (slot d j)) [n..<4])" using w c p3(3) by (simp only:)
      moreover have "bs = concat (ws @ map (\<lambda>j. chunk (slot d j)) [n..<4])" using i(9) True by simp
      ultimately show ?thesis using outs i(6,8) by (intro exI [of _ "ws @ map (\<lambda>j. chunk (slot d j)) [n..<4]"]) (auto simp: comp_def)
    next
      case n0: False
      have m: "?m = Suc (4 - n)" using n0 i(1) by simp
      have "[0..<?m] = [0..<4 - n] @ [4 - n]" unfolding m by (rule upt_Suc_append) simp
      moreover have "map (\<lambda>j. out_buffer (slices d3 ((?p + n + j) mod 4))) [0..<4 - n] = map (\<lambda>j. out_buffer (slot d (n + j))) [0..<4 - n]"
        using sl n0 by (intro map_cong) auto
      moreover have "(?p + n + (4 - n)) mod 4 = ?p" using i(1,2) by simp
      ultimately have "concat (map (\<lambda>j. out_buffer (slices d3 ((?p + n + j) mod 4))) [0..<?m]) =
          concat (map (\<lambda>j. out_buffer (slot d j)) [n..<4]) @ y"
        using shift [of "\<lambda>j. out_buffer (slot d j)"] p3(2) by simp
      then have "db_file d' = ?h @ concat (map (\<lambda>j. out_buffer (slot d j)) [n..<4]) @ y" using w c p3(3) by simp
      moreover have "bs = concat (ws @ map (\<lambda>j. chunk (slot d j)) [n..<4] @ [chunk (slot d 0)])" using i(9) n0 by simp
      ultimately show ?thesis using outs i(6,8) y
        by (intro exI [of _ "ws @ map (\<lambda>j. chunk (slot d j)) [n..<4] @ [chunk (slot d 0)]"]) (auto simp: comp_def)
    qed
  qed
qed

lemma close_compress_tasks: "close_compress z d = Inr d' \<Longrightarrow> tasks d' = tasks d"
proof (induction z d rule: close_compress.induct)
  case (1 z d)
  then show ?case by (subst (asm) (2) close_compress.simps) (auto simp: Let_def split: if_splits option.splits)
qed

lemma close_write_tasks: "tasks (close_write d) = tasks d"
proof (induction d rule: close_write.induct)
  case (1 d)
  then show ?case by (subst close_write.simps) (simp add: Let_def)
qed

lemma close_tasks: "db_close z dump d = Inr d' \<Longrightarrow> tasks d' = tasks d"
  by (auto simp: db_close_def Let_def rbind_eq_Inr close_write_tasks dest!: close_compress_tasks split: if_splits)

section \<open>The invariant of a run\<close>

definition room :: "(u64 \<Rightarrow> u8 list) \<Rightarrow> u8 list" where
  "room dump = le4 (of_nat (length (dump 0xffffffffffffffff))) @ replicate (length (dump 0xffffffffffffffff)) 0"

fun call_data :: "db_caller \<Rightarrow> u8 list" where
  "call_data (Test b) = b"
| "call_data (Sleep b) = b"
| "call_data (Woken b) = b"
| "call_data c = []"

definition closed_file :: "(u8 list \<Rightarrow> u8 list option) \<Rightarrow> (u64 \<Rightarrow> u8 list) \<Rightarrow> u8 list \<Rightarrow> logdb \<Rightarrow> bool" where
  "closed_file z dump bs d \<longleftrightarrow> (4 + length (dump (of_nat (length bs))) \<le> length (room dump) \<longrightarrow>
     (\<exists>ws. db_file d = overwrite 4 (dump (of_nat (length bs))) (room dump) @ concat (map (the \<circ> z) ws) \<and>
       concat ws = bs \<and> (\<forall>w \<in> set ws. z w \<noteq> None)))"

definition db_inv :: "(u8 list \<Rightarrow> u8 list option) \<Rightarrow> (u64 \<Rightarrow> u8 list) \<Rightarrow> u8 list \<Rightarrow> logdb \<Rightarrow> bool" where
  "db_inv z dump gs d \<longleftrightarrow> (case db_call d of Failed e \<Rightarrow> True | Closed \<Rightarrow> tasks d = [] \<and> closed_file z dump gs d
     | c \<Rightarrow> \<exists>bs. ring_inv z (room dump) bs d \<and> gs = bs @ call_data c \<and>
         (\<forall>b. c = Sleep b \<longrightarrow> sl_state (slices d (process_slice d)) \<noteq> FREE))"

lemma ring_init: "ring_inv z (room dump) [] (db_init dump)"
proof -
  let ?e = "(fresh_slice, [] :: db_task list)"
  have "view4 (db_init dump) = [?e, ?e, ?e, ?e] @ []"
    by (simp add: view4_def vw_def db_init_def Let_def)
  then show ?thesis
    by (rule ring_invI [where ws = "[]"])
      (simp_all add: db_init_def Let_def room_def shape_def resting_def fresh_slice_def unwritten_def wpart_def)
qed

lemma inv_init: "db_inv z dump [] (db_init dump)"
  using ring_init by (auto simp: db_inv_def db_init_def Let_def)

lemma notify_call: "db_call (notify_one d) = (case db_call d of Sleep b \<Rightarrow> Woken b | c \<Rightarrow> c)"
  by (simp add: notify_one_def split: db_caller.split)

text \<open>A step of a task wakes the caller, or changes no state of a slice.\<close>

lemma work_call:
  assumes "\<forall>e. db_call (work z t d) \<noteq> Failed e"
  shows "db_call (work z t d) = db_call d \<and> (\<forall>k. sl_state (slices (work z t d) k) = sl_state (slices d k)) \<and>
      process_slice (work z t d) = process_slice d \<or>
    db_call (work z t d) = (case db_call d of Sleep b \<Rightarrow> Woken b | c \<Rightarrow> c)"
proof (cases t)
  case (Compress k n)
  then show ?thesis using assms by (cases "z (map (inp_buffer (slices d k)) [0..<n])") simp_all
qed (simp_all add: notify_call)

lemma inv_work:
  assumes "db_inv z dump gs d" "t \<in> set (tasks d)"
  shows "db_inv z dump gs (work z t d)"
proof (cases "\<exists>e. db_call (work z t d) = Failed e")
  case True
  then show ?thesis by (auto simp: db_inv_def)
next
  case False
  have nf: "\<forall>e. db_call d \<noteq> Failed e" "db_call d \<noteq> Closed"
    using assms work_call [of z t d] False by (auto simp: db_inv_def)
  then obtain bs where b: "ring_inv z (room dump) bs d" "gs = bs @ call_data (db_call d)"
     "\<forall>b. db_call d = Sleep b \<longrightarrow> sl_state (slices d (process_slice d)) \<noteq> FREE"
    using assms(1) by (auto simp: db_inv_def split: db_caller.splits)
  have r: "ring_inv z (room dump) bs (work z t d)" using work_ring [OF b(1) assms(2)] False by blast
  then show ?thesis
    using work_call [of z t d] False b nf by (auto simp: db_inv_def split: db_caller.splits)
qed

lemma inv_step:
  assumes "db_inv z dump gs d" "db_act z dump Step d = Some d'"
  shows "db_inv z dump gs d'"
proof (cases "db_call d")
  case (Test b)
  then obtain bs where i: "ring_inv z (room dump) bs d" "gs = bs @ b" using assms(1) by (auto simp: db_inv_def)
  show ?thesis
  proof (cases "sl_state (slices d (process_slice d)) = FREE")
    case True
    show ?thesis
    proof (cases "addData b d")
      case (Inl e)
      then show ?thesis using assms(2) Test True by (simp add: db_inv_def) (auto simp: db_inv_def)
    next
      case (Inr d1)
      then have "ring_inv z (room dump) gs d1" using addData_ring [OF i(1) True] i(2) by simp
      moreover have "d' = d1\<lparr> db_call := Ready \<rparr>" using assms(2) Test True Inr by simp
      ultimately show ?thesis by (simp add: db_inv_def)
    qed
  next
    case False
    then have "d' = d\<lparr> db_call := Sleep b \<rparr>" using assms(2) Test by simp
    then show ?thesis using i False by (simp add: db_inv_def)
  qed
next
  case (Woken b)
  then obtain bs where i: "ring_inv z (room dump) bs d" "gs = bs @ b" using assms(1) by (auto simp: db_inv_def)
  have "d' = (checkWriteback (checkCompress d))\<lparr> db_call := Test b \<rparr>" using assms(2) Woken by simp
  then show ?thesis using i checkCompress_idle [OF i(1)] checkWriteback_ring [OF i(1)] by (simp add: db_inv_def)
qed (use assms(2) in simp_all)

lemma inv_close:
  assumes "db_inv z dump gs d" "db_act z dump Close d = Some d'"
  shows "db_inv z dump gs d'"
proof -
  have c: "db_call d = Ready" "tasks d = []" using assms(2) by (auto split: if_splits)
  then have i: "ring_inv z (room dump) gs d" using assms(1) by (auto simp: db_inv_def)
  show ?thesis
  proof (cases "db_close z dump d")
    case (Inl e)
    then have "d' = d\<lparr> db_call := Failed e \<rparr>" using assms(2) c by simp
    then show ?thesis by (simp add: db_inv_def)
  next
    case (Inr d1)
    have "tasks d1 = []" using close_tasks [OF Inr] c(2) by simp
    moreover have "closed_file z dump gs d1" using close_file [OF i c(2) Inr] by (simp add: closed_file_def)
    moreover have "d' = d1\<lparr> db_call := Closed \<rparr>" using assms(2) c Inr by simp
    ultimately show ?thesis by (simp add: db_inv_def closed_file_def)
  qed
qed

lemma inv_act:
  assumes "db_inv z dump gs d" "db_act z dump a d = Some d'"
  shows "db_inv z dump (gs @ given [a]) d'"
proof (cases a)
  case (Add b)
  then have "db_call d = Ready" "d' = d\<lparr> db_call := Test b \<rparr>" using assms(2) by (auto split: if_splits)
  then show ?thesis using assms(1) Add by (simp add: db_inv_def)
next
  case (Work t)
  then show ?thesis using inv_work [OF assms(1), of t] assms(2) by (auto split: if_splits)
next
  case Spurious
  then show ?thesis using assms by (auto simp: db_inv_def split: db_caller.splits)
qed (use inv_step [OF assms(1)] inv_close [OF assms(1)] assms(2) in simp_all)

lemma given_Cons: "given (a # as) = given [a] @ given as"
  by (cases a) simp_all

lemma inv_acts: "db_acts z dump as d = Some d' \<Longrightarrow> db_inv z dump gs d \<Longrightarrow> db_inv z dump (gs @ given as) d'"
proof (induction "as" arbitrary: d gs)
  case (Cons a "as")
  then obtain d1 where d1: "db_act z dump a d = Some d1" "db_acts z dump as d1 = Some d'" by (auto split: option.splits)
  show ?case using Cons.IH [OF d1(2) inv_act [OF Cons.prems(2) d1(1)]] by (subst given_Cons) simp
qed simp

lemma inv_run: "db_acts z dump as (db_init dump) = Some d \<Longrightarrow> db_inv z dump (given as) d"
  using inv_acts [OF _ inv_init] by fastforce

section \<open>Adding records that fit\<close>

lemma db_acts_append: "db_acts z dump (as @ bs) d = Option.bind (db_acts z dump as d) (db_acts z dump bs)"
  by (induction "as" arbitrary: d) (auto split: option.split)

lemma copy_copy: "copy_in c (copy_in b s) = copy_in (b @ c) s"
  by (auto simp: copy_in_def nth_append intro!: log_slice.equality ext)

definition partly :: "u8 list \<Rightarrow> logdb \<Rightarrow> logdb" where
  "partly b d = (upd_slice (process_slice d) (copy_in b) d)\<lparr> origin_size := origin_size d + of_nat (length b) \<rparr>"

text \<open>The caller is ready, its slice free and the next to be compressed, and no slice is due to be written.\<close>

definition filling :: "logdb \<Rightarrow> bool" where
  "filling d \<longleftrightarrow> db_call d = Ready \<and> sl_state (slices d (process_slice d)) = FREE \<and> compress_slice d = process_slice d \<and>
     process_slice d < 4 \<and> sl_state (slices d (writeback_slice d)) \<noteq> PROCESS_DONE"

lemma partly_sel: "process_slice (partly b d) = process_slice d" "tasks (partly b d) = tasks d" "filling (partly b d) = filling d"
    "slices (partly b d) (process_slice d) = copy_in b (slices d (process_slice d))" "writeback_slice (partly b d) = writeback_slice d"
  by (auto simp: partly_def filling_def)

lemma partial_add:
  assumes "filling d" "inp_buffer_idx (slices d (process_slice d)) + length b < SLICE_BUFFER_SIZE"
  shows "db_acts z dump [Add b, Step] d = Some (partly b d)"
  using assms by (simp add: filling_def addData_def checkCompress_def checkWriteback_def partly_def Let_def)

definition filled :: "u8 list \<Rightarrow> logdb \<Rightarrow> logdb" where
  "filled b d = (let p = process_slice d in
     (upd_slice p (\<lambda>s. (copy_in b s)\<lparr> sl_state := PROCESSING \<rparr>) d)\<lparr> origin_size := origin_size d + of_nat (length b),
       process_slice := (p + 1) mod 4, compress_slice := (p + 1) mod 4, tasks := tasks d @ [Compress p SLICE_BUFFER_SIZE] \<rparr>)"

lemma full_add:
  assumes "filling d" "inp_buffer_idx (slices d (process_slice d)) + length b = SLICE_BUFFER_SIZE"
  shows "db_acts z dump [Add b, Step] d = Some (filled b d)"
  using assms by (auto simp: filling_def addData_def checkCompress_def checkWriteback_def filled_def BUFFER_SLICE_def Let_def upd_slice_def
      intro!: logdb.equality ext)

lemma fill_slice:
  "rs \<noteq> [] \<Longrightarrow> [] \<notin> set rs \<Longrightarrow> filling d \<Longrightarrow>
   inp_buffer_idx (slices d (process_slice d)) + length (concat rs) = SLICE_BUFFER_SIZE \<Longrightarrow>
   db_acts z dump (concat (map (\<lambda>b. [Add b, Step]) rs)) d = Some (filled (concat rs) d)"
proof (induction rs arbitrary: d rule: list_nonempty_induct)
  case (single b)
  then show ?case using full_add [of d b] by simp
next
  case (cons b rs)
  have "0 < length (concat rs)" using cons.hyps(1) cons.prems(1) by (cases rs) auto
  moreover have "length (concat (b # rs)) = length b + length (concat rs)" by simp
  ultimately have "inp_buffer_idx (slices d (process_slice d)) + length b < SLICE_BUFFER_SIZE" using cons.prems(3) by linarith
  from partial_add [OF cons.prems(2) this] have "db_acts z dump [Add b, Step] d = Some (partly b d)" .
  moreover have "db_acts z dump (concat (map (\<lambda>b. [Add b, Step]) rs)) (partly b d) = Some (filled (concat rs) (partly b d))"
    using cons.prems by (intro cons.IH) (simp_all add: partly_sel)
  moreover have "filled (concat rs) (partly b d) = filled (b @ concat rs) d"
    by (auto simp: filled_def partly_def upd_slice_def Let_def copy_copy intro!: logdb.equality ext)
  ultimately show ?case
    using db_acts_append [of z dump "[Add b, Step]" "concat (map (\<lambda>b. [Add b, Step]) rs)" d] by simp
qed

section \<open>Runs that get stuck\<close>

lemma asleep_stuck:
  "db_call d = Sleep b \<Longrightarrow> tasks d = [] \<Longrightarrow> db_act z dump a d = Some d' \<Longrightarrow> a = Spurious"
  by (cases a) simp_all

lemma fresh_sel [simp]: "sl_state fresh_slice = FREE" "inp_buffer_idx fresh_slice = 0"
  by (simp_all add: fresh_slice_def)

lemma copied_bytes: "length b = n \<Longrightarrow> map (inp_buffer (copy_in b fresh_slice)) [0..<n] = b"
  using chunk_copy [of b fresh_slice] by (simp add: chunk_def)

lemma filling_init: "filling (db_init dump)"
  by (simp add: filling_def db_init_def Let_def)

lemma given_append: "given (as @ bs) = given as @ given bs"
  by (induction "as" rule: given.induct) simp_all

lemma given_adds: "given (concat (map (\<lambda>b. [Add b, Step]) rs)) = concat rs"
  by (induction rs) simp_all

text \<open>All four slices full, none of them compressed yet.\<close>

definition jam :: "(u64 \<Rightarrow> u8 list) \<Rightarrow> u8 list \<Rightarrow> u8 list \<Rightarrow> u8 list \<Rightarrow> u8 list \<Rightarrow> logdb" where
  "jam dump b0 b1 b2 b3 = filled b3 (filled b2 (filled b1 (filled b0 (db_init dump))))"

lemma jam_run:
  assumes "\<forall>rs \<in> {r0, r1, r2, r3}. length (concat rs) = SLICE_BUFFER_SIZE \<and> [] \<notin> set rs"
  shows "db_acts z dump (concat (map (\<lambda>b. [Add b, Step]) (r0 @ r1 @ r2 @ r3))) (db_init dump) =
    Some (jam dump (concat r0) (concat r1) (concat r2) (concat r3))"
proof -
  have ne: "rs \<noteq> []" "[] \<notin> set rs" "length (concat rs) = SLICE_BUFFER_SIZE" if "rs \<in> {r0, r1, r2, r3}" for rs
    using assms that size_pos(1) by fastforce+
  let ?d0 = "db_init dump"
  let ?d1 = "filled (concat r0) ?d0" let ?d2 = "filled (concat r1) ?d1" let ?d3 = "filled (concat r2) ?d2"
  have p: "process_slice ?d1 = 1" "process_slice ?d2 = 2" "process_slice ?d3 = 3" "process_slice ?d0 = 0"
    by (simp_all add: filled_def db_init_def Let_def)
  have s: "slices ?d0 0 = fresh_slice" "slices ?d1 1 = fresh_slice" "slices ?d2 2 = fresh_slice" "slices ?d3 3 = fresh_slice"
    by (simp_all add: filled_def db_init_def Let_def)
  have f: "filling ?d1" "filling ?d2" "filling ?d3"
    by (simp_all add: filling_def filled_def db_init_def Let_def)
  show ?thesis
    using fill_slice [OF ne(1,2) filling_init, of r0 dump z dump] fill_slice [OF ne(1,2) f(1), of r1 z dump]
      fill_slice [OF ne(1,2) f(2), of r2 z dump] fill_slice [OF ne(1,2) f(3), of r3 z dump] ne(3) p s
    by (simp add: db_acts_append jam_def)
qed

lemma jam_sel:
  "tasks (jam dump b0 b1 b2 b3) = [Compress 0 SLICE_BUFFER_SIZE, Compress 1 SLICE_BUFFER_SIZE, Compress 2 SLICE_BUFFER_SIZE, Compress 3 SLICE_BUFFER_SIZE]"
  "db_call (jam dump b0 b1 b2 b3) = Ready" "process_slice (jam dump b0 b1 b2 b3) = 0"
  "inp_buffer (slices (jam dump b0 b1 b2 b3) 0) = inp_buffer (copy_in b0 fresh_slice)"
  "inp_buffer (slices (jam dump b0 b1 b2 b3) 1) = inp_buffer (copy_in b1 fresh_slice)"
  "inp_buffer (slices (jam dump b0 b1 b2 b3) 2) = inp_buffer (copy_in b2 fresh_slice)"
  "inp_buffer (slices (jam dump b0 b1 b2 b3) 3) = inp_buffer (copy_in b3 fresh_slice)"
  by (simp_all add: jam_def filled_def db_init_def Let_def)

definition compress_all :: "db_action list" where
  "compress_all = [Work (Compress 0 SLICE_BUFFER_SIZE), Work (Compressed 0), Work (Compress 1 SLICE_BUFFER_SIZE), Work (Compressed 1),
     Work (Compress 2 SLICE_BUFFER_SIZE), Work (Compressed 2), Work (Compress 3 SLICE_BUFFER_SIZE), Work (Compressed 3)]"

lemma jam_compressed:
  assumes "tasks d = [Compress 0 SLICE_BUFFER_SIZE, Compress 1 SLICE_BUFFER_SIZE, Compress 2 SLICE_BUFFER_SIZE, Compress 3 SLICE_BUFFER_SIZE]"
    and "db_call d = Ready" "process_slice d = 0" "\<forall>k < 4. z (map (inp_buffer (slices d k)) [0..<SLICE_BUFFER_SIZE]) \<noteq> None"
  shows "\<exists>d'. db_acts z dump (compress_all @ [Add b, Step]) d = Some d' \<and> db_call d' = Sleep b \<and> tasks d' = [] \<and>
    (\<forall>k < 4. sl_state (slices d' k) = PROCESS_DONE)"
proof -
  obtain z0 z1 z2 z3 where "z (map (inp_buffer (slices d 0)) [0..<SLICE_BUFFER_SIZE]) = Some z0"
    "z (map (inp_buffer (slices d 1)) [0..<SLICE_BUFFER_SIZE]) = Some z1"
    "z (map (inp_buffer (slices d 2)) [0..<SLICE_BUFFER_SIZE]) = Some z2"
    "z (map (inp_buffer (slices d 3)) [0..<SLICE_BUFFER_SIZE]) = Some z3"
    using assms(4) [rule_format, of 0] assms(4) [rule_format, of 1] assms(4) [rule_format, of 2] assms(4) [rule_format, of 3] by auto
  then show ?thesis
    using assms(1-3) by (simp add: compress_all_def swap_task_def notify_one_def below4)
qed

section \<open>Records of one size\<close>

text \<open>The slice being filled holds whole records only.\<close>

definition whole :: "nat \<Rightarrow> logdb \<Rightarrow> bool" where
  "whole n d \<longleftrightarrow> (case db_call d of Failed e \<Rightarrow> e \<noteq> OutOfBounds | Closed \<Rightarrow> True
     | c \<Rightarrow> (\<forall>k. sl_state (slices d k) = FREE \<longrightarrow> n dvd inp_buffer_idx (slices d k)) \<and>
         (\<forall>b. c = Test b \<or> c = Sleep b \<or> c = Woken b \<longrightarrow> length b = n))"

lemma closeError: "close_compress z d = Inl e \<Longrightarrow> e = Undefined ''negative size''"
proof (induction z d rule: close_compress.induct)
  case (1 z d)
  then show ?case by (subst (asm) (2) close_compress.simps) (auto simp: Let_def split: if_splits option.splits)
qed

lemma check_free:
  "sl_state (slices (checkWriteback d) k) = FREE \<Longrightarrow> slices (checkWriteback d) k = slices d k"
  "sl_state (slices (checkCompress d) k) = FREE \<Longrightarrow> slices (checkCompress d) k = slices d k"
  by (auto simp: checkWriteback_def checkCompress_def Let_def split: if_splits)

lemma check_call [simp]: "db_call (checkWriteback d) = db_call d" "db_call (checkCompress d) = db_call d"
  by (simp_all add: checkWriteback_def checkCompress_def Let_def)

lemma released_empty:
  assumes "ring_inv z hdr bs d" "Released k \<in> set (tasks d)"
  shows "inp_buffer_idx (slices d k) = 0"
  using assms(2)
  by (cases rule: task_place [OF assms]) (auto simp: full_def resting_def writer_def vw_def split: prod.splits)

lemma whole_work:
  assumes "whole n d" "db_inv z dump gs d" "t \<in> set (tasks d)" "\<forall>e. db_call d \<noteq> Failed e"
  shows "whole n (work z t d)"
proof -
  obtain bs where r: "ring_inv z (room dump) bs d" "db_call d \<noteq> Closed"
    using assms(2-4) by (auto simp: db_inv_def split: db_caller.splits)
  show ?thesis
  proof (cases t)
    case (Compress k m)
    then show ?thesis
      using assms(1) r(2) by (cases "z (map (inp_buffer (slices d k)) [0..<m])") (auto simp: whole_def split: db_caller.splits)
  next
    case (Released k)
    have "inp_buffer_idx (slices d k) = 0" using released_empty [OF r(1)] assms(3) Released by simp
    then show ?thesis using assms(1) r(2) Released by (auto simp: whole_def notify_call notify_one_def split: db_caller.splits)
  qed (use assms(1) r(2) in \<open>auto simp: whole_def notify_one_def split: db_caller.splits\<close>)
qed

lemma addData_whole:
  assumes "\<forall>k. sl_state (slices d k) = FREE \<longrightarrow> n dvd inp_buffer_idx (slices d k)" "length b = n"
    and "sl_state (slices d (process_slice d)) = FREE" "addData b d = Inr d'" "sl_state (slices d' k) = FREE"
  shows "n dvd inp_buffer_idx (slices d' k)"
proof -
  let ?p = "process_slice d"
  let ?d1 = "(upd_slice ?p (copy_in b) d)\<lparr> origin_size := origin_size d + of_nat (length b) \<rparr>"
  obtain d2 where d2: "d' = checkWriteback (checkCompress d2)" "\<And>k. sl_state (slices d2 k) = FREE \<Longrightarrow> slices d2 k = slices ?d1 k"
  proof
    let ?d2 = "if SLICE_BUFFER_SIZE \<le> inp_buffer_idx (slices d ?p) + length b
      then (upd_slice ?p (\<lambda>s. s\<lparr> sl_state := PROCESS_READY \<rparr>) ?d1)\<lparr> process_slice := (?p + 1) mod BUFFER_SLICE \<rparr> else ?d1"
    show "d' = checkWriteback (checkCompress ?d2)" using assms(4) by (simp add: addData_def Let_def split: if_splits)
    show "slices ?d2 k = slices ?d1 k" if "sl_state (slices ?d2 k) = FREE" for k using that by (auto split: if_splits)
  qed
  have "slices d' k = slices d2 k" using check_free [of "checkCompress d2" k] check_free [of d2 k] assms(5) d2(1) by simp
  then have "slices d' k = slices ?d1 k" using d2(2) assms(5) by simp
  moreover have "sl_state (slices d k) = FREE" using calculation assms(3,5) by (auto split: if_splits)
  ultimately show ?thesis using assms(1,2) by auto
qed

lemma resting_room: "ring_inv z hdr bs d \<Longrightarrow> sl_state (slices d (process_slice d)) = FREE \<Longrightarrow>
    inp_buffer_idx (slices d (process_slice d)) < SLICE_BUFFER_SIZE"
  using ring_elems [of z hdr bs d "vw d (process_slice d)"]
  by (auto simp: view4_def Let_def full_def resting_def writer_def vw_def)

lemma dvd_fits:
  assumes "n dvd i" "n dvd m" "i < (m :: nat)"
  shows "i + n \<le> m"
proof -
  obtain a c where "i = n * a" "m = n * c" using assms(1,2) by (auto simp: dvd_def)
  then show ?thesis using assms(3) by (metis Suc_leI add.commute mult_Suc_right mult_le_mono2 mult_less_cancel1)
qed

lemma whole_step:
  assumes "whole n d" "db_inv z dump gs d" "db_act z dump Step d = Some d'" "n dvd SLICE_BUFFER_SIZE"
  shows "whole n d'"
proof (cases "db_call d")
  case (Test b)
  then obtain bs where r: "ring_inv z (room dump) bs d" using assms(2) by (auto simp: db_inv_def)
  have w: "\<forall>k. sl_state (slices d k) = FREE \<longrightarrow> n dvd inp_buffer_idx (slices d k)" "length b = n"
    using assms(1) Test by (auto simp: whole_def)
  show ?thesis
  proof (cases "sl_state (slices d (process_slice d)) = FREE")
    case True
    have "inp_buffer_idx (slices d (process_slice d)) + length b \<le> SLICE_BUFFER_SIZE"
      using dvd_fits [OF _ assms(4) resting_room [OF r True]] w True by simp
    then obtain d1 where d1: "addData b d = Inr d1" by (simp add: addData_def Let_def)
    then have "d' = d1\<lparr> db_call := Ready \<rparr>" using assms(3) Test True by simp
    then show ?thesis using addData_whole [OF w True d1] by (simp add: whole_def)
  next
    case False
    then have "d' = d\<lparr> db_call := Sleep b \<rparr>" using assms(3) Test by simp
    then show ?thesis using w by (simp add: whole_def)
  qed
next
  case (Woken b)
  then have d': "d' = (checkWriteback (checkCompress d))\<lparr> db_call := Test b \<rparr>" using assms(3) by simp
  have "slices d' k = slices d k" if "sl_state (slices d' k) = FREE" for k
    using that check_free [of "checkCompress d" k] check_free [of d k] by (simp add: d')
  then show ?thesis using assms(1) Woken d' by (auto simp: whole_def) metis+
qed (use assms(3) in simp_all)

lemma whole_act:
  assumes "whole n d" "db_inv z dump gs d" "db_act z dump a d = Some d'" "n dvd SLICE_BUFFER_SIZE" "\<forall>b. a = Add b \<longrightarrow> length b = n"
  shows "whole n d'"
proof (cases a)
  case (Add b)
  then show ?thesis using assms(1,3,5) by (auto simp: whole_def split: if_splits)
next
  case (Work t)
  then show ?thesis using whole_work [OF assms(1,2), of t] assms(3) by (auto split: if_splits)
next
  case Close
  then show ?thesis
    using assms(3) by (auto simp: whole_def db_close_def Let_def rbind_def split: if_splits sum.splits dest: closeError)
next
  case Spurious
  then show ?thesis using assms(1,3) by (auto simp: whole_def split: db_caller.splits)
qed (use whole_step [OF assms(1,2) _ assms(4)] assms(3) in simp)

lemma whole_acts:
  "db_acts z dump as d = Some d' \<Longrightarrow> whole n d \<Longrightarrow> db_inv z dump gs d \<Longrightarrow> n dvd SLICE_BUFFER_SIZE \<Longrightarrow>
   \<forall>b. Add b \<in> set as \<longrightarrow> length b = n \<Longrightarrow> whole n d'"
proof (induction "as" arbitrary: d gs)
  case (Cons a "as")
  then obtain d1 where d1: "db_act z dump a d = Some d1" "db_acts z dump as d1 = Some d'" by (auto split: option.splits)
  have "whole n d1" using whole_act [OF Cons.prems(2,3) d1(1) Cons.prems(4)] Cons.prems(5) by simp
  then show ?case using Cons.IH [OF d1(2) _ inv_act [OF Cons.prems(3) d1(1)]] Cons.prems(4,5) by simp
qed simp

text \<open>As many records as fit into the first slice.\<close>

lemma adds_run:
  "j * length b < SLICE_BUFFER_SIZE \<Longrightarrow> \<exists>d. db_acts z dump (concat (replicate j [Add b, Step])) (db_init dump) = Some d \<and> filling d \<and>
     inp_buffer_idx (slices d (process_slice d)) = j * length b"
proof (induction j)
  case 0
  show ?case using filling_init by (simp add: db_init_def Let_def)
next
  case (Suc j)
  then obtain d where d: "db_acts z dump (concat (replicate j [Add b, Step])) (db_init dump) = Some d" "filling d"
     "inp_buffer_idx (slices d (process_slice d)) = j * length b" by auto
  have "db_acts z dump [Add b, Step] d = Some (partly b d)" using partial_add [OF d(2)] d(3) Suc.prems by simp
  moreover have "concat (replicate (Suc j) [Add b, Step]) = concat (replicate j [Add b, Step]) @ [Add b, Step]"
    by (simp add: replicate_append_same [symmetric] del: replicate_append_same)
  ultimately have "db_acts z dump (concat (replicate (Suc j) [Add b, Step])) (db_init dump) = Some (partly b d)"
    using d(1) by (simp only: db_acts_append bind.simps)
  moreover have "filling (partly b d)" "inp_buffer_idx (slices (partly b d) (process_slice (partly b d))) = Suc j * length b"
    using d(2,3) by (simp_all add: partly_sel)
  ultimately show ?case by blast
qed

lemma overflow_run:
  assumes "0 < length b" "\<not> length b dvd SLICE_BUFFER_SIZE"
  shows "\<exists>d. db_acts z dump (concat (replicate (SLICE_BUFFER_SIZE div length b) [Add b, Step]) @ [Add b, Step]) (db_init dump) = Some d \<and>
    db_call d = Failed OutOfBounds"
proof -
  let ?j = "SLICE_BUFFER_SIZE div length b"
  have "?j * length b \<noteq> SLICE_BUFFER_SIZE" using assms(2) by (metis dvd_triv_right)
  then have j: "?j * length b < SLICE_BUFFER_SIZE" by (metis div_times_less_eq_dividend le_neq_implies_less)
  have "SLICE_BUFFER_SIZE < ?j * length b + length b" using assms(1) by (metis add.commute dividend_less_div_times)
  moreover obtain d where "db_acts z dump (concat (replicate ?j [Add b, Step])) (db_init dump) = Some d" "filling d"
    "inp_buffer_idx (slices d (process_slice d)) = ?j * length b" using adds_run [OF j] by blast
  ultimately show ?thesis by (simp add: db_acts_append filling_def addData_def Let_def)
qed

section \<open>Properties\<close>

lemma closed_layout:
  assumes "length t \<le> n"
  shows "overwrite 4 t (le4 w @ replicate n 0) = le4 w @ t @ replicate (n - length t) 0"
  using assms by (simp add: overwrite_def le4_def)

text \<open>
  C12: The log loses nothing.  However the caller and the tasks of the pool take turns, once the log is closed the
  file holds the size of the room for the meta data, the meta data with the number of bytes given to the
  log, and then the compressed form of consecutive pieces of all the bytes given to it, in order.  The
  text of the meta data must not become longer when the number of bytes is filled in.
\<close>

theorem logdb_writes_everything:
  assumes "\<forall>v. length (dump v) \<le> length (dump 0xffffffffffffffff)"
    and "db_acts zstd dump as (db_init dump) = Some d" "db_call d = Closed"
  shows "\<exists>pieces. concat pieces = given as \<and> (\<forall>w \<in> set pieces. zstd w \<noteq> None) \<and>
    (let n = length (dump 0xffffffffffffffff); text = dump (of_nat (length (given as))) in
     db_file d = le4 (of_nat n) @ text @ replicate (n - length text) 0 @ concat (map (the \<circ> zstd) pieces))"
proof -
  have "closed_file zstd dump (given as) d" using inv_run [OF assms(2)] assms(3) by (simp add: db_inv_def)
  moreover have "4 + length (dump (of_nat (length (given as)))) \<le> length (room dump)"
    using assms(1) by (simp add: room_def le4_def)
  ultimately obtain ws where "db_file d = overwrite 4 (dump (of_nat (length (given as)))) (room dump) @ concat (map (the \<circ> zstd) ws)"
      "concat ws = given as" "\<forall>w \<in> set ws. zstd w \<noteq> None"
    unfolding closed_file_def by blast
  then show ?thesis using assms(1) closed_layout by (intro exI [of _ ws]) (simp add: Let_def room_def)
qed

theorem logdb_writes_everything_witness:
  "\<exists>d. db_acts Some (\<lambda>v. [7]) [Add [1, 2], Step, Add [3], Step, Close] (db_init (\<lambda>v. [7])) = Some d \<and> db_call d = Closed \<and>
     db_file d = [1, 0, 0, 0, 7, 1, 2, 3]"
proof -
  obtain d where d: "db_acts Some (\<lambda>v. [7]) [Add [1, 2], Step, Add [3], Step, Close] (db_init (\<lambda>v. [7])) = Some d" "db_call d = Closed"
    by (simp add: db_init_def addData_def checkCompress_def checkWriteback_def db_close_def Let_def SLICE_BUFFER_SIZE_def BUFFER_SLICE_def
        close_compress.simps close_write.simps)
  then obtain ps where "concat ps = [1, 2, 3]" "db_file d = le4 1 @ [7] @ concat (map (the \<circ> Some) ps)"
    using logdb_writes_everything [OF _ d] by (auto simp: Let_def)
  moreover have "le4 1 = [1, 0, 0, 0]" by code_simp
  ultimately show ?thesis using d by (auto simp: comp_def)
qed

text \<open>
  C13: The log can stop for ever.  Let records (none empty) fill the four slices exactly, before the first of them
  has been compressed; when the pool has compressed all four and the next record comes, addData waits for a
  slice that only the writing of a slice can free, but only addData and close start one: no task is left
  to notify the caller, and nothing can happen but a spurious wake-up.
\<close>

theorem logdb_can_deadlock:
  assumes "\<forall>rs \<in> {r0, r1, r2, r3}. length (concat rs) = SLICE_BUFFER_SIZE \<and> [] \<notin> set rs \<and> zstd (concat rs) \<noteq> None"
  shows "\<exists>as d. given as = concat (r0 @ r1 @ r2 @ r3) @ b \<and> db_acts zstd dump as (db_init dump) = Some d \<and>
    db_call d = Sleep b \<and> (\<forall>k < 4. sl_state (slices d k) = PROCESS_DONE) \<and>
    (\<forall>a d'. db_act zstd dump a d = Some d' \<longrightarrow> a = Spurious)"
proof -
  let ?d = "jam dump (concat r0) (concat r1) (concat r2) (concat r3)"
  have r: "db_acts zstd dump (concat (map (\<lambda>b. [Add b, Step]) (r0 @ r1 @ r2 @ r3))) (db_init dump) = Some ?d"
    by (rule jam_run) (use assms in blast)
  have "\<forall>k < 4. zstd (map (inp_buffer (slices ?d k)) [0..<SLICE_BUFFER_SIZE]) \<noteq> None"
    using assms by (auto simp: below4 jam_sel jam_sel(5) [unfolded One_nat_def] copied_bytes simp flip: length_concat)
  then obtain d' where d': "db_acts zstd dump (compress_all @ [Add b, Step]) ?d = Some d'" "db_call d' = Sleep b" "tasks d' = []"
    "\<forall>k < 4. sl_state (slices d' k) = PROCESS_DONE"
    using jam_compressed [OF jam_sel(1-3)] by blast
  have "given (concat (map (\<lambda>b. [Add b, Step]) (r0 @ r1 @ r2 @ r3)) @ compress_all @ [Add b, Step]) = concat (r0 @ r1 @ r2 @ r3) @ b"
    unfolding given_append given_adds by (simp add: compress_all_def)
  moreover have "db_acts zstd dump (concat (map (\<lambda>b. [Add b, Step]) (r0 @ r1 @ r2 @ r3)) @ compress_all @ [Add b, Step]) (db_init dump) = Some d'"
    using r d'(1) by (simp only: db_acts_append bind.simps)
  ultimately show ?thesis using d'(2-4) asleep_stuck by blast
qed

theorem logdb_can_deadlock_witness:
  "\<exists>as d. db_acts Some (\<lambda>v. []) as (db_init (\<lambda>v. [])) = Some d \<and> db_call d = Sleep [1] \<and>
     (\<forall>a d'. db_act Some (\<lambda>v. []) a d = Some d' \<longrightarrow> a = Spurious)"
proof -
  let ?r = "[replicate SLICE_BUFFER_SIZE (0 :: u8)]"
  have "\<forall>rs \<in> {?r, ?r, ?r, ?r}. length (concat rs) = SLICE_BUFFER_SIZE \<and> [] \<notin> set rs \<and> Some (concat rs) \<noteq> None"
    by simp
  from logdb_can_deadlock [OF this, of "[1]" "\<lambda>v. []"] show ?thesis by blast
qed

text \<open>
  C14: addData counts a slice as full when nothing is left of its buffer, slack included, so it never writes
  past the end of the buffer exactly if the size of the records divides the size of the buffer.
\<close>

theorem logdb_overflow:
  assumes "0 < n"
  shows "(\<exists>as d. (\<forall>b. Add b \<in> set as \<longrightarrow> length b = n) \<and> db_acts zstd dump as (db_init dump) = Some d \<and>
    db_call d = Failed OutOfBounds) \<longleftrightarrow> \<not> n dvd SLICE_BUFFER_SIZE"
proof
  assume "\<exists>as d. (\<forall>b. Add b \<in> set as \<longrightarrow> length b = n) \<and> db_acts zstd dump as (db_init dump) = Some d \<and> db_call d = Failed OutOfBounds"
  then obtain as d where r: "\<forall>b. Add b \<in> set as \<longrightarrow> length b = n" "db_acts zstd dump as (db_init dump) = Some d"
    "db_call d = Failed OutOfBounds" by blast
  have "whole n (db_init dump)" by (simp add: whole_def db_init_def Let_def)
  then show "\<not> n dvd SLICE_BUFFER_SIZE"
    using whole_acts [OF r(2) _ inv_init _ r(1)] r(3) by (auto simp: whole_def)
next
  assume "\<not> n dvd SLICE_BUFFER_SIZE"
  then obtain d where "db_acts zstd dump (concat (replicate (SLICE_BUFFER_SIZE div n) [Add (replicate n 0), Step]) @ [Add (replicate n 0), Step])
      (db_init dump) = Some d" "db_call d = Failed OutOfBounds"
    using overflow_run [of "replicate n 0"] assms by auto
  then show "\<exists>as d. (\<forall>b. Add b \<in> set as \<longrightarrow> length b = n) \<and> db_acts zstd dump as (db_init dump) = Some d \<and> db_call d = Failed OutOfBounds"
    by (intro exI conjI) auto
qed

theorem logdb_overflow_witness:
  "\<exists>as d. (\<forall>b. Add b \<in> set as \<longrightarrow> length b = 40) \<and> db_acts Some (\<lambda>v. []) as (db_init (\<lambda>v. [])) = Some d \<and>
     db_call d = Failed OutOfBounds"
  using logdb_overflow [of 40 Some "\<lambda>v. []"] by (simp add: SLICE_BUFFER_SIZE_def dvd_eq_mod_eq_0)

end
