(* ===== verification/ExitHandler.thy ===== *)
theory ExitHandler
  imports Prelude
begin

text \<open>
  ExitHandler of src/src/common/exithandler.cpp.  The registered handlers are functions of the exit
  code on a program state.  Inside the class the name exit in exit(code) is the member function
  itself, so the function calls itself after the handlers: partial_function (option) gives None to a
  call that does not return.
\<close>

type_synonym 's handler = "int \<Rightarrow> 's \<Rightarrow> 's"

definition registerExitHandler :: "'s handler \<Rightarrow> 's handler list \<Rightarrow> 's handler list" where
  "registerExitHandler h hs = hs @ [h]"

definition run_handlers :: "'s handler list \<Rightarrow> int \<Rightarrow> 's \<Rightarrow> 's" where
  "run_handlers hs code s = fold (\<lambda>h s. h code s) hs s"

partial_function (option) exit_handler :: "'s handler list \<Rightarrow> int \<Rightarrow> 's \<Rightarrow> 's option" where
  "exit_handler hs code s = exit_handler hs code (run_handlers hs code s)"

lemma run_registered:
  "run_handlers (registerExitHandler h hs) code s = h code (run_handlers hs code s)"
  by (simp add: run_handlers_def registerExitHandler_def)

lemma exit_handler_diverges:
  assumes "exit_handler hs code s = Some r"
  shows False
  by (rule exit_handler.raw_induct [where P = "\<lambda>hs code s r. False", OF _ assms]) blast

lemma exit_handler_None: "exit_handler hs code s = None"
  using exit_handler_diverges [of hs code s] by (cases "exit_handler hs code s") auto

end
