(* ===== verification/Spec2Isabelle.thy ===== *)
theory Spec2Isabelle
  imports Caches Predictors Devices Simulators CacheCPU Samples Step_Props Csr_Props Sv39 Core_Props ArchConfig LogDB_Runs Fifo8 ExitHandler
begin

text \<open>
  A model of the cpu simulator CPUDelaySim and the properties that make it correct.

  \<^bold>\<open>The program.\<close>  EMU::run (src/src/emu.cpp) is a clock.  In each cycle it calls tick of the memory, which
  answers finished accesses and moves the devices on, tick of every cache, and exec of the cpu.  The
  functional state of the guest lives in RiscvArch (src/src/arch/riscv/riscvarch.cpp), which all cpus
  share: translateAddr walks the Sv39 page tables, decode fetches a word, lets the generated decoders
  (src/inc/arch/riscv/trans_rv16.h, trans_rv32.h) find its trans function
  (src/src/arch/riscv/interpreter.cpp) and leaves what the instruction will do in a DecodeInfo, and
  updateEnv commits that DecodeInfo or takes the trap it asks for.  Three cpus call it: AtomicCPU, one
  instruction a cycle; CacheCPU, which waits for its instruction cache; and PipelineCPU, five stages
  with branch prediction, which commits in its decode stage and then only models the time that
  execution and memory take.  Caches and memory timing carry no data: the guest's bytes are read and
  written in the RAM directly.

  \<^bold>\<open>How the code is modelled.\<close>  A class is a record of its members, a function a definition on records; a
  call that may stop the program returns a sum whose Inl is the way it stops (a failed assert, an exit,
  an index out of range, a trap of the host, behaviour the C++ standard leaves undefined).  Integers are
  words of the source's width.  A pointer to one of a fixed set of objects is the number of the
  object.  Members and locals without an initialiser are arguments, so that no proof depends on them.

  \<^bold>\<open>Shared.\<close>  Prelude: integer types, results, generic lemmas.  Queue: the locales of bounded queues and rings.
  LinkRing: LinkList (src/inc/common/linklist.h), a ring whose members are handed out and taken back;
  it is an interpretation of the ring locale, and ll_drain, the loop that empties it, is proved to end.
  ExitHandler: src/src/common/exithandler.cpp.

  \<^bold>\<open>The instruction set.\<close>  ArchState: the architectural state, DecodeInfo, and the writes the commit
  makes through byte offsets.  Memory: paddrRead and paddrWrite (src/src/cache/memory.cpp), with the
  round trip of stores and loads as an interpretation of a memory locale.  Mmu and Sv39: the page walk,
  and Sv39 as an inductive relation that the walk refines.  Bitfield, Decode_Types, Extract16,
  Extract32, Decode16, Decode32, Decode32_Vector: the decoders, one definition per opcode or part of
  their switch.  Decode_Wf: what they return is in range.  Decode_Props: they agree with the opcode
  tables of the manual.  Interp, Exec_Alu, Exec_Mem, Exec_Fp, Exec_Sys, Csr: the trans functions and the
  control registers; Exec: their dispatch.  Exec_Spec: what the integer instructions compute according
  to the manual, and that they do.  Csr_Props: the access path of the control registers.  Trap: fetch,
  decode, handleException, updateEnv, and AtomicCPU::exec.  Trap_Props: traps, returns, interrupts.
  Frame: what decoding leaves alone.  Slots: the byte offsets that reach the commit are those of whole
  fields.  Step_Props: fetch, decode and commit composed to one instruction.  Core_Props: the invariant
  over all sequences of calls a cpu can make, and precise exceptions.  ArchConfig: the state at the start,
  with the parser of the file of initial values (src/inc/arch/arch.h).

  \<^bold>\<open>Caches.\<close>  Lru: the replacement policy behind its locale.  Cache: the tag array and the split of an address.
  Cache_Runs: the locale of a cache that answers clock ticks, calls of the cpu and answers of the parent
  in any order, with the lemma that no such run crashes.  ICache, ICache_Props and DCache: the state
  machines of src/src/cache/icache.cpp and dcache.cpp and the interpretations of the locale.
  Caches: their properties.

  \<^bold>\<open>Devices.\<close>  Device: the request handshake (src/inc/device/device.h) as a locale, the interrupt controller,
  the Clint timer.  Fifo8, Serial, Serial_Props, Uart: the 16550A port with its two FIFOs and the device
  around it.  SimpleUart: the 8250.  Memory_Port: the timing side of Memory, with the requests accepted
  against those answered as multisets.  Bus: the device loops over the concrete devices and the
  interrupt word carried to the cpu.  Devices: their properties.

  \<^bold>\<open>Branch prediction.\<close>  Branch_Pred: history, BTB, gshare and return stack behind the locale of the class BP.
  Predictor: the two units around them.  Predictors: their properties.

  \<^bold>\<open>The log.\<close>  LogDB: LogDB of src/src/common/dbhandler.cpp, whose records pass through four slices that the
  tasks of a thread pool compress and write.  The caller and the tasks are a state machine: db\_act is one
  step of the caller, of one task, or a spurious wake-up, and db\_acts a run in any order.  LogDB_Props: the
  slices in the order of the ring as two lists, and that each step of a task keeps the bytes they hold.
  LogDB_Runs: addData and close keep them too; a closed log holds every byte in order, a run can stop for
  ever, and which sizes of records overflow a slice.  The compressor and the text of the meta data are
  parameters; the accesses the code makes without the mutex are taken as atomic.

  \<^bold>\<open>The cpus.\<close>  CacheCPU: src/src/cpu/cachecpu.cpp.  Pipeline: src/src/cpu/pipelinecpu.cpp, one definition per
  stage of exec (wb_stage, mem_stage, exe_stage, id_stage, refill_stage, fetch_stage, issue_stage), preId,
  the redirects and the callbacks of the two caches.  A call of redirect on a cache is returned to the
  stage and made there, at the same point of the cycle.  Emu: EMU::run over the pipelined cpu and its
  caches, above any parent; what the memory does in each cycle is a list of actions, quantified over in
  the property.
  Pipeline_Inv: the sequential machine seq_step, whose steps are the commit of the instruction at the
  program counter and changes that leave the architectural state alone, and the invariant of the front
  of the pipeline: which requests are in the ring, which of them the instruction cache still owes a
  callback, and that what the decode stage holds was decoded at the present program counter in the
  present state.  Pipeline_Props and Pipeline_Order: each stage, callback and memory action keeps it.
  Pipelines: the refinement of the sequential machine by whole runs of Emu, with a run of five cycles
  as its witness.

  \<^bold>\<open>The whole simulator.\<close>  Simulator: Emu above Memory_Port and the devices of Bus, connected as
  CacheManager::afterLoad and EMU::init do it: the callbacks of the two caches have the ids 0 and 1, a
  lookup of a cache is memory_lookup, and the answers the memory gives in its tick are delivered to the
  caches in their order.  A device has two halves: its request handshake in the memory's list, and its
  registers in the machine, which the instructions reach through plat; the parameter ft is the clock of
  the second half.  Simulator_Props: a run of the simulator is a run of Emu whose memory actions are the
  answers given, because the callbacks the memory owes are those of the misses it has accepted; this
  needs that the DRAM calls back once for each read it has taken (dram_keeps).  Simulators: its properties,
  with the first five cycles of a concrete simulator as the witness.

  \<^bold>\<open>Where it stops.\<close>  Pipeline_Stops: the invariant of the bookkeeping of the pipeline (back_inv: both rings,
  the ids of the requests, the tables of the predictors, the ids and sizes the instructions carry) and of
  what the data cache will give back (dreq_ok); runs states of a result that it keeps the invariant or is an
  error of the sequential machine (stops: in the page walk, the decoder or the commit) or of one of the three
  watchdogs.  Each stage, redirect and callback is shown to be such a run.  Simulator_Stops: the same
  of the whole simulator, above the memory and the devices, and that EMU::init establishes the invariant.
  The code initialises neither the ids in the instruction objects nor the entries of the predictor's table,
  so that these are in range is a hypothesis; with it the invariant says they stay so.

  \<^bold>\<open>The refinement.\<close>  The architectural state it speaks of (arch) is core of Frame and the RAM: everything of
  ArchState but mip, which the devices write, and the FS field of mstatus and the softfloat flags, which
  the floating-point instructions set when they are decoded and not when they commit.  A fetch page
  fault found by the fetch stage is committed as it is: its cause is not traced back to the page tables,
  which may have changed since the translation.  The hypothesis that idle_req_valid of the instruction
  cache starts as False is needed, because nothing in the code sets it.  At least three requests
  (retire_size) are needed for the ring not to overwrite the request in flight.

  \<^bold>\<open>Bounds and fuel.\<close>  No definition has fuel.  The page walk recurses on the level, the decoders and the
  execution loops on data.  ll_drain and exit_handler, whose loops may not end, are partial functions
  with None for no result.  Memory sizes, the number of sets and the number of requests are bounded where
  the code's own int or unsigned arithmetic would wrap; the bounds are hypotheses of the properties.

  \<^bold>\<open>Parameters.\<close>  The platform record plat of Memory: the reads and writes of devices, the softfloat library
  (src/thirdparty/softfloat), and the value of uninitialised locals.  The DRAM simulator (Ramulator) is a
  parameter of Memory_Port and of Simulator, the parent of the caches one of Emu.

  \<^bold>\<open>Not modelled.\<close>  Instructions whose trans function is __NOT_IMPLEMENTED_EXIT__ (vector, crypto, parts of
  the hypervisor) are decoded but one constructor, Stub.  The configurations DIFFTEST, DB_INST and DRAMSIM
  are not built.  Statistics, the text logs, the meta data of the data base, the command line, the image loader and the socket of the
  serial port are input or output.  CacheManager::load, EMU::load and Config create the objects from the
  configuration by the names of their classes: the development starts at their afterLoad.  EmuProxy loads
  the reference simulator of DIFFTEST.

  \<^bold>\<open>Properties.\<close>  Each property stands at the end of the theory of its component or in the sections below.
\<close>

section \<open>Concrete machines for the witnesses\<close>

text \<open>A machine in S mode whose page table maps one gigabyte at 0x40000000 to 0x80000000.\<close>

definition machine2 :: "unit machine" where
  "machine2 = machine0\<lparr>
     memory := (memory machine0)\<lparr> ram := store_le (\<lambda>a. 0) 8 8 0x200000cf \<rparr>, data_mmu_state := True,
     state := state0\<lparr> priv := 1, satp := 0x8000000000080000 \<rparr> \<rparr>"


lemma load_le_zero: "load_le (\<lambda>a. 0) a n = 0"
  by (induction n arbitrary: a) simp_all

section \<open>Instructions\<close>

text \<open>
  C1: a register-register instruction of RV64IM, found in the RAM in the encoding of the manual, takes
  the machine through fetch, decode, execute and commit to the state the manual gives: the pc moves on
  by 4, rd holds the result, x0 holds 0, and nothing else of the architectural state or of memory
  changes.  The hypotheses leave out interrupts that are due and the operands on which the host
  processor traps.
\<close>

theorem register_register_step:
  assumes "ram_word p c pa w" and "quiet (state c)" and "slots_ok (info c)"
    and "w AND 0xfe00707f = r_match oper"
    and "x = gpr (state c) (unat (reg_field w 15))" and "y = gpr (state c) (unat (reg_field w 20))"
    and "\<not> host_traps oper x y"
  shows "\<exists>c2. step p va pa c = Inr (va + 4, c2) \<and> memory c2 = memory c \<and>
    state c2 = (state c)\<lparr> gpr := (gpr (state c))(unat (reg_field w 7) := alu_r oper x y, 0 := 0) \<rparr>"
  by (rule step_r [OF assms]) blast

theorem register_register_step_witness:
  "\<exists>c2. step plat0 0x80000000 0x80000000 (machine1 0x402081b3 7 5) = Inr (0x80000004, c2) \<and> gpr (state c2) 3 = 2"
  using register_register_step [where va = "0x80000000" and oper = O_sub and x = 7 and y = 5,
      OF machine1_ram [of "0x402081b3" 7 5] machine1_ready [of "0x402081b3" 7 5]]
  by (auto simp: machine1_gpr reg_field_def)


text \<open>
  C6: an arithmetic instruction with an immediate operand (addi, addiw, andi, ori, xori, slti, sltiu),
  from its encoding in the RAM to the state after the commit; the immediate is the upper twelve bits of
  the word, sign-extended.
\<close>

theorem immediate_step:
  assumes "ram_word p c pa w" and "quiet (state c)" and "slots_ok (info c)"
    and "i_match oper = Some (w AND 0x707f)"
    and "alu_i oper (gpr (state c) (unat (reg_field w 15))) (imm_i w) = Some v"
  shows "\<exists>c2. step p va pa c = Inr (va + 4, c2) \<and> memory c2 = memory c \<and>
    state c2 = (state c)\<lparr> gpr := (gpr (state c))(unat (reg_field w 7) := v, 0 := 0) \<rparr>"
  by (rule step_i [OF assms]) blast

theorem immediate_step_witness:
  "\<exists>c2. step plat0 0x80000000 0x80000000 (machine1 0xfff08193 7 5) = Inr (0x80000004, c2) \<and> gpr (state c2) 3 = 6"
proof -
  have v: "alu_i O_addi (gpr (state (machine1 0xfff08193 7 5)) (unat (reg_field 0xfff08193 15)))
      (imm_i 0xfff08193) = Some 6"
    by (simp add: machine1_gpr reg_field_def imm_i_def)
  show ?thesis
    using immediate_step [where va = "0x80000000" and oper = O_addi and v = 6,
      OF machine1_ram [of "0xfff08193" 7 5] machine1_ready [of "0xfff08193" 7 5] _ v]
    by (auto simp: reg_field_def)
qed


text \<open>
  Whatever word is decoded, by the 32-bit or the compressed decoder, the register numbers handed to
  the trans functions are below 32 and the CSR numbers below 4096.
\<close>

theorem decoded_operands_in_range:
  "list_all insn_wf (decode_insn32 w) \<and> list_all insn_wf (decode_insn16 h)"
  using wf_decode_insn32 wf_decode_insn16 by blast

section \<open>Address translation and memory\<close>





text \<open>The address 0x80000000 has no translation in machine2: its entry in the root table is 0.\<close>

lemma machine2_root: "r = 0x80000000 \<Longrightarrow> walk plat0 0x80000000 ty 2 r (machine2\<lparr> ifetch_mmu_state := b \<rparr>) =
    Inr (0, None, machine2\<lparr> ifetch_mmu_state := b \<rparr>)"
proof -
  assume r: "r = 0x80000000"
  have "load_le (store_le (\<lambda>a. 0) 8 8 0x200000cf) 16 8 = 0"
    using rm.rd_other [of "\<lambda>a. 0" 8 8 16 8 "0x200000cf"] by (simp add: ram_ok_def load_le_zero)
  then have "pt_read plat0 (machine2\<lparr> ifetch_mmu_state := b \<rparr>) 0x80000010 = Some 0"
    by (simp add: pt_read_def plat0_def machine2_def machine0_def in_ram_def)
  then show ?thesis
    using walk_round [of plat0 "machine2\<lparr> ifetch_mmu_state := b \<rparr>" "0x80000000" "0x80000000" 2 0 ty] r
    by (simp add: VPNi_def VPNiSHFT_def pte_valid_def pte_defs PGBASE_def)
qed


text \<open>
  C24: CacheCPU loses a page fault of its fetch.  When the translation of the pc faults in a cycle that
  starts with no instruction, exec records the fault and marks the instruction as delivered; but the next
  cycle decodes that instruction from whatever physical address the walk stopped at, in the same way
  whatever exception has been recorded.
\<close>

theorem cache_cpu_loses_page_fault:
  assumes "\<not> cc_inst_valid s"
    and "translateAddr p (cc_pc s) IFETCH (cc_paddr s) (uninit p) (cc_arch s) = Inr (pa, EXC_IPF, c)"
  shows "\<exists>s'. cc_exec p (s, ic) = Inr (s', ic) \<and> cc_inst_valid s' \<and> exception (info (cc_arch s')) = EXC_IPF \<and>
    cc_pc s' = cc_pc s \<and> cc_paddr s' = pa \<and>
    (\<forall>e ic'. cc_execute p (s', ic') = cc_execute p (s'\<lparr> cc_arch := set_exception e (cc_arch s') \<rparr>, ic'))"
  by (rule cc_fault [OF assms])

theorem cache_cpu_loses_page_fault_witness:
  "\<exists>s'. cc_exec plat0 (cc_afterLoad 0x80000000 \<lparr> cc_arch = machine2\<lparr> ifetch_mmu_state := True \<rparr>, cc_pc = 0,
      cc_inst_valid = False, cc_paddr = 0, cc_req = req0 \<rparr>, (em_ic (emu0 0))) = Inr (s', (em_ic (emu0 0))) \<and>
    exception (info (cc_arch s')) = EXC_IPF \<and> cc_paddr s' = 0 \<and>
    cc_execute plat0 (s', (em_ic (emu0 0))) = cc_execute plat0 (s'\<lparr> cc_arch := set_exception EXC_NONE (cc_arch s') \<rparr>, (em_ic (emu0 0)))"
proof -
  let ?s = "cc_afterLoad 0x80000000 \<lparr> cc_arch = machine2\<lparr> ifetch_mmu_state := True \<rparr>, cc_pc = 0,
      cc_inst_valid = False, cc_paddr = 0, cc_req = req0 \<rparr>"
  have "cc_arch ?s = machine2\<lparr> ifetch_mmu_state := True \<rparr>"
    by (simp add: cc_afterLoad_def machine2_def machine0_def)
  then have "translateAddr plat0 (cc_pc ?s) IFETCH (cc_paddr ?s) (uninit plat0) (cc_arch ?s) = Inr (0, EXC_IPF, cc_arch ?s)"
    using machine2_root [of "0x80000000" IFETCH True]
    by (simp add: translateAddr_def machine2_def state0_def exc_pf_def cc_afterLoad_def)
  then show ?thesis
    using cache_cpu_loses_page_fault [of ?s plat0 0 "cc_arch ?s" "em_ic (emu0 0)"] by (auto simp: cc_afterLoad_def)
qed



section \<open>Traps and interrupts\<close>

text \<open>
  C15: an exception with a trap value that is not delegated enters M mode: the pc goes to the base of
  mtvec, mepc, mcause and mtval hold the pc, the cause and the value, mstatus keeps the old privilege in
  MPP (bits 11 and 12) and the old MIE in MPIE, clears MIE, and the supervisor's trap registers, the
  integer registers and memory stay as they were.
\<close>

theorem trap_to_machine_mode:
  assumes "exception (info c) = e" and "exc_with_data e" and "\<not> edeleg_valid (state c) e" and "priv (state c) \<le> 3"
  shows "\<exists>c'. updateEnv p c = Inr (mtvec (state c) AND 0xfffffffffffffffc, c') \<and>
    priv (state c') = MODE_M \<and> mepc (state c') = env_pc c \<and> mcause (state c') = e \<and>
    mtval (state c') = exc_data (info c) \<and>
    (\<forall>n. bit (mstatus (state c')) n \<longleftrightarrow>
      (if n = 3 then False else if n = 7 then bit (mstatus (state c)) 3
       else if n = 11 then bit (priv (state c)) 0 else if n = 12 then bit (priv (state c)) 1
       else bit (mstatus (state c)) n)) \<and>
    sepc (state c') = sepc (state c) \<and> scause (state c') = scause (state c) \<and>
    gpr (state c') = gpr (state c) \<and> memory c' = memory c"
proof -
  have "\<not> is_irq e" using assms(2) by (auto simp: exc_with_data_def is_irq_def)
  then show ?thesis
    using updateEnv_data [OF assms(1,2), of p] do_trap_pc(1) [OF assms(3), of "exc_data (info c)"] assms(3)
    by (intro exI [of _ "snd (do_trap e (exc_data (info c)) c)"] conjI allI)
      (simp_all add: do_trap_priv do_trap_regs do_trap_frame do_trap_mstatus_M [OF assms(3,4)] prod_eq_iff)
qed

definition faulted :: "u64 \<Rightarrow> u64 \<Rightarrow> u64 \<Rightarrow> unit machine" where
  "faulted e pr m = machine0\<lparr> env_pc := 0x80000040, info := zero_info\<lparr> exception := e, exc_data := 0x1234 \<rparr>,
     state := state0\<lparr> priv := pr, mstatus := m, mtvec := 0x80000101, stvec := 0x80000201, medeleg := 0xb000,
       mideleg := 0x222, gpr := (\<lambda>r. 0)(1 := 7) \<rparr> \<rparr>"

theorem trap_to_machine_mode_witness:
  "\<exists>c'. updateEnv plat0 (faulted EXC_II 1 0x8) = Inr (0x80000100, c') \<and> mcause (state c') = 2 \<and>
     bit (mstatus (state c')) 7 \<and> bit (mstatus (state c')) 11 \<and> \<not> bit (mstatus (state c')) 12"
  using trap_to_machine_mode [of "faulted EXC_II 1 0x8" EXC_II plat0]
  by (auto simp: faulted_def exc_with_data_def edeleg_valid_def is_irq_def exception_mask_def sx_def state0_def)

text \<open>
  C16: an exception that medeleg delegates, raised in U or S mode, enters S mode through stvec with
  sepc, scause, stval and the SPP, SPIE and SIE bits set in the same way; the machine's trap registers
  keep their values.
\<close>

theorem trap_to_supervisor_mode:
  assumes "exception (info c) = e" and "exc_with_data e" and "edeleg_valid (state c) e" and "priv (state c) \<le> 1"
  shows "\<exists>c'. updateEnv p c = Inr (stvec (state c) AND 0xfffffffffffffffc, c') \<and>
    priv (state c') = MODE_S \<and> sepc (state c') = env_pc c \<and> scause (state c') = e \<and>
    stval (state c') = exc_data (info c) \<and>
    (\<forall>n. bit (mstatus (state c')) n \<longleftrightarrow>
      (if n = 1 then False else if n = 5 then bit (mstatus (state c)) 1
       else if n = 8 then bit (priv (state c)) 0 else bit (mstatus (state c)) n)) \<and>
    mepc (state c') = mepc (state c) \<and> mcause (state c') = mcause (state c) \<and>
    gpr (state c') = gpr (state c) \<and> memory c' = memory c"
proof -
  have "\<not> is_irq e" using assms(2) by (auto simp: exc_with_data_def is_irq_def)
  then show ?thesis
    using updateEnv_data [OF assms(1,2), of p] do_trap_pc(2) [OF assms(3), of "exc_data (info c)"] assms(3)
    by (intro exI [of _ "snd (do_trap e (exc_data (info c)) c)"] conjI allI)
      (simp_all add: do_trap_priv do_trap_regs do_trap_frame do_trap_mstatus_S [OF assms(3,4)] prod_eq_iff)
qed

theorem trap_to_supervisor_mode_witness:
  "\<exists>c'. updateEnv plat0 (faulted EXC_LPF 0 0x2) = Inr (0x80000200, c') \<and> scause (state c') = 13 \<and>
     stval (state c') = 0x1234 \<and> bit (mstatus (state c')) 5 \<and> \<not> bit (mstatus (state c')) 8"
  using trap_to_supervisor_mode [of "faulted EXC_LPF 0 0x2" EXC_LPF plat0]
  by (auto simp: faulted_def exc_with_data_def edeleg_valid_def is_irq_def exception_mask_def sx_def state0_def)

text \<open>
  C17: mret undoes a trap to M mode: after the trap, mret goes back to the pc of the trapped
  instruction, in its privilege mode, with the interrupt enable MIE as before.
\<close>

theorem mret_undoes_trap:
  assumes "\<not> edeleg_valid (state c) e" and "priv (state c) \<le> 3"
  shows "fst (do_mret (snd (do_trap e v c))) = env_pc c \<and>
    priv (state (snd (do_mret (snd (do_trap e v c))))) = priv (state c) \<and>
    (bit (mstatus (state (snd (do_mret (snd (do_trap e v c)))))) 3 \<longleftrightarrow> bit (mstatus (state c)) 3)"
proof (intro conjI)
  note t = do_trap_mstatus_M [OF assms, of v]
  show "fst (do_mret (snd (do_trap e v c))) = env_pc c"
    using do_trap_regs(2) [OF assms(1)] by (simp add: do_mret_result)
  show "priv (state (snd (do_mret (snd (do_trap e v c))))) = priv (state c)"
    unfolding do_mret_result two_bits using assms(2) t by (simp add: bit_drop_bit_eq)
  show "bit (mstatus (state (snd (do_mret (snd (do_trap e v c)))))) 3 \<longleftrightarrow> bit (mstatus (state c)) 3"
    unfolding do_mret_result using t by simp
qed

theorem mret_undoes_trap_witness:
  "fst (do_mret (snd (do_trap EXC_II 0 (faulted EXC_II 1 0x8)))) = 0x80000040 \<and>
   priv (state (snd (do_mret (snd (do_trap EXC_II 0 (faulted EXC_II 1 0x8)))))) = 1"
  using mret_undoes_trap [of "faulted EXC_II 1 0x8" EXC_II 0]
  by (simp add: faulted_def edeleg_valid_def is_irq_def exception_mask_def sx_def state0_def)

text \<open>
  C18: sret undoes a delegated trap, provided bit 9 of mstatus is clear: the code reads a two-bit
  SPP field, and bit 9 belongs to another field.
\<close>

theorem sret_undoes_trap:
  assumes "edeleg_valid (state c) e" and "priv (state c) \<le> 1"
  shows "fst (do_sret (snd (do_trap e v c))) = env_pc c \<and>
    (priv (state (snd (do_sret (snd (do_trap e v c))))) = priv (state c) \<longleftrightarrow> \<not> bit (mstatus (state c)) 9) \<and>
    (bit (mstatus (state (snd (do_sret (snd (do_trap e v c)))))) 1 \<longleftrightarrow> bit (mstatus (state c)) 1)"
proof (intro conjI)
  note t = do_trap_mstatus_S [OF assms, of v]
  have "priv (state c) \<le> 3" using assms(2) by (rule order_trans) simp
  moreover have "\<not> bit (priv (state c)) 1"
    using mode_bits_S [OF assms(2), of 1] by auto
  ultimately show "priv (state (snd (do_sret (snd (do_trap e v c))))) = priv (state c) \<longleftrightarrow> \<not> bit (mstatus (state c)) 9"
    unfolding do_sret_result two_bits using t by (simp add: bit_drop_bit_eq)
  show "fst (do_sret (snd (do_trap e v c))) = env_pc c"
    using do_trap_regs(1) [OF assms(1)] by (simp add: do_sret_result)
  show "bit (mstatus (state (snd (do_sret (snd (do_trap e v c)))))) 1 \<longleftrightarrow> bit (mstatus (state c)) 1"
    unfolding do_sret_result using t by simp
qed

theorem sret_undoes_trap_witness:
  "priv (state (snd (do_sret (snd (do_trap EXC_LPF 0 (faulted EXC_LPF 1 0x2)))))) = 1 \<and>
   priv (state (snd (do_sret (snd (do_trap EXC_LPF 0 (faulted EXC_LPF 1 0x202)))))) \<noteq> 1"
  using sret_undoes_trap [of "faulted EXC_LPF 1 0x2" EXC_LPF 0] sret_undoes_trap [of "faulted EXC_LPF 1 0x202" EXC_LPF 0]
  by (simp add: faulted_def edeleg_valid_def is_irq_def exception_mask_def sx_def state0_def)

text \<open>
  C19: when interrupts are enabled for the current mode, decode replaces the outcome of the instruction
  by the interrupt with the highest number among those pending in mip and enabled in mie.
\<close>

theorem highest_interrupt_taken:
  assumes "irq_enabled (state c)" and "pending (state c) n" and "\<forall>k. pending (state c) k \<longrightarrow> k \<le> n"
  shows "exception (info (check_irq c)) = IRQ_MASK OR of_nat n \<and> state (check_irq c) = state c"
  using check_irq_some [OF assms] by (simp_all add: info_defs)

definition interrupted :: "unit machine" where
  "interrupted = machine0\<lparr> state := state0\<lparr> priv := 0, mip := 0x2a0, mie := 0x220 \<rparr> \<rparr>"

lemma interrupted_pending: "pending (state interrupted) k \<longleftrightarrow> k = 5 \<or> k = 9"
proof (cases "k < 32")
  case True
  then have "k \<in> set [0..<32]" by simp
  then show ?thesis
    by (simp only: upt_conv_Cons list.set)
      (elim insertE emptyE; simp add: pending_def interrupted_def state0_def)
qed (simp add: pending_def)

theorem highest_interrupt_taken_witness:
  "exception (info (check_irq interrupted)) = IRQ_MASK OR 9"
  using highest_interrupt_taken [of interrupted 9] interrupted_pending
  by (simp add: irq_enabled_def) (simp add: interrupted_def state0_def)

text \<open>
  An interrupt that is not delegated enters M mode at the base of mtvec, or at base + 4 * cause when
  the mode field of mtvec is not zero; mcause holds the cause with the top bit set and mtval is 0.
\<close>

theorem interrupt_vector:
  assumes "n < 32" and "exception (info c) = IRQ_MASK OR of_nat n"
    and "\<not> edeleg_valid (state c) (IRQ_MASK OR of_nat n)"
  shows "\<exists>c'. updateEnv p c = Inr ((mtvec (state c) AND 0xfffffffffffffffc)
        + (if mtvec (state c) AND 3 \<noteq> 0 then 4 * of_nat n else 0), c') \<and>
    priv (state c') = MODE_M \<and> mepc (state c') = env_pc c \<and> mcause (state c') = IRQ_MASK OR of_nat n \<and>
    mtval (state c') = 0 \<and> gpr (state c') = gpr (state c)"
  using updateEnv_irq [OF assms(1,2), of p] do_trap_pc(3) [OF assms(3) irq_code(1) [OF assms(1)], of 0] assms(3)
  by (intro exI [of _ "snd (do_trap (IRQ_MASK OR of_nat n) 0 c)"])
    (simp add: do_trap_priv do_trap_regs do_trap_frame irq_code [OF assms(1)] prod_eq_iff push_bit_eq_mult)

theorem interrupt_vector_witness:
  "\<exists>c'. updateEnv plat0 (faulted (IRQ_MASK OR 7) 0 0) = Inr (0x8000011c, c') \<and> mcause (state c') = IRQ_MASK OR 7"
  using interrupt_vector [of 7 "faulted (IRQ_MASK OR 7) 0 0" plat0]
  by (auto simp: faulted_def edeleg_valid_def is_irq_def exception_mask_def sx_def state0_def)

section \<open>Control and status registers\<close>

text \<open>
  C20: a CSR instruction that writes ends the program for two CSR numbers only, mcycle and minstret
  (their write function is assert(0)); for all others, in the table or not, it returns.  No null
  function pointer is followed.
\<close>

theorem csr_write_crash:
  "do_csrrw p rd n v m c = Inl e \<Longrightarrow> e = AssertFail ''0'' \<and> (n = 0xb00 \<or> n = 0xb02)"
  by (rule do_csrrw_crash)

theorem csr_write_crash_witness:
  "do_csrrw plat0 1 0xb00 5 all1 (set_exception EXC_NONE machine0) = Inl (AssertFail ''0'')"
proof -
  have "\<exists>e. do_csrrw plat0 1 0xb00 5 all1 (set_exception EXC_NONE machine0) = Inl e"
    by (simp add: do_csrrw_def riscv_csrrw_check_def riscv_csrrw_def csr_ops_def csr_table_def mk_csr_def
        read_cycle_def write_mhpmcounter_def info_defs)
  then show ?thesis
    using csr_write_crash [of plat0 1 "0xb00" 5 all1 "set_exception EXC_NONE machine0"] by blast
qed

text \<open>
  A write to a read-only CSR number (top two bits set) is refused before anything else happens:
  illegal instruction, with the instruction word as the trap value, no result.
\<close>

theorem csr_readonly_refused:
  "readonly n \<Longrightarrow> do_csrrw p rd n v m c = Inr (set_exc_data (ucast (inst (info c))) (set_exception EXC_II c))"
  by (rule do_csrrw_readonly)

theorem csr_readonly_refused_witness:
  "do_csrrw plat0 1 0xf11 5 all1 machine0 = Inr (set_exc_data 0 (set_exception EXC_II machine0))"
  using csr_readonly_refused [of "0xf11" plat0 1 5 all1 machine0]
  by (simp add: readonly_def machine0_def zero_info_def)

text \<open>
  C21: a write to frm does not set the rounding mode: after the commit of what write_frm leaves for the
  register, the rounding mode is the old byte with its top three bits cleared, whatever value was
  written, and the accrued exceptions are as before.
\<close>

theorem frm_write_has_no_effect:
  assumes "mstatus (state c) AND MSTATUS_FS \<noteq> 0"
  shows "\<exists>c1 c2. write_frm n v c = Inr c1 \<and> rmw_slot 1 c1 = Inr c2 \<and>
    frm (state c2) = frm (state c) AND 0x1f \<and> fp_status (state c2) = fp_status (state c)"
  by (rule write_frm_committed [OF assms])

definition fp_machine :: "unit machine" where
  "fp_machine = machine0\<lparr> state := state0\<lparr> mstatus := 0x2000, frm := 2 \<rparr> \<rparr>"

theorem frm_write_has_no_effect_witness:
  "\<exists>c1 c2. write_frm 2 0xa0 fp_machine = Inr c1 \<and> rmw_slot 1 c1 = Inr c2 \<and> frm (state c2) = 2"
  using frm_write_has_no_effect [of fp_machine 2 "0xa0"] by (auto simp: fp_machine_def)

text \<open>
  A write to fcsr leaves the accrued exception flags of the floating-point status as they were: the
  committed bytes are those of a padding byte in front of it.
\<close>

theorem fcsr_write_keeps_flags:
  assumes "mstatus (state c) AND MSTATUS_FS \<noteq> 0"
  shows "\<exists>c1 c2. write_fcsr n v c = Inr c1 \<and> rmw_slot 1 c1 = Inr c2 \<and>
    fp_status (state c2) = fp_status (state c) \<and>
    frm_pad (state c2) = (frm_pad (state c) AND 0xe0) OR (ucast v AND 0x1f)"
  by (rule write_fcsr_committed [OF assms])

theorem fcsr_write_keeps_flags_witness:
  "\<exists>c1 c2. write_fcsr 3 0x1f fp_machine = Inr c1 \<and> rmw_slot 1 c1 = Inr c2 \<and>
     fs_flags (fp_status (state c2)) = 0 \<and> frm_pad (state c2) = 0x1f"
  using fcsr_write_keeps_flags [of fp_machine 3 "0x1f"] by (auto simp: fp_machine_def state0_def)

section \<open>The architecture as a whole\<close>

text \<open>
  C25: whatever a cpu model calls of the architecture (translateAddr, decode, handleException, updateEnv,
  in any order, with any instructions in memory, any devices and any softfloat), x0 stays 0, the
  privilege is one of the two-bit values, the two MMU flags are those of satp, mstatus and the
  privilege, and the three results a decoded instruction leaves for the commit are whole fields of
  ArchState, so that committing them never reads or writes outside it.
\<close>

theorem machine_invariant:
  assumes "arch_calls p c c'" and "machine_ok c"
  shows "gpr (state c') 0 = 0 \<and> priv (state c') \<le> 3 \<and>
    (ifetch_mmu_state c', data_mmu_state c') = mmu_flags (state c') \<and>
    (\<exists>c3. rbind (rmw_slot 0 c') (\<lambda>c. rbind (rmw_slot 1 c) (rmw_slot 2)) = Inr c3)"
proof -
  have "machine_ok c'" by (rule arch_calls_ok [OF assms])
  then show ?thesis using commit_registers [of c'] by (simp only: machine_ok_def simp_thms)
qed

theorem machine_invariant_witness:
  "gpr (state (handleException EXC_IPF 0x80000000 machine0)) 0 = 0"
proof -
  have "machine_ok machine0"
    by (simp add: machine_ok_def mmu_flags_def slots_def slot_valid_def machine0_def state0_def zero_info_def)
  then show ?thesis
    using machine_invariant [OF arch_calls_one [OF arch_call.fault [of plat0 machine0 EXC_IPF "0x80000000"]]] by simp
qed

text \<open>
  C27: exceptions are precise.  When an instruction decodes to an exception (illegal, a page fault of a
  load or store, ecall, a breakpoint, a pending interrupt), committing it leaves every integer and
  floating-point register, the RAM, satp and the reservation as they were before the instruction.
\<close>

theorem exceptions_are_precise:
  assumes "decode p va pa c = Inr (sz, c1)" and "exception (info c1) \<noteq> EXC_NONE" and "updateEnv p c1 = Inr (pc, c2)"
  shows "gpr (state c2) = gpr (state c) \<and> fpr (state c2) = fpr (state c) \<and> ram (memory c2) = ram (memory c) \<and>
    satp (state c2) = satp (state c) \<and> load_res (state c2) = load_res (state c)"
  using step_exception_frame [OF assms] by simp

text \<open>An ecall in M mode.\<close>

theorem exceptions_are_precise_witness:
  "\<exists>sz c1 pc c2. decode plat0 0x80000000 0x80000000 (machine1 0x73 5 6) = Inr (sz, c1) \<and> exception (info c1) = 11 \<and>
     updateEnv plat0 c1 = Inr (pc, c2) \<and> gpr (state c2) = gpr (state (machine1 0x73 5 6))"
proof -
  let ?c = "machine1 0x73 5 6"
  have "case decode plat0 0x80000000 0x80000000 ?c of Inl x \<Rightarrow> False
    | Inr (sz, c1) \<Rightarrow> exception (info c1) = 11 \<and> (case updateEnv plat0 c1 of Inl x \<Rightarrow> False | Inr (pc, c2) \<Rightarrow> True)"
    by code_simp
  then obtain sz c1 where d: "decode plat0 0x80000000 0x80000000 ?c = Inr (sz, c1)" "exception (info c1) = 11"
    "case updateEnv plat0 c1 of Inl x \<Rightarrow> False | Inr (pc, c2) \<Rightarrow> True"
    by (cases "decode plat0 0x80000000 0x80000000 ?c") auto
  then obtain pc c2 where "updateEnv plat0 c1 = Inr (pc, c2)" by (cases "updateEnv plat0 c1") auto
  then show ?thesis using exceptions_are_precise [OF d(1)] d(1,2) by auto
qed

section \<open>Devices and the cpu loop\<close>

text \<open>
  C22: the FIFO of the serial device is a bounded queue: up to its capacity, the bytes pushed into an
  empty FIFO come out in the order they went in, and the FIFO is empty again.
\<close>

theorem fifo_first_in_first_out:
  assumes "fifo_inv f" and "fifo_abs f = []" and "length xs \<le> fifo_cap f"
  shows "\<exists>f1 f2. push_list fifo8_push f xs = Inr f1 \<and> pop_n fifo8_pop (length xs) f1 = Inr (xs, f2) \<and>
    fifo_abs f2 = [] \<and> fifo_inv f2"
  by (rule fq.first_in_first_out [OF assms])

theorem fifo_first_in_first_out_witness:
  "\<exists>f1 f2. push_list fifo8_push (fifo8_create (\<lambda>k. 0) 4) [1, 2, 3] = Inr f1 \<and>
     pop_n fifo8_pop (length [1, 2, 3 :: u8]) f1 = Inr ([1, 2, 3], f2)"
proof -
  have "fifo_inv (fifo8_create (\<lambda>k. 0) 4)" by (rule fifo_create_inv) simp_all
  moreover have "length [1, 2, 3 :: u8] \<le> fifo_cap (fifo8_create (\<lambda>k. 0) 4)"
    by (simp add: fifo_cap_def fifo8_create_def)
  ultimately show ?thesis
    using fifo_first_in_first_out [OF _ fifo_create_abs] by blast
qed

text \<open>
  fifo8_push_all, which copies a block in one or two pieces around the end of the buffer, appends
  exactly the bytes of the block, as pushing them one by one does.
\<close>

theorem fifo_push_all_is_pushes:
  assumes "fifo_inv f" and "length (fifo_abs f) + length xs \<le> fifo_cap f"
  shows "\<exists>f1 f2. fifo8_push_all f xs (of_nat (length xs)) = Inr f1 \<and> push_list fifo8_push f xs = Inr f2 \<and>
    fifo_abs f1 = fifo_abs f @ xs \<and> fifo_abs f2 = fifo_abs f1 \<and> fifo_inv f1"
proof -
  obtain f1 where "fifo8_push_all f xs (of_nat (length xs)) = Inr f1" "fifo_abs f1 = fifo_abs f @ xs" "fifo_inv f1"
    using fifo_push_all_ok [OF assms(1), of xs] assms(2) by (auto simp: fifo_cap_def)
  moreover obtain f2 where "push_list fifo8_push f xs = Inr f2" "fifo_abs f2 = fifo_abs f @ xs"
    using fq.push_list_spec [OF assms] by blast
  ultimately show ?thesis by auto
qed

theorem fifo_push_all_is_pushes_witness:
  "\<exists>f1. fifo8_push_all (fifo8_create (\<lambda>k. 0) 4) [1, 2, 3] 3 = Inr f1 \<and> fifo_abs f1 = [1, 2, 3]"
proof -
  have "fifo_inv (fifo8_create (\<lambda>k. 0) 4)" by (rule fifo_create_inv) simp_all
  moreover have "length (fifo_abs (fifo8_create (\<lambda>k. 0) 4)) + length [1, 2, 3 :: u8] \<le> fifo_cap (fifo8_create (\<lambda>k. 0) 4)"
    by (simp add: fifo_cap_def fifo8_create_def)
  ultimately show ?thesis
    using fifo_push_all_is_pushes [of "fifo8_create (\<lambda>k. 0) 4" "[1, 2, 3]"] by (auto simp: fifo_create_abs)
qed



text \<open>
  ExitHandler::exit never returns and never reaches the C library's exit: it calls itself, running
  the handlers again and again.
\<close>

theorem exit_never_ends:
  "exit_handler hs code s = None"
  by (rule exit_handler_None)

text \<open>
  C37: a clock cycle of the devices always succeeds, and after it the machine-timer bit of mip in the cpu
  is set exactly when the time of the Clint has reached its compare register, wherever the Clint is in
  the list of devices; the lines of the other devices are as they were driven.
\<close>

theorem timer_interrupt_reaches_cpu:
  assumes "wired c"
  shows "\<exists>c'. bus_clock c = Inr c' \<and> wired c' \<and>
    (\<forall>i k. i < length (bus_devices (devices (memory c'))) \<longrightarrow> bus_devices (devices (memory c')) ! i = D_Clint k \<longrightarrow>
       (bit (mip (state c')) 7 \<longleftrightarrow> mtimecmp k \<le> mtime k))"
proof -
  obtain c' where c': "bus_clock c = Inr c'" "wired c'" "\<forall>i < length (bus_devices (devices (memory c'))). timer_shows c' i"
    using bus_clock_ok [OF assms] by blast
  moreover have "bit (mip (state c')) 7 \<longleftrightarrow> mtimecmp k \<le> mtime k"
    if "i < length (bus_devices (devices (memory c')))" "bus_devices (devices (memory c')) ! i = D_Clint k" for i k
    using c'(3) that by (auto simp: timer_shows_def)
  ultimately show ?thesis by blast
qed

definition closed_machine :: "bus machine" where
  "closed_machine = \<lparr> state = state0, info = zero_info, env_pc = 0, env_paddr = 0, ifetch_mmu_state = False,
     data_mmu_state = False, memory = \<lparr> ram = (\<lambda>a. 0), mem_size = 4096, devices = bus0 \<rparr>, tick = 0, instret = 0 \<rparr>"

theorem timer_interrupt_reaches_cpu_witness:
  "\<exists>c'. bus_clock closed_machine = Inr c' \<and> wired c'"
proof -
  have "wired closed_machine" using bus0_ok by (simp add: wired_def closed_machine_def state0_def bus0_def)
  then show ?thesis using timer_interrupt_reaches_cpu by blast
qed

end
